(* ===== verification/Prelude.thy ===== *)
theory Prelude
  imports Main "HOL-Library.Sublist" "HOL-Library.List_Lexorder" "HOL-Library.Char_ord"
begin

text \<open>
  What the components share: the HTTP errors the services throw and the result type that
  carries them, JSON values, the pieces of JavaScript the code uses on strings and lists
  (truthiness, \<^verbatim>\<open>||\<close>, \<^verbatim>\<open>trim\<close>, \<^verbatim>\<open>toUpperCase\<close>, \<^verbatim>\<open>includes\<close>,
  \<^verbatim>\<open>[...new Set(xs)]\<close>, the UUID pattern), and the table operations that Prisma queries
  denote (\<^verbatim>\<open>findFirst\<close>, \<^verbatim>\<open>findMany\<close>, \<^verbatim>\<open>updateMany\<close>, \<^verbatim>\<open>deleteMany\<close>, \<^verbatim>\<open>count\<close>) on
  tables kept as lists of rows.  A table's list order stands for the order in which the
  database returns rows, so a theorem about every table is a theorem about every order.
  Strings are lists of ASCII characters, and the case mappings act on ASCII letters.
\<close>

section \<open>Results\<close>

datatype http_error =
    BadRequest string
  | Unauthorized string
  | Forbidden string
  | NotFound string
  | Conflict string
  | InternalError string

type_synonym 'a result = "http_error + 'a"

abbreviation throw :: "http_error \<Rightarrow> 'a result" where
  "throw e \<equiv> Inl e"

abbreviation ok :: "'a \<Rightarrow> 'a result" where
  "ok x \<equiv> Inr x"

definition and_then :: "'a result \<Rightarrow> ('a \<Rightarrow> 'b result) \<Rightarrow> 'b result" where
  "and_then m f = (case m of Inl e \<Rightarrow> Inl e | Inr x \<Rightarrow> f x)"

lemma and_then_Inl [simp]: "and_then (Inl e) f = Inl e"
  by (simp add: and_then_def)

lemma and_then_Inr [simp]: "and_then (Inr x) f = f x"
  by (simp add: and_then_def)

lemma and_then_eq_Inr: "and_then m f = Inr y \<longleftrightarrow> (\<exists>x. m = Inr x \<and> f x = Inr y)"
  by (cases m) auto

lemma and_then_eq_Inl:
  "and_then m f = Inl e \<longleftrightarrow> m = Inl e \<or> (\<exists>x. m = Inr x \<and> f x = Inl e)"
  by (cases m) auto

lemma and_then_InrE:
  assumes "and_then m f = Inr y"
  obtains x where "m = Inr x" and "f x = Inr y"
  using assms by (auto simp: and_then_eq_Inr)

definition succeeds :: "'a result \<Rightarrow> bool" where
  "succeeds m = (case m of Inl _ \<Rightarrow> False | Inr _ \<Rightarrow> True)"

lemma succeeds_simps [simp]: "succeeds (Inr x)" "\<not> succeeds (Inl e)"
  by (simp_all add: succeeds_def)

lemma succeeds_iff: "succeeds m \<longleftrightarrow> (\<exists>x. m = Inr x)"
  by (cases m) auto

lemma if_throw_eq: "(if p then throw e else x) = Inr y \<longleftrightarrow> \<not> p \<and> x = Inr y"
  by simp

section \<open>JavaScript strings and optional strings\<close>

type_synonym uuid = string

definition truthy :: "string option \<Rightarrow> bool" where
  "truthy x = (case x of None \<Rightarrow> False | Some s \<Rightarrow> s \<noteq> [])"

lemma truthy_simps [simp]: "\<not> truthy None" "truthy (Some s) \<longleftrightarrow> s \<noteq> []"
  by (simp_all add: truthy_def)

lemma truthyE:
  assumes "truthy x"
  obtains s where "x = Some s" and "s \<noteq> []"
  using assms by (cases x) auto

text \<open>\<open>a || b\<close> on possibly missing strings, and \<open>a || ''\<close>.\<close>

definition or_else :: "string option \<Rightarrow> string option \<Rightarrow> string option" where
  "or_else a b = (if truthy a then a else b)"

definition or_empty :: "string option \<Rightarrow> string" where
  "or_empty a = (case a of None \<Rightarrow> [] | Some s \<Rightarrow> s)"

lemma or_empty_simps [simp]: "or_empty None = []" "or_empty (Some s) = s"
  by (simp_all add: or_empty_def)

lemma or_else_simps [simp]:
  "or_else None b = b" "s \<noteq> [] \<Longrightarrow> or_else (Some s) b = Some s" "or_else (Some []) b = b"
  by (simp_all add: or_else_def)

definition is_space :: "char \<Rightarrow> bool" where
  "is_space c = (let n = (of_char c :: nat) in n = 32 \<or> (9 \<le> n \<and> n \<le> 13))"

definition trim :: "string \<Rightarrow> string" where
  "trim s = rev (dropWhile is_space (rev (dropWhile is_space s)))"

definition upper_char :: "char \<Rightarrow> char" where
  "upper_char c = (let n = (of_char c :: nat) in if 97 \<le> n \<and> n \<le> 122 then char_of (n - 32) else c)"

definition lower_char :: "char \<Rightarrow> char" where
  "lower_char c = (let n = (of_char c :: nat) in if 65 \<le> n \<and> n \<le> 90 then char_of (n + 32) else c)"

definition upper :: "string \<Rightarrow> string" where
  "upper s = map upper_char s"

definition lower :: "string \<Rightarrow> string" where
  "lower s = map lower_char s"

text \<open>\<^verbatim>\<open>haystack.includes(needle)\<close> on strings.\<close>

definition str_includes :: "string \<Rightarrow> string \<Rightarrow> bool" where
  "str_includes hay needle = sublist needle hay"

text \<open>\<^verbatim>\<open>replace(/[\s-]/g, '_')\<close>.\<close>

definition underscored :: "string \<Rightarrow> string" where
  "underscored s = map (\<lambda>c. if is_space c \<or> c = CHR ''-'' then CHR ''_'' else c) s"

definition is_hex :: "char \<Rightarrow> bool" where
  "is_hex c = (let n = (of_char c :: nat) in
     (48 \<le> n \<and> n \<le> 57) \<or> (97 \<le> n \<and> n \<le> 102) \<or> (65 \<le> n \<and> n \<le> 70))"

text \<open>
  The pattern \<^verbatim>\<open>/^[0-9a-f]{8}-[0-9a-f]{4}-[0-9a-f]{4}-[0-9a-f]{4}-[0-9a-f]{12}$/i\<close>
  that the code repeats wherever it reads an identifier from outside.
\<close>

definition is_uuid :: "string \<Rightarrow> bool" where
  "is_uuid s = (length s = 36 \<and>
     (\<forall>i \<in> set [0..<36]. if i \<in> {8, 13, 18, 23} then s ! i = CHR ''-'' else is_hex (s ! i)))"

lemma of_char_upper_char:
  "(of_char (upper_char c) :: nat) =
     (if 97 \<le> (of_char c :: nat) \<and> (of_char c :: nat) \<le> 122 then of_char c - 32 else of_char c)"
proof -
  have "((of_char c :: nat) - 32) mod 256 = of_char c - 32" if "(of_char c :: nat) \<le> 122"
    using that by (intro mod_less) linarith
  then show ?thesis
    by (auto simp: upper_char_def Let_def)
qed

lemma upper_char_idem [simp]: "upper_char (upper_char c) = upper_char c"
proof -
  have "\<not> (97 \<le> (of_char (upper_char c) :: nat) \<and> (of_char (upper_char c) :: nat) \<le> 122)"
    unfolding of_char_upper_char by auto
  then show ?thesis
    by (subst upper_char_def) (auto simp: Let_def)
qed

lemma upper_idem [simp]: "upper (upper s) = upper s"
  by (simp add: upper_def)

lemma upper_Nil [simp]: "upper [] = []"
  by (simp add: upper_def)

lemma length_upper [simp]: "length (upper s) = length s"
  by (simp add: upper_def)

lemma dropWhile_last_keep:
  assumes "xs \<noteq> []" and "\<not> p (last xs)"
  shows "dropWhile p xs \<noteq> [] \<and> last (dropWhile p xs) = last xs"
  using assms by (induction xs) (auto split: if_splits)

lemma dropWhile_hd: "dropWhile p xs \<noteq> [] \<Longrightarrow> \<not> p (hd (dropWhile p xs))"
  by (induction xs) auto

lemma dropWhile_id: "xs = [] \<or> \<not> p (hd xs) \<Longrightarrow> dropWhile p xs = xs"
  by (cases xs) auto

lemma trim_idem [simp]: "trim (trim s) = trim s"
proof (cases "trim s = []")
  case True
  then have "trim (trim s) = trim []" by simp
  then show ?thesis using True by (simp add: trim_def [of "[]"])
next
  case False
  define a where "a = dropWhile is_space s"
  define b where "b = dropWhile is_space (rev a)"
  have b: "b \<noteq> []" and tb: "trim s = rev b"
    using False by (simp_all add: trim_def a_def b_def)
  have hb: "\<not> is_space (hd b)"
    using b dropWhile_hd unfolding b_def by blast
  have a: "a \<noteq> []" using b by (auto simp: b_def)
  have ha: "\<not> is_space (hd a)"
    using a dropWhile_hd unfolding a_def by blast
  have "last (rev a) = hd a" using a by (simp add: last_rev)
  then have "last b = hd a"
    using dropWhile_last_keep [of "rev a" is_space] a ha by (simp add: b_def)
  then have "dropWhile is_space (rev b) = rev b"
    using b ha by (intro dropWhile_id) (simp add: hd_rev)
  moreover have "dropWhile is_space b = b"
    using hb by (intro dropWhile_id) simp
  ultimately show ?thesis
    by (simp add: tb trim_def [of "rev b"])
qed

section \<open>JSON values\<close>

text \<open>
  A stored JSON column, or a value read from a request body.  A number is kept as JavaScript
  prints it, which determines it.
\<close>

datatype json =
    JNull
  | JBool bool
  | JNum string
  | JStr string
  | JArr "json list"
  | JObj "(string \<times> json) list"

text \<open>\<^verbatim>\<open>String(v)\<close>, and \<^verbatim>\<open>Boolean(v)\<close>.\<close>

primrec join_commas :: "string list \<Rightarrow> string" where
  "join_commas [] = []"
| "join_commas (x # xs) = (if xs = [] then x else x @ '','' @ join_commas xs)"

fun js_string :: "json \<Rightarrow> string" where
  "js_string JNull = ''null''"
| "js_string (JBool b) = (if b then ''true'' else ''false'')"
| "js_string (JNum s) = s"
| "js_string (JStr s) = s"
| "js_string (JArr vs) = join_commas (map (\<lambda>v. if v = JNull then [] else js_string v) vs)"
| "js_string (JObj _) = ''[object Object]''"

fun js_truthy :: "json \<Rightarrow> bool" where
  "js_truthy JNull = False"
| "js_truthy (JBool b) = b"
| "js_truthy (JNum s) = (s \<noteq> ''0'')"
| "js_truthy (JStr s) = (s \<noteq> [])"
| "js_truthy (JArr _) = True"
| "js_truthy (JObj _) = True"

text \<open>A column read as a value: a missing string is \<^verbatim>\<open>null\<close>.\<close>

definition jnullable :: "string option \<Rightarrow> json" where
  "jnullable x = (case x of None \<Rightarrow> JNull | Some s \<Rightarrow> JStr s)"

lemma jnullable_simps [simp]:
  "jnullable None = JNull" "jnullable (Some s) = JStr s"
  "jnullable x = JStr t \<longleftrightarrow> x = Some t" "jnullable x = JNull \<longleftrightarrow> x = None"
  by (auto simp: jnullable_def split: option.splits)

section \<open>Validation\<close>

text \<open>\<^verbatim>\<open>if (bad) throw e\<close>, and a sequence of such checks, of which the first failure is thrown.\<close>

definition refuse :: "bool \<Rightarrow> http_error \<Rightarrow> unit result" where
  "refuse bad e = (if bad then throw e else ok ())"

primrec checks :: "unit result list \<Rightarrow> unit result" where
  "checks [] = ok ()"
| "checks (c # cs) = (case c of Inl e \<Rightarrow> throw e | Inr _ \<Rightarrow> checks cs)"

lemma refuse_ok [simp]: "refuse bad e = Inr u \<longleftrightarrow> \<not> bad"
  by (simp add: refuse_def)

lemma checks_Cons [simp]:
  "checks (Inr v # cs) = checks cs" "checks (Inl e # cs) = throw e"
  by simp_all

declare checks.simps(2) [simp del]

lemma checks_ok_Cons [simp]: "checks (c # cs) = Inr u \<longleftrightarrow> c = Inr () \<and> checks cs = Inr ()"
  by (cases c) auto

lemma checks_ok: "checks cs = Inr u \<longleftrightarrow> (\<forall>c \<in> set cs. c = Inr ())"
  by (induction cs arbitrary: u) auto

lemma checks_append: "checks (cs @ ds) = Inr u \<longleftrightarrow> checks cs = Inr () \<and> checks ds = Inr ()"
  by (auto simp: checks_ok)

section \<open>JavaScript lists\<close>

text \<open>\<^verbatim>\<open>[...new Set(xs)]\<close>: the first occurrence of each element, in order.\<close>

primrec uniq :: "'a list \<Rightarrow> 'a list" where
  "uniq [] = []"
| "uniq (x # xs) = x # filter (\<lambda>y. y \<noteq> x) (uniq xs)"

lemma set_uniq [simp]: "set (uniq xs) = set xs"
  by (induction xs) auto

lemma distinct_uniq [simp]: "distinct (uniq xs)"
  by (induction xs) auto

lemma uniq_distinct [simp]: "distinct xs \<Longrightarrow> uniq xs = xs"
  by (induction xs) (auto intro: filter_True)

lemma uniq_eq_Nil [simp]: "uniq xs = [] \<longleftrightarrow> xs = []"
  by (cases xs) auto

text \<open>\<^verbatim>\<open>keys.some(k => permissions.includes(k))\<close>.\<close>

definition includes_any :: "'a list \<Rightarrow> 'a list \<Rightarrow> bool" where
  "includes_any ps ks = (\<exists>k \<in> set ks. k \<in> set ps)"

lemma includes_any_simps [simp]:
  "\<not> includes_any ps []"
  "includes_any ps (k # ks) \<longleftrightarrow> k \<in> set ps \<or> includes_any ps ks"
  by (auto simp: includes_any_def)

lemma includes_any_mono: "includes_any ps ks \<Longrightarrow> set ps \<subseteq> set qs \<Longrightarrow> includes_any qs ks"
  by (auto simp: includes_any_def)

text \<open>\<^verbatim>\<open>xs.filter((id): id is string => !!id)\<close> on possibly missing identifiers.\<close>

definition present :: "string option list \<Rightarrow> string list" where
  "present xs = map the (filter truthy xs)"

lemma present_simps [simp]:
  "present [] = []"
  "present (None # xs) = present xs"
  "present (Some s # xs) = (if s = [] then present xs else s # present xs)"
  by (simp_all add: present_def)

lemma set_present: "set (present xs) = {s. Some s \<in> set xs \<and> s \<noteq> []}"
proof (induction xs)
  case (Cons x xs)
  then show ?case by (cases x) auto
qed simp

section \<open>Tables\<close>

definition find_first :: "('r \<Rightarrow> bool) \<Rightarrow> 'r list \<Rightarrow> 'r option" where
  "find_first p t = find p t"

definition find_many :: "('r \<Rightarrow> bool) \<Rightarrow> 'r list \<Rightarrow> 'r list" where
  "find_many p t = filter p t"

definition update_where :: "('r \<Rightarrow> bool) \<Rightarrow> ('r \<Rightarrow> 'r) \<Rightarrow> 'r list \<Rightarrow> 'r list" where
  "update_where p f t = map (\<lambda>r. if p r then f r else r) t"

definition delete_where :: "('r \<Rightarrow> bool) \<Rightarrow> 'r list \<Rightarrow> 'r list" where
  "delete_where p t = filter (\<lambda>r. \<not> p r) t"

definition count_where :: "('r \<Rightarrow> bool) \<Rightarrow> 'r list \<Rightarrow> nat" where
  "count_where p t = length (filter p t)"

lemma find_first_Some: "find_first p t = Some r \<Longrightarrow> r \<in> set t \<and> p r"
  by (auto simp: find_first_def find_Some_iff)

lemma find_first_append:
  "find_first p (xs @ ys) = (case find_first p xs of Some x \<Rightarrow> Some x | None \<Rightarrow> find_first p ys)"
  by (induction xs) (auto simp: find_first_def)

lemma find_first_Cons: "find_first p [] = None" "find_first p (x # xs) = (if p x then Some x else find_first p xs)"
  by (simp_all add: find_first_def)

lemma find_first_None: "find_first p t = None \<longleftrightarrow> (\<forall>r \<in> set t. \<not> p r)"
  by (auto simp: find_first_def find_None_iff)

lemma find_first_key:
  assumes "distinct (map key t)" and "r \<in> set t" and "key r = k" and "p r"
    and "\<And>r'. p r' \<Longrightarrow> key r' = k"
  shows "find_first p t = Some r"
proof -
  have "find_first p t \<noteq> None"
    using assms(2,4) by (auto simp: find_first_None)
  then obtain r' where r': "find_first p t = Some r'" by auto
  then have "r' \<in> set t" "key r' = k"
    using find_first_Some [of p t r'] assms(5) by auto
  then have "r' = r"
    using assms(1-3) by (auto simp: distinct_map dest: inj_onD)
  with r' show ?thesis by simp
qed

lemma find_first_map: "find_first p (map f xs) = map_option f (find_first (p \<circ> f) xs)"
  by (induction xs) (simp_all add: find_first_def)

lemma find_first_eq_Some_iff:
  assumes "distinct (map key t)" and "\<And>r. p r \<Longrightarrow> key r = k" and "r \<in> set t" and "key r = k"
  shows "find_first p t = (if p r then Some r else None)"
proof (cases "p r")
  case True
  then show ?thesis
    using find_first_key [where p = p and key = key and k = k, OF assms(1,3,4)] assms(2) by simp
next
  case False
  have "\<not> p r'" if "r' \<in> set t" for r'
    using that assms False by (metis distinct_map inj_onD)
  with False show ?thesis by (simp add: find_first_None)
qed

lemma in_update_where:
  "r \<in> set (update_where p f t) \<longleftrightarrow>
     (\<exists>r0 \<in> set t. r = (if p r0 then f r0 else r0))"
  by (auto simp: update_where_def)

lemma map_update_where:
  assumes "\<And>r. r \<in> set t \<Longrightarrow> p r \<Longrightarrow> g (f r) = g r"
  shows "map g (update_where p f t) = map g t"
  using assms by (auto simp: update_where_def)

lemma filter_update_where:
  assumes "\<And>r. r \<in> set t \<Longrightarrow> p r \<Longrightarrow> \<not> q r \<and> \<not> q (f r)"
  shows "filter q (update_where p f t) = filter q t"
  using assms by (induction t) (auto simp: update_where_def)

lemma length_update_where [simp]: "length (update_where p f t) = length t"
  by (simp add: update_where_def)

lemma set_find_many [simp]: "set (find_many p t) = {r \<in> set t. p r}"
  by (auto simp: find_many_def)

lemma set_delete_where [simp]: "set (delete_where p t) = {r \<in> set t. \<not> p r}"
  by (auto simp: delete_where_def)

lemma distinct_map_delete_where:
  "distinct (map g t) \<Longrightarrow> distinct (map g (delete_where p t))"
  by (simp add: delete_where_def distinct_map_filter)

lemma count_where_0: "count_where p t = 0 \<longleftrightarrow> (\<forall>r \<in> set t. \<not> p r)"
  by (simp add: count_where_def filter_empty_conv)

end
