(* ===== verification/Access.thy ===== *)
theory Access
  imports Prelude
begin

text \<open>
  Authorisation of people over people: the authenticated user
  (\<^verbatim>\<open>src/src/auth/interfaces/auth-user.interface.ts\<close>), the capability policy of user
  management (\<^verbatim>\<open>user-management-policy.ts\<close>, \<^verbatim>\<open>utils/user-management-access.ts\<close>), the rules on
  who may review a role request and grant a role (\<^verbatim>\<open>utils/role-request-policy.ts\<close>,
  \<^verbatim>\<open>utils/admin-role-assignment-policy.ts\<close>, \<^verbatim>\<open>utils/unit-pending-request.ts\<close>).  \<open>JSON_parse\<close> stands for the runtime's JSON parser wherever a permission
  list may arrive as text.
\<close>

section \<open>Data\<close>

record auth_user =
  a_id :: "string option"
  a_dbId :: "string option"
  a_keycloakId :: string
  a_email :: string
  a_fullName :: string
  a_roles :: "string list option"
  a_tenantId :: "string option"
  a_isActive :: bool
  a_permissions :: "string list"
  a_activeRoleId :: "string option"
  a_roleName :: "string option"
  a_podId :: "string option"
  a_branchId :: "string option"
  a_assignedBranchIds :: "string list"
  a_systemRole :: "string option"
  a_businessUnitId :: "string option"
  a_defaultMarket :: "string option"

record managed_member =
  mm_id :: "string option"
  mm_tenantId :: "string option"
  mm_branchId :: "string option"
  mm_businessUnitId :: "string option"
  mm_permissions :: "string list"

record request_scope =
  rs_id :: "string option"
  rs_tenant_id :: "string option"
  rs_branch_id :: "string option"
  rs_business_unit_id :: "string option"

record requested_role =
  rr_id :: uuid
  rr_name :: "string option"
  rr_system_role :: "string option"
  rr_permissions :: json
  rr_branch_id :: "string option"
  rr_business_unit_id :: "string option"

section \<open>User management\<close>

definition activeManagementRole :: "auth_user \<Rightarrow> string" where
  "activeManagementRole actor =
     underscored (upper (trim (or_empty (or_else (a_systemRole actor)
       (case a_roles actor of Some (r # _) \<Rightarrow> Some r | _ \<Rightarrow> None)))))"

record management_actions =
  ma_editProfile :: bool
  ma_assignRoles :: bool
  ma_assignManager :: bool
  ma_resetPassword :: bool
  ma_reviewRequest :: bool
  ma_changeStatus :: bool
  ma_endSessions :: bool
  ma_deleteUser :: bool

definition userManagementActions :: "auth_user \<Rightarrow> managed_member \<Rightarrow> management_actions" where
  "userManagementActions actor target =
    (let p = a_permissions actor;
         platform = (''*'' \<in> set p \<or> ''platform:manage'' \<in> set p);
         tenantWide = (platform \<or> ''tenant:settings'' \<in> set p \<or> ''tenant:manage'' \<in> set p);
         branchWide = (''branch_admin:manage'' \<in> set p);
         sameTenant = (truthy (a_tenantId actor) \<and> a_tenantId actor = mm_tenantId target);
         sameBranch = (truthy (a_branchId actor) \<and> a_branchId actor = mm_branchId target);
         sameUnit = (truthy (a_businessUnitId actor) \<and> a_businessUnitId actor = mm_businessUnitId target);
         protectedTarget = (\<not> tenantWide \<and>
           (\<exists>key \<in> set (mm_permissions target).
              key \<in> set ([''*'', ''platform:manage'', ''tenant:settings'', ''tenant:manage'']
                @ (if \<not> branchWide then [''branch_admin:manage''] else []))));
         scope = ((platform \<or> sameTenant) \<and>
           (tenantWide \<or> (sameBranch \<and> (branchWide \<or> sameUnit))) \<and> \<not> protectedTarget);
         manage = (scope \<and> (platform \<or> ''user:manage'' \<in> set p));
         self = (truthy (mm_id target) \<and> mm_id target = or_else (a_dbId actor) (a_id actor))
     in \<lparr> ma_editProfile = manage, ma_assignRoles = manage, ma_assignManager = manage,
          ma_resetPassword = manage, ma_reviewRequest = manage,
          ma_changeStatus = (manage \<and> \<not> self), ma_endSessions = (manage \<and> \<not> self),
          ma_deleteUser = (scope \<and> (platform \<or> ''tenant:settings'' \<in> set p) \<and> \<not> self) \<rparr>)"

definition assertMemberAction ::
  "auth_user \<Rightarrow> managed_member \<Rightarrow> (management_actions \<Rightarrow> bool) \<Rightarrow> unit result" where
  "assertMemberAction actor member action =
     (if \<not> action (userManagementActions actor member)
      then throw (Forbidden ''You cannot perform this user-management action outside your permitted workspace, branch or unit, or on a protected account.'')
      else ok ())"

section \<open>Administrative roles\<close>

definition ELEVATED_ADMIN_PERMISSIONS :: "string list" where
  "ELEVATED_ADMIN_PERMISSIONS =
     [''tenant:settings'', ''tenant:manage'', ''platform:manage'', ''branch_admin:manage'', ''unit_admin:manage'']"

definition normalize :: "string option \<Rightarrow> string" where
  "normalize v = underscored (upper (or_empty v))"

definition isDeliveryHead :: "auth_user \<Rightarrow> bool" where
  "isDeliveryHead actor \<longleftrightarrow> activeManagementRole actor = ''DELIVERY_HEAD''"

definition isUnitAdmin :: "auth_user \<Rightarrow> bool" where
  "isUnitAdmin actor =
    (if isDeliveryHead actor then False
     else let permissions = a_permissions actor;
              hasHigherAdminScope = includes_any permissions
                [''tenant:settings'', ''tenant:manage'', ''platform:manage'', ''branch_admin:manage'']
          in normalize (a_systemRole actor) = ''UNIT_ADMIN''
             \<or> (''unit_admin:manage'' \<in> set permissions \<and> \<not> hasHigherAdminScope))"

text \<open>
  \<^verbatim>\<open>typeof permissions === 'string' ? JSON.parse(permissions) : permissions\<close>; a syntax error of
  the parser escapes as an internal error.
\<close>

definition parsed_permissions :: "(string \<Rightarrow> json option) \<Rightarrow> json \<Rightarrow> json result" where
  "parsed_permissions JSON_parse v =
     (case v of
        JStr s \<Rightarrow> (case JSON_parse s of None \<Rightarrow> throw (InternalError ''SyntaxError'') | Some j \<Rightarrow> ok j)
      | _ \<Rightarrow> ok v)"

definition isAdministrativeRole :: "(string \<Rightarrow> json option) \<Rightarrow> requested_role \<Rightarrow> bool result" where
  "isAdministrativeRole JSON_parse role =
    (if normalize (or_else (rr_system_role role) (rr_name role))
          \<in> {''TENANT_ADMIN'', ''SUPER_ADMIN'', ''BRANCH_ADMIN'', ''UNIT_ADMIN''} then ok True
     else and_then (parsed_permissions JSON_parse (rr_permissions role)) (\<lambda>permissions.
       ok (case permissions of
             JArr ps \<Rightarrow> (\<exists>p \<in> set ps. p \<in> set (map JStr ELEVATED_ADMIN_PERMISSIONS))
           | _ \<Rightarrow> False)))"

definition assertRoleManagementAccess :: "auth_user \<Rightarrow> unit result" where
  "assertRoleManagementAccess actor =
     (if isDeliveryHead actor then throw (Forbidden ''Delivery Heads cannot manage roles or permissions.'')
      else ok ())"

definition assertRoleAssignmentAllowed ::
  "(string \<Rightarrow> json option) \<Rightarrow> auth_user \<Rightarrow> requested_role \<Rightarrow> (string option \<times> string option) option \<Rightarrow> unit result" where
  "assertRoleAssignmentAllowed JSON_parse actor role target =
    and_then (isAdministrativeRole JSON_parse role) (\<lambda>administrative.
     if \<not> administrative then ok ()
     else if isDeliveryHead actor
       then throw (Forbidden ''Delivery Heads cannot assign administrative roles.'')
     else if isUnitAdmin actor then
       (let roleKey = normalize (or_else (rr_system_role role) (rr_name role))
        in and_then (parsed_permissions JSON_parse (rr_permissions role)) (\<lambda>rawPermissions.
         (let permissions = (case rawPermissions of JArr ps \<Rightarrow> ps | _ \<Rightarrow> []);
              hasOnlyUnitAdminScope = (roleKey = ''UNIT_ADMIN''
                \<and> \<not> (\<exists>p \<in> set permissions. p \<in> set (map JStr
                     [''tenant:settings'', ''tenant:manage'', ''platform:manage'', ''branch_admin:manage'']))
                \<and> (\<forall>p \<in> set permissions. p \<in> set (map JStr (a_permissions actor))))
          in if \<not> hasOnlyUnitAdminScope
             then throw (Forbidden ''Unit Admins may assign only Unit Admin access within their own unit.'')
             else if \<not> truthy (a_branchId actor) \<or> \<not> truthy (a_businessUnitId actor)
               \<or> Option.bind target fst \<noteq> a_branchId actor
               \<or> Option.bind target snd \<noteq> a_businessUnitId actor
               \<or> (truthy (rr_branch_id role) \<and> rr_branch_id role \<noteq> a_branchId actor)
               \<or> (truthy (rr_business_unit_id role) \<and> rr_business_unit_id role \<noteq> a_businessUnitId actor)
             then throw (Forbidden ''Unit Admin access can only be assigned within your current unit.'')
             else ok ())))
     else ok ())"

section \<open>Role requests: who reviews and who grants\<close>

definition permissionList :: "(string \<Rightarrow> json option) \<Rightarrow> json \<Rightarrow> string list" where
  "permissionList JSON_parse value =
    (let v = (case value of JStr s \<Rightarrow> (case JSON_parse s of None \<Rightarrow> JArr [] | Some j \<Rightarrow> j) | _ \<Rightarrow> value)
     in case v of
          JArr ps \<Rightarrow> concat (map (\<lambda>p. case p of JStr s \<Rightarrow> [s] | _ \<Rightarrow> []) ps)
        | _ \<Rightarrow> [])"

definition is_string :: "json \<Rightarrow> bool" where
  "is_string v = (case v of JStr _ \<Rightarrow> True | _ \<Rightarrow> False)"

definition canReviewRoleRequest :: "auth_user \<Rightarrow> request_scope \<Rightarrow> bool" where
  "canReviewRoleRequest actor target =
    (let p = a_permissions actor;
         deliveryHead = isDeliveryHead actor
     in if truthy (rs_id target) \<and> a_dbId actor = rs_id target then False
        else if a_tenantId actor \<noteq> rs_tenant_id target then False
        else if \<not> includes_any p [''user:manage'', ''*'', ''platform:manage''] then False
        else if \<not> deliveryHead
             \<and> includes_any p [''*'', ''platform:manage'', ''tenant:manage'', ''tenant:settings''] then True
        else if \<not> truthy (a_branchId actor) \<or> a_branchId actor \<noteq> rs_branch_id target then False
        else if \<not> deliveryHead \<and> truthy (a_businessUnitId actor)
             \<and> a_businessUnitId actor \<noteq> rs_business_unit_id target then False
        else if \<not> deliveryHead \<and> ''unit_admin:manage'' \<in> set p \<and> ''branch_admin:manage'' \<notin> set p
             \<and> (\<not> truthy (a_businessUnitId actor) \<or> a_businessUnitId actor \<noteq> rs_business_unit_id target)
          then False
        else True)"

definition canGrantRequestedRole ::
  "(string \<Rightarrow> json option) \<Rightarrow> auth_user \<Rightarrow> requested_role \<Rightarrow> request_scope \<Rightarrow> bool" where
  "canGrantRequestedRole JSON_parse actor role scope =
    (if (truthy (rr_branch_id role) \<and> rr_branch_id role \<noteq> rs_branch_id scope)
        \<or> (truthy (rr_business_unit_id role) \<and> rr_business_unit_id role \<noteq> rs_business_unit_id scope)
     then False
     else case parsed_permissions JSON_parse (rr_permissions role) of
       Inr (JArr permissions) \<Rightarrow>
         (if \<exists>p \<in> set permissions. \<not> is_string p then False
          else case assertRoleAssignmentAllowed JSON_parse actor
                      (role\<lparr>rr_permissions := JArr permissions\<rparr>)
                      (Some (rs_branch_id scope, rs_business_unit_id scope)) of
            Inl _ \<Rightarrow> False
          | Inr _ \<Rightarrow>
             (let p = a_permissions actor
              in if includes_any p [''*'', ''platform:manage'', ''tenant:manage'', ''tenant:settings'']
                 then True
                 else if isDeliveryHead actor then True
                 else \<forall>key \<in> set permissions. key \<in> set (map JStr p)))
     | _ \<Rightarrow> False)"

definition isCurrentUnitManager :: "auth_user \<Rightarrow> bool" where
  "isCurrentUnitManager actor =
     (\<not> isDeliveryHead actor \<and> ''unit_admin:manage'' \<in> set (a_permissions actor)
      \<and> \<not> includes_any (a_permissions actor)
            [''tenant:manage'', ''tenant:settings'', ''platform:manage'', ''branch_admin:manage''])"

record pending_target =
  pt_tenant_id :: "string option"
  pt_branch_id :: "string option"
  pt_business_unit_id :: "string option"
  pt_is_approved :: "bool option"
  pt_requested_role :: "string option"

definition assertUnitPendingRequest :: "auth_user \<Rightarrow> pending_target \<Rightarrow> unit result" where
  "assertUnitPendingRequest actor target =
    (if \<not> isCurrentUnitManager actor then ok ()
     else if \<not> truthy (a_branchId actor) \<or> \<not> truthy (a_businessUnitId actor)
        \<or> pt_tenant_id target \<noteq> a_tenantId actor
        \<or> pt_branch_id target \<noteq> a_branchId actor
        \<or> pt_business_unit_id target \<noteq> a_businessUnitId actor
     then throw (Forbidden ''This request is outside your current unit.'')
     else if pt_is_approved target \<noteq> Some False \<or> \<not> truthy (pt_requested_role target)
     then throw (Conflict ''This user request is no longer pending.'')
     else ok ())"

section \<open>Contract of a scoped policy\<close>

text \<open>
  Every policy that lets one user act on something in a workspace promises tenant isolation:
  what it allows lies in the actor's own workspace unless the actor may cross workspaces.
\<close>

locale scoped_policy =
  fixes allow :: "auth_user \<Rightarrow> 't \<Rightarrow> bool"
    and tenant_of :: "'t \<Rightarrow> string option"
    and crosses :: "auth_user \<Rightarrow> bool"
  assumes isolated: "allow u t \<Longrightarrow> crosses u \<or> a_tenantId u = tenant_of t"
begin

lemma filtered_isolated:
  "t \<in> set (filter (allow u) ts) \<Longrightarrow> \<not> crosses u \<Longrightarrow> tenant_of t = a_tenantId u"
  using isolated [of u t] by auto

lemma no_common_target:
  "allow u t \<Longrightarrow> allow v t \<Longrightarrow> \<not> crosses u \<Longrightarrow> \<not> crosses v \<Longrightarrow> a_tenantId u = a_tenantId v"
  using isolated by metis

lemma foreign_denied: "a_tenantId u \<noteq> tenant_of t \<Longrightarrow> \<not> crosses u \<Longrightarrow> \<not> allow u t"
  using isolated by blast

end

definition holds_platform :: "auth_user \<Rightarrow> bool" where
  "holds_platform u \<longleftrightarrow> ''*'' \<in> set (a_permissions u) \<or> ''platform:manage'' \<in> set (a_permissions u)"

definition manages_tenant :: "auth_user \<Rightarrow> bool" where
  "manages_tenant u \<longleftrightarrow> includes_any (a_permissions u)
     [''*'', ''platform:manage'', ''tenant:manage'', ''tenant:settings'']"

definition management_action_kinds :: "(management_actions \<Rightarrow> bool) list" where
  "management_action_kinds =
     [ma_editProfile, ma_assignRoles, ma_assignManager, ma_resetPassword, ma_reviewRequest,
      ma_changeStatus, ma_endSessions, ma_deleteUser]"

definition management_allows :: "auth_user \<Rightarrow> managed_member \<Rightarrow> bool" where
  "management_allows u m \<longleftrightarrow> (\<exists>k \<in> set management_action_kinds. k (userManagementActions u m))"

lemma assertMemberAction_ok [simp]:
  "assertMemberAction u m k = Inr () \<longleftrightarrow> k (userManagementActions u m)"
  by (simp add: assertMemberAction_def)

text \<open>The common core of every action: the actor's scope reaches the member.\<close>

definition in_management_scope :: "auth_user \<Rightarrow> managed_member \<Rightarrow> bool" where
  "in_management_scope u m \<longleftrightarrow>
     (holds_platform u \<or> (truthy (a_tenantId u) \<and> a_tenantId u = mm_tenantId m)) \<and>
     (manages_tenant u \<or>
       (truthy (a_branchId u) \<and> a_branchId u = mm_branchId m \<and>
        set (mm_permissions m) \<inter> {''*'', ''platform:manage'', ''tenant:settings'', ''tenant:manage''} = {} \<and>
        (''branch_admin:manage'' \<in> set (a_permissions u) \<or>
          (truthy (a_businessUnitId u) \<and> a_businessUnitId u = mm_businessUnitId m \<and>
           ''branch_admin:manage'' \<notin> set (mm_permissions m)))))"

definition is_self :: "auth_user \<Rightarrow> managed_member \<Rightarrow> bool" where
  "is_self u m \<longleftrightarrow> truthy (mm_id m) \<and> mm_id m = or_else (a_dbId u) (a_id u)"

lemma userManagementActions_scope:
  "userManagementActions u m =
    (let manage = in_management_scope u m \<and> (holds_platform u \<or> ''user:manage'' \<in> set (a_permissions u))
     in \<lparr> ma_editProfile = manage, ma_assignRoles = manage, ma_assignManager = manage,
          ma_resetPassword = manage, ma_reviewRequest = manage,
          ma_changeStatus = (manage \<and> \<not> is_self u m), ma_endSessions = (manage \<and> \<not> is_self u m),
          ma_deleteUser = (in_management_scope u m
             \<and> (holds_platform u \<or> ''tenant:settings'' \<in> set (a_permissions u)) \<and> \<not> is_self u m) \<rparr>)"
proof -
  let ?p = "a_permissions u"
  have prot: "(\<exists>key \<in> set (mm_permissions m).
       key \<in> set ([''*'', ''platform:manage'', ''tenant:settings'', ''tenant:manage''] @
         (if ''branch_admin:manage'' \<notin> set ?p then [''branch_admin:manage''] else []))) \<longleftrightarrow>
       set (mm_permissions m) \<inter> {''*'', ''platform:manage'', ''tenant:settings'', ''tenant:manage''} \<noteq> {}
       \<or> (''branch_admin:manage'' \<notin> set ?p \<and> ''branch_admin:manage'' \<in> set (mm_permissions m))"
    by (simp split: if_splits) blast
  have wide: "holds_platform u \<or> ''tenant:settings'' \<in> set ?p \<or> ''tenant:manage'' \<in> set ?p \<longleftrightarrow>
      manages_tenant u"
    by (auto simp: holds_platform_def manages_tenant_def)
  have scope: "(holds_platform u \<or> truthy (a_tenantId u) \<and> a_tenantId u = mm_tenantId m) \<and>
      (manages_tenant u \<or> truthy (a_branchId u) \<and> a_branchId u = mm_branchId m \<and>
        (''branch_admin:manage'' \<in> set ?p \<or>
          truthy (a_businessUnitId u) \<and> a_businessUnitId u = mm_businessUnitId m)) \<and>
      \<not> (\<not> manages_tenant u \<and>
        (set (mm_permissions m) \<inter> {''*'', ''platform:manage'', ''tenant:settings'', ''tenant:manage''} \<noteq> {}
         \<or> ''branch_admin:manage'' \<notin> set ?p \<and> ''branch_admin:manage'' \<in> set (mm_permissions m)))
      \<longleftrightarrow> in_management_scope u m"
    unfolding in_management_scope_def
    by (cases "manages_tenant u"; cases "''branch_admin:manage'' \<in> set ?p") (simp_all, blast+)
  have assoc: "((truthy (a_branchId u) \<and> a_branchId u = mm_branchId m) \<and> X) \<longleftrightarrow>
      (truthy (a_branchId u) \<and> a_branchId u = mm_branchId m \<and> X)" for X
    by blast
  show ?thesis
    unfolding userManagementActions_def Let_def prot holds_platform_def [symmetric] wide assoc
      scope is_self_def [symmetric] ..
qed

lemma in_management_scope_if_allowed:
  "k \<in> set management_action_kinds \<Longrightarrow> k (userManagementActions u m) \<Longrightarrow> in_management_scope u m"
  by (auto simp: management_action_kinds_def userManagementActions_scope Let_def)

interpretation management: scoped_policy management_allows mm_tenantId holds_platform
  by unfold_locales
    (auto simp: management_allows_def in_management_scope_def dest!: in_management_scope_if_allowed)

section \<open>What the user-management policy guarantees\<close>

text \<open>A user to evaluate the policies on.\<close>

definition mk_user ::
  "string \<Rightarrow> string list \<Rightarrow> string \<Rightarrow> string option \<Rightarrow> string option \<Rightarrow> string option \<Rightarrow> auth_user" where
  "mk_user i ps tenant branch unit role =
     \<lparr> a_id = None, a_dbId = Some i, a_keycloakId = ''kc'', a_email = ''u@x'', a_fullName = ''U'',
       a_roles = Some [], a_tenantId = Some tenant, a_isActive = True, a_permissions = ps,
       a_activeRoleId = None, a_roleName = None, a_podId = None, a_branchId = branch,
       a_assignedBranchIds = [], a_systemRole = role, a_businessUnitId = unit,
       a_defaultMarket = None \<rparr>"



text \<open>No one can lock themselves out or delete their own account: on the actor's own account,
  changing the status, ending the sessions and deleting the user are all refused, whatever the
  actor's permissions.\<close>

theorem no_self_lockout:
  assumes "truthy (mm_id member)" and "mm_id member = or_else (a_dbId actor) (a_id actor)"
    and "action \<in> {ma_changeStatus, ma_endSessions, ma_deleteUser}"
  shows "assertMemberAction actor member action =
    throw (Forbidden ''You cannot perform this user-management action outside your permitted workspace, branch or unit, or on a protected account.'')"
  using assms by (auto simp: assertMemberAction_def userManagementActions_scope is_self_def Let_def)

lemma no_self_lockout_witness:
  "\<not> succeeds (assertMemberAction (mk_user ''u1'' [''*''] ''t'' None None None)
     \<lparr>mm_id = Some ''u1'', mm_tenantId = Some ''t'', mm_branchId = None,
      mm_businessUnitId = None, mm_permissions = []\<rparr> ma_deleteUser)"
  by (subst no_self_lockout) (simp_all add: mk_user_def)

text \<open>The user-management policy is monotone: giving an actor more permissions never takes an
  allowed action away.\<close>

theorem management_monotone:
  assumes "set (a_permissions actor) \<subseteq> set ps" and "action \<in> set management_action_kinds"
    and "action (userManagementActions actor member)"
  shows "action (userManagementActions (actor\<lparr>a_permissions := ps\<rparr>) member)"
proof -
  let ?a = "actor\<lparr>a_permissions := ps\<rparr>"
  have platform: "holds_platform actor \<Longrightarrow> holds_platform ?a"
    using assms(1) by (auto simp: holds_platform_def)
  have tenant: "manages_tenant actor \<Longrightarrow> manages_tenant ?a"
    using includes_any_mono [OF _ assms(1)] by (simp add: manages_tenant_def del: includes_any_simps)
  have scope: "in_management_scope actor member \<Longrightarrow> in_management_scope ?a member"
    using platform tenant assms(1) unfolding in_management_scope_def by auto
  have self: "is_self ?a member = is_self actor member"
    by (simp add: is_self_def)
  show ?thesis
    using assms platform scope self
    by (auto simp: management_action_kinds_def userManagementActions_scope Let_def)
qed

lemma management_monotone_witness:
  "ma_assignRoles (userManagementActions
     (mk_user ''u1'' [''job:view'', ''user:manage''] ''t'' (Some ''b'') (Some ''n'') None)
     \<lparr>mm_id = Some ''u2'', mm_tenantId = Some ''t'', mm_branchId = Some ''b'',
      mm_businessUnitId = Some ''n'', mm_permissions = [''job:view'']\<rparr>)"
  using management_monotone [of "mk_user ''u1'' [''user:manage''] ''t'' (Some ''b'') (Some ''n'') None"
      "[''job:view'', ''user:manage'']" ma_assignRoles
      "\<lparr>mm_id = Some ''u2'', mm_tenantId = Some ''t'', mm_branchId = Some ''b'',
        mm_businessUnitId = Some ''n'', mm_permissions = [''job:view'']\<rparr>"]
  by (simp add: management_action_kinds_def userManagementActions_def Let_def mk_user_def)

section \<open>What the role-request policy guarantees\<close>

lemma canReviewRoleRequest_own_tenant:
  "canReviewRoleRequest actor target \<Longrightarrow> a_tenantId actor = rs_tenant_id target"
  by (simp add: canReviewRoleRequest_def Let_def split: if_splits)

interpretation review: scoped_policy canReviewRoleRequest rs_tenant_id "\<lambda>_. False"
  by unfold_locales (simp add: canReviewRoleRequest_own_tenant)

text \<open>A role request is reviewed only inside its own tenant, never by the person who made it, and
  a reviewer without tenant-wide rights (a Delivery Head always counts as one) reviews only the
  requests of the own branch, inside the own unit when bound to one.\<close>

theorem review_confined:
  assumes "canReviewRoleRequest actor target"
  shows "a_tenantId actor = rs_tenant_id target \<and>
    (truthy (rs_id target) \<longrightarrow> a_dbId actor \<noteq> rs_id target) \<and>
    (isDeliveryHead actor \<or> \<not> manages_tenant actor \<longrightarrow>
      truthy (a_branchId actor) \<and> a_branchId actor = rs_branch_id target \<and>
      (\<not> isDeliveryHead actor \<and> truthy (a_businessUnitId actor) \<longrightarrow>
         a_businessUnitId actor = rs_business_unit_id target))"
  using assms
  by (simp add: canReviewRoleRequest_def manages_tenant_def Let_def split: if_splits) blast+

lemma review_confined_witness:
  "a_tenantId (mk_user ''u1'' [''user:manage''] ''t'' (Some ''b'') (Some ''n'') None) = Some ''t''"
proof -
  let ?u = "mk_user ''u1'' [''user:manage''] ''t'' (Some ''b'') (Some ''n'') None"
  let ?t = "\<lparr>rs_id = Some ''u2'', rs_tenant_id = Some ''t'', rs_branch_id = Some ''b'',
            rs_business_unit_id = Some ''n''\<rparr>"
  have "canReviewRoleRequest ?u ?t"
    by (simp add: canReviewRoleRequest_def mk_user_def Let_def)
  then show ?thesis
    using review_confined [of ?u ?t] by simp
qed

lemma canGrantRequestedRoleE:
  assumes "canGrantRequestedRole parse actor role scope"
  obtains permissions where
    "parsed_permissions parse (rr_permissions role) = ok (JArr permissions)"
    and "assertRoleAssignmentAllowed parse actor (role\<lparr>rr_permissions := JArr permissions\<rparr>)
           (Some (rs_branch_id scope, rs_business_unit_id scope)) = ok ()"
    and "manages_tenant actor \<or> isDeliveryHead actor
           \<or> (\<forall>key \<in> set permissions. key \<in> set (map JStr (a_permissions actor)))"
proof -
  from assms obtain permissions where
    ps: "parsed_permissions parse (rr_permissions role) = ok (JArr permissions)"
    unfolding canGrantRequestedRole_def
    by (cases "parsed_permissions parse (rr_permissions role)")
      (auto split: if_splits json.splits)
  from assms ps obtain
    al: "assertRoleAssignmentAllowed parse actor (role\<lparr>rr_permissions := JArr permissions\<rparr>)
           (Some (rs_branch_id scope, rs_business_unit_id scope)) = ok ()"
    unfolding canGrantRequestedRole_def
    by (cases "assertRoleAssignmentAllowed parse actor (role\<lparr>rr_permissions := JArr permissions\<rparr>)
           (Some (rs_branch_id scope, rs_business_unit_id scope))")
      (auto split: if_splits)
  from assms ps al have "manages_tenant actor \<or> isDeliveryHead actor
           \<or> (\<forall>key \<in> set permissions. key \<in> set (map JStr (a_permissions actor)))"
    unfolding canGrantRequestedRole_def manages_tenant_def Let_def
    by (simp only: sum.case json.case split: if_splits) blast+
  with ps al show ?thesis by (rule that)
qed

lemma assertRoleAssignmentAllowed_delivery_head:
  assumes "isDeliveryHead actor"
    and "assertRoleAssignmentAllowed parse actor (role\<lparr>rr_permissions := JArr ps\<rparr>) t = ok ()"
  shows "set ps \<inter> JStr ` set ELEVATED_ADMIN_PERMISSIONS = {}"
  using assms
  by (auto simp: assertRoleAssignmentAllowed_def isAdministrativeRole_def parsed_permissions_def
      split: if_splits)


definition unit_admin_role :: requested_role where
  "unit_admin_role = \<lparr>rr_id = ''r'', rr_name = Some ''Unit Admin'', rr_system_role = Some ''UNIT_ADMIN'',
     rr_permissions = JArr [JStr ''unit_admin:manage'', JStr ''job:view''],
     rr_branch_id = None, rr_business_unit_id = None\<rparr>"

definition unit_admin_user :: auth_user where
  "unit_admin_user = mk_user ''u1'' [''unit_admin:manage'', ''job:view'', ''user:manage''] ''t''
     (Some ''b'') (Some ''n'') (Some ''UNIT_ADMIN'')"

lemma unit_admin_user_role: "activeManagementRole unit_admin_user = ''UNIT_ADMIN''"
  by code_simp

lemma unit_admin_role_key: "normalize (or_else (rr_system_role unit_admin_role) (rr_name unit_admin_role)) = ''UNIT_ADMIN''"
  by code_simp

definition unit_scope :: request_scope where
  "unit_scope = \<lparr>rs_id = Some ''u2'', rs_tenant_id = Some ''t'', rs_branch_id = Some ''b'',
     rs_business_unit_id = Some ''n''\<rparr>"

lemma unit_admin_can_grant: "canGrantRequestedRole (\<lambda>_. None) unit_admin_user unit_admin_role unit_scope"
  by code_simp


text \<open>A Unit Admin hands out administrative access only as Unit Admin access and only inside the
  own unit: whenever assigning a role that counts as administrative is allowed to a Unit Admin,
  the role's key is UNIT_ADMIN, it carries no wider administrative permission and nothing the
  admin lacks, and the target sits in the admin's own branch and unit.\<close>

theorem unit_admin_confined:
  assumes "isUnitAdmin actor" and "isAdministrativeRole parse role = ok True"
    and "parsed_permissions parse (rr_permissions role) = ok (JArr permissions)"
    and "assertRoleAssignmentAllowed parse actor role (Some (branch, unit)) = ok ()"
  shows "normalize (or_else (rr_system_role role) (rr_name role)) = ''UNIT_ADMIN'' \<and>
    set permissions \<subseteq> JStr ` (set (a_permissions actor)
       - {''tenant:settings'', ''tenant:manage'', ''platform:manage'', ''branch_admin:manage''}) \<and>
    truthy branch \<and> truthy unit \<and> branch = a_branchId actor \<and> unit = a_businessUnitId actor"
proof -
  have ndh: "\<not> isDeliveryHead actor"
    using assms(1) by (auto simp: isUnitAdmin_def split: if_splits)
  let ?high = "{''tenant:settings'', ''tenant:manage'', ''platform:manage'', ''branch_admin:manage''}"
  have in_admin: "(\<forall>p \<in> set permissions. p \<in> set (map JStr (a_permissions actor))) \<and>
      \<not> (\<exists>p \<in> set permissions. p \<in> set (map JStr [''tenant:settings'', ''tenant:manage'',
            ''platform:manage'', ''branch_admin:manage''])) \<Longrightarrow>
      set permissions \<subseteq> JStr ` (set (a_permissions actor) - ?high)"
    by fastforce
  note al = assms(4) [unfolded assertRoleAssignmentAllowed_def assms(2,3) Let_def and_then_Inr json.case]
  show ?thesis
    using al assms(1) ndh in_admin by (auto split: if_splits)
qed

lemma unit_admin_confined_witness:
  "Some ''n'' = a_businessUnitId unit_admin_user"
proof -
  have 1: "isUnitAdmin unit_admin_user" by code_simp
  have 2: "isAdministrativeRole (\<lambda>_. None) unit_admin_role = ok True" by code_simp
  have 3: "parsed_permissions (\<lambda>_. None) (rr_permissions unit_admin_role)
      = ok (JArr [JStr ''unit_admin:manage'', JStr ''job:view''])" by code_simp
  have 4: "assertRoleAssignmentAllowed (\<lambda>_. None) unit_admin_user unit_admin_role (Some (Some ''b'', Some ''n'')) = ok ()"
    by code_simp
  show ?thesis using unit_admin_confined [OF 1 2 3 4] by simp
qed

end
