(* ===== verification/Store.thy ===== *)
theory Store
  imports Prelude
begin

text \<open>
  The part of the database the workspace services share: one record per Prisma model with the
  columns the modelled code reads or writes (\<^verbatim>\<open>prisma/schema.prisma\<close>), and the store that holds
  one table of each.  A relation that a query follows (\<^verbatim>\<open>customRole.systemRole.systemKey\<close>) is
  kept as the key it reads.  Instants are integers (milliseconds).  A nullable column is an
  option; \<open>None\<close> is \<^verbatim>\<open>null\<close>.  A field of a partial update that may be \<^verbatim>\<open>undefined\<close> is an
  option whose \<open>None\<close> is \<^verbatim>\<open>undefined\<close>.  Identifiers that the database generates
  and the current time are arguments of the operations.
\<close>

section \<open>Rows\<close>

record tenant =
  tn_id :: uuid
  tn_name :: string
  tn_domain :: "string option"
  tn_maxBranches :: int
  tn_podSystemEnabled :: bool
  tn_status :: string
  tn_defaultMarket :: string
  tn_userLimit :: int
  tn_prefixCode :: "string option"

record branch =
  br_id :: uuid
  br_tenantId :: uuid
  br_name :: string
  br_code :: "string option"
  br_city :: "string option"
  br_state :: "string option"
  br_country :: string
  br_isActive :: bool
  br_market :: string
  br_allowNone :: bool
  br_allowPods :: bool
  br_allowAll :: bool
  br_allowUnassigned :: bool
  br_podDistributionStrategy :: string
  br_requireAmJobApproval :: bool
  br_requireJobApproval :: bool
  br_rolesRequiringApproval :: "string option"
  br_defaultJobApproverRole :: "string option"
  br_allowedJobApproverRoles :: "string option"
  br_approvalRoutingMode :: "string option"
  br_timezone :: "string option"
  br_workStartTime :: "string option"
  br_workEndTime :: "string option"
  br_workingDays :: "string option"
  br_shiftTiming :: "string option"
  br_breakDurationMinutes :: "int option"
  br_enableGlobalRemarks :: bool
  br_selectedGlobalRemarkIds :: "string option"
  br_createdAt :: int
  br_managers :: "uuid list"

record business_unit =
  bu_id :: uuid
  bu_tenantId :: uuid
  bu_name :: string
  bu_code :: "string option"
  bu_branchId :: "uuid option"
  bu_shiftTiming :: "string option"
  bu_timezone :: "string option"
  bu_workStartTime :: "string option"
  bu_workEndTime :: "string option"
  bu_breakDurationMinutes :: "int option"
  bu_workingDays :: "string list"
  bu_allowNone :: bool
  bu_allowPods :: bool
  bu_allowUnassigned :: bool
  bu_podDistributionStrategy :: string
  bu_jobCodePattern :: "string option"
  bu_marketSegmentId :: "uuid option"
  bu_currency :: "string option"
  bu_createdAt :: int
  bu_admins :: "uuid list"

record market_segment =
  ms_id :: uuid
  ms_tenantId :: "uuid option"
  ms_name :: string
  ms_code :: string
  ms_description :: "string option"
  ms_defaultCurrency :: string
  ms_defaultTimezone :: string
  ms_defaultShift :: string
  ms_defaultStartTime :: "string option"
  ms_defaultEndTime :: "string option"
  ms_isActive :: bool
  ms_sortOrder :: int
  ms_createdAt :: int

text \<open>\<open>cr_systemKey\<close> is \<^verbatim>\<open>systemRole?.systemKey\<close>, the key of the system role the row refers to: keys
  are unique, so it determines the reference.  \<open>us_branchRoles\<close> is the column \<^verbatim>\<open>branch_roles\<close>, an object
  of lists of role identifiers (or, in old rows, names), in the order of its keys.\<close>

record custom_role =
  cr_id :: uuid
  cr_tenantId :: uuid
  cr_branchId :: "uuid option"
  cr_businessUnitId :: "uuid option"
  cr_name :: string
  cr_isSystem :: bool
  cr_systemKey :: "string option"
  cr_permissions :: json
  cr_createdAt :: int
  cr_description :: "string option"
  cr_baseRoleId :: "uuid option"
  cr_createdBy :: "uuid option"

record pod =
  pd_id :: uuid
  pd_tenantId :: uuid
  pd_branchId :: "uuid option"
  pd_businessUnitId :: "uuid option"
  pd_name :: string
  pd_podHeadId :: "uuid option"
  pd_description :: "string option"
  pd_isAvailableForAssignment :: bool
  pd_createdAt :: int

record user =
  us_id :: uuid
  us_tenantId :: uuid
  us_email :: string
  us_fullName :: string
  us_isActive :: bool
  us_isApproved :: bool
  us_profilePicture :: "string option"
  us_roleId :: "uuid option"
  us_assignedRoleIds :: "uuid list"
  us_branchId :: "uuid option"
  us_businessUnitId :: "uuid option"
  us_podId :: "uuid option"
  us_jobReviewerId :: "uuid option"
  us_createdAt :: int
  us_branchRoles :: "(uuid \<times> string list) list"

record job =
  jb_id :: uuid
  jb_tenantId :: uuid
  jb_branchId :: "uuid option"
  jb_businessUnitId :: "uuid option"
  jb_status :: "string option"
  jb_approvalStatus :: "string option"
  jb_accountManagerId :: "uuid option"
  jb_createdByUserId :: "uuid option"
  jb_jobCode :: string
  jb_jobTitle :: string
  jb_jobType :: string
  jb_keepOpen :: bool
  jb_submissionDone :: int
  jb_deletedAt :: "int option"

record job_pod =
  jp_jobId :: uuid
  jp_podId :: uuid

record job_recruiter =
  jr_jobId :: uuid
  jr_recruiterId :: uuid

section \<open>The store\<close>

record store =
  st_tenants :: "tenant list"
  st_branches :: "branch list"
  st_units :: "business_unit list"
  st_segments :: "market_segment list"
  st_roles :: "custom_role list"
  st_pods :: "pod list"
  st_users :: "user list"
  st_jobs :: "job list"
  st_jobPods :: "job_pod list"
  st_jobRecruiters :: "job_recruiter list"

definition empty_store :: store where
  "empty_store = \<lparr> st_tenants = [], st_branches = [], st_units = [], st_segments = [], st_roles = [],
     st_pods = [], st_users = [], st_jobs = [], st_jobPods = [], st_jobRecruiters = [] \<rparr>"

section \<open>Queries\<close>

text \<open>\<^verbatim>\<open>{ equals: s, mode: 'insensitive' }\<close>.\<close>

definition same_name :: "string \<Rightarrow> string \<Rightarrow> bool" where
  "same_name a b = (lower a = lower b)"

text \<open>A row that a filter on an optional column matches: \<^verbatim>\<open>{ businessUnitId }\<close> where the value
  is \<^verbatim>\<open>undefined\<close> puts no condition.\<close>

definition if_given :: "'a option \<Rightarrow> ('a \<Rightarrow> bool) \<Rightarrow> bool" where
  "if_given x p = (case x of None \<Rightarrow> True | Some y \<Rightarrow> p y)"

lemma if_given_simps [simp]: "if_given None p" "if_given (Some y) p = p y"
  by (simp_all add: if_given_def)

text \<open>\<^verbatim>\<open>table.update({ where: { id } })\<close> throws when there is no such row.\<close>

definition update_one :: "('r \<Rightarrow> bool) \<Rightarrow> ('r \<Rightarrow> 'r) \<Rightarrow> 'r list \<Rightarrow> 'r list result" where
  "update_one p f t =
     (if find_first p t = None then throw (InternalError ''P2025'') else ok (update_where p f t))"

lemma update_one_Inr:
  "update_one p f t = Inr t' \<longleftrightarrow> (\<exists>r \<in> set t. p r) \<and> t' = update_where p f t"
  by (auto simp: update_one_def find_first_None)

definition user_by :: "uuid \<Rightarrow> uuid \<Rightarrow> store \<Rightarrow> user option" where
  "user_by uid tid st = find_first (\<lambda>u. us_id u = uid \<and> us_tenantId u = tid) (st_users st)"

definition unit_by :: "uuid \<Rightarrow> uuid \<Rightarrow> store \<Rightarrow> business_unit option" where
  "unit_by uid tid st = find_first (\<lambda>b. bu_id b = uid \<and> bu_tenantId b = tid) (st_units st)"

definition pod_by :: "uuid \<Rightarrow> uuid \<Rightarrow> store \<Rightarrow> pod option" where
  "pod_by pid tid st = find_first (\<lambda>p. pd_id p = pid \<and> pd_tenantId p = tid) (st_pods st)"

definition branch_by :: "uuid \<Rightarrow> uuid \<Rightarrow> store \<Rightarrow> branch option" where
  "branch_by bid tid st = find_first (\<lambda>b. br_id b = bid \<and> br_tenantId b = tid) (st_branches st)"

definition tenant_by :: "uuid \<Rightarrow> store \<Rightarrow> tenant option" where
  "tenant_by tid st = find_first (\<lambda>t. tn_id t = tid) (st_tenants st)"

definition role_by_id :: "uuid \<Rightarrow> store \<Rightarrow> custom_role option" where
  "role_by_id rid st = find_first (\<lambda>r. cr_id r = rid) (st_roles st)"

text \<open>The relation \<^verbatim>\<open>user.customRole\<close>.\<close>

definition user_role :: "store \<Rightarrow> user \<Rightarrow> custom_role option" where
  "user_role st u = Option.bind (us_roleId u) (\<lambda>rid. role_by_id rid st)"

lemma user_by_Some: "user_by uid tid st = Some u \<Longrightarrow> u \<in> set (st_users st) \<and> us_id u = uid \<and> us_tenantId u = tid"
  by (auto simp: user_by_def dest: find_first_Some)

lemma unit_by_Some: "unit_by uid tid st = Some b \<Longrightarrow> b \<in> set (st_units st) \<and> bu_id b = uid \<and> bu_tenantId b = tid"
  by (auto simp: unit_by_def dest: find_first_Some)

lemma pod_by_Some: "pod_by pid tid st = Some p \<Longrightarrow> p \<in> set (st_pods st) \<and> pd_id p = pid \<and> pd_tenantId p = tid"
  by (auto simp: pod_by_def dest: find_first_Some)

lemma branch_by_Some: "branch_by bid tid st = Some b \<Longrightarrow> b \<in> set (st_branches st) \<and> br_id b = bid \<and> br_tenantId b = tid"
  by (auto simp: branch_by_def dest: find_first_Some)

lemma lower_upper_char:
  "upper_char (lower_char c) = upper_char c" "lower_char (upper_char c) = lower_char c"
proof -
  have a: "(of_char (lower_char c) :: nat) =
     (if 65 \<le> (of_char c :: nat) \<and> (of_char c :: nat) \<le> 90 then of_char c + 32 else of_char c)"
  proof -
    have "((of_char c :: nat) + 32) mod 256 = of_char c + 32" if "(of_char c :: nat) \<le> 90"
      using that by (intro mod_less) linarith
    then show ?thesis by (auto simp: lower_char_def Let_def)
  qed
  have "upper_char (lower_char c) = char_of (of_char (upper_char (lower_char c)) :: nat)"
    by simp
  also have "(of_char (upper_char (lower_char c)) :: nat) = of_char (upper_char c)"
    unfolding of_char_upper_char a by auto
  finally show "upper_char (lower_char c) = upper_char c" by simp
  have low: "(of_char (lower_char d) :: nat) =
     (if 65 \<le> (of_char d :: nat) \<and> (of_char d :: nat) \<le> 90 then of_char d + 32 else of_char d)" for d
  proof -
    have "((of_char d :: nat) + 32) mod 256 = of_char d + 32" if "(of_char d :: nat) \<le> 90"
      using that by (intro mod_less) linarith
    then show ?thesis by (auto simp: lower_char_def Let_def)
  qed
  have "lower_char (upper_char c) = char_of (of_char (lower_char (upper_char c)) :: nat)"
    by simp
  also have "(of_char (lower_char (upper_char c)) :: nat) = of_char (lower_char c)"
    unfolding low of_char_upper_char by auto
  finally show "lower_char (upper_char c) = lower_char c" by simp
qed

lemma upper_lower [simp]: "upper (lower s) = upper s" "lower (upper s) = lower s"
  by (simp_all add: upper_def lower_def lower_upper_char)

lemma same_name_upper: "same_name a b \<longleftrightarrow> upper a = upper b"
  unfolding same_name_def by (metis upper_lower)

lemma same_name_refl [simp]: "same_name a a"
  by (simp add: same_name_def)

lemma same_name_sym: "same_name a b \<Longrightarrow> same_name b a"
  by (simp add: same_name_def)

lemma same_name_trans: "same_name a b \<Longrightarrow> same_name b c \<Longrightarrow> same_name a c"
  by (simp add: same_name_def)

section \<open>Rows to evaluate the operations on\<close>

definition mk_tenant :: "string \<Rightarrow> tenant" where
  "mk_tenant i = \<lparr> tn_id = i, tn_name = ''Tenant '' @ i, tn_domain = Some i, tn_maxBranches = 3,
     tn_podSystemEnabled = True, tn_status = ''ACTIVE'', tn_defaultMarket = ''US'', tn_userLimit = 5,
     tn_prefixCode = None \<rparr>"

definition mk_branch :: "string \<Rightarrow> string \<Rightarrow> string \<Rightarrow> branch" where
  "mk_branch i t name = \<lparr> br_id = i, br_tenantId = t, br_name = name, br_code = Some ''BR'', br_city = None,
     br_state = None, br_country = ''India'', br_isActive = True, br_market = ''INDIA'',
     br_allowNone = False, br_allowPods = True, br_allowAll = True, br_allowUnassigned = True,
     br_podDistributionStrategy = ''AUTO'', br_requireAmJobApproval = True, br_requireJobApproval = True,
     br_rolesRequiringApproval = None, br_defaultJobApproverRole = Some ''POD_LEAD'',
     br_allowedJobApproverRoles = None, br_approvalRoutingMode = Some ''FLEXIBLE'',
     br_timezone = Some ''Asia/Kolkata'', br_workStartTime = Some ''09:00'', br_workEndTime = Some ''18:00'',
     br_workingDays = None, br_shiftTiming = Some ''General Shift'', br_breakDurationMinutes = Some 60,
     br_enableGlobalRemarks = False, br_selectedGlobalRemarkIds = Some ''ALL'', br_createdAt = 0,
     br_managers = [] \<rparr>"

definition mk_unit :: "string \<Rightarrow> string \<Rightarrow> string option \<Rightarrow> string \<Rightarrow> business_unit" where
  "mk_unit i t b name = \<lparr> bu_id = i, bu_tenantId = t, bu_name = name, bu_code = Some ''UN'', bu_branchId = b,
     bu_shiftTiming = Some ''General Shift'', bu_timezone = Some ''Asia/Kolkata'',
     bu_workStartTime = Some ''09:00'', bu_workEndTime = Some ''18:00'', bu_breakDurationMinutes = Some 60,
     bu_workingDays = [], bu_allowNone = False, bu_allowPods = True, bu_allowUnassigned = True,
     bu_podDistributionStrategy = ''AUTO'', bu_jobCodePattern = None, bu_marketSegmentId = None,
     bu_currency = Some ''INR'', bu_createdAt = 0, bu_admins = [] \<rparr>"

definition mk_pod :: "string \<Rightarrow> string \<Rightarrow> string \<Rightarrow> string \<Rightarrow> string \<Rightarrow> string option \<Rightarrow> int \<Rightarrow> pod" where
  "mk_pod i t b n name h at = \<lparr> pd_id = i, pd_tenantId = t, pd_branchId = Some b, pd_businessUnitId = Some n,
     pd_name = name, pd_podHeadId = h, pd_description = None, pd_isAvailableForAssignment = True,
     pd_createdAt = at \<rparr>"

definition mk_member ::
  "string \<Rightarrow> string \<Rightarrow> string option \<Rightarrow> string option \<Rightarrow> string option \<Rightarrow> string list \<Rightarrow> string option \<Rightarrow> user" where
  "mk_member i t b n r rs p = \<lparr> us_id = i, us_tenantId = t, us_email = i @ ''@x'', us_fullName = i,
     us_isActive = True, us_isApproved = True, us_profilePicture = None, us_roleId = r,
     us_assignedRoleIds = rs, us_branchId = b, us_businessUnitId = n, us_podId = p, us_jobReviewerId = None,
     us_createdAt = 0, us_branchRoles = [] \<rparr>"

definition mk_role :: "string \<Rightarrow> string \<Rightarrow> string \<Rightarrow> string option \<Rightarrow> bool \<Rightarrow> custom_role" where
  "mk_role i t name key sys = \<lparr> cr_id = i, cr_tenantId = t, cr_branchId = None, cr_businessUnitId = None,
     cr_name = name, cr_isSystem = sys, cr_systemKey = key, cr_permissions = JArr [], cr_createdAt = 0,
     cr_description = None, cr_baseRoleId = None, cr_createdBy = None \<rparr>"

text \<open>A tenant with one unit, a lead role and a recruiter role, and two pods with their leads.\<close>

definition two_pods :: store where
  "two_pods = empty_store\<lparr>
     st_tenants := [mk_tenant ''t''],
     st_branches := [mk_branch ''b'' ''t'' ''Delhi''],
     st_units := [mk_unit ''n'' ''t'' (Some ''b'') ''Unit''],
     st_roles := [mk_role ''lead'' ''t'' ''Pod Lead'' (Some ''POD_LEAD'') True,
                  mk_role ''rec'' ''t'' ''Recruiter'' (Some ''RECRUITER'') True],
     st_pods := [mk_pod ''p1'' ''t'' ''b'' ''n'' ''Alpha'' (Some ''h1'') 1,
                 mk_pod ''p2'' ''t'' ''b'' ''n'' ''Beta'' (Some ''h2'') 2],
     st_users := [mk_member ''h1'' ''t'' (Some ''b'') (Some ''n'') (Some ''lead'') [''rec'', ''lead''] (Some ''p1''),
                  mk_member ''h2'' ''t'' (Some ''b'') (Some ''n'') (Some ''lead'') [''rec'', ''lead''] (Some ''p2''),
                  mk_member ''r3'' ''t'' (Some ''b'') (Some ''n'') (Some ''rec'') [''rec''] None] \<rparr>"

definition one_job :: store where
  "one_job = two_pods\<lparr>
     st_jobs := [\<lparr> jb_id = ''j1'', jb_tenantId = ''t'', jb_branchId = Some ''b'', jb_businessUnitId = Some ''n'',
                   jb_status = Some ''ACTIVE'', jb_approvalStatus = Some ''APPROVED'',
                   jb_accountManagerId = None, jb_createdByUserId = None, jb_jobCode = ''J-1'',
                   jb_jobTitle = ''Engineer'', jb_jobType = ''Full-time'', jb_keepOpen = False,
                   jb_submissionDone = 0, jb_deletedAt = None \<rparr>],
     st_jobPods := [\<lparr> jp_jobId = ''j1'', jp_podId = ''p1'' \<rparr>],
     st_jobRecruiters := [\<lparr> jr_jobId = ''j1'', jr_recruiterId = ''r3'' \<rparr>] \<rparr>"

end
