(* ===== verification/Scoping.thy ===== *)
theory Scoping
  imports Access
begin

text \<open>
  Which workspace, branch and staff a request may touch: the tenant and branch resolvers
  (\<^verbatim>\<open>utils/tenant-resolver.ts\<close>, \<^verbatim>\<open>utils/branch-resolver.ts\<close>, \<^verbatim>\<open>utils/branch-scoping.ts\<close>), the two
  request guards (\<^verbatim>\<open>guards/permissions.guard.ts\<close>, \<^verbatim>\<open>guards/roles.guard.ts\<close>), the permission
  catalogue and what a tenant administrator effectively holds
  (\<^verbatim>\<open>tenant-permission-catalog.ts\<close>), the presence rooms and the SQL staff scope of user
  management (\<^verbatim>\<open>user-management/management-policy.ts\<close>), the unit scope of jobs
  (\<^verbatim>\<open>jobs/unit-job-scope.ts\<close>) and the right to delete a client
  (\<^verbatim>\<open>clients/client-delete-policy.ts\<close>).
\<close>

section \<open>Tenant and branch resolution\<close>

text \<open>
  \<open>default_tenant\<close> is the environment variable \<^verbatim>\<open>DEFAULT_TENANT_ID\<close>, possibly unset.
\<close>

definition resolveTenantId ::
  "string option \<Rightarrow> auth_user option \<Rightarrow> string option \<Rightarrow> (string option) result" where
  "resolveTenantId default_tenant user headerTenantId =
    (case user of
       None \<Rightarrow> throw (Unauthorized ''Authentication context is required for tenant resolution.'')
     | Some u \<Rightarrow>
        (let permissions = a_permissions u;
             isSuperAdmin = (''platform:manage'' \<in> set permissions \<or> ''*'' \<in> set permissions);
             cleanHeader = (if truthy headerTenantId then map_option trim headerTenantId else None)
         in if isSuperAdmin then
              (if truthy cleanHeader then
                 (if \<not> is_uuid (or_empty cleanHeader)
                  then throw (Forbidden ''Invalid tenant ID format provided.'')
                  else ok cleanHeader)
               else ok (or_else (a_tenantId u) default_tenant))
            else if truthy cleanHeader \<and> cleanHeader \<noteq> a_tenantId u
              then throw (Forbidden ''Cross-tenant data access is denied.'')
            else if \<not> truthy (a_tenantId u) then ok default_tenant
            else ok (a_tenantId u)))"

definition resolveBranchId :: "auth_user option \<Rightarrow> string option \<Rightarrow> (string option) result" where
  "resolveBranchId user headerBranchId =
    (let permissions = (case user of None \<Rightarrow> [] | Some u \<Rightarrow> a_permissions u);
         crossBranch = (''*'' \<in> set permissions \<or> includes_any permissions
           [''platform:manage'', ''tenant:manage'', ''tenant:settings'', ''job:view_all_branches'']);
         header = map_option trim headerBranchId;
         requested = (if truthy header \<and> lower (or_empty header) \<notin> {''all'', ''null'', ''undefined''}
                      then header else None);
         own = Option.bind user a_branchId
     in if crossBranch then ok requested
        else if \<not> truthy own then throw (Forbidden ''An assigned branch is required.'')
        else if truthy requested \<and> requested \<noteq> own
          then throw (Forbidden ''You can only access your assigned branch.'')
        else ok own)"

definition isTenantAdmin :: "auth_user \<Rightarrow> bool" where
  "isTenantAdmin user =
    (let perms = a_permissions user
     in if ''*'' \<in> set perms \<or> ''tenant:manage'' \<in> set perms \<or> ''tenant:settings'' \<in> set perms
           \<or> ''platform:manage'' \<in> set perms
        then True else False)"

definition getUserAssignedBranchIds :: "auth_user \<Rightarrow> string list" where
  "getUserAssignedBranchIds user = (if truthy (a_branchId user) then [or_empty (a_branchId user)] else [])"

definition validateBranchAccess :: "auth_user \<Rightarrow> string option \<Rightarrow> string \<Rightarrow> unit result" where
  "validateBranchAccess user targetBranchId actionDescription =
    (if isTenantAdmin user then ok ()
     else let assigned = getUserAssignedBranchIds user
          in if \<not> truthy targetBranchId \<or> or_empty targetBranchId \<notin> set assigned
             then throw (Forbidden (''Access denied. You can only '' @ actionDescription
                    @ '' for your assigned branch office.''))
             else ok ())"

section \<open>Request guards\<close>

text \<open>
  The guards read the decorator's list from the handler or the class (\<open>None\<close> when neither
  has one) and the user that the JWT guard attached to the request.
\<close>

definition joined :: "string list \<Rightarrow> string" where
  "joined xs = (case xs of [] \<Rightarrow> [] | x # rest \<Rightarrow> x @ concat (map (\<lambda>y. '', '' @ y) rest))"

definition permissions_canActivate :: "string list option \<Rightarrow> auth_user option \<Rightarrow> bool result" where
  "permissions_canActivate requiredPermissions user =
    (case requiredPermissions of
       None \<Rightarrow> ok True
     | Some [] \<Rightarrow> ok True
     | Some required \<Rightarrow>
        (case user of
           None \<Rightarrow> throw (Forbidden ''Access denied. No authenticated user found.'')
         | Some u \<Rightarrow>
            (let userPermissions = a_permissions u
             in if ''*'' \<in> set userPermissions \<or> ''platform:manage'' \<in> set userPermissions then ok True
                else let hasPermission = (\<forall>perm \<in> set required. perm \<in> set userPermissions)
                     in if \<not> hasPermission
                        then throw (Forbidden (''Access denied. You do not have the required permissions: [''
                               @ joined required @ '']''))
                        else ok True)))"

definition roles_canActivate :: "string list option \<Rightarrow> auth_user option \<Rightarrow> bool result" where
  "roles_canActivate requiredRoles user =
    (case requiredRoles of
       None \<Rightarrow> ok True
     | Some [] \<Rightarrow> ok True
     | Some required \<Rightarrow>
        (case Option.bind user a_roles of
           None \<Rightarrow> throw (Forbidden ''Access denied. User has no roles assigned.'')
         | Some roles \<Rightarrow>
            (let normalizedRequired = map upper required;
                 normalizedUser = map upper roles;
                 hasRole = includes_any normalizedUser normalizedRequired
             in if \<not> hasRole
                then throw (Forbidden (''Access denied. This action requires one of: [''
                       @ joined required @ '']''))
                else ok True)))"

section \<open>The permission catalogue\<close>

record permission_entry =
  pe_id :: string
  pe_name :: string
  pe_description :: "string option"
  pe_group :: string

definition entry :: "string \<Rightarrow> string \<Rightarrow> string option \<Rightarrow> string \<Rightarrow> permission_entry" where
  "entry i n d g = \<lparr> pe_id = i, pe_name = n, pe_description = d, pe_group = g \<rparr>"

definition SUBMISSION_AUTO_APPROVAL_PERMISSION :: string where
  "SUBMISSION_AUTO_APPROVAL_PERMISSION = ''submission:auto_approve_internal_review''"

definition MANAGEMENT_PERMISSIONS :: "(string \<times> string) list" where
  "MANAGEMENT_PERMISSIONS =
   [ (''user:view'', ''View user directory''), (''user:presence:view'', ''View team presence''),
     (''user:sessions:view'', ''View user sessions''), (''user:login_logs:view'', ''View login security history''),
     (''user:session_ip:view'', ''View session IP addresses''), (''user:sessions:revoke'', ''Revoke user sessions''),
     (''user:login_logs:export'', ''Export login history''), (''user:location:view'', ''View office location evidence''),
     (''branch:network:manage'', ''Manage office networks''),
     (''unit:geofence:manage'', ''Manage operating unit geofences'') ]"

definition tenantPermissionCatalog :: "permission_entry list" where
  "tenantPermissionCatalog =
   [ entry ''job:create'' ''Create Jobs'' None ''Jobs Management''
   , entry ''job:grant_creation_delegate'' ''Grant Colleagues Permission to Create Jobs on Your Behalf'' None ''Jobs Management''
   , entry ''job:manage_creation_access'' ''Manage Job Creation Access Within Assigned Scope'' None ''Jobs Management''
   , entry ''job:edit'' ''Edit own jobs'' None ''Jobs Management''
   , entry ''job:edit_unit'' ''Edit jobs - Current unit'' None ''Jobs Management''
   , entry ''job:edit_branch'' ''Edit jobs - Current branch'' None ''Jobs Management''
   , entry ''job:edit_tenant'' ''Edit jobs - Entire tenant'' None ''Jobs Management''
   , entry ''job:change_status'' ''Change job status - Own jobs'' None ''Jobs Management''
   , entry ''job:change_status_unit'' ''Change job status - Current unit'' None ''Jobs Management''
   , entry ''job:change_status_branch'' ''Change job status - Current branch'' None ''Jobs Management''
   , entry ''job:change_status_tenant'' ''Change job status - Entire tenant'' None ''Jobs Management''
   , entry ''job:find_matches_assigned'' ''Find AI matches - Assigned jobs only'' None ''Jobs Management''
   , entry ''job:manage_publication_unit'' ''Manage website publication - Current unit administrators'' None ''Jobs Management''
   , entry ''job:manage_publication_branch'' ''Manage website publication - Current branch administrators'' None ''Jobs Management''
   , entry ''job:manage_publication_tenant'' ''Manage website publication - Tenant administrators'' None ''Jobs Management''
   , entry ''job:find_matches'' ''Find AI matches - Own jobs'' None ''Jobs Management''
   , entry ''job:find_matches_unit'' ''Find AI matches - Current unit'' None ''Jobs Management''
   , entry ''job:find_matches_branch'' ''Find AI matches - Current branch'' None ''Jobs Management''
   , entry ''job:find_matches_tenant'' ''Find AI matches - Entire tenant'' None ''Jobs Management''
   , entry ''job:view'' ''View Jobs'' None ''Jobs Management''
   , entry ''job:bill_rate:view'' ''View Client Bill Rates'' None ''Jobs Management''
   , entry ''job:export'' ''Export Job Details and Candidate Submissions'' None ''Jobs Management''
   , entry ''job:publish_direct'' ''Publish Jobs Directly (Bypass Approval Gate)'' None ''Jobs Management''
   , entry ''job:approve'' ''Approve & Activate Jobs (Publish)'' None ''Jobs Management''
   , entry ''job:reject'' ''Reject Job Postings with Feedback'' None ''Jobs Management''
   , entry ''job:assign'' ''Assign Unassigned Jobs'' None ''Jobs Management''
   , entry ''job:assign_recruiter'' ''Assign Job to Specific Recruiter'' None ''Jobs Management''
   , entry ''job:view_pod_jobs'' ''View All Jobs Assigned to Own Pod'' None ''Jobs Management''
   , entry ''job:submit_pod_jobs'' ''Submit to Own Pod Jobs Without Individual Assignment'' None ''Jobs Management''
   , entry ''job:override_assignment'' ''Override Job Assignment Within Current Unit'' None ''Jobs Management''
   , entry ''job:assignment_reason_optional'' ''Skip Emergency Assignment Justification'' None ''Jobs Management''
   , entry ''job:assign_pod'' ''Assign Pod to Job'' None ''Jobs Management''
   , entry ''job:delegate'' ''Delegate Jobs to Same-Market Units in Other Branches'' None ''Jobs Management''
   , entry ''job:accept_delegation'' ''Accept Delegated Jobs for Your Operating Unit'' None ''Jobs Management''
   , entry ''candidate:create'' ''Create Candidates'' None ''Candidates Management''
   , entry ''candidate:edit'' ''Edit Candidate Profiles'' None ''Candidates Management''
   , entry ''candidate:change_market'' ''Change Candidate Staffing Market'' None ''Candidates Management''
   , entry ''candidate:view'' ''View Candidates & Resume Bank'' None ''Candidates Management''
   , entry ''candidate:download_resume'' ''Download Original Resume'' None ''Candidates Management''
   , entry ''submission:view'' ''View Submissions Tracker & Candidate Pipeline'' None ''Candidate Submissions & Sourcing''
   , entry ''submission:download_resume'' ''Download Resume from Approved Submissions'' None ''Candidate Submissions & Sourcing''
   , entry ''submission:view_all'' ''View Submissions for All Account Manager Jobs'' None ''Candidate Submissions & Sourcing''
   , entry ''submission:edit_all'' ''Edit Status on Other Account Manager Jobs (requires all-submission access)'' None ''Candidate Submissions & Sourcing''
   , entry ''job:submit_owned_jobs'' ''Submit Candidates to Own Account Manager Jobs'' None ''Candidate Submissions & Sourcing''
   , entry ''job:submit_unit_jobs'' ''Submit Candidates to Any Job in Current Unit'' None ''Candidate Submissions & Sourcing''
   , entry ''submission:internal_screening_created_jobs'' ''Internally Review Submissions for Jobs I Created'' None ''Candidate Submissions & Sourcing''
   , entry ''submission:create'' ''Submit Candidate CV to Job Requisitions'' None ''Candidate Submissions & Sourcing''
   , entry ''submission:edit'' ''Edit Submissions (General Notes & Comments)'' None ''Candidate Submissions & Sourcing''
   , entry ''submission:internal_screening'' ''Internal Screening Review & Approval Gate'' None ''Internal Screening & Review Gate''
   , entry SUBMISSION_AUTO_APPROVAL_PERMISSION ''Auto-approve internal review when I submit'' (Some ''Applies when you submit using this role. Skips internal review and starts the candidate at L1 pending. Switching roles later does not change existing submissions.'') ''Internal Screening & Review Gate''
   , entry ''submission:edit_rate'' ''Edit Candidate Pay Rate & CTC Margins'' None ''Internal Screening & Review Gate''
   , entry ''submission:audit_rounds'' ''Interview Stages (Master L1, L2, L3 Audits & Remarks)'' None ''Interview Rounds & Quality Audits (L1, L2, L3)''
   , entry ''submission:audit_l1'' ''Round 1 (L1) Screening & Interview Audit'' None ''Interview Rounds & Quality Audits (L1, L2, L3)''
   , entry ''submission:audit_l2'' ''Round 2 (L2) Technical Interview & Vetting'' None ''Interview Rounds & Quality Audits (L1, L2, L3)''
   , entry ''submission:audit_l3'' ''Round 3 (L3) Commercial & Final Readiness Audit'' None ''Interview Rounds & Quality Audits (L1, L2, L3)''
   , entry ''submission:schedule_interview'' ''Schedule Client & Internal Interviews'' None ''Interview Rounds & Quality Audits (L1, L2, L3)''
   , entry ''submission:final_status'' ''Final Placement Status (Offer & Join Outcome)'' None ''Interview Rounds & Quality Audits (L1, L2, L3)''
   , entry ''submission:approve_client'' ''Approve Client Submission'' None ''Interview Rounds & Quality Audits (L1, L2, L3)''
   , entry ''client:bdm_access'' ''Use BDM Client Access Policy'' None ''Clients & Placements''
   , entry ''client:view'' ''View Clients Directory'' None ''Clients & Placements''
   , entry ''client:create'' ''Create New Clients (Pending Approval)'' None ''Clients & Placements''
   , entry ''client:direct_add'' ''Direct Add Clients (Bypass Approval Gate)'' None ''Clients & Placements''
   , entry ''client:edit'' ''Edit Client Profiles & Terms'' None ''Clients & Placements''
   , entry ''client:approve'' ''Approve & Activate Client Accounts'' None ''Clients & Placements''
   , entry ''client:reject'' ''Reject Client Accounts with Feedback'' None ''Clients & Placements''
   , entry ''client:delete'' ''Delete Client Accounts'' None ''Clients & Placements''
   , entry ''placement:view'' ''View Placements & Revenue Margins'' None ''Clients & Placements''
   , entry ''placement:create'' ''Create & Finalize Placements'' None ''Clients & Placements''
   , entry ''report:view'' ''View Analytics & Performance Reports'' None ''Clients & Placements''
   , entry ''pod:create'' ''Create Pods'' None ''Pods Management''
   , entry ''pod:edit'' ''Edit Pods & Assign Unassigned Jobs'' None ''Pods Management''
   , entry ''pod:delete'' ''Delete Pods'' None ''Pods Management''
   , entry ''pod:view'' ''View Pods'' None ''Pods Management''
   , entry ''pod:reset_cycle'' ''Reset Assignment Cycle'' None ''Pods Management''
   , entry ''pod:overlap'' ''Authorize Pod Assignment Overlaps'' None ''Pods Management''
   , entry ''branch:create'' ''Create New Branch Locations'' None ''Branch & Multi-Office Management''
   , entry ''branch:edit'' ''Edit Branch Operating Hours, Timezone & Policies'' None ''Branch & Multi-Office Management''
   , entry ''branch:delete'' ''Delete Branch Office Locations'' None ''Branch & Multi-Office Management''
   , entry ''branch_admin:manage'' ''Manage Branch Office & Staff'' None ''Branch & Multi-Office Management''
   , entry ''unit_admin:manage'' ''Manage Operating Unit & Unit Staff'' None ''Branch & Multi-Office Management''
   , entry ''candidate:search_all_branches'' ''Search Candidates Across All Branches'' None ''Branch & Multi-Office Management''
   , entry ''job:view_all_branches'' ''View Jobs Across All Branches'' None ''Branch & Multi-Office Management''
   , entry ''candidate:search_all_markets'' ''Search Candidates Across All Markets (US + India)'' None ''Branch & Multi-Office Management''
   , entry ''tenant:settings'' ''Manage Company Settings'' None ''Administration''
   , entry ''user:manage'' ''Manage Staff & Roles'' None ''Administration'' ]
   @ map (\<lambda>(id, name). entry id name None ''User Security & Presence'') MANAGEMENT_PERMISSIONS
   @ [ entry ''platform:manage'' ''Platform Super Administration'' None ''Administration'' ]"

definition effectiveTenantPermissions :: "string list \<Rightarrow> string list" where
  "effectiveTenantPermissions permissions =
    (if ''tenant:settings'' \<notin> set permissions \<and> ''tenant:manage'' \<notin> set permissions then permissions
     else uniq (permissions @ filter (\<lambda>i. i \<noteq> ''platform:manage'') (map pe_id tenantPermissionCatalog)))"

section \<open>Unit scope of jobs, deletion of clients\<close>

definition managesCurrentUnit :: "auth_user option \<Rightarrow> bool" where
  "managesCurrentUnit user =
    (let permissions = (case user of None \<Rightarrow> [] | Some u \<Rightarrow> a_permissions u)
     in ''unit_admin:manage'' \<in> set permissions
        \<and> \<not> includes_any permissions
             [''tenant:settings'', ''tenant:manage'', ''platform:manage'', ''branch_admin:manage''])"

definition assertUnitJobScope :: "auth_user option \<Rightarrow> string option \<Rightarrow> string option \<Rightarrow> unit result" where
  "assertUnitJobScope user jobBranchId jobBusinessUnitId =
    (let branch = Option.bind user a_branchId; unit = Option.bind user a_businessUnitId
     in if managesCurrentUnit user
           \<and> (\<not> truthy branch \<or> \<not> truthy unit \<or> jobBranchId \<noteq> branch \<or> jobBusinessUnitId \<noteq> unit)
        then throw (Forbidden ''Job is outside your current unit.'') else ok ())"

text \<open>\<^verbatim>\<open>replace(/[\s-]+/g, '_')\<close>: a run of separators becomes one underscore.\<close>

function underscored_runs :: "string \<Rightarrow> string" where
  "underscored_runs [] = []"
| "underscored_runs (c # cs) =
    (if is_space c \<or> c = CHR ''-'' then
       CHR ''_'' # underscored_runs (dropWhile (\<lambda>d. is_space d \<or> d = CHR ''-'') cs)
     else c # underscored_runs cs)"
  by pat_completeness auto
termination
  by (relation "measure length") (auto simp: le_imp_less_Suc length_dropWhile_le)

definition canDeleteClient :: "auth_user \<Rightarrow> bool" where
  "canDeleteClient user =
    (let role = underscored_runs (upper (or_empty (a_systemRole user)));
         permissions = a_permissions user;
         hasDeletePermission = includes_any permissions
           [''client:delete'', ''tenant:settings'', ''tenant:manage'', ''platform:manage'']
     in role \<in> {''SUPER_ADMIN'', ''TENANT_ADMIN'', ''BRANCH_ADMIN'', ''UNIT_ADMIN''} \<and> hasDeletePermission)"

section \<open>Management policy: capabilities, presence rooms, staff scope\<close>

definition hasCapability :: "auth_user \<Rightarrow> string \<Rightarrow> bool" where
  "hasCapability actor key = (\<exists>p \<in> set (a_permissions actor). p = key \<or> p = ''*'' \<or> p = ''platform:manage'')"

definition requireCapability :: "auth_user \<Rightarrow> string \<Rightarrow> unit result" where
  "requireCapability actor key =
     (if \<not> hasCapability actor key
      then throw (Forbidden ''You do not have permission to view or change this information.'') else ok ())"

text \<open>The rooms of the presence channel, named by level and identifiers.\<close>

datatype presence_room =
    TenantRoom string
  | BranchRoom string string
  | UnitRoom string string string
  | UserRoom string "string option"

definition tenant_wide_keys :: "string list" where
  "tenant_wide_keys = [''*'', ''platform:manage'', ''tenant:settings'', ''tenant:manage'']"

definition scope_branches :: "auth_user \<Rightarrow> string list" where
  "scope_branches actor =
     uniq (a_assignedBranchIds actor @ (if truthy (a_branchId actor) then [or_empty (a_branchId actor)] else []))"

definition presenceViewerRooms :: "auth_user \<Rightarrow> presence_room list" where
  "presenceViewerRooms actor =
    (if \<not> truthy (a_tenantId actor) \<or> \<not> hasCapability actor ''user:presence:view'' then []
     else let tenant = or_empty (a_tenantId actor)
          in if includes_any (a_permissions actor) tenant_wide_keys then [TenantRoom tenant]
             else if hasCapability actor ''branch_admin:manage''
               then map (BranchRoom tenant) (scope_branches actor)
             else if truthy (a_businessUnitId actor) \<and> truthy (a_branchId actor)
               then [UnitRoom tenant (or_empty (a_branchId actor)) (or_empty (a_businessUnitId actor))]
             else [UserRoom tenant (a_dbId actor)])"

definition presenceAudienceRooms :: "auth_user \<Rightarrow> presence_room list" where
  "presenceAudienceRooms actor =
    (if \<not> truthy (a_tenantId actor) then []
     else let tenant = or_empty (a_tenantId actor);
              branch = or_empty (a_branchId actor)
          in [TenantRoom tenant, UserRoom tenant (a_dbId actor)]
             @ (if truthy (a_branchId actor) then [BranchRoom tenant branch] else [])
             @ (if truthy (a_branchId actor) \<and> truthy (a_businessUnitId actor)
                then [UnitRoom tenant branch (or_empty (a_businessUnitId actor))] else []))"

text \<open>
  \<^verbatim>\<open>managementScope\<close> returns a conjunction of SQL conditions and the parameter values.  A
  condition is kept as its column, its operator and the number of its placeholder.
\<close>

datatype scope_clause =
    TenantIs nat
  | NoRow
  | BranchIn nat
  | UserIs nat
  | UnitIs nat

datatype sql_value = SqlOne "string option" | SqlMany "string list"

definition managementScope :: "auth_user \<Rightarrow> nat \<Rightarrow> (scope_clause list \<times> sql_value list) result" where
  "managementScope actor start =
    (if \<not> truthy (a_tenantId actor) then throw (Forbidden ''A workspace is required.'')
     else let values0 = [SqlOne (a_tenantId actor)];
              clauses0 = [TenantIs start]
          in if includes_any (a_permissions actor) tenant_wide_keys then ok (clauses0, values0)
             else let branches = scope_branches actor;
                      (clauses1, values1) =
                        (if branches = [] then (clauses0 @ [NoRow], values0)
                         else (let vs = values0 @ [SqlMany branches]
                               in (clauses0 @ [BranchIn (start + length vs - 1)], vs)))
                  in ok (if \<not> hasCapability actor ''branch_admin:manage'' then
                           (if \<not> truthy (a_businessUnitId actor)
                            then (clauses1 @ [UserIs (start + length values1)], values1 @ [SqlOne (a_dbId actor)])
                            else (let vs = values1 @ [SqlOne (a_businessUnitId actor)]
                                  in (clauses1 @ [UnitIs (start + length vs - 1)], vs)))
                         else (clauses1, values1)))"

section \<open>What resolution and the guards guarantee\<close>

lemma resolveTenantId_ordinary:
  assumes "\<not> holds_platform u" and "resolveTenantId dflt (Some u) header = ok t"
  shows "t = (if truthy (a_tenantId u) then a_tenantId u else dflt)"
    and "truthy header \<Longrightarrow> trim (or_empty header) \<noteq> [] \<Longrightarrow> a_tenantId u = Some (trim (or_empty header))"
  using assms
  by (auto simp: resolveTenantId_def holds_platform_def Let_def truthy_def split: if_splits option.splits)

text \<open>C26: Tenant isolation at the entrance of every endpoint: unless the user holds the platform
  capability, the resolved workspace is the user's own (or the configured default for a user
  without one), whatever the request header says, and a header naming another workspace is refused.\<close>

theorem tenant_header_cannot_cross:
  assumes "\<not> holds_platform u" and "truthy (a_tenantId u)"
  shows "resolveTenantId dflt (Some u) header = ok (a_tenantId u) \<or>
    resolveTenantId dflt (Some u) header = throw (Forbidden ''Cross-tenant data access is denied.'')"
    (is "?A \<or> ?B")
  using assms
  by (simp add: resolveTenantId_def holds_platform_def Let_def)

lemma tenant_header_cannot_cross_witness:
  "resolveTenantId None (Some (mk_user ''u'' [''tenant:manage''] ''t1'' None None None)) (Some ''t2'')
     \<noteq> ok (Some ''t2'')"
  using tenant_header_cannot_cross [of "mk_user ''u'' [''tenant:manage''] ''t1'' None None None" None "Some ''t2''"]
  by (auto simp: mk_user_def holds_platform_def)

text \<open>A user without a cross-branch capability always resolves to the own branch or is refused; a
  user with one gets exactly the branch the header asks for, and nothing when it asks for all.\<close>

theorem branch_resolution:
  assumes "resolveBranchId (Some u) header = ok b"
  shows "(\<not> includes_any (a_permissions u)
            [''*'', ''platform:manage'', ''tenant:manage'', ''tenant:settings'', ''job:view_all_branches'']
          \<longrightarrow> truthy b \<and> b = a_branchId u) \<and>
    (b \<noteq> a_branchId u \<longrightarrow> b = None \<or> (b = map_option trim header
          \<and> lower (or_empty b) \<notin> {''all'', ''null'', ''undefined''}))"
  using assms
  by (auto simp: resolveBranchId_def Let_def split: if_splits)

lemma branch_resolution_witness:
  "Some ''b'' = a_branchId (mk_user ''u'' [''job:view''] ''t1'' (Some ''b'') None None)"
proof -
  let ?u = "mk_user ''u'' [''job:view''] ''t1'' (Some ''b'') None None"
  have "resolveBranchId (Some ?u) None = ok (Some ''b'')"
    by (simp add: resolveBranchId_def mk_user_def Let_def)
  then show ?thesis using branch_resolution [of ?u None "Some ''b''"]
    by (simp add: mk_user_def)
qed

text \<open>The two guards let a request through exactly when the endpoint asks for nothing, or the
  user holds every required permission (or a wildcard), respectively one of the required roles
  up to case; in every other case they throw, and they never answer false.\<close>

theorem guards_exact:
  "(permissions_canActivate required user = ok True \<longleftrightarrow>
      required = None \<or> required = Some [] \<or>
      (\<exists>u. user = Some u \<and> (holds_platform u \<or> set (the required) \<subseteq> set (a_permissions u)))) \<and>
   (roles_canActivate required user = ok True \<longleftrightarrow>
      required = None \<or> required = Some [] \<or>
      (\<exists>u roles. user = Some u \<and> a_roles u = Some roles \<and>
         (\<exists>r \<in> set (the required). upper r \<in> set (map upper roles)))) \<and>
   permissions_canActivate required user \<noteq> ok False \<and> roles_canActivate required user \<noteq> ok False"
proof -
  have p: "permissions_canActivate required user = ok True \<longleftrightarrow>
      required = None \<or> required = Some [] \<or>
      (\<exists>u. user = Some u \<and> (holds_platform u \<or> set (the required) \<subseteq> set (a_permissions u)))"
    by (auto simp: permissions_canActivate_def holds_platform_def Let_def split: option.splits list.splits)
  have r: "roles_canActivate required user = ok True \<longleftrightarrow>
      required = None \<or> required = Some [] \<or>
      (\<exists>u roles. user = Some u \<and> a_roles u = Some roles \<and>
         (\<exists>r \<in> set (the required). upper r \<in> set (map upper roles)))"
    by (cases "required = None \<or> required = Some []"; cases user)
      (auto simp: roles_canActivate_def includes_any_def Let_def bind_eq_Some_conv
        split: option.splits list.splits)
  have f: "permissions_canActivate required user \<noteq> ok False" "roles_canActivate required user \<noteq> ok False"
    by (simp_all add: permissions_canActivate_def roles_canActivate_def Let_def split: option.split list.split)
  show ?thesis by (intro conjI p r f)
qed

text \<open>A tenant administrator effectively holds the own permissions and the whole permission
  catalogue, and nothing else; in particular resolving the effective permissions never adds the
  platform capability or the wildcard, and doing it twice changes nothing.\<close>

theorem effective_permissions:
  "set ps \<subseteq> set (effectiveTenantPermissions ps) \<and>
   set (effectiveTenantPermissions ps) \<subseteq>
     set ps \<union> (set (map pe_id tenantPermissionCatalog) - {''platform:manage''}) \<and>
   (''platform:manage'' \<in> set (effectiveTenantPermissions ps) \<longleftrightarrow> ''platform:manage'' \<in> set ps) \<and>
   (''*'' \<in> set (effectiveTenantPermissions ps) \<longleftrightarrow> ''*'' \<in> set ps) \<and>
   set (effectiveTenantPermissions (effectiveTenantPermissions ps)) = set (effectiveTenantPermissions ps)"
proof -
  have star: "''*'' \<notin> set (map pe_id tenantPermissionCatalog)"
    by (simp add: tenantPermissionCatalog_def entry_def MANAGEMENT_PERMISSIONS_def
        SUBMISSION_AUTO_APPROVAL_PERMISSION_def)
  show ?thesis
    using star by (auto simp: effectiveTenantPermissions_def)
qed

section \<open>What the presence rooms and the staff scope guarantee\<close>

text \<open>The members a presence viewer is meant to see.\<close>

definition may_see_presence :: "auth_user \<Rightarrow> auth_user \<Rightarrow> bool" where
  "may_see_presence viewer member \<longleftrightarrow>
     truthy (a_tenantId viewer) \<and> a_tenantId viewer = a_tenantId member \<and>
     hasCapability viewer ''user:presence:view'' \<and>
     (if includes_any (a_permissions viewer) tenant_wide_keys then True
      else if hasCapability viewer ''branch_admin:manage''
        then truthy (a_branchId member) \<and> or_empty (a_branchId member) \<in> set (scope_branches viewer)
      else if truthy (a_businessUnitId viewer) \<and> truthy (a_branchId viewer)
        then a_branchId member = a_branchId viewer \<and> a_businessUnitId member = a_businessUnitId viewer
      else a_dbId member = a_dbId viewer)"

lemma truthy_eq_or_empty: "truthy x \<Longrightarrow> truthy y \<Longrightarrow> or_empty x = or_empty y \<longleftrightarrow> x = y"
  by (cases x; cases y) auto

text \<open>A presence viewer shares a room with a member exactly when the viewer may see that member:
  same workspace, the presence capability, and a scope (workspace, branches, unit or the own
  account) that covers the member.\<close>

theorem presence_rooms_exact:
  "set (presenceViewerRooms viewer) \<inter> set (presenceAudienceRooms member) \<noteq> {} \<longleftrightarrow>
   may_see_presence viewer member"
proof (cases "truthy (a_tenantId viewer) \<and> truthy (a_tenantId member) \<and> hasCapability viewer ''user:presence:view''")
  case False
  then show ?thesis
    by (auto simp: presenceViewerRooms_def presenceAudienceRooms_def may_see_presence_def)
next
  case True
  then show ?thesis
    by (auto simp: presenceViewerRooms_def presenceAudienceRooms_def may_see_presence_def Let_def
        truthy_eq_or_empty simp del: includes_any_simps split: if_splits)
qed

record staff_row =
  sr_id :: "string option"
  sr_tenant :: "string option"
  sr_branch :: "string option"
  sr_unit :: "string option"

text \<open>
  The meaning of one SQL condition on a row, given the parameter values: placeholder \<open>n\<close> reads the
  value at position \<open>n - start\<close>; a comparison with a missing value is not true.
\<close>

definition placeholder :: "nat \<Rightarrow> sql_value list \<Rightarrow> nat \<Rightarrow> sql_value option" where
  "placeholder start vs n = (if start \<le> n \<and> n - start < length vs then Some (vs ! (n - start)) else None)"

definition sql_is :: "string option \<Rightarrow> sql_value option \<Rightarrow> bool" where
  "sql_is x v = (case v of Some (SqlOne (Some y)) \<Rightarrow> x = Some y | _ \<Rightarrow> False)"

fun clause_holds :: "nat \<Rightarrow> sql_value list \<Rightarrow> staff_row \<Rightarrow> scope_clause \<Rightarrow> bool" where
  "clause_holds start vs r (TenantIs n) = sql_is (sr_tenant r) (placeholder start vs n)"
| "clause_holds start vs r NoRow = False"
| "clause_holds start vs r (BranchIn n) =
     (case placeholder start vs n of
        Some (SqlMany bs) \<Rightarrow> sr_branch r \<in> Some ` set bs
      | _ \<Rightarrow> False)"
| "clause_holds start vs r (UserIs n) = sql_is (sr_id r) (placeholder start vs n)"
| "clause_holds start vs r (UnitIs n) = sql_is (sr_unit r) (placeholder start vs n)"

definition in_staff_scope :: "auth_user \<Rightarrow> staff_row \<Rightarrow> bool" where
  "in_staff_scope actor r \<longleftrightarrow>
     sr_tenant r = a_tenantId actor \<and>
     (includes_any (a_permissions actor) tenant_wide_keys \<or>
       (sr_branch r \<in> Some ` set (scope_branches actor) \<and>
        (hasCapability actor ''branch_admin:manage'' \<or>
          (if truthy (a_businessUnitId actor) then sr_unit r = a_businessUnitId actor
           else (\<exists>i. a_dbId actor = Some i \<and> sr_id r = Some i)))))"

text \<open>C30: The SQL staff scope means what it should: every placeholder it writes refers to the value
  pushed for it, whatever the first placeholder number, so the conditions hold of a row exactly
  when the row is in the actor's tenant and, without tenant-wide rights, in one of the actor's
  branches and in the actor's unit (or is the actor, when without unit and branch capability).\<close>

theorem managementScope_meaning:
  assumes "managementScope actor start = ok (clauses, vs)"
  shows "(\<forall>c \<in> set clauses. clause_holds start vs r c) \<longleftrightarrow> in_staff_scope actor r"
proof -
  have t: "truthy (a_tenantId actor)"
    using assms by (simp add: managementScope_def split: if_splits)
  show ?thesis
    using assms t
    by (auto simp: managementScope_def in_staff_scope_def placeholder_def sql_is_def Let_def
        nth_append truthy_def simp del: includes_any_simps split: if_splits option.splits
        dest: sym [of "Some _" "a_dbId actor"])
qed

lemma managementScope_meaning_witness:
  "clause_holds 3 [SqlOne (Some ''t''), SqlMany [''b''], SqlOne (Some ''n'')]
     \<lparr>sr_id = Some ''x'', sr_tenant = Some ''t'', sr_branch = Some ''b'', sr_unit = Some ''n''\<rparr> (UnitIs 5)"
proof -
  let ?u = "mk_user ''u1'' [''user:view''] ''t'' (Some ''b'') (Some ''n'') None"
  let ?r = "\<lparr>sr_id = Some ''x'', sr_tenant = Some ''t'', sr_branch = Some ''b'', sr_unit = Some ''n''\<rparr>"
  have s: "managementScope ?u 3 = ok ([TenantIs 3, BranchIn 4, UnitIs 5],
      [SqlOne (Some ''t''), SqlMany [''b''], SqlOne (Some ''n'')])"
    by (simp add: managementScope_def mk_user_def scope_branches_def hasCapability_def
        tenant_wide_keys_def Let_def)
  show ?thesis
    using managementScope_meaning [OF s, of ?r]
    by (simp add: in_staff_scope_def mk_user_def scope_branches_def)
qed

end
