(* ===== verification/JobPolicy.thy ===== *)
theory JobPolicy
  imports Access
begin

text \<open>
  The pure policies on jobs and submissions: what an actor may do with a job
  (\<^verbatim>\<open>jobs/job-action-policy.ts\<close>), the capabilities shown on a submission
  (\<^verbatim>\<open>recruiter-submissions/submission-capabilities.ts\<close>), the resume hand-off
  (\<^verbatim>\<open>submission-resume.ts\<close>), the internal review of a new submission
  (\<^verbatim>\<open>submission-auto-approval.ts\<close>), the tenant's assignment policy
  (\<^verbatim>\<open>auth/job-assignment-policy.ts\<close>), the normalisation of a unit's pod strategy
  (\<^verbatim>\<open>business-units/pod-strategy.ts\<close>) and the notification categories a member is eligible for
  (\<^verbatim>\<open>notifications/notification-preferences.ts\<close>).
\<close>

section \<open>Actions on jobs\<close>

datatype job_action = Edit | ChangeStatus | FindMatches | ManagePublication

fun action_key :: "job_action \<Rightarrow> string" where
  "action_key Edit = ''edit''"
| "action_key ChangeStatus = ''change_status''"
| "action_key FindMatches = ''find_matches''"
| "action_key ManagePublication = ''manage_publication''"

record job_scope =
  js_approvalStatus :: "string option"
  js_status :: "string option"
  js_tenantId :: "string option"
  js_accountManagerId :: "string option"
  js_branchId :: "string option"
  js_businessUnitId :: "string option"
  js_directlyAssigned :: bool
  js_podAssigned :: bool
  js_podsEnabled :: bool

definition isClosedJob :: "string option \<Rightarrow> bool" where
  "isClosedJob status = (upper (trim (or_empty status)) \<in> {''CLOSED'', ''CLOSE''})"

definition isActiveApprovedJob :: "string option \<Rightarrow> string option \<Rightarrow> bool" where
  "isActiveApprovedJob status approvalStatus =
     (map_option (\<lambda>s. upper (trim s)) status = Some ''ACTIVE''
      \<and> (\<not> truthy approvalStatus \<or> approvalStatus = Some ''APPROVED''))"

text \<open>The grants of lines 15 to 33, over the test \<open>has\<close> for a permission key.\<close>

definition job_granted :: "(string \<Rightarrow> bool) \<Rightarrow> auth_user \<Rightarrow> job_scope \<Rightarrow> job_action \<Rightarrow> bool" where
  "job_granted has actor job action =
    (let sameBranch = (truthy (a_branchId actor) \<and> js_branchId job = a_branchId actor);
         sameUnit = (sameBranch \<and> truthy (a_businessUnitId actor)
                     \<and> js_businessUnitId job = a_businessUnitId actor);
         key = action_key action
     in if has ''*'' \<or> has ''platform:manage'' then True
        else if action = FindMatches \<and> \<not> has ''candidate:view'' then False
        else if action = ManagePublication then
          (has ''job:manage_publication_tenant'' \<and> (has ''tenant:manage'' \<or> has ''tenant:settings''))
          \<or> (sameBranch \<and> has ''job:manage_publication_branch'' \<and> has ''branch_admin:manage'')
          \<or> (sameUnit \<and> has ''job:manage_publication_unit'' \<and> has ''unit_admin:manage'')
        else if (action = FindMatches \<and> has ''job:find_matches_assigned'' \<and> has ''job:view''
                 \<and> has ''candidate:view'' \<and> sameUnit)
              \<and> (js_directlyAssigned job \<or> (js_podsEnabled job \<and> js_podAssigned job
                   \<and> (has ''job:view_pod_jobs'' \<or> has ''job:submit_pod_jobs''))) then True
        else if has ''tenant:manage'' \<or> has ''tenant:settings'' then True
        else if has (''job:'' @ key @ ''_tenant'') then True
        else if sameBranch \<and> (has (''job:'' @ key @ ''_branch'') \<or> has ''branch_admin:manage'') then True
        else if sameUnit \<and> (has (''job:'' @ key @ ''_unit'') \<or> has ''unit_admin:manage'') then True
        else sameBranch \<and> (\<not> truthy (a_businessUnitId actor) \<or> sameUnit)
          \<and> js_accountManagerId job = a_dbId actor \<and> has (''job:'' @ key))"

definition canActOnJob :: "auth_user option \<Rightarrow> job_scope \<Rightarrow> job_action \<Rightarrow> bool" where
  "canActOnJob user job action =
    (case user of None \<Rightarrow> False | Some actor \<Rightarrow>
      if \<not> truthy (a_dbId actor) \<or> \<not> truthy (a_tenantId actor) \<or> js_tenantId job \<noteq> a_tenantId actor then False
      else if action \<noteq> ChangeStatus \<and> isClosedJob (js_status job) then False
      else if (action = FindMatches \<or> action = ManagePublication)
          \<and> \<not> isActiveApprovedJob (js_status job) (js_approvalStatus job) then False
      else job_granted (\<lambda>key. key \<in> set (a_permissions actor)) actor job action)"

definition canSubmitToJob :: "auth_user option \<Rightarrow> job_scope \<Rightarrow> bool" where
  "canSubmitToJob user job =
    (case user of None \<Rightarrow> False | Some actor \<Rightarrow>
      truthy (a_dbId actor) \<and> a_tenantId actor = js_tenantId job
      \<and> truthy (a_branchId actor) \<and> a_branchId actor = js_branchId job
      \<and> truthy (a_businessUnitId actor) \<and> a_businessUnitId actor = js_businessUnitId job
      \<and> ''submission:create'' \<in> set (a_permissions actor)
      \<and> isActiveApprovedJob (js_status job) (js_approvalStatus job)
      \<and> (''job:submit_unit_jobs'' \<in> set (a_permissions actor)
         \<or> (''job:submit_owned_jobs'' \<in> set (a_permissions actor) \<and> js_accountManagerId job = a_dbId actor)
         \<or> js_directlyAssigned job
         \<or> (js_podsEnabled job \<and> js_podAssigned job
              \<and> ''job:submit_pod_jobs'' \<in> set (a_permissions actor))))"

definition assertJobAction :: "auth_user option \<Rightarrow> job_scope \<Rightarrow> job_action \<Rightarrow> unit result" where
  "assertJobAction actor job action =
    (if action \<noteq> ChangeStatus \<and> isClosedJob (js_status job)
     then throw (BadRequest ''This job is closed. Reopen it before editing, matching or publishing.'')
     else if \<not> canActOnJob actor job action
     then throw (Forbidden ''You do not have permission to perform this action on this job.'')
     else ok ())"

record job_capabilities =
  jc_edit :: bool
  jc_changeStatus :: bool
  jc_findMatches :: bool
  jc_managePublication :: bool
  jc_submitCandidate :: bool

definition jobCapabilities :: "auth_user option \<Rightarrow> job_scope \<Rightarrow> job_capabilities" where
  "jobCapabilities actor job =
     \<lparr> jc_edit = canActOnJob actor job Edit, jc_changeStatus = canActOnJob actor job ChangeStatus,
       jc_findMatches = canActOnJob actor job FindMatches,
       jc_managePublication = canActOnJob actor job ManagePublication,
       jc_submitCandidate = canSubmitToJob actor job \<rparr>"

section \<open>Submissions\<close>

record submission_capabilities =
  sc_review :: bool
  sc_schedule :: bool
  sc_cancelInterview :: bool
  sc_result_l1 :: bool
  sc_result_l2 :: bool
  sc_result_l3 :: bool
  sc_outcome :: bool
  sc_notes :: bool
  sc_rate :: bool

definition submissionCapabilities ::
  "string list \<Rightarrow> bool \<Rightarrow> string option \<Rightarrow> string option \<Rightarrow> bool \<Rightarrow> bool \<Rightarrow> bool \<Rightarrow> submission_capabilities" where
  "submissionCapabilities permissions isAssignedManager jobStatus finalStatus keepExistingSubmissionsOpen
     creatorReview creatorSelfReview =
    (let paused = (isClosedJob jobStatus \<and> \<not> keepExistingSubmissionsOpen);
         has = (\<lambda>p. ''*'' \<in> set permissions \<or> p \<in> set permissions)
     in \<lparr> sc_review = (\<not> paused \<and> \<not> creatorSelfReview
            \<and> (has ''submission:internal_screening'' \<or> isAssignedManager
               \<or> (creatorReview \<and> has ''submission:internal_screening_created_jobs''))),
          sc_schedule = (\<not> paused \<and> has ''submission:schedule_interview''),
          sc_cancelInterview = (\<not> paused \<and> has ''submission:schedule_interview''),
          sc_result_l1 = (\<not> paused \<and> (has ''submission:audit_rounds'' \<or> has ''submission:audit_l1'')),
          sc_result_l2 = (\<not> paused \<and> (has ''submission:audit_rounds'' \<or> has ''submission:audit_l2'')),
          sc_result_l3 = (\<not> paused \<and> (has ''submission:audit_rounds'' \<or> has ''submission:audit_l3'')),
          sc_outcome = (\<not> paused \<and> has ''submission:final_status''),
          sc_notes = has ''submission:edit'',
          sc_rate = has ''submission:edit_rate'' \<rparr>)"

definition RESUME_HANDOFF_STATUSES :: "string list" where
  "RESUME_HANDOFF_STATUSES = [''SUBMITTED'', ''SELECTED'', ''OFFER'', ''JOIN'']"

definition canDownloadSubmissionResume :: "string \<Rightarrow> string list \<Rightarrow> bool" where
  "canDownloadSubmissionResume finalStatus permissions =
     (includes_any permissions [''*'', ''submission:download_resume'', ''candidate:download_resume'']
      \<and> finalStatus \<in> set RESUME_HANDOFF_STATUSES)"

definition auto_approval_permission :: string where
  "auto_approval_permission = ''submission:auto_approve_internal_review''"

definition SUBMISSION_AUTO_APPROVAL_DEFAULT_ROLES :: "string list" where
  "SUBMISSION_AUTO_APPROVAL_DEFAULT_ROLES =
     [''ACCOUNT_MANAGER'', ''DELIVERY_HEAD'', ''BRANCH_ADMIN'', ''UNIT_ADMIN'', ''TENANT_ADMIN'']"

definition submissionAutoApprovalDefaults :: "string \<Rightarrow> string list" where
  "submissionAutoApprovalDefaults systemKey =
     (if systemKey \<in> set SUBMISSION_AUTO_APPROVAL_DEFAULT_ROLES then [auto_approval_permission] else [])"

record auto_approval_audit =
  aa_permission :: string
  aa_activeRoleId :: "string option"
  aa_activeRoleName :: "string option"

record creation_review =
  cv_finalStatus :: string
  cv_automaticInternalReview :: "auto_approval_audit option"

definition or_null :: "string option \<Rightarrow> string option" where
  "or_null x = (if truthy x then x else None)"

definition submissionCreationReview :: "auth_user option \<Rightarrow> creation_review" where
  "submissionCreationReview user =
    (case user of
       None \<Rightarrow> \<lparr> cv_finalStatus = ''PENDING_APPROVAL'', cv_automaticInternalReview = None \<rparr>
     | Some actor \<Rightarrow>
        (let allowed = (truthy (a_dbId actor) \<and> (\<exists>p \<in> set (a_permissions actor).
                          p = auto_approval_permission \<or> p = ''*''))
         in if allowed then
              \<lparr> cv_finalStatus = ''SUBMITTED'',
                cv_automaticInternalReview = Some \<lparr> aa_permission = auto_approval_permission,
                  aa_activeRoleId = or_null (a_activeRoleId actor),
                  aa_activeRoleName = or_null (a_roleName actor) \<rparr> \<rparr>
            else \<lparr> cv_finalStatus = ''PENDING_APPROVAL'', cv_automaticInternalReview = None \<rparr>))"

section \<open>Assignment policy and pod strategy\<close>

record assignment_policy =
  ap_allowPods :: "bool option"
  ap_allowNone :: "bool option"

definition effectiveJobAssignmentPolicy :: "assignment_policy option \<Rightarrow> bool \<Rightarrow> assignment_policy option" where
  "effectiveJobAssignmentPolicy policy tenantPodsEnabled =
    (case policy of None \<Rightarrow> None | Some p \<Rightarrow>
      (let podsEnabled = (tenantPodsEnabled \<and> ap_allowPods p = Some True)
       in Some (p\<lparr> ap_allowPods := Some podsEnabled,
                   ap_allowNone := (if podsEnabled then ap_allowNone p else Some True) \<rparr>)))"

definition normalizePodStrategy :: "string option \<Rightarrow> string result" where
  "normalizePodStrategy value =
    (let strategy = upper (trim (if truthy value then or_empty value else ''AUTO''))
     in if strategy \<in> {''AUTO'', ''AUTOMATIC'', ''AUTO_ROUND_ROBIN''} then ok ''AUTO''
        else if strategy = ''MANUAL'' then ok ''MANUAL''
        else throw (BadRequest ''Select a valid pod distribution strategy.''))"

definition usesAutomaticPods :: "bool \<Rightarrow> string option \<Rightarrow> bool result" where
  "usesAutomaticPods allowPods podDistributionStrategy =
    (if \<not> allowPods then ok False
     else and_then (normalizePodStrategy podDistributionStrategy) (\<lambda>s. ok (s = ''AUTO'')))"

section \<open>Notification eligibility\<close>

datatype email_category = RoleRequests | RoleApprovals | RoleChanges | PodAssignments

datatype activity_category = JobAlerts | ReviewAlerts | SubmissionAlerts

definition has_one_of :: "string list \<Rightarrow> string list \<Rightarrow> bool" where
  "has_one_of permissions keys = (''*'' \<in> set permissions \<or> includes_any permissions keys)"

definition eligibleEmails :: "string list \<Rightarrow> bool \<Rightarrow> bool \<Rightarrow> email_category list" where
  "eligibleEmails permissions podsEnabled hasBranch =
    (let has = has_one_of permissions
     in [RoleChanges]
        @ (if has [''user:manage'', ''platform:manage'']
              \<and> (has [''tenant:manage'', ''tenant:settings'', ''platform:manage''] \<or> hasBranch)
           then [RoleRequests, RoleApprovals] else [])
        @ (if podsEnabled \<and> has [''pod:view''] \<and> has [''job:assign_recruiter'', ''pod:edit'']
           then [PodAssignments] else []))"

definition eligibleActivities :: "string list \<Rightarrow> activity_category list" where
  "eligibleActivities permissions =
    (let has = has_one_of permissions;
         all = has [''platform:manage'', ''tenant:manage'', ''tenant:settings'', ''branch_admin:manage'', ''unit_admin:manage'']
     in (if all \<or> has [''job:view'', ''job:create''] then [JobAlerts] else [])
        @ (if all \<or> has [''user:manage'', ''job:approve'', ''job:reject'', ''submission:internal_screening'',
               ''submission:audit_rounds'', ''submission:audit_l1'', ''submission:audit_l2'', ''submission:audit_l3'']
           then [ReviewAlerts] else [])
        @ (if all \<or> has [''submission:view'', ''submission:view_all'', ''submission:create'', ''submission:schedule_interview'']
           then [SubmissionAlerts] else []))"

record alert_settings =
  al_jobAlerts :: bool
  al_reviewAlerts :: bool
  al_submissionAlerts :: bool

text \<open>The three patterns are unanchored alternatives but for \<^verbatim>\<open>^JOB_\<close>.\<close>

definition activityEnabled :: "string \<Rightarrow> alert_settings \<Rightarrow> bool" where
  "activityEnabled type settings =
    (if str_includes type ''ROLE_REQUEST'' \<or> str_includes type ''ROLE_APPROV''
        \<or> str_includes type ''PENDING_APPROVAL'' \<or> str_includes type ''REVIEW'' then al_reviewAlerts settings
     else if str_includes type ''SUBMISSION'' \<or> str_includes type ''INTERVIEW'' then al_submissionAlerts settings
     else if prefix ''JOB_'' type \<or> str_includes type ''DELEGATION'' then al_jobAlerts settings
     else True)"

section \<open>What the job policy guarantees\<close>

definition job_allows :: "auth_user \<Rightarrow> (job_scope \<times> job_action) \<Rightarrow> bool" where
  "job_allows u t = canActOnJob (Some u) (fst t) (snd t)"

interpretation job_actions: scoped_policy job_allows "\<lambda>t. js_tenantId (fst t)" "\<lambda>_. False"
  by unfold_locales (simp add: job_allows_def canActOnJob_def split: if_splits)

interpretation job_submission: scoped_policy "\<lambda>u. canSubmitToJob (Some u)" js_tenantId "\<lambda>_. False"
  by unfold_locales (simp add: canSubmitToJob_def)

lemma job_granted_iff:
  "job_granted has actor job action \<longleftrightarrow>
    (let sameBranch = (truthy (a_branchId actor) \<and> js_branchId job = a_branchId actor);
         sameUnit = (sameBranch \<and> truthy (a_businessUnitId actor) \<and> js_businessUnitId job = a_businessUnitId actor)
     in has ''*'' \<or> has ''platform:manage'' \<or>
       ((action = FindMatches \<longrightarrow> has ''candidate:view'') \<and>
        (if action = ManagePublication then
          (has ''job:manage_publication_tenant'' \<and> (has ''tenant:manage'' \<or> has ''tenant:settings''))
          \<or> (sameBranch \<and> has ''job:manage_publication_branch'' \<and> has ''branch_admin:manage'')
          \<or> (sameUnit \<and> has ''job:manage_publication_unit'' \<and> has ''unit_admin:manage'')
         else
          (action = FindMatches \<and> has ''job:find_matches_assigned'' \<and> has ''job:view'' \<and> sameUnit
              \<and> (js_directlyAssigned job \<or> (js_podsEnabled job \<and> js_podAssigned job
                   \<and> (has ''job:view_pod_jobs'' \<or> has ''job:submit_pod_jobs''))))
          \<or> has ''tenant:manage'' \<or> has ''tenant:settings'' \<or> has (''job:'' @ action_key action @ ''_tenant'')
          \<or> (sameBranch \<and> (has (''job:'' @ action_key action @ ''_branch'') \<or> has ''branch_admin:manage''))
          \<or> (sameUnit \<and> (has (''job:'' @ action_key action @ ''_unit'') \<or> has ''unit_admin:manage''))
          \<or> (sameBranch \<and> (\<not> truthy (a_businessUnitId actor) \<or> sameUnit)
               \<and> js_accountManagerId job = a_dbId actor \<and> has (''job:'' @ action_key action)))))"
  unfolding job_granted_def Let_def by argo

lemma if_branches_mono:
  "(P \<longrightarrow> P') \<Longrightarrow> (Q \<longrightarrow> Q') \<Longrightarrow> (if b then P else Q) \<longrightarrow> (if b then P' else Q')"
  by simp

lemma guarded_mono: "(P \<longrightarrow> P') \<Longrightarrow> (b \<longrightarrow> P) \<longrightarrow> (b \<longrightarrow> P')"
  by blast

lemma job_granted_mono:
  assumes "job_granted has actor job action" and "\<And>k. has k \<Longrightarrow> has' k"
  shows "job_granted has' actor job action"
proof -
  have keys: "has k \<longrightarrow> has' k" for k using assms(2) by blast
  have "job_granted has actor job action \<longrightarrow> job_granted has' actor job action"
    unfolding job_granted_iff Let_def
    by (intro disj_mono conj_mono if_branches_mono guarded_mono keys imp_refl)
  with assms(1) show ?thesis by blast
qed

lemma job_granted_upd:
  "job_granted has (actor\<lparr>a_permissions := ps\<rparr>) job action = job_granted has actor job action"
  by (cases actor) (simp only: job_granted_def auth_user.simps)

lemma job_granted_branch:
  assumes "job_granted has actor job action"
    and "\<not> has ''*''" "\<not> has ''platform:manage''" "\<not> has ''tenant:manage''" "\<not> has ''tenant:settings''"
    and "\<not> has (''job:'' @ action_key action @ ''_tenant'')"
  shows "truthy (a_branchId actor) \<and> js_branchId job = a_branchId actor"
  using assms unfolding job_granted_iff Let_def by argo

lemma canActOnJobE:
  assumes "canActOnJob (Some actor) job action"
  shows "truthy (a_dbId actor)" "js_tenantId job = a_tenantId actor"
    "action = ChangeStatus \<or> \<not> isClosedJob (js_status job)"
    "action \<in> {FindMatches, ManagePublication} \<longrightarrow>
       isActiveApprovedJob (js_status job) (js_approvalStatus job)"
  using assms by (auto simp: canActOnJob_def split: if_splits)

text \<open>C28: Acting on a job never leaves the actor's workspace, not even with the platform wildcard; a
  closed job only accepts a change of status; matching and publishing need an active, approved job;
  and without a tenant-wide grant the job must be in the actor's own branch.\<close>

theorem job_action_confined:
  assumes "canActOnJob (Some actor) job action"
  shows "a_tenantId actor = js_tenantId job \<and>
    (isClosedJob (js_status job) \<longrightarrow> action = ChangeStatus) \<and>
    (action \<in> {FindMatches, ManagePublication} \<longrightarrow>
       isActiveApprovedJob (js_status job) (js_approvalStatus job)) \<and>
    (\<not> manages_tenant actor \<and> ''job:'' @ action_key action @ ''_tenant'' \<notin> set (a_permissions actor) \<longrightarrow>
       truthy (a_branchId actor) \<and> a_branchId actor = js_branchId job)"
proof -
  have "truthy (a_branchId actor) \<and> a_branchId actor = js_branchId job"
    if "\<not> manages_tenant actor" "''job:'' @ action_key action @ ''_tenant'' \<notin> set (a_permissions actor)"
  proof -
    have "job_granted (\<lambda>key. key \<in> set (a_permissions actor)) actor job action"
      using assms by (simp add: canActOnJob_def split: if_splits)
    then show ?thesis
      using job_granted_branch that by (simp add: manages_tenant_def)
  qed
  then show ?thesis
    using canActOnJobE [OF assms] by auto
qed

definition active_job :: job_scope where
  "active_job = \<lparr> js_approvalStatus = Some ''APPROVED'', js_status = Some '' Active '', js_tenantId = Some ''t'',
     js_accountManagerId = Some ''u1'', js_branchId = Some ''b'', js_businessUnitId = Some ''n'',
     js_directlyAssigned = True, js_podAssigned = False, js_podsEnabled = False \<rparr>"

lemma active_job_status:
  "upper (trim '' Active '') = ''ACTIVE''" "upper (trim ''ACTIVE'') = ''ACTIVE''"
  by code_simp+

definition recruiter :: auth_user where
  "recruiter = mk_user ''u1'' [''job:edit'', ''job:view'', ''candidate:view'', ''submission:create'']
     ''t'' (Some ''b'') (Some ''n'') (Some ''RECRUITER'')"

lemma recruiter_edits: "canActOnJob (Some recruiter) active_job Edit"
  by (simp add: canActOnJob_def job_granted_def recruiter_def mk_user_def active_job_def isClosedJob_def
      active_job_status Let_def)

lemma job_action_confined_witness:
  "a_branchId recruiter = js_branchId active_job"
  using job_action_confined [OF recruiter_edits]
  by (simp add: manages_tenant_def recruiter_def mk_user_def)

text \<open>The job policy is monotone in the actor's permissions: an action, or a submission, that is
  allowed stays allowed when the actor is given more permissions.\<close>

theorem job_policy_monotone:
  assumes "set (a_permissions actor) \<subseteq> set ps"
  shows "(canActOnJob (Some actor) job action \<longrightarrow>
            canActOnJob (Some (actor\<lparr>a_permissions := ps\<rparr>)) job action) \<and>
         (canSubmitToJob (Some actor) job \<longrightarrow> canSubmitToJob (Some (actor\<lparr>a_permissions := ps\<rparr>)) job)"
proof -
  have sub: "\<And>k. k \<in> set (a_permissions actor) \<Longrightarrow> k \<in> set ps" using assms by blast
  have "canActOnJob (Some actor) job action \<Longrightarrow> canActOnJob (Some (actor\<lparr>a_permissions := ps\<rparr>)) job action"
    using job_granted_mono [of "\<lambda>k. k \<in> set (a_permissions actor)" actor job action "\<lambda>k. k \<in> set ps"] sub
    by (auto simp: canActOnJob_def job_granted_upd split: if_splits)
  moreover have "canSubmitToJob (Some actor) job \<Longrightarrow> canSubmitToJob (Some (actor\<lparr>a_permissions := ps\<rparr>)) job"
    using sub by (auto simp: canSubmitToJob_def)
  ultimately show ?thesis by blast
qed

lemma job_policy_monotone_witness:
  "canActOnJob (Some (recruiter\<lparr>a_permissions := ''x'' # a_permissions recruiter\<rparr>)) active_job Edit"
  using job_policy_monotone [of recruiter "''x'' # a_permissions recruiter" active_job Edit] recruiter_edits
  by auto

text \<open>The enforcing check and the capability flags the client shows agree on every action, and
  the check says which of the two reasons refused it.\<close>

theorem job_check_agrees_with_capabilities:
  "(assertJobAction actor job Edit = ok () \<longleftrightarrow> jc_edit (jobCapabilities actor job)) \<and>
   (assertJobAction actor job ChangeStatus = ok () \<longleftrightarrow> jc_changeStatus (jobCapabilities actor job)) \<and>
   (assertJobAction actor job FindMatches = ok () \<longleftrightarrow> jc_findMatches (jobCapabilities actor job)) \<and>
   (assertJobAction actor job ManagePublication = ok () \<longleftrightarrow> jc_managePublication (jobCapabilities actor job)) \<and>
   (assertJobAction actor job action =
      throw (BadRequest ''This job is closed. Reopen it before editing, matching or publishing.'')
    \<longleftrightarrow> action \<noteq> ChangeStatus \<and> isClosedJob (js_status job))"
proof -
  have "\<not> canActOnJob actor job a" if "a \<noteq> ChangeStatus" "isClosedJob (js_status job)" for a
    using that canActOnJobE(3) by (cases actor) (auto simp: canActOnJob_def)
  then show ?thesis
    by (auto simp: assertJobAction_def jobCapabilities_def)
qed

section \<open>What the submission policies guarantee\<close>



text \<open>A new submission skips the internal review exactly for an identified actor who holds the
  auto-approval permission or the wildcard, and then, and only then, the audit record of the
  automatic review is attached; a submission still under review is never handed to the client.\<close>

theorem creation_review_exact:
  "(cv_finalStatus (submissionCreationReview user) = ''SUBMITTED'' \<longleftrightarrow>
      (\<exists>u. user = Some u \<and> truthy (a_dbId u) \<and>
           includes_any (a_permissions u) [auto_approval_permission, ''*''])) \<and>
   (cv_automaticInternalReview (submissionCreationReview user) \<noteq> None \<longleftrightarrow>
      cv_finalStatus (submissionCreationReview user) = ''SUBMITTED'') \<and>
   (cv_finalStatus (submissionCreationReview user) \<in> {''SUBMITTED'', ''PENDING_APPROVAL''}) \<and>
   (canDownloadSubmissionResume (cv_finalStatus (submissionCreationReview user)) ps \<longrightarrow>
      cv_automaticInternalReview (submissionCreationReview user) \<noteq> None)"
  by (auto simp: submissionCreationReview_def canDownloadSubmissionResume_def
      RESUME_HANDOFF_STATUSES_def Let_def split: option.splits)

lemma creation_review_exact_witness:
  "cv_automaticInternalReview (submissionCreationReview
     (Some (mk_user ''u'' [''*''] ''t'' None None None))) \<noteq> None"
  using creation_review_exact [of "Some (mk_user ''u'' [''*''] ''t'' None None None)" "[''*'']"]
  by (auto simp: mk_user_def)

text \<open>A normalised pod strategy is AUTO or MANUAL and normalising it again keeps it; automatic
  distribution is in use exactly when the unit allows pods and its strategy is AUTO; and a tenant
  without pods always ends up with pods off and unassigned jobs allowed, whatever the unit saved.\<close>

theorem pod_strategy_normal:
  "(normalizePodStrategy v = ok s \<longrightarrow> s \<in> {''AUTO'', ''MANUAL''} \<and> normalizePodStrategy (Some s) = ok s) \<and>
   (usesAutomaticPods allow v = ok True \<longleftrightarrow> allow \<and> normalizePodStrategy v = ok ''AUTO'') \<and>
   (effectiveJobAssignmentPolicy (Some p) False =
      Some (p\<lparr> ap_allowPods := Some False, ap_allowNone := Some True \<rparr>))"
proof -
  have "normalizePodStrategy (Some ''AUTO'') = ok ''AUTO''" "normalizePodStrategy (Some ''MANUAL'') = ok ''MANUAL''"
    by code_simp+
  then show ?thesis
    by (auto simp: normalizePodStrategy_def [of v] usesAutomaticPods_def effectiveJobAssignmentPolicy_def
        and_then_eq_Inr Let_def split: if_splits)
qed

lemma pod_strategy_normal_witness:
  "normalizePodStrategy (Some '' automatic '') = ok ''AUTO'' \<and> normalizePodStrategy (Some ''AUTO'') = ok ''AUTO''"
proof -
  have "normalizePodStrategy (Some '' automatic '') = ok ''AUTO''" by code_simp
  then show ?thesis
    using pod_strategy_normal [of "Some '' automatic ''" "''AUTO''" True "\<lparr>ap_allowPods = None, ap_allowNone = None\<rparr>"]
    by auto
qed

end
