(* ===== verification/Workspace.thy ===== *)
theory Workspace
  imports Store Scoping JobPolicy
begin

text \<open>
  What a request reads from the live workspace before it acts: the feature switch of recruitment
  pods (\<^verbatim>\<open>auth/workspace-features.ts\<close>), the role selected for the request
  (\<^verbatim>\<open>auth/utils/active-role.ts\<close>), the actor of a job (\<^verbatim>\<open>jobs/job-access-context.ts\<close>), the right
  to submit to a job (\<^verbatim>\<open>jobs/job-submission-access.ts\<close>) and the round-robin allocation of pods
  to published jobs (\<^verbatim>\<open>jobs/automatic-pod.ts\<close>).  The row lock of the allocation makes each call
  one step on the store.
\<close>

section \<open>Feature switch\<close>

definition workspaceFeatures :: "bool option \<Rightarrow> bool option \<Rightarrow> bool" where
  "workspaceFeatures tenantEnabled unitAllowed = (tenantEnabled = Some True \<and> unitAllowed = Some True)"

definition loadWorkspaceFeatures :: "store \<Rightarrow> uuid \<Rightarrow> uuid option \<Rightarrow> uuid option \<Rightarrow> bool" where
  "loadWorkspaceFeatures db tenantId businessUnitId branchId =
    (case tenant_by tenantId db of
       None \<Rightarrow> False
     | Some t \<Rightarrow>
         if \<not> tn_podSystemEnabled t then False
         else let unit = find_first (\<lambda>b. bu_tenantId b = tenantId
                    \<and> (if truthy businessUnitId then Some (bu_id b) = businessUnitId else bu_allowPods b)
                    \<and> (truthy branchId \<longrightarrow> bu_branchId b = branchId)) (st_units db)
              in workspaceFeatures (Some (tn_podSystemEnabled t)) (map_option bu_allowPods unit))"

definition assertPodsEnabled :: "store \<Rightarrow> uuid \<Rightarrow> uuid option \<Rightarrow> uuid option \<Rightarrow> unit result" where
  "assertPodsEnabled db tenantId businessUnitId branchId =
    (if \<not> loadWorkspaceFeatures db tenantId businessUnitId branchId
     then throw (Forbidden ''Recruitment pods are disabled for this workspace or operating unit.'')
     else ok ())"

section \<open>The role selected for a request\<close>

definition string_items :: "json \<Rightarrow> string list" where
  "string_items v = (case v of
     JArr ps \<Rightarrow> concat (map (\<lambda>p. case p of JStr s \<Rightarrow> [s] | _ \<Rightarrow> []) ps) | _ \<Rightarrow> [])"

definition role_selection_ok :: "json \<Rightarrow> bool" where
  "role_selection_ok v = (case v of
     JStr s \<Rightarrow> length s = 36 \<and> list_all (\<lambda>c. is_hex c \<or> c = CHR ''-'') s | _ \<Rightarrow> False)"

definition assigned_role_ids :: "user \<Rightarrow> uuid list" where
  "assigned_role_ids member = uniq (present (us_roleId member # map Some (us_assignedRoleIds member)))"

definition without_role :: "auth_user \<Rightarrow> auth_user" where
  "without_role actor =
     actor\<lparr> a_permissions := [], a_roles := Some [], a_systemRole := None, a_activeRoleId := None \<rparr>"

definition with_role :: "auth_user \<Rightarrow> user \<Rightarrow> custom_role \<Rightarrow> auth_user" where
  "with_role actor member role = actor\<lparr>
     a_activeRoleId := Some (cr_id role), a_roleName := Some (cr_name role),
     a_roles := Some [if truthy (cr_systemKey role) then the (cr_systemKey role) else cr_name role],
     a_systemRole := or_null (cr_systemKey role),
     a_permissions := effectiveTenantPermissions (string_items (cr_permissions role)),
     a_branchId := us_branchId member, a_businessUnitId := us_businessUnitId member,
     a_podId := us_podId member \<rparr>"

definition office_mismatch :: "user \<Rightarrow> custom_role \<Rightarrow> bool" where
  "office_mismatch member role =
    ((truthy (cr_branchId role) \<and> cr_branchId role \<noteq> us_branchId member)
     \<or> (truthy (cr_businessUnitId role) \<and> cr_businessUnitId role \<noteq> us_businessUnitId member))"

definition resolveActiveRole :: "store \<Rightarrow> auth_user \<Rightarrow> json option \<Rightarrow> auth_user result" where
  "resolveActiveRole db actor selection =
    (if \<not> if_given selection role_selection_ok then throw (Forbidden ''Invalid active role.'')
     else case find_first (\<lambda>u. if_given (a_dbId actor) (\<lambda>i. us_id u = i)
              \<and> if_given (a_tenantId actor) (\<lambda>t. us_tenantId u = t) \<and> us_isActive u) (st_users db) of
       None \<Rightarrow> throw (Forbidden ''Workspace membership is unavailable.'')
     | Some member \<Rightarrow>
        (let ids = assigned_role_ids member;
             selected = (case selection of Some (JStr s) \<Rightarrow> Some s | _ \<Rightarrow> None);
             i = or_else selected (or_else (us_roleId member) (case ids of [] \<Rightarrow> None | x # _ \<Rightarrow> Some x))
         in case i of
              None \<Rightarrow> ok (without_role actor)
            | Some rid \<Rightarrow>
               if rid \<notin> set ids then throw (Forbidden ''The selected role is not assigned to you.'')
               else case find_first (\<lambda>r. cr_id r = rid \<and> if_given (a_tenantId actor) (\<lambda>t. cr_tenantId r = t))
                      (st_roles db) of
                      None \<Rightarrow> throw (Forbidden ''The selected role is unavailable.'')
                    | Some role \<Rightarrow>
                       if office_mismatch member role
                       then throw (Forbidden ''The selected role does not match your office assignment.'')
                       else ok (with_role actor member role)))"

section \<open>The actor of a job\<close>

record job_actor =
  ja_actor :: "auth_user option"
  ja_podId :: "uuid option"
  ja_podsEnabled :: bool

text \<open>\<open>homeTenantId\<close> and \<open>managedTenant\<close> are the two extra fields of a platform operator's
  session that manages another tenant.\<close>

definition loadJobActor ::
  "store \<Rightarrow> auth_user option \<Rightarrow> uuid option \<Rightarrow> uuid option \<Rightarrow> job_actor result" where
  "loadJobActor db user homeTenantId managedTenant =
    (case user of
       None \<Rightarrow> ok \<lparr> ja_actor = None, ja_podId = None, ja_podsEnabled = False \<rparr>
     | Some actor \<Rightarrow>
        if \<not> truthy (a_dbId actor) \<or> \<not> truthy (a_tenantId actor)
        then ok \<lparr> ja_actor = Some actor, ja_podId = None, ja_podsEnabled = False \<rparr>
        else if truthy homeTenantId \<and> managedTenant = a_tenantId actor
             \<and> includes_any (a_permissions actor) [''platform:manage'', ''*'']
        then (case find_first (\<lambda>u. Some (us_id u) = a_dbId actor \<and> Some (us_tenantId u) = homeTenantId
                      \<and> us_isActive u \<and> us_isApproved u) (st_users db) of
                None \<Rightarrow> throw (Forbidden ''Your current workspace membership is unavailable.'')
              | Some _ \<Rightarrow> ok \<lparr>
                  ja_actor = Some (actor\<lparr> a_branchId := None, a_businessUnitId := None, a_podId := None \<rparr>),
                  ja_podId = None,
                  ja_podsEnabled = loadWorkspaceFeatures db (the (a_tenantId actor)) None None \<rparr>)
        else (case find_first (\<lambda>u. Some (us_id u) = a_dbId actor \<and> Some (us_tenantId u) = a_tenantId actor
                      \<and> us_isActive u \<and> us_isApproved u) (st_users db) of
                None \<Rightarrow> throw (Forbidden ''Your current workspace membership is unavailable.'')
              | Some member \<Rightarrow> ok \<lparr>
                  ja_actor = Some (actor\<lparr> a_branchId := or_null (us_branchId member),
                                           a_businessUnitId := or_null (us_businessUnitId member),
                                           a_podId := or_null (us_podId member) \<rparr>),
                  ja_podId = or_null (us_podId member),
                  ja_podsEnabled = (if truthy (us_businessUnitId member)
                     then loadWorkspaceFeatures db (the (a_tenantId actor)) (us_businessUnitId member) (us_branchId member)
                     else False) \<rparr>))"

fun split_on :: "char \<Rightarrow> string \<Rightarrow> string list" where
  "split_on c [] = [[]]"
| "split_on c (x # xs) = (if x = c then [] # split_on c xs
     else case split_on c xs of [] \<Rightarrow> [[x]] | w # ws \<Rightarrow> (x # w) # ws)"

text \<open>The columns of a raw job row that the scope reads; \<open>recruiter_ids\<close> and \<open>pod_id\<close> arrive as
  comma-separated text or not at all.\<close>

record job_row =
  jw_status :: "string option"
  jw_approval_status :: "string option"
  jw_account_manager_id :: "string option"
  jw_branch_id :: "string option"
  jw_business_unit_id :: "string option"
  jw_recruiter_ids :: "string option"
  jw_pod_id :: "string option"

definition row_ids :: "string option \<Rightarrow> string list" where
  "row_ids v = (case v of None \<Rightarrow> [] | Some s \<Rightarrow> filter (\<lambda>x. x \<noteq> []) (split_on CHR '','' s))"

definition rowJobScope :: "job_row \<Rightarrow> uuid \<Rightarrow> job_actor \<Rightarrow> job_scope" where
  "rowJobScope row tenantId context =
    \<lparr> js_approvalStatus = jw_approval_status row, js_status = jw_status row, js_tenantId = Some tenantId,
      js_accountManagerId = jw_account_manager_id row, js_branchId = jw_branch_id row,
      js_businessUnitId = jw_business_unit_id row,
      js_directlyAssigned = (case Option.bind (ja_actor context) a_dbId of
         None \<Rightarrow> False | Some i \<Rightarrow> i \<noteq> [] \<and> i \<in> set (row_ids (jw_recruiter_ids row))),
      js_podAssigned = (case ja_podId context of
         None \<Rightarrow> False | Some p \<Rightarrow> p \<noteq> [] \<and> p \<in> set (row_ids (jw_pod_id row))),
      js_podsEnabled = ja_podsEnabled context \<rparr>"

section \<open>Submitting a candidate to a job\<close>

definition assertJobSubmissionAccess ::
  "store \<Rightarrow> auth_user option \<Rightarrow> uuid \<Rightarrow> uuid \<Rightarrow> uuid \<Rightarrow> unit result" where
  "assertJobSubmissionAccess db user tenantId jobId recruiterId =
    (case user of
       None \<Rightarrow> throw (Forbidden ''Missing submission:create permission.'')
     | Some actor \<Rightarrow>
      (let has = (\<lambda>key. key \<in> set (a_permissions actor)) in
       if \<not> truthy (a_dbId actor) \<or> \<not> has ''submission:create''
       then throw (Forbidden ''Missing submission:create permission.'')
       else if a_tenantId actor \<noteq> Some tenantId
       then throw (Forbidden ''Submission belongs to another workspace.'')
       else if Some recruiterId \<noteq> a_dbId actor
       then throw (Forbidden ''Submit candidates under your own recruiter account.'')
       else case find_first (\<lambda>u. us_id u = recruiterId \<and> us_tenantId u = tenantId
                   \<and> us_isActive u \<and> us_isApproved u) (st_users db) of
         None \<Rightarrow> throw (Forbidden ''A current branch and unit assignment is required.'')
       | Some member \<Rightarrow>
          if \<not> truthy (us_branchId member) \<or> \<not> truthy (us_businessUnitId member)
          then throw (Forbidden ''A current branch and unit assignment is required.'')
          else case find_first (\<lambda>j. jb_id j = jobId \<and> jb_tenantId j = tenantId
                      \<and> jb_branchId j = us_branchId member \<and> jb_businessUnitId j = us_businessUnitId member
                      \<and> jb_deletedAt j = None) (st_jobs db) of
            None \<Rightarrow> throw (Forbidden ''Job is outside your current unit.'')
          | Some job \<Rightarrow>
             if \<not> isActiveApprovedJob (jb_status job) (jb_approvalStatus job)
             then throw (Forbidden ''Only active, approved jobs accept candidate submissions.'')
             else if has ''job:submit_unit_jobs''
                  \<or> (has ''job:submit_owned_jobs'' \<and> jb_accountManagerId job = a_dbId actor)
             then ok ()
             else if find_first (\<lambda>r. jr_jobId r = jobId \<and> jr_recruiterId r = recruiterId) (st_jobRecruiters db) \<noteq> None
             then ok ()
             else and_then (if has ''job:submit_pod_jobs''
                            then assertPodsEnabled db tenantId (us_businessUnitId member) (us_branchId member)
                            else ok ())
               (\<lambda>_. if has ''job:submit_pod_jobs'' \<and> truthy (us_podId member)
                       \<and> find_first (\<lambda>r. jp_jobId r = jobId \<and> Some (jp_podId r) = us_podId member) (st_jobPods db) \<noteq> None
                    then ok ()
                    else throw (Forbidden ''Ask your pod lead to assign this job to you before submitting.''))))"

section \<open>Round-robin allocation of pods\<close>

definition pod_eligible :: "store \<Rightarrow> uuid \<Rightarrow> uuid option \<Rightarrow> uuid \<Rightarrow> pod \<Rightarrow> bool" where
  "pod_eligible db tenantId branchId unitId p =
    (pd_tenantId p = tenantId \<and> pd_branchId p = branchId \<and> pd_businessUnitId p = Some unitId
     \<and> (\<exists>h \<in> set (st_users db). pd_podHeadId p = Some (us_id h) \<and> us_tenantId h = tenantId
          \<and> us_businessUnitId h = Some unitId \<and> us_isActive h \<and> us_isApproved h)
     \<and> (\<exists>u \<in> set (st_users db). us_podId u = Some (pd_id p) \<and> us_tenantId u = tenantId
          \<and> us_businessUnitId u = Some unitId \<and> us_isActive u \<and> us_isApproved u))"

definition eligible_pods :: "store \<Rightarrow> uuid \<Rightarrow> uuid option \<Rightarrow> uuid \<Rightarrow> pod list" where
  "eligible_pods db tenantId branchId unitId =
     sort_key pd_createdAt (sort_key pd_id (find_many (pod_eligible db tenantId branchId unitId) (st_pods db)))"

definition set_available :: "(pod \<Rightarrow> bool) \<Rightarrow> bool \<Rightarrow> store \<Rightarrow> store" where
  "set_available p v db =
     db\<lparr> st_pods := update_where p (\<lambda>r. r\<lparr> pd_isAvailableForAssignment := v \<rparr>) (st_pods db) \<rparr>"

definition allocateAutomaticPod ::
  "uuid \<Rightarrow> uuid option \<Rightarrow> uuid \<Rightarrow> store \<Rightarrow> (uuid option \<times> store) result" where
  "allocateAutomaticPod tenantId branchId unitId db =
    and_then (assertPodsEnabled db tenantId (Some unitId) branchId) (\<lambda>_.
      case find_first (\<lambda>b. bu_id b = unitId \<and> bu_tenantId b = tenantId \<and> bu_branchId b = branchId) (st_units db) of
        None \<Rightarrow> throw (BadRequest ''The assignment policy changed. Refresh the job form.'')
      | Some policy \<Rightarrow>
          and_then (usesAutomaticPods (bu_allowPods policy) (Some (bu_podDistributionStrategy policy))) (\<lambda>auto.
            if \<not> auto then throw (BadRequest ''The assignment policy changed. Refresh the job form.'')
            else (let pods = eligible_pods db tenantId branchId unitId
                  in case pods of
                       [] \<Rightarrow> if bu_allowUnassigned policy then ok (None, db)
                             else throw (BadRequest ''This unit has no eligible pod. Add an active pod lead and members before publishing.'')
                     | first # _ \<Rightarrow>
                         (case find_first pd_isAvailableForAssignment pods of
                            Some next \<Rightarrow> ok (Some (pd_id next), set_available (\<lambda>p. pd_id p = pd_id next) False db)
                          | None \<Rightarrow>
                              (let reset = set_available (\<lambda>p. pod_eligible db tenantId branchId unitId p
                                             \<and> pd_id p \<in> set (map pd_id pods)) True db
                               in ok (Some (pd_id first), set_available (\<lambda>p. pd_id p = pd_id first) False reset))))))"

section \<open>The allocation as an abstract ring\<close>

text \<open>
  The ring a unit's allocation works on: the eligible pods in creation order, each with its
  availability.  \<open>ring_pick\<close> takes the first available entry, and starts a new cycle with the
  first entry when none is left.
\<close>

definition ring :: "store \<Rightarrow> uuid \<Rightarrow> uuid option \<Rightarrow> uuid \<Rightarrow> (uuid \<times> bool) list" where
  "ring db tenantId branchId unitId =
     map (\<lambda>p. (pd_id p, pd_isAvailableForAssignment p)) (eligible_pods db tenantId branchId unitId)"

definition ring_pick :: "(uuid \<times> bool) list \<Rightarrow> uuid \<times> (uuid \<times> bool) list" where
  "ring_pick r = (case find_first snd r of
     Some (i, _) \<Rightarrow> (i, map (\<lambda>(j, b). (j, if j = i then False else b)) r)
   | None \<Rightarrow> (fst (hd r), map (\<lambda>(j, b). (j, j \<noteq> fst (hd r))) r))"

fun allocations ::
  "nat \<Rightarrow> uuid \<Rightarrow> uuid option \<Rightarrow> uuid \<Rightarrow> store \<Rightarrow> (uuid option list \<times> store) result" where
  "allocations 0 tenantId branchId unitId db = ok ([], db)"
| "allocations (Suc n) tenantId branchId unitId db =
     and_then (allocateAutomaticPod tenantId branchId unitId db) (\<lambda>(p, db').
       and_then (allocations n tenantId branchId unitId db') (\<lambda>(ps, db''). ok (p # ps, db'')))"

definition allocation_ready :: "store \<Rightarrow> uuid \<Rightarrow> uuid option \<Rightarrow> uuid \<Rightarrow> bool" where
  "allocation_ready db tenantId branchId unitId =
    (assertPodsEnabled db tenantId (Some unitId) branchId = ok ()
     \<and> (case find_first (\<lambda>b. bu_id b = unitId \<and> bu_tenantId b = tenantId \<and> bu_branchId b = branchId) (st_units db) of
          None \<Rightarrow> False
        | Some policy \<Rightarrow> usesAutomaticPods (bu_allowPods policy) (Some (bu_podDistributionStrategy policy)) = ok True))"

lemma insort_key_map:
  assumes "\<And>x. f (g x) = f x"
  shows "insort_key f (g x) (map g xs) = map g (insort_key f x xs)"
  by (induction xs) (simp_all add: assms)

lemma sort_key_map:
  assumes "\<And>x. f (g x) = f x"
  shows "sort_key f (map g xs) = map g (sort_key f xs)"
  by (induction xs) (simp_all add: assms insort_key_map)

lemma set_available_simps [simp]:
  "st_users (set_available q v db) = st_users db"
  "st_units (set_available q v db) = st_units db"
  "st_tenants (set_available q v db) = st_tenants db"
  "map pd_id (st_pods (set_available q v db)) = map pd_id (st_pods db)"
  by (simp_all add: set_available_def map_update_where)

lemma set_available_only_pods:
  "(set_available q v db)\<lparr> st_pods := st_pods db \<rparr> = db"
  by (simp add: set_available_def)

lemma pod_eligible_flag [simp]:
  "pod_eligible db t b n (p\<lparr> pd_isAvailableForAssignment := v \<rparr>) = pod_eligible db t b n p"
  "pod_eligible (set_available q w db) t b n p = pod_eligible db t b n p"
  by (simp_all add: pod_eligible_def)

lemma loadWorkspaceFeatures_cong:
  "st_tenants db' = st_tenants db \<Longrightarrow> st_units db' = st_units db \<Longrightarrow>
    loadWorkspaceFeatures db' t n b = loadWorkspaceFeatures db t n b"
  by (simp add: loadWorkspaceFeatures_def tenant_by_def Let_def cong: option.case_cong)

lemma allocation_ready_set_available [simp]:
  "allocation_ready (set_available q v db) t b n = allocation_ready db t b n"
  using loadWorkspaceFeatures_cong [of "set_available q v db" db]
  by (simp add: allocation_ready_def assertPodsEnabled_def)

lemma eligible_pods_set_available:
  "eligible_pods (set_available q v db) t b n =
     map (\<lambda>p. if q p then p\<lparr> pd_isAvailableForAssignment := v \<rparr> else p) (eligible_pods db t b n)"
proof -
  let ?g = "\<lambda>p. if q p then p\<lparr> pd_isAvailableForAssignment := v \<rparr> else p"
  have e: "pod_eligible (set_available q v db) t b n = pod_eligible db t b n"
    by (rule ext) simp
  have f: "find_many (pod_eligible (set_available q v db) t b n) (st_pods (set_available q v db))
      = map ?g (find_many (pod_eligible db t b n) (st_pods db))"
    unfolding e
    by (simp add: find_many_def set_available_def update_where_def filter_map comp_def if_distrib cong: if_cong)
  show ?thesis
    unfolding eligible_pods_def f by (simp add: sort_key_map if_distrib cong: if_cong)
qed

lemma set_eligible_pods:
  "set (eligible_pods db t b n) = {p \<in> set (st_pods db). pod_eligible db t b n p}"
  by (simp add: eligible_pods_def)

lemma distinct_eligible_ids:
  assumes "distinct (map pd_id (st_pods db))"
  shows "distinct (map pd_id (eligible_pods db t b n))"
proof -
  have "distinct (st_pods db)" and "inj_on pd_id (set (st_pods db))"
    using assms by (simp_all add: distinct_map)
  then have "distinct (eligible_pods db t b n)"
    by (simp add: eligible_pods_def find_many_def)
  moreover have "inj_on pd_id (set (eligible_pods db t b n))"
    using \<open>inj_on pd_id (set (st_pods db))\<close> by (auto simp: set_eligible_pods inj_on_def)
  ultimately show ?thesis by (simp add: distinct_map)
qed

text \<open>One allocation of the code is one pick of the ring, and touches only availability.\<close>

lemma allocate_refines_ring:
  assumes ready: "allocation_ready db t b n" and ne: "eligible_pods db t b n \<noteq> []"
  obtains db' where "allocateAutomaticPod t b n db = ok (Some (fst (ring_pick (ring db t b n))), db')"
    and "ring db' t b n = snd (ring_pick (ring db t b n))"
    and "allocation_ready db' t b n" and "db'\<lparr> st_pods := st_pods db \<rparr> = db"
    and "map pd_id (st_pods db') = map pd_id (st_pods db)"
    and "map pd_id (eligible_pods db' t b n) = map pd_id (eligible_pods db t b n)"
proof -
  let ?pods = "eligible_pods db t b n"
  obtain first rest where pods: "?pods = first # rest" using ne by (cases ?pods) auto
  have enabled: "assertPodsEnabled db t (Some n) b = ok ()"
    using ready by (simp add: allocation_ready_def)
  obtain policy where pol: "find_first (\<lambda>x. bu_id x = n \<and> bu_tenantId x = t \<and> bu_branchId x = b) (st_units db) = Some policy"
    and auto: "usesAutomaticPods (bu_allowPods policy) (Some (bu_podDistributionStrategy policy)) = ok True"
    using ready by (auto simp: allocation_ready_def split: option.splits)
  show thesis
  proof (cases "find_first pd_isAvailableForAssignment ?pods")
    case (Some x)
    let ?db = "set_available (\<lambda>p. pd_id p = pd_id x) False db"
    have "find_first snd (ring db t b n) = Some (pd_id x, pd_isAvailableForAssignment x)"
      using Some by (simp add: ring_def find_first_map comp_def)
    then have pick: "ring_pick (ring db t b n) =
        (pd_id x, map (\<lambda>(j, c). (j, if j = pd_id x then False else c)) (ring db t b n))"
      by (simp add: ring_pick_def)
    show thesis
    proof (rule that [of ?db])
      show "allocateAutomaticPod t b n db = ok (Some (fst (ring_pick (ring db t b n))), ?db)"
        using enabled pol auto pods Some pick by (simp add: allocateAutomaticPod_def)
      show "ring ?db t b n = snd (ring_pick (ring db t b n))"
        unfolding pick by (simp add: ring_def eligible_pods_set_available)
    qed (simp_all add: ready set_available_only_pods eligible_pods_set_available)
  next
    case None
    let ?reset = "set_available (\<lambda>p. pod_eligible db t b n p \<and> pd_id p \<in> set (map pd_id ?pods)) True db"
    let ?db = "set_available (\<lambda>p. pd_id p = pd_id first) False ?reset"
    have "find_first snd (ring db t b n) = None"
      using None by (simp add: ring_def find_first_map comp_def)
    moreover have "hd (ring db t b n) = (pd_id first, pd_isAvailableForAssignment first)"
      by (simp add: ring_def pods)
    ultimately have pick: "ring_pick (ring db t b n) =
        (pd_id first, map (\<lambda>(j, c). (j, j \<noteq> pd_id first)) (ring db t b n))"
      by (simp add: ring_pick_def)
    show thesis
    proof (rule that [of ?db])
      show "allocateAutomaticPod t b n db = ok (Some (fst (ring_pick (ring db t b n))), ?db)"
        using enabled pol auto pods None pick by (simp add: allocateAutomaticPod_def)
      show "ring ?db t b n = snd (ring_pick (ring db t b n))"
        unfolding pick by (auto simp: ring_def eligible_pods_set_available set_eligible_pods)
      show "?db\<lparr> st_pods := st_pods db \<rparr> = db"
        by (simp add: set_available_def)
      show "map pd_id (eligible_pods ?db t b n) = map pd_id (eligible_pods db t b n)"
        by (simp add: eligible_pods_set_available)
    qed (simp_all add: ready del: set_map)
  qed
qed

text \<open>A ring in mid-cycle: the first \<open>i\<close> entries have had their turn.\<close>

definition mid_cycle :: "uuid list \<Rightarrow> nat \<Rightarrow> (uuid \<times> bool) list" where
  "mid_cycle ids i = map (\<lambda>k. (ids ! k, i \<le> k)) [0..<length ids]"

lemma find_first_mid_cycle:
  "find_first snd (mid_cycle ids i) = (if i < length ids then Some (ids ! i, True) else None)"
proof (cases "i < length ids")
  case True
  have "find (\<lambda>k. i \<le> k) [0..<length ids] = Some i"
  proof -
    have "[0..<length ids] = [0..<i] @ i # [Suc i..<length ids]"
      using True upt_add_eq_append [of 0 i "length ids - i"] by (simp add: upt_conv_Cons)
    moreover have "find (\<lambda>k. i \<le> k) ([0..<i] @ i # [Suc i..<length ids]) = Some i"
    proof -
      have "find p (xs @ y # ys) = Some y" if "\<forall>x \<in> set xs. \<not> p x" "p y" for p and xs ys :: "nat list" and y
        using that by (induction xs) auto
      then show ?thesis by auto
    qed
    ultimately show ?thesis by simp
  qed
  with True show ?thesis
    by (simp add: mid_cycle_def find_first_map comp_def) (simp add: find_first_def)
qed (auto simp: mid_cycle_def find_first_None)

lemma ring_pick_mid_cycle:
  assumes "distinct ids" and "ids \<noteq> []" and "i \<le> length ids"
  shows "ring_pick (mid_cycle ids i) =
     (if i < length ids then (ids ! i, mid_cycle ids (Suc i)) else (ids ! 0, mid_cycle ids 1))"
proof (cases "i < length ids")
  case True
  have "(if ids ! k = ids ! i then False else i \<le> k) = (Suc i \<le> k)" if "k < length ids" for k
    using assms(1) True that by (auto simp: nth_eq_iff_index_eq)
  with True show ?thesis
    by (simp add: ring_pick_def find_first_mid_cycle) (simp add: mid_cycle_def)
next
  case False
  have "(ids ! k \<noteq> ids ! 0) = (Suc 0 \<le> k)" if "k < length ids" for k
    using assms(1,2) that by (auto simp: nth_eq_iff_index_eq)
  moreover have "hd (mid_cycle ids i) = (ids ! 0, i \<le> 0)"
    using assms(2) by (simp add: mid_cycle_def hd_map upt_conv_Cons)
  ultimately show ?thesis
    using False by (simp add: ring_pick_def find_first_mid_cycle) (simp add: mid_cycle_def)
qed

lemma only_pods_trans:
  assumes "db1\<lparr> st_pods := st_pods db \<rparr> = db" and "db2\<lparr> st_pods := st_pods db1 \<rparr> = db1"
  shows "db2\<lparr> st_pods := st_pods db \<rparr> = db"
proof -
  have "db2\<lparr> st_pods := st_pods db \<rparr> = (db2\<lparr> st_pods := st_pods db1 \<rparr>)\<lparr> st_pods := st_pods db \<rparr>"
    by simp
  then show ?thesis by (simp only: assms)
qed

lemma allocations_from_mid_cycle:
  assumes "allocation_ready db t b n" and "distinct (map pd_id (st_pods db))"
    and "ids = map pd_id (eligible_pods db t b n)" and "ids \<noteq> []"
    and "i \<le> length ids" and "ring db t b n = mid_cycle ids i"
  shows "\<exists>db'. allocations m t b n db = ok (map (\<lambda>k. Some (ids ! ((i + k) mod length ids))) [0..<m], db')
    \<and> db'\<lparr> st_pods := st_pods db \<rparr> = db"
  using assms
proof (induction m arbitrary: db i)
  case 0
  then show ?case by simp
next
  case (Suc m)
  have ne: "eligible_pods db t b n \<noteq> []" using Suc.prems(3,4) by auto
  have dist: "distinct ids" using Suc.prems(2,3) distinct_eligible_ids by simp
  obtain db1 where a: "allocateAutomaticPod t b n db = ok (Some (fst (ring_pick (ring db t b n))), db1)"
    and r: "ring db1 t b n = snd (ring_pick (ring db t b n))"
    and ready: "allocation_ready db1 t b n" and only: "db1\<lparr> st_pods := st_pods db \<rparr> = db"
    and same: "map pd_id (st_pods db1) = map pd_id (st_pods db)"
    and ids: "map pd_id (eligible_pods db1 t b n) = map pd_id (eligible_pods db t b n)"
    using allocate_refines_ring [OF Suc.prems(1) ne] by metis
  define j where "j = (if i < length ids then Suc i else 1)"
  have pick: "ring_pick (ring db t b n) = (ids ! (i mod length ids), mid_cycle ids j)"
    using ring_pick_mid_cycle [OF dist Suc.prems(4,5)] Suc.prems(5,6) by (auto simp: j_def)
  have len: "0 < length ids" using Suc.prems(4) by simp
  have jlen: "j \<le> length ids" using len by (auto simp: j_def Suc_le_eq)
  have jmod: "(j + k) mod length ids = (i + Suc k) mod length ids" for k
  proof (cases "i < length ids")
    case True
    then show ?thesis by (simp add: j_def)
  next
    case False
    then have "i = length ids" using Suc.prems(5) by simp
    then show ?thesis using mod_add_self1 [of "length ids" "Suc k"] by (simp add: j_def)
  qed
  obtain db2 where b: "allocations m t b n db1 =
      ok (map (\<lambda>k. Some (ids ! ((j + k) mod length ids))) [0..<m], db2)"
    and only2: "db2\<lparr> st_pods := st_pods db1 \<rparr> = db1"
    using Suc.IH [of db1 j] ready same ids Suc.prems(2,3,4) jlen r pick by auto
  have "allocations (Suc m) t b n db =
      ok (Some (ids ! (i mod length ids)) # map (\<lambda>k. Some (ids ! ((i + Suc k) mod length ids))) [0..<m], db2)"
    using a b by (simp add: pick jmod)
  also have "Some (ids ! (i mod length ids)) # map (\<lambda>k. Some (ids ! ((i + Suc k) mod length ids))) [0..<m]
      = map (\<lambda>k. Some (ids ! ((i + k) mod length ids))) [0..<Suc m]"
    by (simp add: map_upt_Suc del: upt_Suc)
  finally have "allocations (Suc m) t b n db =
      ok (map (\<lambda>k. Some (ids ! ((i + k) mod length ids))) [0..<Suc m], db2)" .
  moreover have "db2\<lparr> st_pods := st_pods db \<rparr> = db"
    using only only2 by (rule only_pods_trans)
  ultimately show ?case by blast
qed

section \<open>Properties\<close>

text \<open>C9: Round robin is fair: from a fresh cycle, consecutive allocations hand out the unit's
  eligible pods in creation order, over and over, so the \<open>k\<close>-th job goes to pod \<open>k\<close> modulo their
  number; nothing but the pods' availability changes.\<close>

theorem round_robin_fair:
  assumes "allocation_ready db t b n" and "distinct (map pd_id (st_pods db))"
    and "ids = map pd_id (eligible_pods db t b n)" and "ids \<noteq> []"
    and "list_all pd_isAvailableForAssignment (eligible_pods db t b n)"
  shows "\<exists>db'. allocations m t b n db = ok (map (\<lambda>k. Some (ids ! (k mod length ids))) [0..<m], db')
    \<and> db'\<lparr> st_pods := st_pods db \<rparr> = db"
proof -
  have "ring db t b n = mid_cycle ids 0"
    unfolding ring_def mid_cycle_def assms(3)
    by (intro nth_equalityI) (use assms(5) in \<open>auto simp: list_all_length\<close>)
  then show ?thesis
    using allocations_from_mid_cycle [of db t b n ids 0 m] assms(1-4) by simp
qed

lemma round_robin_fair_witness:
  "\<exists>db'. allocations 3 ''t'' (Some ''b'') ''n'' two_pods = ok ([Some ''p1'', Some ''p2'', Some ''p1''], db')"
proof -
  have e: "eligible_pods two_pods ''t'' (Some ''b'') ''n'' = st_pods two_pods"
    by code_simp
  have r: "allocation_ready two_pods ''t'' (Some ''b'') ''n''"
    by code_simp
  have i: "[''p1'', ''p2''] = map pd_id (eligible_pods two_pods ''t'' (Some ''b'') ''n'')"
    "list_all pd_isAvailableForAssignment (eligible_pods two_pods ''t'' (Some ''b'') ''n'')"
    "distinct (map pd_id (st_pods two_pods))"
    unfolding e by code_simp+
  have m: "map (\<lambda>k. Some ([''p1'', ''p2''] ! (k mod length [''p1'', ''p2'']))) [0..<3]
      = [Some ''p1'', Some ''p2'', Some ''p1'']"
    by code_simp
  show ?thesis
    using round_robin_fair [OF r i(3) i(1) _ i(2), of 3] unfolding m by blast
qed

lemma resolveActiveRole_cases:
  assumes "resolveActiveRole db actor selection = ok current"
    and "a_dbId actor = Some i" and "a_tenantId actor = Some t"
  obtains (no_role) member where "member \<in> set (st_users db)" "us_id member = i" "us_tenantId member = t"
      "us_isActive member" "current = without_role actor"
  | (role) member r where "member \<in> set (st_users db)" "us_id member = i" "us_tenantId member = t"
      "us_isActive member" "r \<in> set (st_roles db)" "cr_tenantId r = t"
      "cr_id r \<in> set (assigned_role_ids member)" "\<not> office_mismatch member r"
      "current = with_role actor member r"
proof -
  obtain member where f: "find_first (\<lambda>u. us_id u = i \<and> us_tenantId u = t \<and> us_isActive u) (st_users db) = Some member"
    and rest: "resolveActiveRole db actor selection = ok current"
    using assms by (auto simp: resolveActiveRole_def split: if_splits option.splits)
  have m: "member \<in> set (st_users db)" "us_id member = i" "us_tenantId member = t" "us_isActive member"
    using find_first_Some [OF f] by auto
  show thesis
    using rest m assms(2,3) f that
    by (auto simp: resolveActiveRole_def Let_def split: if_splits option.splits dest!: find_first_Some)
qed

text \<open>C27: The role of a request is one current assignment of one active member: whatever role is
  selected, the resolved actor keeps the identity and tenant, and holds exactly the effective
  permissions of a single role of that tenant that is assigned to the member and matches the
  member's branch and unit; a member without any role holds no permission.\<close>

theorem active_role_sound:
  assumes "resolveActiveRole db actor selection = ok current"
    and "a_dbId actor = Some i" and "a_tenantId actor = Some t"
  shows "a_dbId current = Some i \<and> a_tenantId current = Some t \<and>
    (\<exists>member \<in> set (st_users db). us_id member = i \<and> us_tenantId member = t \<and> us_isActive member \<and>
      (a_permissions current = [] \<and> a_activeRoleId current = None \<or>
       (\<exists>role \<in> set (st_roles db). cr_tenantId role = t \<and> a_activeRoleId current = Some (cr_id role) \<and>
          (us_roleId member = Some (cr_id role) \<or> cr_id role \<in> set (us_assignedRoleIds member)) \<and>
          (truthy (cr_branchId role) \<longrightarrow> cr_branchId role = us_branchId member) \<and>
          (truthy (cr_businessUnitId role) \<longrightarrow> cr_businessUnitId role = us_businessUnitId member) \<and>
          a_permissions current = effectiveTenantPermissions (string_items (cr_permissions role)))))"
  using assms
proof (cases rule: resolveActiveRole_cases)
  case (no_role member)
  then show ?thesis using assms(2,3) by (auto simp: without_role_def)
next
  case (role member r)
  have "us_roleId member = Some (cr_id r) \<or> cr_id r \<in> set (us_assignedRoleIds member)"
    using role(7) by (auto simp: assigned_role_ids_def set_present)
  then show ?thesis
    using role assms(2,3) by (auto simp: with_role_def office_mismatch_def)
qed

lemma active_role_sound_witness:
  "\<exists>current. resolveActiveRole two_pods (mk_user ''h1'' [''*''] ''t'' None None None) None = ok current
     \<and> a_permissions current \<noteq> [''*'']"
proof -
  let ?u = "mk_user ''h1'' [''*''] ''t'' None None None"
  obtain c where c: "resolveActiveRole two_pods ?u None = ok c" and p: "a_permissions c = []"
    by (simp add: resolveActiveRole_def two_pods_def empty_store_def mk_user_def mk_member_def mk_role_def
        find_first_def assigned_role_ids_def office_mismatch_def with_role_def string_items_def
        effectiveTenantPermissions_def Let_def)
  from active_role_sound [OF c, of "''h1''" "''t''"] have "a_dbId c = Some ''h1''"
    by (simp add: mk_user_def)
  with c p show ?thesis by (metis list.distinct(1))
qed

section \<open>Enforcement and display of the right to submit\<close>

fun comma_join :: "string list \<Rightarrow> string" where
  "comma_join [] = []"
| "comma_join [x] = x"
| "comma_join (x # y # xs) = x @ '','' @ comma_join (y # xs)"

text \<open>The raw row that the job list reads for a job, with its recruiters and pods aggregated.\<close>

definition job_row_of :: "store \<Rightarrow> job \<Rightarrow> job_row" where
  "job_row_of db job = \<lparr> jw_status = jb_status job, jw_approval_status = jb_approvalStatus job,
     jw_account_manager_id = jb_accountManagerId job, jw_branch_id = jb_branchId job,
     jw_business_unit_id = jb_businessUnitId job,
     jw_recruiter_ids = Some (comma_join (map jr_recruiterId
       (filter (\<lambda>r. jr_jobId r = jb_id job) (st_jobRecruiters db)))),
     jw_pod_id = Some (comma_join (map jp_podId (filter (\<lambda>r. jp_jobId r = jb_id job) (st_jobPods db)))) \<rparr>"

definition plain_ids :: "store \<Rightarrow> bool" where
  "plain_ids db = ((\<forall>r \<in> set (st_jobRecruiters db). CHR '','' \<notin> set (jr_recruiterId r))
     \<and> (\<forall>r \<in> set (st_jobPods db). CHR '','' \<notin> set (jp_podId r)))"

lemma split_on_plain: "c \<notin> set x \<Longrightarrow> split_on c x = [x]"
  by (induction x) auto

lemma split_on_append: "c \<notin> set x \<Longrightarrow> split_on c (x @ c # ys) = x # split_on c ys"
  by (induction x) auto

lemma row_ids_comma_join:
  "\<forall>x \<in> set xs. CHR '','' \<notin> set x \<Longrightarrow> row_ids (Some (comma_join xs)) = filter (\<lambda>x. x \<noteq> []) xs"
  by (induction xs rule: comma_join.induct)
    (auto simp: row_ids_def split_on_plain split_on_append)

text \<open>C32: The enforcing check of a submission and the flag the client is shown agree: for a live
  job of the actor's tenant, a signed-in member may submit exactly when the capability computed
  from the live membership and the job's row says so.\<close>

theorem submission_check_agrees:
  assumes "distinct (map jb_id (st_jobs db))" and "plain_ids db"
    and "job \<in> set (st_jobs db)" and "jb_tenantId job = t" and "jb_deletedAt job = None"
    and "a_dbId actor = Some i" and "i \<noteq> []" and "a_tenantId actor = Some t" and "t \<noteq> []"
    and "loadJobActor db (Some actor) None None = ok ctx"
  shows "assertJobSubmissionAccess db (Some actor) t (jb_id job) i = ok () \<longleftrightarrow>
    canSubmitToJob (ja_actor ctx) (rowJobScope (job_row_of db job) t ctx)"
proof -
  obtain m where m: "find_first (\<lambda>u. us_id u = i \<and> us_tenantId u = t \<and> us_isActive u \<and> us_isApproved u)
      (st_users db) = Some m"
    and ctx: "ctx = \<lparr> ja_actor = Some (actor\<lparr> a_branchId := or_null (us_branchId m),
        a_businessUnitId := or_null (us_businessUnitId m), a_podId := or_null (us_podId m) \<rparr>),
      ja_podId = or_null (us_podId m),
      ja_podsEnabled = (truthy (us_businessUnitId m)
        \<and> loadWorkspaceFeatures db t (us_businessUnitId m) (us_branchId m)) \<rparr>"
    using assms(6-10) by (auto simp: loadJobActor_def split: option.splits)
  let ?here = "jb_branchId job = us_branchId m \<and> jb_businessUnitId job = us_businessUnitId m"
  have j: "find_first (\<lambda>j. jb_id j = jb_id job \<and> jb_tenantId j = t \<and> jb_branchId j = us_branchId m
      \<and> jb_businessUnitId j = us_businessUnitId m \<and> jb_deletedAt j = None) (st_jobs db)
      = (if ?here then Some job else None)"
    by (subst find_first_eq_Some_iff [OF assms(1) _ assms(3), of _ "jb_id job"]) (use assms(4,5) in auto)
  have rec: "js_directlyAssigned (rowJobScope (job_row_of db job) t ctx) \<longleftrightarrow>
      find_first (\<lambda>r. jr_jobId r = jb_id job \<and> jr_recruiterId r = i) (st_jobRecruiters db) \<noteq> None"
  proof -
    have "\<forall>x \<in> set (map jr_recruiterId (filter (\<lambda>r. jr_jobId r = jb_id job) (st_jobRecruiters db))). CHR '','' \<notin> set x"
      using assms(2) by (auto simp: plain_ids_def)
    from row_ids_comma_join [OF this] show ?thesis
      using assms(6,7) by (auto simp: rowJobScope_def job_row_of_def ctx find_first_None)
  qed
  have pod: "js_podAssigned (rowJobScope (job_row_of db job) t ctx) \<longleftrightarrow> truthy (us_podId m) \<and>
      find_first (\<lambda>r. jp_jobId r = jb_id job \<and> Some (jp_podId r) = us_podId m) (st_jobPods db) \<noteq> None"
  proof -
    have "\<forall>x \<in> set (map jp_podId (filter (\<lambda>r. jp_jobId r = jb_id job) (st_jobPods db))). CHR '','' \<notin> set x"
      using assms(2) by (auto simp: plain_ids_def)
    from row_ids_comma_join [OF this] show ?thesis
      by (auto simp: rowJobScope_def job_row_of_def ctx find_first_None or_null_def elim!: truthyE)
  qed
  define scope where "scope = rowJobScope (job_row_of db job) t ctx"
  have fields: "js_tenantId scope = Some t" "js_branchId scope = jb_branchId job"
    "js_businessUnitId scope = jb_businessUnitId job" "js_accountManagerId scope = jb_accountManagerId job"
    "js_status scope = jb_status job" "js_approvalStatus scope = jb_approvalStatus job"
    "js_podsEnabled scope = (truthy (us_businessUnitId m)
        \<and> loadWorkspaceFeatures db t (us_businessUnitId m) (us_branchId m))"
    by (simp_all add: scope_def rowJobScope_def job_row_of_def ctx)
  have eq: "canSubmitToJob (ja_actor ctx) scope \<longleftrightarrow>
      truthy (us_branchId m) \<and> truthy (us_businessUnitId m) \<and> ?here
      \<and> ''submission:create'' \<in> set (a_permissions actor)
      \<and> isActiveApprovedJob (jb_status job) (jb_approvalStatus job)
      \<and> (''job:submit_unit_jobs'' \<in> set (a_permissions actor)
         \<or> (''job:submit_owned_jobs'' \<in> set (a_permissions actor) \<and> jb_accountManagerId job = Some i)
         \<or> js_directlyAssigned scope
         \<or> (loadWorkspaceFeatures db t (us_businessUnitId m) (us_branchId m)
            \<and> js_podAssigned scope \<and> ''job:submit_pod_jobs'' \<in> set (a_permissions actor)))"
    using assms(6-9) by (auto simp: canSubmitToJob_def fields ctx or_null_def)
  show ?thesis
    unfolding scope_def [symmetric] eq
    using assms(6-9) m j rec [folded scope_def] pod [folded scope_def]
    by (auto simp: assertJobSubmissionAccess_def Let_def assertPodsEnabled_def and_then_eq_Inr)
qed

lemma submission_check_agrees_witness:
  "\<exists>ctx. canSubmitToJob (ja_actor ctx) (rowJobScope (job_row_of one_job (hd (st_jobs one_job))) ''t'' ctx)"
proof -
  let ?u = "mk_user ''r3'' [''submission:create''] ''t'' None None None"
  obtain ctx where c: "loadJobActor one_job (Some ?u) None None = ok ctx"
    by (simp add: loadJobActor_def one_job_def two_pods_def empty_store_def mk_user_def mk_member_def find_first_def)
  have d: "distinct (map jb_id (st_jobs one_job))" "plain_ids one_job" "hd (st_jobs one_job) \<in> set (st_jobs one_job)"
    "jb_tenantId (hd (st_jobs one_job)) = ''t''" "jb_deletedAt (hd (st_jobs one_job)) = None"
    by (simp_all add: one_job_def plain_ids_def two_pods_def empty_store_def)
  have a: "assertJobSubmissionAccess one_job (Some ?u) ''t'' (jb_id (hd (st_jobs one_job))) ''r3'' = ok ()"
    by (simp add: assertJobSubmissionAccess_def one_job_def two_pods_def empty_store_def mk_user_def mk_member_def
        find_first_def isActiveApprovedJob_def trim_def upper_def upper_char_def is_space_def Let_def)
  show ?thesis
    using submission_check_agrees [OF d(1-5) _ _ _ _ c, of "''r3''"] a
    by (auto simp: mk_user_def)
qed

end
