(* ===== verification/Pods.thy ===== *)
theory Pods
  imports Workspace
begin

text \<open>
  Recruitment pods (\<^verbatim>\<open>pods/pods.service.ts\<close>, \<^verbatim>\<open>pods/pods.controller.ts\<close>): the scope a caller may
  work in, membership and leadership, and the operations on pods.  A pod has one lead, who is
  also a member, and a person leads at most one pod; leadership is a role the service adds and
  removes.  Each operation is one database transaction, so an error leaves the store as it was:
  the operations return an error or the new store.  \<open>hasEmail\<close> says whether the mail service is
  configured; the message an operation sends is part of its result.
\<close>

section \<open>Data\<close>

record pod_member =
  pm_id :: uuid
  pm_fullName :: string
  pm_email :: string
  pm_avatar :: "string option"
  pm_profilePicture :: "string option"
  pm_systemRole :: string

record pod_response =
  pr_id :: uuid
  pr_name :: string
  pr_branchId :: "uuid option"
  pr_branchName :: "string option"
  pr_businessUnitId :: "uuid option"
  pr_businessUnitName :: "string option"
  pr_podHeadId :: "uuid option"
  pr_podHeadName :: "string option"
  pr_podHeadEmail :: "string option"
  pr_description :: "string option"
  pr_isAvailableForAssignment :: bool
  pr_members :: "pod_member list"
  pr_jobsCount :: nat
  pr_createdAt :: int

record create_pod_dto =
  cp_name :: string
  cp_podHeadId :: "uuid option"
  cp_recruiterIds :: "uuid list"
  cp_branchId :: "uuid option"
  cp_businessUnitId :: "uuid option"
  cp_description :: "string option"

record update_pod_dto =
  up_name :: "string option"
  up_podHeadId :: "uuid option option"
  up_recruiterIds :: "uuid list option"
  up_branchId :: "uuid option option"
  up_businessUnitId :: "uuid option option"
  up_description :: "string option option"

record pod_lead_mail =
  pl_to :: string
  pl_fullName :: string
  pl_tenantName :: string
  pl_subdomain :: string
  pl_podName :: string
  pl_branchName :: "string option"
  pl_unitName :: "string option"

record pod_scope =
  sp_branchId :: "uuid option"
  sp_businessUnitId :: "uuid option"

section \<open>Leadership mail\<close>

definition notifyPodLeadAssigned ::
  "bool \<Rightarrow> store \<Rightarrow> uuid \<Rightarrow> string \<Rightarrow> uuid \<Rightarrow> uuid option \<Rightarrow> uuid option \<Rightarrow> pod_lead_mail option" where
  "notifyPodLeadAssigned hasEmail db podHeadId podName tenantId branchId businessUnitId =
    (if \<not> hasEmail then None
     else let user = user_by podHeadId tenantId db;
              tenant = tenant_by tenantId db;
              branch = (if truthy branchId then branch_by (the branchId) tenantId db else None);
              unit = (if truthy businessUnitId then unit_by (the businessUnitId) tenantId db else None)
          in case (user, tenant) of
               (Some u, Some t) \<Rightarrow>
                 if us_email u = [] \<or> tn_name t = [] then None
                 else Some \<lparr> pl_to = us_email u,
                   pl_fullName = (if us_fullName u = [] then ''Team Member'' else us_fullName u),
                   pl_tenantName = tn_name t, pl_subdomain = or_empty (tn_domain t), pl_podName = podName,
                   pl_branchName = map_option br_name branch, pl_unitName = map_option bu_name unit \<rparr>
             | _ \<Rightarrow> None)"

section \<open>Leadership roles\<close>

definition is_lead_role :: "uuid \<Rightarrow> custom_role \<Rightarrow> bool" where
  "is_lead_role tenantId r = (cr_tenantId r = tenantId \<and> cr_systemKey r = Some ''POD_LEAD'')"

definition lead_role_ids :: "store \<Rightarrow> uuid \<Rightarrow> uuid list" where
  "lead_role_ids db tenantId = map cr_id (find_many (is_lead_role tenantId) (st_roles db))"

definition set_user_roles :: "uuid \<Rightarrow> uuid option \<Rightarrow> uuid list \<Rightarrow> store \<Rightarrow> store result" where
  "set_user_roles userId roleId assigned db =
     and_then (update_one (\<lambda>u. us_id u = userId)
                 (\<lambda>u. u\<lparr> us_roleId := roleId, us_assignedRoleIds := assigned \<rparr>) (st_users db))
       (\<lambda>us. ok (db\<lparr> st_users := us \<rparr>))"

definition pod_lead_role :: "uuid \<Rightarrow> uuid \<Rightarrow> store \<Rightarrow> custom_role result" where
  "pod_lead_role tenantId businessUnitId db =
    (let customRoles = find_many (\<lambda>r. is_lead_role tenantId r \<and> cr_businessUnitId r = Some businessUnitId
                                       \<and> \<not> cr_isSystem r) (st_roles db)
     in if 1 < length customRoles
        then throw (Conflict ''Multiple custom Pod Lead roles exist for this branch unit. Ask the tenant administrator to reconcile them.'')
        else case customRoles of
          r # _ \<Rightarrow> if cr_businessUnitId r \<noteq> Some businessUnitId
                   then throw (BadRequest (''The custom Pod Lead role must be assigned to the pod'' @ [CHR 0x27] @ ''s branch unit.''))
                   else ok r
        | [] \<Rightarrow> (case find_first (\<lambda>r. is_lead_role tenantId r \<and> cr_isSystem r \<and> cr_branchId r = None) (st_roles db) of
             None \<Rightarrow> throw (BadRequest ''Configure a Pod Lead role before assigning pod leadership.'')
           | Some r \<Rightarrow> ok r))"

definition promoteToPodHead :: "uuid \<Rightarrow> uuid \<Rightarrow> uuid \<Rightarrow> store \<Rightarrow> store result" where
  "promoteToPodHead userId tenantId businessUnitId db =
    (if businessUnitId = [] then throw (BadRequest ''A branch unit is required to assign pod leadership.'')
     else and_then (pod_lead_role tenantId businessUnitId db) (\<lambda>role.
       let current = user_by userId tenantId db;
           currentRoles = (case current of None \<Rightarrow> [] | Some u \<Rightarrow> us_assignedRoleIds u);
           leadIds = lead_role_ids db tenantId;
           newAssignedRoleIds = uniq (filter (\<lambda>i. i \<notin> set leadIds)
              (present (Option.bind current us_roleId # map Some currentRoles)) @ [cr_id role])
       in set_user_roles userId (Some (cr_id role)) newAssignedRoleIds db))"

definition demoteFromPodHead :: "uuid \<Rightarrow> uuid \<Rightarrow> uuid option \<Rightarrow> store \<Rightarrow> store result" where
  "demoteFromPodHead userId tenantId excludePodId db =
    (case find_first (\<lambda>p. pd_podHeadId p = Some userId \<and> pd_tenantId p = tenantId
            \<and> (truthy excludePodId \<longrightarrow> Some (pd_id p) \<noteq> excludePodId)) (st_pods db) of
       Some _ \<Rightarrow> ok db
     | None \<Rightarrow>
        (case user_by userId tenantId db of
           None \<Rightarrow> ok db
         | Some user \<Rightarrow>
            (let leadIds = lead_role_ids db tenantId;
                 filteredRoles = uniq (filter (\<lambda>i. i \<notin> set leadIds)
                    (present (map Some (us_assignedRoleIds user) @ [us_roleId user])));
                 newRoleId = (if truthy (us_roleId user) \<and> the (us_roleId user) \<notin> set leadIds
                              then us_roleId user
                              else case filteredRoles of [] \<Rightarrow> None | r # _ \<Rightarrow> Some r)
             in set_user_roles userId newRoleId filteredRoles db)))"

section \<open>Eligibility of members\<close>

definition is_recruiter_role :: "custom_role \<Rightarrow> bool" where
  "is_recruiter_role r =
    (let sysKey = upper (or_empty (cr_systemKey r)); roleName = upper (cr_name r)
     in sysKey = ''RECRUITER'' \<or> sysKey = ''POD_LEAD'' \<or> roleName = ''RECRUITER''
        \<or> str_includes roleName ''RECRUITER'' \<or> str_includes roleName ''POD LEAD''
        \<or> str_includes roleName ''TEAM LEAD'')"

definition user_roles :: "store \<Rightarrow> user \<Rightarrow> custom_role list" where
  "user_roles db u =
     List.map_filter (\<lambda>rid. role_by_id rid db) (present (us_roleId u # map Some (us_assignedRoleIds u)))"

definition effective_roles :: "store \<Rightarrow> user \<Rightarrow> custom_role list" where
  "effective_roles db u =
    (if user_roles db u \<noteq> [] then user_roles db u
     else case user_role db u of None \<Rightarrow> [] | Some r \<Rightarrow> [r])"

definition recruiter_check :: "store \<Rightarrow> uuid \<Rightarrow> uuid option \<Rightarrow> user \<Rightarrow> unit result" where
  "recruiter_check db businessUnitId currentPodId u =
    (if \<not> us_isActive u \<or> \<not> us_isApproved u
     then throw (BadRequest (''User \"'' @ us_fullName u @ ''\" is not an active, approved staff member.''))
     else if truthy (us_businessUnitId u) \<and> us_businessUnitId u \<noteq> Some businessUnitId
     then throw (Conflict (''User \"'' @ us_fullName u @ ''\" belongs to a different operating unit. Only recruiters from this operating unit can be assigned.''))
     else if \<not> list_ex is_recruiter_role (effective_roles db u)
     then throw (BadRequest (''User \"'' @ us_fullName u @ ''\" cannot be added to a recruitment pod because they do not have an eligible recruiter role.''))
     else if truthy (us_podId u) \<and> (\<not> truthy currentPodId \<or> us_podId u \<noteq> currentPodId)
     then (let other = find_first (\<lambda>p. Some (pd_id p) = us_podId u) (st_pods db);
               otherPodName = (case other of None \<Rightarrow> ''another pod''
                  | Some p \<Rightarrow> if pd_name p = [] then ''another pod'' else pd_name p)
           in throw (Conflict (''User \"'' @ us_fullName u @ ''\" is already assigned to recruitment pod \"''
                @ otherPodName @ ''\". You must remove them from \"'' @ otherPodName
                @ ''\" before assigning them to this pod.'')))
     else ok ())"

fun check_each :: "('a \<Rightarrow> unit result) \<Rightarrow> 'a list \<Rightarrow> unit result" where
  "check_each f [] = ok ()"
| "check_each f (x # xs) = and_then (f x) (\<lambda>_. check_each f xs)"

definition validateRecruiters :: "store \<Rightarrow> uuid list \<Rightarrow> uuid \<Rightarrow> uuid \<Rightarrow> uuid option \<Rightarrow> unit result" where
  "validateRecruiters db userIds tenantId businessUnitId currentPodId =
    (if userIds = [] then ok ()
     else let users = find_many (\<lambda>u. us_id u \<in> set userIds \<and> us_tenantId u = tenantId) (st_users db)
          in if length users \<noteq> length userIds
             then (let missing = find_first (\<lambda>i. i \<notin> set (map us_id users)) userIds
                   in throw (NotFound (''User with ID '' @ (case missing of None \<Rightarrow> ''undefined'' | Some i \<Rightarrow> i)
                        @ '' not found in this organization.'')))
             else check_each (recruiter_check db businessUnitId currentPodId) users)"

section \<open>Scope and access\<close>

definition clean_scope :: "string option \<Rightarrow> string option" where
  "clean_scope x =
    (if truthy x \<and> lower (or_empty x) \<notin> {''all'', ''null'', ''undefined'', ''''} then x else None)"

definition pods_tenant_admin :: "auth_user \<Rightarrow> bool" where
  "pods_tenant_admin user =
     includes_any (a_permissions user) [''tenant:manage'', ''tenant:settings'', ''platform:manage'', ''*'']"

definition resolveScope_tenant ::
  "store \<Rightarrow> uuid \<Rightarrow> uuid option \<Rightarrow> uuid option \<Rightarrow> bool \<Rightarrow> pod_scope result" where
  "resolveScope_tenant db tenantId cleanReqUnit cleanReqBranch requireUnit =
    and_then
      (case cleanReqUnit of
         None \<Rightarrow> ok cleanReqBranch
       | Some n \<Rightarrow> (case unit_by n tenantId db of
           None \<Rightarrow> throw (NotFound ''Operating unit not found.'')
         | Some bu \<Rightarrow>
             if cleanReqBranch \<noteq> None \<and> truthy (bu_branchId bu) \<and> cleanReqBranch \<noteq> bu_branchId bu
             then throw (BadRequest ''Selected operating unit does not belong to the selected branch.'')
             else ok (or_else (bu_branchId bu) cleanReqBranch)))
      (\<lambda>branchId.
        if requireUnit \<and> cleanReqUnit = None
        then throw (BadRequest ''An operating unit is required for this recruitment pod operation.'')
        else ok \<lparr> sp_branchId = branchId, sp_businessUnitId = cleanReqUnit \<rparr>)"

definition resolveScope_unit_admin :: "store \<Rightarrow> uuid \<Rightarrow> auth_user \<Rightarrow> uuid option \<Rightarrow> pod_scope result" where
  "resolveScope_unit_admin db tenantId user cleanReqUnit =
    (if \<not> truthy (a_businessUnitId user)
     then throw (Forbidden ''You are not assigned to an operating unit.'')
     else if cleanReqUnit \<noteq> None \<and> cleanReqUnit \<noteq> a_businessUnitId user
     then throw (Forbidden ''You do not have access to pods outside your assigned operating unit.'')
     else ok \<lparr> sp_branchId = or_else (Option.bind (unit_by (the (a_businessUnitId user)) tenantId db) bu_branchId)
                  (or_null (a_branchId user)),
               sp_businessUnitId = a_businessUnitId user \<rparr>)"

definition resolveScope_branch_admin ::
  "store \<Rightarrow> uuid \<Rightarrow> auth_user \<Rightarrow> uuid option \<Rightarrow> uuid option \<Rightarrow> bool \<Rightarrow> pod_scope result" where
  "resolveScope_branch_admin db tenantId user cleanReqUnit cleanReqBranch requireUnit =
    (if \<not> truthy (a_branchId user)
     then throw (Forbidden ''You are not assigned to any branch office.'')
     else if cleanReqBranch \<noteq> None \<and> cleanReqBranch \<noteq> a_branchId user
     then throw (Forbidden ''You can only access pods within your assigned branch.'')
     else if cleanReqUnit \<noteq> None \<and> find_first (\<lambda>b. Some (bu_id b) = cleanReqUnit \<and> bu_tenantId b = tenantId
                \<and> bu_branchId b = a_branchId user) (st_units db) = None
     then throw (Forbidden ''Operating unit does not belong to your assigned branch.'')
     else if requireUnit \<and> cleanReqUnit = None
     then throw (BadRequest ''An operating unit is required for this recruitment pod operation.'')
     else ok \<lparr> sp_branchId = a_branchId user, sp_businessUnitId = cleanReqUnit \<rparr>)"

definition resolveScope_staff :: "auth_user \<Rightarrow> uuid option \<Rightarrow> uuid option \<Rightarrow> pod_scope result" where
  "resolveScope_staff user cleanReqUnit cleanReqBranch =
    (if truthy (a_businessUnitId user) then
       if cleanReqUnit \<noteq> None \<and> cleanReqUnit \<noteq> a_businessUnitId user
       then throw (Forbidden ''You do not have access to pods outside your assigned operating unit.'')
       else ok \<lparr> sp_branchId = or_null (a_branchId user), sp_businessUnitId = a_businessUnitId user \<rparr>
     else if truthy (a_branchId user) then
       if cleanReqBranch \<noteq> None \<and> cleanReqBranch \<noteq> a_branchId user
       then throw (Forbidden ''You can only access pods within your assigned branch.'')
       else ok \<lparr> sp_branchId = a_branchId user, sp_businessUnitId = cleanReqUnit \<rparr>
     else throw (Forbidden ''You do not have an assigned operating unit or branch office.''))"

definition resolveScope ::
  "store \<Rightarrow> uuid \<Rightarrow> auth_user \<Rightarrow> uuid option \<Rightarrow> uuid option \<Rightarrow> bool \<Rightarrow> pod_scope result" where
  "resolveScope db tenantId user requestedBusinessUnitId requestedBranchId requireUnit =
    (let isTenantAdmin = pods_tenant_admin user;
         cleanReqUnit = clean_scope requestedBusinessUnitId;
         cleanReqBranch = clean_scope requestedBranchId
     in and_then (assertPodsEnabled db tenantId
            (or_else cleanReqUnit (if isTenantAdmin then None else a_businessUnitId user))
            (if isTenantAdmin then cleanReqBranch else a_branchId user)) (\<lambda>_.
        if isTenantAdmin then resolveScope_tenant db tenantId cleanReqUnit cleanReqBranch requireUnit
        else if ''unit_admin:manage'' \<in> set (a_permissions user)
        then resolveScope_unit_admin db tenantId user cleanReqUnit
        else if ''branch_admin:manage'' \<in> set (a_permissions user)
        then resolveScope_branch_admin db tenantId user cleanReqUnit cleanReqBranch requireUnit
        else resolveScope_staff user cleanReqUnit cleanReqBranch))"

definition assertPodAccess :: "store \<Rightarrow> uuid \<Rightarrow> auth_user \<Rightarrow> pod_response option \<Rightarrow> unit result" where
  "assertPodAccess db tenantId user found =
    and_then (assertPodsEnabled db tenantId
        (or_else (Option.bind found pr_businessUnitId) (a_businessUnitId user))
        (or_else (Option.bind found pr_branchId) (a_branchId user))) (\<lambda>_.
      case found of
        None \<Rightarrow> throw (NotFound ''Recruitment pod not found.'')
      | Some pod \<Rightarrow>
         if pods_tenant_admin user then ok ()
         else if ''unit_admin:manage'' \<in> set (a_permissions user) then
           if \<not> truthy (a_businessUnitId user) \<or> pr_businessUnitId pod \<noteq> a_businessUnitId user
           then throw (Forbidden ''You do not have access to pods outside your assigned operating unit.'')
           else ok ()
         else if ''branch_admin:manage'' \<in> set (a_permissions user) then
           if \<not> truthy (a_branchId user) \<or> (truthy (pr_branchId pod) \<and> pr_branchId pod \<noteq> a_branchId user)
           then throw (Forbidden ''You do not have access to pods outside your assigned branch.'')
           else ok ()
         else if pr_podHeadId pod = a_dbId user
              \<or> list_ex (\<lambda>m. Some (pm_id m) = a_dbId user) (pr_members pod) then ok ()
         else if truthy (a_businessUnitId user) \<and> pr_businessUnitId pod = a_businessUnitId user then ok ()
         else throw (Forbidden ''You do not have access to this recruitment pod.''))"

section \<open>Reading pods\<close>

definition pod_to_response :: "store \<Rightarrow> pod \<Rightarrow> pod_response" where
  "pod_to_response db p =
    (let head = find_first (\<lambda>u. pd_podHeadId p = Some (us_id u)) (st_users db);
         branch = find_first (\<lambda>b. pd_branchId p = Some (br_id b)) (st_branches db);
         unit = find_first (\<lambda>b. pd_businessUnitId p = Some (bu_id b)) (st_units db);
         users = sort_key us_fullName (find_many (\<lambda>u. us_podId u = Some (pd_id p)) (st_users db))
     in \<lparr> pr_id = pd_id p, pr_name = pd_name p, pr_branchId = or_null (pd_branchId p),
          pr_branchName = or_null (map_option br_name branch), pr_businessUnitId = or_null (pd_businessUnitId p),
          pr_businessUnitName = or_null (map_option bu_name unit), pr_podHeadId = or_null (pd_podHeadId p),
          pr_podHeadName = or_null (map_option us_fullName head),
          pr_podHeadEmail = or_null (map_option us_email head), pr_description = pd_description p,
          pr_isAvailableForAssignment = pd_isAvailableForAssignment p,
          pr_members = map (\<lambda>u. \<lparr> pm_id = us_id u, pm_fullName = us_fullName u, pm_email = us_email u,
             pm_avatar = or_null (us_profilePicture u), pm_profilePicture = or_null (us_profilePicture u),
             pm_systemRole = the (or_else (Option.bind (user_role db u) cr_systemKey) (Some ''RECRUITER'')) \<rparr>) users,
          pr_jobsCount = count_where (\<lambda>j. jp_podId j = pd_id p) (st_jobPods db),
          pr_createdAt = pd_createdAt p \<rparr>)"

definition pods_findOne :: "store \<Rightarrow> uuid \<Rightarrow> uuid \<Rightarrow> pod_response result" where
  "pods_findOne db i tenantId =
    (case pod_by i tenantId db of
       None \<Rightarrow> throw (NotFound (''Recruitment Pod with ID '' @ i @ '' not found.''))
     | Some p \<Rightarrow> ok (pod_to_response db p))"

definition scoped_to :: "uuid option \<Rightarrow> uuid option \<Rightarrow> pod \<Rightarrow> bool" where
  "scoped_to branchId businessUnitId p =
    (if truthy businessUnitId \<and> businessUnitId \<noteq> Some ''all'' then pd_businessUnitId p = businessUnitId
     else if truthy branchId \<and> branchId \<noteq> Some ''all'' then pd_branchId p = branchId
     else True)"

definition pods_findAll :: "store \<Rightarrow> uuid \<Rightarrow> uuid option \<Rightarrow> uuid option \<Rightarrow> pod_response list" where
  "pods_findAll db tenantId branchId businessUnitId =
     map (pod_to_response db) (sort_key pd_name (find_many (\<lambda>p. pd_tenantId p = tenantId
        \<and> list_ex (\<lambda>b. pd_businessUnitId p = Some (bu_id b) \<and> bu_tenantId b = tenantId \<and> bu_allowPods b) (st_units db)
        \<and> scoped_to branchId businessUnitId p) (st_pods db)))"

definition findMyTeam :: "store \<Rightarrow> uuid \<Rightarrow> uuid \<Rightarrow> pod_response result" where
  "findMyTeam db userId tenantId =
    (let own = Option.bind (user_by userId tenantId db) us_podId;
         podId = (if truthy own then own
                  else map_option pd_id (find_first (\<lambda>p. pd_tenantId p = tenantId \<and> pd_podHeadId p = Some userId) (st_pods db)))
     in if \<not> truthy podId
        then throw (NotFound ''You are not currently assigned to any Recruitment Pod.'')
        else pods_findOne db (the podId) tenantId)"

record available_recruiter =
  av_id :: uuid
  av_fullName :: string
  av_email :: string
  av_roleName :: string
  av_avatar :: "string option"
  av_systemRole :: string
  av_businessUnitId :: "uuid option"
  av_branchId :: "uuid option"

definition available_filter :: "uuid \<Rightarrow> uuid option \<Rightarrow> uuid option \<Rightarrow> user \<Rightarrow> bool" where
  "available_filter tenantId branchId businessUnitId u =
    (us_tenantId u = tenantId \<and> us_podId u = None \<and> us_isActive u \<and> us_isApproved u
     \<and> (if truthy businessUnitId \<and> businessUnitId \<noteq> Some ''all'' then
          if truthy branchId \<and> branchId \<noteq> Some ''all''
          then (us_businessUnitId u = businessUnitId \<or> us_businessUnitId u = None) \<and> us_branchId u = branchId
          else us_businessUnitId u = businessUnitId
        else if truthy branchId \<and> branchId \<noteq> Some ''all'' then us_branchId u = branchId
        else True))"

definition available_view :: "store \<Rightarrow> user \<Rightarrow> available_recruiter" where
  "available_view db u =
    (let recruiterRole = find_first is_recruiter_role (user_roles db u)
     in \<lparr> av_id = us_id u, av_fullName = us_fullName u, av_email = us_email u,
          av_roleName = the (or_else (map_option cr_name recruiterRole)
             (or_else (map_option cr_name (user_role db u)) (Some ''Recruiter''))),
          av_avatar = or_null (us_profilePicture u),
          av_systemRole = the (or_else (Option.bind recruiterRole cr_systemKey)
             (or_else (Option.bind (user_role db u) cr_systemKey) (Some ''RECRUITER''))),
          av_businessUnitId = or_null (us_businessUnitId u), av_branchId = or_null (us_branchId u) \<rparr>)"

definition getAvailableRecruiters ::
  "store \<Rightarrow> uuid \<Rightarrow> uuid option \<Rightarrow> uuid option \<Rightarrow> available_recruiter list" where
  "getAvailableRecruiters db tenantId branchId businessUnitId =
     map (available_view db) (filter (\<lambda>u. list_ex is_recruiter_role (effective_roles db u))
       (sort_key us_fullName (find_many (available_filter tenantId branchId businessUnitId) (st_users db))))"

section \<open>Writing pods\<close>

definition assign_members :: "uuid list \<Rightarrow> uuid \<Rightarrow> uuid option \<Rightarrow> store \<Rightarrow> store" where
  "assign_members ids tenantId podId db =
     db\<lparr> st_users := update_where (\<lambda>u. us_id u \<in> set ids \<and> us_tenantId u = tenantId)
                       (\<lambda>u. u\<lparr> us_podId := podId \<rparr>) (st_users db) \<rparr>"

definition other_pod_led :: "store \<Rightarrow> uuid \<Rightarrow> uuid \<Rightarrow> uuid option \<Rightarrow> pod option" where
  "other_pod_led db headId tenantId self =
     find_first (\<lambda>p. pd_podHeadId p = Some headId \<and> pd_tenantId p = tenantId
                     \<and> if_given self (\<lambda>i. pd_id p \<noteq> i)) (st_pods db)"

definition already_leads :: "pod \<Rightarrow> 'a result" where
  "already_leads p = throw (Conflict (''This staff member is already the Pod Lead of \"'' @ pd_name p
     @ ''\". A user can only lead one pod at a time.''))"

definition pod_name_taken :: "string \<Rightarrow> 'a result" where
  "pod_name_taken name = throw (Conflict (''A pod with the name \"'' @ name
     @ ''\" already exists in this operating unit.''))"

text \<open>Lines 483 to 552: the transaction that creates a pod \<open>newId\<close> at \<open>now\<close>.\<close>

definition create_pod_tx ::
  "uuid \<Rightarrow> int \<Rightarrow> create_pod_dto \<Rightarrow> uuid \<Rightarrow> uuid \<Rightarrow> uuid \<Rightarrow> store \<Rightarrow> store result" where
  "create_pod_tx newId now dto tenantId branchId unitId db =
    (let target = uniq (present [cp_podHeadId dto] @ cp_recruiterIds dto) in
     if find_first (\<lambda>p. pd_tenantId p = tenantId \<and> same_name (pd_name p) (trim (cp_name dto))
           \<and> pd_businessUnitId p = Some unitId) (st_pods db) \<noteq> None
     then pod_name_taken (cp_name dto)
     else and_then (validateRecruiters db target tenantId unitId None) (\<lambda>_.
       case (if truthy (cp_podHeadId dto) then other_pod_led db (the (cp_podHeadId dto)) tenantId None else None) of
         Some p \<Rightarrow> already_leads p
       | None \<Rightarrow>
          (let row = \<lparr> pd_id = newId, pd_tenantId = tenantId, pd_branchId = Some branchId,
                 pd_businessUnitId = Some unitId, pd_name = trim (cp_name dto),
                 pd_podHeadId = or_null (cp_podHeadId dto),
                 pd_description = or_null (map_option trim (cp_description dto)),
                 pd_isAvailableForAssignment = True, pd_createdAt = now \<rparr>;
               db1 = assign_members target tenantId (Some newId) (db\<lparr> st_pods := st_pods db @ [row] \<rparr>)
           in if truthy (cp_podHeadId dto) then promoteToPodHead (the (cp_podHeadId dto)) tenantId unitId db1
              else ok db1)))"

definition pods_create ::
  "bool \<Rightarrow> uuid \<Rightarrow> int \<Rightarrow> create_pod_dto \<Rightarrow> uuid \<Rightarrow> uuid option \<Rightarrow> uuid option \<Rightarrow> store
     \<Rightarrow> (pod_response \<times> pod_lead_mail option \<times> store) result" where
  "pods_create hasEmail newId now dto tenantId branchId businessUnitId db =
    (let unit = or_else (cp_businessUnitId dto) (or_null businessUnitId);
         branch = or_else (cp_branchId dto) (or_null branchId)
     in if \<not> truthy unit then throw (BadRequest ''Recruitment pods must be assigned to an operating unit.'')
        else case unit_by (the unit) tenantId db of
          None \<Rightarrow> throw (NotFound ''Operating unit not found.'')
        | Some bu \<Rightarrow>
           (let branch1 = or_else (bu_branchId bu) branch
            in if \<not> truthy branch1 then throw (BadRequest ''Recruitment pods must be assigned to a branch office.'')
               else and_then (create_pod_tx newId now dto tenantId (the branch1) (the unit) db) (\<lambda>db'.
                 and_then (pods_findOne db' newId tenantId) (\<lambda>response.
                   ok (response,
                       if truthy (cp_podHeadId dto)
                       then notifyPodLeadAssigned hasEmail db' (the (cp_podHeadId dto)) (trim (cp_name dto)) tenantId branch1 unit
                       else None,
                       db')))))"

text \<open>What an update resolves before its transaction: the unit and the branch of the pod (lines 822 to 842).\<close>

definition update_pod_office :: "update_pod_dto \<Rightarrow> pod \<Rightarrow> uuid \<Rightarrow> store \<Rightarrow> (uuid \<times> uuid) result" where
  "update_pod_office dto existing tenantId db =
    (let unit = (case up_businessUnitId dto of Some v \<Rightarrow> v | None \<Rightarrow> pd_businessUnitId existing);
         branch = (case up_branchId dto of Some v \<Rightarrow> v | None \<Rightarrow> pd_branchId existing)
     in if \<not> truthy unit then throw (BadRequest ''Recruitment pods must belong to an operating unit.'')
        else and_then
          (if unit \<noteq> pd_businessUnitId existing then
             (case unit_by (the unit) tenantId db of
                None \<Rightarrow> throw (NotFound ''Operating unit not found.'')
              | Some bu \<Rightarrow> ok (or_else (bu_branchId bu) branch))
           else ok branch)
          (\<lambda>branch1. if \<not> truthy branch1 then throw (BadRequest ''Recruitment pods must belong to a branch office.'')
             else ok (the branch1, the unit)))"

text \<open>Steps 5 and 6 of the update: the roles of the old and the new lead, then the members.\<close>

definition update_pod_lead :: "uuid \<Rightarrow> update_pod_dto \<Rightarrow> pod \<Rightarrow> uuid \<Rightarrow> uuid \<Rightarrow> store \<Rightarrow> store result" where
  "update_pod_lead i dto existing tenantId unitId db =
    (let podHeadId = (case up_podHeadId dto of Some v \<Rightarrow> v | None \<Rightarrow> pd_podHeadId existing);
         podLeadChanged = (case up_podHeadId dto of None \<Rightarrow> False | Some v \<Rightarrow> v \<noteq> pd_podHeadId existing);
         podUnitChanged = (Some unitId \<noteq> pd_businessUnitId existing)
     in and_then (if podLeadChanged \<and> truthy (pd_podHeadId existing)
                  then demoteFromPodHead (the (pd_podHeadId existing)) tenantId (Some i) db else ok db) (\<lambda>db1.
        if truthy podHeadId \<and> (podLeadChanged \<or> podUnitChanged)
        then and_then (promoteToPodHead (the podHeadId) tenantId unitId db1) (\<lambda>db2.
               and_then (update_one (\<lambda>u. us_id u = the podHeadId) (\<lambda>u. u\<lparr> us_podId := Some i \<rparr>) (st_users db2))
                 (\<lambda>us. ok (db2\<lparr> st_users := us \<rparr>)))
        else ok db1))"

definition update_pod_members :: "uuid \<Rightarrow> uuid list option \<Rightarrow> uuid option \<Rightarrow> uuid \<Rightarrow> store \<Rightarrow> store" where
  "update_pod_members i recruiterIds podHeadId tenantId db =
    (case recruiterIds of
       None \<Rightarrow> db
     | Some ids \<Rightarrow>
        (let new = uniq (ids @ present [podHeadId]);
             db1 = db\<lparr> st_users := update_where
                (\<lambda>u. us_podId u = Some i \<and> us_tenantId u = tenantId \<and> us_id u \<notin> set new)
                (\<lambda>u. u\<lparr> us_podId := None \<rparr>) (st_users db) \<rparr>
         in if new \<noteq> [] then assign_members new tenantId (Some i) db1 else db1))"

text \<open>The transaction of an update; an empty lead identifier is rejected by the UUID column (P2023).\<close>

definition update_pod_tx ::
  "uuid \<Rightarrow> update_pod_dto \<Rightarrow> pod \<Rightarrow> uuid \<Rightarrow> uuid \<Rightarrow> uuid \<Rightarrow> store \<Rightarrow> store result" where
  "update_pod_tx i dto existing tenantId branchId unitId db =
    (let podHeadId = (case up_podHeadId dto of Some v \<Rightarrow> v | None \<Rightarrow> pd_podHeadId existing);
         name = (case up_name dto of Some v \<Rightarrow> trim v | None \<Rightarrow> pd_name existing);
         description = (case up_description dto of Some v \<Rightarrow> v | None \<Rightarrow> pd_description existing);
         newHead = (case up_podHeadId dto of Some v \<Rightarrow> if truthy v \<and> v \<noteq> pd_podHeadId existing then v else None | None \<Rightarrow> None);
         target = uniq (present [podHeadId] @ (case up_recruiterIds dto of None \<Rightarrow> [] | Some ids \<Rightarrow> ids))
     in if truthy (up_name dto) \<and> upper (trim (the (up_name dto))) \<noteq> upper (pd_name existing)
           \<and> find_first (\<lambda>p. pd_tenantId p = tenantId \<and> same_name (pd_name p) (trim (the (up_name dto)))
                \<and> pd_businessUnitId p = Some unitId \<and> pd_id p \<noteq> i) (st_pods db) \<noteq> None
        then pod_name_taken (the (up_name dto))
        else case (case newHead of None \<Rightarrow> None | Some h \<Rightarrow> other_pod_led db h tenantId (Some i)) of
          Some p \<Rightarrow> already_leads p
        | None \<Rightarrow>
            and_then (validateRecruiters db target tenantId unitId (Some i)) (\<lambda>_.
            and_then (if podHeadId = Some [] then throw (InternalError ''P2023'') else ok ()) (\<lambda>_.
            and_then (update_one (\<lambda>p. pd_id p = i) (\<lambda>p. p\<lparr> pd_name := name, pd_branchId := Some branchId,
                 pd_businessUnitId := Some unitId, pd_podHeadId := podHeadId, pd_description := description \<rparr>)
                 (st_pods db)) (\<lambda>pods.
            and_then (update_pod_lead i dto existing tenantId unitId (db\<lparr> st_pods := pods \<rparr>)) (\<lambda>db2.
              ok (update_pod_members i (up_recruiterIds dto) podHeadId tenantId db2))))))"

definition pods_update ::
  "bool \<Rightarrow> uuid \<Rightarrow> update_pod_dto \<Rightarrow> uuid \<Rightarrow> store \<Rightarrow> (pod_response \<times> pod_lead_mail option \<times> store) result" where
  "pods_update hasEmail i dto tenantId db =
    (case pod_by i tenantId db of
       None \<Rightarrow> throw (NotFound ''Pod not found.'')
     | Some existing \<Rightarrow>
        and_then (update_pod_office dto existing tenantId db) (\<lambda>(branchId, unitId).
        and_then (update_pod_tx i dto existing tenantId branchId unitId db) (\<lambda>db'.
        and_then (pods_findOne db' i tenantId) (\<lambda>response.
          (let effectivePodName = (case up_name dto of Some v \<Rightarrow> if trim v \<noteq> [] then trim v else pd_name existing
                 | None \<Rightarrow> pd_name existing);
               newHead = (case up_podHeadId dto of Some v \<Rightarrow> v | None \<Rightarrow> None)
           in ok (response,
                  if truthy newHead \<and> newHead \<noteq> pd_podHeadId existing
                  then notifyPodLeadAssigned hasEmail db' (the newHead) effectivePodName tenantId (Some branchId) (Some unitId)
                  else None,
                  db'))))))"

text \<open>Releasing the members of a pod.\<close>

definition clear_members :: "uuid \<Rightarrow> uuid \<Rightarrow> store \<Rightarrow> store" where
  "clear_members i tenantId db = db\<lparr> st_users := update_where
     (\<lambda>u. us_podId u = Some i \<and> us_tenantId u = tenantId) (\<lambda>u. u\<lparr> us_podId := None \<rparr>) (st_users db) \<rparr>"

text \<open>Deleting the row of a pod clears the references of its users (\<^verbatim>\<open>onDelete: SetNull\<close>).\<close>

definition delete_pod_row :: "uuid \<Rightarrow> store \<Rightarrow> store" where
  "delete_pod_row i db =
     db\<lparr> st_pods := delete_where (\<lambda>p. pd_id p = i) (st_pods db),
         st_users := update_where (\<lambda>u. us_podId u = Some i) (\<lambda>u. u\<lparr> us_podId := None \<rparr>) (st_users db) \<rparr>"

definition pods_remove :: "uuid \<Rightarrow> uuid \<Rightarrow> store \<Rightarrow> (string \<times> store) result" where
  "pods_remove i tenantId db =
    (case pod_by i tenantId db of
       None \<Rightarrow> throw (NotFound ''Pod not found.'')
     | Some p \<Rightarrow>
        if 0 < count_where (\<lambda>j. jp_podId j = i) (st_jobPods db)
        then throw (Conflict ''Cannot delete this pod because it has assigned jobs. Reassign or remove all job assignments first.'')
        else and_then (if truthy (pd_podHeadId p)
                       then demoteFromPodHead (the (pd_podHeadId p)) tenantId (Some i) db else ok db) (\<lambda>db1.
          ok (''Pod deleted successfully.'', delete_pod_row i (clear_members i tenantId db1))))"

definition resetCycle :: "uuid \<Rightarrow> uuid option \<Rightarrow> uuid option \<Rightarrow> store \<Rightarrow> string \<times> store" where
  "resetCycle tenantId branchId businessUnitId db =
    (''Round-robin cycle reset successfully.'',
     set_available (\<lambda>p. pd_tenantId p = tenantId \<and> scoped_to branchId businessUnitId p) True db)"

section \<open>The endpoints\<close>

text \<open>The tenant of a request, resolved from the session and the header; \<open>env\<close> is the default tenant.\<close>

definition request_tenant :: "string option \<Rightarrow> auth_user \<Rightarrow> string option \<Rightarrow> uuid result" where
  "request_tenant env user header =
     and_then (resolveTenantId env (Some user) header) (\<lambda>tid. ok (or_empty tid))"

definition require_permissions :: "string list \<Rightarrow> auth_user \<Rightarrow> unit result" where
  "require_permissions ps user =
     and_then (permissions_canActivate (Some ps) (Some user)) (\<lambda>b.
       if b then ok () else throw (Forbidden ''Forbidden resource''))"

definition pods_post ::
  "string option \<Rightarrow> bool \<Rightarrow> uuid \<Rightarrow> int \<Rightarrow> create_pod_dto \<Rightarrow> auth_user \<Rightarrow> string option \<Rightarrow> string option
    \<Rightarrow> string option \<Rightarrow> string option \<Rightarrow> store \<Rightarrow> (pod_response \<times> pod_lead_mail option \<times> store) result" where
  "pods_post env hasEmail newId now dto user tenantHeader headerBranchId queryBranchId queryBusinessUnitId db =
    and_then (require_permissions [''pod:create''] user) (\<lambda>_.
    and_then (request_tenant env user tenantHeader) (\<lambda>tid.
    and_then (resolveScope db tid user (or_else (cp_businessUnitId dto) queryBusinessUnitId)
        (or_else (cp_branchId dto) (or_else queryBranchId headerBranchId)) True) (\<lambda>scope.
      pods_create hasEmail newId now
        (dto\<lparr> cp_branchId := sp_branchId scope, cp_businessUnitId := sp_businessUnitId scope \<rparr>)
        tid (sp_branchId scope) (sp_businessUnitId scope) db)))"

definition pods_get ::
  "string option \<Rightarrow> uuid \<Rightarrow> auth_user \<Rightarrow> string option \<Rightarrow> store \<Rightarrow> pod_response result" where
  "pods_get env i user tenantHeader db =
    and_then (require_permissions [''pod:view''] user) (\<lambda>_.
    and_then (request_tenant env user tenantHeader) (\<lambda>tid.
    and_then (pods_findOne db i tid) (\<lambda>pod.
    and_then (assertPodAccess db tid user (Some pod)) (\<lambda>_. ok pod))))"

definition pods_get_all ::
  "string option \<Rightarrow> auth_user \<Rightarrow> string option \<Rightarrow> string option \<Rightarrow> string option \<Rightarrow> string option \<Rightarrow> store
    \<Rightarrow> (pod_response list) result" where
  "pods_get_all env user tenantHeader headerBranchId queryBranchId queryBusinessUnitId db =
    and_then (require_permissions [''pod:view''] user) (\<lambda>_.
    and_then (request_tenant env user tenantHeader) (\<lambda>tid.
    and_then (resolveScope db tid user queryBusinessUnitId (or_else queryBranchId headerBranchId) False) (\<lambda>scope.
      ok (pods_findAll db tid (sp_branchId scope) (sp_businessUnitId scope)))))"

definition pods_available_recruiters ::
  "string option \<Rightarrow> auth_user \<Rightarrow> string option \<Rightarrow> string option \<Rightarrow> string option \<Rightarrow> string option \<Rightarrow> store
    \<Rightarrow> (available_recruiter list) result" where
  "pods_available_recruiters env user tenantHeader headerBranchId queryBranchId queryBusinessUnitId db =
    and_then (require_permissions [''pod:view''] user) (\<lambda>_.
    and_then (request_tenant env user tenantHeader) (\<lambda>tid.
    and_then (resolveScope db tid user queryBusinessUnitId (or_else queryBranchId headerBranchId) True) (\<lambda>scope.
      ok (getAvailableRecruiters db tid (sp_branchId scope) (sp_businessUnitId scope)))))"

definition pods_my_team ::
  "string option \<Rightarrow> auth_user \<Rightarrow> string option \<Rightarrow> store \<Rightarrow> pod_response result" where
  "pods_my_team env user tenantHeader db =
    and_then (require_permissions [''pod:view''] user) (\<lambda>_.
    and_then (request_tenant env user tenantHeader) (\<lambda>tid.
    and_then (findMyTeam db (or_empty (a_dbId user)) tid) (\<lambda>pod.
    and_then (resolveScope db tid user (or_null (pr_businessUnitId pod)) (or_null (pr_branchId pod)) True) (\<lambda>_.
      ok pod))))"

definition pods_patch ::
  "string option \<Rightarrow> bool \<Rightarrow> uuid \<Rightarrow> update_pod_dto \<Rightarrow> auth_user \<Rightarrow> string option \<Rightarrow> store
    \<Rightarrow> (pod_response \<times> pod_lead_mail option \<times> store) result" where
  "pods_patch env hasEmail i dto user tenantHeader db =
    and_then (require_permissions [''pod:edit''] user) (\<lambda>_.
    and_then (request_tenant env user tenantHeader) (\<lambda>tid.
    and_then (pods_findOne db i tid) (\<lambda>pod.
    and_then (assertPodAccess db tid user (Some pod)) (\<lambda>_.
    and_then (resolveScope db tid user
        (or_else (Option.bind (up_businessUnitId dto) id) (or_null (pr_businessUnitId pod)))
        (or_else (Option.bind (up_branchId dto) id) (or_null (pr_branchId pod))) True) (\<lambda>scope.
      pods_update hasEmail i
        (dto\<lparr> up_branchId := map_option Some (sp_branchId scope),
              up_businessUnitId := map_option Some (sp_businessUnitId scope) \<rparr>) tid db)))))"

definition pods_delete ::
  "string option \<Rightarrow> uuid \<Rightarrow> auth_user \<Rightarrow> string option \<Rightarrow> store \<Rightarrow> (string \<times> store) result" where
  "pods_delete env i user tenantHeader db =
    and_then (require_permissions [''pod:delete''] user) (\<lambda>_.
    and_then (request_tenant env user tenantHeader) (\<lambda>tid.
    and_then (pods_findOne db i tid) (\<lambda>pod.
    and_then (assertPodAccess db tid user (Some pod)) (\<lambda>_. pods_remove i tid db))))"

definition pods_reset_cycle ::
  "string option \<Rightarrow> auth_user \<Rightarrow> string option \<Rightarrow> string option \<Rightarrow> string option \<Rightarrow> store \<Rightarrow> (string \<times> store) result" where
  "pods_reset_cycle env user tenantHeader requestedBusinessUnitId requestedBranchId db =
    and_then (require_permissions [''pod:reset_cycle''] user) (\<lambda>_.
    and_then (request_tenant env user tenantHeader) (\<lambda>tid.
    and_then (resolveScope db tid user requestedBusinessUnitId requestedBranchId True) (\<lambda>scope.
      ok (resetCycle tid (sp_branchId scope) (sp_businessUnitId scope) db))))"

end
