(* ===== verification/PodMembership.thy ===== *)
theory PodMembership
  imports Pods
begin

text \<open>
  The references between people and pods, as an invariant that every operation on pods and every
  allocation of a pod to a job keeps, in any order: a member's pod exists in the member's tenant, a
  pod's lead is one of its members, and nobody leads two pods.  The invariant is stated on the
  tuples (identifier, tenant, reference) of the two tables, on which an operation is a move of
  members or a change of lead.
\<close>

section \<open>Membership and leadership: the invariant\<close>

text \<open>
  The references between people and pods: identifiers are unique; a member's pod exists in the
  member's tenant; a pod's lead is a member of that pod, in its tenant.  It follows that nobody
  leads two pods.
\<close>

definition user_core :: "user \<Rightarrow> uuid \<times> uuid \<times> uuid option" where
  "user_core u = (us_id u, us_tenantId u, us_podId u)"

definition pod_core :: "pod \<Rightarrow> uuid \<times> uuid \<times> uuid option" where
  "pod_core p = (pd_id p, pd_tenantId p, pd_podHeadId p)"

definition wf_core :: "(uuid \<times> uuid \<times> uuid option) list \<Rightarrow> (uuid \<times> uuid \<times> uuid option) list \<Rightarrow> bool" where
  "wf_core us ps =
    (distinct (map fst us) \<and> distinct (map fst ps)
     \<and> (\<forall>(i, t, p) \<in> set us. \<forall>q. p = Some q \<longrightarrow> (\<exists>h. (q, t, h) \<in> set ps))
     \<and> (\<forall>(q, t, h) \<in> set ps. q \<noteq> [] \<and> (\<forall>i. h = Some i \<longrightarrow> (i, t, Some q) \<in> set us)))"

definition pods_wf :: "store \<Rightarrow> bool" where
  "pods_wf db = wf_core (map user_core (st_users db)) (map pod_core (st_pods db))"

definition move_core :: "uuid set \<Rightarrow> uuid \<Rightarrow> uuid option \<Rightarrow> (uuid \<times> uuid \<times> uuid option) list \<Rightarrow> (uuid \<times> uuid \<times> uuid option) list" where
  "move_core A t p us = map (\<lambda>(i, t', q). if i \<in> A \<and> t' = t then (i, t', p) else (i, t', q)) us"

lemma in_move_core:
  "(i, t', p') \<in> set (move_core A t p us) \<longleftrightarrow>
     (if i \<in> A \<and> t' = t then p' = p \<and> (\<exists>q. (i, t', q) \<in> set us) else (i, t', p') \<in> set us)"
  by (induction us) (auto simp: move_core_def split: if_splits)

lemma fst_move_core [simp]: "map fst (move_core A t p us) = map fst us"
  by (auto simp: move_core_def)

lemma core_unique:
  "distinct (map fst xs) \<Longrightarrow> (i, a) \<in> set xs \<Longrightarrow> (i, b) \<in> set xs \<Longrightarrow> a = b"
  by (rule eq_key_imp_eq_value)

lemma wf_core_create:
  assumes wf: "wf_core us ps" and new: "q \<notin> fst ` set ps" "q \<noteq> []"
    and free: "\<And>i. i \<in> A \<Longrightarrow> (i, t, None) \<in> set us"
    and head: "\<And>i. h = Some i \<Longrightarrow> i \<in> A"
  shows "wf_core (move_core A t (Some q) us) (ps @ [(q, t, h)])"
proof -
  have du: "distinct (map fst us)" using wf by (simp add: wf_core_def)
  have keep: "(i, t', Some q') \<in> set (move_core A t (Some q) us)"
    if "(q', t', Some i) \<in> set ps" for i t' q'
  proof -
    have m: "(i, t', Some q') \<in> set us" using wf that by (auto simp: wf_core_def)
    have "\<not> (i \<in> A \<and> t' = t)"
      using free core_unique [OF du m] by blast
    with m show ?thesis by (auto simp: in_move_core)
  qed
  show ?thesis
    unfolding wf_core_def
  proof (intro conjI ballI, goal_cases)
    case 1
    show ?case using du by simp
  next
    case 2
    show ?case using wf new by (auto simp: wf_core_def)
  next
    case (3 x)
    obtain i t' p where x: "x = (i, t', p)" by (cases x)
    have "p = Some q \<and> t' = t \<or> (i, t', p) \<in> set us"
      using 3 unfolding x in_move_core by (auto split: if_splits)
    then show ?case using wf by (fastforce simp: x wf_core_def)
  next
    case (4 x)
    have "(i, t, Some q) \<in> set (move_core A t (Some q) us)" if "h = Some i" for i
      using head [OF that] free by (auto simp: in_move_core)
    moreover obtain r t' h' where x: "x = (r, t', h')" by (cases x)
    moreover from 4 have "(r, t', h') \<in> set ps \<or> r = q \<and> t' = t \<and> h' = h" unfolding x by auto
    ultimately show ?case using wf new keep by (fastforce simp: wf_core_def)
  qed
qed

text \<open>The pod \<open>q\<close> of tenant \<open>t\<close> gets the lead \<open>h\<close>, its members outside \<open>K\<close> leave, and \<open>A\<close> joins.\<close>

lemma wf_core_regroup:
  assumes wf: "wf_core us ps" and pod: "(q, t, h0) \<in> set ps"
    and join: "\<And>i. i \<in> A \<Longrightarrow> \<exists>p. (i, t, p) \<in> set us \<and> (p = None \<or> p = Some q)"
    and head: "\<And>i. h = Some i \<Longrightarrow> i \<in> A \<or> i \<in> K \<and> (i, t, Some q) \<in> set us"
  shows "wf_core
    (move_core A t (Some q) (map (\<lambda>(i, t', p). if p = Some q \<and> t' = t \<and> i \<notin> K then (i, t', None) else (i, t', p)) us))
    (map (\<lambda>(q', t', h'). if q' = q then (q', t', h) else (q', t', h')) ps)"
    (is "wf_core (move_core A t (Some q) ?left) ?ps")
proof -
  have du: "distinct (map fst us)" and dp: "distinct (map fst ps)" using wf by (simp_all add: wf_core_def)
  have left: "(i, t', p) \<in> set ?left \<longleftrightarrow>
      (if t' = t \<and> i \<notin> K then p \<noteq> Some q \<and> ((i, t', p) \<in> set us \<or> p = None \<and> (i, t', Some q) \<in> set us)
       else (i, t', p) \<in> set us)" for i t' p
    by (induction us) (auto split: if_splits)
  have ps: "(q', t', h') \<in> set ?ps \<longleftrightarrow>
      (if q' = q then h' = h \<and> (\<exists>x. (q', t', x) \<in> set ps) else (q', t', h') \<in> set ps)" for q' t' h'
    by (induction ps) (auto split: if_splits)
  have f1: "map fst ?left = map fst us" and f2: "map fst ?ps = map fst ps" by auto
  have tq: "t' = t" if "(q, t', x) \<in> set ps" for t' x
    using core_unique [OF dp pod that] by simp
  show ?thesis
    unfolding wf_core_def
  proof (intro conjI ballI, goal_cases)
    case 1
    show ?case unfolding fst_move_core f1 by (rule du)
  next
    case 2
    show ?case unfolding f2 by (rule dp)
  next
    case (3 x)
    obtain i t' p where x: "x = (i, t', p)" by (cases x)
    have "\<exists>h. (r, t', h) \<in> set ?ps" if r: "p = Some r" for r
    proof -
      have "r = q \<and> t' = t \<or> (i, t', Some r) \<in> set us"
        using 3 r unfolding x in_move_core left by (auto split: if_splits)
      then have "\<exists>h. (r, t', h) \<in> set ps"
        using wf pod by (fastforce simp: wf_core_def)
      then show ?thesis unfolding ps by auto
    qed
    then show ?case by (simp add: x)
  next
    case (4 x)
    obtain q' t' h' where x: "x = (q', t', h')" by (cases x)
    have mem: "(q', t', h') \<in> set ?ps" using 4 by (simp add: x)
    have "q' \<noteq> []" using mem wf unfolding ps by (auto simp: wf_core_def split: if_splits)
    moreover have "(i, t', Some q') \<in> set (move_core A t (Some q) ?left)" if i: "h' = Some i" for i
    proof (cases "q' = q")
      case True
      with mem tq have t': "t' = t" and "h' = h" unfolding ps by auto
      with i head have "i \<in> A \<or> i \<in> K \<and> (i, t, Some q) \<in> set us" by blast
      then show ?thesis
      proof
        assume "i \<in> A"
        moreover obtain p where "(i, t, p) \<in> set us" "p = None \<or> p = Some q"
          using join [OF \<open>i \<in> A\<close>] by blast
        then have "\<exists>r. (i, t, r) \<in> set ?left" unfolding left by auto
        ultimately show ?thesis unfolding in_move_core using True t' by auto
      next
        assume "i \<in> K \<and> (i, t, Some q) \<in> set us"
        then show ?thesis unfolding in_move_core left using True t' by auto
      qed
    next
      case False
      with mem i have "(q', t', Some i) \<in> set ps" unfolding ps by simp
      then have m: "(i, t', Some q') \<in> set us" using wf by (auto simp: wf_core_def)
      have "\<not> (i \<in> A \<and> t' = t)"
      proof
        assume a: "i \<in> A \<and> t' = t"
        then obtain p where p: "(i, t, p) \<in> set us" "p = None \<or> p = Some q" using join by blast
        then have "(t', Some q') = (t, p)" using a core_unique [OF du m] by blast
        with p False show False by auto
      qed
      then show ?thesis unfolding in_move_core left using m False by auto
    qed
    ultimately show ?case by (simp add: x)
  qed
qed

lemma wf_core_remove:
  assumes wf: "wf_core us ps"
  shows "wf_core (map (\<lambda>(i, t, p). if p = Some q then (i, t, None) else (i, t, p)) us)
    (filter (\<lambda>p. fst p \<noteq> q) ps)"
    (is "wf_core ?us ?ps")
proof -
  have us: "(i, t, p) \<in> set ?us \<longleftrightarrow> p \<noteq> Some q \<and> ((i, t, p) \<in> set us \<or> p = None \<and> (i, t, Some q) \<in> set us)" for i t p
    by (induction us) (auto split: if_splits)
  have f: "map fst ?us = map fst us" by auto
  show ?thesis
    unfolding wf_core_def
  proof (intro conjI ballI, goal_cases)
    case 1
    show ?case unfolding f using wf by (simp add: wf_core_def)
  next
    case 2
    show ?case using wf by (simp add: wf_core_def distinct_map_filter)
  next
    case (3 x)
    obtain i t p where x: "x = (i, t, p)" by (cases x)
    have "\<exists>h. (r, t, h) \<in> set ?ps" if "p = Some r" for r
    proof -
      from 3 that have "(i, t, Some r) \<in> set us" "r \<noteq> q" unfolding x us by auto
      then show ?thesis using wf by (fastforce simp: wf_core_def)
    qed
    then show ?case by (simp add: x)
  next
    case (4 x)
    obtain r t h where x: "x = (r, t, h)" by (cases x)
    from 4 have m: "(r, t, h) \<in> set ps" "r \<noteq> q" unfolding x by auto
    then have "r \<noteq> []" "\<And>i. h = Some i \<Longrightarrow> (i, t, Some r) \<in> set us"
      using wf by (fastforce simp: wf_core_def)+
    then show ?case unfolding x us prod.case using m by auto
  qed
qed

section \<open>What the steps do to members and pods\<close>

text \<open>A change of roles only: the same people in the same pods.\<close>

definition roles_only :: "store \<Rightarrow> store \<Rightarrow> bool" where
  "roles_only db db' \<longleftrightarrow>
     (\<exists>us. db' = db\<lparr> st_users := us \<rparr> \<and> map user_core us = map user_core (st_users db))"

lemma roles_only_refl [simp]: "roles_only db db"
  unfolding roles_only_def by (rule exI [of _ "st_users db"]) simp

lemma roles_only_trans: "roles_only a b \<Longrightarrow> roles_only b c \<Longrightarrow> roles_only a c"
  unfolding roles_only_def by auto

lemma roles_only_simps:
  assumes "roles_only db db'"
  shows "st_pods db' = st_pods db" and "map user_core (st_users db') = map user_core (st_users db)"
    and "st_jobPods db' = st_jobPods db" and "st_roles db' = st_roles db" and "st_units db' = st_units db"
  using assms by (auto simp: roles_only_def)

lemma set_user_roles_roles_only: "set_user_roles i r rs db = ok db' \<Longrightarrow> roles_only db db'"
  by (auto simp: set_user_roles_def and_then_eq_Inr update_one_Inr roles_only_def user_core_def
      intro!: map_update_where)

lemma promote_roles_only: "promoteToPodHead i t n db = ok db' \<Longrightarrow> roles_only db db'"
  by (auto simp: promoteToPodHead_def Let_def and_then_eq_Inr split: if_splits
      intro: set_user_roles_roles_only)

lemma demote_roles_only: "demoteFromPodHead i t x db = ok db' \<Longrightarrow> roles_only db db'"
  by (auto simp: demoteFromPodHead_def Let_def split: option.splits intro: set_user_roles_roles_only)

lemma core_in_map: "u \<in> set us \<Longrightarrow> (us_id u, us_tenantId u, us_podId u) \<in> set (map user_core us)"
  by (force simp: user_core_def)

lemma assign_members_core:
  "map user_core (st_users (assign_members ids t p db)) = move_core (set ids) t p (map user_core (st_users db))"
  by (simp add: assign_members_def move_core_def update_where_def user_core_def)

lemma assign_members_frame [simp]:
  "st_pods (assign_members ids t p db) = st_pods db" "st_roles (assign_members ids t p db) = st_roles db"
  by (simp_all add: assign_members_def)

lemma check_each_ok: "check_each f xs = ok () \<longleftrightarrow> (\<forall>x \<in> set xs. f x = ok ())"
  by (induction xs) (auto simp: and_then_eq_Inr)

lemma recruiter_check_ok:
  assumes "recruiter_check db n cur u = ok ()"
  shows "us_isActive u" "us_isApproved u" "truthy (us_businessUnitId u) \<Longrightarrow> us_businessUnitId u = Some n"
    "truthy (us_podId u) \<Longrightarrow> us_podId u = cur" "list_ex is_recruiter_role (effective_roles db u)"
  using assms by (auto simp: recruiter_check_def Let_def split: if_splits)

lemma validateRecruiters_ok:
  assumes ok: "validateRecruiters db ids t n cur = ok ()" and "distinct ids"
    and du: "distinct (map us_id (st_users db))" and i: "i \<in> set ids"
  obtains u where "u \<in> set (st_users db)" "us_id u = i" "us_tenantId u = t" "recruiter_check db n cur u = ok ()"
proof -
  let ?us = "find_many (\<lambda>u. us_id u \<in> set ids \<and> us_tenantId u = t) (st_users db)"
  have len: "length ?us = length ids" and each: "\<forall>u \<in> set ?us. recruiter_check db n cur u = ok ()"
    using ok i by (auto simp: validateRecruiters_def Let_def check_each_ok split: if_splits)
  have sub: "set (map us_id ?us) \<subseteq> set ids" by auto
  have "distinct (map us_id ?us)"
    using du by (simp add: find_many_def distinct_map_filter)
  then have "card (set (map us_id ?us)) = card (set ids)"
    using distinct_card [of "map us_id ?us"] distinct_card [OF \<open>distinct ids\<close>] len
    by (simp only: length_map)
  then have "set (map us_id ?us) = set ids"
    using sub by (metis List.finite_set card_subset_eq)
  then obtain u where "u \<in> set ?us" "us_id u = i" using i by force
  with each that show thesis by auto
qed

lemma pods_wf_distinct: "pods_wf db \<Longrightarrow> distinct (map us_id (st_users db))"
  by (simp add: pods_wf_def wf_core_def user_core_def comp_def)

lemma wf_core_member: "wf_core us ps \<Longrightarrow> (i, t, Some q) \<in> set us \<Longrightarrow> \<exists>h. (q, t, h) \<in> set ps"
  by (fastforce simp: wf_core_def)

lemma wf_no_empty_pod: "wf_core us ps \<Longrightarrow> (i, t, Some []) \<notin> set us"
  by (fastforce simp: wf_core_def)

lemma validated_core:
  assumes wf: "pods_wf db" and ok: "validateRecruiters db ids t n cur = ok ()" and "distinct ids" and "i \<in> set ids"
  shows "\<exists>p. (i, t, p) \<in> set (map user_core (st_users db)) \<and> (p = None \<or> p = cur)"
proof -
  obtain u where u: "u \<in> set (st_users db)" "us_id u = i" "us_tenantId u = t" "recruiter_check db n cur u = ok ()"
    using validateRecruiters_ok [OF ok \<open>distinct ids\<close> pods_wf_distinct [OF wf] \<open>i \<in> set ids\<close>] .
  have m: "(i, t, us_podId u) \<in> set (map user_core (st_users db))"
    using core_in_map [OF u(1)] u by simp
  have "us_podId u \<noteq> Some []"
    using wf_no_empty_pod m wf unfolding pods_wf_def by metis
  then have "us_podId u = None \<or> us_podId u = cur"
    using recruiter_check_ok(4) [OF u(4)] by (cases "us_podId u") auto
  with m show ?thesis by blast
qed

lemma create_pod_tx_wf:
  assumes wf: "pods_wf db" and new: "newId \<notin> pd_id ` set (st_pods db)" "newId \<noteq> []"
    and tx: "create_pod_tx newId now dto t b n db = ok db'"
  shows "pods_wf db'"
proof -
  let ?target = "uniq (present [cp_podHeadId dto] @ cp_recruiterIds dto)"
  define row where "row = \<lparr> pd_id = newId, pd_tenantId = t, pd_branchId = Some b,
     pd_businessUnitId = Some n, pd_name = trim (cp_name dto), pd_podHeadId = or_null (cp_podHeadId dto),
     pd_description = or_null (map_option trim (cp_description dto)),
     pd_isAvailableForAssignment = True, pd_createdAt = now \<rparr>"
  define db1 where "db1 = assign_members ?target t (Some newId) (db\<lparr> st_pods := st_pods db @ [row] \<rparr>)"
  have v: "validateRecruiters db ?target t n None = ok ()" and ro: "roles_only db1 db'"
    using tx by (auto simp: create_pod_tx_def Let_def pod_name_taken_def already_leads_def and_then_eq_Inr
        db1_def row_def split: if_splits option.splits dest: promote_roles_only)
  have users: "map user_core (st_users db1) = move_core (set ?target) t (Some newId) (map user_core (st_users db))"
    unfolding db1_def by (simp add: assign_members_core)
  have pods: "map pod_core (st_pods db1) = map pod_core (st_pods db) @ [(newId, t, or_null (cp_podHeadId dto))]"
    by (simp add: db1_def row_def pod_core_def)
  have "wf_core (move_core (set ?target) t (Some newId) (map user_core (st_users db)))
      (map pod_core (st_pods db) @ [(newId, t, or_null (cp_podHeadId dto))])"
  proof (rule wf_core_create)
    show "wf_core (map user_core (st_users db)) (map pod_core (st_pods db))"
      using wf by (simp add: pods_wf_def)
    show "newId \<notin> fst ` set (map pod_core (st_pods db))" using new by (auto simp: pod_core_def)
    show "(i, t, None) \<in> set (map user_core (st_users db))" if "i \<in> set ?target" for i
      using validated_core [OF wf v _ that] by auto
    show "i \<in> set ?target" if "or_null (cp_podHeadId dto) = Some i" for i
      using that by (auto simp: or_null_def split: if_splits)
  qed (rule new)
  then show ?thesis
    unfolding pods_wf_def using ro users pods by (simp add: roles_only_simps)
qed

lemma pods_create_tx:
  assumes "pods_create e newId now dto t b n db = ok (r, m, db')"
  obtains b' n' where "create_pod_tx newId now dto t b' n' db = ok db'"
  using assms by (auto simp: pods_create_def Let_def and_then_eq_Inr split: if_splits option.splits)

lemma pods_update_tx:
  assumes "pods_update e i dto t db = ok (r, m, db')"
  obtains existing b n where "pod_by i t db = Some existing" and "update_pod_tx i dto existing t b n db = ok db'"
  using assms by (auto simp: pods_update_def Let_def and_then_eq_Inr split: option.splits)

lemma pods_create_wf:
  assumes "pods_wf db" and "newId \<notin> pd_id ` set (st_pods db)" "newId \<noteq> []"
    and "pods_create e newId now dto t b n db = ok (r, m, db')"
  shows "pods_wf db'"
  by (rule pods_create_tx [OF assms(4)]) (rule create_pod_tx_wf [OF assms(1-3)])

definition head_core :: "uuid \<Rightarrow> uuid option \<Rightarrow> (uuid \<times> uuid \<times> uuid option) list \<Rightarrow> (uuid \<times> uuid \<times> uuid option) list" where
  "head_core q h ps = map (\<lambda>(q', t', h'). if q' = q then (q', t', h) else (q', t', h')) ps"

definition leave_core :: "uuid \<Rightarrow> uuid \<Rightarrow> uuid set \<Rightarrow> (uuid \<times> uuid \<times> uuid option) list \<Rightarrow> (uuid \<times> uuid \<times> uuid option) list" where
  "leave_core q t K us = map (\<lambda>(i, t', p). if p = Some q \<and> t' = t \<and> i \<notin> K then (i, t', None) else (i, t', p)) us"

lemma head_core_idem [simp]: "head_core q h (head_core q h ps) = head_core q h ps"
  by (auto simp: head_core_def)

lemma in_head_core:
  "(q', t', h') \<in> set (head_core q h ps) \<longleftrightarrow>
     (if q' = q then h' = h \<and> (\<exists>x. (q', t', x) \<in> set ps) else (q', t', h') \<in> set ps)"
  by (induction ps) (auto simp: head_core_def split: if_splits)

lemma move_core_empty [simp]: "move_core {} t p us = us"
  by (auto simp: move_core_def intro: map_idI)

lemma leave_core_UNIV [simp]: "leave_core q t UNIV us = us"
  by (auto simp: leave_core_def intro: map_idI)

lemmas wf_core_regroup' = wf_core_regroup [folded head_core_def leave_core_def]

lemma update_pod_members_core:
  assumes "ids = Some rs"
  shows "map user_core (st_users (update_pod_members i ids h t db)) =
     move_core (set rs \<union> set (present [h])) t (Some i)
       (leave_core i t (set rs \<union> set (present [h])) (map user_core (st_users db)))"
proof -
  let ?new = "uniq (rs @ present [h])"
  let ?left = "db\<lparr> st_users := update_where (\<lambda>u. us_podId u = Some i \<and> us_tenantId u = t \<and> us_id u \<notin> set ?new)
      (\<lambda>u. u\<lparr> us_podId := None \<rparr>) (st_users db) \<rparr>"
  have l: "map user_core (st_users ?left) = leave_core i t (set ?new) (map user_core (st_users db))"
    by (auto simp: leave_core_def update_where_def user_core_def)
  have "map user_core (st_users (update_pod_members i ids h t db)) =
      move_core (set ?new) t (Some i) (map user_core (st_users ?left))"
  proof (cases "?new = []")
    case True
    then have "set ?new = {}" by simp
    with True show ?thesis using assms by (simp add: update_pod_members_def Let_def)
  next
    case False
    with assms show ?thesis by (simp add: update_pod_members_def Let_def assign_members_core)
  qed
  then show ?thesis unfolding l by simp
qed

lemma update_pod_members_pods [simp]: "st_pods (update_pod_members i ids h t db) = st_pods db"
  by (simp add: update_pod_members_def Let_def split: option.splits)

definition lead_moves :: "update_pod_dto \<Rightarrow> pod \<Rightarrow> uuid \<Rightarrow> bool" where
  "lead_moves dto existing unitId \<longleftrightarrow>
     (case up_podHeadId dto of None \<Rightarrow> False | Some v \<Rightarrow> v \<noteq> pd_podHeadId existing)
     \<or> Some unitId \<noteq> pd_businessUnitId existing"

lemma update_pod_lead_core:
  assumes ok: "update_pod_lead i dto existing t n db = ok db'"
    and h: "h = (case up_podHeadId dto of Some v \<Rightarrow> v | None \<Rightarrow> pd_podHeadId existing)"
    and du: "distinct (map fst (map user_core (st_users db)))"
    and member: "\<And>j. j \<in> set (present [h]) \<Longrightarrow> \<exists>p. (j, t, p) \<in> set (map user_core (st_users db))"
  shows "st_pods db' = st_pods db"
    and "map user_core (st_users db') =
      move_core (if lead_moves dto existing n then set (present [h]) else {}) t (Some i) (map user_core (st_users db))"
proof -
  obtain db1 where d: "(if (case up_podHeadId dto of None \<Rightarrow> False | Some v \<Rightarrow> v \<noteq> pd_podHeadId existing)
          \<and> truthy (pd_podHeadId existing)
       then demoteFromPodHead (the (pd_podHeadId existing)) t (Some i) db else ok db) = ok db1"
    and rest: "(if truthy h \<and> lead_moves dto existing n
       then and_then (promoteToPodHead (the h) t n db1) (\<lambda>db2.
              and_then (update_one (\<lambda>u. us_id u = the h) (\<lambda>u. u\<lparr> us_podId := Some i \<rparr>) (st_users db2))
                (\<lambda>us. ok (db2\<lparr> st_users := us \<rparr>)))
       else ok db1) = ok db'"
    using ok unfolding update_pod_lead_def Let_def h lead_moves_def
    by (elim and_then_InrE) blast
  have r1: "roles_only db db1"
    using d by (simp only: split: if_splits) (auto dest: demote_roles_only)
  show "st_pods db' = st_pods db" using rest r1
    by (auto simp: and_then_eq_Inr roles_only_simps split: if_splits dest!: promote_roles_only)
  show "map user_core (st_users db') =
      move_core (if lead_moves dto existing n then set (present [h]) else {}) t (Some i) (map user_core (st_users db))"
  proof (cases "truthy h \<and> lead_moves dto existing n")
    case False
    then have "db' = db1" using rest by auto
    moreover have "(if lead_moves dto existing n then set (present [h]) else {}) = {}"
      using False by (cases h) auto
    ultimately show ?thesis using r1 by (simp only: roles_only_simps move_core_empty)
  next
    case True
    then obtain j where j: "h = Some j" "set (present [h]) = {j}" by (auto elim!: truthyE)
    obtain db2 where r2: "roles_only db1 db2"
      and us: "st_users db' = update_where (\<lambda>u. us_id u = j) (\<lambda>u. u\<lparr> us_podId := Some i \<rparr>) (st_users db2)"
      using rest True j by (auto simp: and_then_eq_Inr update_one_Inr dest!: promote_roles_only)
    have same: "map user_core (st_users db2) = map user_core (st_users db)"
      using r1 r2 by (simp add: roles_only_simps)
    have "map user_core (st_users db') =
        map (\<lambda>(k, t', p). if k = j then (k, t', Some i) else (k, t', p)) (map user_core (st_users db2))"
      by (simp add: us update_where_def user_core_def)
    also have "\<dots> = move_core {j} t (Some i) (map user_core (st_users db2))"
    proof -
      obtain p where p: "(j, t, p) \<in> set (map user_core (st_users db))" using member j by auto
      have "t' = t" if "(j, t', q) \<in> set (map user_core (st_users db))" for t' q
        using core_unique [OF du p that] by simp
      then have "(case x of (k, t', p) \<Rightarrow> if k = j then (k, t', Some i) else (k, t', p)) =
          (case x of (k, t', p) \<Rightarrow> if k \<in> {j} \<and> t' = t then (k, t', Some i) else (k, t', p))"
        if "x \<in> set (map user_core (st_users db))" for x
        using that by (cases x rule: prod_cases3) (auto simp del: set_map)
      then show ?thesis unfolding move_core_def same by (intro map_cong refl)
    qed
    finally show ?thesis using True j same by simp
  qed
qed

lemma update_pod_tx_wf:
  assumes wf: "pods_wf db" and ex: "pod_by i t db = Some existing"
    and tx: "update_pod_tx i dto existing t b n db = ok db'"
  shows "pods_wf db'"
proof -
  define h where "h = (case up_podHeadId dto of Some v \<Rightarrow> v | None \<Rightarrow> pd_podHeadId existing)"
  define ids where "ids = (case up_recruiterIds dto of None \<Rightarrow> [] | Some rs \<Rightarrow> rs)"
  define target where "target = uniq (present [h] @ ids)"
  obtain pods db2 where v: "validateRecruiters db target t n (Some i) = ok ()" and hne: "h \<noteq> Some []"
    and pods: "map pod_core pods = head_core i h (map pod_core (st_pods db))"
    and lead: "update_pod_lead i dto existing t n (db\<lparr> st_pods := pods \<rparr>) = ok db2"
    and db': "db' = update_pod_members i (up_recruiterIds dto) h t db2"
  proof -
    have "map pod_core (update_where (\<lambda>p. pd_id p = i) (\<lambda>p. p\<lparr> pd_name := nm, pd_branchId := Some b,
        pd_businessUnitId := Some n, pd_podHeadId := h, pd_description := ds \<rparr>) (st_pods db))
      = head_core i h (map pod_core (st_pods db))" for nm ds
      by (simp add: update_where_def head_core_def pod_core_def)
    with tx that show thesis
      unfolding update_pod_tx_def Let_def h_def [symmetric] ids_def [symmetric] target_def [symmetric]
      by (auto simp: and_then_eq_Inr update_one_Inr pod_name_taken_def already_leads_def
          split: if_splits option.splits)
  qed
  let ?U = "map user_core (st_users db)" and ?P = "map pod_core (st_pods db)"
  have wfc: "wf_core ?U ?P" using wf by (simp add: pods_wf_def)
  have du: "distinct (map fst ?U)" using wfc by (simp add: wf_core_def)
  have pod: "(i, t, pd_podHeadId existing) \<in> set ?P"
    using pod_by_Some [OF ex] by (force simp: pod_core_def)
  have valid: "\<exists>p. (j, t, p) \<in> set ?U \<and> (p = None \<or> p = Some i)" if "j \<in> set target" for j
    using validated_core [OF wf v _ that] by (simp add: target_def)
  have hd: "j \<in> set target" if "h = Some j" for j using that hne by (auto simp: target_def)
  let ?A = "if lead_moves dto existing n then set (present [h]) else {}"
  have member: "\<exists>p. (j, t, p) \<in> set (map user_core (st_users (db\<lparr> st_pods := pods \<rparr>)))"
    if "j \<in> set (present [h])" for j
    using valid [of j] that by (auto simp: target_def)
  have core: "st_pods db2 = pods" "map user_core (st_users db2) = move_core ?A t (Some i) ?U"
    using update_pod_lead_core [OF lead h_def _ member] du by simp_all
  have one: "wf_core (map user_core (st_users db2)) (map pod_core (st_pods db2))"
  proof -
    have "wf_core (move_core ?A t (Some i) (leave_core i t UNIV ?U)) (head_core i h ?P)"
    proof (rule wf_core_regroup' [OF wfc pod])
      show "\<exists>p. (j, t, p) \<in> set ?U \<and> (p = None \<or> p = Some i)" if "j \<in> ?A" for j
        using valid [of j] that by (auto simp: target_def split: if_splits)
      show "j \<in> ?A \<or> j \<in> UNIV \<and> (j, t, Some i) \<in> set ?U" if "h = Some j" for j
      proof (cases "lead_moves dto existing n")
        case True
        then show ?thesis using that hne by auto
      next
        case False
        then have "pd_podHeadId existing = Some j"
          using that by (auto simp: lead_moves_def h_def split: option.splits)
        then show ?thesis using wfc pod by (fastforce simp: wf_core_def)
      qed
    qed
    then show ?thesis by (simp only: core pods leave_core_UNIV)
  qed
  show ?thesis
  proof (cases "up_recruiterIds dto")
    case None
    then have "db' = db2" by (simp add: db' update_pod_members_def)
    with one show ?thesis by (simp add: pods_wf_def)
  next
    case (Some rs)
    let ?N = "set rs \<union> set (present [h])"
    have "?N = set target" using Some by (auto simp: target_def ids_def)
    have pod2: "(i, t, h) \<in> set (map pod_core (st_pods db2))"
      using pod unfolding core pods in_head_core by auto
    have "wf_core (move_core ?N t (Some i) (leave_core i t ?N (map user_core (st_users db2))))
        (head_core i h (map pod_core (st_pods db2)))"
    proof (rule wf_core_regroup' [OF one pod2])
      show "\<exists>p. (j, t, p) \<in> set (map user_core (st_users db2)) \<and> (p = None \<or> p = Some i)" if "j \<in> ?N" for j
      proof -
        have "j \<in> ?N" by (rule that)
        then obtain p where p: "(j, t, p) \<in> set ?U" "p = None \<or> p = Some i"
          using valid [of j] unfolding \<open>?N = set target\<close> by blast
        then have "(j, t, if j \<in> ?A then Some i else p) \<in> set (map user_core (st_users db2))"
          unfolding core(2) in_move_core by (auto simp del: set_map)
        with p(2) show ?thesis by (cases "j \<in> ?A") auto
      qed
      show "j \<in> ?N \<or> j \<in> ?N \<and> (j, t, Some i) \<in> set (map user_core (st_users db2))" if "h = Some j" for j
        using that hne by auto
    qed
    then show ?thesis
      unfolding pods_wf_def db' update_pod_members_core [OF Some] by (simp add: core pods)
  qed
qed

lemma pods_update_wf:
  assumes "pods_wf db" and "pods_update e i dto t db = ok (r, m, db')"
  shows "pods_wf db'"
  by (rule pods_update_tx [OF assms(2)]) (rule update_pod_tx_wf [OF assms(1)])

lemma optional_demote_roles_only:
  assumes "(if c then demoteFromPodHead h t x db else ok db) = ok db1"
  shows "roles_only db db1"
  using assms by (cases c) (auto dest: demote_roles_only)

lemma pods_remove_tx:
  assumes "pods_remove i t db = ok (r, db')"
  obtains p db1 where "pod_by i t db = Some p"
    and "(if truthy (pd_podHeadId p) then demoteFromPodHead (the (pd_podHeadId p)) t (Some i) db else ok db) = ok db1"
    and "roles_only db db1" and "db' = delete_pod_row i (clear_members i t db1)"
proof (cases "pod_by i t db")
  case None
  with assms show ?thesis by (simp add: pods_remove_def)
next
  case (Some p)
  with assms obtain db1 where
    "(if truthy (pd_podHeadId p) then demoteFromPodHead (the (pd_podHeadId p)) t (Some i) db else ok db) = ok db1"
    "db' = delete_pod_row i (clear_members i t db1)"
    unfolding pods_remove_def
    by (cases "0 < count_where (\<lambda>j. jp_podId j = i) (st_jobPods db)") (simp_all only: option.case if_True if_False and_then_eq_Inr, auto)
  with Some that optional_demote_roles_only show ?thesis by metis
qed

lemma pods_remove_wf:
  assumes wf: "pods_wf db" and ok: "pods_remove i t db = ok (r, db')"
  shows "pods_wf db'"
proof -
  obtain p db1 where "pod_by i t db = Some p"
    and d: "(if truthy (pd_podHeadId p) then demoteFromPodHead (the (pd_podHeadId p)) t (Some i) db else ok db) = ok db1"
    and r: "roles_only db db1" and db': "db' = delete_pod_row i (clear_members i t db1)"
    by (rule pods_remove_tx [OF ok])
  have "map user_core (st_users db') =
      map (\<lambda>(j, t, p). if p = Some i then (j, t, None) else (j, t, p)) (map user_core (st_users db1))"
    by (auto simp: db' delete_pod_row_def clear_members_def update_where_def user_core_def)
  moreover have "map pod_core (st_pods db') = filter (\<lambda>p. fst p \<noteq> i) (map pod_core (st_pods db1))"
    by (simp add: db' delete_pod_row_def clear_members_def delete_where_def filter_map comp_def pod_core_def)
  ultimately show ?thesis
    using wf_core_remove [of "map user_core (st_users db)" "map pod_core (st_pods db)" i] wf r
    unfolding pods_wf_def by (simp only: roles_only_simps)
qed

lemma set_available_core [simp]:
  "map user_core (st_users (set_available q v db)) = map user_core (st_users db)"
  "map pod_core (st_pods (set_available q v db)) = map pod_core (st_pods db)"
  by (auto simp: set_available_def pod_core_def intro!: map_update_where)

lemma pods_wf_set_available [simp]: "pods_wf (set_available q v db) = pods_wf db"
  by (simp only: pods_wf_def set_available_core)

lemma allocate_wf: "pods_wf db \<Longrightarrow> allocateAutomaticPod t b n db = ok (p, db') \<Longrightarrow> pods_wf db'"
  by (auto simp: allocateAutomaticPod_def Let_def and_then_eq_Inr split: option.splits if_splits list.splits)

section \<open>The pods as a transition system\<close>

text \<open>The operations on pods as steps of the store, in any order; fresh identifiers are not in use.\<close>

inductive pod_step :: "store \<Rightarrow> store \<Rightarrow> bool" where
  create: "newId \<notin> pd_id ` set (st_pods db) \<Longrightarrow> newId \<noteq> [] \<Longrightarrow>
    pods_create e newId now dto t b n db = ok (r, m, db') \<Longrightarrow> pod_step db db'"
| update: "pods_update e i dto t db = ok (r, m, db') \<Longrightarrow> pod_step db db'"
| remove: "pods_remove i t db = ok (msg, db') \<Longrightarrow> pod_step db db'"
| reset: "resetCycle t b n db = (msg, db') \<Longrightarrow> pod_step db db'"
| allocate: "allocateAutomaticPod t b n db = ok (p, db') \<Longrightarrow> pod_step db db'"

lemma pod_step_wf: "pod_step db db' \<Longrightarrow> pods_wf db \<Longrightarrow> pods_wf db'"
  by (induction rule: pod_step.induct)
    (auto simp: resetCycle_def intro: pods_create_wf pods_update_wf pods_remove_wf allocate_wf)

lemma pods_wf_leads:
  assumes wf: "pods_wf db" and p: "p \<in> set (st_pods db)" "pd_podHeadId p = Some h"
  shows "\<exists>u \<in> set (st_users db). us_id u = h \<and> us_tenantId u = pd_tenantId p \<and> us_podId u = Some (pd_id p)"
proof -
  have "(pd_id p, pd_tenantId p, Some h) \<in> set (map pod_core (st_pods db))"
    using p by (force simp: pod_core_def)
  then have "(h, pd_tenantId p, Some (pd_id p)) \<in> set (map user_core (st_users db))"
    using wf unfolding pods_wf_def wf_core_def by blast
  then show ?thesis by (auto simp: user_core_def)
qed

section \<open>Properties\<close>

text \<open>C2: Pod membership and leadership stay consistent through every sequence of operations on
  pods, allocations included: in every store reached from a consistent one, a member's pod exists
  in the member's tenant, a pod's lead is a member of that pod in its tenant, and nobody leads two
  pods.\<close>

theorem leadership_invariant:
  assumes "pods_wf db" and "pod_step\<^sup>*\<^sup>* db db'"
  shows "pods_wf db' \<and>
    (\<forall>p \<in> set (st_pods db'). \<forall>h. pd_podHeadId p = Some h \<longrightarrow>
       (\<exists>u \<in> set (st_users db'). us_id u = h \<and> us_tenantId u = pd_tenantId p \<and> us_podId u = Some (pd_id p))) \<and>
    (\<forall>p \<in> set (st_pods db'). \<forall>q \<in> set (st_pods db'). \<forall>h.
       pd_podHeadId p = Some h \<and> pd_podHeadId q = Some h \<longrightarrow> pd_id p = pd_id q)"
proof -
  have wf: "pods_wf db'"
    using assms(2,1) by (induction rule: rtranclp_induct) (auto intro: pod_step_wf)
  have "pd_id p = pd_id q" if m: "p \<in> set (st_pods db')" "q \<in> set (st_pods db')"
    "pd_podHeadId p = Some h" "pd_podHeadId q = Some h" for p q h
  proof -
    obtain u v where "u \<in> set (st_users db')" "v \<in> set (st_users db')" "us_id u = us_id v"
      "us_podId u = Some (pd_id p)" "us_podId v = Some (pd_id q)"
      using pods_wf_leads [OF wf m(1,3)] pods_wf_leads [OF wf m(2,4)] by auto
    then have "u = v" using pods_wf_distinct [OF wf] by (metis distinct_map inj_onD)
    with \<open>us_podId u = _\<close> \<open>us_podId v = _\<close> show ?thesis by simp
  qed
  with wf pods_wf_leads [OF wf] show ?thesis by blast
qed

lemma leadership_invariant_witness:
  "\<exists>db'. pods_wf db' \<and> ''p3'' \<in> pd_id ` set (st_pods db')"
proof -
  let ?dto = "\<lparr> cp_name = '' Gamma '', cp_podHeadId = Some ''r3'', cp_recruiterIds = [],
     cp_branchId = None, cp_businessUnitId = Some ''n'', cp_description = None \<rparr>"
  have "succeeds (pods_create True ''p3'' 3 ?dto ''t'' None None two_pods)" by code_simp
  then obtain r m db' where c: "pods_create True ''p3'' 3 ?dto ''t'' None None two_pods = ok (r, m, db')"
    by (auto simp: succeeds_iff)
  have wf: "pods_wf two_pods"
    by (simp add: pods_wf_def wf_core_def user_core_def pod_core_def two_pods_def empty_store_def
        mk_pod_def mk_member_def)
  have "pod_step two_pods db'"
    by (rule pod_step.create [OF _ _ c]) (simp_all add: two_pods_def mk_pod_def)
  then have "pods_wf db'"
    using leadership_invariant [OF wf] by blast
  moreover have "pods_findOne db' ''p3'' ''t'' = ok r"
    using c by (auto simp: pods_create_def Let_def and_then_eq_Inr split: if_splits option.splits)
  then have "''p3'' \<in> pd_id ` set (st_pods db')"
    by (force simp: pods_findOne_def split: option.splits dest: pod_by_Some)
  ultimately show ?thesis by blast
qed

end
