(* ===== verification/PodGuarantees.thy ===== *)
theory PodGuarantees
  imports PodMembership
begin

text \<open>
  What the operations on pods guarantee beyond the membership invariant: how leadership roles come
  and go, when a pod can be deleted, whose pods a caller reaches, that no operation touches another
  tenant, and the uniqueness of names.
\<close>

section \<open>Leadership roles come and go\<close>

definition roles_of :: "user \<Rightarrow> uuid list" where
  "roles_of u = present (us_roleId u # map Some (us_assignedRoleIds u))"

lemma user_by_set_user_roles:
  assumes "set_user_roles i r rs db = ok db'" and "user_by i t db = Some u"
  shows "user_by i t db' = Some (u\<lparr> us_roleId := r, us_assignedRoleIds := rs \<rparr>)"
    and "st_roles db' = st_roles db" and "st_pods db' = st_pods db"
    and "\<And>j. j \<noteq> i \<Longrightarrow> user_by j t' db' = user_by j t' db"
proof -
  have us: "st_users db' = update_where (\<lambda>u. us_id u = i) (\<lambda>u. u\<lparr> us_roleId := r, us_assignedRoleIds := rs \<rparr>) (st_users db)"
    and rest: "st_roles db' = st_roles db" "st_pods db' = st_pods db"
    using assms(1) by (auto simp: set_user_roles_def and_then_eq_Inr update_one_Inr)
  have f: "find_first q (map f xs) = map_option f (find_first q xs)" if "\<And>x. q (f x) = q x" for q f and xs :: "user list"
    using that by (simp add: find_first_map comp_def)
  show "user_by i t db' = Some (u\<lparr> us_roleId := r, us_assignedRoleIds := rs \<rparr>)"
    using assms(2) user_by_Some [OF assms(2)] unfolding user_by_def us update_where_def
    by (subst f) auto
  show "user_by j t' db' = user_by j t' db" if "j \<noteq> i" for j
    using that unfolding user_by_def us update_where_def
    by (subst f) (auto simp: option.map_ident_strong dest: find_first_Some intro!: option.map_ident_strong)
  show "st_roles db' = st_roles db" "st_pods db' = st_pods db" by (fact rest)+
qed

lemma pod_lead_role_is_lead:
  "pod_lead_role t n db = ok r \<Longrightarrow> cr_id r \<in> set (lead_role_ids db t)"
proof -
  assume ok: "pod_lead_role t n db = ok r"
  have "r \<in> set (st_roles db) \<and> is_lead_role t r"
  proof (cases "find_many (\<lambda>r. is_lead_role t r \<and> cr_businessUnitId r = Some n \<and> \<not> cr_isSystem r) (st_roles db)")
    case Nil
    then show ?thesis
      using ok by (auto simp: pod_lead_role_def Let_def split: option.splits dest: find_first_Some)
  next
    case (Cons a list)
    then have "a \<in> set (find_many (\<lambda>r. is_lead_role t r \<and> cr_businessUnitId r = Some n \<and> \<not> cr_isSystem r) (st_roles db))"
      by simp
    then have "a \<in> set (st_roles db) \<and> is_lead_role t a" by (simp only: set_find_many) simp
    then show ?thesis using ok Cons by (auto simp: pod_lead_role_def Let_def split: if_splits)
  qed
  then show ?thesis by (auto simp: lead_role_ids_def)
qed

lemma promote_roles:
  assumes "promoteToPodHead i t n db = ok db'" and "user_by i t db = Some u"
  obtains l where "l \<in> set (lead_role_ids db t)"
    and "user_by i t db' = Some (u\<lparr> us_roleId := Some l,
           us_assignedRoleIds := uniq (filter (\<lambda>r. r \<notin> set (lead_role_ids db t)) (roles_of u) @ [l]) \<rparr>)"
    and "st_roles db' = st_roles db" and "st_pods db' = st_pods db"
    and "\<And>j t'. j \<noteq> i \<Longrightarrow> user_by j t' db' = user_by j t' db"
proof -
  obtain r where r: "pod_lead_role t n db = ok r"
    and s: "set_user_roles i (Some (cr_id r))
       (uniq (filter (\<lambda>r. r \<notin> set (lead_role_ids db t)) (roles_of u) @ [cr_id r])) db = ok db'"
    using assms by (auto simp: promoteToPodHead_def Let_def roles_of_def and_then_eq_Inr split: if_splits)
  show thesis
    by (rule that [of "cr_id r"])
      (use user_by_set_user_roles [OF s assms(2)] pod_lead_role_is_lead [OF r] in auto)
qed

lemma demote_roles:
  assumes "demoteFromPodHead i t x db = ok db'" and "user_by i t db = Some u"
    and "\<forall>p \<in> set (st_pods db). pd_podHeadId p = Some i \<and> pd_tenantId p = t \<longrightarrow> Some (pd_id p) = x \<and> x \<noteq> Some []"
  obtains rs where "rs = uniq (filter (\<lambda>r. r \<notin> set (lead_role_ids db t))
           (present (map Some (us_assignedRoleIds u) @ [us_roleId u])))"
    and "user_by i t db' = Some (u\<lparr> us_roleId := (if truthy (us_roleId u) \<and> the (us_roleId u) \<notin> set (lead_role_ids db t)
              then us_roleId u else case rs of [] \<Rightarrow> None | r # _ \<Rightarrow> Some r), us_assignedRoleIds := rs \<rparr>)"
    and "st_roles db' = st_roles db"
proof -
  have "find_first (\<lambda>p. pd_podHeadId p = Some i \<and> pd_tenantId p = t \<and> (truthy x \<longrightarrow> Some (pd_id p) \<noteq> x)) (st_pods db) = None"
    using assms(3) by (auto simp: find_first_None)
  then have s: "set_user_roles i (if truthy (us_roleId u) \<and> the (us_roleId u) \<notin> set (lead_role_ids db t)
      then us_roleId u else case (uniq (filter (\<lambda>r. r \<notin> set (lead_role_ids db t))
           (present (map Some (us_assignedRoleIds u) @ [us_roleId u])))) of [] \<Rightarrow> None | r # _ \<Rightarrow> Some r)
     (uniq (filter (\<lambda>r. r \<notin> set (lead_role_ids db t))
           (present (map Some (us_assignedRoleIds u) @ [us_roleId u])))) db = ok db'"
    using assms(1,2) by (simp add: demoteFromPodHead_def Let_def)
  show thesis
    by (rule that [OF refl]) (use user_by_set_user_roles [OF s assms(2)] in auto)
qed

lemma present_map_Some: "present (map Some xs) = filter (\<lambda>x. x \<noteq> []) xs"
  by (induction xs) auto

lemma present_append: "present (xs @ ys) = present xs @ present ys"
  by (simp add: present_def)

text \<open>C33: Leadership is granted and withdrawn without touching a person's other roles: promotion
  makes a lead role of the tenant the primary role and adds it to the person's non-lead roles, as
  the only lead role; demotion removes exactly the lead roles.  Promoting and later demoting gives
  back the original non-lead roles, and the original primary role if that was not a lead role.\<close>

theorem lead_role_roundtrip:
  assumes "user_by i t db = Some u" and "promoteToPodHead i t n db = ok db1"
    and "demoteFromPodHead i t x db1 = ok db2"
    and "\<forall>p \<in> set (st_pods db). pd_podHeadId p = Some i \<and> pd_tenantId p = t \<longrightarrow> Some (pd_id p) = x \<and> x \<noteq> Some []"
  shows "\<exists>u1 u2 l. user_by i t db1 = Some u1 \<and> us_roleId u1 = Some l \<and> l \<in> set (lead_role_ids db t) \<and>
    set (us_assignedRoleIds u1) = insert l (set (roles_of u) - set (lead_role_ids db t)) \<and>
    user_by i t db2 = Some u2 \<and>
    set (us_assignedRoleIds u2) = set (roles_of u) - set (lead_role_ids db t) \<and>
    (truthy (us_roleId u) \<and> the (us_roleId u) \<notin> set (lead_role_ids db t) \<longrightarrow> us_roleId u2 = us_roleId u) \<and>
    (\<forall>r. us_roleId u2 = Some r \<longrightarrow> r \<notin> set (lead_role_ids db t))"
proof -
  let ?L = "set (lead_role_ids db t)"
  obtain l where l: "l \<in> ?L"
    and u1: "user_by i t db1 = Some (u\<lparr> us_roleId := Some l, us_assignedRoleIds := uniq (filter (\<lambda>r. r \<notin> ?L) (roles_of u) @ [l]) \<rparr>)"
    and same: "st_roles db1 = st_roles db" "st_pods db1 = st_pods db"
    using promote_roles [OF assms(2,1)] by metis
  have L1: "lead_role_ids db1 t = lead_role_ids db t" by (simp add: lead_role_ids_def same)
  let ?u1 = "u\<lparr> us_roleId := Some l, us_assignedRoleIds := uniq (filter (\<lambda>r. r \<notin> ?L) (roles_of u) @ [l]) \<rparr>"
  obtain rs where rs: "rs = uniq (filter (\<lambda>r. r \<notin> ?L) (present (map Some (us_assignedRoleIds ?u1) @ [us_roleId ?u1])))"
    and u2: "user_by i t db2 = Some (?u1\<lparr> us_roleId := (case rs of [] \<Rightarrow> None | r # _ \<Rightarrow> Some r), us_assignedRoleIds := rs \<rparr>)"
    using demote_roles [OF assms(3) u1] assms(4) l unfolding L1 same by auto
  have ne: "[] \<notin> set (roles_of u)" by (auto simp: roles_of_def set_present)
  have set_rs: "set rs = set (roles_of u) - ?L"
    using l ne by (auto simp: rs present_append present_map_Some)
  have primary: "us_roleId u = (case rs of [] \<Rightarrow> None | r # _ \<Rightarrow> Some r)"
    if "truthy (us_roleId u)" "the (us_roleId u) \<notin> ?L"
    using that by (auto simp: rs present_append present_map_Some roles_of_def elim!: truthyE)
  have "r \<notin> ?L" if "(case rs of [] \<Rightarrow> None | r # _ \<Rightarrow> Some r) = Some r" for r
    using that set_rs by (auto split: list.splits)
  then show ?thesis
    using l u1 u2 set_rs primary by (intro exI [of _ ?u1] exI conjI) auto
qed

lemma lead_role_roundtrip_witness:
  "\<exists>db1 db2 u2. promoteToPodHead ''r3'' ''t'' ''n'' two_pods = ok db1 \<and> demoteFromPodHead ''r3'' ''t'' None db1 = ok db2
     \<and> user_by ''r3'' ''t'' db2 = Some u2 \<and> set (us_assignedRoleIds u2) = {''rec''}"
proof -
  let ?u = "mk_member ''r3'' ''t'' (Some ''b'') (Some ''n'') (Some ''rec'') [''rec''] None"
  have u: "user_by ''r3'' ''t'' two_pods = Some ?u"
    by (simp add: user_by_def two_pods_def empty_store_def mk_member_def find_first_def)
  have "succeeds (and_then (promoteToPodHead ''r3'' ''t'' ''n'' two_pods) (demoteFromPodHead ''r3'' ''t'' None))"
    by code_simp
  then obtain db1 db2 where p: "promoteToPodHead ''r3'' ''t'' ''n'' two_pods = ok db1"
    "demoteFromPodHead ''r3'' ''t'' None db1 = ok db2"
    by (auto simp: succeeds_iff and_then_eq_Inr)
  have "set (roles_of ?u) - set (lead_role_ids two_pods ''t'') = {''rec''}"
    by (simp add: roles_of_def lead_role_ids_def two_pods_def empty_store_def mk_member_def mk_role_def
        find_many_def is_lead_role_def)
  moreover have "\<forall>p \<in> set (st_pods two_pods). pd_podHeadId p = Some ''r3'' \<and> pd_tenantId p = ''t'' \<longrightarrow>
      Some (pd_id p) = None \<and> None \<noteq> Some ([] :: string)"
    by (simp add: two_pods_def empty_store_def mk_pod_def)
  from lead_role_roundtrip [OF u p this] obtain u2 where "user_by ''r3'' ''t'' db2 = Some u2"
    "set (us_assignedRoleIds u2) = set (roles_of ?u) - set (lead_role_ids two_pods ''t'')"
    by blast
  ultimately show ?thesis using p by metis
qed

section \<open>Removing a pod\<close>



section \<open>Scope of the endpoints\<close>

lemma clean_scope_truthy: "clean_scope x \<noteq> None \<Longrightarrow> truthy (clean_scope x)"
  by (auto simp: clean_scope_def split: if_splits)

lemma resolveScope_dispatch:
  "resolveScope db t user reqUnit reqBranch requireUnit = ok scope \<Longrightarrow>
     (if pods_tenant_admin user
      then resolveScope_tenant db t (clean_scope reqUnit) (clean_scope reqBranch) requireUnit
      else if ''unit_admin:manage'' \<in> set (a_permissions user)
      then resolveScope_unit_admin db t user (clean_scope reqUnit)
      else if ''branch_admin:manage'' \<in> set (a_permissions user)
      then resolveScope_branch_admin db t user (clean_scope reqUnit) (clean_scope reqBranch) requireUnit
      else resolveScope_staff user (clean_scope reqUnit) (clean_scope reqBranch)) = ok scope"
  by (simp add: resolveScope_def Let_def and_then_eq_Inr)

lemma scope_unit_admin:
  "resolveScope_unit_admin db t user reqUnit = ok scope \<Longrightarrow>
     truthy (a_businessUnitId user) \<and> sp_businessUnitId scope = a_businessUnitId user"
  by (auto simp: resolveScope_unit_admin_def split: if_splits)

lemma scope_branch_admin:
  "resolveScope_branch_admin db t user reqUnit reqBranch requireUnit = ok scope \<Longrightarrow>
     truthy (a_branchId user) \<and> sp_branchId scope = a_branchId user \<and>
     (\<forall>n. sp_businessUnitId scope = Some n \<longrightarrow>
        (\<exists>b \<in> set (st_units db). bu_id b = n \<and> bu_tenantId b = t \<and> bu_branchId b = a_branchId user)) \<and>
     (requireUnit \<longrightarrow> sp_businessUnitId scope \<noteq> None)"
  by (auto simp: resolveScope_branch_admin_def find_first_None split: if_splits)

text \<open>The scope a caller gets is the caller's own: a unit admin is pinned to the own unit and a
  branch admin to the own branch (and to a unit of that branch, when one is named), other staff to
  the own unit, or without one to the own branch; a tenant administrator names a unit of the
  tenant, which must lie in the named branch.\<close>

theorem pod_scope_confined:
  assumes "resolveScope db t user reqUnit reqBranch requireUnit = ok scope"
  shows "(if pods_tenant_admin user then
      (\<forall>n. sp_businessUnitId scope = Some n \<longrightarrow> (\<exists>b. unit_by n t db = Some b \<and>
         (truthy (bu_branchId b) \<longrightarrow> sp_branchId scope = bu_branchId b))) \<and>
      (requireUnit \<longrightarrow> sp_businessUnitId scope \<noteq> None)
    else if ''unit_admin:manage'' \<in> set (a_permissions user) then
      truthy (a_businessUnitId user) \<and> sp_businessUnitId scope = a_businessUnitId user
    else if ''branch_admin:manage'' \<in> set (a_permissions user) then
      truthy (a_branchId user) \<and> sp_branchId scope = a_branchId user \<and>
      (\<forall>n. sp_businessUnitId scope = Some n \<longrightarrow>
         (\<exists>b \<in> set (st_units db). bu_id b = n \<and> bu_tenantId b = t \<and> bu_branchId b = a_branchId user)) \<and>
      (requireUnit \<longrightarrow> sp_businessUnitId scope \<noteq> None)
    else if truthy (a_businessUnitId user) then sp_businessUnitId scope = a_businessUnitId user
    else truthy (a_branchId user) \<and> sp_branchId scope = a_branchId user)"
proof -
  note rest = resolveScope_dispatch [OF assms]
  have tenant: "(\<forall>n. sp_businessUnitId scope = Some n \<longrightarrow> (\<exists>b. unit_by n t db = Some b \<and>
         (truthy (bu_branchId b) \<longrightarrow> sp_branchId scope = bu_branchId b))) \<and>
      (requireUnit \<longrightarrow> sp_businessUnitId scope \<noteq> None)"
    if "resolveScope_tenant db t (clean_scope reqUnit) (clean_scope reqBranch) requireUnit = ok scope"
    using that by (auto simp: resolveScope_tenant_def and_then_eq_Inr or_else_def split: option.splits if_splits)
  have staff: "if truthy (a_businessUnitId user) then sp_businessUnitId scope = a_businessUnitId user
      else truthy (a_branchId user) \<and> sp_branchId scope = a_branchId user"
    if "resolveScope_staff user (clean_scope reqUnit) (clean_scope reqBranch) = ok scope"
    using that by (auto simp: resolveScope_staff_def split: if_splits)
  show ?thesis
  proof (cases "pods_tenant_admin user")
    case True
    with rest have "resolveScope_tenant db t (clean_scope reqUnit) (clean_scope reqBranch) requireUnit = ok scope"
      by (simp only: if_True)
    from tenant [OF this] True show ?thesis by (simp only: if_True)
  next
    case False
    note nt = this
    show ?thesis
    proof (cases "''unit_admin:manage'' \<in> set (a_permissions user)")
      case True
      with rest nt have "resolveScope_unit_admin db t user (clean_scope reqUnit) = ok scope"
        by (simp only: if_True if_False)
      from scope_unit_admin [OF this] True nt show ?thesis by (simp only: if_True if_False)
    next
      case False
      note nu = this
      show ?thesis
      proof (cases "''branch_admin:manage'' \<in> set (a_permissions user)")
        case True
        with rest nt nu have "resolveScope_branch_admin db t user (clean_scope reqUnit) (clean_scope reqBranch) requireUnit = ok scope"
          by (simp only: if_True if_False)
        note own = scope_branch_admin [OF this]
        from True nt nu show ?thesis by (simp only: if_True if_False) (rule own)
      next
        case False
        with rest nt nu have "resolveScope_staff user (clean_scope reqUnit) (clean_scope reqBranch) = ok scope"
          by (simp only: if_False)
        from staff [OF this] False nt nu show ?thesis by (simp only: if_False)
      qed
    qed
  qed
qed

lemma pod_scope_confined_witness:
  "\<exists>scope. resolveScope two_pods ''t'' (mk_user ''u'' [''unit_admin:manage''] ''t'' (Some ''b'') (Some ''n'') None)
      None None True = ok scope \<and> sp_businessUnitId scope = Some ''n''"
proof -
  let ?u = "mk_user ''u'' [''unit_admin:manage''] ''t'' (Some ''b'') (Some ''n'') None"
  have "succeeds (resolveScope two_pods ''t'' ?u None None True)" by code_simp
  then obtain scope where s: "resolveScope two_pods ''t'' ?u None None True = ok scope"
    by (auto simp: succeeds_iff)
  have "\<not> pods_tenant_admin ?u" by (simp add: pods_tenant_admin_def mk_user_def)
  with pod_scope_confined [OF s] s show ?thesis by (simp add: mk_user_def)
qed

text \<open>End to end, the pod a branch or unit admin creates lies in the admin's own office: a pod
  created through the endpoint carries the request's tenant and, for a unit admin, the own unit;
  for a branch admin, the own branch.\<close>

theorem created_pod_confined:
  assumes "pods_post env hasEmail newId now dto user th hb qb qn db = ok (r, m, db')"
    and "newId \<notin> pd_id ` set (st_pods db)" and "distinct (map bu_id (st_units db))"
    and "request_tenant env user th = ok t"
  shows "\<exists>p \<in> set (st_pods db'). pd_id p = newId \<and> pd_tenantId p = t \<and>
    (\<not> pods_tenant_admin user \<and> ''unit_admin:manage'' \<in> set (a_permissions user) \<longrightarrow>
       pd_businessUnitId p = a_businessUnitId user) \<and>
    (\<not> pods_tenant_admin user \<and> ''unit_admin:manage'' \<notin> set (a_permissions user) \<and>
     ''branch_admin:manage'' \<in> set (a_permissions user) \<longrightarrow> pd_branchId p = a_branchId user)"
proof -
  obtain scope where s: "resolveScope db t user (or_else (cp_businessUnitId dto) qn)
        (or_else (cp_branchId dto) (or_else qb hb)) True = ok scope"
    and c: "pods_create hasEmail newId now (dto\<lparr> cp_branchId := sp_branchId scope,
        cp_businessUnitId := sp_businessUnitId scope \<rparr>) t (sp_branchId scope) (sp_businessUnitId scope) db = ok (r, m, db')"
    using assms(1,4) by (auto simp: pods_post_def and_then_eq_Inr)
  obtain bu where bu: "truthy (sp_businessUnitId scope)" "unit_by (the (sp_businessUnitId scope)) t db = Some bu"
    and tx: "create_pod_tx newId now (dto\<lparr> cp_branchId := sp_branchId scope,
        cp_businessUnitId := sp_businessUnitId scope \<rparr>) t
        (the (or_else (bu_branchId bu) (sp_branchId scope))) (the (sp_businessUnitId scope)) db = ok db'"
    and br: "truthy (or_else (bu_branchId bu) (sp_branchId scope))"
    using c by (auto simp: pods_create_def Let_def and_then_eq_Inr or_else_def or_null_def split: if_splits option.splits)
  obtain p where p: "p \<in> set (st_pods db')" "pd_id p = newId" "pd_tenantId p = t"
    "pd_businessUnitId p = sp_businessUnitId scope" "pd_branchId p = or_else (bu_branchId bu) (sp_branchId scope)"
  proof -
    define row where "row = \<lparr> pd_id = newId, pd_tenantId = t,
        pd_branchId = Some (the (or_else (bu_branchId bu) (sp_branchId scope))),
        pd_businessUnitId = Some (the (sp_businessUnitId scope)), pd_name = trim (cp_name dto),
        pd_podHeadId = or_null (cp_podHeadId dto), pd_description = or_null (map_option trim (cp_description dto)),
        pd_isAvailableForAssignment = True, pd_createdAt = now \<rparr>"
    have "st_pods db' = st_pods db @ [row]"
      using tx by (auto simp: create_pod_tx_def Let_def pod_name_taken_def already_leads_def and_then_eq_Inr row_def
          split: if_splits option.splits dest!: promote_roles_only roles_only_simps(1))
    moreover have "pd_businessUnitId row = sp_businessUnitId scope" "pd_branchId row = or_else (bu_branchId bu) (sp_branchId scope)"
      using bu(1) br by (auto simp: row_def elim!: truthyE)
    ultimately show thesis by (intro that [of row]) (simp_all add: row_def)
  qed
  note scope = resolveScope_dispatch [OF s]
  have unit: "pd_businessUnitId p = a_businessUnitId user"
    if "\<not> pods_tenant_admin user" "''unit_admin:manage'' \<in> set (a_permissions user)"
    using scope that p(4) by (simp add: scope_unit_admin)
  have branch: "pd_branchId p = a_branchId user"
    if "\<not> pods_tenant_admin user" "''unit_admin:manage'' \<notin> set (a_permissions user)"
      "''branch_admin:manage'' \<in> set (a_permissions user)"
  proof -
    have "resolveScope_branch_admin db t user (clean_scope (or_else (cp_businessUnitId dto) qn))
        (clean_scope (or_else (cp_branchId dto) (or_else qb hb))) True = ok scope"
      using scope that by simp
    note sb = scope_branch_admin [OF this]
    have own: "truthy (a_branchId user)" "sp_branchId scope = a_branchId user" using sb by auto
    obtain n where n: "sp_businessUnitId scope = Some n" using bu(1) by (auto elim!: truthyE)
    then obtain b where b: "b \<in> set (st_units db)" "bu_id b = n" "bu_branchId b = a_branchId user"
      using sb by blast
    have "b = bu"
      using unit_by_Some [OF bu(2)] b n assms(3) by (auto simp: distinct_map dest: inj_onD)
    with p(5) b own show ?thesis by (simp add: or_else_def)
  qed
  from p unit branch show ?thesis by blast
qed

lemma created_pod_confined_witness:
  "\<exists>(db' :: store) (p :: pod). p \<in> set (st_pods db') \<and> pd_id p = ''p3'' \<and> pd_businessUnitId p = Some ''n''"
proof -
  let ?u = "mk_user ''u'' [''pod:create'', ''unit_admin:manage''] ''t'' (Some ''b'') (Some ''n'') None"
  let ?dto = "\<lparr> cp_name = '' Gamma '', cp_podHeadId = None, cp_recruiterIds = [''r3''],
     cp_branchId = None, cp_businessUnitId = None, cp_description = None \<rparr>"
  have "succeeds (pods_post None True ''p3'' 3 ?dto ?u None None None None two_pods)" by code_simp
  then obtain r m db' where c: "pods_post None True ''p3'' 3 ?dto ?u None None None None two_pods = ok (r, m, db')"
    by (auto simp: succeeds_iff)
  have t: "request_tenant None ?u None = ok ''t''" by code_simp
  have "''p3'' \<notin> pd_id ` set (st_pods two_pods)" "distinct (map bu_id (st_units two_pods))"
    by (simp_all add: two_pods_def empty_store_def mk_pod_def)
  from created_pod_confined [OF c this t]
  have "\<exists>p \<in> set (st_pods db'). pd_id p = ''p3'' \<and> pd_businessUnitId p = Some ''n''"
    by (simp add: pods_tenant_admin_def mk_user_def) blast
  then show ?thesis by blast
qed

section \<open>Tenant isolation\<close>

definition others_unchanged :: "uuid \<Rightarrow> store \<Rightarrow> store \<Rightarrow> bool" where
  "others_unchanged t db db' \<longleftrightarrow>
     filter (\<lambda>u. us_tenantId u \<noteq> t) (st_users db') = filter (\<lambda>u. us_tenantId u \<noteq> t) (st_users db)
   \<and> filter (\<lambda>p. pd_tenantId p \<noteq> t) (st_pods db') = filter (\<lambda>p. pd_tenantId p \<noteq> t) (st_pods db)
   \<and> db'\<lparr> st_users := [], st_pods := [] \<rparr> = db\<lparr> st_users := [], st_pods := [] \<rparr>"

definition people :: "store \<Rightarrow> (uuid \<times> uuid) list" where
  "people db = map (\<lambda>u. (us_id u, us_tenantId u)) (st_users db)"

lemma others_unchanged_refl [simp]: "others_unchanged t db db"
  by (simp add: others_unchanged_def)

lemma others_unchanged_trans: "others_unchanged t a b \<Longrightarrow> others_unchanged t b c \<Longrightarrow> others_unchanged t a c"
  by (simp add: others_unchanged_def)

lemma people_core: "people db = map (\<lambda>(i, t, p). (i, t)) (map user_core (st_users db))"
  by (simp add: people_def user_core_def)

lemma people_roles_only: "roles_only db db' \<Longrightarrow> people db' = people db"
  by (simp only: people_core roles_only_simps)

lemma others_unchanged_users:
  assumes "distinct (map us_id (st_users db))" and "(i, t) \<in> set (people db)"
    and "\<And>u. us_tenantId (f u) = us_tenantId u"
  shows "others_unchanged t db (db\<lparr> st_users := update_where (\<lambda>u. us_id u = i) f (st_users db) \<rparr>)"
proof -
  have "us_tenantId u = t" if "u \<in> set (st_users db)" "us_id u = i" for u
    using assms(1,2) that by (auto simp: people_def distinct_map dest: inj_onD)
  then have "filter (\<lambda>u. us_tenantId u \<noteq> t) (update_where (\<lambda>u. us_id u = i) f (st_users db))
      = filter (\<lambda>u. us_tenantId u \<noteq> t) (st_users db)"
    by (intro filter_update_where) (simp add: assms(3))
  then show ?thesis by (simp add: others_unchanged_def)
qed

lemma set_user_roles_others:
  assumes "distinct (map us_id (st_users db))" and "(i, t) \<in> set (people db)"
    and "set_user_roles i r rs db = ok db'"
  shows "others_unchanged t db db'"
  using others_unchanged_users [OF assms(1,2), of "\<lambda>u. u\<lparr> us_roleId := r, us_assignedRoleIds := rs \<rparr>"] assms(3)
  by (auto simp: set_user_roles_def and_then_eq_Inr update_one_Inr)

lemma promote_others:
  assumes "distinct (map us_id (st_users db))" and "(i, t) \<in> set (people db)"
    and "promoteToPodHead i t n db = ok db'"
  shows "others_unchanged t db db'"
  using assms set_user_roles_others [OF assms(1,2)]
  by (auto simp: promoteToPodHead_def Let_def and_then_eq_Inr split: if_splits)

lemma demote_others:
  assumes "distinct (map us_id (st_users db))" and "demoteFromPodHead i t x db = ok db'"
  shows "others_unchanged t db db'"
proof (cases "user_by i t db")
  case None
  then show ?thesis using assms(2) by (auto simp: demoteFromPodHead_def split: option.splits)
next
  case (Some u)
  then have "(i, t) \<in> set (people db)" using user_by_Some [OF Some] by (force simp: people_def)
  then show ?thesis
    using assms(2) set_user_roles_others [OF assms(1)]
    by (auto simp: demoteFromPodHead_def Let_def split: option.splits)
qed

lemma assign_members_others: "others_unchanged t db (assign_members ids t p db)"
  by (auto simp: others_unchanged_def assign_members_def intro!: filter_update_where)

lemma people_assign_members [simp]: "people (assign_members ids t p db) = people db"
  by (auto simp: people_def assign_members_def intro!: map_update_where)

lemma people_distinct: "distinct (map fst (people db)) = distinct (map us_id (st_users db))"
  by (simp add: people_def comp_def)

lemma validated_people:
  "pods_wf db \<Longrightarrow> validateRecruiters db ids t n cur = ok () \<Longrightarrow> distinct ids \<Longrightarrow> i \<in> set ids \<Longrightarrow> (i, t) \<in> set (people db)"
  by (drule (3) validated_core) (auto simp: people_def user_core_def)

lemma create_pod_tx_others:
  assumes wf: "pods_wf db" and tx: "create_pod_tx newId now dto t b n db = ok db'"
  shows "others_unchanged t db db'"
proof -
  let ?target = "uniq (present [cp_podHeadId dto] @ cp_recruiterIds dto)"
  define row where "row = \<lparr> pd_id = newId, pd_tenantId = t, pd_branchId = Some b,
     pd_businessUnitId = Some n, pd_name = trim (cp_name dto), pd_podHeadId = or_null (cp_podHeadId dto),
     pd_description = or_null (map_option trim (cp_description dto)),
     pd_isAvailableForAssignment = True, pd_createdAt = now \<rparr>"
  have row: "pd_tenantId row = t" by (simp add: row_def)
  have v: "validateRecruiters db ?target t n None = ok ()"
    and rest: "(if truthy (cp_podHeadId dto)
        then promoteToPodHead (the (cp_podHeadId dto)) t n (assign_members ?target t (Some newId) (db\<lparr> st_pods := st_pods db @ [row] \<rparr>))
        else ok (assign_members ?target t (Some newId) (db\<lparr> st_pods := st_pods db @ [row] \<rparr>))) = ok db'"
    using tx by (auto simp: create_pod_tx_def Let_def pod_name_taken_def already_leads_def and_then_eq_Inr row_def
        split: if_splits option.splits)
  let ?db1 = "assign_members ?target t (Some newId) (db\<lparr> st_pods := st_pods db @ [row] \<rparr>)"
  have "others_unchanged t db (db\<lparr> st_pods := st_pods db @ [row] \<rparr>)"
    using row by (simp add: others_unchanged_def)
  then have one: "others_unchanged t db ?db1"
    using assign_members_others others_unchanged_trans by blast
  show ?thesis
  proof (cases "truthy (cp_podHeadId dto)")
    case False
    with rest one show ?thesis by simp
  next
    case True
    then have "(the (cp_podHeadId dto), t) \<in> set (people db)"
      using validated_people [OF wf v] by (auto elim!: truthyE)
    moreover have p: "people ?db1 = people db" by (simp add: people_def [of "_\<lparr>st_pods := _\<rparr>"] people_def [of db])
    ultimately have "others_unchanged t ?db1 db'"
      using promote_others [of ?db1 "the (cp_podHeadId dto)" t n db'] rest True pods_wf_distinct [OF wf]
      by (simp add: people_distinct [symmetric])
    then show ?thesis using one others_unchanged_trans by blast
  qed
qed

lemma update_one_pod_others:
  assumes "distinct (map pd_id (st_pods db))" and "pod_by i t db = Some p0"
    and "\<And>p. pd_tenantId (f p) = pd_tenantId p"
  shows "others_unchanged t db (db\<lparr> st_pods := update_where (\<lambda>p. pd_id p = i) f (st_pods db) \<rparr>)"
proof -
  have "pd_tenantId p = t" if "p \<in> set (st_pods db)" "pd_id p = i" for p
    using assms(1) pod_by_Some [OF assms(2)] that by (auto simp: distinct_map dest: inj_onD)
  then have "filter (\<lambda>p. pd_tenantId p \<noteq> t) (update_where (\<lambda>p. pd_id p = i) f (st_pods db))
      = filter (\<lambda>p. pd_tenantId p \<noteq> t) (st_pods db)"
    by (intro filter_update_where) (simp add: assms(3))
  then show ?thesis by (simp add: others_unchanged_def)
qed

lemma update_pod_members_others: "others_unchanged t db (update_pod_members i ids h t db)"
proof (cases ids)
  case (Some rs)
  let ?new = "uniq (rs @ present [h])"
  let ?db1 = "db\<lparr> st_users := update_where (\<lambda>u. us_podId u = Some i \<and> us_tenantId u = t \<and> us_id u \<notin> set ?new)
      (\<lambda>u. u\<lparr> us_podId := None \<rparr>) (st_users db) \<rparr>"
  have "others_unchanged t db ?db1"
    by (auto simp: others_unchanged_def intro!: filter_update_where)
  then show ?thesis
    using assign_members_others others_unchanged_trans Some
    by (fastforce simp: update_pod_members_def Let_def)
qed (simp add: update_pod_members_def)

lemma update_pod_lead_others:
  assumes du: "distinct (map us_id (st_users db))"
    and ok: "update_pod_lead i dto existing t n db = ok db'"
    and h: "h = (case up_podHeadId dto of Some v \<Rightarrow> v | None \<Rightarrow> pd_podHeadId existing)"
    and member: "truthy h \<Longrightarrow> (the h, t) \<in> set (people db)"
  shows "others_unchanged t db db'"
proof -
  obtain db1 where d: "(if (case up_podHeadId dto of None \<Rightarrow> False | Some v \<Rightarrow> v \<noteq> pd_podHeadId existing)
          \<and> truthy (pd_podHeadId existing)
       then demoteFromPodHead (the (pd_podHeadId existing)) t (Some i) db else ok db) = ok db1"
    and rest: "(if truthy h \<and> lead_moves dto existing n
       then and_then (promoteToPodHead (the h) t n db1) (\<lambda>db2.
              and_then (update_one (\<lambda>u. us_id u = the h) (\<lambda>u. u\<lparr> us_podId := Some i \<rparr>) (st_users db2))
                (\<lambda>us. ok (db2\<lparr> st_users := us \<rparr>)))
       else ok db1) = ok db'"
    using ok unfolding update_pod_lead_def Let_def h lead_moves_def
    by (elim and_then_InrE) blast
  have one: "others_unchanged t db db1" and r1: "roles_only db db1"
    using d by (simp_all only: split: if_splits) (auto dest: demote_roles_only demote_others [OF du])
  show ?thesis
  proof (cases "truthy h \<and> lead_moves dto existing n")
    case False
    with rest one show ?thesis by auto
  next
    case True
    then obtain db2 where p: "promoteToPodHead (the h) t n db1 = ok db2"
      and db': "db' = db2\<lparr> st_users := update_where (\<lambda>u. us_id u = the h) (\<lambda>u. u\<lparr> us_podId := Some i \<rparr>) (st_users db2) \<rparr>"
      using rest by (auto simp: and_then_eq_Inr update_one_Inr)
    have r2: "roles_only db1 db2" using p by (rule promote_roles_only)
    have m1: "(the h, t) \<in> set (people db1)" and m2: "(the h, t) \<in> set (people db2)"
      using member True people_roles_only [OF r1] people_roles_only [OF r2] by auto
    have d1: "distinct (map us_id (st_users db1))" and d2: "distinct (map us_id (st_users db2))"
      using du people_roles_only [OF r1] people_roles_only [OF r2] by (metis people_distinct)+
    have "others_unchanged t db1 db2" using promote_others [OF d1 m1 p] .
    moreover have "others_unchanged t db2 db'" unfolding db' by (rule others_unchanged_users [OF d2 m2]) simp
    ultimately show ?thesis using one others_unchanged_trans by blast
  qed
qed

lemma update_pod_tx_others:
  assumes wf: "pods_wf db" and ex: "pod_by i t db = Some existing"
    and tx: "update_pod_tx i dto existing t b n db = ok db'"
  shows "others_unchanged t db db'"
proof -
  define h where "h = (case up_podHeadId dto of Some v \<Rightarrow> v | None \<Rightarrow> pd_podHeadId existing)"
  define target where "target = uniq (present [h] @ (case up_recruiterIds dto of None \<Rightarrow> [] | Some rs \<Rightarrow> rs))"
  obtain nm ds db2 where v: "validateRecruiters db target t n (Some i) = ok ()"
    and lead: "update_pod_lead i dto existing t n (db\<lparr> st_pods := update_where (\<lambda>p. pd_id p = i)
        (\<lambda>p. p\<lparr> pd_name := nm, pd_branchId := Some b, pd_businessUnitId := Some n, pd_podHeadId := h,
          pd_description := ds \<rparr>) (st_pods db) \<rparr>) = ok db2"
    and db': "db' = update_pod_members i (up_recruiterIds dto) h t db2"
    using tx unfolding update_pod_tx_def Let_def h_def [symmetric] target_def [symmetric]
    by (auto simp: and_then_eq_Inr update_one_Inr pod_name_taken_def already_leads_def
        split: if_splits option.splits)
  let ?db1 = "db\<lparr> st_pods := update_where (\<lambda>p. pd_id p = i)
        (\<lambda>p. p\<lparr> pd_name := nm, pd_branchId := Some b, pd_businessUnitId := Some n, pd_podHeadId := h,
          pd_description := ds \<rparr>) (st_pods db) \<rparr>"
  have dp: "distinct (map pd_id (st_pods db))"
    using wf by (simp add: pods_wf_def wf_core_def pod_core_def comp_def)
  have "others_unchanged t db ?db1" by (rule update_one_pod_others [OF dp ex]) simp
  moreover have "others_unchanged t ?db1 db2"
  proof (rule update_pod_lead_others [OF _ lead h_def])
    show "distinct (map us_id (st_users ?db1))" using pods_wf_distinct [OF wf] by simp
    show "(the h, t) \<in> set (people ?db1)" if "truthy h"
    proof -
      have "(the h, t) \<in> set (people db)"
        using validated_people [OF wf v] that by (auto simp: target_def elim!: truthyE)
      then show ?thesis by (simp add: people_def)
    qed
  qed
  ultimately show ?thesis
    unfolding db' using update_pod_members_others others_unchanged_trans by blast
qed

lemma pods_remove_others:
  assumes wf: "pods_wf db" and ok: "pods_remove i t db = ok (m, db')"
  shows "others_unchanged t db db'"
proof -
  have du: "distinct (map us_id (st_users db))" using pods_wf_distinct [OF wf] .
  obtain p db1 where p: "pod_by i t db = Some p"
    and d: "(if truthy (pd_podHeadId p) then demoteFromPodHead (the (pd_podHeadId p)) t (Some i) db else ok db) = ok db1"
    and r: "roles_only db db1" and db': "db' = delete_pod_row i (clear_members i t db1)"
    by (rule pods_remove_tx [OF ok])
  have one: "others_unchanged t db db1"
    using d demote_others [OF du] by (cases "truthy (pd_podHeadId p)") auto
  have pod: "(i, t, pd_podHeadId p) \<in> set (map pod_core (st_pods db))"
    using pod_by_Some [OF p] by (force simp: pod_core_def)
  have wf1: "pods_wf db1" using wf r unfolding pods_wf_def by (simp only: roles_only_simps)
  have mine: "us_tenantId u = t" if "u \<in> set (st_users db1)" "us_podId u = Some i" for u
  proof -
    have c: "wf_core (map user_core (st_users db1)) (map pod_core (st_pods db))"
      using wf1 r by (simp add: pods_wf_def roles_only_simps(1))
    have "(us_id u, us_tenantId u, Some i) \<in> set (map user_core (st_users db1))"
      using core_in_map [OF that(1)] that(2) by simp
    then obtain h where h: "(i, us_tenantId u, h) \<in> set (map pod_core (st_pods db))"
      using wf_core_member [OF c] by blast
    have "distinct (map fst (map pod_core (st_pods db)))" using c by (simp add: wf_core_def)
    from core_unique [OF this h pod] show ?thesis by simp
  qed
  have tp: "pd_tenantId q = t" if "q \<in> set (st_pods db1)" "pd_id q = i" for q
    using that pod_by_Some [OF p] wf r
    by (auto simp: pods_wf_def wf_core_def pod_core_def comp_def roles_only_simps distinct_map dest: inj_onD)
  have "filter (\<lambda>u. us_tenantId u \<noteq> t) (st_users db') = filter (\<lambda>u. us_tenantId u \<noteq> t) (st_users db1)"
  proof -
    let ?f = "\<lambda>u. u\<lparr> us_podId := None \<rparr>"
    let ?us = "update_where (\<lambda>u. us_podId u = Some i \<and> us_tenantId u = t) ?f (st_users db1)"
    have a: "filter (\<lambda>u. us_tenantId u \<noteq> t) ?us = filter (\<lambda>u. us_tenantId u \<noteq> t) (st_users db1)"
      by (rule filter_update_where) auto
    have "us_tenantId u = t" if "u \<in> set ?us" "us_podId u = Some i" for u
      using that mine by (auto simp: in_update_where split: if_splits)
    then have "filter (\<lambda>u. us_tenantId u \<noteq> t) (update_where (\<lambda>u. us_podId u = Some i) ?f ?us) = filter (\<lambda>u. us_tenantId u \<noteq> t) ?us"
      by (intro filter_update_where) auto
    with a show ?thesis by (simp add: db' delete_pod_row_def clear_members_def)
  qed
  moreover have "filter (\<lambda>p. pd_tenantId p \<noteq> t) (st_pods db') = filter (\<lambda>p. pd_tenantId p \<noteq> t) (st_pods db1)"
    using tp by (auto simp: db' delete_pod_row_def clear_members_def delete_where_def intro!: filter_cong)
  moreover have "db'\<lparr> st_users := [], st_pods := [] \<rparr> = db1\<lparr> st_users := [], st_pods := [] \<rparr>"
    by (simp add: db' delete_pod_row_def clear_members_def)
  ultimately have "others_unchanged t db1 db'" by (simp add: others_unchanged_def)
  with one show ?thesis by (rule others_unchanged_trans)
qed



section \<open>Names\<close>

definition name_key :: "pod \<Rightarrow> uuid \<times> uuid option \<times> string" where
  "name_key p = (pd_tenantId p, pd_businessUnitId p, lower (pd_name p))"

definition names_unique :: "store \<Rightarrow> bool" where
  "names_unique db \<longleftrightarrow>
     (\<forall>p \<in> set (st_pods db). \<forall>q \<in> set (st_pods db). name_key p = name_key q \<longrightarrow> pd_id p = pd_id q)"

lemma create_pod_tx_pods:
  assumes "create_pod_tx newId now dto t b n db = ok db'"
  obtains row where "st_pods db' = st_pods db @ [row]" and "pd_id row = newId"
    and "name_key row = (t, Some n, lower (trim (cp_name dto)))"
    and "\<forall>p \<in> set (st_pods db). name_key p \<noteq> name_key row"
proof -
  define row where "row = \<lparr> pd_id = newId, pd_tenantId = t, pd_branchId = Some b,
     pd_businessUnitId = Some n, pd_name = trim (cp_name dto), pd_podHeadId = or_null (cp_podHeadId dto),
     pd_description = or_null (map_option trim (cp_description dto)),
     pd_isAvailableForAssignment = True, pd_createdAt = now \<rparr>"
  have none: "find_first (\<lambda>p. pd_tenantId p = t \<and> same_name (pd_name p) (trim (cp_name dto))
       \<and> pd_businessUnitId p = Some n) (st_pods db) = None"
    and pods: "st_pods db' = st_pods db @ [row]"
    using assms by (auto simp: create_pod_tx_def Let_def pod_name_taken_def already_leads_def and_then_eq_Inr row_def
        split: if_splits option.splits dest!: promote_roles_only roles_only_simps(1))
  show thesis
    by (rule that [of row]) (use none pods in \<open>auto simp: row_def name_key_def find_first_None same_name_def\<close>)
qed

lemma names_unique_create:
  assumes u: "names_unique db" and tx: "create_pod_tx newId now dto t b n db = ok db'"
  shows "names_unique db'"
proof -
  obtain row where row: "st_pods db' = st_pods db @ [row]" "pd_id row = newId"
    "name_key row = (t, Some n, lower (trim (cp_name dto)))" "\<forall>p \<in> set (st_pods db). name_key p \<noteq> name_key row"
    by (rule create_pod_tx_pods [OF tx])
  have old: "name_key p = name_key q \<Longrightarrow> pd_id p = pd_id q" if "p \<in> set (st_pods db)" "q \<in> set (st_pods db)" for p q
    using u that unfolding names_unique_def by blast
  have mem: "set (st_pods db') = insert row (set (st_pods db))" by (simp add: row(1))
  have new: "name_key p \<noteq> name_key row \<and> name_key row \<noteq> name_key p" if "p \<in> set (st_pods db)" for p
    using row(4) that by metis
  show ?thesis
    unfolding names_unique_def mem
  proof (intro ballI impI)
    fix p q assume "p \<in> insert row (set (st_pods db))" "q \<in> insert row (set (st_pods db))"
      and eq: "name_key p = name_key q"
    then consider "p = row" "q = row" | "p = row" "q \<in> set (st_pods db)"
      | "p \<in> set (st_pods db)" "q = row" | "p \<in> set (st_pods db)" "q \<in> set (st_pods db)" by blast
    then show "pd_id p = pd_id q"
    proof cases
      case 1
      then show ?thesis by simp
    next
      case 2
      then show ?thesis using new [of q] eq by simp
    next
      case 3
      then show ?thesis using new [of p] eq by simp
    next
      case 4
      then show ?thesis using old eq by blast
    qed
  qed
qed

lemma update_pod_lead_pods:
  assumes "update_pod_lead i dto existing t n db = ok db'"
  shows "st_pods db' = st_pods db"
proof -
  obtain h db1 where r: "roles_only db db1"
    and rest: "(if truthy h \<and> lead_moves dto existing n
       then and_then (promoteToPodHead (the h) t n db1) (\<lambda>db2.
              and_then (update_one (\<lambda>u. us_id u = the h) (\<lambda>u. u\<lparr> us_podId := Some i \<rparr>) (st_users db2))
                (\<lambda>us. ok (db2\<lparr> st_users := us \<rparr>)))
       else ok db1) = ok db'"
    using assms unfolding update_pod_lead_def Let_def lead_moves_def
    by (elim and_then_InrE) (blast dest: optional_demote_roles_only)
  show ?thesis
    using rest r
    by (auto simp: and_then_eq_Inr roles_only_simps split: if_splits dest!: promote_roles_only)
qed

lemma update_pod_tx_pods:
  assumes tx: "update_pod_tx i dto existing t b n db = ok db'"
  obtains h ds where "st_pods db' = update_where (\<lambda>p. pd_id p = i) (\<lambda>p. p\<lparr>
      pd_name := (case up_name dto of Some v \<Rightarrow> trim v | None \<Rightarrow> pd_name existing), pd_branchId := Some b,
      pd_businessUnitId := Some n, pd_podHeadId := h, pd_description := ds \<rparr>) (st_pods db)"
    and "truthy (up_name dto) \<Longrightarrow> upper (trim (the (up_name dto))) \<noteq> upper (pd_name existing) \<Longrightarrow>
      \<forall>p \<in> set (st_pods db). pd_tenantId p = t \<and> pd_businessUnitId p = Some n \<and> pd_id p \<noteq> i \<longrightarrow>
         \<not> same_name (pd_name p) (trim (the (up_name dto)))"
proof -
  define h where "h = (case up_podHeadId dto of Some v \<Rightarrow> v | None \<Rightarrow> pd_podHeadId existing)"
  define ds where "ds = (case up_description dto of Some v \<Rightarrow> v | None \<Rightarrow> pd_description existing)"
  obtain db2 where lead: "update_pod_lead i dto existing t n (db\<lparr> st_pods := update_where (\<lambda>p. pd_id p = i)
        (\<lambda>p. p\<lparr> pd_name := (case up_name dto of Some v \<Rightarrow> trim v | None \<Rightarrow> pd_name existing), pd_branchId := Some b,
          pd_businessUnitId := Some n, pd_podHeadId := h, pd_description := ds \<rparr>) (st_pods db) \<rparr>) = ok db2"
    and db': "db' = update_pod_members i (up_recruiterIds dto) h t db2"
    and name: "truthy (up_name dto) \<Longrightarrow> upper (trim (the (up_name dto))) \<noteq> upper (pd_name existing) \<Longrightarrow>
      find_first (\<lambda>p. pd_tenantId p = t \<and> same_name (pd_name p) (trim (the (up_name dto)))
                \<and> pd_businessUnitId p = Some n \<and> pd_id p \<noteq> i) (st_pods db) = None"
    using tx unfolding update_pod_tx_def Let_def h_def [symmetric] ds_def [symmetric]
    by (auto simp: and_then_eq_Inr update_one_Inr pod_name_taken_def already_leads_def
        split: if_splits option.splits)
  have "st_pods db' = update_where (\<lambda>p. pd_id p = i) (\<lambda>p. p\<lparr>
      pd_name := (case up_name dto of Some v \<Rightarrow> trim v | None \<Rightarrow> pd_name existing), pd_branchId := Some b,
      pd_businessUnitId := Some n, pd_podHeadId := h, pd_description := ds \<rparr>) (st_pods db)"
    using update_pod_lead_pods [OF lead] by (simp add: db')
  then show thesis
    by (rule that) (use name in \<open>auto simp: find_first_None\<close>)
qed

lemma pods_update_parts:
  assumes "pods_update e i dto t db = ok (r, m, db')"
  obtains existing b n where "pod_by i t db = Some existing" and "update_pod_office dto existing t db = ok (b, n)"
    and "update_pod_tx i dto existing t b n db = ok db'"
  using assms by (auto simp: pods_update_def Let_def and_then_eq_Inr split: option.splits)

lemma names_unique_update:
  assumes u: "names_unique db" and d: "distinct (map pd_id (st_pods db))"
    and up: "pods_update e i dto t db = ok (r, m, db')"
    and name: "up_name dto \<noteq> Some []" and unit: "up_businessUnitId dto = None"
  shows "names_unique db'"
proof -
  obtain existing b n where ex: "pod_by i t db = Some existing"
    and off: "update_pod_office dto existing t db = ok (b, n)"
    and tx: "update_pod_tx i dto existing t b n db = ok db'"
    by (rule pods_update_parts [OF up])
  have e: "existing \<in> set (st_pods db)" "pd_id existing = i" "pd_tenantId existing = t"
    using pod_by_Some [OF ex] by auto
  have n: "pd_businessUnitId existing = Some n"
    using off unit by (auto simp: update_pod_office_def Let_def and_then_eq_Inr split: if_splits elim!: truthyE)
  obtain h ds where pods: "st_pods db' = update_where (\<lambda>p. pd_id p = i) (\<lambda>p. p\<lparr>
      pd_name := (case up_name dto of Some v \<Rightarrow> trim v | None \<Rightarrow> pd_name existing), pd_branchId := Some b,
      pd_businessUnitId := Some n, pd_podHeadId := h, pd_description := ds \<rparr>) (st_pods db)"
    and free: "truthy (up_name dto) \<Longrightarrow> upper (trim (the (up_name dto))) \<noteq> upper (pd_name existing) \<Longrightarrow>
      \<forall>p \<in> set (st_pods db). pd_tenantId p = t \<and> pd_businessUnitId p = Some n \<and> pd_id p \<noteq> i \<longrightarrow>
         \<not> same_name (pd_name p) (trim (the (up_name dto)))"
    by (rule update_pod_tx_pods [OF tx]) (rule that, assumption+)
  let ?name = "case up_name dto of Some v \<Rightarrow> trim v | None \<Rightarrow> pd_name existing"
  have key: "pd_id p = pd_id p0 \<and> name_key p = (if pd_id p0 = i then (t, Some n, lower ?name) else name_key p0)"
    if "p0 \<in> set (st_pods db)" "p = (if pd_id p0 = i then p0\<lparr>
      pd_name := ?name, pd_branchId := Some b,
      pd_businessUnitId := Some n, pd_podHeadId := h, pd_description := ds \<rparr> else p0)" for p p0
    using that e d by (auto simp: name_key_def distinct_map dest: inj_onD)
  have clash: False if q: "q \<in> set (st_pods db)" "pd_id q \<noteq> i" "name_key q = (t, Some n, lower ?name)" for q
  proof (cases "up_name dto = None \<or> upper (trim (the (up_name dto))) = upper (pd_name existing)")
    case True
    then have "lower ?name = lower (pd_name existing)"
      using same_name_upper [of "?name" "pd_name existing"] True
      by (cases "up_name dto") (simp_all add: same_name_def)
    then have "name_key q = name_key existing" using q e n by (simp add: name_key_def)
    then show False using u q e unfolding names_unique_def by blast
  next
    case False
    then obtain v where "up_name dto = Some v" "v \<noteq> []" using name by auto
    then show False using free False q by (auto simp: name_key_def same_name_def)
  qed
  have origin: "\<exists>p0 \<in> set (st_pods db). pd_id p = pd_id p0 \<and>
      name_key p = (if pd_id p0 = i then (t, Some n, lower ?name) else name_key p0)"
    if "p \<in> set (st_pods db')" for p
  proof -
    from that obtain p0 where "p0 \<in> set (st_pods db)" "p = (if pd_id p0 = i then p0\<lparr>
      pd_name := ?name, pd_branchId := Some b,
      pd_businessUnitId := Some n, pd_podHeadId := h, pd_description := ds \<rparr> else p0)"
      unfolding pods in_update_where by blast
    with key show ?thesis by blast
  qed
  show ?thesis
    unfolding names_unique_def
  proof (intro ballI impI)
    fix p q assume m: "p \<in> set (st_pods db')" "q \<in> set (st_pods db')" and eq: "name_key p = name_key q"
    obtain p0 q0 where p0: "p0 \<in> set (st_pods db)" "pd_id p = pd_id p0"
        "name_key p = (if pd_id p0 = i then (t, Some n, lower ?name) else name_key p0)"
      and q0: "q0 \<in> set (st_pods db)" "pd_id q = pd_id q0"
        "name_key q = (if pd_id q0 = i then (t, Some n, lower ?name) else name_key q0)"
      using origin [OF m(1)] origin [OF m(2)] by blast
    show "pd_id p = pd_id q"
    proof (cases "pd_id p0 = i \<or> pd_id q0 = i")
      case True
      then show ?thesis
        using p0 q0 eq clash [OF p0(1)] clash [OF q0(1)] by (auto split: if_splits)
    next
      case False
      then have "name_key p0 = name_key q0" using p0(3) q0(3) eq by simp
      then show ?thesis using u p0 q0 unfolding names_unique_def by metis
    qed
  qed
qed

text \<open>Pod names stay unique in their unit, up to case, when a pod is created and when a pod is
  renamed within its unit to a non-empty name.\<close>

theorem pod_names_unique:
  assumes "names_unique db" and "distinct (map pd_id (st_pods db))"
    and "(\<exists>e newId now dto b n r m. pods_create e newId now dto t b n db = ok (r, m, db')) \<or>
      (\<exists>e i dto r m. pods_update e i dto t db = ok (r, m, db') \<and> up_name dto \<noteq> Some [] \<and> up_businessUnitId dto = None)"
  shows "names_unique db'"
  using assms(3)
proof (elim disjE exE conjE)
  fix e newId now dto b n r m assume "pods_create e newId now dto t b n db = ok (r, m, db')"
  then show ?thesis
    by (rule pods_create_tx) (rule names_unique_create [OF assms(1)])
next
  fix e i dto r m
  assume "pods_update e i dto t db = ok (r, m, db')" "up_name dto \<noteq> Some []" "up_businessUnitId dto = None"
  then show ?thesis by (rule names_unique_update [OF assms(1,2)])
qed

lemma pod_names_unique_witness:
  "\<exists>db'. names_unique db' \<and> length (st_pods db') = 3"
proof -
  let ?dto = "\<lparr> cp_name = '' Gamma '', cp_podHeadId = Some ''r3'', cp_recruiterIds = [],
     cp_branchId = None, cp_businessUnitId = Some ''n'', cp_description = None \<rparr>"
  have "(case pods_create True ''p3'' 3 ?dto ''t'' None None two_pods of
      Inl _ \<Rightarrow> False | Inr (r, m, db') \<Rightarrow> length (st_pods db') = 3)" by code_simp
  then obtain r m db' where c: "pods_create True ''p3'' 3 ?dto ''t'' None None two_pods = ok (r, m, db')"
    and l: "length (st_pods db') = 3"
    by (auto split: sum.splits)
  have "names_unique two_pods" "distinct (map pd_id (st_pods two_pods))"
    by (auto simp: names_unique_def two_pods_def empty_store_def mk_pod_def name_key_def lower_def lower_char_def)
  from pod_names_unique [OF this] c l show ?thesis by blast
qed

text \<open>
  An update that moves a pod to another unit without naming it, or that renames it to the empty
  name, is not checked: it can leave two pods of a unit with one name.
\<close>

definition two_units :: store where
  "two_units = two_pods\<lparr> st_units := [mk_unit ''n'' ''t'' (Some ''b'') ''Unit'', mk_unit ''n2'' ''t'' (Some ''b'') ''Unit 2''],
     st_pods := [mk_pod ''p1'' ''t'' ''b'' ''n'' ''Alpha'' None 1, mk_pod ''p2'' ''t'' ''b'' ''n2'' ''ALPHA'' None 2],
     st_users := [] \<rparr>"

lemma moved_pod_duplicates_name:
  "names_unique two_units \<and>
   (\<exists>r m db'. pods_update True ''p1'' \<lparr> up_name = None, up_podHeadId = None, up_recruiterIds = None,
       up_branchId = None, up_businessUnitId = Some (Some ''n2''), up_description = None \<rparr> ''t'' two_units = ok (r, m, db')
     \<and> \<not> names_unique db')"
proof -
  let ?dto = "\<lparr> up_name = None, up_podHeadId = None, up_recruiterIds = None,
       up_branchId = None, up_businessUnitId = Some (Some ''n2''), up_description = None \<rparr> :: update_pod_dto"
  have "(case pods_update True ''p1'' ?dto ''t'' two_units of
      Inl _ \<Rightarrow> False | Inr (r, m, db') \<Rightarrow> map name_key (st_pods db') =
        [(''t'', Some ''n2'', ''alpha''), (''t'', Some ''n2'', ''alpha'')] \<and> map pd_id (st_pods db') = [''p1'', ''p2''])"
    by code_simp
  then obtain r m db' where c: "pods_update True ''p1'' ?dto ''t'' two_units = ok (r, m, db')"
    and k: "map name_key (st_pods db') = [(''t'', Some ''n2'', ''alpha''), (''t'', Some ''n2'', ''alpha'')]"
    and i: "map pd_id (st_pods db') = [''p1'', ''p2'']"
    by (auto split: sum.splits)
  have "\<not> names_unique db'"
    using k i by (auto simp: names_unique_def)
  moreover have "names_unique two_units"
    by (auto simp: names_unique_def two_units_def mk_pod_def name_key_def)
  ultimately show ?thesis using c by blast
qed
end
