(* ===== verification/Tracker.thy ===== *)
theory Tracker
  imports JobPolicy
begin

text \<open>
  The submission tracker's rules (\<^verbatim>\<open>recruiter-submissions/round-update.ts\<close>,
  \<^verbatim>\<open>validate-tracker-update.ts\<close>, \<^verbatim>\<open>submission-history.ts\<close>, \<^verbatim>\<open>tracker-workflow.ts\<close>): a
  submission has three interview rounds and a final status, an editor sends a partial update as a
  JSON object, and the rules say which updates are accepted and what they make of the rounds.  The
  update is the list of its fields, so that an absent field (\<^verbatim>\<open>undefined\<close>) differs from a \<^verbatim>\<open>null\<close>
  one.  The engine's parser of dates and URLs and the clock are parameters (\<open>env\<close>).
\<close>

section \<open>Rounds and submissions\<close>

datatype round_key = L1 | L2 | L3

datatype suffix = Status | Date | Remarks | Interviewer | Color

definition ROUND_KEYS :: "round_key list" where
  "ROUND_KEYS = [L1, L2, L3]"

primrec round_name :: "round_key \<Rightarrow> string" where
  "round_name L1 = ''l1''"
| "round_name L2 = ''l2''"
| "round_name L3 = ''l3''"

primrec suffix_name :: "suffix \<Rightarrow> string" where
  "suffix_name Status = ''Status''"
| "suffix_name Date = ''Date''"
| "suffix_name Remarks = ''Remarks''"
| "suffix_name Interviewer = ''Interviewer''"
| "suffix_name Color = ''Color''"

definition all_suffixes :: "suffix list" where
  "all_suffixes = [Status, Date, Remarks, Interviewer, Color]"

text \<open>\<^verbatim>\<open>ROUND_KEYS.slice(0, i)\<close> and \<^verbatim>\<open>ROUND_KEYS.slice(i + 1)\<close>.\<close>

primrec earlier :: "round_key \<Rightarrow> round_key list" where
  "earlier L1 = []"
| "earlier L2 = [L1]"
| "earlier L3 = [L1, L2]"

primrec later :: "round_key \<Rightarrow> round_key list" where
  "later L1 = [L2, L3]"
| "later L2 = [L3]"
| "later L3 = []"

record round_state =
  rd_status :: "string option"
  rd_date :: "int option"
  rd_remarks :: "string option"
  rd_interviewer :: "string option"
  rd_color :: "string option"

record compensation =
  cp_current :: "string option"
  cp_expected :: "string option"
  cp_currency :: "string option"
  cp_period :: "string option"
  cp_unit :: "string option"

record source =
  so_category :: "string option"
  so_channel :: "string option"
  so_detail :: "string option"

text \<open>The candidate's salary and preferences at the time of the submission.\<close>

record candidate_snapshot =
  cs_currentCtc :: "string option"
  cs_expectedCtc :: "string option"
  cs_ctcCurrency :: "string option"
  cs_ctcTerm :: "string option"
  cs_preferredLocations :: "string list"
  cs_preferredLocationMode :: string

record submission =
  sb_id :: uuid
  sb_tenantId :: uuid
  sb_jobId :: uuid
  sb_candidateId :: uuid
  sb_recruiterId :: "uuid option"
  sb_round :: "round_key \<Rightarrow> round_state"
  sb_finalStatus :: string
  sb_remarks :: "string option"
  sb_recruiterComment :: "string option"
  sb_podLeadRemarks :: "string option"
  sb_reviewFeedback :: "string option"
  sb_meetingLink :: "string option"
  sb_submittedRate :: "string option"
  sb_compensation :: compensation
  sb_source :: source
  sb_availability :: "string option"
  sb_snapshot :: candidate_snapshot
  sb_updatedAt :: int

text \<open>A round of a new submission.\<close>

definition pending_round :: round_state where
  "pending_round = \<lparr> rd_status = Some ''PENDING'', rd_date = None, rd_remarks = None,
     rd_interviewer = None, rd_color = None \<rparr>"

record env =
  ev_date :: "json \<Rightarrow> int option"
  ev_urlProtocol :: "string \<Rightarrow> string option"
  ev_parseFloat :: "string \<Rightarrow> string option"
  ev_now :: int

section \<open>Updates and values\<close>

type_synonym dto = "(string \<times> json) list"

definition dto_field :: "dto \<Rightarrow> string \<Rightarrow> json option" where
  "dto_field dto key = map_of dto key"

definition round_field :: "dto \<Rightarrow> round_key \<Rightarrow> suffix \<Rightarrow> json option" where
  "round_field dto r s = dto_field dto (round_name r @ suffix_name s)"

text \<open>\<^verbatim>\<open>a ?? b\<close>, and \<^verbatim>\<open>Boolean(v?.trim())\<close> for a value known to be missing, null or a string.\<close>

definition coalesce :: "json option \<Rightarrow> json \<Rightarrow> json" where
  "coalesce v d = (case v of None \<Rightarrow> d | Some j \<Rightarrow> if j = JNull then d else j)"

definition has_text :: "json option \<Rightarrow> bool" where
  "has_text v = (case v of Some (JStr s) \<Rightarrow> trim s \<noteq> [] | _ \<Rightarrow> False)"

definition is_truthy :: "json option \<Rightarrow> bool" where
  "is_truthy v = (case v of None \<Rightarrow> False | Some j \<Rightarrow> js_truthy j)"

text \<open>A value of a stored row, where an instant is a \<^verbatim>\<open>Date\<close> object.\<close>

datatype jsval = Json json | DateVal int

definition val_truthy :: "jsval \<Rightarrow> bool" where
  "val_truthy v = (case v of Json j \<Rightarrow> js_truthy j | DateVal _ \<Rightarrow> True)"

text \<open>\<^verbatim>\<open>new Date(v).getTime()\<close>; \<open>None\<close> is \<^verbatim>\<open>NaN\<close>.\<close>

definition instant :: "env \<Rightarrow> jsval \<Rightarrow> int option" where
  "instant env v = (case v of DateVal t \<Rightarrow> Some t | Json j \<Rightarrow> ev_date env j)"

definition stored :: "round_state \<Rightarrow> suffix \<Rightarrow> jsval" where
  "stored rd s = (case s of
      Status \<Rightarrow> Json (jnullable (rd_status rd))
    | Date \<Rightarrow> (case rd_date rd of None \<Rightarrow> Json JNull | Some t \<Rightarrow> DateVal t)
    | Remarks \<Rightarrow> Json (jnullable (rd_remarks rd))
    | Interviewer \<Rightarrow> Json (jnullable (rd_interviewer rd))
    | Color \<Rightarrow> Json (jnullable (rd_color rd)))"

subsection \<open>Instants as text\<close>

definition digit :: "nat \<Rightarrow> char" where
  "digit n = char_of (48 + n mod 10)"

text \<open>The last \<open>k\<close> decimal digits of \<open>n\<close>.\<close>

primrec padded :: "nat \<Rightarrow> nat \<Rightarrow> string" where
  "padded 0 n = []"
| "padded (Suc k) n = padded k (n div 10) @ [digit n]"

text \<open>The proleptic Gregorian date of a day counted from 1970-01-01.\<close>

definition civil :: "int \<Rightarrow> int \<times> int \<times> int" where
  "civil days =
    (let z = days + 719468; era = z div 146097; doe = z mod 146097;
         yoe = (doe - doe div 1460 + doe div 36524 - doe div 146096) div 365;
         doy = doe - (365 * yoe + yoe div 4 - yoe div 100);
         mp = (5 * doy + 2) div 153;
         month = (if mp < 10 then mp + 3 else mp - 9)
     in (yoe + era * 400 + (if month \<le> 2 then 1 else 0), month, doy - (153 * mp + 2) div 5 + 1))"

text \<open>\<^verbatim>\<open>new Date(t).toISOString()\<close>.\<close>

definition toISOString :: "int \<Rightarrow> string" where
  "toISOString t =
    (let (y, m, d) = civil (t div 86400000); ms = t mod 86400000;
         year = (if 0 \<le> y \<and> y \<le> 9999 then padded 4 (nat y)
                 else (if y < 0 then ''-'' else ''+'') @ padded 6 (nat \<bar>y\<bar>))
     in year @ ''-'' @ padded 2 (nat m) @ ''-'' @ padded 2 (nat d) @ ''T''
        @ padded 2 (nat (ms div 3600000)) @ '':'' @ padded 2 (nat (ms div 60000 mod 60)) @ '':''
        @ padded 2 (nat (ms div 1000 mod 60)) @ ''.'' @ padded 3 (nat (ms mod 1000)) @ ''Z'')"

definition historyValue :: "jsval \<Rightarrow> string option" where
  "historyValue v = (case v of Json j \<Rightarrow> if j = JNull then None else Some (js_string j)
                             | DateVal t \<Rightarrow> Some (toISOString t))"

section \<open>What an update makes of the rounds\<close>

definition unset_status :: "string option \<Rightarrow> bool" where
  "unset_status s \<longleftrightarrow> s = None \<or> s = Some ''PENDING''"

definition progressed :: "round_state \<Rightarrow> bool" where
  "progressed rd \<longleftrightarrow> \<not> unset_status (rd_status rd)
     \<or> rd_date rd \<noteq> None \<or> truthy (rd_remarks rd) \<or> truthy (rd_interviewer rd)"

text \<open>The partial object \<^verbatim>\<open>data\<close> of round fields to write.\<close>

type_synonym changes = "round_key \<Rightarrow> suffix \<Rightarrow> json option"

definition copied_fields :: "dto \<Rightarrow> changes" where
  "copied_fields dto r s =
    (case round_field dto r s of
       None \<Rightarrow> None
     | Some v \<Rightarrow> Some (if s = Status \<and> v = JNull then JStr ''PENDING'' else v))"

definition round_status :: "submission \<Rightarrow> changes \<Rightarrow> round_key \<Rightarrow> json" where
  "round_status existing data r =
     coalesce (data r Status) (coalesce (Some (jnullable (rd_status (sb_round existing r)))) (JStr ''PENDING''))"

definition cleared_appointment :: "submission \<Rightarrow> round_key \<Rightarrow> changes \<Rightarrow> changes" where
  "cleared_appointment existing r data =
    (if round_status existing data r = JStr ''PENDING'' \<and> data r Status \<noteq> None
     then data(r := (data r)(Date := Some JNull, Interviewer := Some JNull, Color := Some JNull))
     else data)"

text \<open>The loop over the rounds that stops at a corrected clearance; it returns the rounds to reset.\<close>

fun scan_rounds :: "submission \<Rightarrow> dto \<Rightarrow> round_key list \<Rightarrow> changes \<Rightarrow> (changes \<times> round_key list) result" where
  "scan_rounds existing dto [] data = ok (data, [])"
| "scan_rounds existing dto (r # rs) data =
    (let data' = cleared_appointment existing r data
     in if rd_status (sb_round existing r) = Some ''CLEARED'' \<and> round_status existing data r \<noteq> JStr ''CLEARED''
           \<and> (\<exists>n \<in> set rs. progressed (sb_round existing n))
        then if \<not> is_truthy (dto_field dto ''resetFollowingRounds'') \<or> \<not> has_text (dto_field dto ''correctionReason'')
             then throw (BadRequest ''Confirm resetting later rounds and provide a correction reason.'')
             else ok (data', rs)
        else scan_rounds existing dto rs data')"

fun reset_rounds :: "dto \<Rightarrow> round_key list \<Rightarrow> changes \<Rightarrow> changes result" where
  "reset_rounds dto [] data = ok data"
| "reset_rounds dto (r # rs) data =
    (if coalesce (round_field dto r Status) (JStr ''PENDING'') \<noteq> JStr ''PENDING''
     then throw (BadRequest ''Later rounds must remain pending after correcting an earlier clearance.'')
     else reset_rounds dto rs (data(r := (\<lambda>s. Some (if s = Status then JStr ''PENDING'' else JNull)))))"

definition roundUpdate :: "submission \<Rightarrow> dto \<Rightarrow> changes result" where
  "roundUpdate existing dto =
     and_then (scan_rounds existing dto ROUND_KEYS (copied_fields dto)) (\<lambda>(data, rs). reset_rounds dto rs data)"

text \<open>\<^verbatim>\<open>{ ...existing, ...changes }\<close>.\<close>

definition merged :: "submission \<Rightarrow> changes \<Rightarrow> round_key \<Rightarrow> suffix \<Rightarrow> jsval" where
  "merged existing data r s = (case data r s of Some j \<Rightarrow> Json j | None \<Rightarrow> stored (sb_round existing r) s)"

definition merged_is :: "submission \<Rightarrow> changes \<Rightarrow> round_key \<Rightarrow> string list \<Rightarrow> bool" where
  "merged_is existing data r names = (\<exists>n \<in> set names. merged existing data r Status = Json (JStr n))"

definition merged_unset :: "submission \<Rightarrow> changes \<Rightarrow> round_key \<Rightarrow> bool" where
  "merged_unset existing data r =
     (merged existing data r Status = Json JNull \<or> merged_is existing data r [''PENDING''])"

section \<open>Which updates are accepted\<close>

definition allowed_fields :: "string list" where
  "allowed_fields =
    [''requestId'', ''bypassReason'', ''correctionReason'', ''resetFollowingRounds'', ''expectedUpdatedAt'',
     ''finalStatus'', ''remarks'', ''reviewFeedback'', ''podLeadRemarks'', ''recruiterComment'', ''submittedRate'',
     ''meetingLink'', ''assessmentVersion'', ''reviewOverrides'']
    @ concat (map (\<lambda>r. map (\<lambda>s. round_name r @ suffix_name s) all_suffixes) ROUND_KEYS)"

text \<open>A field that is present and not a string of at most \<open>n\<close> characters; \<open>bad_nullable\<close> accepts \<^verbatim>\<open>null\<close>.\<close>

definition bad_text :: "nat \<Rightarrow> json option \<Rightarrow> bool" where
  "bad_text n v = (case v of None \<Rightarrow> False | Some (JStr s) \<Rightarrow> n < length s | Some _ \<Rightarrow> True)"

definition bad_nullable :: "nat \<Rightarrow> json option \<Rightarrow> bool" where
  "bad_nullable n v = (v \<noteq> Some JNull \<and> bad_text n v)"

definition not_a_string :: "json option \<Rightarrow> bool" where
  "not_a_string v = (case v of Some (JStr _) \<Rightarrow> False | _ \<Rightarrow> True)"

definition bad_request_id :: "json option \<Rightarrow> bool" where
  "bad_request_id v = (case v of None \<Rightarrow> False | Some (JStr s) \<Rightarrow> \<not> is_uuid s | Some _ \<Rightarrow> True)"

definition bad_flag :: "json option \<Rightarrow> bool" where
  "bad_flag v = (case v of None \<Rightarrow> False | Some (JBool _) \<Rightarrow> False | Some _ \<Rightarrow> True)"

definition unsupported_field :: "dto \<Rightarrow> unit result" where
  "unsupported_field dto =
    (case find_first (\<lambda>key. key \<notin> set allowed_fields) (map fst dto) of
       Some key \<Rightarrow> throw (BadRequest (''Unsupported submission field: '' @ key))
     | None \<Rightarrow> ok ())"

text \<open>Lines 8 to 22: the fields and their types.\<close>

definition check_fields :: "dto \<Rightarrow> unit result" where
  "check_fields dto = checks
    ([unsupported_field dto,
      refuse (bad_request_id (dto_field dto ''requestId'')) (BadRequest ''Invalid save request ID.''),
      refuse (bad_text 4000 (dto_field dto ''bypassReason'')) (BadRequest ''Invalid bypass reason.''),
      refuse (bad_text 4000 (dto_field dto ''correctionReason'')) (BadRequest ''Invalid correction reason.''),
      refuse (bad_flag (dto_field dto ''resetFollowingRounds'')) (BadRequest ''Invalid reset confirmation.'')]
     @ map (\<lambda>key. refuse (bad_nullable 4000 (dto_field dto key))
              (BadRequest ''Remarks must be text of at most 4000 characters.''))
         [''remarks'', ''reviewFeedback'', ''podLeadRemarks'', ''recruiterComment'', ''l1Remarks'', ''l2Remarks'', ''l3Remarks'']
     @ concat (map (\<lambda>r.
         [refuse (bad_nullable 255 (round_field dto r Interviewer)) (BadRequest ''Invalid interviewer name.''),
          refuse (round_field dto r Date \<notin> {None, Some JNull} \<and> not_a_string (round_field dto r Date))
            (BadRequest ''Invalid interview date.'')]) ROUND_KEYS))"

definition permit :: "bool \<Rightarrow> unit result" where
  "permit allowed = refuse (\<not> allowed) (Forbidden ''You do not have permission to make this submission change.'')"

primrec cap_result :: "submission_capabilities \<Rightarrow> round_key \<Rightarrow> bool" where
  "cap_result caps L1 = sc_result_l1 caps"
| "cap_result caps L2 = sc_result_l2 caps"
| "cap_result caps L3 = sc_result_l3 caps"

text \<open>\<^verbatim>\<open>names.includes(v)\<close> for an optional value, and for a stored status.\<close>

definition one_of :: "string list \<Rightarrow> json option \<Rightarrow> bool" where
  "one_of names v = (\<exists>n \<in> set names. v = Some (JStr n))"

definition status_in :: "string list \<Rightarrow> string option \<Rightarrow> bool" where
  "status_in names s = (\<exists>n \<in> set names. s = Some n)"

subsection \<open>Assessment snapshots\<close>

definition is_hash :: "string \<Rightarrow> bool" where
  "is_hash s = (length s = 64 \<and>
     (\<forall>c \<in> set s. let n = (of_char c :: nat) in (97 \<le> n \<and> n \<le> 102) \<or> (48 \<le> n \<and> n \<le> 57)))"

definition bad_overrides :: "json option \<Rightarrow> bool" where
  "bad_overrides v = (case v of
      None \<Rightarrow> False
    | Some (JObj kvs) \<Rightarrow> 200 < length kvs \<or> (\<exists>(key, value) \<in> set kvs. 500 < length key
         \<or> \<not> one_of [''Meets'', ''Does not meet'', ''Needs clarification''] (Some value))
    | Some _ \<Rightarrow> True)"

definition check_assessment :: "submission \<Rightarrow> dto \<Rightarrow> submission_capabilities \<Rightarrow> unit result" where
  "check_assessment existing dto caps =
    (if dto_field dto ''assessmentVersion'' = None \<and> dto_field dto ''reviewOverrides'' = None then ok ()
     else checks
       [permit (sc_review caps),
        refuse (sb_finalStatus existing \<noteq> ''PENDING_APPROVAL''
            \<or> \<not> one_of [''SUBMITTED'', ''REJECTED''] (dto_field dto ''finalStatus''))
          (BadRequest ''Assessment snapshots require an internal review decision.''),
        refuse (case dto_field dto ''assessmentVersion'' of Some (JStr s) \<Rightarrow> \<not> is_hash s | _ \<Rightarrow> True)
          (BadRequest ''Invalid assessment version.''),
        refuse (bad_overrides (dto_field dto ''reviewOverrides'')) (BadRequest ''Invalid reviewer overrides.'')])"

subsection \<open>One round\<close>

definition touched :: "submission \<Rightarrow> dto \<Rightarrow> round_key \<Rightarrow> bool" where
  "touched existing dto r = (\<exists>s \<in> set all_suffixes.
     case round_field dto r s of None \<Rightarrow> False
     | Some v \<Rightarrow> historyValue (Json v) \<noteq> historyValue (stored (sb_round existing r) s))"

definition TERMINAL :: "string list" where
  "TERMINAL = [''REJECTED'', ''JOIN'', ''NOT_SELECTED'', ''WITHDRAWN'']"

definition round_statuses :: "string list" where
  "round_statuses = [''PENDING'', ''SCHEDULED'', ''AWAITING_FEEDBACK'', ''CLEARED'', ''REJECTED'', ''CANCELLED'']"

text \<open>A later round reset by the correction of an earlier clearance (lines 46 to 48).\<close>

definition reset_by_correction :: "submission \<Rightarrow> dto \<Rightarrow> changes \<Rightarrow> round_key \<Rightarrow> bool" where
  "reset_by_correction existing dto data r =
    (has_text (dto_field dto ''correctionReason'') \<and> is_truthy (dto_field dto ''resetFollowingRounds'')
     \<and> (\<exists>k \<in> set (earlier r). rd_status (sb_round existing k) = Some ''CLEARED''
          \<and> data k Status \<notin> {None, Some (JStr ''CLEARED'')})
     \<and> data r Status = Some (JStr ''PENDING'') \<and> data r Date = Some JNull
     \<and> data r Remarks = Some JNull \<and> data r Interviewer = Some JNull)"

definition active_round :: "(round_key \<Rightarrow> bool) \<Rightarrow> round_key option" where
  "active_round cleared = find_first (\<lambda>k. \<not> cleared k) ROUND_KEYS"

definition appointment_change :: "submission \<Rightarrow> changes \<Rightarrow> round_key \<Rightarrow> bool" where
  "appointment_change existing data r =
    (merged_is existing data r [''SCHEDULED'', ''CANCELLED''] \<or>
     (merged_is existing data r [''PENDING''] \<and>
      status_in [''SCHEDULED'', ''CANCELLED''] (rd_status (sb_round existing r))))"

definition recording_result :: "submission \<Rightarrow> dto \<Rightarrow> round_key \<Rightarrow> bool" where
  "recording_result existing dto r =
    (one_of [''CLEARED'', ''AWAITING_FEEDBACK''] (round_field dto r Status)
     \<and> round_field dto r Status \<noteq> Some (jnullable (rd_status (sb_round existing r))))"

text \<open>Lines 40 to 49: recorded results, finished submissions and the order of the rounds.\<close>

definition check_round_order :: "submission \<Rightarrow> dto \<Rightarrow> submission_capabilities \<Rightarrow> changes \<Rightarrow> round_key \<Rightarrow> unit result" where
  "check_round_order existing dto caps data r =
    (let correction = has_text (dto_field dto ''correctionReason'');
         recorded = status_in [''CLEARED'', ''REJECTED''] (rd_status (sb_round existing r))
     in checks
       [permit (recorded \<longrightarrow> cap_result caps r),
        refuse (recorded \<and> \<not> correction) (BadRequest ''Provide a reason to correct a recorded round result.''),
        refuse (sb_finalStatus existing = ''PENDING_APPROVAL'' \<or>
            (sb_finalStatus existing \<in> set TERMINAL \<and>
             \<not> (correction \<and> sc_outcome caps \<and> dto_field dto ''finalStatus'' = Some (JStr ''SUBMITTED''))))
          (BadRequest ''Interviews require an approved, active submission. Reopen with a correction reason first.''),
        refuse (\<not> reset_by_correction existing dto data r
            \<and> (\<exists>k \<in> set (earlier r). \<not> merged_is existing data k [''CLEARED'']))
          (BadRequest ''Clear the previous interview round first.'')])"

text \<open>Lines 51 to 60: the values of a round and who may change them.\<close>

definition check_round_values :: "submission \<Rightarrow> dto \<Rightarrow> submission_capabilities \<Rightarrow> changes \<Rightarrow> round_key \<Rightarrow> unit result" where
  "check_round_values existing dto caps data r =
    (let color = round_field dto r Color; status = round_field dto r Status;
         old = sb_round existing r; correction = has_text (dto_field dto ''correctionReason'')
     in checks
       [refuse (color \<notin> {None, Some JNull} \<and> \<not> one_of [''blue'', ''violet'', ''rose'', ''green'', ''amber''] color)
          (BadRequest ''Choose a valid calendar color.''),
        permit (color \<noteq> None \<longrightarrow> sc_schedule caps \<or> cap_result caps r),
        refuse (status \<notin> {None, Some JNull} \<and> \<not> one_of round_statuses status) (BadRequest ''Invalid interview result.''),
        permit (status \<noteq> None \<longrightarrow>
          (if appointment_change existing data r then sc_schedule caps \<or> cap_result caps r else cap_result caps r)),
        refuse (recording_result existing dto r \<and>
            (\<not> status_in ([''SCHEDULED'', ''AWAITING_FEEDBACK'']
                  @ (if correction then [''CLEARED'', ''REJECTED''] else [])) (rd_status old)
             \<or> rd_date old = None))
          (BadRequest ''Schedule this interview before recording its result.'')])"

text \<open>Lines 61 to 69: rejections, corrections and cancellations.\<close>

definition check_round_rejection :: "submission \<Rightarrow> dto \<Rightarrow> submission_capabilities \<Rightarrow> changes \<Rightarrow> round_key \<Rightarrow> unit result" where
  "check_round_rejection existing dto caps data r =
    (let status = round_field dto r Status; old = rd_status (sb_round existing r);
         correction = has_text (dto_field dto ''correctionReason'');
         rejecting = (status = Some (JStr ''REJECTED'') \<and> old \<noteq> Some ''REJECTED'')
     in checks
       [refuse (rejecting \<and> \<not> correction \<and>
            (sb_finalStatus existing \<noteq> ''SUBMITTED''
             \<or> active_round (\<lambda>k. rd_status (sb_round existing k) = Some ''CLEARED'') \<noteq> Some r
             \<or> \<not> (old = None \<or> status_in [''PENDING'', ''SCHEDULED'', ''AWAITING_FEEDBACK''] old)))
          (BadRequest ''Only the current active round can be rejected.''),
        refuse (rejecting \<and> \<not> has_text (round_field dto r Remarks)) (BadRequest ''Add remarks for the stage rejection.''),
        refuse (status \<noteq> None \<and> status \<noteq> Some (jnullable old) \<and> status_in [''CLEARED'', ''REJECTED''] old \<and> \<not> correction)
          (BadRequest ''Provide a reason to correct a recorded round result.''),
        refuse (status = Some (JStr ''CANCELLED'') \<and> \<not> has_text (round_field dto r Remarks))
          (BadRequest ''Add remarks for the cancelled interview.''),
        permit (round_field dto r Date \<noteq> None \<or> round_field dto r Interviewer \<noteq> None
          \<longrightarrow> sc_schedule caps \<or> cap_result caps r),
        permit (round_field dto r Remarks \<noteq> None
          \<longrightarrow> cap_result caps r \<or> (appointment_change existing data r \<and> sc_schedule caps))])"

text \<open>Lines 73 to 81: whether the round is the one to schedule next.\<close>

definition schedulable :: "submission \<Rightarrow> dto \<Rightarrow> changes \<Rightarrow> round_key \<Rightarrow> bool" where
  "schedulable existing dto data r =
    (coalesce (dto_field dto ''finalStatus'') (JStr (sb_finalStatus existing)) = JStr ''SUBMITTED''
     \<and> active_round (\<lambda>k. merged_is existing data k [''CLEARED'']) = Some r
     \<and> (\<forall>k \<in> set (later r). merged_unset existing data k \<and> \<not> val_truthy (merged existing data k Date))
     \<and> (status_in [''SCHEDULED'', ''AWAITING_FEEDBACK''] (rd_status (sb_round existing r))
        \<or> rd_status (sb_round existing r) = None
        \<or> status_in [''PENDING'', ''CANCELLED''] (rd_status (sb_round existing r))))"

text \<open>Lines 70 to 84: the appointment.\<close>

definition check_round_date :: "env \<Rightarrow> submission \<Rightarrow> dto \<Rightarrow> changes \<Rightarrow> round_key \<Rightarrow> unit result" where
  "check_round_date env existing dto data r =
    (let date = merged existing data r Date; dated = val_truthy date
     in checks
       [refuse (dated \<and> instant env date = None) (BadRequest ''Invalid interview date.''),
        refuse (merged_is existing data r [''SCHEDULED''] \<and> \<not> dated) (BadRequest ''Choose an interview date and time.''),
        refuse (round_field dto r Status = Some (JStr ''SCHEDULED'') \<and> \<not> schedulable existing dto data r)
          (BadRequest ''This submission is no longer eligible for interview scheduling. Refresh the eligible candidate list.''),
        refuse (merged_is existing data r [''PENDING''] \<and> dated)
          (BadRequest ''Schedule this round before adding an interview appointment.''),
        refuse (merged_is existing data r [''CLEARED'', ''AWAITING_FEEDBACK''] \<and> \<not> dated)
          (BadRequest ''A completed interview requires its recorded date and time.''),
        refuse (recording_result existing dto r \<and> dated
            \<and> (case instant env date of None \<Rightarrow> False | Some t \<Rightarrow> ev_now env < t))
          (BadRequest ''The interview must have taken place before recording feedback or clearance.'')])"

definition check_round :: "env \<Rightarrow> submission \<Rightarrow> dto \<Rightarrow> submission_capabilities \<Rightarrow> changes \<Rightarrow> round_key \<Rightarrow> unit result" where
  "check_round env existing dto caps data r =
    (if \<not> touched existing dto r then ok ()
     else checks [check_round_order existing dto caps data r, check_round_values existing dto caps data r,
                  check_round_rejection existing dto caps data r, check_round_date env existing dto data r])"

definition changed_round :: "submission \<Rightarrow> dto \<Rightarrow> bool" where
  "changed_round existing dto = (\<exists>r \<in> set ROUND_KEYS. touched existing dto r)"

text \<open>Lines 86 to 91: the whole resulting sequence.\<close>

definition check_sequence :: "submission \<Rightarrow> dto \<Rightarrow> changes \<Rightarrow> unit result" where
  "check_sequence existing dto data =
    checks (map (\<lambda>r. refuse (changed_round existing dto
        \<and> (\<not> merged_unset existing data r \<or> val_truthy (merged existing data r Date))
        \<and> (\<exists>k \<in> set (earlier r). \<not> merged_is existing data k [''CLEARED'']))
      (BadRequest ''Clear the previous interview round first.'')) [L2, L3])"

subsection \<open>The other fields\<close>

text \<open>\<^verbatim>\<open>/^\d+(\.\d{1,2})?$/\<close>, and such an amount in hundredths.\<close>

definition is_digit :: "char \<Rightarrow> bool" where
  "is_digit c = (let n = (of_char c :: nat) in 48 \<le> n \<and> n \<le> 57)"

definition is_amount :: "string \<Rightarrow> bool" where
  "is_amount s = (let w = takeWhile is_digit s; rest = dropWhile is_digit s
    in w \<noteq> [] \<and> (rest = [] \<or> (hd rest = CHR ''.'' \<and> tl rest \<noteq> [] \<and> length (tl rest) \<le> 2
                                \<and> list_all is_digit (tl rest))))"

definition digits_value :: "string \<Rightarrow> int" where
  "digits_value ds = foldl (\<lambda>n c. 10 * n + int (of_char c - 48)) 0 ds"

definition hundredths :: "string \<Rightarrow> int" where
  "hundredths s = (let f = tl (dropWhile is_digit s)
    in digits_value (takeWhile is_digit s) * 100 + digits_value (take 2 (f @ ''00'')))"

text \<open>Lines 92 to 104: the link, the feedback, the comment and the rate.\<close>

definition check_link :: "env \<Rightarrow> dto \<Rightarrow> submission_capabilities \<Rightarrow> unit result" where
  "check_link env dto caps = checks
     [permit (dto_field dto ''meetingLink'' \<noteq> None \<longrightarrow> sc_schedule caps \<or> (\<exists>r \<in> set ROUND_KEYS. cap_result caps r)),
      refuse (is_truthy (dto_field dto ''meetingLink'')
          \<and> \<not> (\<exists>p \<in> {''https:'', ''http:''}.
                 Option.bind (dto_field dto ''meetingLink'') (\<lambda>v. ev_urlProtocol env (js_string v)) = Some p))
        (BadRequest ''Enter a valid HTTP or HTTPS meeting link.'')]"

definition check_notes :: "dto \<Rightarrow> submission_capabilities \<Rightarrow> unit result" where
  "check_notes dto caps = checks
     [permit (dto_field dto ''reviewFeedback'' \<noteq> None \<or> dto_field dto ''podLeadRemarks'' \<noteq> None \<longrightarrow> sc_review caps),
      permit (dto_field dto ''recruiterComment'' \<noteq> None \<longrightarrow> sc_notes caps),
      permit (dto_field dto ''submittedRate'' \<noteq> None \<longrightarrow> sc_rate caps),
      refuse (case dto_field dto ''submittedRate'' of None \<Rightarrow> False
              | Some v \<Rightarrow> \<not> is_amount (js_string v) \<or> 9999999999 < hundredths (js_string v))
        (BadRequest ''Enter a valid non-negative rate with at most two decimals.'')]"

subsection \<open>The final status\<close>

definition outcome_names :: "string list" where
  "outcome_names = [''SUBMITTED'', ''SELECTED'', ''NOT_SELECTED'', ''OFFER'', ''JOIN'', ''WITHDRAWN'',
     ''PENDING_APPROVAL'', ''REJECTED'']"

text \<open>\<^verbatim>\<open>progression.indexOf(s)\<close>, which is -1 outside the progression.\<close>

definition progression_index :: "string \<Rightarrow> int" where
  "progression_index s = (if s = ''SUBMITTED'' then 0 else if s = ''SELECTED'' then 1
     else if s = ''OFFER'' then 2 else if s = ''JOIN'' then 3 else -1)"

definition derived_rejection :: "dto \<Rightarrow> bool" where
  "derived_rejection dto =
    (one_of [''REJECTED'', ''NOT_SELECTED''] (dto_field dto ''finalStatus'')
     \<and> (\<exists>r \<in> set ROUND_KEYS. round_field dto r Status = Some (JStr ''REJECTED'')))"

definition some_rejected :: "submission \<Rightarrow> changes \<Rightarrow> bool" where
  "some_rejected existing data = (\<exists>r \<in> set ROUND_KEYS. merged_is existing data r [''REJECTED''])"

text \<open>Lines 116 to 122: selecting, offering and joining.\<close>

definition check_success :: "submission \<Rightarrow> dto \<Rightarrow> changes \<Rightarrow> string \<Rightarrow> unit result" where
  "check_success existing dto data to =
    (let bypass = ((\<exists>r \<in> set ROUND_KEYS. merged_is existing data r [''SCHEDULED'', ''AWAITING_FEEDBACK''])
           \<or> (to = ''OFFER'' \<and> sb_finalStatus existing \<notin> {''SELECTED'', ''OFFER''})
           \<or> (to = ''JOIN'' \<and> sb_finalStatus existing \<notin> {''OFFER'', ''JOIN''}))
     in checks
       [refuse (\<not> merged_is existing data L1 [''CLEARED''] \<or> some_rejected existing data)
          (BadRequest ''Clear L1 and correct any rejected interview before selecting, offering or joining.''),
        refuse (to \<noteq> sb_finalStatus existing \<and> bypass \<and> \<not> has_text (dto_field dto ''bypassReason''))
          (BadRequest ''Record a reason for the direct outcome or unfinished interview.'')])"

text \<open>Lines 110 to 125: a final status that does not follow from a rejected round.\<close>

definition check_decision :: "submission \<Rightarrow> dto \<Rightarrow> submission_capabilities \<Rightarrow> changes \<Rightarrow> string \<Rightarrow> unit result" where
  "check_decision existing dto caps data to =
    (let from = sb_finalStatus existing; correction = has_text (dto_field dto ''correctionReason'');
         movingBackward = (0 \<le> progression_index to \<and> progression_index to < progression_index from);
         internalReviewRejection = (from = ''PENDING_APPROVAL'' \<and> to = ''REJECTED'')
     in checks
       [permit (if from = ''PENDING_APPROVAL'' then sc_review caps else sc_outcome caps),
        refuse (from = ''PENDING_APPROVAL'' \<and> to \<notin> {''SUBMITTED'', ''REJECTED''})
          (BadRequest ''Approve or reject internal review first.''),
        refuse (to = ''PENDING_APPROVAL'' \<and> from \<noteq> ''PENDING_APPROVAL'')
          (BadRequest ''This action cannot undo internal approval.''),
        refuse ((from \<in> set TERMINAL \<or> movingBackward) \<and> to \<noteq> from \<and> \<not> correction)
          (BadRequest ''Provide a correction reason to reopen or correct the final outcome.''),
        if to \<in> {''SELECTED'', ''OFFER'', ''JOIN''} then check_success existing dto data to else ok (),
        refuse (internalReviewRejection \<and> \<not> has_text (dto_field dto ''reviewFeedback''))
          (BadRequest ''Add remarks for the review decision.''),
        refuse (\<not> internalReviewRejection \<and> to \<in> {''NOT_SELECTED'', ''WITHDRAWN'', ''REJECTED''}
            \<and> to \<noteq> from \<and> \<not> has_text (dto_field dto ''remarks''))
          (BadRequest ''Add remarks for the final outcome.'')])"

definition check_outcome :: "submission \<Rightarrow> dto \<Rightarrow> submission_capabilities \<Rightarrow> changes \<Rightarrow> unit result" where
  "check_outcome existing dto caps data =
    (case dto_field dto ''finalStatus'' of
       None \<Rightarrow> ok ()
     | Some (JStr to) \<Rightarrow>
         checks
           [refuse (to \<notin> set outcome_names) (BadRequest ''Invalid submission outcome.''),
            permit (derived_rejection dto \<and> sb_finalStatus existing \<noteq> ''SUBMITTED'' \<longrightarrow> sc_outcome caps),
            if derived_rejection dto then ok () else check_decision existing dto caps data to]
     | Some _ \<Rightarrow> throw (BadRequest ''Invalid submission outcome.''))"

text \<open>Lines 128 to 133.\<close>

definition check_rest :: "env \<Rightarrow> submission \<Rightarrow> dto \<Rightarrow> submission_capabilities \<Rightarrow> changes \<Rightarrow> unit result" where
  "check_rest env existing dto caps data =
    (let outcome = coalesce (dto_field dto ''finalStatus'') (JStr (sb_finalStatus existing)) in checks
     [refuse (dto_field dto ''finalStatus'' = Some (JStr ''SUBMITTED'') \<and> sb_finalStatus existing \<noteq> ''PENDING_APPROVAL''
          \<and> some_rejected existing data)
        (BadRequest ''Correct the rejected round before returning the submission to In progress.''),
      refuse (changed_round existing dto \<and> one_of [''SELECTED'', ''OFFER'', ''JOIN''] (Some outcome)
          \<and> (\<not> merged_is existing data L1 [''CLEARED'']
             \<or> (\<exists>r \<in> set ROUND_KEYS. rd_status (sb_round existing r) = Some ''CLEARED''
                  \<and> \<not> merged_is existing data r [''CLEARED''])))
        (BadRequest ''Return the final outcome to In progress when correcting a cleared round.''),
      permit (dto_field dto ''remarks'' \<noteq> None \<longrightarrow>
        sc_notes caps \<or> (dto_field dto ''finalStatus'' \<noteq> None \<and> (sc_review caps \<or> sc_outcome caps))),
      refuse (case dto_field dto ''expectedUpdatedAt'' of None \<Rightarrow> False | Some v \<Rightarrow> instant env (Json v) = None)
        (BadRequest ''Invalid submission version.''),
      refuse (\<not> changed_round existing dto \<and> (\<forall>key \<in> set (map fst dto).
          key \<in> {''expectedUpdatedAt'', ''requestId'', ''bypassReason'', ''correctionReason'', ''resetFollowingRounds''}))
        (BadRequest ''No changes to save.'')])"

section \<open>The validator\<close>

definition validateTrackerUpdate ::
  "env \<Rightarrow> submission \<Rightarrow> string option \<Rightarrow> dto \<Rightarrow> submission_capabilities \<Rightarrow> unit result" where
  "validateTrackerUpdate env existing rejectionFromStatus dto caps =
    and_then (check_fields dto) (\<lambda>_.
    and_then (roundUpdate existing dto) (\<lambda>data. checks
      ([refuse (sb_finalStatus existing = ''REJECTED'' \<and> rejectionFromStatus = Some ''PENDING_APPROVAL''
           \<and> dto_field dto ''finalStatus'' \<notin> {None, Some (JStr ''REJECTED'')})
          (BadRequest ''An internal-review rejection cannot be reopened through the interview editor.''),
        check_assessment existing dto caps]
       @ map (check_round env existing dto caps data) ROUND_KEYS
       @ [check_sequence existing dto data, check_link env dto caps, check_notes dto caps,
          check_outcome existing dto caps data, check_rest env existing dto caps data])))"

end
