(* ===== verification/TrackerWrite.thy ===== *)
theory TrackerWrite
  imports Tracker
begin

text \<open>
  What an accepted update writes (\<^verbatim>\<open>RecruiterSubmissionsService.update\<close>, \<^verbatim>\<open>submission-history.ts\<close>):
  the object of changed columns that \<^verbatim>\<open>update\<close> builds, the audit changes recorded with it, and the
  row it makes.  A column is a constructor; an object of columns is a function to optional values,
  where \<open>None\<close> is an absent key.
\<close>

section \<open>Columns\<close>

datatype column =
    RoundCol round_key suffix
  | FinalStatus | MeetingLink | RemarksCol | ReviewFeedback | PodLeadRemarks | RecruiterComment
  | SubmittedRate | CurrentCompensation | ExpectedCompensation | CompensationCurrency
  | CompensationPeriod | CompensationInputUnit | SourceCategory | SourceChannel | SourceDetail
  | AvailabilityToStart | JobId | CandidateId | RecruiterId

type_synonym row_data = "column \<Rightarrow> jsval option"

definition HISTORY_FIELDS :: "column list" where
  "HISTORY_FIELDS = FinalStatus # concat (map (\<lambda>r. map (RoundCol r) all_suffixes) ROUND_KEYS)
     @ [MeetingLink, RemarksCol, ReviewFeedback, PodLeadRemarks, RecruiterComment, SubmittedRate,
        CurrentCompensation, ExpectedCompensation, CompensationCurrency, CompensationPeriod,
        CompensationInputUnit, SourceCategory, SourceChannel, SourceDetail, AvailabilityToStart]"

definition AUDIT_FIELDS :: "column list" where
  "AUDIT_FIELDS = filter (\<lambda>c. case c of RoundCol _ s \<Rightarrow> s \<noteq> Color | _ \<Rightarrow> True) HISTORY_FIELDS"

fun get_column :: "submission \<Rightarrow> column \<Rightarrow> jsval" where
  "get_column row (RoundCol r s) = stored (sb_round row r) s"
| "get_column row FinalStatus = Json (JStr (sb_finalStatus row))"
| "get_column row MeetingLink = Json (jnullable (sb_meetingLink row))"
| "get_column row RemarksCol = Json (jnullable (sb_remarks row))"
| "get_column row ReviewFeedback = Json (jnullable (sb_reviewFeedback row))"
| "get_column row PodLeadRemarks = Json (jnullable (sb_podLeadRemarks row))"
| "get_column row RecruiterComment = Json (jnullable (sb_recruiterComment row))"
| "get_column row SubmittedRate = Json (jnullable (sb_submittedRate row))"
| "get_column row CurrentCompensation = Json (jnullable (cp_current (sb_compensation row)))"
| "get_column row ExpectedCompensation = Json (jnullable (cp_expected (sb_compensation row)))"
| "get_column row CompensationCurrency = Json (jnullable (cp_currency (sb_compensation row)))"
| "get_column row CompensationPeriod = Json (jnullable (cp_period (sb_compensation row)))"
| "get_column row CompensationInputUnit = Json (jnullable (cp_unit (sb_compensation row)))"
| "get_column row SourceCategory = Json (jnullable (so_category (sb_source row)))"
| "get_column row SourceChannel = Json (jnullable (so_channel (sb_source row)))"
| "get_column row SourceDetail = Json (jnullable (so_detail (sb_source row)))"
| "get_column row AvailabilityToStart = Json (jnullable (sb_availability row))"
| "get_column row JobId = Json (JStr (sb_jobId row))"
| "get_column row CandidateId = Json (JStr (sb_candidateId row))"
| "get_column row RecruiterId = Json (jnullable (sb_recruiterId row))"

definition historySnapshot :: "submission \<Rightarrow> (column \<times> string option) list" where
  "historySnapshot row = map (\<lambda>c. (c, historyValue (get_column row c))) AUDIT_FIELDS"

type_synonym field_changes = "(column \<times> string option \<times> string option) list"

definition historyChanges :: "submission \<Rightarrow> row_data \<Rightarrow> field_changes" where
  "historyChanges existing data =
    concat (map (\<lambda>c. case data c of None \<Rightarrow> []
       | Some v \<Rightarrow> if historyValue (get_column existing c) \<noteq> historyValue v
                  then [(c, historyValue (get_column existing c), historyValue v)] else [])
     HISTORY_FIELDS)"

definition historyAuditChanges :: "submission \<Rightarrow> row_data \<Rightarrow> field_changes" where
  "historyAuditChanges existing data = filter (\<lambda>(c, _). c \<in> set AUDIT_FIELDS) (historyChanges existing data)"

section \<open>The columns an update writes\<close>

text \<open>The status of a round after the merge, and the first round it leaves rejected.\<close>

definition merged_status :: "submission \<Rightarrow> changes \<Rightarrow> round_key \<Rightarrow> json" where
  "merged_status existing ch r = (case ch r Status of Some v \<Rightarrow> v | None \<Rightarrow> jnullable (rd_status (sb_round existing r)))"

definition rejected_round :: "submission \<Rightarrow> changes \<Rightarrow> round_key option" where
  "rejected_round existing ch = find_first (\<lambda>r. merged_status existing ch r = JStr ''REJECTED'') ROUND_KEYS"

definition cut_off :: "submission \<Rightarrow> changes \<Rightarrow> round_key \<Rightarrow> bool" where
  "cut_off existing ch r = (case rejected_round existing ch of None \<Rightarrow> False | Some k \<Rightarrow> r \<in> set (later k))"

text \<open>\<^verbatim>\<open>v ? new Date(v) : null\<close>; an invalid date stays the value it came from, which no date column takes.\<close>

definition new_date :: "env \<Rightarrow> json \<Rightarrow> jsval" where
  "new_date env j = (if \<not> js_truthy j then Json JNull
     else case ev_date env j of Some t \<Rightarrow> DateVal t | None \<Rightarrow> Json j)"

definition round_data :: "env \<Rightarrow> submission \<Rightarrow> changes \<Rightarrow> round_key \<Rightarrow> suffix \<Rightarrow> jsval option" where
  "round_data env existing ch r s = (case s of
      Status \<Rightarrow> Some (Json (if cut_off existing ch r then JStr ''PENDING'' else merged_status existing ch r))
    | Date \<Rightarrow> Some (if cut_off existing ch r then Json JNull
                   else case ch r Date of Some j \<Rightarrow> new_date env j | None \<Rightarrow> stored (sb_round existing r) Date)
    | Color \<Rightarrow> map_option Json (ch r Color)
    | _ \<Rightarrow> (if cut_off existing ch r then Some (Json JNull) else map_option Json (ch r s)))"

text \<open>\<^verbatim>\<open>typeof rate === 'string' ? parseFloat(rate) : rate\<close>, printed; the rate has passed \<open>is_amount\<close>.\<close>

definition show_amount :: "int \<Rightarrow> string" where
  "show_amount n = (let w = nat (n div 100); f = nat (n mod 100);
      ws = dropWhile (\<lambda>c. c = CHR ''0'') (padded 8 w)
    in (if ws = [] then ''0'' else ws)
       @ (if f = 0 then [] else if f mod 10 = 0 then ''.'' @ padded 1 (f div 10) else ''.'' @ padded 2 f))"

definition parsed_rate :: "json \<Rightarrow> json" where
  "parsed_rate j = (case j of JStr s \<Rightarrow> JNum (show_amount (hundredths s)) | _ \<Rightarrow> j)"

definition final_status_data :: "submission \<Rightarrow> dto \<Rightarrow> changes \<Rightarrow> json" where
  "final_status_data existing dto ch =
    (if rejected_round existing ch \<noteq> None then JStr ''NOT_SELECTED''
     else case dto_field dto ''finalStatus'' of Some v \<Rightarrow> v | None \<Rightarrow> JStr (sb_finalStatus existing))"

fun submission_data :: "env \<Rightarrow> submission \<Rightarrow> dto \<Rightarrow> changes \<Rightarrow> row_data" where
  "submission_data env existing dto ch (RoundCol r s) = round_data env existing ch r s"
| "submission_data env existing dto ch FinalStatus = Some (Json (final_status_data existing dto ch))"
| "submission_data env existing dto ch JobId = map_option Json (dto_field dto ''jobId'')"
| "submission_data env existing dto ch CandidateId = map_option Json (dto_field dto ''candidateId'')"
| "submission_data env existing dto ch RecruiterId = map_option Json (dto_field dto ''recruiterId'')"
| "submission_data env existing dto ch RemarksCol = map_option Json (dto_field dto ''remarks'')"
| "submission_data env existing dto ch RecruiterComment = map_option Json (dto_field dto ''recruiterComment'')"
| "submission_data env existing dto ch SubmittedRate = map_option (Json \<circ> parsed_rate) (dto_field dto ''submittedRate'')"
| "submission_data env existing dto ch PodLeadRemarks =
     map_option Json (case dto_field dto ''podLeadRemarks'' of None \<Rightarrow> dto_field dto ''reviewFeedback'' | Some v \<Rightarrow> Some v)"
| "submission_data env existing dto ch ReviewFeedback = map_option Json (dto_field dto ''reviewFeedback'')"
| "submission_data env existing dto ch MeetingLink = map_option Json (dto_field dto ''meetingLink'')"
| "submission_data env existing dto ch _ = None"

section \<open>Writing the row\<close>

text \<open>The values Prisma accepts for a column; anything else is a validation error.\<close>

definition as_text :: "jsval \<Rightarrow> string option result" where
  "as_text v = (case v of Json JNull \<Rightarrow> ok None | Json (JStr s) \<Rightarrow> ok (Some s)
                        | _ \<Rightarrow> throw (InternalError ''PrismaClientValidationError''))"

definition as_required :: "jsval \<Rightarrow> string result" where
  "as_required v = (case v of Json (JStr s) \<Rightarrow> ok s | _ \<Rightarrow> throw (InternalError ''PrismaClientValidationError''))"

definition as_decimal :: "jsval \<Rightarrow> string option result" where
  "as_decimal v = (case v of Json (JNum s) \<Rightarrow> ok (Some s) | _ \<Rightarrow> as_text v)"

definition as_date :: "jsval \<Rightarrow> int option result" where
  "as_date v = (case v of Json JNull \<Rightarrow> ok None | DateVal t \<Rightarrow> ok (Some t)
                        | _ \<Rightarrow> throw (InternalError ''RangeError: Invalid time value''))"

definition kept :: "'a \<Rightarrow> (jsval \<Rightarrow> 'a result) \<Rightarrow> jsval option \<Rightarrow> 'a result" where
  "kept old conv v = (case v of None \<Rightarrow> ok old | Some x \<Rightarrow> conv x)"

definition write_round :: "row_data \<Rightarrow> submission \<Rightarrow> round_key \<Rightarrow> round_state result" where
  "write_round data row r =
    (let old = sb_round row r in
     and_then (kept (rd_status old) as_text (data (RoundCol r Status))) (\<lambda>st.
     and_then (kept (rd_date old) as_date (data (RoundCol r Date))) (\<lambda>dt.
     and_then (kept (rd_remarks old) as_text (data (RoundCol r Remarks))) (\<lambda>rm.
     and_then (kept (rd_interviewer old) as_text (data (RoundCol r Interviewer))) (\<lambda>iv.
     and_then (kept (rd_color old) as_text (data (RoundCol r Color))) (\<lambda>co.
     ok \<lparr> rd_status = st, rd_date = dt, rd_remarks = rm, rd_interviewer = iv, rd_color = co \<rparr>))))))"

definition write_rounds :: "row_data \<Rightarrow> submission \<Rightarrow> (round_key \<Rightarrow> round_state) result" where
  "write_rounds data row =
     and_then (write_round data row L1) (\<lambda>r1.
     and_then (write_round data row L2) (\<lambda>r2.
     and_then (write_round data row L3) (\<lambda>r3.
     ok (\<lambda>k. case k of L1 \<Rightarrow> r1 | L2 \<Rightarrow> r2 | L3 \<Rightarrow> r3))))"

definition write_texts :: "row_data \<Rightarrow> submission \<Rightarrow> submission result" where
  "write_texts data row =
     and_then (kept (sb_remarks row) as_text (data RemarksCol)) (\<lambda>rm.
     and_then (kept (sb_recruiterComment row) as_text (data RecruiterComment)) (\<lambda>rc.
     and_then (kept (sb_podLeadRemarks row) as_text (data PodLeadRemarks)) (\<lambda>pl.
     and_then (kept (sb_reviewFeedback row) as_text (data ReviewFeedback)) (\<lambda>rf.
     and_then (kept (sb_meetingLink row) as_text (data MeetingLink)) (\<lambda>ml.
     and_then (kept (sb_submittedRate row) as_decimal (data SubmittedRate)) (\<lambda>rate.
     ok (row\<lparr> sb_remarks := rm, sb_recruiterComment := rc, sb_podLeadRemarks := pl,
             sb_reviewFeedback := rf, sb_meetingLink := ml, sb_submittedRate := rate \<rparr>)))))))"

definition write_keys :: "row_data \<Rightarrow> submission \<Rightarrow> submission result" where
  "write_keys data row =
     and_then (kept (sb_jobId row) as_required (data JobId)) (\<lambda>j.
     and_then (kept (sb_candidateId row) as_required (data CandidateId)) (\<lambda>c.
     and_then (kept (sb_recruiterId row) as_text (data RecruiterId)) (\<lambda>u.
     ok (row\<lparr> sb_jobId := j, sb_candidateId := c, sb_recruiterId := u \<rparr>))))"

definition write_row :: "int \<Rightarrow> row_data \<Rightarrow> submission \<Rightarrow> submission result" where
  "write_row at data row =
     and_then (write_rounds data row) (\<lambda>rounds.
     and_then (kept (sb_finalStatus row) as_required (data FinalStatus)) (\<lambda>final.
     and_then (write_texts data row) (\<lambda>row1.
     and_then (write_keys data row1) (\<lambda>row2.
     ok (row2\<lparr> sb_round := rounds, sb_finalStatus := final, sb_updatedAt := at \<rparr>)))))"

text \<open>The update from the rules to the new row, written at instant \<open>at\<close>.\<close>

definition edit_submission ::
  "env \<Rightarrow> int \<Rightarrow> submission \<Rightarrow> string option \<Rightarrow> dto \<Rightarrow> submission_capabilities \<Rightarrow> submission result" where
  "edit_submission env at existing rejectionFromStatus dto caps =
     and_then (validateTrackerUpdate env existing rejectionFromStatus dto caps) (\<lambda>_.
     and_then (roundUpdate existing dto) (\<lambda>ch.
     write_row at (submission_data env existing dto ch) existing))"

section \<open>What the round rules compute\<close>

text \<open>The fields of a round before any reset: the update's own, with a pending round's appointment cleared.\<close>

definition base_changes :: "submission \<Rightarrow> dto \<Rightarrow> changes" where
  "base_changes existing dto r = cleared_appointment existing r (copied_fields dto) r"

definition reset_changes :: "suffix \<Rightarrow> json option" where
  "reset_changes s = Some (if s = Status then JStr ''PENDING'' else JNull)"

lemma cleared_appointment_other: "k \<noteq> r \<Longrightarrow> cleared_appointment existing r data k = data k"
  by (simp add: cleared_appointment_def)

lemma cleared_appointment_cong:
  "data r = data' r \<Longrightarrow> cleared_appointment existing r data r = cleared_appointment existing r data' r"
  by (auto simp: cleared_appointment_def round_status_def)

lemma cleared_appointment_status [simp]:
  "cleared_appointment existing r data k Status = data k Status"
  by (simp add: cleared_appointment_def)

lemma round_status_cleared [simp]:
  "round_status existing (cleared_appointment existing r data) k = round_status existing data k"
  by (simp add: round_status_def)

text \<open>The scan leaves the unvisited rounds alone, gives the visited ones their base fields, and stops only
  at a corrected clearance.\<close>

lemma scan_rounds_data:
  assumes "scan_rounds existing dto rs data = Inr (data', rest)" and "distinct rs"
  shows "data' k = (if k \<in> set rs \<and> k \<notin> set rest then cleared_appointment existing k data k else data k)
    \<and> set rest \<subseteq> set rs"
  using assms
proof (induction rs arbitrary: data)
  case (Cons r rs)
  let ?d = "cleared_appointment existing r data"
  show ?case
  proof (cases "rd_status (sb_round existing r) = Some ''CLEARED'' \<and> round_status existing data r \<noteq> JStr ''CLEARED''
           \<and> (\<exists>n \<in> set rs. progressed (sb_round existing n))")
    case True
    then have "data' = ?d" "rest = rs"
      using Cons.prems(1) by (auto simp: Let_def split: if_splits)
    then show ?thesis using Cons.prems(2) by (cases "k = r") (auto simp: cleared_appointment_other)
  next
    case False
    then have sc: "scan_rounds existing dto rs ?d = Inr (data', rest)"
      using Cons.prems(1) by (simp add: Let_def del: not_all) (auto split: if_splits)
    have ih: "data' k = (if k \<in> set rs \<and> k \<notin> set rest then cleared_appointment existing k ?d k else ?d k)
        \<and> set rest \<subseteq> set rs"
      using Cons.IH [OF sc] Cons.prems(2) by simp
    then show ?thesis
      using Cons.prems(2)
      by (cases "k = r") (auto simp: cleared_appointment_other intro!: cleared_appointment_cong)
  qed
qed simp

end
