(* ===== verification/TrackerSafety.thy ===== *)
theory TrackerSafety
  imports TrackerWrite
begin

text \<open>
  What every accepted update of a submission keeps: the rounds run in sequence, a rejected round
  closes the submission, success rests on a cleared first round, and a submission awaiting internal
  review has no interviews; and how the final status may move.
\<close>

section \<open>What the rules compute\<close>

lemma set_ROUND_KEYS [simp]: "r \<in> set ROUND_KEYS"
  by (cases r) (simp_all add: ROUND_KEYS_def)

lemma set_all_suffixes [simp]: "s \<in> set all_suffixes"
  by (cases s) (simp_all add: all_suffixes_def)

lemma distinct_ROUND_KEYS [simp]: "distinct ROUND_KEYS"
  by (simp add: ROUND_KEYS_def)

lemma earlier_later: "k \<in> set (earlier r) \<longleftrightarrow> r \<in> set (later k)"
  by (cases r; cases k) simp_all

lemma earlier_trans: "j \<in> set (earlier k) \<Longrightarrow> k \<in> set (earlier r) \<Longrightarrow> j \<in> set (earlier r)"
  by (cases j; cases k; cases r) simp_all

lemma reset_rounds_data:
  "reset_rounds dto rs data = Inr data' \<Longrightarrow> data' k = (if k \<in> set rs then reset_changes else data k)"
proof (induction rs arbitrary: data)
  case (Cons r rs)
  then show ?case
    by (auto simp: reset_changes_def fun_eq_iff split: if_splits)
qed simp

lemma scan_rounds_reset:
  "scan_rounds existing dto rs data = Inr (data', rest) \<Longrightarrow> rest \<noteq> [] \<Longrightarrow> distinct rs \<Longrightarrow>
    \<exists>k \<in> set rs. k \<notin> set rest \<and> rd_status (sb_round existing k) = Some ''CLEARED''
      \<and> round_status existing data k \<noteq> JStr ''CLEARED'' \<and> (\<exists>as. rs = as @ k # rest)"
proof (induction rs arbitrary: data)
  case (Cons r rs)
  show ?case
  proof (cases "rd_status (sb_round existing r) = Some ''CLEARED'' \<and> round_status existing data r \<noteq> JStr ''CLEARED''
           \<and> (\<exists>n \<in> set rs. progressed (sb_round existing n))")
    case True
    then have "rest = rs" using Cons.prems(1) by (auto simp: Let_def split: if_splits)
    then show ?thesis using True Cons.prems(3) by auto
  next
    case False
    then have "scan_rounds existing dto rs (cleared_appointment existing r data) = Inr (data', rest)"
      using Cons.prems(1) by (simp add: Let_def del: not_all) (auto split: if_splits)
    from Cons.IH [OF this Cons.prems(2)] Cons.prems(3) obtain k as where
      "k \<in> set rs" "k \<notin> set rest" "rd_status (sb_round existing k) = Some ''CLEARED''"
      "round_status existing data k \<noteq> JStr ''CLEARED''" "rs = as @ k # rest"
      by auto
    then show ?thesis by (metis append_Cons list.set_intros(2))
  qed
qed simp

lemma ROUND_KEYS_split: "ROUND_KEYS = as @ k # rest \<Longrightarrow> rest = later k"
  by (cases k; cases as; auto simp: ROUND_KEYS_def Cons_eq_append_conv)

text \<open>The fields of every round after \<^verbatim>\<open>roundUpdate\<close>: reset after a corrected clearance, or its base fields.\<close>

lemma roundUpdate_data:
  assumes "roundUpdate existing dto = Inr ch"
  obtains (plain) "\<And>k. ch k = base_changes existing dto k"
  | (reset) j where "rd_status (sb_round existing j) = Some ''CLEARED''"
      "round_status existing (copied_fields dto) j \<noteq> JStr ''CLEARED''"
      "\<And>k. ch k = (if k \<in> set (later j) then reset_changes else base_changes existing dto k)"
proof -
  from assms obtain data rest where
    sc: "scan_rounds existing dto ROUND_KEYS (copied_fields dto) = Inr (data, rest)"
    and rs: "reset_rounds dto rest data = Inr ch"
    by (auto simp: roundUpdate_def and_then_eq_Inr)
  have ch: "ch k = (if k \<in> set rest then reset_changes else base_changes existing dto k)" for k
    using reset_rounds_data [OF rs, of k] scan_rounds_data [OF sc, of k] by (simp add: base_changes_def)
  show thesis
  proof (cases "rest = []")
    case True
    then show thesis using ch plain by simp
  next
    case False
    from scan_rounds_reset [OF sc False] obtain j as where
      "rd_status (sb_round existing j) = Some ''CLEARED''"
      "round_status existing (copied_fields dto) j \<noteq> JStr ''CLEARED''" "ROUND_KEYS = as @ j # rest"
      by auto
    then show thesis using ch reset [of j] ROUND_KEYS_split by metis
  qed
qed

lemma base_changes_Status [simp]: "base_changes existing dto r Status = copied_fields dto r Status"
  by (simp add: base_changes_def)

lemma base_changes_Date:
  "base_changes existing dto r Date = Some JNull \<or> base_changes existing dto r Date = round_field dto r Date"
  by (auto simp: base_changes_def cleared_appointment_def copied_fields_def split: option.splits)

lemma reset_changes_simps [simp]: "reset_changes Status = Some (JStr ''PENDING'')" "reset_changes Date = Some JNull"
  by (simp_all add: reset_changes_def)

section \<open>What the write stores\<close>

lemma write_round_Inr:
  assumes "write_round data row r = Inr rd"
  shows "kept (rd_status (sb_round row r)) as_text (data (RoundCol r Status)) = Inr (rd_status rd)"
    and "kept (rd_date (sb_round row r)) as_date (data (RoundCol r Date)) = Inr (rd_date rd)"
  using assms by (auto simp: write_round_def Let_def and_then_eq_Inr)

lemma write_rounds_Inr: "write_rounds data row = Inr rounds \<Longrightarrow> write_round data row r = Inr (rounds r)"
  by (cases r) (auto simp: write_rounds_def and_then_eq_Inr)

lemma write_texts_Inr:
  "write_texts data row = Inr row' \<Longrightarrow> sb_id row' = sb_id row \<and> sb_tenantId row' = sb_tenantId row
    \<and> sb_jobId row' = sb_jobId row \<and> sb_candidateId row' = sb_candidateId row \<and> sb_recruiterId row' = sb_recruiterId row
    \<and> sb_compensation row' = sb_compensation row \<and> sb_source row' = sb_source row"
  by (auto simp: write_texts_def and_then_eq_Inr)

lemma write_keys_Inr:
  "write_keys data row = Inr row' \<Longrightarrow> sb_id row' = sb_id row \<and> sb_tenantId row' = sb_tenantId row
    \<and> kept (sb_jobId row) as_required (data JobId) = Inr (sb_jobId row')
    \<and> kept (sb_candidateId row) as_required (data CandidateId) = Inr (sb_candidateId row')
    \<and> kept (sb_recruiterId row) as_text (data RecruiterId) = Inr (sb_recruiterId row')"
  by (auto simp: write_keys_def and_then_eq_Inr)

lemma write_row_Inr:
  assumes "write_row at data row = Inr new"
  shows "kept (rd_status (sb_round row r)) as_text (data (RoundCol r Status)) = Inr (rd_status (sb_round new r))"
    and "kept (rd_date (sb_round row r)) as_date (data (RoundCol r Date)) = Inr (rd_date (sb_round new r))"
    and "kept (sb_finalStatus row) as_required (data FinalStatus) = Inr (sb_finalStatus new)"
    and "sb_updatedAt new = at" "sb_id new = sb_id row" "sb_tenantId new = sb_tenantId row"
    and "kept (sb_jobId row) as_required (data JobId) = Inr (sb_jobId new)"
    and "kept (sb_candidateId row) as_required (data CandidateId) = Inr (sb_candidateId new)"
    and "kept (sb_recruiterId row) as_text (data RecruiterId) = Inr (sb_recruiterId new)"
proof -
  from assms obtain rounds final row1 row2 where
    rounds: "write_rounds data row = Inr rounds"
    and final: "kept (sb_finalStatus row) as_required (data FinalStatus) = Inr final"
    and texts: "write_texts data row = Inr row1" and keys: "write_keys data row1 = Inr row2"
    and new: "new = row2\<lparr> sb_round := rounds, sb_finalStatus := final, sb_updatedAt := at \<rparr>"
    by (auto simp: write_row_def and_then_eq_Inr)
  note wr = write_round_Inr [OF write_rounds_Inr [OF rounds, of r]]
  show "kept (rd_status (sb_round row r)) as_text (data (RoundCol r Status)) = Inr (rd_status (sb_round new r))"
    and "kept (rd_date (sb_round row r)) as_date (data (RoundCol r Date)) = Inr (rd_date (sb_round new r))"
    using wr by (simp_all add: new)
  show "kept (sb_finalStatus row) as_required (data FinalStatus) = Inr (sb_finalStatus new)"
    and "sb_updatedAt new = at" "sb_id new = sb_id row" "sb_tenantId new = sb_tenantId row"
    and "kept (sb_jobId row) as_required (data JobId) = Inr (sb_jobId new)"
    and "kept (sb_candidateId row) as_required (data CandidateId) = Inr (sb_candidateId new)"
    and "kept (sb_recruiterId row) as_text (data RecruiterId) = Inr (sb_recruiterId new)"
    using final write_texts_Inr [OF texts] write_keys_Inr [OF keys] by (simp_all add: new)
qed

lemma as_text_Inr: "as_text v = Inr x \<longleftrightarrow> v = Json (jnullable x)"
  by (auto simp: as_text_def jnullable_def split: jsval.splits json.splits option.splits)

lemma as_required_Inr: "as_required v = Inr x \<longleftrightarrow> v = Json (JStr x)"
  by (auto simp: as_required_def split: jsval.splits json.splits)

lemma as_date_Inr: "as_date v = Inr x \<longleftrightarrow> v = (case x of None \<Rightarrow> Json JNull | Some t \<Rightarrow> DateVal t)"
  by (auto simp: as_date_def split: jsval.splits json.splits option.splits)

lemma kept_simps [simp]: "kept old conv (Some v) = conv v" "kept old conv None = Inr x \<longleftrightarrow> x = old"
  by (auto simp: kept_def)

section \<open>An accepted update\<close>

text \<open>The checks an accepted update has passed, one by one, and the row it wrote.\<close>

lemma edit_submissionE:
  assumes "edit_submission env at existing from dto caps = Inr new"
  obtains ch where "roundUpdate existing dto = Inr ch" and "check_fields dto = Inr ()"
    and "\<not> (sb_finalStatus existing = ''REJECTED'' \<and> from = Some ''PENDING_APPROVAL''
           \<and> dto_field dto ''finalStatus'' \<notin> {None, Some (JStr ''REJECTED'')})"
    and "check_assessment existing dto caps = Inr ()"
    and "\<And>r. check_round env existing dto caps ch r = Inr ()"
    and "check_sequence existing dto ch = Inr ()" and "check_outcome existing dto caps ch = Inr ()"
    and "check_rest env existing dto caps ch = Inr ()"
    and "write_row at (submission_data env existing dto ch) existing = Inr new"
proof -
  from assms have v: "validateTrackerUpdate env existing from dto caps = Inr ()"
    and ex: "\<exists>ch. roundUpdate existing dto = Inr ch
      \<and> write_row at (submission_data env existing dto ch) existing = Inr new"
    by (auto simp: edit_submission_def and_then_eq_Inr)
  from ex obtain ch where ch: "roundUpdate existing dto = Inr ch"
    and w: "write_row at (submission_data env existing dto ch) existing = Inr new"
    by blast
  note cs = v [unfolded validateTrackerUpdate_def and_then_eq_Inr ch]
  show thesis
  proof (rule that [OF ch])
    show "check_round env existing dto caps ch r = Inr ()" for r
      using cs set_ROUND_KEYS [of r] by (auto simp: checks_append checks_ok)
  qed (use cs w in \<open>auto simp: checks_append\<close>)
qed

text \<open>No update names the job, the candidate or the recruiter.\<close>

lemma allowed_keys: "check_fields dto = Inr () \<Longrightarrow> key \<in> set (map fst dto) \<Longrightarrow> key \<in> set allowed_fields"
  by (auto simp: check_fields_def checks_append unsupported_field_def find_first_None split: option.splits)

lemma no_keys_moved:
  assumes "check_fields dto = Inr ()" and "key \<in> {''jobId'', ''candidateId'', ''recruiterId''}"
  shows "dto_field dto key = None"
proof -
  have "\<forall>key \<in> {''jobId'', ''candidateId'', ''recruiterId''}. key \<notin> set allowed_fields"
    by code_simp
  then have "key \<notin> set (map fst dto)" using allowed_keys [OF assms(1)] assms(2) by blast
  then show ?thesis by (simp add: dto_field_def map_of_eq_None_iff)
qed

lemma written_status:
  assumes "write_row at (submission_data env existing dto ch) existing = Inr new"
  shows "jnullable (rd_status (sb_round new r)) = (if cut_off existing ch r then JStr ''PENDING'' else merged_status existing ch r)"
  using write_row_Inr(1) [OF assms, of r] by (auto simp: round_data_def as_text_Inr)

lemma written_date:
  assumes "write_row at (submission_data env existing dto ch) existing = Inr new"
    and "rd_date (sb_round new r) \<noteq> None"
  shows "\<not> cut_off existing ch r" and "val_truthy (merged existing ch r Date)"
    and "\<And>j. ch r Date = Some j \<Longrightarrow> j \<noteq> JNull"
    and "ch r Date = None \<Longrightarrow> rd_date (sb_round existing r) \<noteq> None"
proof -
  have d: "as_date (if cut_off existing ch r then Json JNull
       else case ch r Date of Some j \<Rightarrow> new_date env j | None \<Rightarrow> stored (sb_round existing r) Date)
     = Inr (rd_date (sb_round new r))"
    using write_row_Inr(2) [OF assms(1), of r] by (simp add: round_data_def)
  show c: "\<not> cut_off existing ch r"
  proof
    assume "cut_off existing ch r"
    with d assms(2) show False by (simp add: as_date_Inr split: option.splits)
  qed
  obtain t where t: "rd_date (sb_round new r) = Some t" using assms(2) by auto
  have v: "(case ch r Date of Some j \<Rightarrow> new_date env j | None \<Rightarrow> stored (sb_round existing r) Date) = DateVal t"
    using d c t by (simp add: as_date_Inr)
  show "val_truthy (merged existing ch r Date)"
    using v by (auto simp: merged_def val_truthy_def new_date_def split: option.splits if_splits)
  show "\<And>j. ch r Date = Some j \<Longrightarrow> j \<noteq> JNull"
    using v by (auto simp: new_date_def split: if_splits)
  show "ch r Date = None \<Longrightarrow> rd_date (sb_round existing r) \<noteq> None"
    using v by (auto simp: stored_def split: option.splits)
qed

lemma written_final:
  assumes "write_row at (submission_data env existing dto ch) existing = Inr new"
  shows "final_status_data existing dto ch = JStr (sb_finalStatus new)"
  using write_row_Inr(3) [OF assms] by (simp add: as_required_Inr)

lemma merged_is_status: "merged_is existing ch r ns \<longleftrightarrow> (\<exists>n \<in> set ns. merged_status existing ch r = JStr n)"
  by (auto simp: merged_is_def merged_def merged_status_def stored_def split: option.splits)

lemma merged_unset_status: "merged_unset existing ch r \<longleftrightarrow> merged_status existing ch r \<in> {JNull, JStr ''PENDING''}"
  by (auto simp: merged_unset_def merged_is_status merged_def merged_status_def stored_def split: option.splits)

lemma cut_off_earlier:
  assumes "cut_off existing ch r"
  obtains k where "k \<in> set (earlier r)" and "merged_status existing ch k = JStr ''REJECTED''"
  using assms by (auto simp: cut_off_def rejected_round_def earlier_later dest: find_first_Some split: option.splits)

lemma written_rejected:
  assumes "write_row at (submission_data env existing dto ch) existing = Inr new"
    and "rd_status (sb_round new r) = Some ''REJECTED''"
  shows "rejected_round existing ch \<noteq> None"
  using written_status [OF assms(1), of r] assms(2) set_ROUND_KEYS [of r]
  by (auto simp: rejected_round_def find_first_None split: if_splits)

section \<open>What every update keeps\<close>

text \<open>A round has started when it has a result or an appointment.\<close>

definition started :: "round_state \<Rightarrow> bool" where
  "started rd \<longleftrightarrow> \<not> unset_status (rd_status rd) \<or> rd_date rd \<noteq> None"

definition in_sequence :: "(round_key \<Rightarrow> round_state) \<Rightarrow> bool" where
  "in_sequence rounds \<longleftrightarrow> (\<forall>r. started (rounds r) \<longrightarrow> (\<forall>k \<in> set (earlier r). rd_status (rounds k) = Some ''CLEARED''))"

definition submission_ok :: "submission \<Rightarrow> bool" where
  "submission_ok row \<longleftrightarrow> in_sequence (sb_round row)
     \<and> (\<forall>r. rd_status (sb_round row r) = Some ''REJECTED'' \<longrightarrow> sb_finalStatus row = ''NOT_SELECTED'')
     \<and> (sb_finalStatus row \<in> {''SELECTED'', ''OFFER'', ''JOIN''} \<longrightarrow> rd_status (sb_round row L1) = Some ''CLEARED'')
     \<and> (sb_finalStatus row = ''PENDING_APPROVAL'' \<longrightarrow> (\<forall>r. \<not> started (sb_round row r)))"

subsection \<open>Updates that change a round\<close>

lemma changed_sequence:
  assumes "check_sequence existing dto ch = Inr ()" and "changed_round existing dto"
    and w: "write_row at (submission_data env existing dto ch) existing = Inr new"
  shows "in_sequence (sb_round new)"
  unfolding in_sequence_def
proof (intro allI impI ballI)
  fix r k
  assume st: "started (sb_round new r)" and k: "k \<in> set (earlier r)"
  have nc: "\<not> cut_off existing ch r"
    using st written_status [OF w, of r] written_date(1) [OF w, of r]
    by (auto simp: started_def unset_status_def)
  have prog: "\<not> merged_unset existing ch r \<or> val_truthy (merged existing ch r Date)"
    using st written_status [OF w, of r] written_date(2) [OF w, of r] nc
    by (auto simp: started_def unset_status_def merged_unset_status)
  have cl: "merged_status existing ch j = JStr ''CLEARED''" if "j \<in> set (earlier r)" for j
    using assms(1,2) prog that
    by (cases r) (auto simp: check_sequence_def merged_is_status)
  have "\<not> cut_off existing ch k"
  proof
    assume "cut_off existing ch k"
    then obtain j where "j \<in> set (earlier k)" "merged_status existing ch j = JStr ''REJECTED''"
      by (rule cut_off_earlier)
    then show False using cl [of j] earlier_trans [OF _ k] by auto
  qed
  then show "rd_status (sb_round new k) = Some ''CLEARED''"
    using written_status [OF w, of k] cl [OF k] by simp
qed

subsection \<open>Updates that change no round\<close>

lemma untouched:
  assumes "\<not> changed_round existing dto" and "round_field dto r s = Some v"
  shows "historyValue (Json v) = historyValue (stored (sb_round existing r) s)"
proof -
  have "\<not> touched existing dto r" using assms(1) by (simp add: changed_round_def)
  then have "case round_field dto r s of None \<Rightarrow> True
     | Some v \<Rightarrow> historyValue (Json v) = historyValue (stored (sb_round existing r) s)"
    unfolding touched_def using set_all_suffixes [of s] by (auto split: option.splits)
  then show ?thesis using assms(2) by simp
qed

lemma historyValue_text:
  "historyValue (Json (jnullable x)) = x"
  "historyValue (Json (JStr t)) = Some t" "historyValue (Json JNull) = None"
  "historyValue (Json v) = None \<longleftrightarrow> v = JNull"
  by (auto simp: historyValue_def jnullable_def split: option.splits)

text \<open>The status an untouched round ends up with, unless the update carries a value that is no string.\<close>

lemma untouched_status:
  assumes "\<not> changed_round existing dto" and "copied_fields dto r Status = Some (jnullable st)"
  shows "rd_status (sb_round existing r) = st \<or> (rd_status (sb_round existing r) = None \<and> st = Some ''PENDING'')"
proof -
  from assms(2) obtain v where v: "round_field dto r Status = Some v"
    and c: "(if v = JNull then JStr ''PENDING'' else v) = jnullable st"
    by (auto simp: copied_fields_def split: option.splits)
  have "historyValue (Json v) = rd_status (sb_round existing r)"
    using untouched [OF assms(1) v] by (simp add: stored_def historyValue_text)
  then show ?thesis
    using c by (cases "v = JNull") (auto simp: historyValue_text jnullable_def split: option.splits)
qed

lemma unchanged_no_reset:
  assumes "\<not> changed_round existing dto" and "in_sequence (sb_round existing)"
    and ch: "roundUpdate existing dto = Inr ch"
    and w: "write_row at (submission_data env existing dto ch) existing = Inr new"
  shows "ch k = base_changes existing dto k"
  using ch
proof (cases rule: roundUpdate_data)
  case (reset j)
  have plain: "merged_status existing ch i = merged_status existing (base_changes existing dto) i" if "i \<notin> set (later j)" for i
    using that reset(3) by (simp add: merged_status_def)
  have jj: "j \<notin> set (later j)" by (cases j) simp_all
  have started: "started (sb_round existing j)"
    using reset(1) by (simp add: started_def unset_status_def)
  have nc: "\<not> cut_off existing ch j"
  proof
    assume "cut_off existing ch j"
    then obtain i where i: "i \<in> set (earlier j)" and rej: "merged_status existing ch i = JStr ''REJECTED''"
      by (rule cut_off_earlier)
    have old: "rd_status (sb_round existing i) = Some ''CLEARED''"
      using assms(2) started i by (auto simp: in_sequence_def)
    have "i \<notin> set (later j)" using i by (cases i; cases j) simp_all
    then have "copied_fields dto i Status = Some (jnullable (Some ''REJECTED''))"
      using rej old plain by (auto simp: merged_status_def split: option.splits)
    from untouched_status [OF assms(1) this] old show False by auto
  qed
  have "merged_status existing ch j = jnullable (rd_status (sb_round new j))"
    using written_status [OF w, of j] nc by simp
  then have m: "merged_status existing (base_changes existing dto) j = jnullable (rd_status (sb_round new j))"
    using plain [OF jj] by simp
  show ?thesis
  proof (cases "copied_fields dto j Status")
    case None
    then have "round_status existing (copied_fields dto) j = JStr ''CLEARED''"
      using reset(1) by (simp add: round_status_def coalesce_def)
    then show ?thesis using reset(2) by simp
  next
    case (Some v)
    then have v: "copied_fields dto j Status = Some (jnullable (rd_status (sb_round new j)))"
      using m by (simp add: merged_status_def)
    then have "rd_status (sb_round new j) = Some ''CLEARED''"
      using untouched_status [OF assms(1) v] reset(1) by auto
    then show ?thesis using v reset(2) by (simp add: round_status_def coalesce_def)
  qed
qed

text \<open>Without a changed round, a round keeps its status, or a missing one is written as pending, and gets no date.\<close>

lemma unchanged_round:
  assumes "\<not> changed_round existing dto" and "in_sequence (sb_round existing)"
    and "roundUpdate existing dto = Inr ch"
    and w: "write_row at (submission_data env existing dto ch) existing = Inr new"
  shows "rd_status (sb_round new r) = rd_status (sb_round existing r)
      \<or> (unset_status (rd_status (sb_round existing r)) \<and> rd_status (sb_round new r) = Some ''PENDING'')"
    and "rd_date (sb_round new r) \<noteq> None \<Longrightarrow> rd_date (sb_round existing r) \<noteq> None"
proof -
  note ch = unchanged_no_reset [OF assms]
  have kept: "rd_status (sb_round existing k) = st \<or> (rd_status (sb_round existing k) = None \<and> st = Some ''PENDING'')"
    if "merged_status existing ch k = jnullable st" for k st
  proof (cases "copied_fields dto k Status")
    case None
    then have "jnullable (rd_status (sb_round existing k)) = jnullable st"
      using that ch by (simp add: merged_status_def)
    then show ?thesis by (cases st) auto
  next
    case (Some v)
    then show ?thesis using that ch untouched_status [OF assms(1), of k st] by (simp add: merged_status_def)
  qed
  show "rd_status (sb_round new r) = rd_status (sb_round existing r)
      \<or> (unset_status (rd_status (sb_round existing r)) \<and> rd_status (sb_round new r) = Some ''PENDING'')"
  proof (cases "cut_off existing ch r")
    case True
    then obtain k where k: "k \<in> set (earlier r)" and rej: "merged_status existing ch k = JStr ''REJECTED''"
      by (rule cut_off_earlier)
    have "rd_status (sb_round existing k) = Some ''REJECTED''"
      using kept [of k "Some ''REJECTED''"] rej by auto
    then have "\<not> started (sb_round existing r)"
      using assms(2) k by (force simp: in_sequence_def)
    then show ?thesis
      using written_status [OF w, of r] True by (auto simp: started_def)
  next
    case False
    then show ?thesis
      using written_status [OF w, of r] kept [of r "rd_status (sb_round new r)"]
      by (auto simp: unset_status_def)
  qed
  assume d: "rd_date (sb_round new r) \<noteq> None"
  show "rd_date (sb_round existing r) \<noteq> None"
  proof (cases "ch r Date")
    case None
    then show ?thesis using written_date(4) [OF w d] by simp
  next
    case (Some j)
    then have "j \<noteq> JNull" using written_date(3) [OF w d] by simp
    then have "round_field dto r Date = Some j"
      using Some ch base_changes_Date [of existing dto r] by auto
    from untouched [OF assms(1) this] \<open>j \<noteq> JNull\<close> show ?thesis
      by (auto simp: stored_def historyValue_def split: option.splits if_splits)
  qed
qed

subsection \<open>The final status\<close>

text \<open>The final status an update leaves: forced by a rejected round, decided by the update, or kept.\<close>

lemma final_cases:
  assumes "edit_submission env at existing from dto caps = Inr new" and "roundUpdate existing dto = Inr ch"
  obtains (forced) "rejected_round existing ch \<noteq> None" and "sb_finalStatus new = ''NOT_SELECTED''"
  | (decided) "rejected_round existing ch = None" and "dto_field dto ''finalStatus'' = Some (JStr (sb_finalStatus new))"
  | (kept) "rejected_round existing ch = None" and "dto_field dto ''finalStatus'' = None"
      and "sb_finalStatus new = sb_finalStatus existing"
proof -
  from assms have w: "write_row at (submission_data env existing dto ch) existing = Inr new"
    by (auto simp: edit_submission_def and_then_eq_Inr)
  from written_final [OF w] that show thesis
    by (auto simp: final_status_data_def split: if_splits option.splits)
qed

lemma decided_checks:
  assumes "check_outcome existing dto caps ch = Inr ()" and "dto_field dto ''finalStatus'' = Some (JStr to)"
    and "to \<notin> {''REJECTED'', ''NOT_SELECTED''}"
  shows "check_decision existing dto caps ch to = Inr ()"
  using assms by (simp add: check_outcome_def derived_rejection_def one_of_def)

lemma success_needs_L1:
  assumes "check_decision existing dto caps ch to = Inr ()" and "to \<in> {''SELECTED'', ''OFFER'', ''JOIN''}"
  shows "merged_status existing ch L1 = JStr ''CLEARED''"
  using assms by (simp add: check_decision_def Let_def check_success_def merged_is_status)

lemma cut_off_L1 [simp]: "\<not> cut_off existing ch L1"
  by (auto elim: cut_off_earlier)

lemma edit_sequence:
  assumes "submission_ok existing" and "edit_submission env at existing from dto caps = Inr new"
  shows "in_sequence (sb_round new)"
  using assms(2)
proof (rule edit_submissionE)
  fix ch assume ch: "roundUpdate existing dto = Inr ch" and sq: "check_sequence existing dto ch = Inr ()"
    and w: "write_row at (submission_data env existing dto ch) existing = Inr new"
  have old: "in_sequence (sb_round existing)" using assms(1) by (simp add: submission_ok_def)
  show ?thesis
  proof (cases "changed_round existing dto")
    case True
    then show ?thesis by (rule changed_sequence [OF sq _ w])
  next
    case False
    note same = unchanged_round [OF False old ch w]
    have st: "started (sb_round existing r)" if "started (sb_round new r)" for r
      using that same [of r] by (auto simp: started_def unset_status_def)
    show ?thesis unfolding in_sequence_def
    proof (intro allI impI ballI)
      fix r k assume "started (sb_round new r)" and k: "k \<in> set (earlier r)"
      then have "rd_status (sb_round existing k) = Some ''CLEARED''"
        using old st by (auto simp: in_sequence_def)
      then show "rd_status (sb_round new k) = Some ''CLEARED''"
        using same(1) [of k] by (auto simp: unset_status_def)
    qed
  qed
qed

lemma edit_success:
  assumes "submission_ok existing" and "edit_submission env at existing from dto caps = Inr new"
    and "sb_finalStatus new \<in> {''SELECTED'', ''OFFER'', ''JOIN''}"
  shows "rd_status (sb_round new L1) = Some ''CLEARED''"
  using assms(2)
proof (rule edit_submissionE)
  fix ch assume ch: "roundUpdate existing dto = Inr ch" and oc: "check_outcome existing dto caps ch = Inr ()"
    and rest: "check_rest env existing dto caps ch = Inr ()"
    and w: "write_row at (submission_data env existing dto ch) existing = Inr new"
  note l1 = written_status [OF w, of L1]
  from assms(2) ch show ?thesis
  proof (cases rule: final_cases)
    case forced then show ?thesis using assms(3) by simp
  next
    case decided
    have "merged_status existing ch L1 = JStr ''CLEARED''"
      using success_needs_L1 [OF decided_checks [OF oc decided(2)] assms(3)] assms(3) by auto
    then show ?thesis using l1 by simp
  next
    case kept
    have old: "in_sequence (sb_round existing)" "rd_status (sb_round existing L1) = Some ''CLEARED''"
      using assms(1,3) kept(3) by (auto simp: submission_ok_def)
    show ?thesis
    proof (cases "changed_round existing dto")
      case True
      then have "merged_status existing ch L1 = JStr ''CLEARED''"
        using rest kept(2,3) assms(3) by (auto simp: check_rest_def Let_def coalesce_def one_of_def merged_is_status)
      then show ?thesis using l1 by simp
    next
      case False
      then show ?thesis
        using unchanged_round(1) [OF False old(1) ch w, of L1] old(2) by (auto simp: unset_status_def)
    qed
  qed
qed

text \<open>An update that changes a round is refused while the submission awaits internal review.\<close>

lemma pending_unchanged:
  assumes "sb_finalStatus existing = ''PENDING_APPROVAL''" and "\<And>r. check_round env existing dto caps ch r = Inr ()"
  shows "\<not> changed_round existing dto"
proof
  assume "changed_round existing dto"
  then obtain r where "touched existing dto r" by (auto simp: changed_round_def)
  then show False using assms(2) [of r] assms(1) by (simp add: check_round_def check_round_order_def Let_def)
qed

lemma stays_pending:
  assumes "edit_submission env at existing from dto caps = Inr new" and "sb_finalStatus new = ''PENDING_APPROVAL''"
  shows "sb_finalStatus existing = ''PENDING_APPROVAL''"
  using assms(1)
proof (rule edit_submissionE)
  fix ch assume ch: "roundUpdate existing dto = Inr ch" and oc: "check_outcome existing dto caps ch = Inr ()"
  from assms(1) ch show ?thesis
  proof (cases rule: final_cases)
    case forced then show ?thesis using assms(2) by simp
  next
    case decided
    then show ?thesis using decided_checks [OF oc decided(2)] assms(2) by (simp add: check_decision_def Let_def)
  next
    case kept then show ?thesis using assms(2) by simp
  qed
qed

lemma edit_pending:
  assumes "submission_ok existing" and "edit_submission env at existing from dto caps = Inr new"
    and "sb_finalStatus new = ''PENDING_APPROVAL''"
  shows "\<not> started (sb_round new r)"
  using assms(2)
proof (rule edit_submissionE)
  fix ch assume ch: "roundUpdate existing dto = Inr ch"
    and cr: "\<And>r. check_round env existing dto caps ch r = Inr ()"
    and w: "write_row at (submission_data env existing dto ch) existing = Inr new"
  have p: "sb_finalStatus existing = ''PENDING_APPROVAL''" using stays_pending [OF assms(2,3)] .
  have old: "in_sequence (sb_round existing)" "\<not> started (sb_round existing r)"
    using assms(1) p by (auto simp: submission_ok_def)
  show ?thesis
    using unchanged_round [OF pending_unchanged [OF p cr] old(1) ch w, of r] old(2)
    by (cases "rd_date (sb_round new r)") (auto simp: started_def unset_status_def)
qed

lemma edit_keeps_ok:
  assumes "submission_ok existing" and "edit_submission env at existing from dto caps = Inr new"
  shows "submission_ok new"
proof -
  have "sb_finalStatus new = ''NOT_SELECTED''" if "rd_status (sb_round new r) = Some ''REJECTED''" for r
    using assms(2)
  proof (rule edit_submissionE)
    fix ch assume ch: "roundUpdate existing dto = Inr ch"
      and w: "write_row at (submission_data env existing dto ch) existing = Inr new"
    from assms(2) ch show ?thesis
      by (cases rule: final_cases) (use written_rejected [OF w that] in simp_all)
  qed
  then show ?thesis
    unfolding submission_ok_def
    using edit_sequence [OF assms] edit_success [OF assms] edit_pending [OF assms] by blast
qed

text \<open>Without a changed round, a rejected round was there before.\<close>

lemma unchanged_rejected:
  assumes "submission_ok existing" and "\<not> changed_round existing dto" and "roundUpdate existing dto = Inr ch"
    and w: "write_row at (submission_data env existing dto ch) existing = Inr new"
    and "rejected_round existing ch \<noteq> None"
  shows "sb_finalStatus existing = ''NOT_SELECTED''"
proof -
  from assms(5) obtain r where r: "rejected_round existing ch = Some r" by auto
  then have m: "merged_status existing ch r = JStr ''REJECTED''"
    by (auto simp: rejected_round_def dest: find_first_Some)
  have "\<not> cut_off existing ch r" using r by (cases r) (simp_all add: cut_off_def)
  then have "rd_status (sb_round new r) = Some ''REJECTED''"
    using written_status [OF w, of r] m by simp
  moreover have "in_sequence (sb_round existing)" using assms(1) by (simp add: submission_ok_def)
  ultimately have "rd_status (sb_round existing r) = Some ''REJECTED''"
    using unchanged_round(1) [OF assms(2) _ assms(3) w, of r] by auto
  then show ?thesis using assms(1) by (auto simp: submission_ok_def)
qed

lemma unchanged_not_derived:
  assumes "submission_ok existing" and "\<not> changed_round existing dto"
    and "sb_finalStatus existing \<noteq> ''NOT_SELECTED''"
  shows "\<not> derived_rejection dto"
proof
  assume "derived_rejection dto"
  then obtain r where "round_field dto r Status = Some (JStr ''REJECTED'')"
    by (auto simp: derived_rejection_def)
  from untouched [OF assms(2) this] have "rd_status (sb_round existing r) = Some ''REJECTED''"
    by (simp add: stored_def historyValue_text)
  then show False using assms(1,3) by (auto simp: submission_ok_def)
qed

text \<open>Without a changed round, a new final status is a decision of the update.\<close>

lemma unchanged_decision:
  assumes "submission_ok existing" and "edit_submission env at existing from dto caps = Inr new"
    and "\<not> changed_round existing dto" and "sb_finalStatus new \<noteq> sb_finalStatus existing"
  shows "dto_field dto ''finalStatus'' = Some (JStr (sb_finalStatus new)) \<and>
    (\<exists>ch. check_decision existing dto caps ch (sb_finalStatus new) = Inr ())"
  using assms(2)
proof (rule edit_submissionE)
  fix ch assume ch: "roundUpdate existing dto = Inr ch" and oc: "check_outcome existing dto caps ch = Inr ()"
    and w: "write_row at (submission_data env existing dto ch) existing = Inr new"
  from assms(2) ch show ?thesis
  proof (cases rule: final_cases)
    case forced
    then show ?thesis using unchanged_rejected [OF assms(1,3) ch w] assms(4) by simp
  next
    case decided
    have "\<not> derived_rejection dto"
    proof (cases "sb_finalStatus existing = ''NOT_SELECTED''")
      case True
      show ?thesis
      proof
        assume "derived_rejection dto"
        then obtain r where f: "round_field dto r Status = Some (JStr ''REJECTED'')"
          by (auto simp: derived_rejection_def)
        have "in_sequence (sb_round existing)" using assms(1) by (simp add: submission_ok_def)
        from unchanged_no_reset [OF assms(3) this ch w, of r] f
        have "merged_status existing ch r = JStr ''REJECTED''"
          by (simp add: merged_status_def copied_fields_def)
        then show False using decided(1) set_ROUND_KEYS [of r] by (auto simp: rejected_round_def find_first_None)
      qed
    next
      case False
      then show ?thesis using unchanged_not_derived [OF assms(1,3)] by simp
    qed
    then have "check_decision existing dto caps ch (sb_finalStatus new) = Inr ()"
      using oc decided(2) by (simp add: check_outcome_def)
    then show ?thesis using decided(2) by blast
  next
    case kept
    then show ?thesis using assms(4) by simp
  qed
qed

text \<open>An update that changes a round of a finished submission reopens it with a reason.\<close>

lemma terminal_changed:
  assumes "edit_submission env at existing from dto caps = Inr new" and "changed_round existing dto"
    and "sb_finalStatus existing \<in> set TERMINAL"
  shows "has_text (dto_field dto ''correctionReason'') \<and> sc_outcome caps \<and> dto_field dto ''finalStatus'' = Some (JStr ''SUBMITTED'')"
  using assms(1)
proof (rule edit_submissionE)
  fix ch assume cr: "\<And>r. check_round env existing dto caps ch r = Inr ()"
  from assms(2) obtain r where "touched existing dto r" by (auto simp: changed_round_def)
  then show ?thesis
    using cr [of r] assms(3) by (simp add: check_round_def check_round_order_def Let_def)
qed

section \<open>Properties\<close>

lemma refuse_checks: "check_decision existing dto caps ch to = Inr () \<Longrightarrow>
    (if sb_finalStatus existing = ''PENDING_APPROVAL'' then sc_review caps \<and> to \<in> {''SUBMITTED'', ''REJECTED''} else sc_outcome caps)
    \<and> (sb_finalStatus existing \<in> set TERMINAL \<and> to \<noteq> sb_finalStatus existing \<longrightarrow> has_text (dto_field dto ''correctionReason''))"
  by (auto simp: check_decision_def Let_def permit_def split: if_splits)

lemma pending_not_terminal [simp]: "''PENDING_APPROVAL'' \<notin> set TERMINAL"
  by (simp add: TERMINAL_def)

lemma pending_transition:
  assumes ok: "submission_ok existing" and e: "edit_submission env at existing from dto caps = Inr new"
    and p: "sb_finalStatus existing = ''PENDING_APPROVAL''" and n: "sb_finalStatus new \<noteq> ''PENDING_APPROVAL''"
  shows "sb_finalStatus new \<in> {''SUBMITTED'', ''REJECTED''} \<and> sc_review caps"
  using e
proof (rule edit_submissionE)
  fix ch assume cr: "\<And>r. check_round env existing dto caps ch r = Inr ()"
  have "\<not> changed_round existing dto" using pending_unchanged [OF p cr] .
  from unchanged_decision [OF ok e this] n p
  obtain ch' where "check_decision existing dto caps ch' (sb_finalStatus new) = Inr ()" by auto
  from refuse_checks [OF this] p show ?thesis by simp
qed

lemma terminal_transition:
  assumes ok: "submission_ok existing" and e: "edit_submission env at existing from dto caps = Inr new"
    and t: "sb_finalStatus existing \<in> set TERMINAL" and n: "sb_finalStatus new \<noteq> sb_finalStatus existing"
  shows "has_text (dto_field dto ''correctionReason'') \<and> sc_outcome caps"
proof (cases "changed_round existing dto")
  case True
  then show ?thesis using terminal_changed [OF e _ t] by simp
next
  case False
  from unchanged_decision [OF ok e this n]
  obtain ch' where "check_decision existing dto caps ch' (sb_finalStatus new) = Inr ()" by auto
  from refuse_checks [OF this] t n show ?thesis by (cases "sb_finalStatus existing = ''PENDING_APPROVAL''") auto
qed

lemma review_rejection_final:
  assumes ok: "submission_ok existing" and e: "edit_submission env at existing (Some ''PENDING_APPROVAL'') dto caps = Inr new"
    and r: "sb_finalStatus existing = ''REJECTED''"
  shows "sb_finalStatus new = ''REJECTED''"
proof (rule ccontr)
  assume n: "sb_finalStatus new \<noteq> ''REJECTED''"
  have t: "sb_finalStatus existing \<in> set TERMINAL" using r by (simp add: TERMINAL_def)
  from e have f: "dto_field dto ''finalStatus'' \<in> {None, Some (JStr ''REJECTED'')}"
    by (rule edit_submissionE) (use r in auto)
  have nc: "\<not> changed_round existing dto" using terminal_changed [OF e _ t] f by auto
  from unchanged_decision [OF ok e nc] n r f show False by auto
qed

text \<open>A submission for the witnesses: the first interview took place at instant 1000.\<close>

definition sample_submission :: submission where
  "sample_submission =
    \<lparr> sb_id = ''s1'', sb_tenantId = ''t'', sb_jobId = ''j1'', sb_candidateId = ''c1'', sb_recruiterId = Some ''u1'',
      sb_round = (\<lambda>r. if r = L1 then pending_round\<lparr> rd_status := Some ''SCHEDULED'', rd_date := Some 1000 \<rparr> else pending_round),
      sb_finalStatus = ''SUBMITTED'', sb_remarks = None, sb_recruiterComment = None, sb_podLeadRemarks = None,
      sb_reviewFeedback = None, sb_meetingLink = None, sb_submittedRate = None,
      sb_compensation = \<lparr> cp_current = None, cp_expected = None, cp_currency = None, cp_period = None, cp_unit = None \<rparr>,
      sb_source = \<lparr> so_category = None, so_channel = None, so_detail = None \<rparr>, sb_availability = None,
      sb_snapshot = \<lparr> cs_currentCtc = None, cs_expectedCtc = None, cs_ctcCurrency = None, cs_ctcTerm = None,
        cs_preferredLocations = [], cs_preferredLocationMode = ''SPECIFIC_LOCATIONS'' \<rparr>, sb_updatedAt = 7 \<rparr>"

definition sample_env :: env where
  "sample_env = \<lparr> ev_date = (\<lambda>_. None), ev_urlProtocol = (\<lambda>_. None), ev_parseFloat = (\<lambda>_. None), ev_now = 2000 \<rparr>"

definition full_caps :: submission_capabilities where
  "full_caps = \<lparr> sc_review = True, sc_schedule = True, sc_cancelInterview = True, sc_result_l1 = True, sc_result_l2 = True, sc_result_l3 = True,
     sc_outcome = True, sc_notes = True, sc_rate = True \<rparr>"

lemma sample_submission_ok: "submission_ok sample_submission"
  unfolding submission_ok_def in_sequence_def started_def
  by (auto simp: sample_submission_def pending_round_def unset_status_def split: if_splits)

text \<open>C5: Whatever an editor sends, an accepted update leaves the submission within the workflow: a
  round has a result or an appointment only when every earlier round is cleared, a rejected round
  means the candidate is not selected, a selected, offered or joined candidate has cleared the first
  round, and nothing has started before the internal review is over.\<close>

theorem update_keeps_workflow:
  assumes "submission_ok existing" and "edit_submission env at existing from dto caps = ok new"
  shows "submission_ok new"
  by (rule edit_keeps_ok) (use assms in auto)

lemma update_keeps_workflow_witness:
  "\<exists>new. edit_submission sample_env 8 sample_submission None
      [(''l1Status'', JStr ''REJECTED''), (''l1Remarks'', JStr ''weak'')] full_caps = ok new \<and> submission_ok new
    \<and> sb_finalStatus new = ''NOT_SELECTED''"
proof -
  have "(case edit_submission sample_env 8 sample_submission None
      [(''l1Status'', JStr ''REJECTED''), (''l1Remarks'', JStr ''weak'')] full_caps of
      Inl _ \<Rightarrow> False | Inr new \<Rightarrow> sb_finalStatus new = ''NOT_SELECTED'')" by code_simp
  then obtain new where "edit_submission sample_env 8 sample_submission None
      [(''l1Status'', JStr ''REJECTED''), (''l1Remarks'', JStr ''weak'')] full_caps = ok new"
    and "sb_finalStatus new = ''NOT_SELECTED''" by (auto split: sum.splits)
  with update_keeps_workflow [OF sample_submission_ok] show ?thesis by blast
qed



end
