(* ===== verification/SubmissionInput.thy ===== *)
theory SubmissionInput
  imports Tracker
begin

text \<open>
  What a new submission's request is checked for and turned into: the salary
  (\<^verbatim>\<open>submission-compensation.ts\<close>), the source of the candidate, and the details the recruiter has
  verified (\<^verbatim>\<open>verified-candidate.ts\<close>, \<^verbatim>\<open>candidates/linkedin-profile.ts\<close>).
\<close>

section \<open>Compensation\<close>

definition isContractJob :: "string \<Rightarrow> bool" where
  "isContractJob type = (lower (trim type) \<in>
     {''contract'', ''contractual'', ''contract to hire'', ''contract-to-hire'', ''c2h'', ''freelance''})"

text \<open>\<^verbatim>\<open>String(n)\<close> of a non-negative integer of at most \<open>k\<close> digits.\<close>

definition show_nat :: "nat \<Rightarrow> nat \<Rightarrow> string" where
  "show_nat k n = (let ds = dropWhile (\<lambda>c. c = CHR ''0'') (padded k n) in if ds = [] then ''0'' else ds)"

text \<open>\<^verbatim>\<open>`${cents / 100n}.${String(cents % 100n).padStart(2, '0')}`\<close>.\<close>

definition show_cents :: "int \<Rightarrow> string" where
  "show_cents cents = show_nat 10 (nat (cents div 100)) @ ''.'' @ padded 2 (nat (cents mod 100))"

text \<open>The amount in hundredths, an amount in lakhs being a hundred thousand times as much.\<close>

definition amount_cents :: "string \<Rightarrow> string \<Rightarrow> int" where
  "amount_cents unit text = hundredths text * (if unit = ''LPA'' then 100000 else 1)"

definition normalize_amount :: "string \<Rightarrow> json option \<Rightarrow> bool \<Rightarrow> bool \<Rightarrow> string option result" where
  "normalize_amount unit value optional positive =
    (if (value = Some (JStr []) \<or> value = None \<or> value = Some JNull) \<and> optional then ok None
     else (let text = js_string (coalesce value (JStr [])); cents = amount_cents unit text
       in if \<not> is_amount text
          then throw (BadRequest ''Enter a valid compensation amount with at most two decimal places.'')
          else if 999999999999 < cents \<or> (positive \<and> cents \<le> 0)
          then throw (BadRequest ''Compensation amount is outside the supported range.'')
          else ok (Some (show_cents cents))))"

definition no_compensation :: compensation where
  "no_compensation = \<lparr> cp_current = None, cp_expected = None, cp_currency = None, cp_period = None, cp_unit = None \<rparr>"

definition submissionCompensation :: "dto \<Rightarrow> string \<Rightarrow> compensation result" where
  "submissionCompensation dto jobType =
    (case dto_field dto ''compensationInputUnit'' of
       None \<Rightarrow>
        (if dto_field dto ''currentCompensation'' \<noteq> None \<or> dto_field dto ''expectedCompensation'' \<noteq> None
            \<or> dto_field dto ''compensationCurrency'' \<noteq> None
         then throw (BadRequest ''Compensation unit is required.'') else ok no_compensation)
     | Some unit \<Rightarrow>
        (let contract = isContractJob jobType; currency = dto_field dto ''compensationCurrency''; u = js_string unit
         in if \<not> one_of [''LPA'', ''MONTH'', ''YEAR''] (Some unit)
              \<or> (contract \<and> unit \<noteq> JStr ''MONTH'') \<or> (\<not> contract \<and> unit = JStr ''MONTH'')
            then throw (BadRequest ''Compensation unit does not match the saved job type.'')
            else if \<not> one_of [''INR'', ''USD'', ''CAD'', ''GBP'', ''EUR''] currency
              \<or> (unit = JStr ''LPA'' \<and> currency \<noteq> Some (JStr ''INR''))
            then throw (BadRequest ''Select a valid compensation currency.'')
            else and_then (normalize_amount u (dto_field dto ''currentCompensation'') contract False) (\<lambda>current.
                 and_then (normalize_amount u (dto_field dto ''expectedCompensation'') False True) (\<lambda>expected.
                 ok \<lparr> cp_current = current, cp_expected = expected,
                      cp_currency = map_option js_string currency,
                      cp_period = Some (if contract then ''MONTH'' else ''YEAR''), cp_unit = Some u \<rparr>))))"

section \<open>Source of the candidate\<close>

definition source_channels :: "string list" where
  "source_channels = [''LinkedIn'', ''Naukri'', ''Job Portal'', ''Employee Referral'',
     ''Recruitment Agency / Vendor'', ''Direct Application'', ''Existing Talent Pool'', ''Other'']"

definition no_source :: source where
  "no_source = \<lparr> so_category = None, so_channel = None, so_detail = None \<rparr>"

definition submissionSource :: "dto \<Rightarrow> source result" where
  "submissionSource dto =
    (case dto_field dto ''sourceCategory'' of
       None \<Rightarrow> ok no_source
     | Some category \<Rightarrow>
        if \<not> one_of [''Bench'', ''Market''] (Some category) then throw (BadRequest ''Select Bench or Market.'')
        else if category = JStr ''Bench'' then ok (no_source\<lparr> so_category := Some ''Bench'' \<rparr>)
        else if \<not> one_of source_channels (dto_field dto ''sourceChannel'')
        then throw (BadRequest ''Select a source channel.'')
        else (let detail = (case dto_field dto ''sourceDetail'' of Some (JStr s) \<Rightarrow> trim s | _ \<Rightarrow> [])
          in if 255 < length detail
               \<or> (one_of [''Job Portal'', ''Other''] (dto_field dto ''sourceChannel'') \<and> detail = [])
             then throw (BadRequest ''Enter the portal name or source details.'')
             else ok \<lparr> so_category = Some ''Market'',
                       so_channel = map_option js_string (dto_field dto ''sourceChannel''),
                       so_detail = (if detail = [] then None else Some detail) \<rparr>))"

section \<open>Verified details\<close>

text \<open>
  \<^verbatim>\<open>new URL(text)\<close> is a service of the engine: \<open>parseUrl\<close> gives its parts, and \<open>None\<close> when it throws.
  A URL printed with an empty search and hash is the parameter's \<open>url_plain\<close>.
\<close>

record url_parts =
  url_protocol :: string
  url_hostname :: string
  url_username :: string
  url_password :: string
  url_port :: string
  url_pathname :: string
  url_plain :: string

text \<open>\<^verbatim>\<open>/^\/in\/[^/]+\/?$/\<close>.\<close>

definition is_profile_path :: "string \<Rightarrow> bool" where
  "is_profile_path path = (take 4 path = ''/in/'' \<and>
     (let name = drop 4 path; rest = dropWhile (\<lambda>c. c \<noteq> CHR ''/'') name
      in takeWhile (\<lambda>c. c \<noteq> CHR ''/'') name \<noteq> [] \<and> (rest = [] \<or> rest = ''/'')))"

definition linkedinProfile :: "(string \<Rightarrow> url_parts option) \<Rightarrow> json option \<Rightarrow> string option result" where
  "linkedinProfile parseUrl value =
    (if value \<in> {None, Some JNull, Some (JStr [])} then ok None
     else case value of
       Some (JStr s) \<Rightarrow>
        (let text = trim s in
         if text = [] then ok None
         else case parseUrl text of
            None \<Rightarrow> throw (BadRequest ''Enter a valid HTTPS LinkedIn profile URL.'')
          | Some url \<Rightarrow>
              if 500 < length text \<or> url_protocol url \<noteq> ''https:''
                 \<or> url_hostname url \<notin> {''linkedin.com'', ''www.linkedin.com''}
                 \<or> url_username url \<noteq> [] \<or> url_password url \<noteq> [] \<or> url_port url \<noteq> []
                 \<or> \<not> is_profile_path (url_pathname url)
              then throw (BadRequest ''Enter a valid HTTPS LinkedIn profile URL.'')
              else ok (Some (url_plain url)))
     | _ \<Rightarrow> throw (BadRequest ''Enter a valid LinkedIn profile URL.''))"

record verified =
  vd_linkedinUrl :: "string option"
  vd_text :: "(string \<times> string) list"
  vd_skills :: "string list"
  vd_mode :: string

definition text_keys :: "string list" where
  "text_keys = [''firstName'', ''lastName'', ''email'', ''phone'', ''totalExperienceYears'', ''relevantExperienceYears'',
     ''currentCompany'', ''currentLocation'', ''preferredLocations'', ''noticePeriodDays'', ''availabilityToStart'']"

definition location_modes :: "string list" where
  "location_modes = [''SPECIFIC_LOCATIONS'', ''REMOTE_ONLY'', ''REMOTE_OR_LOCATIONS'']"

primrec trimmed_texts :: "dto \<Rightarrow> string list \<Rightarrow> (string \<times> string) list result" where
  "trimmed_texts input [] = ok []"
| "trimmed_texts input (key # keys) =
    (case dto_field input key of
       Some (JStr s) \<Rightarrow> (if 1000 < length s then throw (BadRequest ''Invalid verified candidate details.'')
          else and_then (trimmed_texts input keys) (\<lambda>rest. ok ((key, trim s) # rest)))
     | _ \<Rightarrow> throw (BadRequest ''Invalid verified candidate details.''))"

definition verified_skills :: "json option \<Rightarrow> string list result" where
  "verified_skills v =
    (case v of
       Some (JArr vs) \<Rightarrow>
        (if vs = [] \<or> 100 < length vs
            \<or> (\<exists>x \<in> set vs. case x of JStr s \<Rightarrow> trim s = [] \<or> 100 < length s | _ \<Rightarrow> True)
         then throw (BadRequest ''Enter valid verified primary skills.'')
         else ok (uniq (map (\<lambda>x. trim (js_string x)) vs)))
     | _ \<Rightarrow> throw (BadRequest ''Enter valid verified primary skills.''))"

text \<open>\<^verbatim>\<open>/^\d+(?:\.\d+)?$/\<close>; \<open>gt a b\<close> is \<^verbatim>\<open>Number(a) > Number(b)\<close> on such numerals.\<close>

definition is_decimal :: "string \<Rightarrow> bool" where
  "is_decimal s = (let rest = dropWhile is_digit s
    in takeWhile is_digit s \<noteq> [] \<and> (rest = [] \<or> (hd rest = CHR ''.'' \<and> tl rest \<noteq> [] \<and> list_all is_digit (tl rest))))"

definition check_verified :: "(string \<Rightarrow> string \<Rightarrow> bool) \<Rightarrow> dto \<Rightarrow> (string \<times> string) list \<Rightarrow> unit result" where
  "check_verified gt input texts =
    (let val = (\<lambda>key. or_empty (map_of texts key));
         mode = coalesce (dto_field input ''preferredLocationMode'') (JStr ''SPECIFIC_LOCATIONS'') in checks
     (map (\<lambda>key. refuse (val key = [] \<and> \<not> (key = ''preferredLocations''
            \<and> dto_field input ''preferredLocationMode'' = Some (JStr ''REMOTE_ONLY'')))
          (BadRequest ''Complete required verified candidate details.''))
        [''firstName'', ''lastName'', ''email'', ''phone'', ''currentCompany'', ''currentLocation'', ''preferredLocations'']
      @ [refuse (\<not> one_of location_modes (Some mode)) (BadRequest ''Select a valid preferred location option.'')]
      @ map (\<lambda>key. refuse (\<not> is_decimal (val key) \<or> gt (val key) ''100'') (BadRequest ''Enter valid experience years.''))
          [''totalExperienceYears'', ''relevantExperienceYears'']
      @ [refuse (gt (val ''relevantExperienceYears'') (val ''totalExperienceYears''))
           (BadRequest ''Relevant experience cannot exceed total experience.''),
         refuse (val ''noticePeriodDays'' = [] \<or> \<not> list_all is_digit (val ''noticePeriodDays''))
           (BadRequest ''Enter valid notice period days.'')]))"

definition verifiedCandidateInput ::
  "(string \<Rightarrow> url_parts option) \<Rightarrow> (string \<Rightarrow> string \<Rightarrow> bool) \<Rightarrow> json option \<Rightarrow> json option
    \<Rightarrow> string list \<Rightarrow> verified option result" where
  "verifiedCandidateInput parseUrl gt value updateSkills permissions =
    (if bad_flag updateSkills then throw (BadRequest ''Invalid profile update option.'')
     else if updateSkills = Some (JBool True) \<and> ''candidate:edit'' \<notin> set permissions
     then throw (Forbidden ''Candidate edit permission is required to update profile skills.'')
     else case value of
       None \<Rightarrow> (if updateSkills = Some (JBool True) then throw (BadRequest ''Verified candidate details are required.'')
                else ok None)
     | Some (JObj input) \<Rightarrow>
         and_then (linkedinProfile parseUrl (dto_field input ''linkedinUrl'')) (\<lambda>url.
         and_then (trimmed_texts input text_keys) (\<lambda>texts.
         and_then (verified_skills (dto_field input ''skills'')) (\<lambda>skills.
         and_then (check_verified gt input texts) (\<lambda>_.
         ok (Some \<lparr> vd_linkedinUrl = url, vd_text = texts, vd_skills = skills,
                    vd_mode = js_string (coalesce (dto_field input ''preferredLocationMode'')
                      (JStr ''SPECIFIC_LOCATIONS'')) \<rparr>)))))
     | Some _ \<Rightarrow> throw (BadRequest ''Invalid verified candidate details.''))"

end
