(* ===== verification/SubmissionAmounts.thy ===== *)
theory SubmissionAmounts
  imports TrackerWrite SubmissionInput
begin

text \<open>
  Amounts of money as decimal text: what is printed reads back as the same number of hundredths, so
  the normalisation of a salary and the storing of a rate lose nothing.
\<close>

section \<open>Digits\<close>

lemma of_char_digit [simp]: "of_char (digit n) = (48 + n mod 10 :: nat)"
proof -
  have "n mod 10 < 10" by simp
  then have "48 + n mod 10 < 256" by linarith
  then show ?thesis by (simp add: digit_def)
qed

lemma is_digit_digit [simp]: "is_digit (digit n)"
proof -
  have "n mod 10 \<le> 9" using mod_less_divisor [of 10 n] by simp
  then show ?thesis by (simp add: is_digit_def)
qed

lemma padded_digits: "list_all is_digit (padded k n)"
  by (induction k arbitrary: n) auto

lemma length_padded [simp]: "length (padded k n) = k"
  by (induction k arbitrary: n) auto

lemma digits_value_snoc: "digits_value (ds @ [c]) = 10 * digits_value ds + int (of_char c - 48)"
  by (simp add: digits_value_def)

lemma digits_value_padded: "digits_value (padded k n) = int (n mod 10 ^ k)"
proof (induction k arbitrary: n)
  case 0
  show ?case by (simp add: digits_value_def)
next
  case (Suc k)
  have "10 * (n div 10 mod 10 ^ k) + n mod 10 = n mod 10 ^ Suc k"
    by (simp add: mod_mult2_eq mult.commute)
  then have "int (n mod 10 ^ Suc k) = 10 * int (n div 10 mod 10 ^ k) + int (n mod 10)"
    by (metis of_nat_add of_nat_mult of_nat_numeral)
  then show ?case by (simp add: digits_value_snoc Suc)
qed

lemma digits_value_drop_zeros: "digits_value (dropWhile (\<lambda>c. c = CHR ''0'') ds) = digits_value ds"
proof (induction ds)
  case (Cons c ds)
  show ?case
  proof (cases "c = CHR ''0''")
    case True
    then show ?thesis using Cons by (simp add: digits_value_def)
  qed simp
qed simp

lemma list_all_drop_zeros: "list_all P ds \<Longrightarrow> list_all P (dropWhile Q ds)"
  by (metis list_all_append takeWhile_dropWhile_id)

lemma show_nat_digits: "list_all is_digit (show_nat k n)" "show_nat k n \<noteq> []"
  using list_all_drop_zeros [OF padded_digits] by (auto simp: show_nat_def Let_def is_digit_def)

lemma digits_value_show_nat: "n < 10 ^ k \<Longrightarrow> digits_value (show_nat k n) = int n"
proof -
  assume n: "n < 10 ^ k"
  have "digits_value (dropWhile (\<lambda>c. c = CHR ''0'') (padded k n)) = int n"
    using n by (simp add: digits_value_drop_zeros digits_value_padded)
  moreover have "digits_value ''0'' = 0" "digits_value [] = 0" by (simp_all add: digits_value_def)
  ultimately show ?thesis unfolding show_nat_def Let_def by (auto simp del: dropWhile_eq_Nil_conv split: if_splits)
qed

lemma take_all_digits: "list_all is_digit ds \<Longrightarrow> takeWhile is_digit (ds @ CHR ''.'' # f) = ds \<and> dropWhile is_digit (ds @ CHR ''.'' # f) = CHR ''.'' # f"
  by (induction ds) (auto simp: is_digit_def)

lemma take_digits_only: "list_all is_digit ds \<Longrightarrow> takeWhile is_digit ds = ds \<and> dropWhile is_digit ds = []"
  by (induction ds) auto

section \<open>Printed amounts\<close>

lemma show_cents_amount: "is_amount (show_cents n)"
proof -
  let ?w = "show_nat 10 (nat (n div 100))" and ?f = "padded 2 (nat (n mod 100))"
  have sp: "takeWhile is_digit (show_cents n) = ?w" "dropWhile is_digit (show_cents n) = CHR ''.'' # ?f"
    using take_all_digits [OF show_nat_digits(1), of 10 "nat (n div 100)" ?f] by (simp_all add: show_cents_def)
  have "length ?f = 2" by (rule length_padded)
  then have "?f \<noteq> []" "length ?f \<le> 2" by fastforce+
  then show ?thesis
    unfolding is_amount_def Let_def sp list.sel using show_nat_digits(2) padded_digits by simp
qed

lemma hundredths_show_cents:
  assumes "0 \<le> n" and "n \<le> 999999999999"
  shows "hundredths (show_cents n) = n"
proof -
  have "nat (n div 100) < 10 ^ 10" using assms by simp
  then have w: "digits_value (show_nat 10 (nat (n div 100))) = n div 100"
    using assms(1) by (simp add: digits_value_show_nat)
  have f: "digits_value (padded 2 (nat (n mod 100))) = n mod 100"
    by (simp add: digits_value_padded)
  have "hundredths (show_cents n) = n div 100 * 100 + n mod 100"
    using take_all_digits [OF show_nat_digits(1)] w f by (simp add: hundredths_def show_cents_def Let_def)
  then show ?thesis by simp
qed

lemma renormalize:
  assumes "0 < n" and "n \<le> 999999999999"
  shows "normalize_amount ''YEAR'' (Some (JStr (show_cents n))) False True = ok (Some (show_cents n))"
  using assms hundredths_show_cents [of n] show_cents_amount [of n]
  by (simp add: normalize_amount_def Let_def coalesce_def amount_cents_def)

text \<open>What a normalised amount is.\<close>

lemma normalize_amount_Inr:
  assumes "normalize_amount unit value optional positive = Inr (Some s)"
  obtains t where "t = js_string (coalesce value (JStr []))" and "is_amount t" and "s = show_cents (amount_cents unit t)"
    and "amount_cents unit t \<le> 999999999999" and "positive \<longrightarrow> 0 < amount_cents unit t"
  using assms that by (auto simp: normalize_amount_def Let_def split: if_splits)

lemma digits_value_nonneg: "0 \<le> digits_value ds"
proof -
  have "0 \<le> n \<Longrightarrow> 0 \<le> foldl (\<lambda>n c. 10 * n + int (of_char c - 48)) n ds" for n :: int
    by (induction ds arbitrary: n) auto
  then show ?thesis by (simp add: digits_value_def)
qed

lemma amount_cents_nonneg: "0 \<le> amount_cents unit t"
  using digits_value_nonneg by (simp add: amount_cents_def hundredths_def Let_def)

lemma normalized_amount:
  assumes "normalize_amount unit value optional positive = Inr (Some s)"
  shows "is_amount s \<and> hundredths s = amount_cents unit (js_string (coalesce value (JStr [])))
    \<and> hundredths s \<le> 999999999999 \<and> (positive \<longrightarrow> 0 < hundredths s)"
  using assms
  by (rule normalize_amount_Inr) (simp add: show_cents_amount hundredths_show_cents amount_cents_nonneg)

lemma normalize_optional:
  "normalize_amount unit value optional positive = Inr None \<Longrightarrow> optional"
  by (auto simp: normalize_amount_def Let_def split: if_splits)

section \<open>Properties\<close>

text \<open>C35: The compensation of a new submission is converted exactly: the stored amounts are decimal texts
  that read back as the hundredths the request asked for (a lakh being a hundred thousand), the
  expected one is positive and present, both fit the column of twelve digits, and storing a stored
  amount again gives the same text.\<close>

theorem compensation_exact:
  assumes "submissionCompensation dto jobType = ok c" and "dto_field dto ''compensationInputUnit'' = Some u"
  shows "(\<exists>e. cp_expected c = Some e \<and> is_amount e \<and> 0 < hundredths e \<and> hundredths e \<le> 999999999999
      \<and> hundredths e = amount_cents (js_string u) (js_string (coalesce (dto_field dto ''expectedCompensation'') (JStr [])))
      \<and> normalize_amount ''YEAR'' (Some (JStr e)) False True = ok (Some e))
    \<and> (\<forall>s. cp_current c = Some s \<longrightarrow> is_amount s \<and> hundredths s \<le> 999999999999
      \<and> hundredths s = amount_cents (js_string u) (js_string (coalesce (dto_field dto ''currentCompensation'') (JStr []))))
    \<and> (cp_current c = None \<longrightarrow> isContractJob jobType)"
proof -
  from assms obtain cur ex where
    cu: "normalize_amount (js_string u) (dto_field dto ''currentCompensation'') (isContractJob jobType) False = Inr cur"
    and xp: "normalize_amount (js_string u) (dto_field dto ''expectedCompensation'') False True = Inr ex"
    and c: "cp_current c = cur" "cp_expected c = ex"
    by (auto simp: submissionCompensation_def Let_def and_then_eq_Inr split: if_splits)
  from xp obtain e where e: "ex = Some e" using normalize_optional by (cases ex) blast+
  note ne = normalized_amount [OF xp [unfolded e]]
  obtain n where n: "e = show_cents n" "0 \<le> n" "n \<le> 999999999999"
    using xp e amount_cents_nonneg by (auto elim!: normalize_amount_Inr)
  have "normalize_amount ''YEAR'' (Some (JStr e)) False True = ok (Some e)"
    using ne renormalize [of n] n(3) hundredths_show_cents [OF n(2,3)] unfolding n(1) by simp
  moreover have "is_amount s \<and> hundredths s \<le> 999999999999
      \<and> hundredths s = amount_cents (js_string u) (js_string (coalesce (dto_field dto ''currentCompensation'') (JStr [])))"
    if "cp_current c = Some s" for s
    using normalized_amount [OF cu [unfolded c(1) [symmetric] that]] by blast
  moreover have "isContractJob jobType" if "cp_current c = None"
    using normalize_optional [OF cu [unfolded c(1) [symmetric] that]] .
  ultimately show ?thesis using ne e c(2) by blast
qed

lemma compensation_exact_witness:
  "\<exists>c. submissionCompensation [(''compensationInputUnit'', JStr ''YEAR''), (''compensationCurrency'', JStr ''INR''),
       (''currentCompensation'', JStr ''4''), (''expectedCompensation'', JStr ''5'')] ''Full-time'' = ok c
    \<and> (\<exists>e. cp_expected c = Some e \<and> hundredths e = 500)"
proof -
  let ?dto = "[(''compensationInputUnit'', JStr ''YEAR''), (''compensationCurrency'', JStr ''INR''),
       (''currentCompensation'', JStr ''4''), (''expectedCompensation'', JStr ''5'')]"
  have "case submissionCompensation ?dto ''Full-time'' of Inl _ \<Rightarrow> False | Inr c \<Rightarrow> True" by code_simp
  then obtain c where c: "submissionCompensation ?dto ''Full-time'' = ok c" by (auto split: sum.splits)
  have u: "dto_field ?dto ''compensationInputUnit'' = Some (JStr ''YEAR'')" by (simp add: dto_field_def)
  have "amount_cents (js_string (JStr ''YEAR'')) (js_string (coalesce (dto_field ?dto ''expectedCompensation'') (JStr []))) = 500"
    by code_simp
  with compensation_exact [OF c u] c show ?thesis by metis
qed

end
