(* ===== verification/Submissions.thy ===== *)
theory Submissions
  imports TrackerWrite SubmissionInput Workspace
begin

text \<open>
  The submissions of candidates to jobs (\<^verbatim>\<open>recruiter-submissions/recruiter-submissions.service.ts\<close>):
  who sees a submission, creating, updating and deleting one, and its history.  The state adds the
  tables of candidates, submissions, history events and remark templates to the workspace's store.
  Creating and deleting are one transaction each.  An update first reads and checks
  (\<open>plan_update\<close>) and then commits in a transaction that compares the row's version
  (\<open>commit_update\<close>), so other operations may run in between.
\<close>

section \<open>State\<close>

record candidate =
  cd_id :: uuid
  cd_tenantId :: "uuid option"
  cd_deletedAt :: "int option"
  cd_skills :: "string list"
  cd_linkedinUrl :: "string option"
  cd_preferredLocations :: "string list"
  cd_currentCtc :: "string option"
  cd_expectedCtc :: "string option"
  cd_ctcCurrency :: "string option"
  cd_ctcTerm :: "string option"

record sub_event =
  se_tenantId :: uuid
  se_submissionId :: uuid
  se_actorId :: "string option"
  se_kind :: string
  se_sequence :: nat
  se_requestId :: string
  se_requestHash :: string
  se_snapshot :: "(column \<times> string option) list"
  se_changes :: field_changes
  se_bypassReason :: "string option"
  se_correction :: "(string \<times> bool) option"
  se_assessment :: "string option"
  se_review :: "auto_approval_audit option"
  se_verified :: "verified option"

record remark_template =
  rt_id :: int
  rt_tenantId :: string
  rt_stage :: string
  rt_text :: string
  rt_type :: string
  rt_branchId :: "string option"
  rt_isGlobal :: bool
  rt_createdBy :: string

record tracker_db =
  td_base :: store
  td_candidates :: "candidate list"
  td_submissions :: "submission list"
  td_events :: "sub_event list"
  td_remarks :: "remark_template list"

text \<open>A history event, all of whose optional details are absent.\<close>

definition plain_event :: "submission \<Rightarrow> string option \<Rightarrow> string \<Rightarrow> nat \<Rightarrow> string \<Rightarrow> sub_event" where
  "plain_event row actor kind seq request =
    \<lparr> se_tenantId = sb_tenantId row, se_submissionId = sb_id row, se_actorId = actor, se_kind = kind,
      se_sequence = seq, se_requestId = request, se_requestHash = [], se_snapshot = [], se_changes = [],
      se_bypassReason = None, se_correction = None, se_assessment = None, se_review = None, se_verified = None \<rparr>"

definition submission_by :: "uuid \<Rightarrow> uuid \<Rightarrow> tracker_db \<Rightarrow> submission option" where
  "submission_by i t db = find_first (\<lambda>s. sb_id s = i \<and> sb_tenantId s = t) (td_submissions db)"

definition job_of :: "tracker_db \<Rightarrow> submission \<Rightarrow> job option" where
  "job_of db s = find_first (\<lambda>j. jb_id j = sb_jobId s) (st_jobs (td_base db))"

text \<open>The events of a submission, and the last sequence number.\<close>

definition events_of :: "uuid \<Rightarrow> uuid \<Rightarrow> tracker_db \<Rightarrow> sub_event list" where
  "events_of i t db = filter (\<lambda>e. se_submissionId e = i \<and> se_tenantId e = t) (td_events db)"

definition last_sequence :: "sub_event list \<Rightarrow> nat" where
  "last_sequence es = foldr max (map se_sequence es) 0"

text \<open>The unique keys (submission, request) and (submission, sequence) of the history.\<close>

definition insert_event :: "sub_event \<Rightarrow> tracker_db \<Rightarrow> tracker_db result" where
  "insert_event e db =
    (if \<exists>e' \<in> set (td_events db). se_submissionId e' = se_submissionId e
          \<and> (se_requestId e' = se_requestId e \<or> se_sequence e' = se_sequence e)
     then throw (InternalError ''P2002'')
     else ok (db\<lparr> td_events := td_events db @ [e] \<rparr>))"

section \<open>Who sees a submission\<close>

definition tenant_keys :: "string list" where
  "tenant_keys = [''*'', ''tenant:manage'', ''tenant:settings'', ''platform:manage'']"

definition tracker_portfolio :: "string list \<Rightarrow> bool" where
  "tracker_portfolio ps = (''job:submit_owned_jobs'' \<in> set ps \<and> \<not> includes_any ps tenant_keys
     \<and> ''branch_admin:manage'' \<notin> set ps \<and> ''unit_admin:manage'' \<notin> set ps)"

definition can_view_all :: "string list \<Rightarrow> bool" where
  "can_view_all ps = includes_any ps
     (tenant_keys @ [''submission:view_all'', ''branch_admin:manage'', ''unit_admin:manage''])"

text \<open>The current membership: an active, approved account of the tenant.\<close>

definition membership :: "store \<Rightarrow> uuid \<Rightarrow> uuid option \<Rightarrow> user option" where
  "membership db t i = find_first (\<lambda>u. if_given i (\<lambda>v. us_id u = v) \<and> us_tenantId u = t
     \<and> us_isActive u \<and> us_isApproved u) (st_users db)"

definition member_branch :: "user option \<Rightarrow> uuid option" where
  "member_branch m = Option.bind m us_branchId"

definition member_unit :: "user option \<Rightarrow> uuid option" where
  "member_unit m = Option.bind m us_businessUnitId"

text \<open>The office a unit or branch administrator is pinned to (lines 345 to 365 of \<open>findAll\<close>); the result
  says which branch and unit a job must have, and the branch the caller's scope is in.\<close>

record office_scope =
  os_jobBranch :: "uuid option"
  os_jobUnit :: "uuid option"
  os_scopeBranch :: "uuid option"

definition unit_office_scope :: "store \<Rightarrow> uuid \<Rightarrow> auth_user \<Rightarrow> office_scope \<Rightarrow> office_scope result" where
  "unit_office_scope db t user sc =
    (let ps = a_permissions user; m = membership db t (a_dbId user) in
     if ''unit_admin:manage'' \<in> set ps
        \<and> \<not> includes_any ps [''tenant:manage'', ''tenant:settings'', ''platform:manage'', ''branch_admin:manage'']
     then (if \<not> truthy (member_branch m) \<or> \<not> truthy (member_unit m)
           then throw (Forbidden ''A current branch and unit assignment is required.'')
           else ok \<lparr> os_jobBranch = member_branch m, os_jobUnit = member_unit m, os_scopeBranch = member_branch m \<rparr>)
     else ok sc)"

definition branch_office_scope :: "store \<Rightarrow> uuid \<Rightarrow> auth_user \<Rightarrow> uuid option \<Rightarrow> office_scope \<Rightarrow> office_scope result" where
  "branch_office_scope db t user branchId sc =
    (let ps = a_permissions user; m = membership db t (a_dbId user) in
     if ''branch_admin:manage'' \<in> set ps \<and> \<not> includes_any ps tenant_keys
     then (if \<not> truthy (member_branch m) \<or> (truthy branchId \<and> branchId \<noteq> member_branch m)
           then throw (Forbidden ''A current branch assignment is required.'')
           else ok (sc\<lparr> os_jobBranch := member_branch m, os_scopeBranch := member_branch m \<rparr>))
     else ok sc)"

text \<open>A creator of a job who reviews its submissions, inside the own current unit.\<close>

definition creator_member :: "store \<Rightarrow> uuid \<Rightarrow> auth_user \<Rightarrow> user option" where
  "creator_member db t user =
    (if ''submission:internal_screening_created_jobs'' \<in> set (a_permissions user)
     then membership db t (a_dbId user) else None)"

definition creator_review :: "store \<Rightarrow> uuid \<Rightarrow> auth_user \<Rightarrow> job \<Rightarrow> bool" where
  "creator_review db t user j =
    (let m = creator_member db t user in
     truthy (member_branch m) \<and> truthy (member_unit m) \<and> jb_createdByUserId j = a_dbId user
     \<and> jb_branchId j = member_branch m \<and> jb_businessUnitId j = member_unit m)"

text \<open>The person a submission is reviewed by: the recruiter's manager.\<close>

definition recruiter_reviewer :: "store \<Rightarrow> submission \<Rightarrow> uuid option" where
  "recruiter_reviewer db s =
     Option.bind (find_first (\<lambda>u. Some (us_id u) = sb_recruiterId s \<and> us_tenantId u = sb_tenantId s) (st_users db))
       us_jobReviewerId"

text \<open>The row condition of the views \<^verbatim>\<open>my\<close> and \<^verbatim>\<open>all\<close> (a single submission is never read in the pod view).\<close>

definition view_condition :: "store \<Rightarrow> uuid \<Rightarrow> auth_user \<Rightarrow> submission \<Rightarrow> job \<Rightarrow> bool" where
  "view_condition db t user s j =
    (let ps = a_permissions user in
     if can_view_all ps then True
     else if tracker_portfolio ps then jb_accountManagerId j = a_dbId user \<or> creator_review db t user j
     else sb_recruiterId s = a_dbId user \<or> recruiter_reviewer db s = a_dbId user \<or> creator_review db t user j)"

text \<open>The branch a caller asks for, by identifier, name or code.\<close>

definition branch_condition :: "store \<Rightarrow> uuid \<Rightarrow> uuid option \<Rightarrow> job \<Rightarrow> bool" where
  "branch_condition db t branchId j =
    (case branchId of
       None \<Rightarrow> True
     | Some b \<Rightarrow> b \<in> {[], ''null'', ''undefined''} \<or> jb_branchId j = Some (trim b)
        \<or> (\<exists>br \<in> set (st_branches db). jb_branchId j = Some (br_id br) \<and> br_tenantId br = t
             \<and> (lower (br_name br) = lower (trim b) \<or> map_option lower (br_code br) = Some (lower (trim b)))))"

definition asks_other_branch :: "auth_user \<Rightarrow> uuid option \<Rightarrow> office_scope \<Rightarrow> bool" where
  "asks_other_branch user branchId sc =
    (truthy branchId \<and> the branchId \<notin> {''null'', ''undefined''} \<and> \<not> includes_any (a_permissions user) tenant_keys
     \<and> truthy (os_scopeBranch sc) \<and> branchId \<noteq> os_scopeBranch sc)"

text \<open>What reading one submission tells its reader besides the row.\<close>

record visible =
  vs_row :: submission
  vs_job :: job
  vs_reviewerId :: "uuid option"
  vs_rejectionFrom :: "string option"

text \<open>Where the latest rejection in the history came from: the \<^verbatim>\<open>before\<close> of the last change of the
  final status to REJECTED.\<close>

definition rejection_of :: "sub_event \<Rightarrow> string option option" where
  "rejection_of e = (case find_first (\<lambda>(c, _, after). c = FinalStatus \<and> after = Some ''REJECTED'') (se_changes e) of
     None \<Rightarrow> None | Some (_, before, _) \<Rightarrow> Some before)"

definition rejection_from :: "sub_event list \<Rightarrow> string option" where
  "rejection_from es =
    (let rs = filter (\<lambda>e. rejection_of e \<noteq> None) es;
         latest = find_first (\<lambda>e. \<forall>e' \<in> set rs. se_sequence e' \<le> se_sequence e) rs
     in case latest of None \<Rightarrow> None | Some e \<Rightarrow> the (rejection_of e))"

definition live_candidate :: "tracker_db \<Rightarrow> uuid \<Rightarrow> uuid \<Rightarrow> bool" where
  "live_candidate db t i = (find_first (\<lambda>c. cd_id c = i \<and> cd_tenantId c = Some t \<and> cd_deletedAt c = None)
     (td_candidates db) \<noteq> None)"

definition submissions_findOne ::
  "tracker_db \<Rightarrow> uuid \<Rightarrow> auth_user \<Rightarrow> uuid option \<Rightarrow> uuid \<Rightarrow> visible result" where
  "submissions_findOne db t user branchId i =
    (let ps = a_permissions user; base = td_base db in
     if truthy (a_tenantId user) \<and> a_tenantId user \<noteq> Some t
     then throw (Forbidden ''Workspace access is unavailable.'')
     else if \<not> includes_any ps [''submission:view'', ''submission:create'', ''*'']
     then throw (Forbidden ''Submission viewing permission is required.'')
     else and_then (unit_office_scope base t user \<lparr> os_jobBranch = None, os_jobUnit = None, os_scopeBranch = a_branchId user \<rparr>) (\<lambda>sc0.
      and_then (branch_office_scope base t user branchId sc0) (\<lambda>sc.
       if \<not> truthy (a_dbId user) then throw (Forbidden ''Missing authenticated database user.'')
       else if asks_other_branch user branchId sc then throw (Forbidden ''You can only filter your current branch.'')
       else case submission_by i t db of
         None \<Rightarrow> throw (NotFound ''Submission not found in your accessible workspace.'')
       | Some s \<Rightarrow>
         (case find_first (\<lambda>j. jb_id j = sb_jobId s \<and> jb_tenantId j = t \<and> jb_deletedAt j = None) (st_jobs base) of
            None \<Rightarrow> throw (NotFound ''Submission not found in your accessible workspace.'')
          | Some j \<Rightarrow>
             if live_candidate db t (sb_candidateId s)
                \<and> if_given (os_jobBranch sc) (\<lambda>b. jb_branchId j = Some b)
                \<and> if_given (os_jobUnit sc) (\<lambda>n. jb_businessUnitId j = Some n)
                \<and> view_condition base t user s j \<and> branch_condition base t branchId j
             then ok \<lparr> vs_row = s, vs_job = j, vs_reviewerId = recruiter_reviewer base s,
                       vs_rejectionFrom = rejection_from (events_of i t db) \<rparr>
             else throw (NotFound ''Submission not found in your accessible workspace.'')))))"

section \<open>Updating a submission\<close>

definition is_account_manager :: "auth_user \<Rightarrow> bool" where
  "is_account_manager user = (a_systemRole user = Some ''ACCOUNT_MANAGER''
     \<or> (case a_roles user of None \<Rightarrow> False | Some rs \<Rightarrow> ''ACCOUNT_MANAGER'' \<in> set rs))"

definition touches_rounds :: "dto \<Rightarrow> bool" where
  "touches_rounds dto = (\<exists>r \<in> set ROUND_KEYS. \<exists>s \<in> set all_suffixes. round_field dto r s \<noteq> None)"

definition changes_status :: "dto \<Rightarrow> bool" where
  "changes_status dto = (dto_field dto ''finalStatus'' \<noteq> None \<or> touches_rounds dto)"

definition other_managers_job :: "auth_user \<Rightarrow> job \<Rightarrow> bool" where
  "other_managers_job user j = (is_account_manager user \<and> \<not> includes_any (a_permissions user) tenant_keys
     \<and> jb_accountManagerId j \<noteq> a_dbId user)"

definition creator_decision :: "store \<Rightarrow> uuid \<Rightarrow> auth_user \<Rightarrow> job \<Rightarrow> submission \<Rightarrow> dto \<Rightarrow> bool" where
  "creator_decision base t user j row dto =
    (creator_review base t user j \<and> sb_finalStatus row = ''PENDING_APPROVAL''
     \<and> one_of [''SUBMITTED'', ''REJECTED''] (dto_field dto ''finalStatus'') \<and> \<not> touches_rounds dto)"

definition workflow_change :: "dto \<Rightarrow> bool" where
  "workflow_change dto = (changes_status dto \<or> dto_field dto ''meetingLink'' \<noteq> None
     \<or> dto_field dto ''resetFollowingRounds'' = Some (JBool True))"

definition job_paused :: "job \<Rightarrow> bool" where
  "job_paused j = (isClosedJob (jb_status j) \<and> \<not> jb_keepOpen j)"

definition paused_error :: http_error where
  "paused_error = BadRequest ''Job closed - workflow paused. Activate the job to edit submission status.''"

definition actor_name :: "auth_user \<Rightarrow> string option" where
  "actor_name user = or_else (a_dbId user) (or_else (Some (a_email user)) (Some (a_fullName user)))"

definition update_caps :: "store \<Rightarrow> uuid \<Rightarrow> auth_user \<Rightarrow> visible \<Rightarrow> submission_capabilities" where
  "update_caps base t user v =
    submissionCapabilities (a_permissions user) (vs_reviewerId v = a_dbId user) (jb_status (vs_job v))
      (Some (sb_finalStatus (vs_row v))) (jb_keepOpen (vs_job v)) (creator_review base t user (vs_job v))
      (truthy (a_dbId user) \<and> jb_createdByUserId (vs_job v) = a_dbId user \<and> sb_recruiterId (vs_row v) = a_dbId user)"

text \<open>
  What a checked update carries into its transaction.  \<open>hash\<close> is the digest of the request without its
  identifier and version (\<^verbatim>\<open>saveRequestHash\<close>, SHA-256 of its sorted JSON).
\<close>

record planned =
  pn_row :: submission
  pn_dto :: dto
  pn_data :: row_data
  pn_hash :: string
  pn_audit :: field_changes

definition request_content :: "dto \<Rightarrow> dto" where
  "request_content dto = filter (\<lambda>(key, _). key \<notin> {''expectedUpdatedAt'', ''requestId''}) dto"

text \<open>A save that was done before is recognised by its identifier: \<open>Inr True\<close> for a replay.\<close>

definition replayed :: "(dto \<Rightarrow> string) \<Rightarrow> tracker_db \<Rightarrow> uuid \<Rightarrow> uuid \<Rightarrow> auth_user \<Rightarrow> dto \<Rightarrow> bool result" where
  "replayed hash db i t user dto =
    (case dto_field dto ''requestId'' of
       Some (JStr (c # cs)) \<Rightarrow>
        (case find_first (\<lambda>e. se_requestId e = c # cs) (events_of i t db) of
           None \<Rightarrow> ok False
         | Some prior \<Rightarrow>
            if se_requestHash prior \<noteq> hash (request_content dto) \<or> se_actorId prior \<noteq> actor_name user
            then throw (Conflict ''This request ID has already been used for another save.'')
            else ok True)
     | v \<Rightarrow> if is_truthy v then throw (InternalError ''PrismaClientValidationError'') else ok False)"

definition planned_changes :: "env \<Rightarrow> (dto \<Rightarrow> string) \<Rightarrow> submission \<Rightarrow> dto \<Rightarrow> planned option result" where
  "planned_changes env hash row dto =
     and_then (roundUpdate row dto) (\<lambda>ch.
      let data = submission_data env row dto ch
      in if historyChanges row data = [] \<and> \<not> has_text (dto_field dto ''bypassReason'') then ok None
         else ok (Some \<lparr> pn_row = row, pn_dto = dto, pn_data = data, pn_hash = hash (request_content dto),
                        pn_audit = historyAuditChanges row data \<rparr>))"

definition plan_update ::
  "env \<Rightarrow> (dto \<Rightarrow> string) \<Rightarrow> tracker_db \<Rightarrow> uuid \<Rightarrow> dto \<Rightarrow> uuid \<Rightarrow> auth_user \<Rightarrow> uuid option \<Rightarrow> planned option result" where
  "plan_update env hash db i dto t user branchId =
     and_then (submissions_findOne db t user branchId i) (\<lambda>v.
      let row = vs_row v; j = vs_job v; base = td_base db in
      if other_managers_job user j \<and> changes_status dto \<and> \<not> creator_decision base t user j row dto
         \<and> ''submission:edit_all'' \<notin> set (a_permissions user)
      then throw (Forbidden (''Editing status for another account manager'' @ [CHR 0x27] @ ''s job is not enabled for this role.''))
      else and_then (replayed hash db i t user dto) (\<lambda>done.
       if done then ok None
       else if job_paused j \<and> workflow_change dto then throw paused_error
       else and_then (validateTrackerUpdate env row (vs_rejectionFrom v) dto (update_caps base t user v)) (\<lambda>_.
        if is_truthy (dto_field dto ''expectedUpdatedAt'')
           \<and> Option.bind (dto_field dto ''expectedUpdatedAt'') (\<lambda>x. instant env (Json x)) \<noteq> Some (sb_updatedAt row)
        then throw (Conflict ''This submission was updated by someone else. Reload it before saving.'')
        else planned_changes env hash row dto)))"

text \<open>The assessment a review decision refers to: \<open>assess\<close> gives its current version and requirements.\<close>

definition check_snapshot :: "(tracker_db \<Rightarrow> submission \<Rightarrow> (string \<times> string list) option) \<Rightarrow> tracker_db \<Rightarrow> planned \<Rightarrow> unit result" where
  "check_snapshot assess db pn =
    (if \<not> is_truthy (dto_field (pn_dto pn) ''assessmentVersion'') then ok ()
     else case assess db (pn_row pn) of
       None \<Rightarrow> throw (NotFound ''Assessment sources are unavailable in this tenant.'')
     | Some (version, criteria) \<Rightarrow>
         if dto_field (pn_dto pn) ''assessmentVersion'' \<noteq> Some (JStr version)
         then throw (Conflict ''The job or candidate evidence changed. Reload the assessment before deciding.'')
         else refuse (case dto_field (pn_dto pn) ''reviewOverrides'' of
                        Some (JObj kvs) \<Rightarrow> \<exists>(key, _) \<in> set kvs. key \<notin> set criteria | _ \<Rightarrow> False)
                (BadRequest ''Reviewer override refers to an unknown requirement.''))"

text \<open>The compare-and-set of the row.\<close>

definition same_version :: "planned \<Rightarrow> submission \<Rightarrow> bool" where
  "same_version pn s = (sb_id s = sb_id (pn_row pn) \<and> sb_tenantId s = sb_tenantId (pn_row pn)
     \<and> sb_updatedAt s = sb_updatedAt (pn_row pn))"

definition write_planned :: "env \<Rightarrow> planned \<Rightarrow> tracker_db \<Rightarrow> tracker_db result" where
  "write_planned env pn db =
    (case find_first (same_version pn) (td_submissions db) of
       None \<Rightarrow> throw (Conflict ''This submission changed while saving. Reload it and try again.'')
     | Some s \<Rightarrow>
        and_then (write_row (max (ev_now env) (sb_updatedAt (pn_row pn) + 1)) (pn_data pn) s) (\<lambda>new.
          ok (db\<lparr> td_submissions := update_where (same_version pn) (\<lambda>_. new) (td_submissions db) \<rparr>)))"

definition json_text :: "json option \<Rightarrow> string option" where
  "json_text v = (case v of Some (JStr s) \<Rightarrow> (if s = [] then None else Some (trim s)) | _ \<Rightarrow> None)"

definition update_event :: "planned \<Rightarrow> auth_user \<Rightarrow> nat \<Rightarrow> uuid \<Rightarrow> sub_event" where
  "update_event pn user seq newRequestId =
    (plain_event (pn_row pn) (actor_name user) ''UPDATE'' seq
       (or_empty (or_else (case dto_field (pn_dto pn) ''requestId'' of Some (JStr s) \<Rightarrow> Some s | _ \<Rightarrow> None) (Some newRequestId))))
     \<lparr> se_requestHash := pn_hash pn, se_changes := pn_audit pn,
       se_bypassReason := json_text (dto_field (pn_dto pn) ''bypassReason''),
       se_correction := map_option (\<lambda>r. (r, is_truthy (dto_field (pn_dto pn) ''resetFollowingRounds'')))
         (json_text (dto_field (pn_dto pn) ''correctionReason'')),
       se_assessment := json_text (dto_field (pn_dto pn) ''assessmentVersion'') \<rparr>"

text \<open>The history of an update: a baseline before the first change, and the change itself.\<close>

definition records_history :: "planned \<Rightarrow> bool" where
  "records_history pn = (pn_audit pn \<noteq> [] \<or> has_text (dto_field (pn_dto pn) ''bypassReason'')
     \<or> has_text (dto_field (pn_dto pn) ''correctionReason'') \<or> is_truthy (dto_field (pn_dto pn) ''assessmentVersion''))"

definition record_update :: "planned \<Rightarrow> auth_user \<Rightarrow> uuid \<Rightarrow> tracker_db \<Rightarrow> tracker_db result" where
  "record_update pn user newRequestId db =
    (let row = pn_row pn; es = events_of (sb_id row) (sb_tenantId row) db in
     and_then (if es = []
               then insert_event ((plain_event row None ''BASELINE'' 0 ''baseline'')\<lparr> se_snapshot := historySnapshot row \<rparr>) db
               else ok db) (\<lambda>db1.
     insert_event (update_event pn user (last_sequence es + 1) newRequestId) db1))"

definition commit_update ::
  "env \<Rightarrow> (tracker_db \<Rightarrow> submission \<Rightarrow> (string \<times> string list) option) \<Rightarrow> uuid \<Rightarrow> planned \<Rightarrow> auth_user
    \<Rightarrow> tracker_db \<Rightarrow> tracker_db result" where
  "commit_update env assess newRequestId pn user db =
    (case find_first (\<lambda>j. jb_id j = sb_jobId (pn_row pn) \<and> jb_tenantId j = sb_tenantId (pn_row pn)) (st_jobs (td_base db)) of
       None \<Rightarrow> throw (NotFound ''Job not found.'')
     | Some j \<Rightarrow>
        if job_paused j \<and> workflow_change (pn_dto pn) then throw paused_error
        else and_then (check_snapshot assess db pn) (\<lambda>_.
             and_then (write_planned env pn db) (\<lambda>db1.
             if \<not> records_history pn then ok db1 else record_update pn user newRequestId db1)))"

definition submissions_update ::
  "env \<Rightarrow> (dto \<Rightarrow> string) \<Rightarrow> (tracker_db \<Rightarrow> submission \<Rightarrow> (string \<times> string list) option) \<Rightarrow> uuid
    \<Rightarrow> uuid \<Rightarrow> dto \<Rightarrow> uuid \<Rightarrow> auth_user \<Rightarrow> uuid option \<Rightarrow> tracker_db \<Rightarrow> tracker_db result" where
  "submissions_update env hash assess newRequestId i dto t user branchId db =
     and_then (plan_update env hash db i dto t user branchId) (\<lambda>pn.
       case pn of None \<Rightarrow> ok db | Some p \<Rightarrow> commit_update env assess newRequestId p user db)"

section \<open>Creating a submission\<close>

text \<open>The services of the engine that reading a new submission uses.\<close>

record create_env =
  ce_env :: env
  ce_parseUrl :: "string \<Rightarrow> url_parts option"
  ce_gt :: "string \<Rightarrow> string \<Rightarrow> bool"

text \<open>What the request and the job say of a new submission, checked.\<close>

record new_details =
  nd_verified :: "verified option"
  nd_mode :: string
  nd_compensation :: compensation
  nd_source :: source

definition location_mode :: "dto \<Rightarrow> verified option \<Rightarrow> json" where
  "location_mode dto v =
    (if is_truthy (dto_field dto ''preferredLocationMode'') then the (dto_field dto ''preferredLocationMode'')
     else JStr (case v of None \<Rightarrow> ''SPECIFIC_LOCATIONS'' | Some d \<Rightarrow> or_empty (or_else (Some (vd_mode d)) (Some ''SPECIFIC_LOCATIONS''))))"

definition new_submission_details :: "create_env \<Rightarrow> dto \<Rightarrow> string \<Rightarrow> string list \<Rightarrow> new_details result" where
  "new_submission_details ce dto jobType permissions =
     and_then (verifiedCandidateInput (ce_parseUrl ce) (ce_gt ce) (dto_field dto ''verifiedCandidate'')
                 (dto_field dto ''updateCandidateSkills'') permissions) (\<lambda>v.
     let mode = location_mode dto v in
     and_then (refuse (\<not> one_of location_modes (Some mode)) (BadRequest ''Select a valid preferred location option.'')) (\<lambda>_.
     and_then (refuse (case v of None \<Rightarrow> False | Some d \<Rightarrow> JStr (vd_mode d) \<noteq> mode)
                 (BadRequest ''Candidate location preference does not match the submission preference.'')) (\<lambda>_.
     and_then (submissionCompensation dto jobType) (\<lambda>comp.
     and_then (submissionSource dto) (\<lambda>src.
     let priced = (dto_field dto ''compensationInputUnit'' \<noteq> None) in
     and_then (checks
       [refuse (priced \<and> \<not> is_truthy (dto_field dto ''sourceCategory'')) (BadRequest ''Select the candidate source.''),
        refuse (bad_text 100 (dto_field dto ''availabilityToStart'')) (BadRequest ''Enter valid availability to start.''),
        refuse (priced \<and> isContractJob jobType \<and> \<not> has_text (dto_field dto ''availabilityToStart''))
          (BadRequest ''Enter availability to start.'')]) (\<lambda>_.
     ok \<lparr> nd_verified = v, nd_mode = js_string mode, nd_compensation = comp, nd_source = src \<rparr>))))))"

text \<open>A new submission starts with no interviews and no outcome.\<close>

definition check_new_workflow :: "dto \<Rightarrow> unit result" where
  "check_new_workflow dto = checks
    (map (\<lambda>r. refuse (coalesce (round_field dto r Status) (JStr ''PENDING'') \<noteq> JStr ''PENDING'' \<or> is_truthy (round_field dto r Date))
        (BadRequest ''Create the submission first, then schedule and update interviews through the submission editor.''))
      ROUND_KEYS
     @ [refuse (is_truthy (dto_field dto ''finalStatus'')
            \<and> \<not> one_of [''SUBMITTED'', ''PENDING_APPROVAL''] (dto_field dto ''finalStatus''))
          (BadRequest ''A new submission must start in progress or awaiting internal approval.'')])"

text \<open>Values for columns: \<^verbatim>\<open>v || null\<close> of a text, a decimal column, and an amount for a salary column of
  ten digits, which the database refuses when it is larger.\<close>

definition text_or_null :: "json option \<Rightarrow> string option result" where
  "text_or_null v = (case v of Some (JStr s) \<Rightarrow> ok (if s = [] then None else Some s)
     | _ \<Rightarrow> if is_truthy v then throw (InternalError ''PrismaClientValidationError'') else ok None)"

definition decimal_value :: "json option \<Rightarrow> string option \<Rightarrow> string option result" where
  "decimal_value v d = (case v of None \<Rightarrow> ok d | Some JNull \<Rightarrow> ok d | Some (JNum s) \<Rightarrow> ok (Some s)
     | Some (JStr s) \<Rightarrow> ok (Some s) | _ \<Rightarrow> throw (InternalError ''PrismaClientValidationError''))"

definition salary_value :: "json option \<Rightarrow> string option result" where
  "salary_value v =
    (if v \<in> {None, Some JNull, Some (JStr [])} then ok None
     else (let text = js_string (the v) in
       if 9999999999 < hundredths text then throw (InternalError ''numeric field overflow'')
       else ok (Some (show_amount (hundredths text)))))"

definition rate_value :: "env \<Rightarrow> json option \<Rightarrow> string option result" where
  "rate_value env v = (case v of
      Some (JStr s) \<Rightarrow> (case ev_parseFloat env s of None \<Rightarrow> throw (InternalError ''PrismaClientValidationError'') | x \<Rightarrow> ok x)
    | Some (JNum s) \<Rightarrow> ok (if s = ''0'' then None else Some s)
    | _ \<Rightarrow> if is_truthy v then throw (InternalError ''PrismaClientValidationError'') else ok None)"

text \<open>\<^verbatim>\<open>s.split(',').map(trim).filter(Boolean)\<close>.\<close>

primrec split_commas :: "string \<Rightarrow> string list" where
  "split_commas [] = [[]]"
| "split_commas (c # cs) = (if c = CHR '','' then [] # split_commas cs
     else (c # hd (split_commas cs)) # tl (split_commas cs))"

definition location_list :: "string \<Rightarrow> string list" where
  "location_list s = filter (\<lambda>p. p \<noteq> []) (map trim (split_commas s))"

definition submitted_locations :: "new_details \<Rightarrow> candidate \<Rightarrow> string list" where
  "submitted_locations nd c = (if nd_mode nd = ''REMOTE_ONLY'' then []
     else case nd_verified nd of None \<Rightarrow> cd_preferredLocations c
          | Some v \<Rightarrow> location_list (or_empty (map_of (vd_text v) ''preferredLocations'')))"

definition salary_snapshot :: "dto \<Rightarrow> new_details \<Rightarrow> candidate \<Rightarrow> candidate_snapshot result" where
  "salary_snapshot dto nd c =
    (let priced = (dto_field dto ''compensationInputUnit'' \<noteq> None) in
     and_then (if priced then salary_value (dto_field dto ''currentCompensation'')
               else decimal_value (dto_field dto ''candidateCurrentCtc'') (cd_currentCtc c)) (\<lambda>current.
     and_then (if priced then salary_value (dto_field dto ''expectedCompensation'')
               else decimal_value (dto_field dto ''candidateExpectedCtc'') (cd_expectedCtc c)) (\<lambda>expected.
     ok \<lparr> cs_currentCtc = current, cs_expectedCtc = expected,
          cs_ctcCurrency = (if priced then cp_currency (nd_compensation nd) else cd_ctcCurrency c),
          cs_ctcTerm = (if priced then cp_unit (nd_compensation nd) else cd_ctcTerm c),
          cs_preferredLocations = submitted_locations nd c, cs_preferredLocationMode = nd_mode nd \<rparr>)))"

text \<open>What the submission changes on the candidate's profile (lines 366 to 379).\<close>

definition update_candidate :: "dto \<Rightarrow> new_details \<Rightarrow> uuid \<Rightarrow> uuid \<Rightarrow> candidate_snapshot \<Rightarrow> tracker_db \<Rightarrow> tracker_db" where
  "update_candidate dto nd i t cs db =
    (let here = (\<lambda>c. cd_id c = i \<and> cd_tenantId c = Some t);
         skilled = (case nd_verified nd of
            Some v \<Rightarrow> if dto_field dto ''updateCandidateSkills'' = Some (JBool True)
              then (\<lambda>c. c\<lparr> cd_skills := vd_skills v,
                        cd_linkedinUrl := or_else (vd_linkedinUrl v) (cd_linkedinUrl c) \<rparr>) else id
          | None \<Rightarrow> id);
         priced = (if dto_field dto ''compensationInputUnit'' = None then id
            else (\<lambda>c. c\<lparr> cd_currentCtc := cs_currentCtc cs, cd_expectedCtc := cs_expectedCtc cs,
                      cd_ctcCurrency := cs_ctcCurrency cs, cd_ctcTerm := cs_ctcTerm cs \<rparr>))
     in db\<lparr> td_candidates := update_where here (priced \<circ> skilled) (td_candidates db) \<rparr>)"

definition count_submission :: "(job \<Rightarrow> bool) \<Rightarrow> (int \<Rightarrow> int) \<Rightarrow> tracker_db \<Rightarrow> tracker_db" where
  "count_submission here f db = db\<lparr> td_base := (td_base db)\<lparr> st_jobs :=
     update_where here (\<lambda>j. j\<lparr> jb_submissionDone := f (jb_submissionDone j) \<rparr>) (st_jobs (td_base db)) \<rparr> \<rparr>"

text \<open>The row of a new submission.\<close>

definition new_submission ::
  "create_env \<Rightarrow> uuid \<Rightarrow> uuid \<Rightarrow> uuid \<Rightarrow> uuid \<Rightarrow> uuid \<Rightarrow> dto \<Rightarrow> new_details \<Rightarrow> candidate_snapshot \<Rightarrow> string \<Rightarrow> submission result" where
  "new_submission ce newId t jobId candidateId recruiterId dto nd cs finalStatus =
     and_then (text_or_null (dto_field dto ''remarks'')) (\<lambda>remarks.
     and_then (text_or_null (dto_field dto ''recruiterComment'')) (\<lambda>comment.
     and_then (rate_value (ce_env ce) (dto_field dto ''submittedRate'')) (\<lambda>rate.
     ok \<lparr> sb_id = newId, sb_tenantId = t, sb_jobId = jobId, sb_candidateId = candidateId, sb_recruiterId = Some recruiterId,
          sb_round = (\<lambda>_. pending_round), sb_finalStatus = finalStatus, sb_remarks = remarks, sb_recruiterComment = comment,
          sb_podLeadRemarks = None, sb_reviewFeedback = None, sb_meetingLink = None, sb_submittedRate = rate,
          sb_compensation = nd_compensation nd, sb_source = nd_source nd,
          sb_availability = (case dto_field dto ''availabilityToStart'' of
             Some (JStr s) \<Rightarrow> or_else (Some (trim s)) None | _ \<Rightarrow> None),
          sb_snapshot = cs, sb_updatedAt = ev_now (ce_env ce) \<rparr>)))"

definition created_event :: "submission \<Rightarrow> auth_user option \<Rightarrow> auto_approval_audit option \<Rightarrow> verified option \<Rightarrow> sub_event" where
  "created_event row user review v =
    (plain_event row (Option.bind user actor_name) ''CREATED'' 0 ''created'')
     \<lparr> se_snapshot := historySnapshot row, se_review := review, se_verified := v \<rparr>"

text \<open>The transaction: the locked job, access again, no second submission, and the writes.\<close>

definition create_submission_tx ::
  "create_env \<Rightarrow> uuid \<Rightarrow> uuid \<Rightarrow> uuid \<Rightarrow> candidate \<Rightarrow> uuid \<Rightarrow> dto \<Rightarrow> auth_user option \<Rightarrow> new_details
    \<Rightarrow> tracker_db \<Rightarrow> (submission \<times> tracker_db) result" where
  "create_submission_tx ce newId t jobId c recruiterId dto user nd db =
    (case find_first (\<lambda>j. jb_id j = jobId \<and> jb_tenantId j = t \<and> jb_deletedAt j = None) (st_jobs (td_base db)) of
       None \<Rightarrow> throw (BadRequest ''This job is not active. New submissions are blocked.'')
     | Some j \<Rightarrow>
       if map_option upper (jb_status j) \<noteq> Some ''ACTIVE''
       then throw (BadRequest ''This job is not active. New submissions are blocked.'')
       else and_then (assertJobSubmissionAccess (td_base db) user t jobId recruiterId) (\<lambda>_.
       if \<exists>s \<in> set (td_submissions db). sb_tenantId s = t \<and> sb_jobId s = jobId \<and> sb_candidateId s = cd_id c
       then throw (Conflict ''This candidate has already been submitted to this job.'')
       else and_then (salary_snapshot dto nd c) (\<lambda>cs.
       let review = submissionCreationReview user in
       and_then (new_submission ce newId t jobId (cd_id c) recruiterId dto nd cs (cv_finalStatus review)) (\<lambda>row.
       let db1 = update_candidate dto nd (cd_id c) t cs db;
           db2 = db1\<lparr> td_submissions := td_submissions db1 @ [row] \<rparr>;
           db3 = count_submission (\<lambda>j. jb_id j = jobId) (\<lambda>n. n + 1) db2
       in and_then (insert_event (created_event row user (cv_automaticInternalReview review) (nd_verified nd)) db3) (\<lambda>db4. ok (row, db4))))))"

definition submissions_create ::
  "create_env \<Rightarrow> uuid \<Rightarrow> uuid \<Rightarrow> uuid \<Rightarrow> uuid \<Rightarrow> uuid \<Rightarrow> dto \<Rightarrow> auth_user option \<Rightarrow> tracker_db
    \<Rightarrow> (submission \<times> tracker_db) result" where
  "submissions_create ce newId t jobId candidateId recruiterId dto user db =
     and_then (assertJobSubmissionAccess (td_base db) user t jobId recruiterId) (\<lambda>_.
     case find_first (\<lambda>j. jb_id j = jobId \<and> jb_tenantId j = t) (st_jobs (td_base db)) of
       None \<Rightarrow> throw (BadRequest (''Job with ID '' @ jobId @ '' not found under active tenant.''))
     | Some job \<Rightarrow>
       if map_option upper (jb_status job) \<noteq> Some ''ACTIVE''
       then throw (Forbidden (''Submissions are blocked. This job is currently in '' @ [CHR 0x27] @ or_empty (jb_status job)
              @ [CHR 0x27] @ '' status and only ACTIVE jobs accept new submissions.''))
       else and_then (new_submission_details ce dto (jb_jobType job) (case user of None \<Rightarrow> [] | Some u \<Rightarrow> a_permissions u)) (\<lambda>nd.
       case find_first (\<lambda>c. cd_id c = candidateId \<and> cd_tenantId c = Some t) (td_candidates db) of
         None \<Rightarrow> throw (BadRequest (''Candidate with ID '' @ candidateId @ '' not found under active tenant.''))
       | Some c \<Rightarrow>
         if nd_mode nd \<noteq> ''REMOTE_ONLY'' \<and> nd_verified nd = None \<and> cd_preferredLocations c = []
         then throw (BadRequest ''Add a preferred city or select remote-only work.'')
         else and_then (check_new_workflow dto) (\<lambda>_.
              create_submission_tx ce newId t jobId c recruiterId dto user nd db)))"

section \<open>Deleting a submission\<close>

definition assertPermanentDeletion :: "auth_user \<Rightarrow> uuid \<Rightarrow> unit result" where
  "assertPermanentDeletion actor t =
    (let ps = a_permissions actor; platform = (''*'' \<in> set ps \<or> ''platform:manage'' \<in> set ps) in
     refuse ((\<not> platform \<and> a_tenantId actor \<noteq> Some t)
        \<or> \<not> includes_any ps [''*'', ''platform:manage'', ''tenant:settings'', ''tenant:manage''])
      (Forbidden ''Tenant administration permission is required to permanently delete records.''))"

text \<open>Deleting a row deletes its history with it.\<close>

definition delete_submission_row :: "uuid \<Rightarrow> tracker_db \<Rightarrow> tracker_db" where
  "delete_submission_row i db = db\<lparr> td_submissions := delete_where (\<lambda>s. sb_id s = i) (td_submissions db),
     td_events := delete_where (\<lambda>e. se_submissionId e = i) (td_events db) \<rparr>"

definition permanentlyRemove :: "uuid \<Rightarrow> uuid \<Rightarrow> auth_user \<Rightarrow> tracker_db \<Rightarrow> tracker_db result" where
  "permanentlyRemove i t actor db =
     and_then (assertPermanentDeletion actor t) (\<lambda>_.
     case submission_by i t db of
       None \<Rightarrow> ok db
     | Some s \<Rightarrow> ok (count_submission (\<lambda>j. jb_id j = sb_jobId s \<and> jb_tenantId j = t) (\<lambda>n. max 0 (n - 1))
                     (delete_submission_row i db)))"

definition submissions_remove :: "uuid \<Rightarrow> uuid \<Rightarrow> tracker_db \<Rightarrow> tracker_db result" where
  "submissions_remove i t db =
    (case submission_by i t db of
       None \<Rightarrow> throw (NotFound (''Recruiter submission with ID '' @ i @ '' was not found.''))
     | Some s \<Rightarrow>
        if events_of i t db \<noteq> []
        then throw (BadRequest ''Submissions with recorded history cannot be deleted. Use a final outcome to close the submission.'')
        else ok (count_submission (\<lambda>j. jb_id j = sb_jobId s) (\<lambda>n. n - 1) (delete_submission_row i db)))"

end
