(* ===== verification/SubmissionSafety.thy ===== *)
theory SubmissionSafety
  imports TrackerSafety Submissions
begin

text \<open>
  The submissions as a concurrent system: a step creates, deletes, plans an update or commits one
  that was planned at any time before.  Every reachable state keeps the workflow rules of every
  row, one submission of a candidate per job, the counters of the jobs and a gapless history; an
  update never overwrites one it has not seen; and repeating a request changes nothing.
\<close>

section \<open>What the operations do\<close>

lemma insert_event_Inr:
  assumes "insert_event e db = Inr db'"
  shows "db' = db\<lparr> td_events := td_events db @ [e] \<rparr>"
    and "\<And>e'. e' \<in> set (td_events db) \<Longrightarrow> se_submissionId e' = se_submissionId e \<Longrightarrow>
      se_requestId e' \<noteq> se_requestId e \<and> se_sequence e' \<noteq> se_sequence e"
  using assms by (auto simp: insert_event_def split: if_splits)

lemma submission_by_Some:
  "submission_by i t db = Some s \<Longrightarrow> s \<in> set (td_submissions db) \<and> sb_id s = i \<and> sb_tenantId s = t"
  by (auto simp: submission_by_def dest: find_first_Some)

lemma pending_round_simps [simp]: "\<not> started pending_round" "rd_status pending_round = Some ''PENDING''"
  by (simp_all add: pending_round_def started_def unset_status_def)

lemma creation_status: "cv_finalStatus (submissionCreationReview user) \<in> {''SUBMITTED'', ''PENDING_APPROVAL''}"
  by (auto simp: submissionCreationReview_def Let_def split: option.splits)

lemma new_submission_Inr:
  assumes "new_submission ce newId t jobId candidateId recruiterId dto nd cs final = Inr row"
  shows "sb_id row = newId \<and> sb_tenantId row = t \<and> sb_jobId row = jobId \<and> sb_candidateId row = candidateId
    \<and> sb_round row = (\<lambda>_. pending_round) \<and> sb_finalStatus row = final"
  using assms by (auto simp: new_submission_def and_then_eq_Inr)

lemma update_candidate_simps [simp]:
  "td_submissions (update_candidate dto nd i t cs db) = td_submissions db"
  "td_events (update_candidate dto nd i t cs db) = td_events db"
  "td_base (update_candidate dto nd i t cs db) = td_base db"
  "td_remarks (update_candidate dto nd i t cs db) = td_remarks db"
  by (simp_all add: update_candidate_def Let_def)

lemma count_submission_simps [simp]:
  "td_submissions (count_submission p f db) = td_submissions db"
  "td_events (count_submission p f db) = td_events db"
  "td_candidates (count_submission p f db) = td_candidates db"
  "st_jobs (td_base (count_submission p f db)) =
     update_where p (\<lambda>j. j\<lparr> jb_submissionDone := f (jb_submissionDone j) \<rparr>) (st_jobs (td_base db))"
  by (simp_all add: count_submission_def)

text \<open>What a successful creation has checked and written.\<close>

lemma submissions_create_facts:
  assumes "submissions_create ce newId t jobId candidateId recruiterId dto user db = Inr (row, db')"
  shows "(\<exists>j \<in> set (st_jobs (td_base db)). jb_id j = jobId \<and> jb_tenantId j = t \<and> map_option upper (jb_status j) = Some ''ACTIVE'')
    \<and> (\<forall>s \<in> set (td_submissions db). \<not> (sb_tenantId s = t \<and> sb_jobId s = jobId \<and> sb_candidateId s = candidateId))
    \<and> sb_id row = newId \<and> sb_tenantId row = t \<and> sb_jobId row = jobId \<and> sb_candidateId row = candidateId
    \<and> sb_round row = (\<lambda>_. pending_round) \<and> sb_finalStatus row = cv_finalStatus (submissionCreationReview user)
    \<and> td_submissions db' = td_submissions db @ [row]
    \<and> (\<exists>e. td_events db' = td_events db @ [e] \<and> se_submissionId e = newId \<and> se_tenantId e = t \<and> se_sequence e = 0)
    \<and> st_jobs (td_base db') = update_where (\<lambda>j. jb_id j = jobId)
         (\<lambda>j. j\<lparr> jb_submissionDone := jb_submissionDone j + 1 \<rparr>) (st_jobs (td_base db))"
proof -
  from assms obtain c nd where c: "find_first (\<lambda>c. cd_id c = candidateId \<and> cd_tenantId c = Some t) (td_candidates db) = Some c"
    and tx: "create_submission_tx ce newId t jobId c recruiterId dto user nd db = Inr (row, db')"
    unfolding submissions_create_def
    by (auto simp: and_then_eq_Inr split: option.splits if_splits)
  have cid: "cd_id c = candidateId" using find_first_Some [OF c] by simp
  from tx obtain j cs db4 where
    j: "find_first (\<lambda>j. jb_id j = jobId \<and> jb_tenantId j = t \<and> jb_deletedAt j = None) (st_jobs (td_base db)) = Some j"
    and act: "map_option upper (jb_status j) = Some ''ACTIVE''"
    and dup: "\<not> (\<exists>s \<in> set (td_submissions db). sb_tenantId s = t \<and> sb_jobId s = jobId \<and> sb_candidateId s = cd_id c)"
    and row: "new_submission ce newId t jobId (cd_id c) recruiterId dto nd cs
       (cv_finalStatus (submissionCreationReview user)) = Inr row"
    and ev: "insert_event (created_event row user (cv_automaticInternalReview (submissionCreationReview user)) (nd_verified nd))
       (count_submission (\<lambda>j. jb_id j = jobId) (\<lambda>n. n + 1)
         ((update_candidate dto nd (cd_id c) t cs db)\<lparr> td_submissions := td_submissions (update_candidate dto nd (cd_id c) t cs db) @ [row] \<rparr>))
       = Inr db'"
    unfolding create_submission_tx_def Let_def
    by (auto simp: and_then_eq_Inr split: option.splits if_splits)
  note fj = find_first_Some [OF j]
  note ns = new_submission_Inr [OF row]
  show ?thesis
    using fj act dup ns insert_event_Inr(1) [OF ev] cid
    by (auto simp: created_event_def plain_event_def)
qed

section \<open>The system and its invariant\<close>

text \<open>
  A state is a database and the updates that have been planned and not yet given up.  The
  identifiers of new submissions are fresh.
\<close>

inductive tracker_step :: "tracker_db \<times> planned list \<Rightarrow> tracker_db \<times> planned list \<Rightarrow> bool" where
  create: "submissions_create ce newId t jobId candidateId recruiterId dto user db = ok (row, db') \<Longrightarrow>
    newId \<notin> sb_id ` set (td_submissions db) \<Longrightarrow> newId \<notin> (sb_id \<circ> pn_row) ` set ps \<Longrightarrow>
    tracker_step (db, ps) (db', ps)"
| plan: "plan_update env hash db i dto t user branchId = ok (Some pn) \<Longrightarrow> tracker_step (db, ps) (db, pn # ps)"
| commit: "pn \<in> set ps \<Longrightarrow> commit_update env assess requestId pn user db = ok db' \<Longrightarrow> tracker_step (db, ps) (db', ps)"
| remove: "submissions_remove i t db = ok db' \<Longrightarrow> tracker_step (db, ps) (db', ps)"
| remove_permanently: "permanentlyRemove i t actor db = ok db' \<Longrightarrow> tracker_step (db, ps) (db', ps)"

definition sub_key :: "submission \<Rightarrow> uuid \<times> uuid \<times> uuid" where
  "sub_key s = (sb_tenantId s, sb_jobId s, sb_candidateId s)"

text \<open>The rows: unique, within the workflow rules, and counted by their jobs.\<close>

definition rows_ok :: "tracker_db \<Rightarrow> bool" where
  "rows_ok db \<longleftrightarrow> distinct (map sb_id (td_submissions db)) \<and> distinct (map sub_key (td_submissions db))
     \<and> (\<forall>s \<in> set (td_submissions db). submission_ok s)"

definition counters_ok :: "submission list \<Rightarrow> job list \<Rightarrow> bool" where
  "counters_ok ss js \<longleftrightarrow> distinct (map jb_id js)
     \<and> (\<forall>j \<in> set js. jb_submissionDone j = int (count_where (\<lambda>s. sb_jobId s = jb_id j) ss))
     \<and> (\<forall>s \<in> set ss. \<exists>j \<in> set js. jb_id j = sb_jobId s \<and> jb_tenantId j = sb_tenantId s)"

text \<open>The history of a submission is numbered from zero without a gap, and belongs to a row.\<close>

definition sequences :: "uuid \<Rightarrow> sub_event list \<Rightarrow> nat list" where
  "sequences i es = map se_sequence (filter (\<lambda>e. se_submissionId e = i) es)"

definition history_ok :: "submission list \<Rightarrow> sub_event list \<Rightarrow> bool" where
  "history_ok ss es \<longleftrightarrow> (\<forall>i. sequences i es = [0..<length (sequences i es)])
     \<and> (\<forall>e \<in> set es. \<exists>s \<in> set ss. sb_id s = se_submissionId e \<and> sb_tenantId s = se_tenantId e)"

text \<open>A planned update leads from the row it was planned for to a row within the rules, and every row
  it could still meet is that row or a later version.\<close>

definition same_keys :: "submission \<Rightarrow> submission \<Rightarrow> bool" where
  "same_keys a b \<longleftrightarrow> sb_id a = sb_id b \<and> sb_tenantId a = sb_tenantId b \<and> sb_jobId a = sb_jobId b
     \<and> sb_candidateId a = sb_candidateId b \<and> sb_recruiterId a = sb_recruiterId b"

definition plan_ok :: "submission list \<Rightarrow> planned \<Rightarrow> bool" where
  "plan_ok ss pn \<longleftrightarrow>
     (\<forall>at new. write_row at (pn_data pn) (pn_row pn) = Inr new \<longrightarrow> submission_ok new \<and> same_keys new (pn_row pn) \<and> sb_updatedAt new = at)
     \<and> (\<forall>s \<in> set ss. sb_id s = sb_id (pn_row pn) \<longrightarrow> s = pn_row pn \<or> sb_updatedAt (pn_row pn) < sb_updatedAt s)"

definition tracker_ok :: "tracker_db \<times> planned list \<Rightarrow> bool" where
  "tracker_ok st \<longleftrightarrow> rows_ok (fst st) \<and> counters_ok (td_submissions (fst st)) (st_jobs (td_base (fst st)))
     \<and> history_ok (td_submissions (fst st)) (td_events (fst st)) \<and> (\<forall>pn \<in> set (snd st). plan_ok (td_submissions (fst st)) pn)"

section \<open>Counters and history under inserts and deletes\<close>

lemma counters_adjust:
  assumes "counters_ok ss js"
    and "\<And>j. j \<in> set js \<Longrightarrow> int (count_where (\<lambda>s. sb_jobId s = jb_id j) ss') =
      (if p j then f (int (count_where (\<lambda>s. sb_jobId s = jb_id j) ss)) else int (count_where (\<lambda>s. sb_jobId s = jb_id j) ss))"
    and "\<And>s. s \<in> set ss' \<Longrightarrow> \<exists>j \<in> set js. jb_id j = sb_jobId s \<and> jb_tenantId j = sb_tenantId s"
  shows "counters_ok ss' (update_where p (\<lambda>j. j\<lparr> jb_submissionDone := f (jb_submissionDone j) \<rparr>) js)"
proof -
  let ?js = "update_where p (\<lambda>j. j\<lparr> jb_submissionDone := f (jb_submissionDone j) \<rparr>) js"
  have ids: "map jb_id ?js = map jb_id js" by (rule map_update_where) simp
  have cnt: "jb_submissionDone j' = int (count_where (\<lambda>s. sb_jobId s = jb_id j') ss')" if j': "j' \<in> set ?js" for j'
  proof -
    from j' obtain j where j: "j \<in> set js" and eq: "j' = (if p j then j\<lparr> jb_submissionDone := f (jb_submissionDone j) \<rparr> else j)"
      by (auto simp: in_update_where)
    have "jb_submissionDone j = int (count_where (\<lambda>s. sb_jobId s = jb_id j) ss)"
      using assms(1) j by (simp add: counters_ok_def)
    then show ?thesis using assms(2) [OF j] by (simp add: eq split: if_splits)
  qed
  have "\<exists>j' \<in> set ?js. jb_id j' = sb_jobId s \<and> jb_tenantId j' = sb_tenantId s" if s: "s \<in> set ss'" for s
  proof -
    from assms(3) [OF s] obtain j where "j \<in> set js" "jb_id j = sb_jobId s" "jb_tenantId j = sb_tenantId s" by blast
    then show ?thesis
      by (intro bexI [of _ "if p j then j\<lparr> jb_submissionDone := f (jb_submissionDone j) \<rparr> else j"]) (auto simp: in_update_where)
  qed
  moreover have "distinct (map jb_id ?js)" using assms(1) ids by (simp add: counters_ok_def)
  ultimately show ?thesis using cnt by (simp add: counters_ok_def)
qed

lemma count_where_append: "count_where q (xs @ ys) = count_where q xs + count_where q ys"
  by (simp add: count_where_def)

lemma count_where_delete:
  assumes "distinct (map key t)" and "s \<in> set t"
  shows "count_where q t = count_where q (delete_where (\<lambda>r. key r = key s) t) + (if q s then 1 else 0)"
  using assms
proof (induction t)
  case (Cons r t)
  show ?case
  proof (cases "r = s")
    case True
    have "key x \<noteq> key s" if "x \<in> set t" for x
      using Cons.prems(1) True that by (metis distinct.simps(2) image_eqI list.set_map list.simps(9))
    then have "delete_where (\<lambda>r. key r = key s) t = t"
      by (simp add: delete_where_def)
    then show ?thesis using True by (simp add: count_where_def delete_where_def)
  next
    case False
    then have "s \<in> set t" using Cons.prems(2) by simp
    moreover have "key r \<noteq> key s" using Cons.prems(1) calculation by (metis distinct.simps(2) image_eqI list.set_map list.simps(9))
    ultimately show ?thesis using Cons by (simp add: count_where_def delete_where_def)
  qed
qed simp

lemma sequences_append: "sequences i (es @ fs) = sequences i es @ sequences i fs"
  by (simp add: sequences_def)

lemma sequences_one: "sequences i [e] = (if se_submissionId e = i then [se_sequence e] else [])"
  by (simp add: sequences_def)

lemma history_insert:
  assumes "history_ok ss es" and "s \<in> set ss'" and "sb_id s = se_submissionId e" and "sb_tenantId s = se_tenantId e"
    and "se_sequence e = length (sequences (se_submissionId e) es)"
    and "\<And>s. s \<in> set ss \<Longrightarrow> \<exists>s' \<in> set ss'. sb_id s' = sb_id s \<and> sb_tenantId s' = sb_tenantId s"
  shows "history_ok ss' (es @ [e])"
proof -
  have "sequences i (es @ [e]) = [0..<length (sequences i (es @ [e]))]" for i
  proof -
    have h: "sequences i es = [0..<length (sequences i es)]" using assms(1) by (simp add: history_ok_def)
    show ?thesis
    proof (cases "se_submissionId e = i")
      case True
      then have "sequences i (es @ [e]) = [0..<length (sequences i es)] @ [length (sequences i es)]"
        using assms(5) h by (simp add: sequences_append sequences_one)
      then show ?thesis by (simp add: sequences_append sequences_one True)
    next
      case False
      then show ?thesis using h by (simp add: sequences_append sequences_one)
    qed
  qed
  moreover have "\<exists>s' \<in> set ss'. sb_id s' = se_submissionId e' \<and> sb_tenantId s' = se_tenantId e'" if "e' \<in> set (es @ [e])" for e'
  proof (cases "e' = e")
    case True
    then show ?thesis using assms(2-4) by auto
  next
    case False
    then have "e' \<in> set es" using that by simp
    then obtain s0 where "s0 \<in> set ss" "sb_id s0 = se_submissionId e'" "sb_tenantId s0 = se_tenantId e'"
      using assms(1) by (auto simp: history_ok_def)
    then show ?thesis using assms(6) [of s0] by metis
  qed
  ultimately show ?thesis by (simp add: history_ok_def)
qed

lemma history_rows:
  assumes "history_ok ss es"
    and "\<And>s. s \<in> set ss \<Longrightarrow> \<exists>s' \<in> set ss'. sb_id s' = sb_id s \<and> sb_tenantId s' = sb_tenantId s"
  shows "history_ok ss' es"
  using assms by (fastforce simp: history_ok_def)

lemma history_delete:
  assumes "history_ok ss es"
  shows "history_ok (delete_where (\<lambda>s. sb_id s = i) ss) (delete_where (\<lambda>e. se_submissionId e = i) es)"
proof -
  have "sequences k (delete_where (\<lambda>e. se_submissionId e = i) es) = (if k = i then [] else sequences k es)" for k
    by (induction es) (auto simp: sequences_def delete_where_def)
  then show ?thesis using assms by (fastforce simp: history_ok_def)
qed

section \<open>Every step keeps the invariant\<close>

lemma new_row_ok:
  "sb_round row = (\<lambda>_. pending_round) \<Longrightarrow> sb_finalStatus row \<in> {''SUBMITTED'', ''PENDING_APPROVAL''} \<Longrightarrow> submission_ok row"
  by (auto simp: submission_ok_def in_sequence_def)

lemma create_keeps_ok:
  assumes "tracker_ok (db, ps)" and c: "submissions_create ce newId t jobId candidateId recruiterId dto user db = Inr (row, db')"
    and new: "newId \<notin> sb_id ` set (td_submissions db)" "newId \<notin> (sb_id \<circ> pn_row) ` set ps"
  shows "tracker_ok (db', ps)"
proof -
  note f = submissions_create_facts [OF c]
  from f obtain e where e: "td_events db' = td_events db @ [e]" "se_submissionId e = newId" "se_tenantId e = t" "se_sequence e = 0"
    by blast
  have subs: "td_submissions db' = td_submissions db @ [row]" and row: "sb_id row = newId" "sb_tenantId row = t"
      "sb_jobId row = jobId" "sb_candidateId row = candidateId"
    using f by auto
  have ok: "submission_ok row" using f creation_status [of user] by (intro new_row_ok) auto
  have key: "sub_key row \<notin> sub_key ` set (td_submissions db)"
    using f row by (auto simp: sub_key_def)
  have old: "rows_ok db" "counters_ok (td_submissions db) (st_jobs (td_base db))" "history_ok (td_submissions db) (td_events db)"
      "\<And>pn. pn \<in> set ps \<Longrightarrow> plan_ok (td_submissions db) pn"
    using assms(1) by (auto simp: tracker_ok_def)
  have "rows_ok db'"
    using old(1) new(1) row(1) ok key by (auto simp: rows_ok_def subs)
  moreover have "counters_ok (td_submissions db') (st_jobs (td_base db'))"
  proof -
    have "st_jobs (td_base db') = update_where (\<lambda>j. jb_id j = jobId)
         (\<lambda>j. j\<lparr> jb_submissionDone := jb_submissionDone j + 1 \<rparr>) (st_jobs (td_base db))" using f by blast
    moreover have "counters_ok (td_submissions db @ [row]) (update_where (\<lambda>j. jb_id j = jobId)
         (\<lambda>j. j\<lparr> jb_submissionDone := jb_submissionDone j + 1 \<rparr>) (st_jobs (td_base db)))"
    proof (rule counters_adjust [OF old(2), where f = "\<lambda>n. n + 1"])
      show "\<exists>j \<in> set (st_jobs (td_base db)). jb_id j = sb_jobId s \<and> jb_tenantId j = sb_tenantId s"
        if "s \<in> set (td_submissions db @ [row])" for s
        using that old(2) f row by (auto simp: counters_ok_def)
    qed (use row(3) in \<open>auto simp: count_where_append count_where_def\<close>)
    ultimately show ?thesis by (simp add: subs)
  qed
  moreover have "history_ok (td_submissions db') (td_events db')"
  proof -
    have "filter (\<lambda>e. se_submissionId e = newId) (td_events db) = []"
      using old(3) new(1) by (force simp: history_ok_def filter_empty_conv)
    then have "sequences newId (td_events db) = []" by (simp add: sequences_def)
    then show ?thesis unfolding e(1) subs
      by (intro history_insert [OF old(3), of row]) (use e row in auto)
  qed
  moreover have "plan_ok (td_submissions db') pn" if "pn \<in> set ps" for pn
  proof -
    have "sb_id (pn_row pn) \<noteq> newId" using that new(2) by auto
    then show ?thesis using old(4) [OF that] row(1) by (auto simp: plan_ok_def subs)
  qed
  ultimately show ?thesis by (auto simp: tracker_ok_def)
qed

text \<open>Deleting a row and counting its job down, by any function that takes one away from a positive number.\<close>

lemma delete_keeps_ok:
  assumes "tracker_ok (db, ps)" and s: "s \<in> set (td_submissions db)" "sb_id s = i"
    and f: "\<And>n :: int. 0 < n \<Longrightarrow> f n = n - 1"
    and p: "\<And>j. j \<in> set (st_jobs (td_base db)) \<Longrightarrow> p j \<longleftrightarrow> jb_id j = sb_jobId s"
  shows "tracker_ok (count_submission p f (delete_submission_row i db), ps)"
proof -
  let ?ss = "delete_where (\<lambda>r. sb_id r = i) (td_submissions db)"
  have old: "rows_ok db" "counters_ok (td_submissions db) (st_jobs (td_base db))" "history_ok (td_submissions db) (td_events db)"
      "\<And>pn. pn \<in> set ps \<Longrightarrow> plan_ok (td_submissions db) pn"
    using assms(1) by (auto simp: tracker_ok_def)
  have d: "distinct (map sb_id (td_submissions db))" using old(1) by (simp add: rows_ok_def)
  have cnt: "count_where q (td_submissions db) = count_where q ?ss + (if q s then 1 else 0)" for q
    using count_where_delete [OF d s(1), of q] s(2) by simp
  have "rows_ok (delete_submission_row i db)"
    using old(1) by (simp add: rows_ok_def delete_submission_row_def distinct_map_delete_where)
  moreover have "counters_ok ?ss (update_where p (\<lambda>j. j\<lparr> jb_submissionDone := f (jb_submissionDone j) \<rparr>) (st_jobs (td_base db)))"
  proof (rule counters_adjust [OF old(2)])
    show "int (count_where (\<lambda>r. sb_jobId r = jb_id j) ?ss) =
      (if p j then f (int (count_where (\<lambda>r. sb_jobId r = jb_id j) (td_submissions db)))
       else int (count_where (\<lambda>r. sb_jobId r = jb_id j) (td_submissions db)))" if "j \<in> set (st_jobs (td_base db))" for j
      using p [OF that] cnt [of "\<lambda>r. sb_jobId r = jb_id j"] f by auto
    show "\<exists>j \<in> set (st_jobs (td_base db)). jb_id j = sb_jobId r \<and> jb_tenantId j = sb_tenantId r" if "r \<in> set ?ss" for r
      using that old(2) by (auto simp: counters_ok_def)
  qed
  moreover have "history_ok ?ss (delete_where (\<lambda>e. se_submissionId e = i) (td_events db))"
    by (rule history_delete [OF old(3)])
  moreover have "plan_ok ?ss pn" if "pn \<in> set ps" for pn
    using old(4) [OF that] by (auto simp: plan_ok_def)
  ultimately show ?thesis
    by (auto simp: tracker_ok_def rows_ok_def delete_submission_row_def)
qed

lemma remove_keeps_ok:
  assumes "tracker_ok (db, ps)" and "submissions_remove i t db = Inr db'"
  shows "tracker_ok (db', ps)"
proof -
  from assms(2) obtain s where s: "submission_by i t db = Some s"
    and db': "db' = count_submission (\<lambda>j. jb_id j = sb_jobId s) (\<lambda>n. n - 1) (delete_submission_row i db)"
    by (auto simp: submissions_remove_def split: option.splits if_splits)
  show ?thesis unfolding db'
    by (rule delete_keeps_ok [OF assms(1)]) (use submission_by_Some [OF s] in auto)
qed

lemma permanentlyRemove_keeps_ok:
  assumes "tracker_ok (db, ps)" and "permanentlyRemove i t actor db = Inr db'"
  shows "tracker_ok (db', ps)"
proof (cases "submission_by i t db")
  case None
  then show ?thesis using assms by (auto simp: permanentlyRemove_def and_then_eq_Inr)
next
  case (Some s)
  have s: "s \<in> set (td_submissions db)" "sb_id s = i" "sb_tenantId s = t" using submission_by_Some [OF Some] by auto
  have db': "db' = count_submission (\<lambda>j. jb_id j = sb_jobId s \<and> jb_tenantId j = t) (\<lambda>n. max 0 (n - 1)) (delete_submission_row i db)"
    using assms(2) Some by (auto simp: permanentlyRemove_def and_then_eq_Inr)
  have c: "counters_ok (td_submissions db) (st_jobs (td_base db))" using assms(1) by (simp add: tracker_ok_def)
  then obtain j0 where j0: "j0 \<in> set (st_jobs (td_base db))" "jb_id j0 = sb_jobId s" "jb_tenantId j0 = t"
    using s unfolding counters_ok_def by blast
  have "inj_on jb_id (set (st_jobs (td_base db)))" using c by (simp add: counters_ok_def distinct_map)
  then have "jb_tenantId j = t" if "j \<in> set (st_jobs (td_base db))" "jb_id j = sb_jobId s" for j
    using j0 that inj_onD [of jb_id "set (st_jobs (td_base db))" j j0] by auto
  then show ?thesis unfolding db'
    by (intro delete_keeps_ok [OF assms(1) s(1,2)]) auto
qed

text \<open>What a planned update has passed.\<close>

lemma findOne_row:
  assumes "submissions_findOne db t user branchId i = Inr v"
  shows "submission_by i t db = Some (vs_row v)" and "vs_rejectionFrom v = rejection_from (events_of i t db)"
    and "vs_job v \<in> set (st_jobs (td_base db))" and "jb_id (vs_job v) = sb_jobId (vs_row v)" and "jb_tenantId (vs_job v) = t"
  using assms
  by (auto simp: submissions_findOne_def Let_def and_then_eq_Inr dest!: find_first_Some split: if_splits option.splits)

lemma plan_update_facts:
  assumes "plan_update env hash db i dto t user branchId = Inr (Some pn)"
  obtains v ch where "submissions_findOne db t user branchId i = Inr v"
    and "validateTrackerUpdate env (vs_row v) (vs_rejectionFrom v) dto (update_caps (td_base db) t user v) = Inr ()"
    and "roundUpdate (vs_row v) dto = Inr ch" and "replayed hash db i t user dto = Inr False"
    and "pn = \<lparr> pn_row = vs_row v, pn_dto = dto, pn_data = submission_data env (vs_row v) dto ch,
       pn_hash = hash (request_content dto), pn_audit = historyAuditChanges (vs_row v) (submission_data env (vs_row v) dto ch) \<rparr>"
  using assms that
  by (auto simp: plan_update_def planned_changes_def Let_def and_then_eq_Inr split: if_splits)

lemma edit_keys:
  assumes "edit_submission env at existing from dto caps = Inr new"
  shows "same_keys new existing \<and> sb_updatedAt new = at"
  using assms
proof (rule edit_submissionE)
  fix ch assume cf: "check_fields dto = Inr ()"
    and w: "write_row at (submission_data env existing dto ch) existing = Inr new"
  have "dto_field dto ''jobId'' = None" "dto_field dto ''candidateId'' = None" "dto_field dto ''recruiterId'' = None"
    using no_keys_moved [OF cf] by simp_all
  then show ?thesis
    using write_row_Inr(4-9) [OF w] by (simp add: same_keys_def)
qed

lemma plan_keeps_ok:
  assumes "tracker_ok (db, ps)" and "plan_update env hash db i dto t user branchId = Inr (Some pn)"
  shows "tracker_ok (db, pn # ps)"
proof -
  from assms(2) obtain v ch where v: "submissions_findOne db t user branchId i = Inr v"
    and val: "validateTrackerUpdate env (vs_row v) (vs_rejectionFrom v) dto (update_caps (td_base db) t user v) = Inr ()"
    and ch: "roundUpdate (vs_row v) dto = Inr ch"
    and pn: "pn = \<lparr> pn_row = vs_row v, pn_dto = dto, pn_data = submission_data env (vs_row v) dto ch,
       pn_hash = hash (request_content dto), pn_audit = historyAuditChanges (vs_row v) (submission_data env (vs_row v) dto ch) \<rparr>"
    by (rule plan_update_facts)
  have row: "vs_row v \<in> set (td_submissions db)"
    using submission_by_Some [OF findOne_row(1) [OF v]] by simp
  have old: "rows_ok db" using assms(1) by (simp add: tracker_ok_def)
  then have sok: "submission_ok (vs_row v)" using row by (simp add: rows_ok_def)
  have "submission_ok new \<and> same_keys new (vs_row v) \<and> sb_updatedAt new = at"
    if "write_row at (submission_data env (vs_row v) dto ch) (vs_row v) = Inr new" for at new
  proof -
    have e: "edit_submission env at (vs_row v) (vs_rejectionFrom v) dto (update_caps (td_base db) t user v) = Inr new"
      using val ch that by (simp add: edit_submission_def)
    show ?thesis using edit_keeps_ok [OF sok e] edit_keys [OF e] by simp
  qed
  moreover have "s = vs_row v" if "s \<in> set (td_submissions db)" "sb_id s = sb_id (vs_row v)" for s
    using old row that by (auto simp: rows_ok_def distinct_map dest: inj_onD)
  ultimately have "plan_ok (td_submissions db) pn"
    unfolding plan_ok_def pn planned.simps by blast
  then show ?thesis using assms(1) by (simp add: tracker_ok_def)
qed

subsection \<open>Committing\<close>

text \<open>A committed write meets the very row the update was planned for.\<close>

lemma write_planned_facts:
  assumes "tracker_ok (db, ps)" and "pn \<in> set ps" and "write_planned env pn db = Inr db1"
  obtains new where "pn_row pn \<in> set (td_submissions db)"
    and "write_row (max (ev_now env) (sb_updatedAt (pn_row pn) + 1)) (pn_data pn) (pn_row pn) = Inr new"
    and "db1 = db\<lparr> td_submissions := update_where (\<lambda>s. sb_id s = sb_id (pn_row pn)) (\<lambda>_. new) (td_submissions db) \<rparr>"
proof -
  from assms(3) obtain s new where s: "find_first (same_version pn) (td_submissions db) = Some s"
    and w: "write_row (max (ev_now env) (sb_updatedAt (pn_row pn) + 1)) (pn_data pn) s = Inr new"
    and db1: "db1 = db\<lparr> td_submissions := update_where (same_version pn) (\<lambda>_. new) (td_submissions db) \<rparr>"
    by (auto simp: write_planned_def and_then_eq_Inr split: option.splits)
  have sm: "s \<in> set (td_submissions db)" "same_version pn s" using find_first_Some [OF s] by auto
  have "plan_ok (td_submissions db) pn" using assms(1,2) by (auto simp: tracker_ok_def)
  then have eq: "s = pn_row pn" using sm by (auto simp: plan_ok_def same_version_def)
  have "distinct (map sb_id (td_submissions db))" using assms(1) by (simp add: tracker_ok_def rows_ok_def)
  then have only: "r = s" if "r \<in> set (td_submissions db)" "sb_id r = sb_id s" for r
    using that sm(1) by (auto simp: distinct_map dest: inj_onD)
  have "update_where (same_version pn) (\<lambda>_. new) (td_submissions db)
      = update_where (\<lambda>r. sb_id r = sb_id (pn_row pn)) (\<lambda>_. new) (td_submissions db)"
    unfolding update_where_def
    by (rule map_cong) (use only sm(2) eq in \<open>auto simp: same_version_def\<close>)
  then show thesis using that [of new] sm(1) w db1 eq by simp
qed

text \<open>Replacing a row by one with the same keys, within the rules and newer, keeps the invariant.\<close>

lemma replace_keeps_ok:
  assumes "tracker_ok (db, ps)" and r: "row \<in> set (td_submissions db)"
    and new: "submission_ok new" "same_keys new row" "sb_updatedAt row < sb_updatedAt new"
  shows "tracker_ok (db\<lparr> td_submissions := update_where (\<lambda>s. sb_id s = sb_id row) (\<lambda>_. new) (td_submissions db) \<rparr>, ps)"
proof -
  let ?ss = "update_where (\<lambda>s. sb_id s = sb_id row) (\<lambda>_. new) (td_submissions db)"
  have old: "rows_ok db" "counters_ok (td_submissions db) (st_jobs (td_base db))" "history_ok (td_submissions db) (td_events db)"
      "\<And>pn. pn \<in> set ps \<Longrightarrow> plan_ok (td_submissions db) pn"
    using assms(1) by (auto simp: tracker_ok_def)
  have only: "s = row" if "s \<in> set (td_submissions db)" "sb_id s = sb_id row" for s
    using old(1) r that by (auto simp: rows_ok_def distinct_map dest: inj_onD)
  have k: "map g ?ss = map g (td_submissions db)" if "g new = g row" for g :: "submission \<Rightarrow> 'z"
    by (rule map_update_where) (use only that in auto)
  have ids: "map sb_id ?ss = map sb_id (td_submissions db)" and keys: "map sub_key ?ss = map sub_key (td_submissions db)"
    and jobs: "map sb_jobId ?ss = map sb_jobId (td_submissions db)"
    using new(2) by (auto intro!: k simp: same_keys_def sub_key_def)
  have mem: "s = new \<or> (s \<in> set (td_submissions db) \<and> sb_id s \<noteq> sb_id row)" if "s \<in> set ?ss" for s
    using that by (auto simp: in_update_where split: if_splits)
  have "rows_ok (db\<lparr> td_submissions := ?ss \<rparr>)"
    using old(1) new(1) mem ids keys by (auto simp: rows_ok_def)
  moreover have "counters_ok ?ss (st_jobs (td_base db))"
  proof -
    have cw: "count_where (\<lambda>s. sb_jobId s = x) ss = length (filter (\<lambda>y. y = x) (map sb_jobId ss))" for x ss
      by (simp add: count_where_def filter_map comp_def)
    have "\<exists>j \<in> set (st_jobs (td_base db)). jb_id j = sb_jobId s \<and> jb_tenantId j = sb_tenantId s" if "s \<in> set ?ss" for s
      using mem [OF that] old(2) r new(2) by (auto simp: counters_ok_def same_keys_def)
    then show ?thesis using old(2) by (auto simp: counters_ok_def cw jobs)
  qed
  moreover have "history_ok ?ss (td_events db)"
  proof (rule history_rows [OF old(3)])
    fix s assume s: "s \<in> set (td_submissions db)"
    show "\<exists>s' \<in> set ?ss. sb_id s' = sb_id s \<and> sb_tenantId s' = sb_tenantId s"
    proof (cases "sb_id s = sb_id row")
      case True
      then have "s = row" using only s by simp
      then show ?thesis using r new(2) by (intro bexI [of _ new]) (auto simp: in_update_where same_keys_def)
    next
      case False
      then show ?thesis using s by (intro bexI [of _ s]) (auto simp: in_update_where)
    qed
  qed
  moreover have "plan_ok ?ss pn" if "pn \<in> set ps" for pn
    unfolding plan_ok_def
  proof (intro conjI ballI impI)
    show "\<forall>at new. write_row at (pn_data pn) (pn_row pn) = Inr new \<longrightarrow> submission_ok new \<and> same_keys new (pn_row pn) \<and> sb_updatedAt new = at"
      using old(4) [OF that] by (simp add: plan_ok_def)
    fix s assume s: "s \<in> set ?ss" and i: "sb_id s = sb_id (pn_row pn)"
    show "s = pn_row pn \<or> sb_updatedAt (pn_row pn) < sb_updatedAt s"
    proof (cases "s = new")
      case True
      then have "sb_id row = sb_id (pn_row pn)" using i new(2) by (simp add: same_keys_def)
      then have "row = pn_row pn \<or> sb_updatedAt (pn_row pn) < sb_updatedAt row"
        using old(4) [OF that] r by (auto simp: plan_ok_def)
      then show ?thesis using True new(3) by auto
    next
      case False
      then show ?thesis using mem [OF s] old(4) [OF that] i by (auto simp: plan_ok_def)
    qed
  qed
  ultimately show ?thesis by (auto simp: tracker_ok_def)
qed

lemma foldr_max_snoc: "foldr max (xs @ [m]) (0 :: nat) = max (foldr max xs 0) m"
  by (induction xs) auto

lemma foldr_max_upto: "foldr max [0..<Suc n] (0 :: nat) = n"
proof (induction n)
  case (Suc n)
  have "[0..<Suc (Suc n)] = [0..<Suc n] @ [Suc n]" by simp
  then show ?case using Suc by (simp only: foldr_max_snoc)
qed simp

lemma last_sequence_upto:
  assumes "map se_sequence es = [0..<n]" and "0 < n"
  shows "last_sequence es = n - 1"
proof -
  from assms(2) obtain m where "n = Suc m" by (cases n) auto
  then show ?thesis by (simp only: last_sequence_def assms(1) foldr_max_upto)
qed

text \<open>An event appended with the next number to the history of a present row keeps the invariant.\<close>

lemma event_keeps_ok:
  assumes "tracker_ok (db, ps)" and "insert_event e db = Inr db'"
    and "row \<in> set (td_submissions db)" and "sb_id row = se_submissionId e" and "sb_tenantId row = se_tenantId e"
    and "se_sequence e = length (sequences (se_submissionId e) (td_events db))"
  shows "tracker_ok (db', ps)" and "td_submissions db' = td_submissions db"
    and "td_events db' = td_events db @ [e]"
proof -
  note db' = insert_event_Inr(1) [OF assms(2)]
  have "history_ok (td_submissions db) (td_events db)" using assms(1) by (simp add: tracker_ok_def)
  then have "history_ok (td_submissions db) (td_events db @ [e])"
    by (rule history_insert) (use assms(3-6) in auto)
  then show "tracker_ok (db', ps)"
    using assms(1) by (simp add: tracker_ok_def rows_ok_def db')
qed (use insert_event_Inr(1) [OF assms(2)] in simp_all)

lemma events_of_row:
  assumes "tracker_ok (db, ps)" and "row \<in> set (td_submissions db)"
  shows "events_of (sb_id row) (sb_tenantId row) db = filter (\<lambda>e. se_submissionId e = sb_id row) (td_events db)"
proof -
  have "se_tenantId e = sb_tenantId row" if "e \<in> set (td_events db)" "se_submissionId e = sb_id row" for e
  proof -
    from assms(1) that obtain s where s: "s \<in> set (td_submissions db)" "sb_id s = sb_id row" "sb_tenantId s = se_tenantId e"
      by (auto simp: tracker_ok_def history_ok_def)
    have "inj_on sb_id (set (td_submissions db))" using assms(1) by (simp add: tracker_ok_def rows_ok_def distinct_map)
    then have "s = row" using inj_onD [of sb_id "set (td_submissions db)" s row] s(1,2) assms(2) by simp
    then show ?thesis using s(3) by simp
  qed
  then show ?thesis unfolding events_of_def by (intro filter_cong) auto
qed

lemma record_update_keeps_ok:
  assumes ok: "tracker_ok (db, ps)" and "record_update pn user rid db = Inr db'"
    and row: "row \<in> set (td_submissions db)" "sb_id row = sb_id (pn_row pn)" "sb_tenantId row = sb_tenantId (pn_row pn)"
  shows "tracker_ok (db', ps)" and "td_submissions db' = td_submissions db"
    and "\<exists>n. update_event pn user n rid \<in> set (td_events db')"
proof -
  define es where "es = events_of (sb_id (pn_row pn)) (sb_tenantId (pn_row pn)) db"
  define base where "base = (plain_event (pn_row pn) None ''BASELINE'' 0 ''baseline'')\<lparr> se_snapshot := historySnapshot (pn_row pn) \<rparr>"
  from assms(2) obtain db1 where
    b: "(if es = [] then insert_event base db else ok db) = Inr db1"
    and u: "insert_event (update_event pn user (last_sequence es + 1) rid) db1 = Inr db'"
    unfolding record_update_def Let_def es_def base_def and_then_eq_Inr by blast
  have es: "es = filter (\<lambda>e. se_submissionId e = sb_id (pn_row pn)) (td_events db)"
    using events_of_row [OF ok row(1)] row(2,3) by (simp add: es_def)
  then have seqs: "map se_sequence es = sequences (sb_id (pn_row pn)) (td_events db)" by (simp add: sequences_def)
  have upto: "map se_sequence es = [0..<length es]"
  proof -
    have "history_ok (td_submissions db) (td_events db)" using ok by (simp add: tracker_ok_def)
    then have "sequences (sb_id (pn_row pn)) (td_events db) = [0..<length (sequences (sb_id (pn_row pn)) (td_events db))]"
      unfolding history_ok_def by blast
    then show ?thesis by (simp add: seqs [symmetric])
  qed
  have ue: "se_submissionId (update_event pn user n rid) = sb_id (pn_row pn)"
    "se_tenantId (update_event pn user n rid) = sb_tenantId (pn_row pn)" "se_sequence (update_event pn user n rid) = n" for n
    by (simp_all add: update_event_def plain_event_def)
  have step: "tracker_ok (db1, ps) \<and> td_submissions db1 = td_submissions db
      \<and> length (sequences (sb_id (pn_row pn)) (td_events db1)) = last_sequence es + 1"
  proof (cases "es = []")
    case True
    have bp: "se_submissionId base = sb_id (pn_row pn)" "se_tenantId base = sb_tenantId (pn_row pn)" "se_sequence base = 0"
      by (simp_all add: base_def plain_event_def)
    have "insert_event base db = Inr db1" using b True by simp
    from event_keeps_ok [OF ok this row(1)] show ?thesis
      using bp row(2,3) True seqs by (simp add: sequences_append sequences_one last_sequence_def)
  next
    case False
    then have "db1 = db" using b by simp
    moreover have "last_sequence es = length es - 1"
      using last_sequence_upto [OF upto] False by simp
    moreover have "length (sequences (sb_id (pn_row pn)) (td_events db)) = length es" by (simp add: seqs [symmetric])
    ultimately show ?thesis using ok False by (cases es) auto
  qed
  then have r1: "row \<in> set (td_submissions db1)" using row(1) by simp
  note fin = event_keeps_ok [OF conjunct1 [OF step] u r1]
  show "tracker_ok (db', ps)" using fin(1) ue row(2,3) step by simp
  have "td_submissions db' = td_submissions db1" "td_events db' = td_events db1 @ [update_event pn user (last_sequence es + 1) rid]"
    using insert_event_Inr(1) [OF u] by simp_all
  then show "td_submissions db' = td_submissions db" and "\<exists>n. update_event pn user n rid \<in> set (td_events db')"
    using step by auto
qed

lemma commit_update_facts:
  assumes "commit_update env assess rid pn user db = Inr db'"
  obtains db1 where "write_planned env pn db = Inr db1"
    and "if records_history pn then record_update pn user rid db1 = Inr db' else db' = db1"
  using assms by (auto simp: commit_update_def and_then_eq_Inr split: option.splits if_splits)

lemma commit_keeps_ok:
  assumes ok: "tracker_ok (db, ps)" and pn: "pn \<in> set ps" and c: "commit_update env assess rid pn user db = Inr db'"
  shows "tracker_ok (db', ps)"
    and "\<exists>new. new \<in> set (td_submissions db') \<and> same_keys new (pn_row pn) \<and> sb_updatedAt (pn_row pn) < sb_updatedAt new"
proof -
  from c obtain db1 where w: "write_planned env pn db = Inr db1"
    and r: "if records_history pn then record_update pn user rid db1 = Inr db' else db' = db1"
    by (rule commit_update_facts)
  from ok pn w obtain new where row: "pn_row pn \<in> set (td_submissions db)"
    and wr: "write_row (max (ev_now env) (sb_updatedAt (pn_row pn) + 1)) (pn_data pn) (pn_row pn) = Inr new"
    and db1: "db1 = db\<lparr> td_submissions := update_where (\<lambda>s. sb_id s = sb_id (pn_row pn)) (\<lambda>_. new) (td_submissions db) \<rparr>"
    by (rule write_planned_facts)
  have po: "plan_ok (td_submissions db) pn" using ok pn by (auto simp: tracker_ok_def)
  have new: "submission_ok new" "same_keys new (pn_row pn)"
    "sb_updatedAt new = max (ev_now env) (sb_updatedAt (pn_row pn) + 1)"
    using po wr by (auto simp: plan_ok_def)
  then have newer: "sb_updatedAt (pn_row pn) < sb_updatedAt new" by simp
  have ok1: "tracker_ok (db1, ps)"
    unfolding db1 by (rule replace_keeps_ok [OF ok row new(1,2) newer])
  have in1: "new \<in> set (td_submissions db1)" using row by (auto simp: db1 in_update_where)
  have keys: "sb_id new = sb_id (pn_row pn)" "sb_tenantId new = sb_tenantId (pn_row pn)"
    using new(2) by (simp_all add: same_keys_def)
  show "tracker_ok (db', ps)"
    using r ok1 record_update_keeps_ok(1) [OF ok1 _ in1 keys] by (auto split: if_splits)
  have "td_submissions db' = td_submissions db1"
    using r record_update_keeps_ok(2) [OF ok1 _ in1 keys] by (auto split: if_splits)
  then show "\<exists>new. new \<in> set (td_submissions db') \<and> same_keys new (pn_row pn) \<and> sb_updatedAt (pn_row pn) < sb_updatedAt new"
    using in1 new(2) newer by auto
qed

lemma step_keeps_ok:
  assumes "tracker_step st st'" and "tracker_ok st"
  shows "tracker_ok st'"
  using assms
  by (cases rule: tracker_step.cases)
    (auto dest: create_keeps_ok plan_keeps_ok commit_keeps_ok(1) remove_keeps_ok permanentlyRemove_keeps_ok)

lemma steps_keep_ok:
  assumes "tracker_step\<^sup>*\<^sup>* st st'" and "tracker_ok st"
  shows "tracker_ok st'"
  using assms by (induction rule: rtranclp_induct) (auto intro: step_keeps_ok)

end
