(* ===== verification/SubmissionGuarantees.thy ===== *)
theory SubmissionGuarantees
  imports SubmissionSafety
begin

text \<open>
  The properties of the submissions as a concurrent system, over the invariant of
  \<^verbatim>\<open>SubmissionSafety\<close>: reachable states, updates that never overwrite what they have not seen,
  requests that are safe to repeat, and who sees a submission.
\<close>

section \<open>Superseded updates\<close>

text \<open>A planned update is superseded once the row it was planned for has a later version or is gone.\<close>

definition superseded :: "planned \<Rightarrow> tracker_db \<Rightarrow> bool" where
  "superseded pn db \<longleftrightarrow> (\<forall>s \<in> set (td_submissions db). sb_id s = sb_id (pn_row pn) \<longrightarrow> sb_updatedAt (pn_row pn) < sb_updatedAt s)"

lemma superseded_fails:
  assumes "superseded pn db"
  shows "commit_update env assess requestId pn user db \<noteq> Inr db'"
proof
  assume "commit_update env assess requestId pn user db = Inr db'"
  then obtain db1 where "write_planned env pn db = Inr db1" by (rule commit_update_facts)
  then obtain s where "find_first (same_version pn) (td_submissions db) = Some s"
    by (auto simp: write_planned_def split: option.splits)
  from find_first_Some [OF this] assms show False
    by (auto simp: superseded_def same_version_def)
qed

lemma record_update_rows:
  assumes "record_update pn user requestId db = Inr db'"
  shows "td_submissions db' = td_submissions db"
proof -
  from assms obtain db1 where
    b: "(if events_of (sb_id (pn_row pn)) (sb_tenantId (pn_row pn)) db = []
         then insert_event ((plain_event (pn_row pn) None ''BASELINE'' 0 ''baseline'')
            \<lparr> se_snapshot := historySnapshot (pn_row pn) \<rparr>) db else ok db) = Inr db1"
    and u: "insert_event (update_event pn user
        (last_sequence (events_of (sb_id (pn_row pn)) (sb_tenantId (pn_row pn)) db) + 1) requestId) db1 = Inr db'"
    unfolding record_update_def Let_def and_then_eq_Inr by blast
  have "td_submissions db1 = td_submissions db"
    using b by (auto split: if_splits dest!: insert_event_Inr(1))
  then show ?thesis using insert_event_Inr(1) [OF u] by simp
qed

text \<open>The rows after a commit: the new version of the planned row, and the others.\<close>

lemma commit_rows:
  assumes ok: "tracker_ok (db, ps)" and pn: "pn \<in> set ps" and c: "commit_update env assess requestId pn user db = Inr db'"
    and s: "s \<in> set (td_submissions db')"
  shows "(s \<in> set (td_submissions db) \<and> sb_id s \<noteq> sb_id (pn_row pn))
    \<or> (sb_id s = sb_id (pn_row pn) \<and> sb_updatedAt (pn_row pn) < sb_updatedAt s \<and> pn_row pn \<in> set (td_submissions db))"
proof -
  from c obtain db1 where w: "write_planned env pn db = Inr db1"
    and r: "if records_history pn then record_update pn user requestId db1 = Inr db' else db' = db1"
    by (rule commit_update_facts)
  from ok pn w obtain new where row: "pn_row pn \<in> set (td_submissions db)"
    and wr: "write_row (max (ev_now env) (sb_updatedAt (pn_row pn) + 1)) (pn_data pn) (pn_row pn) = Inr new"
    and db1: "db1 = db\<lparr> td_submissions := update_where (\<lambda>s. sb_id s = sb_id (pn_row pn)) (\<lambda>_. new) (td_submissions db) \<rparr>"
    by (rule write_planned_facts)
  have new: "sb_id new = sb_id (pn_row pn)" "sb_updatedAt (pn_row pn) < sb_updatedAt new"
    using write_row_Inr(4,5) [OF wr] by simp_all
  have "td_submissions db' = td_submissions db1"
    using r record_update_rows by (auto split: if_splits)
  then show ?thesis using s row new by (auto simp: db1 in_update_where split: if_splits)
qed

lemma commit_supersedes:
  assumes ok: "tracker_ok (db, ps)" and pn: "pn \<in> set ps" "pn' \<in> set ps" "sb_id (pn_row pn') = sb_id (pn_row pn)"
    and c: "commit_update env assess requestId pn user db = Inr db'"
  shows "superseded pn' db'"
  unfolding superseded_def
proof (intro ballI impI)
  fix s assume s: "s \<in> set (td_submissions db')" and i: "sb_id s = sb_id (pn_row pn')"
  from commit_rows [OF ok pn(1) c s] i pn(3)
  have n: "sb_updatedAt (pn_row pn) < sb_updatedAt s" and row: "pn_row pn \<in> set (td_submissions db)" by auto
  have "plan_ok (td_submissions db) pn'" using ok pn(2) by (auto simp: tracker_ok_def)
  then have "pn_row pn = pn_row pn' \<or> sb_updatedAt (pn_row pn') < sb_updatedAt (pn_row pn)"
    using row pn(3) unfolding plan_ok_def by metis
  then show "sb_updatedAt (pn_row pn') < sb_updatedAt s" using n by auto
qed

lemma removed_rows:
  "submissions_remove i t db = Inr db' \<or> permanentlyRemove i t actor db = Inr db' \<Longrightarrow>
    set (td_submissions db') \<subseteq> set (td_submissions db)"
  by (auto simp: submissions_remove_def permanentlyRemove_def and_then_eq_Inr delete_submission_row_def
      delete_where_def split: option.splits if_splits)

lemma step_superseded:
  assumes "tracker_step st st'" and "tracker_ok st" and "pn \<in> set (snd st)" and "superseded pn (fst st)"
  shows "pn \<in> set (snd st') \<and> superseded pn (fst st')"
  using assms
proof (cases rule: tracker_step.cases)
  case (create ce newId t jobId candidateId recruiterId dto user db row db' ps)
  have "sb_id row = newId" "td_submissions db' = td_submissions db @ [row]"
    using submissions_create_facts [of ce newId t jobId candidateId recruiterId dto user db row db'] create(3) by simp_all
  then show ?thesis using assms(3,4) create by (auto simp: superseded_def)
next
  case (commit pn2 ps env assess requestId user db db')
  have "superseded pn db'"
    unfolding superseded_def
  proof (intro ballI impI)
    fix s assume s: "s \<in> set (td_submissions db')" and i: "sb_id s = sb_id (pn_row pn)"
    have "tracker_ok (db, ps)" using assms(2) commit by simp
    from commit_rows [OF this commit(3,4) s] i assms(4)
    show "sb_updatedAt (pn_row pn) < sb_updatedAt s"
      using commit(1) by (auto simp: superseded_def)
  qed
  then show ?thesis using assms(3) commit by simp
next
  case (remove i t db db' ps)
  then have "set (td_submissions db') \<subseteq> set (td_submissions db)" using removed_rows by fastforce
  then show ?thesis using assms(3,4) remove by (auto simp: superseded_def)
next
  case (remove_permanently i t actor db db' ps)
  then have "set (td_submissions db') \<subseteq> set (td_submissions db)" using removed_rows by fastforce
  then show ?thesis using assms(3,4) remove_permanently by (auto simp: superseded_def)
qed (auto simp: superseded_def)

lemma steps_superseded:
  assumes "tracker_step\<^sup>*\<^sup>* st st'" and "tracker_ok st" and "pn \<in> set (snd st)" and "superseded pn (fst st)"
  shows "superseded pn (fst st')"
proof -
  have "tracker_ok st' \<and> pn \<in> set (snd st') \<and> superseded pn (fst st')"
    using assms by (induction rule: rtranclp_induct) (auto intro: step_keeps_ok dest: step_superseded)
  then show ?thesis by simp
qed

section \<open>Recorded requests\<close>

text \<open>The history grows by the event of the update, whose request identifier is new.\<close>

lemma commit_event:
  assumes "commit_update env assess requestId pn user db = Inr db'" and "td_events db' \<noteq> td_events db"
  obtains base n where "td_events db' = td_events db @ base @ [update_event pn user n requestId]"
    and "\<forall>e \<in> set (td_events db @ base). se_submissionId e = sb_id (pn_row pn) \<longrightarrow>
      se_requestId e \<noteq> se_requestId (update_event pn user n requestId)"
proof -
  let ?es = "events_of (sb_id (pn_row pn)) (sb_tenantId (pn_row pn))"
  from assms(1) obtain db1 where w: "write_planned env pn db = Inr db1"
    and r: "if records_history pn then record_update pn user requestId db1 = Inr db' else db' = db1"
    by (rule commit_update_facts)
  have db1: "td_events db1 = td_events db"
    using w by (auto simp: write_planned_def and_then_eq_Inr split: option.splits)
  then have "record_update pn user requestId db1 = Inr db'" using r assms(2) by (auto split: if_splits)
  then obtain db2 where
    b: "(if ?es db1 = [] then insert_event ((plain_event (pn_row pn) None ''BASELINE'' 0 ''baseline'')
          \<lparr> se_snapshot := historySnapshot (pn_row pn) \<rparr>) db1 else ok db1) = Inr db2"
    and u: "insert_event (update_event pn user (last_sequence (?es db1) + 1) requestId) db2 = Inr db'"
    unfolding record_update_def Let_def and_then_eq_Inr by blast
  have "\<exists>base. td_events db2 = td_events db @ base"
  proof (cases "?es db1 = []")
    case True
    then show ?thesis using b db1 insert_event_Inr(1) [of _ db1 db2] by fastforce
  next
    case False
    then show ?thesis using b db1 by simp
  qed
  then obtain base where base: "td_events db2 = td_events db @ base" by blast
  have sid: "se_submissionId (update_event pn user n requestId) = sb_id (pn_row pn)" for n
    by (simp add: update_event_def plain_event_def)
  show thesis
    using that [of base "last_sequence (?es db1) + 1"] insert_event_Inr [OF u] base sid by (simp add: append_assoc)
qed

lemma recorded_request:
  assumes "submissions_update env hash assess rid i dto t user branchId db = Inr db'" and "td_events db' \<noteq> td_events db"
    and "dto_field dto ''requestId'' = Some (JStr r)" and "r \<noteq> []"
  obtains e where "find_first (\<lambda>e. se_requestId e = r) (events_of i t db') = Some e"
proof -
  from assms(1,2) obtain pn where p: "plan_update env hash db i dto t user branchId = Inr (Some pn)"
    and c: "commit_update env assess rid pn user db = Inr db'"
    by (auto simp: submissions_update_def and_then_eq_Inr split: option.splits)
  from p obtain v where v: "submissions_findOne db t user branchId i = Inr v" and pn: "pn_row pn = vs_row v" "pn_dto pn = dto"
    by (rule plan_update_facts) auto
  have row: "sb_id (pn_row pn) = i" "sb_tenantId (pn_row pn) = t"
    using submission_by_Some [OF findOne_row(1) [OF v]] pn by simp_all
  from c assms(2) obtain base n where ev: "td_events db' = td_events db @ base @ [update_event pn user n rid]"
    by (rule commit_event)
  have u: "se_requestId (update_event pn user n rid) = r" "se_submissionId (update_event pn user n rid) = i"
      "se_tenantId (update_event pn user n rid) = t"
    using row assms(3,4) pn by (simp_all add: update_event_def plain_event_def or_else_def)
  then have "update_event pn user n rid \<in> set (events_of i t db')" by (simp add: ev events_of_def)
  then have "find_first (\<lambda>e. se_requestId e = r) (events_of i t db') \<noteq> None"
    using u(1) by (auto simp: find_first_None)
  then show thesis using that by blast
qed

lemma recorded_no_write:
  assumes "find_first (\<lambda>e. se_requestId e = r) (events_of i t db) = Some e"
    and "dto_field dto ''requestId'' = Some (JStr r)" and "r \<noteq> []"
    and "submissions_update env hash assess rid i dto t user branchId db = Inr db'"
  shows "db' = db"
proof -
  from assms(3) obtain c cs where r: "r = c # cs" by (cases r) auto
  have "replayed hash db i t user dto \<noteq> Inr False"
    using assms(1,2) by (simp add: replayed_def r)
  then have "plan_update env hash db i dto t user branchId \<noteq> Inr (Some pn)" for pn
    using plan_update_facts by metis
  then show ?thesis
    using assms(4) by (auto simp: submissions_update_def and_then_eq_Inr split: option.splits)
qed

section \<open>Who sees a submission\<close>

lemma membership_Some:
  "membership db t i = Some m \<Longrightarrow> m \<in> set (st_users db) \<and> us_tenantId m = t \<and> us_isActive m \<and> us_isApproved m
     \<and> (truthy i \<longrightarrow> i = Some (us_id m))"
  by (auto simp: membership_def if_given_def truthy_def dest: find_first_Some split: option.splits)

lemma unit_scope_confined:
  assumes "unit_office_scope base t user sc0 = Inr sc1" and "branch_office_scope base t user branchId sc1 = Inr sc" and "truthy (a_dbId user)"
    and u: "''unit_admin:manage'' \<in> set (a_permissions user)
      \<and> \<not> includes_any (a_permissions user) [''tenant:manage'', ''tenant:settings'', ''platform:manage'', ''branch_admin:manage'']"
    and "if_given (os_jobBranch sc) (\<lambda>b. jb_branchId j = Some b)" and "if_given (os_jobUnit sc) (\<lambda>n. jb_businessUnitId j = Some n)"
  shows "\<exists>m \<in> set (st_users base). a_dbId user = Some (us_id m) \<and> us_tenantId m = t \<and> us_isActive m
        \<and> jb_branchId j = us_branchId m \<and> jb_businessUnitId j = us_businessUnitId m"
proof -
  let ?m = "membership base t (a_dbId user)"
  have nb: "''branch_admin:manage'' \<notin> set (a_permissions user)" using u by (auto simp: includes_any_def)
  then have sc: "sc = sc1" using assms(2) by (simp add: branch_office_scope_def)
  have "truthy (member_branch ?m) \<and> truthy (member_unit ?m)
      \<and> sc1 = \<lparr> os_jobBranch = member_branch ?m, os_jobUnit = member_unit ?m, os_scopeBranch = member_branch ?m \<rparr>"
    using assms(1) u by (auto simp: unit_office_scope_def Let_def split: if_splits)
  moreover from this obtain m where m: "?m = Some m" by (cases ?m) (auto simp: member_branch_def truthy_def)
  ultimately have "jb_branchId j = us_branchId m" "jb_businessUnitId j = us_businessUnitId m"
    using assms(5,6) sc by (auto simp: if_given_def member_branch_def member_unit_def truthy_def split: option.splits)
  then show ?thesis using membership_Some [OF m] assms(3) by blast
qed

lemma branch_scope_confined:
  assumes "branch_office_scope base t user branchId sc1 = Inr sc" and "truthy (a_dbId user)"
    and u: "''branch_admin:manage'' \<in> set (a_permissions user) \<and> \<not> includes_any (a_permissions user) tenant_keys"
    and "if_given (os_jobBranch sc) (\<lambda>b. jb_branchId j = Some b)"
  shows "\<exists>m \<in> set (st_users base). a_dbId user = Some (us_id m) \<and> us_tenantId m = t \<and> us_isActive m \<and> jb_branchId j = us_branchId m"
proof -
  let ?m = "membership base t (a_dbId user)"
  have "truthy (member_branch ?m) \<and> os_jobBranch sc = member_branch ?m"
    using assms(1) u by (auto simp: branch_office_scope_def Let_def split: if_splits)
  moreover from this obtain m where m: "?m = Some m" by (cases ?m) (auto simp: member_branch_def truthy_def)
  ultimately have "jb_branchId j = us_branchId m"
    using assms(4) by (auto simp: if_given_def member_branch_def truthy_def split: option.splits)
  then show ?thesis using membership_Some [OF m] assms(2) by blast
qed

lemma findOne_checks:
  assumes "submissions_findOne db t user branchId i = Inr v"
  obtains sc0 sc where
    "unit_office_scope (td_base db) t user \<lparr> os_jobBranch = None, os_jobUnit = None, os_scopeBranch = a_branchId user \<rparr> = Inr sc0"
    and "branch_office_scope (td_base db) t user branchId sc0 = Inr sc" and "truthy (a_dbId user)"
    and "\<not> (truthy (a_tenantId user) \<and> a_tenantId user \<noteq> Some t)" and "jb_deletedAt (vs_job v) = None"
    and "if_given (os_jobBranch sc) (\<lambda>b. jb_branchId (vs_job v) = Some b)"
    and "if_given (os_jobUnit sc) (\<lambda>n. jb_businessUnitId (vs_job v) = Some n)"
    and "view_condition (td_base db) t user (vs_row v) (vs_job v)"
  using assms that
  by (auto simp: submissions_findOne_def Let_def and_then_eq_Inr dest!: find_first_Some split: if_splits option.splits)

section \<open>A database for the witnesses\<close>

definition sample_db :: tracker_db where
  "sample_db = \<lparr> td_base = one_job\<lparr> st_jobs := map (\<lambda>j. j\<lparr> jb_submissionDone := 1 \<rparr>) (st_jobs one_job) \<rparr>,
     td_candidates = [\<lparr> cd_id = ''c1'', cd_tenantId = Some ''t'', cd_deletedAt = None, cd_skills = [], cd_linkedinUrl = None,
       cd_preferredLocations = [], cd_currentCtc = None, cd_expectedCtc = None, cd_ctcCurrency = None, cd_ctcTerm = None \<rparr>],
     td_submissions = [sample_submission], td_events = [], td_remarks = [] \<rparr>"

definition sample_user :: auth_user where
  "sample_user = mk_user ''h1'' [''*''] ''t'' None None None"

definition sample_dto :: dto where
  "sample_dto = [(''requestId'', JStr ''00000000-0000-0000-0000-000000000001''), (''l1Status'', JStr ''CLEARED'')]"

definition sample_update :: "tracker_db \<Rightarrow> tracker_db result" where
  "sample_update db = submissions_update sample_env (\<lambda>_. ''hash'') (\<lambda>_ _. None) ''e1'' ''s1'' sample_dto ''t'' sample_user None db"

lemma sample_db_ok: "tracker_ok (sample_db, [])"
  using sample_submission_ok
  by (auto simp: tracker_ok_def rows_ok_def sample_db_def counters_ok_def count_where_def one_job_def two_pods_def
      empty_store_def history_ok_def sequences_def sample_submission_def)

lemma sample_plan:
  obtains pn where "plan_update sample_env (\<lambda>_. ''hash'') sample_db ''s1'' sample_dto ''t'' sample_user None = ok (Some pn)"
    and "case commit_update sample_env (\<lambda>_ _. None) ''e1'' pn sample_user sample_db of
      Inl _ \<Rightarrow> False | Inr db \<Rightarrow> length (td_events db) = 2 \<and> map (\<lambda>s. rd_status (sb_round s L1)) (td_submissions db) = [Some ''CLEARED'']"
proof -
  have "case plan_update sample_env (\<lambda>_. ''hash'') sample_db ''s1'' sample_dto ''t'' sample_user None of
      Inr (Some pn) \<Rightarrow> (case commit_update sample_env (\<lambda>_ _. None) ''e1'' pn sample_user sample_db of
        Inl _ \<Rightarrow> False | Inr db \<Rightarrow> length (td_events db) = 2 \<and> map (\<lambda>s. rd_status (sb_round s L1)) (td_submissions db) = [Some ''CLEARED''])
      | _ \<Rightarrow> False" by code_simp
  then show thesis using that by (auto split: sum.splits option.splits)
qed

text \<open>The witnesses' plan, its commit, and the state it leads to.\<close>

lemma sample_run:
  obtains pn db where "plan_update sample_env (\<lambda>_. ''hash'') sample_db ''s1'' sample_dto ''t'' sample_user None = ok (Some pn)"
    and "commit_update sample_env (\<lambda>_ _. None) ''e1'' pn sample_user sample_db = ok db"
    and "length (td_events db) = 2" and "sample_update sample_db = ok db"
proof -
  obtain pn where p: "plan_update sample_env (\<lambda>_. ''hash'') sample_db ''s1'' sample_dto ''t'' sample_user None = ok (Some pn)"
    and c: "case commit_update sample_env (\<lambda>_ _. None) ''e1'' pn sample_user sample_db of
      Inl _ \<Rightarrow> False | Inr db \<Rightarrow> length (td_events db) = 2 \<and> map (\<lambda>s. rd_status (sb_round s L1)) (td_submissions db) = [Some ''CLEARED'']"
    by (rule sample_plan)
  from c obtain db where "commit_update sample_env (\<lambda>_ _. None) ''e1'' pn sample_user sample_db = ok db" "length (td_events db) = 2"
    by (auto split: sum.splits)
  then show thesis using that [of pn db] p by (simp add: sample_update_def submissions_update_def)
qed

section \<open>Properties\<close>

text \<open>C1: However the creations, updates and deletions of submissions interleave, and however late a
  checked update commits, every reachable state keeps each submission within the workflow, has at
  most one submission of a candidate per job, counts the submissions of every job exactly, and keeps
  a history that is numbered without gaps and belongs to existing submissions.\<close>

theorem reachable_submissions_ok:
  assumes "tracker_step\<^sup>*\<^sup>* (db, ps) (db', ps')" and "tracker_ok (db, ps)"
  shows "distinct (map sub_key (td_submissions db'))
    \<and> (\<forall>s \<in> set (td_submissions db'). submission_ok s)
    \<and> (\<forall>j \<in> set (st_jobs (td_base db')). jb_submissionDone j = int (count_where (\<lambda>s. sb_jobId s = jb_id j) (td_submissions db')))
    \<and> (\<forall>i. sequences i (td_events db') = [0..<length (sequences i (td_events db'))])
    \<and> (\<forall>e \<in> set (td_events db'). \<exists>s \<in> set (td_submissions db'). sb_id s = se_submissionId e)"
  using steps_keep_ok [OF assms] unfolding tracker_ok_def rows_ok_def counters_ok_def history_ok_def by auto

lemma reachable_submissions_ok_witness:
  "\<exists>db' ps'. tracker_step\<^sup>*\<^sup>* (sample_db, []) (db', ps') \<and> length (td_events db') = 2
    \<and> sequences ''s1'' (td_events db') = [0..<length (sequences ''s1'' (td_events db'))]"
proof -
  obtain pn db where p: "plan_update sample_env (\<lambda>_. ''hash'') sample_db ''s1'' sample_dto ''t'' sample_user None = ok (Some pn)"
    and c: "commit_update sample_env (\<lambda>_ _. None) ''e1'' pn sample_user sample_db = ok db" and l: "length (td_events db) = 2"
    by (rule sample_run)
  have "tracker_step (sample_db, []) (sample_db, [pn])" by (rule tracker_step.plan [OF p])
  moreover have "tracker_step (sample_db, [pn]) (db, [pn])" by (rule tracker_step.commit [OF _ c]) simp
  ultimately have "tracker_step\<^sup>*\<^sup>* (sample_db, []) (db, [pn])" by (meson rtranclp.simps)
  with reachable_submissions_ok [OF this sample_db_ok] l show ?thesis by blast
qed

text \<open>C4: No update is lost: of two updates that were checked against the same submission, once one
  has committed the other can never commit, whatever happens in between.\<close>

theorem no_lost_update:
  assumes "tracker_ok (db, ps)" and "pn \<in> set ps" and "pn' \<in> set ps" and "sb_id (pn_row pn') = sb_id (pn_row pn)"
    and "commit_update env assess requestId pn user db = ok db1"
    and "tracker_step\<^sup>*\<^sup>* (db1, ps) (db2, ps2)"
  shows "\<not> succeeds (commit_update env' assess' requestId' pn' user' db2)"
proof -
  have "tracker_step (db, ps) (db1, ps)" by (rule tracker_step.commit [OF assms(2,5)])
  then have ok: "tracker_ok (db1, ps)" by (rule step_keeps_ok [OF _ assms(1)])
  have "superseded pn' db1" using commit_supersedes [OF assms(1-4)] assms(5) by simp
  with steps_superseded [OF assms(6) ok] assms(3) have "superseded pn' db2" by simp
  from superseded_fails [OF this] show ?thesis by (auto simp: succeeds_def split: sum.splits)
qed

lemma no_lost_update_witness:
  "\<exists>pn db. commit_update sample_env (\<lambda>_ _. None) ''e1'' pn sample_user sample_db = ok db
    \<and> \<not> succeeds (commit_update sample_env (\<lambda>_ _. None) ''e2'' pn sample_user db)"
proof -
  obtain pn db where p: "plan_update sample_env (\<lambda>_. ''hash'') sample_db ''s1'' sample_dto ''t'' sample_user None = ok (Some pn)"
    and c: "commit_update sample_env (\<lambda>_ _. None) ''e1'' pn sample_user sample_db = ok db"
    by (rule sample_run)
  have "tracker_step (sample_db, []) (sample_db, [pn])" by (rule tracker_step.plan [OF p])
  then have "tracker_ok (sample_db, [pn])" by (rule step_keeps_ok [OF _ sample_db_ok])
  from no_lost_update [OF this _ _ _ c rtranclp.rtrancl_refl] c show ?thesis by fastforce
qed

text \<open>C8: A save is safe to repeat: once the history has recorded a save of a submission under a request
  identifier, no later save of it under that identifier changes anything, by whomever and with
  whatever content, and however the history has grown since.\<close>

theorem repeated_request_no_change:
  assumes "submissions_update env hash assess rid i dto t user branchId db = ok db1" and "td_events db1 \<noteq> td_events db"
    and "dto_field dto ''requestId'' = Some (JStr r)" and "r \<noteq> []"
    and "td_events db2 = td_events db1 @ later_events" and "dto_field dto' ''requestId'' = Some (JStr r)"
    and "submissions_update env' hash assess' rid' i dto' t user' branchId' db2 = ok db3"
  shows "db3 = db2"
proof -
  have u: "submissions_update env hash assess rid i dto t user branchId db = Inr db1" using assms(1) by simp
  obtain e where e: "find_first (\<lambda>e. se_requestId e = r) (events_of i t db1) = Some e"
    by (rule recorded_request [OF u assms(2-4)])
  have "events_of i t db2 = events_of i t db1 @ filter (\<lambda>e. se_submissionId e = i \<and> se_tenantId e = t) later_events"
    by (simp add: events_of_def assms(5))
  then have "find_first (\<lambda>e. se_requestId e = r) (events_of i t db2) = Some e" using e by (simp add: find_first_append)
  from recorded_no_write [OF this assms(6,4)] assms(7) show ?thesis by simp
qed

lemma repeated_request_no_change_witness:
  "\<exists>db1. sample_update sample_db = ok db1 \<and> (\<forall>db3. sample_update db1 = ok db3 \<longrightarrow> db3 = db1)"
proof -
  obtain pn db1 where l: "length (td_events db1) = 2" and u: "sample_update sample_db = ok db1" by (rule sample_run)
  have ne: "td_events db1 \<noteq> td_events sample_db" using l by (auto simp: sample_db_def)
  have f: "dto_field sample_dto ''requestId'' = Some (JStr ''00000000-0000-0000-0000-000000000001'')"
    by (simp add: sample_dto_def dto_field_def)
  have "db3 = db1" if "sample_update db1 = ok db3" for db3
    using repeated_request_no_change [OF u [unfolded sample_update_def] ne f _ _ f that [unfolded sample_update_def], of "[]"]
    by simp
  then show ?thesis using u by blast
qed

text \<open>C6: A submission is shown only to a caller of its workspace with a viewing permission; a Unit Admin
  sees the jobs of the own current branch and unit only, a Branch Admin those of the own current
  branch; and without the right to see every submission, the caller is the job's account manager, its
  creator inside the unit, the submitting recruiter or that recruiter's reviewer.\<close>

theorem visible_submission_confined:
  assumes "submissions_findOne db t user branchId i = ok v"
  shows "vs_row v \<in> set (td_submissions db) \<and> sb_id (vs_row v) = i \<and> sb_tenantId (vs_row v) = t
      \<and> jb_tenantId (vs_job v) = t \<and> jb_id (vs_job v) = sb_jobId (vs_row v) \<and> jb_deletedAt (vs_job v) = None
      \<and> (truthy (a_tenantId user) \<longrightarrow> a_tenantId user = Some t)
    \<and> (''unit_admin:manage'' \<in> set (a_permissions user)
      \<and> \<not> includes_any (a_permissions user) [''tenant:manage'', ''tenant:settings'', ''platform:manage'', ''branch_admin:manage''] \<longrightarrow>
      (\<exists>m \<in> set (st_users (td_base db)). a_dbId user = Some (us_id m) \<and> us_tenantId m = t \<and> us_isActive m
        \<and> jb_branchId (vs_job v) = us_branchId m \<and> jb_businessUnitId (vs_job v) = us_businessUnitId m))
    \<and> (''branch_admin:manage'' \<in> set (a_permissions user) \<and> \<not> includes_any (a_permissions user) tenant_keys \<longrightarrow>
      (\<exists>m \<in> set (st_users (td_base db)). a_dbId user = Some (us_id m) \<and> us_tenantId m = t \<and> us_isActive m
        \<and> jb_branchId (vs_job v) = us_branchId m))
    \<and> (\<not> can_view_all (a_permissions user) \<longrightarrow>
      jb_accountManagerId (vs_job v) = a_dbId user \<or> sb_recruiterId (vs_row v) = a_dbId user
        \<or> recruiter_reviewer (td_base db) (vs_row v) = a_dbId user \<or> creator_review (td_base db) t user (vs_job v))"
proof -
  have v: "submissions_findOne db t user branchId i = Inr v" using assms by simp
  from v obtain sc0 sc where s0: "unit_office_scope (td_base db) t user \<lparr> os_jobBranch = None, os_jobUnit = None, os_scopeBranch = a_branchId user \<rparr> = Inr sc0"
    and s1: "branch_office_scope (td_base db) t user branchId sc0 = Inr sc" and id: "truthy (a_dbId user)"
    and tn: "\<not> (truthy (a_tenantId user) \<and> a_tenantId user \<noteq> Some t)" and del: "jb_deletedAt (vs_job v) = None"
    and br: "if_given (os_jobBranch sc) (\<lambda>b. jb_branchId (vs_job v) = Some b)"
    and un: "if_given (os_jobUnit sc) (\<lambda>n. jb_businessUnitId (vs_job v) = Some n)"
    and vc: "view_condition (td_base db) t user (vs_row v) (vs_job v)"
    by (rule findOne_checks)
  have row: "vs_row v \<in> set (td_submissions db)" "sb_id (vs_row v) = i" "sb_tenantId (vs_row v) = t"
    using submission_by_Some [OF findOne_row(1) [OF v]] by simp_all
  have "jb_accountManagerId (vs_job v) = a_dbId user \<or> sb_recruiterId (vs_row v) = a_dbId user
        \<or> recruiter_reviewer (td_base db) (vs_row v) = a_dbId user \<or> creator_review (td_base db) t user (vs_job v)"
    if "\<not> can_view_all (a_permissions user)"
    using vc that by (auto simp: view_condition_def Let_def split: if_splits)
  moreover note unit_scope_confined [OF s0 s1 id _ br un] branch_scope_confined [OF s1 id _ br]
  ultimately show ?thesis using row findOne_row(4,5) [OF v] tn del by blast
qed

lemma visible_submission_confined_witness:
  "\<exists>v. submissions_findOne sample_db ''t'' (mk_user ''r3'' [''submission:view'', ''unit_admin:manage''] ''t'' None None None) None ''s1'' = ok v
    \<and> (\<exists>m \<in> set (st_users (td_base sample_db)). jb_businessUnitId (vs_job v) = us_businessUnitId m)"
proof -
  let ?u = "mk_user ''r3'' [''submission:view'', ''unit_admin:manage''] ''t'' None None None"
  have "case submissions_findOne sample_db ''t'' ?u None ''s1'' of Inl _ \<Rightarrow> False | Inr _ \<Rightarrow> True" by code_simp
  then obtain v where v: "submissions_findOne sample_db ''t'' ?u None ''s1'' = ok v" by (auto split: sum.splits)
  have "''unit_admin:manage'' \<in> set (a_permissions ?u)
      \<and> \<not> includes_any (a_permissions ?u) [''tenant:manage'', ''tenant:settings'', ''platform:manage'', ''branch_admin:manage'']"
    by (simp add: mk_user_def includes_any_def)
  from visible_submission_confined [OF v] this v show ?thesis by blast
qed

end
