(* ===== verification/Remarks.thy ===== *)
theory Remarks
  imports Submissions
begin

text \<open>
  The remark templates of the tracker (\<^verbatim>\<open>createCustomRemark\<close> and \<^verbatim>\<open>deleteCustomRemark\<close> of
  \<^verbatim>\<open>recruiter-submissions.service.ts\<close>): a branch keeps its own, and templates for all workspaces
  are the platform's.  Listing them is a query and is not modelled.
\<close>

section \<open>Operations\<close>

definition is_global_admin :: "auth_user option \<Rightarrow> bool" where
  "is_global_admin user = (case user of None \<Rightarrow> False
     | Some u \<Rightarrow> includes_any (a_permissions u) [''system:admin'', ''platform:manage''])"

definition may_manage_branch_remarks :: "auth_user option \<Rightarrow> string option \<Rightarrow> bool" where
  "may_manage_branch_remarks user branchId =
    (let ps = (case user of None \<Rightarrow> [] | Some u \<Rightarrow> a_permissions u);
         tenantManager = includes_any ps [''tenant:settings'', ''tenant:manage'', ''platform:manage'']
     in tenantManager \<or> (includes_any ps [''branch:edit'', ''branch_admin:manage''] \<and> Option.bind user a_branchId = branchId))"

text \<open>\<^verbatim>\<open>remarkText.split(/[\n,]+/).map(trim).filter(Boolean)\<close>.\<close>

definition remark_texts :: "string \<Rightarrow> string list" where
  "remark_texts s = location_list (map (\<lambda>c. if c = CHR 0x0A then CHR '','' else c) s)"

definition next_remark_id :: "remark_template list \<Rightarrow> int" where
  "next_remark_id rs = 1 + foldr max (map rt_id rs) 0"

primrec insert_remarks :: "(int \<Rightarrow> string \<Rightarrow> remark_template) \<Rightarrow> string list \<Rightarrow> remark_template list \<Rightarrow> remark_template list" where
  "insert_remarks mk [] rs = rs"
| "insert_remarks mk (x # xs) rs = insert_remarks mk xs (rs @ [mk (next_remark_id rs) x])"

definition createCustomRemark ::
  "uuid \<Rightarrow> string \<Rightarrow> string \<Rightarrow> string \<Rightarrow> string option \<Rightarrow> string option \<Rightarrow> bool \<Rightarrow> auth_user option
    \<Rightarrow> tracker_db \<Rightarrow> tracker_db result" where
  "createCustomRemark t stage remarkText remarkType branchId createdBy isGlobal user db =
    (if stage = [] \<or> trim remarkText = [] then throw (BadRequest ''Stage and remarkText are required.'')
     else (let cleanBranchId = (case branchId of None \<Rightarrow> None | Some b \<Rightarrow> if trim b = [] then None else Some (trim b));
               cleanIsGlobal = (isGlobal \<or> cleanBranchId = None);
               texts = remark_texts remarkText;
               mk = (\<lambda>i text. \<lparr> rt_id = i, rt_tenantId = t, rt_stage = trim (lower stage), rt_text = text,
                       rt_type = trim (upper (if remarkType = [] then ''GENERAL'' else remarkType)),
                       rt_branchId = cleanBranchId, rt_isGlobal = cleanIsGlobal,
                       rt_createdBy = or_empty (or_else createdBy (Some ''admin'')) \<rparr>)
           in if \<not> cleanIsGlobal \<and> \<not> may_manage_branch_remarks user cleanBranchId
              then throw (Forbidden ''You can only manage remarks for your assigned branch.'')
              else if \<not> cleanIsGlobal \<and> branch_by (or_empty cleanBranchId) t (td_base db) = None
              then throw (NotFound ''Branch not found.'')
              else if cleanIsGlobal \<and> \<not> is_global_admin user
              then throw (Forbidden ''Access denied. Universal global remark templates can only be created by a Global Administrator (SUPER_ADMIN).'')
              else ok (db\<lparr> td_remarks := insert_remarks mk (if texts = [] then [trim remarkText] else texts) (td_remarks db) \<rparr>)))"

definition deleteCustomRemark :: "uuid \<Rightarrow> int \<Rightarrow> auth_user option \<Rightarrow> tracker_db \<Rightarrow> tracker_db result" where
  "deleteCustomRemark t i user db =
    (if i \<le> 0 \<or> 2147483647 < i then throw (BadRequest ''Template ID must be a positive integer.'')
     else case find_first (\<lambda>r. rt_id r = i) (td_remarks db) of
       None \<Rightarrow> throw (NotFound (''Custom remark template #'' @ show_nat 10 (nat i) @ '' not found.''))
     | Some r \<Rightarrow>
        if rt_isGlobal r \<or> rt_branchId r = None
        then (if \<not> is_global_admin user then throw (Forbidden ''Access denied. Global remarks templates can only be deleted by a Global Administrator (SUPER_ADMIN). Tenant administrators cannot delete global remarks.'')
              else ok (db\<lparr> td_remarks := delete_where (\<lambda>r. rt_id r = i) (td_remarks db) \<rparr>))
        else if \<not> may_manage_branch_remarks user (rt_branchId r)
        then throw (Forbidden ''You can only manage remarks for your assigned branch.'')
        else if rt_tenantId r \<noteq> [] \<and> rt_tenantId r \<noteq> t
        then throw (Forbidden ''Access denied. You cannot delete remarks belonging to another tenant.'')
        else ok (db\<lparr> td_remarks := delete_where (\<lambda>r. rt_id r = i) (td_remarks db) \<rparr>))"

section \<open>Identifiers\<close>

lemma foldr_max_le: "x \<in> set xs \<Longrightarrow> x \<le> foldr max xs (0 :: int)"
  by (induction xs) auto

lemma next_remark_id_fresh: "next_remark_id rs \<notin> rt_id ` set rs"
  using foldr_max_le [of _ "map rt_id rs"] by (fastforce simp: next_remark_id_def)

text \<open>What inserting does: new templates at the end, with new identifiers.\<close>

lemma insert_remarks_facts:
  assumes "\<And>i x. rt_id (mk i x) = i" and "distinct (map rt_id rs)" and that: "\<And>i x. rt_text (mk i x) = rt_text (mk 0 x)"
  shows "\<exists>new. insert_remarks mk xs rs = rs @ new \<and> distinct (map rt_id (rs @ new)) \<and> map rt_text new = map (\<lambda>x. rt_text (mk 0 x)) xs
    \<and> (\<forall>r \<in> set new. \<exists>i x. r = mk i x)"
  using assms(2)
proof (induction xs arbitrary: rs)
  case (Cons x xs)
  let ?r = "mk (next_remark_id rs) x"
  have "distinct (map rt_id (rs @ [?r]))"
    using Cons.prems assms(1) next_remark_id_fresh [of rs] by simp
  from Cons.IH [OF this] obtain new where
    n: "insert_remarks mk xs (rs @ [?r]) = (rs @ [?r]) @ new" "distinct (map rt_id ((rs @ [?r]) @ new))"
      "map rt_text new = map (\<lambda>x. rt_text (mk 0 x)) xs" "\<forall>r \<in> set new. \<exists>i x. r = mk i x" by blast
  show ?case
    by (rule exI [of _ "?r # new"]) (use n that in auto)
qed simp

text \<open>The templates a workspace cannot touch: those for all workspaces, and another workspace's.\<close>

definition protected_remark :: "uuid \<Rightarrow> remark_template \<Rightarrow> bool" where
  "protected_remark t r \<longleftrightarrow> rt_isGlobal r \<or> rt_branchId r = None \<or> (rt_tenantId r \<noteq> [] \<and> rt_tenantId r \<noteq> t)"

lemma delete_keeps_protected:
  assumes "distinct (map rt_id rs)" and "find_first (\<lambda>r. rt_id r = i) rs = Some r" and "\<not> protected_remark t r"
  shows "filter (protected_remark t) (delete_where (\<lambda>r. rt_id r = i) rs) = filter (protected_remark t) rs"
proof -
  note r = find_first_Some [OF assms(2)]
  have "\<not> protected_remark t s" if "s \<in> set rs" "rt_id s = i" for s
    using assms(1,3) r that inj_onD [of rt_id "set rs" s r] by (auto simp: distinct_map)
  then show ?thesis unfolding delete_where_def filter_filter by (intro filter_cong) auto
qed

text \<open>Remark templates stay in their workspace: unless the actor is a global administrator, creating
  and deleting templates leaves every global template and every template of another workspace as it
  is, new ones belong to a branch of the actor's workspace that the actor manages, and identifiers
  stay unique.\<close>

theorem remarks_confined:
  assumes "distinct (map rt_id (td_remarks db))" and "\<not> is_global_admin user"
    and "createCustomRemark t stage text type branchId createdBy isGlobal user db = ok db' \<or> deleteCustomRemark t i user db = ok db'"
  shows "distinct (map rt_id (td_remarks db'))
    \<and> filter (protected_remark t) (td_remarks db') = filter (protected_remark t) (td_remarks db)
    \<and> (\<forall>r \<in> set (td_remarks db') - set (td_remarks db). rt_tenantId r = t \<and> may_manage_branch_remarks user (rt_branchId r)
         \<and> (\<exists>b \<in> set (st_branches (td_base db)). rt_branchId r = Some (br_id b) \<and> br_tenantId b = t))"
  using assms(3)
proof
  assume d: "deleteCustomRemark t i user db = ok db'"
  then obtain r where f: "find_first (\<lambda>r. rt_id r = i) (td_remarks db) = Some r" and p: "\<not> protected_remark t r"
    and db': "db' = db\<lparr> td_remarks := delete_where (\<lambda>r. rt_id r = i) (td_remarks db) \<rparr>"
    using assms(2) by (auto simp: deleteCustomRemark_def protected_remark_def split: option.splits if_splits)
  have "distinct (map rt_id (delete_where (\<lambda>r. rt_id r = i) (td_remarks db)))"
    using assms(1) by (rule distinct_map_delete_where)
  then show ?thesis using delete_keeps_protected [OF assms(1) f p] by (auto simp: db' delete_where_def)
next
  assume c: "createCustomRemark t stage text type branchId createdBy isGlobal user db = ok db'"
  define mk where "mk = (\<lambda>b i x. \<lparr> rt_id = i, rt_tenantId = t, rt_stage = trim (lower stage), rt_text = x,
    rt_type = trim (upper (if type = [] then ''GENERAL'' else type)), rt_branchId = Some b, rt_isGlobal = False,
    rt_createdBy = or_empty (or_else createdBy (Some ''admin'')) \<rparr>)"
  obtain b0 where b0: "branchId = Some b0" "trim b0 \<noteq> []" "\<not> isGlobal"
    using c assms(2) unfolding createCustomRemark_def Let_def if_throw_eq by (auto split: option.splits if_split_asm)
  define b where "b = trim b0"
  define xs where "xs = (if remark_texts text = [] then [trim text] else remark_texts text)"
  have b: "branch_by b t (td_base db) \<noteq> None" and m: "may_manage_branch_remarks user (Some b)"
    and db': "db' = db\<lparr> td_remarks := insert_remarks (mk b) xs (td_remarks db) \<rparr>"
    using c b0 unfolding createCustomRemark_def Let_def mk_def b_def xs_def
    by (simp_all add: or_empty_def if_throw_eq)
  have "\<And>i x. rt_id (mk b i x) = i" "\<And>i x. rt_text (mk b i x) = rt_text (mk b 0 x)" by (simp_all add: mk_def)
  from insert_remarks_facts [where mk = "mk b", OF this(1) assms(1) this(2), of xs] obtain new where
    n: "insert_remarks (mk b) xs (td_remarks db) = td_remarks db @ new" "distinct (map rt_id (td_remarks db @ new))"
    "\<forall>r \<in> set new. \<exists>i x. r = mk b i x" by blast
  have new: "rt_tenantId r = t \<and> rt_branchId r = Some b \<and> \<not> rt_isGlobal r" if "r \<in> set new" for r
    using n(3) that by (auto simp: mk_def)
  then have "filter (protected_remark t) new = []" by (auto simp: filter_empty_conv protected_remark_def)
  moreover obtain br where "br \<in> set (st_branches (td_base db))" "br_id br = b" "br_tenantId br = t"
    using b branch_by_Some by blast
  ultimately show ?thesis using n(1,2) new m by (auto simp: db')
qed

definition remark_db :: tracker_db where
  "remark_db = \<lparr> td_base = two_pods, td_candidates = [], td_submissions = [], td_events = [],
     td_remarks = [\<lparr> rt_id = 4, rt_tenantId = ''t2'', rt_stage = ''l1'', rt_text = ''x'', rt_type = ''GENERAL'',
       rt_branchId = Some ''b2'', rt_isGlobal = False, rt_createdBy = ''admin'' \<rparr>] \<rparr>"

lemma remarks_confined_witness:
  "\<exists>db'. createCustomRemark ''t'' ''L1'' ''no show, late'' ''GENERAL'' (Some ''b'') None False
      (Some (mk_user ''h1'' [''branch:edit''] ''t'' (Some ''b'') None None)) remark_db = ok db'
    \<and> length (td_remarks db') = 3
    \<and> filter (protected_remark ''t'') (td_remarks db') = td_remarks remark_db"
proof -
  let ?u = "Some (mk_user ''h1'' [''branch:edit''] ''t'' (Some ''b'') None None)"
  have "case createCustomRemark ''t'' ''L1'' ''no show, late'' ''GENERAL'' (Some ''b'') None False ?u remark_db of
     Inl _ \<Rightarrow> False | Inr db' \<Rightarrow> length (td_remarks db') = 3" by code_simp
  then obtain db' where c: "createCustomRemark ''t'' ''L1'' ''no show, late'' ''GENERAL'' (Some ''b'') None False ?u remark_db = ok db'"
    and l: "length (td_remarks db') = 3" by (auto split: sum.splits)
  have "distinct (map rt_id (td_remarks remark_db))" "\<not> is_global_admin ?u"
    by (simp_all add: remark_db_def is_global_admin_def mk_user_def includes_any_def)
  from remarks_confined [OF this disjI1 [OF c]] c l show ?thesis
    by (auto simp: remark_db_def protected_remark_def)
qed

end
