(* ===== verification/Offices.thy ===== *)
theory Offices
  imports Pods
begin

text \<open>
  What the services of branches, operating units and market segments share: columns whose values
  are unique within a table, and what the database does to the other tables when a unit or a
  branch is deleted (\<^verbatim>\<open>prisma/schema.prisma\<close>: units, pods and custom roles of a deleted office go with
  it, users only lose the reference, and a pod that still has jobs refuses to go).  Identifiers are
  well-formed UUIDs; an identifier that is not one is refused by the column and stands here for
  an unknown one.  The client errors of the database are \<^verbatim>\<open>P2002\<close> (unique), \<^verbatim>\<open>P2003\<close> (foreign key) and
  \<^verbatim>\<open>P2025\<close> (no such row).
\<close>

section \<open>Steps that succeed\<close>

lemma and_then_unit: "and_then (m :: unit result) f = Inr y \<longleftrightarrow> m = Inr () \<and> f () = Inr y"
  by (auto simp: and_then_eq_Inr)

lemmas succeeding = Let_def and_then_unit and_then_eq_Inr update_one_Inr if_throw_eq sum.inject prod.inject

section \<open>Unique keys\<close>

text \<open>
  A table whose rows carry a key, or none.  A service that looks a key up before it writes
  (\<open>taken\<close>, with the row to leave aside) and promises that a key it does not find is not there
  keeps the keys of its table distinct.
\<close>

locale unique_key =
  fixes ident :: "'r \<Rightarrow> uuid"
    and key :: "'r \<Rightarrow> 'k option"
    and taken :: "'r list \<Rightarrow> uuid option \<Rightarrow> 'k \<Rightarrow> bool"
  assumes not_taken: "\<not> taken t skip k \<Longrightarrow> r \<in> set t \<Longrightarrow> Some (ident r) \<noteq> skip \<Longrightarrow> key r \<noteq> Some k"
begin

lemma keys_append:
  "List.map_filter key (t @ u) = List.map_filter key t @ List.map_filter key u"
  by (simp add: List.map_filter_def)

lemma keys_member: "k \<in> set (List.map_filter key t) \<longleftrightarrow> (\<exists>r \<in> set t. key r = Some k)"
  by (force simp: List.map_filter_def)

lemma insert_keeps:
  assumes "distinct (List.map_filter key t)" and "\<And>k. key r = Some k \<Longrightarrow> \<not> taken t None k"
  shows "distinct (List.map_filter key (t @ [r]))"
proof (cases "key r")
  case None
  then show ?thesis using assms(1) by (simp add: keys_append List.map_filter_def)
next
  case (Some k)
  then have "\<not> taken t None k" using assms(2) by blast
  then have "key r' \<noteq> Some k" if "r' \<in> set t" for r'
    using not_taken [of t None k r'] that by simp
  then have "k \<notin> set (List.map_filter key t)"
    by (simp add: keys_member)
  then show ?thesis
    using assms(1) Some by (simp add: keys_append List.map_filter_def)
qed

lemma delete_keeps:
  "distinct (List.map_filter key t) \<Longrightarrow> distinct (List.map_filter key (delete_where p t))"
proof (induction t)
  case (Cons r t)
  then show ?case
    by (cases "key r") (auto simp: List.map_filter_simps delete_where_def keys_member)
qed (simp add: delete_where_def)

lemma update_keeps:
  assumes "distinct (List.map_filter key t)" and "distinct (map ident t)"
    and "\<And>r. r \<in> set t \<Longrightarrow> ident r = i \<Longrightarrow>
      key (f r) = key r \<or> key (f r) = None \<or> (\<exists>k. key (f r) = Some k \<and> \<not> taken t (Some i) k)"
  shows "distinct (List.map_filter key (update_where (\<lambda>r. ident r = i) f t))"
proof (cases "\<exists>r \<in> set t. ident r = i")
  case False
  then have "update_where (\<lambda>r. ident r = i) f t = t"
    by (auto simp: update_where_def intro: map_idI)
  with assms(1) show ?thesis by simp
next
  case True
  then obtain xs r ys where t: "t = xs @ r # ys" and r: "ident r = i"
    by (metis in_set_conv_decomp)
  have others: "ident s \<noteq> i" if "s \<in> set xs \<union> set ys" for s
    using that assms(2) r by (auto simp: t image_iff)
  have upd: "update_where (\<lambda>r. ident r = i) f t = xs @ f r # ys"
    using others r by (auto simp: t update_where_def intro: map_idI)
  have clear: "k \<notin> set (List.map_filter key (xs @ ys))" if "\<not> taken t (Some i) k" for k
  proof -
    have "key s \<noteq> Some k" if "s \<in> set xs \<union> set ys" for s
      using not_taken [OF \<open>\<not> taken t (Some i) k\<close>, of s] others [OF that] that by (auto simp: t)
    then show ?thesis
      unfolding keys_member by (auto simp: ball_Un)
  qed
  have "key (f r) = key r \<or> key (f r) = None \<or> (\<exists>k. key (f r) = Some k \<and> \<not> taken t (Some i) k)"
    using assms(3) [of r] r by (simp add: t)
  then show ?thesis
    using assms(1) [unfolded t] clear unfolding upd
    by (cases "key r"; cases "key (f r)") (auto simp: keys_append List.map_filter_simps)
qed

end

section \<open>Deleting offices\<close>

definition delete_roles :: "(custom_role \<Rightarrow> bool) \<Rightarrow> store \<Rightarrow> store" where
  "delete_roles p db =
    (let gone = map cr_id (find_many p (st_roles db))
     in db\<lparr> st_roles := update_where (\<lambda>r. \<exists>b \<in> set gone. cr_baseRoleId r = Some b) (\<lambda>r. r\<lparr> cr_baseRoleId := None \<rparr>)
              (delete_where p (st_roles db)),
            st_users := update_where (\<lambda>u. \<exists>r \<in> set gone. us_roleId u = Some r) (\<lambda>u. u\<lparr> us_roleId := None \<rparr>) (st_users db) \<rparr>)"

definition delete_pods :: "(pod \<Rightarrow> bool) \<Rightarrow> store \<Rightarrow> store result" where
  "delete_pods p db =
    (let gone = map pd_id (find_many p (st_pods db))
     in if list_ex (\<lambda>j. jp_podId j \<in> set gone) (st_jobPods db) then throw (InternalError ''P2003'')
        else ok (db\<lparr> st_pods := delete_where p (st_pods db),
            st_users := update_where (\<lambda>u. \<exists>i \<in> set gone. us_podId u = Some i) (\<lambda>u. u\<lparr> us_podId := None \<rparr>) (st_users db) \<rparr>))"

definition delete_units :: "(business_unit \<Rightarrow> bool) \<Rightarrow> store \<Rightarrow> store result" where
  "delete_units p db =
    (let gone = map bu_id (find_many p (st_units db));
         of_gone = (\<lambda>x. \<exists>i \<in> set gone. x = Some i)
     in and_then (delete_pods (\<lambda>q. of_gone (pd_businessUnitId q)) db) (\<lambda>db1.
          let db2 = delete_roles (\<lambda>r. of_gone (cr_businessUnitId r)) db1
          in ok (db2\<lparr> st_units := delete_where p (st_units db2),
               st_users := update_where (\<lambda>u. of_gone (us_businessUnitId u))
                 (\<lambda>u. u\<lparr> us_businessUnitId := None \<rparr>) (st_users db2) \<rparr>)))"

definition delete_branch :: "uuid \<Rightarrow> store \<Rightarrow> store result" where
  "delete_branch i db =
    and_then (delete_units (\<lambda>b. bu_branchId b = Some i) db) (\<lambda>db1.
    and_then (delete_pods (\<lambda>q. pd_branchId q = Some i) db1) (\<lambda>db2.
      let db3 = delete_roles (\<lambda>r. cr_branchId r = Some i) db2
      in ok (db3\<lparr> st_branches := delete_where (\<lambda>b. br_id b = i) (st_branches db3),
           st_jobs := update_where (\<lambda>j. jb_branchId j = Some i) (\<lambda>j. j\<lparr> jb_branchId := None \<rparr>) (st_jobs db3),
           st_users := update_where (\<lambda>u. us_branchId u = Some i) (\<lambda>u. u\<lparr> us_branchId := None \<rparr>) (st_users db3) \<rparr>)))"

section \<open>Reading rows of other tables\<close>

text \<open>A count in a message, in decimal.\<close>

fun decimal :: "nat \<Rightarrow> string" where
  "decimal n = (if n < 10 then [char_of (48 + n)] else decimal (n div 10) @ [char_of (48 + n mod 10)])"

declare decimal.simps [simp del]

definition signed_decimal :: "int \<Rightarrow> string" where
  "signed_decimal n = (if n < 0 then ''-'' @ decimal (nat (- n)) else decimal (nat n))"

text \<open>\<^verbatim>\<open>orderBy: [{ isSystem: 'asc' }, { createdAt: 'asc' }]\<close> with the first row taken.\<close>

definition first_role :: "(custom_role \<Rightarrow> bool) \<Rightarrow> store \<Rightarrow> custom_role option" where
  "first_role p db =
     (case sort_key cr_isSystem (sort_key cr_createdAt (find_many p (st_roles db))) of [] \<Rightarrow> None | r # _ \<Rightarrow> Some r)"

definition branch_of :: "store \<Rightarrow> uuid option \<Rightarrow> branch option" where
  "branch_of db i = find_first (\<lambda>b. i = Some (br_id b)) (st_branches db)"

definition unit_of :: "store \<Rightarrow> uuid option \<Rightarrow> business_unit option" where
  "unit_of db i = find_first (\<lambda>b. i = Some (bu_id b)) (st_units db)"

definition segment_of :: "store \<Rightarrow> uuid option \<Rightarrow> market_segment option" where
  "segment_of db i = find_first (\<lambda>s. i = Some (ms_id s)) (st_segments db)"

definition manages_workspace :: "auth_user \<Rightarrow> bool" where
  "manages_workspace user =
     includes_any (a_permissions user) [''tenant:settings'', ''tenant:manage'', ''platform:manage'']"

end
