(* ===== verification/MarketSegments.thy ===== *)
theory MarketSegments
  imports Offices
begin

text \<open>
  The catalogue of market segments (\<^verbatim>\<open>market-segments/market-segments.service.ts\<close> and its controller).
  The catalogue is shared by all tenants; the first start of the program fills it with three standard
  segments under an advisory lock, so the initialisation is one step.  A segment carries the defaults of
  the units that choose it.  \<open>newId\<close> and \<open>now\<close> are the identifier and the time the database generates.
\<close>

section \<open>Operations\<close>

record segment_dto =
  sg_name :: "string option"
  sg_code :: "string option"
  sg_description :: "string option"
  sg_defaultCurrency :: "string option"
  sg_isActive :: "bool option"
  sg_sortOrder :: "int option"

definition market_standards :: "(string \<times> string \<times> string \<times> string \<times> string \<times> int) list" where
  "market_standards =
    [(''India Staffing'', ''IND'', ''INR'', ''Asia/Kolkata'', ''India Shift'', 0),
     (''US IT Staffing'', ''USIT'', ''USD'', ''America/New_York'', ''US Shift'', 1),
     (''UAE Staffing'', ''UAE'', ''AED'', ''Asia/Dubai'', ''UAE Shift'', 2)]"

fun ensure_standard ::
  "(string \<Rightarrow> uuid) \<Rightarrow> int \<Rightarrow> (string \<times> string \<times> string \<times> string \<times> string \<times> int) \<Rightarrow> store \<Rightarrow> store" where
  "ensure_standard newId now (name, code, currency, timezone, shift, order) db =
    (case find_first (\<lambda>s. ms_tenantId s = None \<and> ms_code s = code) (st_segments db) of
       Some _ \<Rightarrow> db
     | None \<Rightarrow> db\<lparr> st_segments := st_segments db @
         [\<lparr> ms_id = newId code, ms_tenantId = None, ms_name = name, ms_code = code, ms_description = None,
            ms_defaultCurrency = currency, ms_defaultTimezone = timezone, ms_defaultShift = shift,
            ms_defaultStartTime = Some ''09:00'', ms_defaultEndTime = Some ''18:00'', ms_isActive = True,
            ms_sortOrder = order, ms_createdAt = now \<rparr>] \<rparr>)"

definition segments_onModuleInit :: "string option \<Rightarrow> (string \<Rightarrow> uuid) \<Rightarrow> int \<Rightarrow> store \<Rightarrow> store" where
  "segments_onModuleInit ATS_SKIP_BOOTSTRAP newId now db =
    (if ATS_SKIP_BOOTSTRAP = Some ''true'' then db
     else fold (ensure_standard newId now) market_standards db)"

text \<open>A segment with the number of its units; \<^verbatim>\<open>orderBy: [{ sortOrder }, { name }]\<close>.\<close>

definition segments_findAll :: "store \<Rightarrow> bool \<Rightarrow> (market_segment \<times> nat) list" where
  "segments_findAll db includeInactive =
     map (\<lambda>s. (s, count_where (\<lambda>b. bu_marketSegmentId b = Some (ms_id s)) (st_units db)))
       (sort_key ms_sortOrder (sort_key ms_name
         (find_many (\<lambda>s. ms_tenantId s = None \<and> (includeInactive \<or> ms_isActive s)) (st_segments db))))"

definition segments_findOne ::
  "store \<Rightarrow> uuid \<Rightarrow> (market_segment \<times> (uuid \<times> string \<times> string option) list) result" where
  "segments_findOne db i =
    (case find_first (\<lambda>s. ms_id s = i) (st_segments db) of
       None \<Rightarrow> throw (NotFound (''Market segment '' @ i @ '' not found''))
     | Some s \<Rightarrow> ok (s, map (\<lambda>b. (bu_id b, bu_name b, bu_code b))
                        (find_many (\<lambda>b. bu_marketSegmentId b = Some i) (st_units db))))"

definition code_taken :: "market_segment list \<Rightarrow> uuid option \<Rightarrow> string \<Rightarrow> bool" where
  "code_taken t skip code = (find_first (\<lambda>s. ms_code s = code \<and> Some (ms_id s) \<noteq> skip) t \<noteq> None)"

definition code_conflict :: "string \<Rightarrow> http_error" where
  "code_conflict code = Conflict (''A market segment with code \"'' @ code @ ''\" already exists'')"

text \<open>A body without a name or a code is refused by the columns (or before, when the code is read).\<close>

definition segments_create ::
  "uuid \<Rightarrow> int \<Rightarrow> string \<Rightarrow> string \<Rightarrow> segment_dto \<Rightarrow> store \<Rightarrow> (market_segment \<times> store) result" where
  "segments_create newId now name code dto db =
    (if code_taken (st_segments db) None (upper code) then throw (code_conflict code)
     else let s = \<lparr> ms_id = newId, ms_tenantId = None, ms_name = name, ms_code = upper code,
                 ms_description = sg_description dto,
                 ms_defaultCurrency = (case sg_defaultCurrency dto of None \<Rightarrow> ''USD'' | Some c \<Rightarrow> c),
                 ms_defaultTimezone = ''America/New_York'', ms_defaultShift = ''General Shift'',
                 ms_defaultStartTime = Some ''09:00'', ms_defaultEndTime = Some ''18:00'',
                 ms_isActive = (case sg_isActive dto of None \<Rightarrow> True | Some b \<Rightarrow> b),
                 ms_sortOrder = (case sg_sortOrder dto of None \<Rightarrow> 0 | Some n \<Rightarrow> n), ms_createdAt = now \<rparr>
          in ok (s, db\<lparr> st_segments := st_segments db @ [s] \<rparr>))"

definition segment_data :: "segment_dto \<Rightarrow> market_segment \<Rightarrow> market_segment" where
  "segment_data dto s = s\<lparr>
     ms_name := (case sg_name dto of None \<Rightarrow> ms_name s | Some v \<Rightarrow> v),
     ms_code := (case sg_code dto of None \<Rightarrow> ms_code s | Some v \<Rightarrow> upper v),
     ms_description := (case sg_description dto of None \<Rightarrow> ms_description s | Some v \<Rightarrow> Some v),
     ms_defaultCurrency := (case sg_defaultCurrency dto of None \<Rightarrow> ms_defaultCurrency s | Some v \<Rightarrow> v),
     ms_isActive := (case sg_isActive dto of None \<Rightarrow> ms_isActive s | Some v \<Rightarrow> v),
     ms_sortOrder := (case sg_sortOrder dto of None \<Rightarrow> ms_sortOrder s | Some v \<Rightarrow> v) \<rparr>"

definition segments_update :: "uuid \<Rightarrow> segment_dto \<Rightarrow> store \<Rightarrow> store result" where
  "segments_update i dto db =
    and_then (segments_findOne db i) (\<lambda>_.
    and_then (if truthy (sg_code dto) \<and> code_taken (st_segments db) (Some i) (upper (the (sg_code dto)))
              then throw (code_conflict (the (sg_code dto))) else ok ()) (\<lambda>_.
    and_then (update_one (\<lambda>s. ms_id s = i) (segment_data dto) (st_segments db)) (\<lambda>t.
      ok (db\<lparr> st_segments := t \<rparr>))))"

definition segments_remove :: "uuid \<Rightarrow> store \<Rightarrow> store result" where
  "segments_remove i db =
    and_then (segments_findOne db i) (\<lambda>(_, units).
      if units \<noteq> []
      then throw (Conflict ''Cannot delete a market segment that is assigned to operating units. Reassign or remove the units first.'')
      else ok (db\<lparr> st_segments := delete_where (\<lambda>s. ms_id s = i) (st_segments db) \<rparr>))"

section \<open>The endpoints\<close>

definition segments_get_all :: "auth_user \<Rightarrow> store \<Rightarrow> (market_segment \<times> nat) list" where
  "segments_get_all user db =
     segments_findAll db (includes_any (a_permissions user) [''platform:manage'', ''*''])"

definition segments_post ::
  "uuid \<Rightarrow> int \<Rightarrow> string \<Rightarrow> string \<Rightarrow> segment_dto \<Rightarrow> auth_user \<Rightarrow> store \<Rightarrow> (market_segment \<times> store) result" where
  "segments_post newId now name code dto user db =
     and_then (require_permissions [''platform:manage''] user) (\<lambda>_. segments_create newId now name code dto db)"

definition segments_put :: "uuid \<Rightarrow> segment_dto \<Rightarrow> auth_user \<Rightarrow> store \<Rightarrow> store result" where
  "segments_put i dto user db =
     and_then (require_permissions [''platform:manage''] user) (\<lambda>_. segments_update i dto db)"

definition segments_delete :: "uuid \<Rightarrow> auth_user \<Rightarrow> store \<Rightarrow> store result" where
  "segments_delete i user db =
     and_then (require_permissions [''platform:manage''] user) (\<lambda>_. segments_remove i db)"

section \<open>Unique codes\<close>

text \<open>The owner and the code of a segment; an empty code, which an update may write, is left out.\<close>

definition segment_key :: "market_segment \<Rightarrow> (uuid option \<times> string) option" where
  "segment_key s = (if ms_code s = [] then None else Some (ms_tenantId s, ms_code s))"

definition segment_taken :: "market_segment list \<Rightarrow> uuid option \<Rightarrow> uuid option \<times> string \<Rightarrow> bool" where
  "segment_taken t skip k = list_ex (\<lambda>s. segment_key s = Some k \<and> Some (ms_id s) \<noteq> skip) t"

interpretation segment_table: unique_key ms_id segment_key segment_taken
  by unfold_locales (auto simp: segment_taken_def list_ex_iff)

lemma code_free: "\<not> code_taken t skip c \<Longrightarrow> \<not> segment_taken t skip (x, c)"
  by (auto simp: segment_taken_def code_taken_def segment_key_def find_first_None list_ex_iff split: if_splits)

definition segments_ok :: "store \<Rightarrow> bool" where
  "segments_ok db = (distinct (map ms_id (st_segments db)) \<and> distinct (List.map_filter segment_key (st_segments db)))"

lemma segments_ok_create:
  assumes "segments_create newId now name code dto db = ok (s, db')" and "segments_ok db"
    and "newId \<notin> set (map ms_id (st_segments db))"
  shows "segments_ok db'"
proof -
  have new: "\<not> code_taken (st_segments db) None (upper code)"
    and db': "st_segments db' = st_segments db @ [s]" and s: "ms_id s = newId" "ms_code s = upper code"
    using assms(1) by (auto simp: segments_create_def Let_def split: if_splits)
  have "distinct (List.map_filter segment_key (st_segments db'))"
    unfolding db' using assms(2) new s
    by (intro segment_table.insert_keeps) (auto simp: segments_ok_def segment_key_def code_free split: if_splits)
  then show ?thesis
    using assms(2,3) s by (simp add: segments_ok_def db')
qed

lemma segment_data_id [simp]: "ms_id (segment_data dto s) = ms_id s"
  by (simp add: segment_data_def)

lemma segments_update_Inr:
  assumes "segments_update i dto db = ok db'"
  shows "st_segments db' = update_where (\<lambda>s. ms_id s = i) (segment_data dto) (st_segments db)"
    and "truthy (sg_code dto) \<Longrightarrow> \<not> code_taken (st_segments db) (Some i) (upper (the (sg_code dto)))"
  using assms by (auto simp: segments_update_def and_then_eq_Inr update_one_Inr split: if_splits)

lemma segments_ok_update:
  assumes "segments_update i dto db = ok db'" and "segments_ok db"
  shows "segments_ok db'"
proof -
  let ?t = "st_segments db"
  have "segment_key (segment_data dto s) = segment_key s \<or> segment_key (segment_data dto s) = None
      \<or> (\<exists>k. segment_key (segment_data dto s) = Some k \<and> \<not> segment_taken ?t (Some i) k)" for s
  proof (cases "sg_code dto")
    case None
    then show ?thesis by (simp add: segment_key_def segment_data_def)
  next
    case (Some c)
    then show ?thesis
      using code_free [OF segments_update_Inr(2) [OF assms(1)]]
      by (cases "c = []") (auto simp: segment_key_def segment_data_def)
  qed
  then have "distinct (List.map_filter segment_key (st_segments db'))"
    unfolding segments_update_Inr(1) [OF assms(1)] using assms(2)
    by (intro segment_table.update_keeps) (auto simp: segments_ok_def)
  moreover have "map ms_id (st_segments db') = map ms_id ?t"
    unfolding segments_update_Inr(1) [OF assms(1)] by (rule map_update_where) simp
  ultimately show ?thesis
    using assms(2) by (simp add: segments_ok_def)
qed

lemma segments_ok_remove:
  assumes "segments_remove i db = ok db'" and "segments_ok db"
  shows "segments_ok db'"
proof -
  have "st_segments db' = delete_where (\<lambda>s. ms_id s = i) (st_segments db)"
    using assms(1) by (auto simp: segments_remove_def and_then_eq_Inr split: if_splits)
  then show ?thesis
    using assms(2) segment_table.delete_keeps
    by (simp add: segments_ok_def distinct_map_delete_where)
qed

section \<open>The standard catalogue\<close>

abbreviation has_standard :: "store \<Rightarrow> string \<Rightarrow> bool" where
  "has_standard db code \<equiv> \<exists>s \<in> set (st_segments db). ms_tenantId s = None \<and> ms_code s = code"

lemma ensure_standard_has: "has_standard (ensure_standard newId now (n, c, cu, tz, sh, o') db) c"
  by (auto simp: find_first_None split: option.split dest: find_first_Some)

lemma ensure_standard_mono:
  "st_segments (ensure_standard newId now m db) = st_segments db
   \<or> (\<exists>s. st_segments (ensure_standard newId now m db) = st_segments db @ [s])"
  by (cases m) (auto split: option.split)

lemma ensure_standard_keeps: "has_standard db c \<Longrightarrow> has_standard (ensure_standard newId now m db) c"
  using ensure_standard_mono [of newId now m db] by auto

lemma ensure_standard_present: "has_standard db (fst (snd m)) \<Longrightarrow> ensure_standard newId now m db = db"
  by (cases m) (auto simp: find_first_None split: option.split)

lemma fold_ensure_keeps: "has_standard db c \<Longrightarrow> has_standard (fold (ensure_standard newId now) ms db) c"
proof (induction ms arbitrary: db)
  case (Cons m ms)
  show ?case
    using Cons.IH [OF ensure_standard_keeps [OF Cons.prems]] by (simp del: ensure_standard.simps)
qed simp

lemma fold_ensure_has:
  "m \<in> set ms \<Longrightarrow> has_standard (fold (ensure_standard newId now) ms db) (fst (snd m))"
proof (induction ms arbitrary: db)
  case (Cons x xs)
  show ?case
  proof (cases "m = x")
    case True
    have "has_standard (ensure_standard newId now x db) (fst (snd x))"
      using ensure_standard_has by (metis prod.collapse)
    then show ?thesis
      using True fold_ensure_keeps by (simp del: ensure_standard.simps)
  next
    case False
    then show ?thesis using Cons by (simp del: ensure_standard.simps)
  qed
qed simp

lemma fold_ensure_id:
  "\<forall>m \<in> set ms. has_standard db (fst (snd m)) \<Longrightarrow> fold (ensure_standard newId now) ms db = db"
  by (induction ms) (simp_all add: ensure_standard_present del: ensure_standard.simps)

end
