(* ===== verification/BusinessUnits.thy ===== *)
theory BusinessUnits
  imports MarketSegments
begin

text \<open>
  Operating units (\<^verbatim>\<open>business-units/business-units.service.ts\<close> and its controller): the units of a
  branch, their members and their administrators.  A request field that is \<^verbatim>\<open>undefined\<close> is \<open>None\<close>; for
  the market segment of an update, which may be set to \<^verbatim>\<open>null\<close>, the option is doubled.  The first and
  last names of a member, which are only passed on, are left out.
\<close>

section \<open>Data\<close>

record create_unit_dto =
  cu_name :: string
  cu_branchId :: "uuid option"
  cu_code :: "string option"
  cu_market :: "string option"
  cu_marketSegmentId :: "uuid option"
  cu_currency :: "string option"
  cu_shiftTiming :: "string option"
  cu_workStartTime :: "string option"
  cu_workEndTime :: "string option"
  cu_timezone :: "string option"
  cu_workingDays :: "string list option"
  cu_breakDurationMinutes :: "int option"
  cu_allowNone :: "bool option"
  cu_allowPods :: "bool option"
  cu_allowUnassigned :: "bool option"
  cu_podDistributionStrategy :: "string option"
  cu_jobCodePattern :: "string option"

record update_unit_dto =
  uu_name :: "string option"
  uu_branchId :: "uuid option"
  uu_code :: "string option"
  uu_marketSegmentId :: "uuid option option"
  uu_currency :: "string option"
  uu_shiftTiming :: "string option"
  uu_workStartTime :: "string option"
  uu_workEndTime :: "string option"
  uu_timezone :: "string option"
  uu_workingDays :: "string list option"
  uu_breakDurationMinutes :: "int option"
  uu_allowNone :: "bool option"
  uu_allowPods :: "bool option"
  uu_allowUnassigned :: "bool option"
  uu_podDistributionStrategy :: "string option"
  uu_jobCodePattern :: "string option"

record unit_response =
  ur_id :: uuid
  ur_name :: string
  ur_code :: "string option"
  ur_market :: string
  ur_marketSegmentId :: "uuid option"
  ur_marketSegment :: "(uuid \<times> string \<times> string \<times> string) option"
  ur_jobCodePattern :: "string option"
  ur_currency :: "string option"
  ur_branchId :: "uuid option"
  ur_branchName :: "string option"
  ur_branch :: "(uuid \<times> string \<times> string option \<times> string option) option"
  ur_shiftTiming :: "string option"
  ur_workStartTime :: "string option"
  ur_workEndTime :: "string option"
  ur_timezone :: "string option"
  ur_workingDays :: "string list"
  ur_breakDurationMinutes :: int
  ur_allowNone :: bool
  ur_allowPods :: bool
  ur_allowUnassigned :: bool
  ur_podDistributionStrategy :: string
  ur_usersCount :: nat
  ur_podsCount :: nat
  ur_admins :: "(uuid \<times> string \<times> string) list option"
  ur_createdAt :: int

record unit_member =
  um_id :: uuid
  um_email :: string
  um_fullName :: string
  um_profilePicture :: "string option"
  um_isActive :: bool
  um_branchId :: "uuid option"
  um_branchName :: "string option"
  um_roleName :: string
  um_systemRole :: "string option"
  um_podId :: "uuid option"
  um_podName :: "string option"

record candidate_staff =
  cs_member :: unit_member
  cs_currentUnitId :: "uuid option"
  cs_currentUnitName :: "string option"
  cs_isAssigned :: bool
  cs_isSameBranch :: bool

text \<open>The staff an administrator without workspace rights may assign.\<close>

record staff_scope =
  ss_branchId :: "uuid option"
  ss_businessUnitId :: "uuid option"

section \<open>Delegation targets\<close>

text \<open>
  The segment a target must share is never determined (\<^verbatim>\<open>const segmentId = null\<close>), so the listing
  behind it is unreachable.
\<close>

definition delegationTargets :: "store \<Rightarrow> auth_user \<Rightarrow> uuid option \<Rightarrow> uuid \<Rightarrow> (business_unit list) result" where
  "delegationTargets db user jobId tenantId =
    (if ''job:delegate'' \<notin> set (a_permissions user) then throw (Forbidden ''Missing job:delegate permission.'')
     else if \<not> truthy jobId then throw (BadRequest ''jobId is required.'')
     else case find_first (\<lambda>j. Some (jb_id j) = jobId \<and> jb_tenantId j = tenantId) (st_jobs db) of
       None \<Rightarrow> throw (NotFound ''Job not found.'')
     | Some job \<Rightarrow>
        if \<not> truthy (jb_branchId job) then throw (BadRequest ''Assign the job to a branch before delegating.'')
        else if \<not> manages_workspace user \<and> (\<not> truthy (a_branchId user) \<or> a_branchId user \<noteq> jb_branchId job)
        then throw (Forbidden ''You can only delegate jobs from your branch.'')
        else throw (BadRequest ''Assign the job to an operating unit with a market segment before delegating.''))"

section \<open>Reading units\<close>

definition unit_to_response :: "store \<Rightarrow> bool \<Rightarrow> business_unit \<Rightarrow> unit_response result" where
  "unit_to_response db withAdmins b =
    (let branch = branch_of db (bu_branchId b);
         segment = segment_of db (bu_marketSegmentId b)
     in and_then (normalizePodStrategy (Some (bu_podDistributionStrategy b))) (\<lambda>strategy.
       ok \<lparr> ur_id = bu_id b, ur_name = bu_name b, ur_code = bu_code b,
            ur_market = the (or_else (map_option ms_code segment) (Some ''US'')),
            ur_marketSegmentId = or_null (bu_marketSegmentId b),
            ur_marketSegment = map_option (\<lambda>s. (ms_id s, ms_name s, ms_code s, ms_defaultCurrency s)) segment,
            ur_jobCodePattern = or_null (bu_jobCodePattern b),
            ur_currency = or_null (or_else (bu_currency b) (map_option ms_defaultCurrency segment)),
            ur_branchId = or_null (bu_branchId b), ur_branchName = or_null (map_option br_name branch),
            ur_branch = map_option (\<lambda>x. (br_id x, br_name x, br_code x, br_city x)) branch,
            ur_shiftTiming = or_null (bu_shiftTiming b), ur_workStartTime = or_null (bu_workStartTime b),
            ur_workEndTime = or_null (bu_workEndTime b), ur_timezone = or_null (bu_timezone b),
            ur_workingDays = bu_workingDays b,
            ur_breakDurationMinutes = (case bu_breakDurationMinutes b of None \<Rightarrow> 60 | Some n \<Rightarrow> n),
            ur_allowNone = bu_allowNone b, ur_allowPods = bu_allowPods b, ur_allowUnassigned = bu_allowUnassigned b,
            ur_podDistributionStrategy = strategy,
            ur_usersCount = count_where (\<lambda>u. us_businessUnitId u = Some (bu_id b)) (st_users db),
            ur_podsCount = count_where (\<lambda>p. pd_businessUnitId p = Some (bu_id b)) (st_pods db),
            ur_admins = (if withAdmins
               then Some (map (\<lambda>u. (us_id u, us_fullName u, us_email u))
                  (find_many (\<lambda>u. us_id u \<in> set (bu_admins b)) (st_users db)))
               else None),
            ur_createdAt = bu_createdAt b \<rparr>))"

definition units_onboardingOptions :: "store \<Rightarrow> uuid \<Rightarrow> (uuid \<times> string \<times> uuid option) list" where
  "units_onboardingOptions db tenantId =
     map (\<lambda>b. (bu_id b, bu_name b, bu_branchId b)) (sort_key bu_name (find_many (\<lambda>b. bu_tenantId b = tenantId) (st_units db)))"

fun each_result :: "('a \<Rightarrow> 'b result) \<Rightarrow> 'a list \<Rightarrow> ('b list) result" where
  "each_result f [] = ok []"
| "each_result f (x # xs) = and_then (f x) (\<lambda>y. and_then (each_result f xs) (\<lambda>ys. ok (y # ys)))"

definition units_findAll :: "store \<Rightarrow> uuid \<Rightarrow> uuid option \<Rightarrow> (unit_response list) result" where
  "units_findAll db tenantId branchId =
     each_result (unit_to_response db False) (sort_key bu_name
       (find_many (\<lambda>b. bu_tenantId b = tenantId \<and> (truthy branchId \<longrightarrow> bu_branchId b = branchId)) (st_units db)))"

definition units_findOne :: "store \<Rightarrow> uuid \<Rightarrow> uuid \<Rightarrow> unit_response result" where
  "units_findOne db i tenantId =
    (case unit_by i tenantId db of
       None \<Rightarrow> throw (NotFound (''Business Unit with ID '' @ i @ '' not found.''))
     | Some b \<Rightarrow> unit_to_response db True b)"

section \<open>Creating and updating units\<close>

definition unit_name_taken :: "string \<Rightarrow> http_error" where
  "unit_name_taken name = Conflict (''A business unit with the name \"'' @ name @ ''\" already exists in this branch.'')"

text \<open>A segment a tenant may choose: a segment of the catalogue, or its own.\<close>

definition unit_segment :: "store \<Rightarrow> uuid \<Rightarrow> uuid option \<Rightarrow> (market_segment option) result" where
  "unit_segment db tenantId i =
    (if \<not> truthy i then ok None
     else case find_first (\<lambda>s. Some (ms_id s) = i \<and> (ms_tenantId s = None \<or> ms_tenantId s = Some tenantId)) (st_segments db) of
       None \<Rightarrow> throw (BadRequest ''Selected market segment was not found.'')
     | Some s \<Rightarrow> ok (Some s))"

text \<open>The table refuses an unknown branch and, within a branch, a second unit of the same name.\<close>

definition unit_row_check :: "store \<Rightarrow> business_unit \<Rightarrow> unit result" where
  "unit_row_check db b =
    (if bu_branchId b \<noteq> None \<and> branch_of db (bu_branchId b) = None then throw (InternalError ''P2003'')
     else if bu_branchId b \<noteq> None \<and> list_ex (\<lambda>c. bu_id c \<noteq> bu_id b \<and> bu_tenantId c = bu_tenantId b
            \<and> bu_branchId c = bu_branchId b \<and> bu_name c = bu_name b) (st_units db)
     then throw (InternalError ''P2002'')
     else ok ())"

definition new_unit ::
  "uuid \<Rightarrow> int \<Rightarrow> create_unit_dto \<Rightarrow> uuid \<Rightarrow> branch option \<Rightarrow> market_segment option \<Rightarrow> string \<Rightarrow> business_unit" where
  "new_unit newId now dto tenantId branch segment strategy =
    (let market = (if truthy (cu_market dto) then upper (trim (the (cu_market dto)))
                   else the (or_else (map_option br_market branch) (Some ''US'')))
     in \<lparr> bu_id = newId, bu_tenantId = tenantId, bu_name = trim (cu_name dto),
          bu_code = Some (if truthy (cu_code dto) then upper (trim (the (cu_code dto))) else upper (take 4 (cu_name dto))),
          bu_branchId = or_null (cu_branchId dto),
          bu_shiftTiming = or_else (cu_shiftTiming dto) (or_else (Option.bind branch br_shiftTiming)
             (Some (if market = ''US'' then ''US Shift'' else ''General Shift''))),
          bu_timezone = or_else (cu_timezone dto) (or_else (Option.bind branch br_timezone)
             (Some (if market = ''US'' then ''America/New_York'' else ''Asia/Kolkata''))),
          bu_workStartTime = or_else (cu_workStartTime dto) (or_else (Option.bind branch br_workStartTime) (Some ''09:00'')),
          bu_workEndTime = or_else (cu_workEndTime dto) (or_else (Option.bind branch br_workEndTime) (Some ''18:00'')),
          bu_breakDurationMinutes = Some (case cu_breakDurationMinutes dto of None \<Rightarrow> 60 | Some n \<Rightarrow> n),
          bu_workingDays = (case cu_workingDays dto of
             None \<Rightarrow> [''Monday'', ''Tuesday'', ''Wednesday'', ''Thursday'', ''Friday''] | Some ds \<Rightarrow> ds),
          bu_allowNone = (case cu_allowNone dto of None \<Rightarrow> False | Some v \<Rightarrow> v),
          bu_allowPods = (case cu_allowPods dto of None \<Rightarrow> True | Some v \<Rightarrow> v),
          bu_allowUnassigned = (case cu_allowUnassigned dto of None \<Rightarrow> True | Some v \<Rightarrow> v),
          bu_podDistributionStrategy = strategy,
          bu_jobCodePattern = or_null (cu_jobCodePattern dto),
          bu_marketSegmentId = or_null (cu_marketSegmentId dto),
          bu_currency = or_null (or_else (map_option (\<lambda>c. upper (trim c)) (cu_currency dto)) (map_option ms_defaultCurrency segment)),
          bu_createdAt = now, bu_admins = [] \<rparr>)"

definition unit_branch :: "store \<Rightarrow> uuid \<Rightarrow> uuid option \<Rightarrow> (branch option) result" where
  "unit_branch db tenantId i =
    (if \<not> truthy i then ok None
     else case branch_by (the i) tenantId db of
       None \<Rightarrow> throw (NotFound (''Branch with ID \"'' @ the i @ ''\" not found.''))
     | Some b \<Rightarrow> ok (Some b))"

definition units_create :: "uuid \<Rightarrow> int \<Rightarrow> create_unit_dto \<Rightarrow> uuid \<Rightarrow> store \<Rightarrow> (unit_response \<times> store) result" where
  "units_create newId now dto tenantId db =
    and_then (unit_branch db tenantId (cu_branchId dto)) (\<lambda>branch.
    and_then (if list_ex (\<lambda>b. bu_tenantId b = tenantId \<and> (truthy (cu_branchId dto) \<longrightarrow> bu_branchId b = cu_branchId dto)
                 \<and> same_name (bu_name b) (trim (cu_name dto))) (st_units db)
              then throw (unit_name_taken (cu_name dto)) else ok ()) (\<lambda>_.
    and_then (unit_segment db tenantId (cu_marketSegmentId dto)) (\<lambda>segment.
    and_then (normalizePodStrategy (cu_podDistributionStrategy dto)) (\<lambda>strategy.
      let b = new_unit newId now dto tenantId branch segment strategy
      in and_then (unit_row_check db b) (\<lambda>_.
           let db' = db\<lparr> st_units := st_units db @ [b] \<rparr>
           in and_then (units_findOne db' newId tenantId) (\<lambda>r. ok (r, db')))))))"

definition unit_data ::
  "update_unit_dto \<Rightarrow> unit_response \<Rightarrow> market_segment option \<Rightarrow> string \<Rightarrow> business_unit \<Rightarrow> business_unit" where
  "unit_data dto existing segment strategy b =
    (let segmentChanged = (case uu_marketSegmentId dto of None \<Rightarrow> False | Some v \<Rightarrow> v \<noteq> ur_marketSegmentId existing);
         default = map_option ms_defaultCurrency segment
     in b\<lparr> bu_branchId := (case uu_branchId dto of None \<Rightarrow> bu_branchId b | Some v \<Rightarrow> or_null (Some v)),
        bu_marketSegmentId := (case uu_marketSegmentId dto of None \<Rightarrow> bu_marketSegmentId b | Some v \<Rightarrow> or_null v),
        bu_currency := (case uu_currency dto of
            Some c \<Rightarrow> or_null (or_else (Some (upper (trim c))) default)
          | None \<Rightarrow> if segmentChanged then or_null default else or_null (or_else (ur_currency existing) default)),
        bu_jobCodePattern := (case uu_jobCodePattern dto of None \<Rightarrow> bu_jobCodePattern b | Some v \<Rightarrow> or_null (Some v)),
        bu_name := (case uu_name dto of None \<Rightarrow> ur_name existing | Some v \<Rightarrow> trim v),
        bu_code := (case uu_code dto of None \<Rightarrow> ur_code existing | Some v \<Rightarrow> Some (upper (trim v))),
        bu_shiftTiming := (case uu_shiftTiming dto of None \<Rightarrow> ur_shiftTiming existing | Some v \<Rightarrow> Some v),
        bu_workStartTime := (case uu_workStartTime dto of None \<Rightarrow> ur_workStartTime existing | Some v \<Rightarrow> Some v),
        bu_workEndTime := (case uu_workEndTime dto of None \<Rightarrow> ur_workEndTime existing | Some v \<Rightarrow> Some v),
        bu_timezone := (case uu_timezone dto of None \<Rightarrow> ur_timezone existing | Some v \<Rightarrow> Some v),
        bu_workingDays := (case uu_workingDays dto of None \<Rightarrow> ur_workingDays existing | Some v \<Rightarrow> v),
        bu_breakDurationMinutes := Some (case uu_breakDurationMinutes dto of None \<Rightarrow> ur_breakDurationMinutes existing | Some v \<Rightarrow> v),
        bu_allowNone := (case uu_allowNone dto of None \<Rightarrow> ur_allowNone existing | Some v \<Rightarrow> v),
        bu_allowPods := (case uu_allowPods dto of None \<Rightarrow> ur_allowPods existing | Some v \<Rightarrow> v),
        bu_allowUnassigned := (case uu_allowUnassigned dto of None \<Rightarrow> ur_allowUnassigned existing | Some v \<Rightarrow> v),
        bu_podDistributionStrategy := strategy \<rparr>)"

definition units_update :: "uuid \<Rightarrow> update_unit_dto \<Rightarrow> uuid \<Rightarrow> store \<Rightarrow> (unit_response \<times> store) result" where
  "units_update i dto tenantId db =
    and_then (units_findOne db i tenantId) (\<lambda>existing.
    let targetBranchId = (case uu_branchId dto of None \<Rightarrow> ur_branchId existing | Some v \<Rightarrow> Some v)
    in and_then (if truthy (uu_name dto) \<and> upper (trim (the (uu_name dto))) \<noteq> upper (ur_name existing)
                 \<and> list_ex (\<lambda>b. bu_tenantId b = tenantId \<and> (truthy targetBranchId \<longrightarrow> bu_branchId b = targetBranchId)
                      \<and> same_name (bu_name b) (trim (the (uu_name dto))) \<and> bu_id b \<noteq> i) (st_units db)
              then throw (unit_name_taken (the (uu_name dto))) else ok ()) (\<lambda>_.
    and_then (unit_segment db tenantId (case uu_marketSegmentId dto of None \<Rightarrow> ur_marketSegmentId existing | Some v \<Rightarrow> v)) (\<lambda>segment.
    and_then (normalizePodStrategy (case uu_podDistributionStrategy dto of
        None \<Rightarrow> Some (ur_podDistributionStrategy existing) | Some v \<Rightarrow> Some v)) (\<lambda>strategy.
    and_then (update_one (\<lambda>b. bu_id b = i) (unit_data dto existing segment strategy) (st_units db)) (\<lambda>t.
    and_then (case find_first (\<lambda>b. bu_id b = i) t of None \<Rightarrow> ok () | Some b \<Rightarrow> unit_row_check db b) (\<lambda>_.
      let db' = db\<lparr> st_units := t \<rparr>
      in and_then (units_findOne db' i tenantId) (\<lambda>r. ok (r, db'))))))))"

section \<open>Removing units\<close>

definition units_remove :: "uuid \<Rightarrow> uuid \<Rightarrow> store \<Rightarrow> (string \<times> store) result" where
  "units_remove i tenantId db =
    and_then (units_findOne db i tenantId) (\<lambda>existing.
      if 0 < ur_usersCount existing
      then throw (BadRequest (''Cannot delete business unit \"'' @ ur_name existing @ ''\". It currently has ''
             @ decimal (ur_usersCount existing) @ '' assigned member(s) . Reassign them before deleting this unit.''))
      else and_then (delete_units (\<lambda>b. bu_id b = i) db) (\<lambda>db'. ok (''Business Unit deleted successfully.'', db')))"

section \<open>Members and administrators\<close>

definition unit_member_view :: "store \<Rightarrow> user \<Rightarrow> unit_member" where
  "unit_member_view db u =
    (let role = user_role db u; pod = find_first (\<lambda>p. us_podId u = Some (pd_id p)) (st_pods db)
     in \<lparr> um_id = us_id u, um_email = us_email u, um_fullName = us_fullName u, um_profilePicture = us_profilePicture u,
          um_isActive = us_isActive u, um_branchId = us_branchId u,
          um_branchName = or_null (map_option br_name (branch_of db (us_branchId u))),
          um_roleName = the (or_else (map_option cr_name role) (Some ''Recruiter'')),
          um_systemRole = or_null (Option.bind role cr_systemKey),
          um_podId = or_null (map_option pd_id pod), um_podName = or_null (map_option pd_name pod) \<rparr>)"

definition units_getMembers :: "store \<Rightarrow> uuid \<Rightarrow> uuid \<Rightarrow> (unit_member list) result" where
  "units_getMembers db unitId tenantId =
    and_then (units_findOne db unitId tenantId) (\<lambda>_.
      ok (map (unit_member_view db) (sort_key us_fullName
        (find_many (\<lambda>u. us_tenantId u = tenantId \<and> us_businessUnitId u = Some unitId) (st_users db)))))"

text \<open>
  A missing value of the scope puts no condition on the query; the guard of the endpoints
  lets no administrator through whose own branch is missing.
\<close>

definition within_staff :: "staff_scope option \<Rightarrow> user \<Rightarrow> bool" where
  "within_staff scope u = (case scope of None \<Rightarrow> True
     | Some s \<Rightarrow> if_given (ss_branchId s) (\<lambda>b. us_branchId u = Some b)
               \<and> if_given (ss_businessUnitId s) (\<lambda>b. us_businessUnitId u = Some b))"

definition units_getCandidateStaff :: "store \<Rightarrow> uuid \<Rightarrow> uuid \<Rightarrow> staff_scope option \<Rightarrow> (candidate_staff list) result" where
  "units_getCandidateStaff db unitId tenantId scope =
    and_then (units_findOne db unitId tenantId) (\<lambda>unit.
      ok (map (\<lambda>u. \<lparr> cs_member = unit_member_view db u, cs_currentUnitId = us_businessUnitId u,
                     cs_currentUnitName = or_null (map_option bu_name (unit_of db (us_businessUnitId u))),
                     cs_isAssigned = (us_businessUnitId u = Some unitId),
                     cs_isSameBranch = (if truthy (ur_branchId unit) then us_branchId u = ur_branchId unit else True) \<rparr>)
            (sort_key us_fullName (find_many (\<lambda>u. us_tenantId u = tenantId \<and> us_isActive u \<and> within_staff scope u) (st_users db)))))"

text \<open>The two updates of an assignment: those who leave the unit, and those who join it.\<close>

definition leave_unit :: "uuid \<Rightarrow> uuid list \<Rightarrow> uuid \<Rightarrow> user list \<Rightarrow> user list" where
  "leave_unit unitId userIds tenantId =
     update_where (\<lambda>u. us_tenantId u = tenantId \<and> us_businessUnitId u = Some unitId \<and> us_id u \<notin> set userIds)
       (\<lambda>u. u\<lparr> us_businessUnitId := None \<rparr>)"

definition join_unit :: "business_unit \<Rightarrow> uuid list \<Rightarrow> uuid \<Rightarrow> staff_scope option \<Rightarrow> user list \<Rightarrow> user list" where
  "join_unit b userIds tenantId scope =
     update_where (\<lambda>u. us_tenantId u = tenantId \<and> us_id u \<in> set userIds \<and> within_staff scope u)
       (\<lambda>u. u\<lparr> us_businessUnitId := Some (bu_id b),
               us_branchId := (if truthy (bu_branchId b) then bu_branchId b else us_branchId u) \<rparr>)"

definition units_assignMembers ::
  "uuid \<Rightarrow> uuid list \<Rightarrow> uuid \<Rightarrow> staff_scope option \<Rightarrow> store \<Rightarrow> (unit_member list \<times> store) result" where
  "units_assignMembers unitId userIds tenantId scope db =
    and_then (if scope \<noteq> None \<and> userIds \<noteq> []
                \<and> count_where (\<lambda>u. us_tenantId u = tenantId \<and> within_staff scope u \<and> us_id u \<in> set userIds) (st_users db)
                    \<noteq> length (uniq userIds)
              then throw (Forbidden ''You can only assign staff within your administrative scope.'') else ok ()) (\<lambda>_.
    case unit_by unitId tenantId db of
      None \<Rightarrow> throw (NotFound (''Operating Unit with ID '' @ unitId @ '' not found.''))
    | Some b \<Rightarrow>
       (let left = leave_unit unitId userIds tenantId (st_users db);
            joined = (if userIds = [] then left else join_unit b userIds tenantId scope left);
            db' = db\<lparr> st_users := joined \<rparr>
        in and_then (units_getMembers db' unitId tenantId) (\<lambda>ms. ok (ms, db'))))"

definition units_removeMember :: "uuid \<Rightarrow> uuid \<Rightarrow> uuid \<Rightarrow> store \<Rightarrow> string \<times> store" where
  "units_removeMember unitId userId tenantId db =
    (''Member unassigned successfully.'',
     db\<lparr> st_users := update_where (\<lambda>u. us_id u = userId \<and> us_businessUnitId u = Some unitId \<and> us_tenantId u = tenantId)
           (\<lambda>u. u\<lparr> us_businessUnitId := None \<rparr>) (st_users db) \<rparr>)"

text \<open>Giving an account an administrative role, besides the roles it has.\<close>

definition with_admin_role :: "custom_role option \<Rightarrow> user \<Rightarrow> user" where
  "with_admin_role role u = (case role of None \<Rightarrow> u
     | Some r \<Rightarrow> u\<lparr> us_roleId := Some (cr_id r), us_assignedRoleIds := uniq (us_assignedRoleIds u @ [cr_id r]) \<rparr>)"

definition unit_admin_custom_role :: "uuid \<Rightarrow> custom_role \<Rightarrow> bool" where
  "unit_admin_custom_role tenantId r = (cr_tenantId r = tenantId \<and>
     (cr_systemKey r = Some ''UNIT_ADMIN'' \<or> upper (cr_name r) \<in> {''UNIT_ADMIN'', ''UNIT ADMIN''}))"

definition units_updateAdmins :: "uuid \<Rightarrow> uuid list \<Rightarrow> uuid \<Rightarrow> store \<Rightarrow> (unit_response \<times> store) result" where
  "units_updateAdmins unitId adminIds tenantId db =
    and_then (units_findOne db unitId tenantId) (\<lambda>_.
    and_then
      (if adminIds = [] then ok db
       else let admins = find_many (\<lambda>u. us_id u \<in> set adminIds \<and> us_tenantId u = tenantId) (st_users db)
            in if length admins \<noteq> length adminIds
               then throw (NotFound ''Some selected admin users were not found in tenant.'')
               else ok (db\<lparr> st_users := update_where (\<lambda>u. us_id u \<in> set (map us_id admins))
                      (\<lambda>u. with_admin_role (first_role (unit_admin_custom_role tenantId) db) (u\<lparr> us_businessUnitId := Some unitId \<rparr>))
                      (st_users db) \<rparr>)) (\<lambda>db1.
    and_then (update_one (\<lambda>b. bu_id b = unitId) (\<lambda>b. b\<lparr> bu_admins := adminIds \<rparr>) (st_units db1)) (\<lambda>t.
      let db2 = db1\<lparr> st_units := t \<rparr>
      in and_then (units_findOne db2 unitId tenantId) (\<lambda>r. ok (r, db2)))))"

section \<open>The endpoints\<close>

definition staffScope :: "auth_user \<Rightarrow> staff_scope option" where
  "staffScope user =
    (if manages_workspace user then None
     else Some \<lparr> ss_branchId = a_branchId user,
                 ss_businessUnitId = (if ''branch_admin:manage'' \<in> set (a_permissions user) then None else a_businessUnitId user) \<rparr>)"

definition units_assertAccess :: "store \<Rightarrow> auth_user \<Rightarrow> uuid \<Rightarrow> uuid \<Rightarrow> bool \<Rightarrow> unit_response result" where
  "units_assertAccess db user i tenantId mutate =
    and_then (units_findOne db i tenantId) (\<lambda>unit.
    let branchManager = ''branch_admin:manage'' \<in> set (a_permissions user);
        unitAdmin = ''unit_admin:manage'' \<in> set (a_permissions user)
    in if manages_workspace user then ok unit
       else if \<not> truthy (a_branchId user) \<or> ur_branchId unit \<noteq> a_branchId user
       then throw (Forbidden ''You can only access units in your assigned branch.'')
       else if unitAdmin \<and> \<not> branchManager \<and> Some i \<noteq> a_businessUnitId user
       then throw (Forbidden ''You can only access your assigned unit.'')
       else if mutate \<and> \<not> branchManager \<and> \<not> (unitAdmin \<and> Some i = a_businessUnitId user)
       then throw (Forbidden ''Unit administration permission is required.'')
       else ok unit)"

definition units_post ::
  "string option \<Rightarrow> uuid \<Rightarrow> int \<Rightarrow> create_unit_dto \<Rightarrow> auth_user \<Rightarrow> string option \<Rightarrow> store \<Rightarrow> (unit_response \<times> store) result" where
  "units_post env newId now dto user tenantHeader db =
    and_then (request_tenant env user tenantHeader) (\<lambda>tid.
      if \<not> manages_workspace user \<and> \<not> (''branch_admin:manage'' \<in> set (a_permissions user) \<and> truthy (a_branchId user)
            \<and> cu_branchId dto = a_branchId user)
      then throw (Forbidden ''Branch administration is required to create units.'')
      else units_create newId now dto tid db)"

definition units_get_all ::
  "string option \<Rightarrow> auth_user \<Rightarrow> uuid option \<Rightarrow> string option \<Rightarrow> store \<Rightarrow> (unit_response list) result" where
  "units_get_all env user branchId tenantHeader db =
    and_then (request_tenant env user tenantHeader) (\<lambda>tid.
      if manages_workspace user then units_findAll db tid branchId
      else if \<not> truthy (a_branchId user) then ok []
      else if truthy branchId \<and> branchId \<noteq> a_branchId user then throw (Forbidden ''You can only access your assigned branch.'')
      else if ''unit_admin:manage'' \<in> set (a_permissions user) \<and> ''branch_admin:manage'' \<notin> set (a_permissions user)
      then (if \<not> truthy (a_businessUnitId user) then ok []
            else and_then (units_assertAccess db user (the (a_businessUnitId user)) tid False) (\<lambda>u. ok [u]))
      else units_findAll db tid (a_branchId user))"

definition units_onboarding ::
  "string option \<Rightarrow> bool option \<Rightarrow> auth_user \<Rightarrow> string option \<Rightarrow> store \<Rightarrow> ((uuid \<times> string \<times> uuid option) list) result" where
  "units_onboarding env isApproved user tenantHeader db =
    (if isApproved \<noteq> Some False then throw (Forbidden ''Onboarding choices are only available to pending members.'')
     else and_then (request_tenant env user tenantHeader) (\<lambda>tid. ok (units_onboardingOptions db tid)))"

definition units_delegation ::
  "string option \<Rightarrow> auth_user \<Rightarrow> uuid option \<Rightarrow> string option \<Rightarrow> store \<Rightarrow> (business_unit list) result" where
  "units_delegation env user jobId tenantHeader db =
    (if ''job:delegate'' \<notin> set (a_permissions user) then throw (Forbidden ''Missing job:delegate permission.'')
     else and_then (request_tenant env user tenantHeader) (\<lambda>tid. delegationTargets db user jobId tid))"

definition units_get ::
  "string option \<Rightarrow> uuid \<Rightarrow> auth_user \<Rightarrow> string option \<Rightarrow> store \<Rightarrow> unit_response result" where
  "units_get env i user tenantHeader db =
    and_then (request_tenant env user tenantHeader) (\<lambda>tid. units_assertAccess db user i tid False)"

definition units_put ::
  "string option \<Rightarrow> uuid \<Rightarrow> update_unit_dto \<Rightarrow> auth_user \<Rightarrow> string option \<Rightarrow> store \<Rightarrow> (unit_response \<times> store) result" where
  "units_put env i dto user tenantHeader db =
    and_then (request_tenant env user tenantHeader) (\<lambda>tid.
    and_then (units_assertAccess db user i tid True) (\<lambda>unit.
      if \<not> manages_workspace user \<and> uu_branchId dto \<noteq> None \<and> uu_branchId dto \<noteq> ur_branchId unit
      then throw (Forbidden ''Moving units requires tenant administration.'')
      else units_update i dto tid db))"

definition units_delete ::
  "string option \<Rightarrow> uuid \<Rightarrow> auth_user \<Rightarrow> string option \<Rightarrow> store \<Rightarrow> (string \<times> store) result" where
  "units_delete env i user tenantHeader db =
    and_then (request_tenant env user tenantHeader) (\<lambda>tid.
    and_then (units_assertAccess db user i tid True) (\<lambda>_.
      if \<not> manages_workspace user \<and> ''branch_admin:manage'' \<notin> set (a_permissions user)
      then throw (Forbidden ''Branch administration is required to delete units.'')
      else units_remove i tid db))"

definition units_members ::
  "string option \<Rightarrow> uuid \<Rightarrow> auth_user \<Rightarrow> string option \<Rightarrow> store \<Rightarrow> (unit_member list) result" where
  "units_members env i user tenantHeader db =
    and_then (request_tenant env user tenantHeader) (\<lambda>tid.
    and_then (units_assertAccess db user i tid True) (\<lambda>_. units_getMembers db i tid))"

definition units_candidate_staff ::
  "string option \<Rightarrow> uuid \<Rightarrow> auth_user \<Rightarrow> string option \<Rightarrow> store \<Rightarrow> (candidate_staff list) result" where
  "units_candidate_staff env i user tenantHeader db =
    and_then (request_tenant env user tenantHeader) (\<lambda>tid.
    and_then (units_assertAccess db user i tid True) (\<lambda>_. units_getCandidateStaff db i tid (staffScope user)))"

definition units_assign_members ::
  "string option \<Rightarrow> uuid \<Rightarrow> uuid list \<Rightarrow> auth_user \<Rightarrow> string option \<Rightarrow> store \<Rightarrow> (unit_member list \<times> store) result" where
  "units_assign_members env i userIds user tenantHeader db =
    and_then (request_tenant env user tenantHeader) (\<lambda>tid.
    and_then (units_assertAccess db user i tid True) (\<lambda>_.
      units_assignMembers i userIds tid (staffScope user) db))"

definition units_remove_member ::
  "string option \<Rightarrow> uuid \<Rightarrow> uuid \<Rightarrow> auth_user \<Rightarrow> string option \<Rightarrow> store \<Rightarrow> (string \<times> store) result" where
  "units_remove_member env i userId user tenantHeader db =
    and_then (request_tenant env user tenantHeader) (\<lambda>tid.
    and_then (units_assertAccess db user i tid True) (\<lambda>_. ok (units_removeMember i userId tid db)))"

definition units_admins ::
  "string option \<Rightarrow> uuid \<Rightarrow> uuid list \<Rightarrow> auth_user \<Rightarrow> string option \<Rightarrow> store \<Rightarrow> (unit_response \<times> store) result" where
  "units_admins env i adminIds user tenantHeader db =
    (if \<not> manages_workspace user \<and> \<not> includes_any (a_permissions user) [''branch_admin:manage'', ''branch:edit'']
     then throw (Forbidden ''You do not have permission to assign unit admins.'')
     else and_then (request_tenant env user tenantHeader) (\<lambda>tid.
          and_then (units_assertAccess db user i tid True) (\<lambda>_. units_updateAdmins i adminIds tid db)))"

end
