(* ===== verification/Branches.thy ===== *)
theory Branches
  imports BusinessUnits
begin

text \<open>
  Branches (\<^verbatim>\<open>branches/branches.service.ts\<close> and its controller): the branches of a tenant, bounded by
  its plan, with their approval settings, their members and their managers.  Settings that are lists are
  stored as JSON text; \<open>JSON_parse\<close> stands for the runtime's parser, \<open>json_text\<close> is \<^verbatim>\<open>JSON.stringify\<close>.
\<close>

section \<open>JSON text\<close>

definition hex_digit :: "nat \<Rightarrow> char" where
  "hex_digit n = char_of (if n < 10 then 48 + n else 87 + n)"

definition json_char :: "char \<Rightarrow> string" where
  "json_char c =
    (let n = (of_char c :: nat)
     in if n = 34 then [CHR 0x5C, CHR 0x22] else if n = 92 then [CHR 0x5C, CHR 0x5C]
        else if n = 8 then [CHR 0x5C, CHR ''b''] else if n = 12 then [CHR 0x5C, CHR ''f'']
        else if n = 10 then [CHR 0x5C, CHR ''n''] else if n = 13 then [CHR 0x5C, CHR ''r'']
        else if n = 9 then [CHR 0x5C, CHR ''t'']
        else if n < 32 then [CHR 0x5C] @ ''u00'' @ [hex_digit (n div 16), hex_digit (n mod 16)]
        else [c])"

definition json_quote :: "string \<Rightarrow> string" where
  "json_quote s = [CHR 0x22] @ concat (map json_char s) @ [CHR 0x22]"

fun json_text :: "json \<Rightarrow> string" where
  "json_text JNull = ''null''"
| "json_text (JBool b) = (if b then ''true'' else ''false'')"
| "json_text (JNum s) = s"
| "json_text (JStr s) = json_quote s"
| "json_text (JArr vs) = ''['' @ join_commas (map json_text vs) @ '']''"
| "json_text (JObj kvs) = ''{'' @ join_commas (map (\<lambda>(k, v). json_quote k @ '':'' @ json_text v) kvs) @ ''}''"

definition parseJsonArray :: "(string \<Rightarrow> json option) \<Rightarrow> string option \<Rightarrow> json list \<Rightarrow> json list" where
  "parseJsonArray JSON_parse value defaultValue =
    (if \<not> truthy value then defaultValue
     else case JSON_parse (the value) of Some (JArr vs) \<Rightarrow> vs | _ \<Rightarrow> defaultValue)"

abbreviation jstrings :: "string list \<Rightarrow> json list" where
  "jstrings xs \<equiv> map JStr xs"

section \<open>Data\<close>

record branch_member =
  bm_id :: uuid
  bm_email :: string
  bm_fullName :: string
  bm_roles :: "string list"
  bm_isActive :: bool
  bm_podId :: "uuid option"
  bm_businessUnitId :: "uuid option"
  bm_businessUnitName :: "string option"
  bm_createdAt :: int

text \<open>The market of a unit is not a column any more, so the summary's market is always missing.\<close>

record unit_summary =
  uy_id :: uuid
  uy_name :: string
  uy_code :: "string option"
  uy_currency :: "string option"
  uy_shiftTiming :: "string option"
  uy_workStartTime :: "string option"
  uy_workEndTime :: "string option"
  uy_timezone :: "string option"
  uy_workingDays :: "string list"
  uy_breakDurationMinutes :: int
  uy_usersCount :: nat
  uy_jobsCount :: nat

record branch_response =
  bz_id :: uuid
  bz_name :: string
  bz_code :: "string option"
  bz_city :: "string option"
  bz_state :: "string option"
  bz_country :: string
  bz_market :: string
  bz_managers :: "(uuid \<times> string \<times> string) list"
  bz_isActive :: bool
  bz_allowNone :: bool
  bz_allowPods :: bool
  bz_allowAll :: bool
  bz_allowUnassigned :: bool
  bz_podDistributionStrategy :: string
  bz_requireAmJobApproval :: bool
  bz_requireJobApproval :: bool
  bz_rolesRequiringApproval :: "json list"
  bz_defaultJobApproverRole :: string
  bz_allowedJobApproverRoles :: "json list"
  bz_approvalRoutingMode :: string
  bz_timezone :: string
  bz_workStartTime :: string
  bz_workEndTime :: string
  bz_workingDays :: "json list"
  bz_shiftTiming :: string
  bz_breakDurationMinutes :: int
  bz_enableGlobalRemarks :: bool
  bz_selectedGlobalRemarkIds :: string
  bz_usersCount :: nat
  bz_jobsCount :: nat
  bz_podsCount :: nat
  bz_businessUnits :: "unit_summary list"
  bz_members :: "branch_member list"
  bz_createdAt :: int

record create_branch_dto =
  cb_name :: string
  cb_code :: "string option"
  cb_city :: "string option"
  cb_state :: "string option"
  cb_country :: "string option"
  cb_market :: "string option"
  cb_timezone :: "string option"
  cb_workStartTime :: "string option"
  cb_workEndTime :: "string option"
  cb_workingDays :: "string list option"
  cb_shiftTiming :: "string option"
  cb_breakDurationMinutes :: "int option"
  cb_enableGlobalRemarks :: "bool option"

record update_branch_dto =
  ub_name :: "string option"
  ub_code :: "string option"
  ub_city :: "string option"
  ub_state :: "string option"
  ub_country :: "string option"
  ub_market :: "string option"
  ub_isActive :: "bool option"
  ub_allowNone :: "bool option"
  ub_allowPods :: "bool option"
  ub_allowAll :: "bool option"
  ub_allowUnassigned :: "bool option"
  ub_podDistributionStrategy :: "string option"
  ub_requireAmJobApproval :: "bool option"
  ub_requireJobApproval :: "bool option"
  ub_rolesRequiringApproval :: "string list option"
  ub_defaultJobApproverRole :: "string option"
  ub_allowedJobApproverRoles :: "string list option"
  ub_approvalRoutingMode :: "string option"
  ub_timezone :: "string option"
  ub_workStartTime :: "string option"
  ub_workEndTime :: "string option"
  ub_workingDays :: "string list option"
  ub_shiftTiming :: "string option"
  ub_breakDurationMinutes :: "int option"
  ub_enableGlobalRemarks :: "bool option"

section \<open>Reading branches\<close>

definition findLocation ::
  "store \<Rightarrow> uuid \<Rightarrow> uuid \<Rightarrow> (uuid \<times> string \<times> string option \<times> string option \<times> string \<times> bool) option" where
  "findLocation db i tenantId =
     map_option (\<lambda>b. (br_id b, br_name b, br_code b, br_city b, br_country b, br_allowPods b)) (branch_by i tenantId db)"

definition unit_to_summary :: "store \<Rightarrow> business_unit \<Rightarrow> unit_summary" where
  "unit_to_summary db b =
     \<lparr> uy_id = bu_id b, uy_name = bu_name b, uy_code = bu_code b, uy_currency = bu_currency b,
       uy_shiftTiming = or_null (bu_shiftTiming b), uy_workStartTime = or_null (bu_workStartTime b),
       uy_workEndTime = or_null (bu_workEndTime b), uy_timezone = or_null (bu_timezone b),
       uy_workingDays = bu_workingDays b,
       uy_breakDurationMinutes = (case bu_breakDurationMinutes b of None \<Rightarrow> 60 | Some n \<Rightarrow> n),
       uy_usersCount = count_where (\<lambda>u. us_businessUnitId u = Some (bu_id b)) (st_users db), uy_jobsCount = 0 \<rparr>"

definition branch_member_view :: "store \<Rightarrow> user \<Rightarrow> branch_member" where
  "branch_member_view db u =
    (let role = user_role db u
     in \<lparr> bm_id = us_id u, bm_email = us_email u, bm_fullName = us_fullName u,
          bm_roles = [the (or_else (map_option cr_name role) (or_else (Option.bind role cr_systemKey) (Some ''RECRUITER'')))],
          bm_isActive = us_isActive u, bm_podId = us_podId u, bm_businessUnitId = or_null (us_businessUnitId u),
          bm_businessUnitName = or_null (map_option bu_name (unit_of db (us_businessUnitId u))),
          bm_createdAt = us_createdAt u \<rparr>)"

definition branches_getMembers :: "store \<Rightarrow> uuid \<Rightarrow> uuid \<Rightarrow> uuid option \<Rightarrow> branch_member list" where
  "branches_getMembers db branchId tenantId businessUnitId =
     map (branch_member_view db) (sort_key us_fullName
       (find_many (\<lambda>u. us_tenantId u = tenantId \<and> us_isActive u \<and> us_branchId u = Some branchId
          \<and> (truthy businessUnitId \<longrightarrow> us_businessUnitId u = businessUnitId)) (st_users db)))"

abbreviation default_roles_requiring :: "json list" where
  "default_roles_requiring \<equiv> jstrings [''ACCOUNT_MANAGER'', ''BD'', ''RECRUITER'']"

abbreviation default_approver_roles :: "json list" where
  "default_approver_roles \<equiv> jstrings [''POD_LEAD'', ''DELIVERY_HEAD'', ''PRIMARY_RECRUITER'', ''BRANCH_ADMIN'']"

abbreviation weekdays :: "string list" where
  "weekdays \<equiv> [''Monday'', ''Tuesday'', ''Wednesday'', ''Thursday'', ''Friday'']"

definition formatBranch :: "(string \<Rightarrow> json option) \<Rightarrow> store \<Rightarrow> branch \<Rightarrow> branch_member list \<Rightarrow> branch_response" where
  "formatBranch JSON_parse db b members =
    (let managers = find_many (\<lambda>u. us_branchId u = Some (br_id b)
             \<and> Option.bind (user_role db u) cr_systemKey = Some ''BRANCH_ADMIN'') (st_users db);
         units = sort_key bu_name (find_many (\<lambda>c. bu_branchId c = Some (br_id b)) (st_units db))
     in \<lparr> bz_id = br_id b, bz_name = br_name b, bz_code = br_code b, bz_city = br_city b, bz_state = br_state b,
          bz_country = br_country b,
          bz_market = (if br_market b = [] then ''INDIA'' else br_market b),
          bz_managers = map (\<lambda>u. (us_id u, us_fullName u, us_email u)) managers,
          bz_isActive = br_isActive b, bz_allowNone = br_allowNone b, bz_allowPods = br_allowPods b,
          bz_allowAll = br_allowAll b, bz_allowUnassigned = br_allowUnassigned b,
          bz_podDistributionStrategy =
            upper (if br_podDistributionStrategy b = [] then ''AUTO'' else br_podDistributionStrategy b),
          bz_requireAmJobApproval = br_requireAmJobApproval b,
          bz_requireJobApproval = (br_requireJobApproval b \<and> br_requireAmJobApproval b),
          bz_rolesRequiringApproval = parseJsonArray JSON_parse (br_rolesRequiringApproval b) default_roles_requiring,
          bz_defaultJobApproverRole = the (or_else (br_defaultJobApproverRole b) (Some ''POD_LEAD'')),
          bz_allowedJobApproverRoles = parseJsonArray JSON_parse (br_allowedJobApproverRoles b) default_approver_roles,
          bz_approvalRoutingMode = the (or_else (br_approvalRoutingMode b) (Some ''FLEXIBLE'')),
          bz_timezone = the (or_else (br_timezone b)
             (Some (if br_market b = ''US'' \<or> br_country b = ''United States'' then ''America/New_York'' else ''Asia/Kolkata''))),
          bz_workStartTime = the (or_else (br_workStartTime b) (Some ''09:00'')),
          bz_workEndTime = the (or_else (br_workEndTime b) (Some ''18:00'')),
          bz_workingDays = parseJsonArray JSON_parse (br_workingDays b) (jstrings weekdays),
          bz_shiftTiming = the (or_else (br_shiftTiming b)
             (Some (if br_market b = ''US'' then ''US Shift'' else ''General Shift''))),
          bz_breakDurationMinutes = (case br_breakDurationMinutes b of None \<Rightarrow> 60 | Some n \<Rightarrow> n),
          bz_enableGlobalRemarks = br_enableGlobalRemarks b,
          bz_selectedGlobalRemarkIds = (case br_selectedGlobalRemarkIds b of None \<Rightarrow> ''ALL'' | Some s \<Rightarrow> s),
          bz_usersCount = length members, bz_jobsCount = 0,
          bz_podsCount = count_where (\<lambda>p. pd_branchId p = Some (br_id b)) (st_pods db),
          bz_businessUnits = map (unit_to_summary db) units,
          bz_members = members, bz_createdAt = br_createdAt b \<rparr>)"

definition branches_findAll :: "(string \<Rightarrow> json option) \<Rightarrow> store \<Rightarrow> uuid \<Rightarrow> branch_response list" where
  "branches_findAll JSON_parse db tenantId =
     map (\<lambda>b. formatBranch JSON_parse db b (branches_getMembers db (br_id b) tenantId None))
       (sort_key br_name (find_many (\<lambda>b. br_tenantId b = tenantId) (st_branches db)))"

definition branches_getDelegationTargets :: "store \<Rightarrow> uuid \<Rightarrow> uuid option \<Rightarrow> (uuid \<times> string) list" where
  "branches_getDelegationTargets db tenantId sourceBranchId =
     map (\<lambda>b. (br_id b, br_name b)) (sort_key br_name
       (find_many (\<lambda>b. br_tenantId b = tenantId \<and> (truthy sourceBranchId \<longrightarrow> Some (br_id b) \<noteq> sourceBranchId)) (st_branches db)))"

definition branches_findOne :: "(string \<Rightarrow> json option) \<Rightarrow> store \<Rightarrow> uuid \<Rightarrow> uuid \<Rightarrow> branch_response result" where
  "branches_findOne JSON_parse db i tenantId =
    (case branch_by i tenantId db of
       None \<Rightarrow> throw (NotFound (''Branch with ID \"'' @ i @ ''\" not found.''))
     | Some b \<Rightarrow> ok (formatBranch JSON_parse db b (branches_getMembers db i tenantId None)))"

section \<open>Creating and updating branches\<close>

definition branch_name_taken :: "branch list \<Rightarrow> uuid option \<Rightarrow> uuid \<times> string \<Rightarrow> bool" where
  "branch_name_taken t skip k = list_ex (\<lambda>b. br_tenantId b = fst k \<and> same_name (br_name b) (snd k) \<and> Some (br_id b) \<noteq> skip) t"

definition branch_conflict :: "string \<Rightarrow> http_error" where
  "branch_conflict name = Conflict (''A branch with the name \"'' @ name @ ''\" already exists.'')"

definition branch_limit :: "store \<Rightarrow> uuid \<Rightarrow> int" where
  "branch_limit db tenantId =
     (case tenant_by tenantId db of None \<Rightarrow> 5 | Some t \<Rightarrow> if tn_maxBranches t = 0 then 5 else tn_maxBranches t)"

definition new_branch :: "uuid \<Rightarrow> int \<Rightarrow> create_branch_dto \<Rightarrow> uuid \<Rightarrow> branch" where
  "new_branch newId now dto tenantId =
    (let market = (if truthy (cb_market dto) then upper (trim (the (cb_market dto))) else ''INDIA'')
     in \<lparr> br_id = newId, br_tenantId = tenantId, br_name = trim (cb_name dto),
          br_code = Some (if truthy (cb_code dto) then upper (trim (the (cb_code dto))) else upper (take 4 (cb_name dto))),
          br_city = or_null (cb_city dto), br_state = or_null (cb_state dto),
          br_country = the (or_else (cb_country dto) (Some ''India'')),
          br_isActive = True, br_market = market, br_allowNone = False, br_allowPods = True, br_allowAll = True,
          br_allowUnassigned = True, br_podDistributionStrategy = ''AUTO'', br_requireAmJobApproval = True,
          br_requireJobApproval = True, br_rolesRequiringApproval = None, br_defaultJobApproverRole = Some ''POD_LEAD'',
          br_allowedJobApproverRoles = None, br_approvalRoutingMode = Some ''FLEXIBLE'',
          br_timezone = or_else (cb_timezone dto)
            (Some (if market = ''US'' \<or> cb_country dto = Some ''United States'' then ''America/New_York'' else ''Asia/Kolkata'')),
          br_workStartTime = or_else (cb_workStartTime dto) (Some ''09:00''),
          br_workEndTime = or_else (cb_workEndTime dto) (Some ''18:00''),
          br_workingDays = Some (json_text (JArr (jstrings (case cb_workingDays dto of None \<Rightarrow> weekdays | Some ds \<Rightarrow> ds)))),
          br_shiftTiming = Some (if truthy (cb_shiftTiming dto) then trim (the (cb_shiftTiming dto))
                                 else if market = ''US'' then ''US Shift'' else ''General Shift''),
          br_breakDurationMinutes = Some (case cb_breakDurationMinutes dto of None \<Rightarrow> 60 | Some n \<Rightarrow> n),
          br_enableGlobalRemarks = (cb_enableGlobalRemarks dto = Some True),
          br_selectedGlobalRemarkIds = Some ''ALL'', br_createdAt = now, br_managers = [] \<rparr>)"

text \<open>
  Creating a branch reads first and inserts later, with no transaction around the two:
  \<open>branch_create_checks\<close> is what it reads, \<open>insert_branch\<close> the insertion, where only the table's own
  constraints are left to refuse.
\<close>

definition branch_create_checks :: "create_branch_dto \<Rightarrow> uuid \<Rightarrow> store \<Rightarrow> unit result" where
  "branch_create_checks dto tenantId db =
    (let maxBranches = branch_limit db tenantId
     in if maxBranches \<le> int (count_where (\<lambda>b. br_tenantId b = tenantId) (st_branches db))
        then throw (BadRequest (''Branch limit reached. Your subscription plan allows up to '' @ signed_decimal maxBranches
               @ '' branches. Please upgrade your plan to add more branches.''))
        else if branch_name_taken (st_branches db) None (tenantId, trim (cb_name dto)) then throw (branch_conflict (cb_name dto))
        else ok ())"

definition branch_row_check :: "store \<Rightarrow> branch \<Rightarrow> unit result" where
  "branch_row_check db b =
    (if list_ex (\<lambda>c. br_id c \<noteq> br_id b \<and> br_tenantId c = br_tenantId b \<and> br_name c = br_name b) (st_branches db)
     then throw (InternalError ''P2002'') else ok ())"

definition insert_branch :: "branch \<Rightarrow> store \<Rightarrow> store result" where
  "insert_branch b db =
    (if tenant_by (br_tenantId b) db = None then throw (InternalError ''P2003'')
     else and_then (branch_row_check db b) (\<lambda>_. ok (db\<lparr> st_branches := st_branches db @ [b] \<rparr>)))"

definition branches_create ::
  "(string \<Rightarrow> json option) \<Rightarrow> uuid \<Rightarrow> int \<Rightarrow> create_branch_dto \<Rightarrow> uuid \<Rightarrow> store \<Rightarrow> (branch_response \<times> store) result" where
  "branches_create JSON_parse newId now dto tenantId db =
    and_then (branch_create_checks dto tenantId db) (\<lambda>_.
    and_then (insert_branch (new_branch newId now dto tenantId) db) (\<lambda>db'.
    and_then (branches_findOne JSON_parse db' newId tenantId) (\<lambda>r. ok (r, db'))))"

definition branch_data :: "update_branch_dto \<Rightarrow> branch_response \<Rightarrow> bool \<Rightarrow> bool \<Rightarrow> branch \<Rightarrow> branch" where
  "branch_data dto existing allowNone allowPods b =
    (let given = (\<lambda>x y. case x of None \<Rightarrow> y | Some v \<Rightarrow> v);
         country = (case ub_country dto of None \<Rightarrow> bz_country existing | Some v \<Rightarrow> v);
         requireJobApproval = (case ub_requireJobApproval dto of Some v \<Rightarrow> v
           | None \<Rightarrow> (case ub_requireAmJobApproval dto of Some v \<Rightarrow> v | None \<Rightarrow> bz_requireJobApproval existing))
     in b\<lparr> br_name := (case ub_name dto of None \<Rightarrow> bz_name existing | Some v \<Rightarrow> trim v),
        br_code := (case ub_code dto of None \<Rightarrow> bz_code existing | Some v \<Rightarrow> Some (upper (trim v))),
        br_city := (case ub_city dto of None \<Rightarrow> bz_city existing | Some v \<Rightarrow> Some v),
        br_state := (case ub_state dto of None \<Rightarrow> bz_state existing | Some v \<Rightarrow> Some v),
        br_country := (if country = [] then ''India'' else country),
        br_market := (case ub_market dto of None \<Rightarrow> bz_market existing | Some v \<Rightarrow> upper (trim v)),
        br_isActive := (case ub_isActive dto of None \<Rightarrow> bz_isActive existing | Some v \<Rightarrow> v),
        br_allowNone := allowNone, br_allowPods := allowPods,
        br_allowAll := (case ub_allowAll dto of None \<Rightarrow> bz_allowAll existing | Some v \<Rightarrow> v),
        br_allowUnassigned := (case ub_allowUnassigned dto of None \<Rightarrow> bz_allowUnassigned existing | Some v \<Rightarrow> v),
        br_podDistributionStrategy := (case ub_podDistributionStrategy dto of None \<Rightarrow> bz_podDistributionStrategy existing | Some v \<Rightarrow> v),
        br_requireAmJobApproval := requireJobApproval, br_requireJobApproval := requireJobApproval,
        br_rolesRequiringApproval := Some (json_text (JArr (case ub_rolesRequiringApproval dto of
            None \<Rightarrow> bz_rolesRequiringApproval existing | Some v \<Rightarrow> jstrings v))),
        br_defaultJobApproverRole := Some (given (ub_defaultJobApproverRole dto) (bz_defaultJobApproverRole existing)),
        br_allowedJobApproverRoles := Some (json_text (JArr (case ub_allowedJobApproverRoles dto of
            None \<Rightarrow> bz_allowedJobApproverRoles existing | Some v \<Rightarrow> jstrings v))),
        br_approvalRoutingMode := Some (given (ub_approvalRoutingMode dto) (bz_approvalRoutingMode existing)),
        br_timezone := Some (given (ub_timezone dto) (bz_timezone existing)),
        br_workStartTime := Some (given (ub_workStartTime dto) (bz_workStartTime existing)),
        br_workEndTime := Some (given (ub_workEndTime dto) (bz_workEndTime existing)),
        br_workingDays := Some (json_text (JArr (case ub_workingDays dto of
            None \<Rightarrow> bz_workingDays existing | Some v \<Rightarrow> jstrings v))),
        br_shiftTiming := Some (given (ub_shiftTiming dto) (bz_shiftTiming existing)),
        br_breakDurationMinutes := Some (case ub_breakDurationMinutes dto of None \<Rightarrow> bz_breakDurationMinutes existing | Some v \<Rightarrow> v),
        br_enableGlobalRemarks := (case ub_enableGlobalRemarks dto of None \<Rightarrow> bz_enableGlobalRemarks existing | Some v \<Rightarrow> v) \<rparr>)"

definition branches_update ::
  "(string \<Rightarrow> json option) \<Rightarrow> uuid \<Rightarrow> update_branch_dto \<Rightarrow> uuid \<Rightarrow> store \<Rightarrow> (branch_response \<times> store) result" where
  "branches_update JSON_parse i dto tenantId db =
    and_then (branches_findOne JSON_parse db i tenantId) (\<lambda>existing.
    and_then (if truthy (ub_name dto) \<and> upper (trim (the (ub_name dto))) \<noteq> upper (bz_name existing)
                 \<and> branch_name_taken (st_branches db) (Some i) (tenantId, trim (the (ub_name dto)))
              then throw (branch_conflict (the (ub_name dto))) else ok ()) (\<lambda>_.
    let allowNone = (case ub_allowNone dto of None \<Rightarrow> bz_allowNone existing | Some v \<Rightarrow> v);
        allowPods = (\<not> allowNone \<and> (case ub_allowPods dto of None \<Rightarrow> bz_allowPods existing | Some v \<Rightarrow> v))
    in and_then (if allowPods \<and> count_where (\<lambda>p. pd_branchId p = Some i \<and> pd_tenantId p = tenantId) (st_pods db) = 0
         then throw (BadRequest ''Recruitment Pod System cannot be enabled: No recruitment pods have been created for this branch yet. Please create a pod first.'')
         else ok ()) (\<lambda>_.
    and_then (update_one (\<lambda>b. br_id b = i) (branch_data dto existing allowNone allowPods) (st_branches db)) (\<lambda>t.
    and_then (case find_first (\<lambda>b. br_id b = i) t of None \<Rightarrow> ok () | Some b \<Rightarrow> branch_row_check db b) (\<lambda>_.
      let db' = db\<lparr> st_branches := t \<rparr>
      in and_then (branches_findOne JSON_parse db' i tenantId) (\<lambda>r. ok (r, db')))))))"

definition toggleGlobalRemarks ::
  "(string \<Rightarrow> json option) \<Rightarrow> uuid \<Rightarrow> uuid \<Rightarrow> bool option \<Rightarrow> string option \<Rightarrow> store \<Rightarrow> (branch_response \<times> store) result" where
  "toggleGlobalRemarks JSON_parse i tenantId enabled selectedIds db =
    and_then (branches_findOne JSON_parse db i tenantId) (\<lambda>existing.
    let nextState = (case enabled of Some v \<Rightarrow> v | None \<Rightarrow> \<not> bz_enableGlobalRemarks existing)
    in and_then (update_one (\<lambda>b. br_id b = i) (\<lambda>b. b\<lparr> br_enableGlobalRemarks := nextState,
           br_selectedGlobalRemarkIds := (case selectedIds of None \<Rightarrow> br_selectedGlobalRemarkIds b | Some s \<Rightarrow> Some s) \<rparr>) (st_branches db)) (\<lambda>t.
       let db' = db\<lparr> st_branches := t \<rparr>
       in and_then (branches_findOne JSON_parse db' i tenantId) (\<lambda>r. ok (r, db'))))"

section \<open>Removing branches\<close>

definition branches_remove :: "(string \<Rightarrow> json option) \<Rightarrow> uuid \<Rightarrow> uuid \<Rightarrow> store \<Rightarrow> (string \<times> store) result" where
  "branches_remove JSON_parse i tenantId db =
    and_then (branches_findOne JSON_parse db i tenantId) (\<lambda>existing.
      if count_where (\<lambda>b. br_tenantId b = tenantId) (st_branches db) \<le> 1
      then throw (BadRequest ''Cannot delete the primary/only branch of your company workspace.'')
      else let usersCount = count_where (\<lambda>u. us_branchId u = Some i) (st_users db);
               jobsCount = count_where (\<lambda>j. jb_branchId j = Some i) (st_jobs db);
               podsCount = count_where (\<lambda>p. pd_branchId p = Some i) (st_pods db)
           in if 0 < usersCount \<or> 0 < jobsCount \<or> 0 < podsCount
              then throw (BadRequest (''Cannot delete branch \"'' @ bz_name existing @ ''\". It currently has ''
                     @ decimal usersCount @ '' assigned user(s), '' @ decimal jobsCount @ '' job(s), and ''
                     @ decimal podsCount @ '' pod(s). Reassign or archive them before deleting this branch.''))
              else and_then (delete_branch i db) (\<lambda>db'. ok (''Branch deleted successfully.'', db')))"

section \<open>Staff of a branch\<close>

definition assignment_roles :: "store \<Rightarrow> uuid \<Rightarrow> string list \<Rightarrow> custom_role list" where
  "assignment_roles db tenantId roles =
     sort_key cr_isSystem (sort_key (\<lambda>r. - cr_createdAt r) (find_many (\<lambda>r. cr_tenantId r = tenantId
       \<and> (cr_name r \<in> set roles \<or> cr_id r \<in> set (filter is_uuid roles) \<or> (\<exists>k \<in> set roles. cr_systemKey r = Some k))) (st_roles db)))"

definition first_unit :: "store \<Rightarrow> uuid \<Rightarrow> uuid \<Rightarrow> uuid option" where
  "first_unit db tenantId branchId =
     (case sort_key bu_createdAt (find_many (\<lambda>b. bu_tenantId b = tenantId \<and> bu_branchId b = Some branchId) (st_units db)) of
        [] \<Rightarrow> None | b # _ \<Rightarrow> Some (bu_id b))"

definition target_unit :: "store \<Rightarrow> uuid \<Rightarrow> uuid \<Rightarrow> user \<Rightarrow> uuid option \<Rightarrow> (uuid option) result" where
  "target_unit db tenantId branchId user businessUnitId =
    (if truthy businessUnitId
     then if list_ex (\<lambda>b. Some (bu_id b) = businessUnitId \<and> bu_tenantId b = tenantId \<and> bu_branchId b = Some branchId) (st_units db)
          then ok businessUnitId
          else throw (BadRequest ''Specified business unit does not belong to this branch.'')
     else if \<not> truthy (us_businessUnitId user) \<or> us_branchId user \<noteq> Some branchId
     then ok (case first_unit db tenantId branchId of None \<Rightarrow> businessUnitId | Some u \<Rightarrow> Some u)
     else ok businessUnitId)"

definition assignUser ::
  "(string \<Rightarrow> json option) \<Rightarrow> uuid \<Rightarrow> uuid \<Rightarrow> uuid \<Rightarrow> string list option \<Rightarrow> uuid option \<Rightarrow> store \<Rightarrow> (string \<times> store) result" where
  "assignUser JSON_parse branchId userId tenantId roles businessUnitId db =
    and_then (branches_findOne JSON_parse db branchId tenantId) (\<lambda>_.
    case user_by userId tenantId db of
      None \<Rightarrow> throw (NotFound ''User not found in tenant.'')
    | Some user \<Rightarrow>
        and_then (target_unit db tenantId branchId user businessUnitId) (\<lambda>target.
        let roleIds = (case roles of None \<Rightarrow> [] | Some rs \<Rightarrow> if rs = [] then [] else map cr_id (assignment_roles db tenantId rs))
        in and_then (update_one (\<lambda>u. us_id u = userId)
             (\<lambda>u. u\<lparr> us_branchId := Some branchId,
                     us_businessUnitId := (if truthy target then target else us_businessUnitId u),
                     us_roleId := (if roleIds = [] then us_roleId u else Some (hd roleIds)),
                     us_assignedRoleIds := (if roleIds = [] then us_assignedRoleIds u else roleIds) \<rparr>) (st_users db)) (\<lambda>us.
           ok (''User assigned to branch and unit successfully.'', db\<lparr> st_users := us \<rparr>))))"

definition branch_admin_custom_role :: "uuid \<Rightarrow> uuid \<Rightarrow> custom_role \<Rightarrow> bool" where
  "branch_admin_custom_role tenantId branchId r = (cr_tenantId r = tenantId
     \<and> (cr_branchId r = Some branchId \<or> cr_branchId r = None)
     \<and> (cr_systemKey r = Some ''BRANCH_ADMIN'' \<or> upper (cr_name r) \<in> {''BRANCH_ADMIN'', ''BRANCH ADMIN''}))"

definition updateManagers ::
  "(string \<Rightarrow> json option) \<Rightarrow> uuid \<Rightarrow> uuid list \<Rightarrow> uuid \<Rightarrow> store \<Rightarrow> (branch_response \<times> store) result" where
  "updateManagers JSON_parse branchId managerIds tenantId db =
    and_then (branches_findOne JSON_parse db branchId tenantId) (\<lambda>_.
    and_then
      (if managerIds = [] then ok db
       else let mgrs = find_many (\<lambda>u. us_id u \<in> set managerIds \<and> us_tenantId u = tenantId) (st_users db)
            in if length mgrs \<noteq> length managerIds
               then throw (NotFound ''Some selected manager users were not found in tenant.'')
               else ok (db\<lparr> st_users := update_where (\<lambda>u. us_id u \<in> set (map us_id mgrs))
                      (\<lambda>u. with_admin_role (first_role (branch_admin_custom_role tenantId branchId) db) (u\<lparr> us_branchId := Some branchId \<rparr>))
                      (st_users db) \<rparr>)) (\<lambda>db1.
    and_then (update_one (\<lambda>b. br_id b = branchId) (\<lambda>b. b\<lparr> br_managers := managerIds \<rparr>) (st_branches db1)) (\<lambda>t.
      let db2 = db1\<lparr> st_branches := t \<rparr>
      in and_then (branches_findOne JSON_parse db2 branchId tenantId) (\<lambda>r. ok (r, db2)))))"

text \<open>The directory of a workspace: its branches, each with its pods.\<close>

definition getHierarchy ::
  "(string \<Rightarrow> json option) \<Rightarrow> store \<Rightarrow> uuid \<Rightarrow> (uuid option \<times> string \<times> string option) \<times> (branch_response \<times> (uuid \<times> string) list) list" where
  "getHierarchy JSON_parse db tenantId =
    (let pods = find_many (\<lambda>p. pd_tenantId p = tenantId) (st_pods db)
     in (case tenant_by tenantId db of None \<Rightarrow> (None, ''Tenant HQ'', Some ''workspace'') | Some t \<Rightarrow> (Some (tn_id t), tn_name t, tn_domain t),
         map (\<lambda>b. (b, map (\<lambda>p. (pd_id p, pd_name p)) (filter (\<lambda>p. truthy (pd_branchId p) \<and> pd_branchId p = Some (bz_id b)) pods)))
           (branches_findAll JSON_parse db tenantId)))"

section \<open>The endpoints\<close>

text \<open>A branch as an endpoint shows it: in full, or as a location only.\<close>

datatype branch_view =
    FullBranch branch_response
  | BranchLocation "uuid \<times> string \<times> string option \<times> string option \<times> string \<times> bool"

definition isUnitScoped :: "auth_user \<Rightarrow> bool" where
  "isUnitScoped user = (\<not> manages_workspace user \<and> ''branch_admin:manage'' \<notin> set (a_permissions user)
     \<and> ''unit_admin:manage'' \<in> set (a_permissions user))"

definition assertBranchAccess :: "auth_user \<Rightarrow> uuid \<Rightarrow> unit result" where
  "assertBranchAccess user i =
    refuse (\<not> manages_workspace user \<and> (\<not> truthy (a_branchId user) \<or> a_branchId user \<noteq> Some i))
      (Forbidden ''You can only access your assigned branch.'')"

text \<open>The two guards in front of the changes of one branch: a capability, and the own branch.\<close>

definition branch_change_guard :: "string list \<Rightarrow> string \<Rightarrow> string \<Rightarrow> auth_user \<Rightarrow> uuid \<Rightarrow> unit result" where
  "branch_change_guard required missing foreign user i =
    checks [refuse (\<not> includes_any (a_permissions user) required) (Forbidden missing),
      refuse (\<not> includes_any (a_permissions user) [''tenant:settings'', ''tenant:manage''] \<and> a_branchId user \<noteq> Some i)
        (Forbidden foreign)]"

definition branches_post ::
  "(string \<Rightarrow> json option) \<Rightarrow> string option \<Rightarrow> uuid \<Rightarrow> int \<Rightarrow> create_branch_dto \<Rightarrow> auth_user \<Rightarrow> string option \<Rightarrow> store
    \<Rightarrow> (branch_response \<times> store) result" where
  "branches_post JSON_parse env newId now dto user tenantHeader db =
    (if \<not> includes_any (a_permissions user) [''branch:create'', ''tenant:settings'']
     then throw (Forbidden ''Access denied. Only Tenant Admins (tenant:settings) or users with branch:create permission can create new branch locations.'')
     else and_then (request_tenant env user tenantHeader) (\<lambda>tid. branches_create JSON_parse newId now dto tid db))"

definition branches_get_all ::
  "(string \<Rightarrow> json option) \<Rightarrow> string option \<Rightarrow> bool \<Rightarrow> auth_user \<Rightarrow> string option \<Rightarrow> store \<Rightarrow> (branch_view list) result" where
  "branches_get_all JSON_parse env isPendingUser user tenantHeader db =
    and_then (request_tenant env user tenantHeader) (\<lambda>tid.
      if \<not> isPendingUser \<and> \<not> manages_workspace user \<and> \<not> truthy (a_branchId user) then ok []
      else if isUnitScoped user
      then (if \<not> truthy (a_branchId user) \<or> \<not> truthy (a_businessUnitId user) then ok []
            else ok (case findLocation db (the (a_branchId user)) tid of None \<Rightarrow> [] | Some l \<Rightarrow> [BranchLocation l]))
      else if \<not> isPendingUser \<and> truthy (a_branchId user) \<and> \<not> manages_workspace user
      then and_then (branches_findOne JSON_parse db (the (a_branchId user)) tid) (\<lambda>b. ok [FullBranch b])
      else ok (map FullBranch (branches_findAll JSON_parse db tid)))"

definition branches_delegation ::
  "string option \<Rightarrow> auth_user \<Rightarrow> string option \<Rightarrow> store \<Rightarrow> ((uuid \<times> string) list) result" where
  "branches_delegation env user tenantHeader db =
    (if ''job:delegate'' \<notin> set (a_permissions user) then throw (Forbidden ''Missing job:delegate permission.'')
     else and_then (request_tenant env user tenantHeader) (\<lambda>tid.
       ok (branches_getDelegationTargets db tid (a_branchId user))))"

definition branches_hierarchy ::
  "(string \<Rightarrow> json option) \<Rightarrow> string option \<Rightarrow> auth_user \<Rightarrow> string option \<Rightarrow> store
    \<Rightarrow> ((uuid option \<times> string \<times> string option) \<times> (branch_response \<times> (uuid \<times> string) list) list) result" where
  "branches_hierarchy JSON_parse env user tenantHeader db =
    and_then (request_tenant env user tenantHeader) (\<lambda>tid.
      if \<not> manages_workspace user
      then throw (Forbidden ''Branch directory access requires tenant administration permissions.'')
      else ok (getHierarchy JSON_parse db tid))"

definition branches_get ::
  "(string \<Rightarrow> json option) \<Rightarrow> string option \<Rightarrow> uuid \<Rightarrow> auth_user \<Rightarrow> string option \<Rightarrow> store \<Rightarrow> (branch_view option) result" where
  "branches_get JSON_parse env i user tenantHeader db =
    and_then (assertBranchAccess user i) (\<lambda>_.
    and_then (request_tenant env user tenantHeader) (\<lambda>tid.
      if isUnitScoped user then ok (map_option BranchLocation (findLocation db i tid))
      else and_then (branches_findOne JSON_parse db i tid) (\<lambda>b. ok (Some (FullBranch b)))))"

definition branches_put ::
  "(string \<Rightarrow> json option) \<Rightarrow> string option \<Rightarrow> uuid \<Rightarrow> update_branch_dto \<Rightarrow> auth_user \<Rightarrow> string option \<Rightarrow> store
    \<Rightarrow> (branch_response \<times> store) result" where
  "branches_put JSON_parse env i dto user tenantHeader db =
    and_then (branch_change_guard [''branch:edit'', ''branch_admin:manage'', ''tenant:settings'']
       ''Access denied. You do not have granular permission (branch:edit or branch_admin:manage) to modify this branch location.''
       ''Access denied. You can only modify your assigned branch location.'' user i) (\<lambda>_.
    and_then (request_tenant env user tenantHeader) (\<lambda>tid. branches_update JSON_parse i dto tid db))"

definition branches_toggle ::
  "(string \<Rightarrow> json option) \<Rightarrow> string option \<Rightarrow> uuid \<Rightarrow> bool option \<Rightarrow> string option \<Rightarrow> auth_user \<Rightarrow> string option \<Rightarrow> store
    \<Rightarrow> (branch_response \<times> store) result" where
  "branches_toggle JSON_parse env i enabled selectedIds user tenantHeader db =
    and_then (branch_change_guard [''branch:edit'', ''branch_admin:manage'', ''tenant:settings'']
       ''Access denied. You do not have granular permission (branch:edit or branch_admin:manage) to modify branch stage remarks.''
       ''Access denied. You can only modify your assigned branch location.'' user i) (\<lambda>_.
    and_then (request_tenant env user tenantHeader) (\<lambda>tid.
      toggleGlobalRemarks JSON_parse i tid enabled selectedIds db))"

definition branches_delete ::
  "(string \<Rightarrow> json option) \<Rightarrow> string option \<Rightarrow> uuid \<Rightarrow> auth_user \<Rightarrow> string option \<Rightarrow> store \<Rightarrow> (string \<times> store) result" where
  "branches_delete JSON_parse env i user tenantHeader db =
    and_then (assertBranchAccess user i) (\<lambda>_.
      if \<not> includes_any (a_permissions user) [''branch:delete'', ''tenant:settings'']
      then throw (Forbidden ''Access denied. You do not have granular permission (branch:delete or tenant:settings) to delete branch locations.'')
      else and_then (request_tenant env user tenantHeader) (\<lambda>tid. branches_remove JSON_parse i tid db))"

definition branches_members ::
  "string option \<Rightarrow> uuid \<Rightarrow> auth_user \<Rightarrow> string option \<Rightarrow> store \<Rightarrow> (branch_member list) result" where
  "branches_members env i user tenantHeader db =
    and_then (assertBranchAccess user i) (\<lambda>_.
    and_then (request_tenant env user tenantHeader) (\<lambda>tid.
      if isUnitScoped user
      then (if \<not> truthy (a_businessUnitId user) then ok [] else ok (branches_getMembers db i tid (a_businessUnitId user)))
      else ok (branches_getMembers db i tid None)))"

definition branches_assign_user ::
  "(string \<Rightarrow> json option) \<Rightarrow> string option \<Rightarrow> uuid \<Rightarrow> uuid \<Rightarrow> string list option \<Rightarrow> uuid option \<Rightarrow> auth_user \<Rightarrow> string option
    \<Rightarrow> store \<Rightarrow> (string \<times> store) result" where
  "branches_assign_user JSON_parse env i userId roles businessUnitId user tenantHeader db =
    and_then (branch_change_guard [''branch:assign_user'', ''branch_admin:manage'', ''user:manage'', ''tenant:settings'']
       ''Access denied. You do not have granular permission (branch_admin:manage or user:manage) to assign users to this branch.''
       ''Access denied. You can only assign users to your assigned branch location.'' user i) (\<lambda>_.
    and_then (request_tenant env user tenantHeader) (\<lambda>tid.
      if isUnitScoped user then throw (Forbidden ''Use unit administration to manage your assigned unit members.'')
      else assignUser JSON_parse i userId tid roles businessUnitId db))"

definition branches_managers ::
  "(string \<Rightarrow> json option) \<Rightarrow> string option \<Rightarrow> uuid \<Rightarrow> uuid list \<Rightarrow> auth_user \<Rightarrow> string option \<Rightarrow> store
    \<Rightarrow> (branch_response \<times> store) result" where
  "branches_managers JSON_parse env i managerIds user tenantHeader db =
    and_then (branch_change_guard [''branch:assign_manager'', ''branch_admin:manage'', ''user:manage'', ''tenant:settings'']
       ''Access denied. You do not have granular permission (branch_admin:manage or user:manage) to assign or change Branch Heads.''
       ''Access denied. You can only assign managers to your assigned branch location.'' user i) (\<lambda>_.
    and_then (request_tenant env user tenantHeader) (\<lambda>tid. updateManagers JSON_parse i managerIds tid db))"

end
