(* ===== verification/OfficeInvariant.thy ===== *)
theory OfficeInvariant
  imports Branches
begin

text \<open>
  What the operations of the office services keep, whatever their order: the identifiers of the
  tables stay distinct, the branches of a tenant have different names even up to case, market codes
  are unique, every unit refers to an existing branch and to a segment its tenant may use, and its
  stored distribution strategy is one the program reads back.
\<close>

section \<open>The invariant\<close>

definition branch_key :: "branch \<Rightarrow> (uuid \<times> string) option" where
  "branch_key b = Some (br_tenantId b, upper (br_name b))"

lemma same_name_uppered [simp]: "same_name a (upper b) = same_name a b"
  by (simp add: same_name_upper)

interpretation branch_table: unique_key br_id branch_key branch_name_taken
  by unfold_locales (auto simp: branch_name_taken_def branch_key_def list_ex_iff same_name_upper)

definition unit_ok :: "store \<Rightarrow> business_unit \<Rightarrow> bool" where
  "unit_ok db b =
    (bu_podDistributionStrategy b \<in> {''AUTO'', ''MANUAL''} \<and>
     if_given (bu_branchId b) (\<lambda>i. i \<in> set (map br_id (st_branches db))) \<and>
     if_given (bu_marketSegmentId b) (\<lambda>i. list_ex (\<lambda>s. ms_id s = i \<and>
        (ms_tenantId s = None \<or> ms_tenantId s = Some (bu_tenantId b))) (st_segments db)))"

lemma unit_ok_iff:
  "unit_ok db b \<longleftrightarrow>
    bu_podDistributionStrategy b \<in> {''AUTO'', ''MANUAL''} \<and>
    (\<forall>i. bu_branchId b = Some i \<longrightarrow> i \<in> set (map br_id (st_branches db))) \<and>
    (\<forall>i. bu_marketSegmentId b = Some i \<longrightarrow> (\<exists>s \<in> set (st_segments db). ms_id s = i \<and>
       (ms_tenantId s = None \<or> ms_tenantId s = Some (bu_tenantId b))))"
  by (simp add: unit_ok_def if_given_def list_ex_iff split: option.splits)

definition office_ok :: "store \<Rightarrow> bool" where
  "office_ok db =
    (distinct (map br_id (st_branches db)) \<and> distinct (map bu_id (st_units db)) \<and>
     distinct (List.map_filter branch_key (st_branches db)) \<and> segments_ok db \<and>
     list_all (unit_ok db) (st_units db))"

lemma office_okD:
  assumes "office_ok db"
  shows "distinct (map br_id (st_branches db))" "distinct (map bu_id (st_units db))"
    "distinct (List.map_filter branch_key (st_branches db))" "segments_ok db"
    "b \<in> set (st_units db) \<Longrightarrow> unit_ok db b"
  using assms by (auto simp: office_ok_def list_all_iff)

lemma office_okI:
  assumes "distinct (map br_id (st_branches db))" "distinct (map bu_id (st_units db))"
    "distinct (List.map_filter branch_key (st_branches db))" "segments_ok db"
    "\<And>b. b \<in> set (st_units db) \<Longrightarrow> unit_ok db b"
  shows "office_ok db"
  using assms by (simp add: office_ok_def list_all_iff)

text \<open>Only the three office tables matter.\<close>

lemma office_ok_cong:
  assumes "st_branches db' = st_branches db" "st_units db' = st_units db" "st_segments db' = st_segments db"
  shows "office_ok db' = office_ok db"
proof -
  have "unit_ok db' = unit_ok db"
    using assms by (intro ext) (simp add: unit_ok_iff)
  then show ?thesis using assms by (simp add: office_ok_def segments_ok_def)
qed

lemma unit_ok_mono:
  assumes "unit_ok db b" and "set (map br_id (st_branches db)) \<subseteq> set (map br_id (st_branches db'))"
    and "\<And>s. s \<in> set (st_segments db) \<Longrightarrow> \<exists>s' \<in> set (st_segments db'). ms_id s' = ms_id s \<and> ms_tenantId s' = ms_tenantId s"
  shows "unit_ok db' b"
  unfolding unit_ok_iff
proof (intro conjI allI impI)
  fix i
  assume "bu_branchId b = Some i"
  then show "i \<in> set (map br_id (st_branches db'))"
    using assms(1,2) unfolding unit_ok_iff by blast
next
  fix i
  assume "bu_marketSegmentId b = Some i"
  then obtain s where s: "s \<in> set (st_segments db)" "ms_id s = i" "ms_tenantId s = None \<or> ms_tenantId s = Some (bu_tenantId b)"
    using assms(1) unfolding unit_ok_iff by blast
  then show "\<exists>s \<in> set (st_segments db'). ms_id s = i \<and> (ms_tenantId s = None \<or> ms_tenantId s = Some (bu_tenantId b))"
    using assms(3) [OF s(1)] by metis
qed (use assms(1) in \<open>simp add: unit_ok_iff\<close>)

section \<open>Segments\<close>

lemma office_ok_segments:
  assumes "office_ok db" and "segments_ok db'"
    and "st_branches db' = st_branches db" "st_units db' = st_units db"
    and "\<And>s. s \<in> set (st_segments db) \<Longrightarrow> \<exists>s' \<in> set (st_segments db'). ms_id s' = ms_id s \<and> ms_tenantId s' = ms_tenantId s"
  shows "office_ok db'"
proof (rule office_okI)
  fix b
  assume "b \<in> set (st_units db')"
  then have "unit_ok db b"
    using office_okD(5) [OF assms(1)] assms(4) by simp
  then show "unit_ok db' b"
    using assms(3) by (intro unit_ok_mono [OF _ _ assms(5)]) simp_all
qed (use office_okD [OF assms(1)] assms(2-4) in simp_all)

lemma ensure_standard_offices:
  "st_branches (ensure_standard f now m db) = st_branches db" "st_units (ensure_standard f now m db) = st_units db"
  by (cases m; auto split: option.split)+

lemma segments_ok_ensure:
  assumes "segments_ok db" and "f (fst (snd m)) \<notin> set (map ms_id (st_segments db))"
  shows "segments_ok (ensure_standard f now m db)"
proof -
  obtain n c cu tz sh k where m: "m = (n, c, cu, tz, sh, k)" by (cases m) auto
  show ?thesis
  proof (cases "find_first (\<lambda>s. ms_tenantId s = None \<and> ms_code s = c) (st_segments db)")
    case None
    then have "\<not> segment_taken (st_segments db) None (None, c)"
      by (auto simp: segment_taken_def segment_key_def find_first_None list_ex_iff split: if_splits)
    then have "distinct (List.map_filter segment_key (st_segments (ensure_standard f now m db)))"
      using assms(1) None unfolding m ensure_standard.simps
      by (auto simp: segments_ok_def segment_key_def intro!: segment_table.insert_keeps split: if_splits)
    then show ?thesis
      using assms None by (simp add: m segments_ok_def)
  next
    case (Some s)
    then show ?thesis using assms(1) by (simp add: m)
  qed
qed

lemma segments_create_Inr:
  assumes "segments_create newId now name code dto db = ok (s, db')"
  shows "db' = db\<lparr> st_segments := st_segments db @ [s] \<rparr>"
  using assms by (auto simp: segments_create_def Let_def split: if_splits)

lemma segments_update_store:
  assumes "segments_update i dto db = ok db'"
  shows "db' = db\<lparr> st_segments := update_where (\<lambda>s. ms_id s = i) (segment_data dto) (st_segments db) \<rparr>"
  using assms by (auto simp: segments_update_def and_then_eq_Inr update_one_Inr split: if_splits)

lemma segments_remove_store:
  assumes "segments_remove i db = ok db'"
  shows "db' = db\<lparr> st_segments := delete_where (\<lambda>s. ms_id s = i) (st_segments db) \<rparr>"
    and "b \<in> set (st_units db) \<Longrightarrow> bu_marketSegmentId b \<noteq> Some i"
  using assms by (auto simp: segments_remove_def segments_findOne_def and_then_eq_Inr filter_empty_conv find_many_def
      split: if_splits option.splits)

lemma office_ok_segment_create:
  assumes "segments_create newId now name code dto db = ok (s, db')" and "office_ok db"
    and "newId \<notin> set (map ms_id (st_segments db))"
  shows "office_ok db'"
  using segments_create_Inr [OF assms(1)] segments_ok_create [OF assms(1) office_okD(4) [OF assms(2)] assms(3)]
  by (intro office_ok_segments [OF assms(2)]) auto

lemma office_ok_segment_update:
  assumes "segments_update i dto db = ok db'" and "office_ok db"
  shows "office_ok db'"
proof (rule office_ok_segments [OF assms(2) segments_ok_update [OF assms(1) office_okD(4) [OF assms(2)]]])
  fix s
  assume "s \<in> set (st_segments db)"
  then show "\<exists>s' \<in> set (st_segments db'). ms_id s' = ms_id s \<and> ms_tenantId s' = ms_tenantId s"
    unfolding segments_update_store [OF assms(1)]
    by (intro bexI [of _ "if ms_id s = i then segment_data dto s else s"]) (auto simp: in_update_where segment_data_def)
qed (simp_all add: segments_update_store [OF assms(1)])

lemma office_ok_segment_remove:
  assumes "segments_remove i db = ok db'" and "office_ok db"
  shows "office_ok db'"
proof (rule office_okI)
  note db' = segments_remove_store(1) [OF assms(1)]
  fix b
  assume "b \<in> set (st_units db')"
  then have b: "b \<in> set (st_units db)" by (simp add: db')
  then show "unit_ok db' b"
    using office_okD(5) [OF assms(2) b] segments_remove_store(2) [OF assms(1) b]
    unfolding unit_ok_iff db' by fastforce
qed (use office_okD [OF assms(2)] segments_remove_store(1) [OF assms(1)]
       segments_ok_remove [OF assms(1)] in simp_all)

section \<open>Units\<close>

lemma normalizePodStrategy_Inr: "normalizePodStrategy x = Inr s \<Longrightarrow> s \<in> {''AUTO'', ''MANUAL''}"
  by (auto simp: normalizePodStrategy_def Let_def split: if_splits)

lemma normalizePodStrategy_stored: "s \<in> {''AUTO'', ''MANUAL''} \<Longrightarrow> normalizePodStrategy (Some s) = Inr s"
  by (elim insertE emptyE; hypsubst; code_simp)

lemma unit_segment_Inr:
  assumes "unit_segment db t i = ok seg" and "or_null i = Some k"
  shows "\<exists>s \<in> set (st_segments db). ms_id s = k \<and> (ms_tenantId s = None \<or> ms_tenantId s = Some t)"
  using assms by (auto simp: unit_segment_def or_null_def split: if_splits option.splits dest!: find_first_Some [OF sym])

lemma unit_row_check_Inr:
  assumes "unit_row_check db b = Inr u" and "bu_branchId b = Some i"
  shows "i \<in> set (map br_id (st_branches db))"
  using assms by (auto simp: unit_row_check_def branch_of_def split: if_splits dest!: find_first_Some)

lemma new_unit_simps [simp]:
  "bu_id (new_unit newId now dto t br sg st) = newId" "bu_tenantId (new_unit newId now dto t br sg st) = t"
  "bu_podDistributionStrategy (new_unit newId now dto t br sg st) = st"
  "bu_marketSegmentId (new_unit newId now dto t br sg st) = or_null (cu_marketSegmentId dto)"
  "bu_branchId (new_unit newId now dto t br sg st) = or_null (cu_branchId dto)"
  "bu_name (new_unit newId now dto t br sg st) = trim (cu_name dto)"
  by (simp_all add: new_unit_def Let_def)

lemma units_create_Inr:
  assumes "units_create newId now dto t db = ok (r, db')"
  obtains br sg st where "unit_branch db t (cu_branchId dto) = ok br"
    and "unit_segment db t (cu_marketSegmentId dto) = ok sg" and "st \<in> {''AUTO'', ''MANUAL''}"
    and "unit_row_check db (new_unit newId now dto t br sg st) = ok ()"
    and "db' = db\<lparr> st_units := st_units db @ [new_unit newId now dto t br sg st] \<rparr>"
    and "\<forall>b \<in> set (st_units db). bu_tenantId b = t \<and> (truthy (cu_branchId dto) \<longrightarrow> bu_branchId b = cu_branchId dto)
       \<longrightarrow> \<not> same_name (bu_name b) (trim (cu_name dto))"
    and "units_findOne db' newId t = ok r"
  using assms
  by (auto simp: units_create_def and_then_eq_Inr Let_def list_ex_iff split: if_splits dest!: normalizePodStrategy_Inr)

lemma office_ok_unit_create:
  assumes "units_create newId now dto t db = ok (r, db')" and "office_ok db"
    and "newId \<notin> set (map bu_id (st_units db))"
  shows "office_ok db'"
proof -
  obtain br sg st where sg: "unit_segment db t (cu_marketSegmentId dto) = ok sg" and st: "st \<in> {''AUTO'', ''MANUAL''}"
    and ck: "unit_row_check db (new_unit newId now dto t br sg st) = ok ()"
    and db': "db' = db\<lparr> st_units := st_units db @ [new_unit newId now dto t br sg st] \<rparr>"
    by (rule units_create_Inr [OF assms(1)]) (rule that; assumption)
  let ?b = "new_unit newId now dto t br sg st"
  have "unit_ok db ?b"
    unfolding unit_ok_iff using st unit_row_check_Inr [OF ck] unit_segment_Inr [OF sg] by auto
  then have new: "unit_ok db' b" if "b \<in> set (st_units db')" for b
    using that office_okD(5) [OF assms(2)] by (auto simp: db' unit_ok_iff)
  show ?thesis
    using office_okD(1-4) [OF assms(2)] assms(3)
    by (intro office_okI new) (auto simp: db' segments_ok_def)
qed

lemma unit_by_row:
  assumes "office_ok db" and "unit_by i t db = Some b" and "c \<in> set (st_units db)" and "bu_id c = i"
  shows "c = b"
  using unit_by_Some [OF assms(2)] assms(3,4) office_okD(2) [OF assms(1)]
  by (auto simp: distinct_map dest: inj_onD)

lemma unit_data_simps [simp]:
  "bu_id (unit_data dto e sg st b) = bu_id b" "bu_tenantId (unit_data dto e sg st b) = bu_tenantId b"
  "bu_podDistributionStrategy (unit_data dto e sg st b) = st"
  "bu_name (unit_data dto e sg st b) = (case uu_name dto of None \<Rightarrow> ur_name e | Some v \<Rightarrow> trim v)"
  "bu_branchId (unit_data dto e sg st b) = (case uu_branchId dto of None \<Rightarrow> bu_branchId b | Some v \<Rightarrow> or_null (Some v))"
  "bu_marketSegmentId (unit_data dto e sg st b) =
     (case uu_marketSegmentId dto of None \<Rightarrow> bu_marketSegmentId b | Some v \<Rightarrow> or_null v)"
  by (simp_all add: unit_data_def Let_def)

lemma units_findOne_Inr:
  assumes "units_findOne db i t = ok r"
  obtains b where "unit_by i t db = Some b" and "unit_to_response db True b = ok r"
    and "ur_name r = bu_name b" and "ur_branchId r = or_null (bu_branchId b)"
  using assms
  by (auto simp: units_findOne_def unit_to_response_def and_then_eq_Inr Let_def split: option.splits)

lemma units_update_Inr:
  assumes "units_update i dto t db = ok (r, db')"
  obtains e sg st where "units_findOne db i t = ok e"
    and "unit_segment db t (case uu_marketSegmentId dto of None \<Rightarrow> ur_marketSegmentId e | Some v \<Rightarrow> v) = ok sg"
    and "st \<in> {''AUTO'', ''MANUAL''}"
    and "case find_first (\<lambda>b. bu_id b = i) (st_units db') of None \<Rightarrow> True | Some b \<Rightarrow> unit_row_check db b = ok ()"
    and "db' = db\<lparr> st_units := update_where (\<lambda>b. bu_id b = i) (unit_data dto e sg st) (st_units db) \<rparr>"
    and "\<not> (truthy (uu_name dto) \<and> upper (trim (the (uu_name dto))) \<noteq> upper (ur_name e) \<and>
        list_ex (\<lambda>b. bu_tenantId b = t \<and>
          (truthy (case uu_branchId dto of None \<Rightarrow> ur_branchId e | Some v \<Rightarrow> Some v) \<longrightarrow>
             bu_branchId b = (case uu_branchId dto of None \<Rightarrow> ur_branchId e | Some v \<Rightarrow> Some v))
          \<and> same_name (bu_name b) (trim (the (uu_name dto))) \<and> bu_id b \<noteq> i) (st_units db))"
proof -
  obtain e sg st where e: "units_findOne db i t = ok e"
    and sg: "unit_segment db t (case uu_marketSegmentId dto of None \<Rightarrow> ur_marketSegmentId e | Some v \<Rightarrow> v) = ok sg"
    and st: "normalizePodStrategy (case uu_podDistributionStrategy dto of
        None \<Rightarrow> Some (ur_podDistributionStrategy e) | Some v \<Rightarrow> Some v) = ok st"
    and "(case find_first (\<lambda>b. bu_id b = i) (update_where (\<lambda>b. bu_id b = i) (unit_data dto e sg st) (st_units db)) of
        None \<Rightarrow> ok () | Some b \<Rightarrow> unit_row_check db b) = ok ()"
    and db': "db' = db\<lparr> st_units := update_where (\<lambda>b. bu_id b = i) (unit_data dto e sg st) (st_units db) \<rparr>"
    and n: "\<not> (truthy (uu_name dto) \<and> upper (trim (the (uu_name dto))) \<noteq> upper (ur_name e) \<and>
        list_ex (\<lambda>b. bu_tenantId b = t \<and>
          (truthy (case uu_branchId dto of None \<Rightarrow> ur_branchId e | Some v \<Rightarrow> Some v) \<longrightarrow>
             bu_branchId b = (case uu_branchId dto of None \<Rightarrow> ur_branchId e | Some v \<Rightarrow> Some v))
          \<and> same_name (bu_name b) (trim (the (uu_name dto))) \<and> bu_id b \<noteq> i) (st_units db))"
    using assms unfolding units_update_def succeeding by blast
  then show thesis
    by (intro that [OF e sg normalizePodStrategy_Inr [OF st] _ db' n]) (auto split: option.splits)
qed

lemma find_first_updated:
  assumes "distinct (map ident t)" and "r \<in> set t" and "ident r = i" and "\<And>r. ident (f r) = ident r"
  shows "find_first (\<lambda>r. ident r = i) (update_where (\<lambda>r. ident r = i) f t) = Some (f r)"
proof (rule find_first_key [where key = ident and k = i])
  show "distinct (map ident (update_where (\<lambda>r. ident r = i) f t))"
    using assms(1,4) by (simp add: map_update_where)
  show "f r \<in> set (update_where (\<lambda>r. ident r = i) f t)"
    using assms(2,3) by (auto simp: in_update_where)
qed (simp_all add: assms(3,4))

lemma office_ok_unit_update:
  assumes "units_update i dto t db = ok (r, db')" and "office_ok db"
  shows "office_ok db'"
proof -
  obtain e sg st where e: "units_findOne db i t = ok e"
    and sg: "unit_segment db t (case uu_marketSegmentId dto of None \<Rightarrow> ur_marketSegmentId e | Some v \<Rightarrow> v) = ok sg"
    and st: "st \<in> {''AUTO'', ''MANUAL''}"
    and ck: "case find_first (\<lambda>b. bu_id b = i) (st_units db') of None \<Rightarrow> True | Some b \<Rightarrow> unit_row_check db b = ok ()"
    and db': "db' = db\<lparr> st_units := update_where (\<lambda>b. bu_id b = i) (unit_data dto e sg st) (st_units db) \<rparr>"
    by (rule units_update_Inr [OF assms(1)]) (rule that; assumption)
  obtain b0 where b0: "unit_by i t db = Some b0" using units_findOne_Inr [OF e] by metis
  note row = unit_by_Some [OF b0]
  have "find_first (\<lambda>b. bu_id b = i) (st_units db') = Some (unit_data dto e sg st b0)"
    unfolding db' using find_first_updated [OF office_okD(2) [OF assms(2)]] row by simp
  with ck have ck0: "unit_row_check db (unit_data dto e sg st b0) = ok ()" by simp
  have new: "unit_ok db (unit_data dto e sg st b0)"
  proof -
    have "\<exists>s \<in> set (st_segments db). ms_id s = k \<and> (ms_tenantId s = None \<or> ms_tenantId s = Some t)"
      if "bu_marketSegmentId (unit_data dto e sg st b0) = Some k" for k
    proof (cases "uu_marketSegmentId dto")
      case None
      then show ?thesis
        using that office_okD(5) [OF assms(2), of b0] row by (auto simp: unit_ok_iff)
    next
      case (Some v)
      then show ?thesis using that unit_segment_Inr [OF sg] by simp
    qed
    then show ?thesis
      unfolding unit_ok_iff using st unit_row_check_Inr [OF ck0] row by (simp del: unit_data_simps(5,6))
  qed
  have all: "unit_ok db' b" if "b \<in> set (st_units db')" for b
  proof -
    have "unit_ok db b"
      using that new office_okD(5) [OF assms(2)] unit_by_row [OF assms(2) b0]
      unfolding db' by (auto simp: in_update_where)
    then show ?thesis by (simp add: db' unit_ok_iff)
  qed
  have "map bu_id (st_units db') = map bu_id (st_units db)"
    by (simp add: db' map_update_where)
  then show ?thesis
    using office_okD(1-4) [OF assms(2)] by (intro office_okI all) (auto simp: db' segments_ok_def)
qed

section \<open>Deletions\<close>

lemma delete_roles_tables [simp]:
  "st_branches (delete_roles p db) = st_branches db" "st_units (delete_roles p db) = st_units db"
  "st_segments (delete_roles p db) = st_segments db" "st_tenants (delete_roles p db) = st_tenants db"
  "st_jobs (delete_roles p db) = st_jobs db" "st_pods (delete_roles p db) = st_pods db"
  "st_jobPods (delete_roles p db) = st_jobPods db"
  by (simp_all add: delete_roles_def Let_def)

lemma delete_pods_tables:
  assumes "delete_pods p db = ok db'"
  shows "st_branches db' = st_branches db" "st_units db' = st_units db" "st_segments db' = st_segments db"
    "st_tenants db' = st_tenants db" "st_jobs db' = st_jobs db" "st_roles db' = st_roles db"
    "st_pods db' = delete_where p (st_pods db)" "st_jobPods db' = st_jobPods db"
  using assms by (auto simp: delete_pods_def Let_def split: if_splits)

lemma delete_units_tables:
  assumes "delete_units p db = ok db'"
  shows "st_branches db' = st_branches db" "st_units db' = delete_where p (st_units db)"
    "st_segments db' = st_segments db" "st_tenants db' = st_tenants db" "st_jobs db' = st_jobs db"
  using assms by (auto simp: delete_units_def Let_def and_then_eq_Inr dest: delete_pods_tables)

lemma delete_branch_tables:
  assumes "delete_branch i db = ok db'"
  shows "st_branches db' = delete_where (\<lambda>b. br_id b = i) (st_branches db)"
    "st_units db' = delete_where (\<lambda>b. bu_branchId b = Some i) (st_units db)"
    "st_segments db' = st_segments db" "st_tenants db' = st_tenants db"
  using assms by (auto simp: delete_branch_def Let_def and_then_eq_Inr delete_units_tables delete_pods_tables)

lemma unit_ok_weaken:
  assumes "office_ok db" and "b \<in> set (st_units db)" and "st_segments db' = st_segments db"
    and "\<And>i. bu_branchId b = Some i \<Longrightarrow> i \<in> set (map br_id (st_branches db)) \<Longrightarrow> i \<in> set (map br_id (st_branches db'))"
  shows "unit_ok db' b"
  using office_okD(5) [OF assms(1,2)] assms(3,4) by (simp add: unit_ok_iff)

lemma units_remove_Inr:
  assumes "units_remove i t db = ok (m, db')"
  obtains b where "unit_by i t db = Some b" and "\<forall>u \<in> set (st_users db). us_businessUnitId u \<noteq> Some i"
    and "delete_units (\<lambda>b. bu_id b = i) db = ok db'"
proof -
  obtain e where e: "units_findOne db i t = ok e" and n: "\<not> 0 < ur_usersCount e"
    and d: "delete_units (\<lambda>b. bu_id b = i) db = ok db'"
    using assms unfolding units_remove_def succeeding by blast
  obtain b where b: "unit_by i t db = Some b" and "unit_to_response db True b = ok e"
    using units_findOne_Inr [OF e] by metis
  then have "ur_usersCount e = count_where (\<lambda>u. us_businessUnitId u = Some i) (st_users db)"
    using unit_by_Some [OF b] by (auto simp: unit_to_response_def Let_def and_then_eq_Inr)
  then show thesis
    using n b d that by (auto simp: count_where_0)
qed

lemma office_ok_unit_remove:
  assumes "units_remove i t db = ok (m, db')" and "office_ok db"
  shows "office_ok db'"
proof -
  have d: "delete_units (\<lambda>b. bu_id b = i) db = ok db'"
    by (rule units_remove_Inr [OF assms(1)])
  note db' = delete_units_tables [OF d]
  show ?thesis
    using office_okD(1-4) [OF assms(2)] unit_ok_weaken [OF assms(2)]
    by (intro office_okI) (auto simp: db' segments_ok_def distinct_map_delete_where)
qed

section \<open>Members of units\<close>

lemma units_assignMembers_Inr:
  assumes "units_assignMembers i ids t scope db = ok (ms, db')"
  obtains b where "unit_by i t db = Some b"
    and "db' = db\<lparr> st_users := (if ids = [] then leave_unit i ids t (st_users db)
                                else join_unit b ids t scope (leave_unit i ids t (st_users db))) \<rparr>"
    and "scope = None \<or> ids = [] \<or>
      count_where (\<lambda>u. us_tenantId u = t \<and> within_staff scope u \<and> us_id u \<in> set ids) (st_users db) = length (uniq ids)"
  using assms
  by (cases "unit_by i t db") (auto simp: units_assignMembers_def and_then_eq_Inr Let_def if_throw_eq)

lemma units_updateAdmins_Inr:
  assumes "units_updateAdmins i ids t db = ok (r, db')"
  obtains us where "db' = db\<lparr> st_users := us,
      st_units := update_where (\<lambda>b. bu_id b = i) (\<lambda>b. b\<lparr> bu_admins := ids \<rparr>) (st_units db) \<rparr>"
    and "us = (if ids = [] then st_users db
      else update_where (\<lambda>u. us_id u \<in> set (map us_id (find_many (\<lambda>u. us_id u \<in> set ids \<and> us_tenantId u = t) (st_users db))))
        (\<lambda>u. with_admin_role (first_role (unit_admin_custom_role t) db) (u\<lparr> us_businessUnitId := Some i \<rparr>)) (st_users db))"
  using assms unfolding units_updateAdmins_def and_then_eq_Inr update_one_Inr Let_def
  by (cases "ids = []") (auto split: if_split_asm)

lemma office_ok_unit_admins:
  assumes "units_updateAdmins i ids t db = ok (r, db')" and "office_ok db"
  shows "office_ok db'"
proof -
  obtain us where db': "db' = db\<lparr> st_users := us,
      st_units := update_where (\<lambda>b. bu_id b = i) (\<lambda>b. b\<lparr> bu_admins := ids \<rparr>) (st_units db) \<rparr>"
    by (rule units_updateAdmins_Inr [OF assms(1)])
  have "unit_ok db' b" if "b \<in> set (st_units db')" for b
  proof -
    obtain c where "c \<in> set (st_units db)" and "b = (if bu_id c = i then c\<lparr> bu_admins := ids \<rparr> else c)"
      using \<open>b \<in> set (st_units db')\<close> by (auto simp: db' in_update_where)
    then show ?thesis
      using office_okD(5) [OF assms(2), of c] by (cases "bu_id c = i") (simp_all add: db' unit_ok_iff)
  qed
  then show ?thesis
    using office_okD(1-4) [OF assms(2)]
    by (intro office_okI) (auto simp: db' segments_ok_def map_update_where)
qed

section \<open>Branches\<close>

lemma office_ok_branches:
  assumes "office_ok db" and "db' = db\<lparr> st_branches := t \<rparr>"
    and "distinct (map br_id t)" and "distinct (List.map_filter branch_key t)"
    and "set (map br_id (st_branches db)) \<subseteq> set (map br_id t)"
  shows "office_ok db'"
proof (rule office_okI)
  fix b
  assume "b \<in> set (st_units db')"
  then show "unit_ok db' b"
    using assms(2,5) unit_ok_weaken [OF assms(1), of b db'] by auto
qed (use office_okD [OF assms(1)] assms(2-4) in \<open>simp_all add: segments_ok_def\<close>)

lemma new_branch_simps [simp]:
  "br_id (new_branch newId now dto t) = newId" "br_tenantId (new_branch newId now dto t) = t"
  "br_name (new_branch newId now dto t) = trim (cb_name dto)"
  by (simp_all add: new_branch_def Let_def)

lemma branches_create_Inr:
  assumes "branches_create jp newId now dto t db = ok (r, db')"
  shows "\<not> branch_limit db t \<le> int (count_where (\<lambda>b. br_tenantId b = t) (st_branches db))"
    and "\<not> branch_name_taken (st_branches db) None (t, trim (cb_name dto))"
    and "db' = db\<lparr> st_branches := st_branches db @ [new_branch newId now dto t] \<rparr>"
  using assms unfolding branches_create_def branch_create_checks_def insert_branch_def succeeding by auto

lemma branch_name_taken_cong:
  "same_name n m \<Longrightarrow> branch_name_taken t skip (x, n) = branch_name_taken t skip (x, m)"
  by (simp add: branch_name_taken_def same_name_def)

lemma same_name_upper_left [simp]: "same_name (upper a) b = same_name a b"
  by (simp add: same_name_upper)

lemma office_ok_branch_create:
  assumes "branches_create jp newId now dto t db = ok (r, db')" and "office_ok db"
    and "newId \<notin> set (map br_id (st_branches db))"
  shows "office_ok db'"
proof -
  note c = branches_create_Inr [OF assms(1)]
  have "\<not> branch_name_taken (st_branches db) None (t, upper (trim (cb_name dto)))"
    using c(2) branch_name_taken_cong [of "upper (trim (cb_name dto))" "trim (cb_name dto)"] by simp
  then have "distinct (List.map_filter branch_key (st_branches db @ [new_branch newId now dto t]))"
    using office_okD(3) [OF assms(2)] by (intro branch_table.insert_keeps) (auto simp: branch_key_def)
  then show ?thesis
    using office_okD(1) [OF assms(2)] assms(3) by (intro office_ok_branches [OF assms(2) c(3)]) auto
qed

lemma branches_findOne_Inr:
  assumes "branches_findOne jp db i t = ok e"
  obtains b where "branch_by i t db = Some b" and "bz_name e = br_name b"
    and "e = formatBranch jp db b (branches_getMembers db i t None)"
  using assms by (auto simp: branches_findOne_def formatBranch_def Let_def split: option.splits)

lemma branch_data_simps [simp]:
  "br_id (branch_data dto e n p b) = br_id b" "br_tenantId (branch_data dto e n p b) = br_tenantId b"
  "br_name (branch_data dto e n p b) = (case ub_name dto of None \<Rightarrow> bz_name e | Some v \<Rightarrow> trim v)"
  by (simp_all add: branch_data_def Let_def)

lemma branches_update_Inr:
  assumes "branches_update jp i dto t db = ok (r, db')"
  obtains e n p where "branches_findOne jp db i t = ok e"
    and "\<not> (truthy (ub_name dto) \<and> upper (trim (the (ub_name dto))) \<noteq> upper (bz_name e)
           \<and> branch_name_taken (st_branches db) (Some i) (t, trim (the (ub_name dto))))"
    and "n = (case ub_allowNone dto of None \<Rightarrow> bz_allowNone e | Some v \<Rightarrow> v)"
    and "p = (\<not> n \<and> (case ub_allowPods dto of None \<Rightarrow> bz_allowPods e | Some v \<Rightarrow> v))"
    and "p \<longrightarrow> (\<exists>q \<in> set (st_pods db). pd_branchId q = Some i \<and> pd_tenantId q = t)"
    and "case find_first (\<lambda>b. br_id b = i) (st_branches db') of None \<Rightarrow> True | Some b \<Rightarrow> branch_row_check db b = ok ()"
    and "db' = db\<lparr> st_branches := update_where (\<lambda>b. br_id b = i) (branch_data dto e n p) (st_branches db) \<rparr>"
    and "branches_findOne jp db' i t = ok r"
proof -
  let ?n = "\<lambda>e. case ub_allowNone dto of None \<Rightarrow> bz_allowNone e | Some v \<Rightarrow> v"
  let ?p = "\<lambda>e. \<not> ?n e \<and> (case ub_allowPods dto of None \<Rightarrow> bz_allowPods e | Some v \<Rightarrow> v)"
  let ?t = "\<lambda>e. update_where (\<lambda>b. br_id b = i) (branch_data dto e (?n e) (?p e)) (st_branches db)"
  obtain e where e: "branches_findOne jp db i t = ok e"
    using assms unfolding branches_update_def by (rule and_then_InrE)
  note m = assms [unfolded branches_update_def e and_then_Inr Let_def and_then_unit if_throw_eq]
  note nm = m [THEN conjunct1, THEN conjunct1]
    and pods = m [THEN conjunct2, THEN conjunct1, THEN conjunct1]
  have fin: "(case find_first (\<lambda>b. br_id b = i) (?t e) of None \<Rightarrow> ok () | Some b \<Rightarrow> branch_row_check db b) = ok () \<and>
     and_then (branches_findOne jp (db\<lparr> st_branches := ?t e \<rparr>) i t) (\<lambda>r. ok (r, db\<lparr> st_branches := ?t e \<rparr>)) = ok (r, db')"
    using m [THEN conjunct2, THEN conjunct2] unfolding and_then_eq_Inr [of "update_one p f t" for p f t] update_one_Inr and_then_unit
    by (elim exE conjE, hypsubst, intro conjI)
  note ck = fin [THEN conjunct1]
  have db': "db' = db\<lparr> st_branches := ?t e \<rparr>" and r: "branches_findOne jp db' i t = ok r"
    using fin by (auto simp: and_then_eq_Inr)
  have pods': "?p e \<longrightarrow> (\<exists>q \<in> set (st_pods db). pd_branchId q = Some i \<and> pd_tenantId q = t)"
    using pods unfolding count_where_0 by blast
  have "case find_first (\<lambda>b. br_id b = i) (st_branches db') of None \<Rightarrow> True | Some b \<Rightarrow> branch_row_check db b = ok ()"
    using ck by (simp add: db' split: option.splits)
  then show thesis
    by (rule that [OF e nm refl refl pods' _ db' r])
qed

lemma office_ok_branch_rows:
  assumes "office_ok db" and "db' = db\<lparr> st_branches := update_where (\<lambda>b. br_id b = i) f (st_branches db) \<rparr>"
    and "\<And>b. br_id (f b) = br_id b"
    and "\<And>b. b \<in> set (st_branches db) \<Longrightarrow> br_id b = i \<Longrightarrow> branch_key (f b) = branch_key b
       \<or> \<not> branch_name_taken (st_branches db) (Some i) (br_tenantId (f b), br_name (f b))"
  shows "office_ok db'"
proof (rule office_ok_branches [OF assms(1,2)])
  have ids: "map br_id (update_where (\<lambda>b. br_id b = i) f (st_branches db)) = map br_id (st_branches db)"
    by (rule map_update_where) (simp add: assms(3))
  then show "distinct (map br_id (update_where (\<lambda>b. br_id b = i) f (st_branches db)))"
    "set (map br_id (st_branches db)) \<subseteq> set (map br_id (update_where (\<lambda>b. br_id b = i) f (st_branches db)))"
    using office_okD(1) [OF assms(1)] by simp_all
  show "distinct (List.map_filter branch_key (update_where (\<lambda>b. br_id b = i) f (st_branches db)))"
  proof (rule branch_table.update_keeps [OF office_okD(3,1) [OF assms(1)]])
    fix b
    assume b: "b \<in> set (st_branches db)" "br_id b = i"
    have "\<exists>k. branch_key (f b) = Some k \<and> \<not> branch_name_taken (st_branches db) (Some i) k"
      if "\<not> branch_name_taken (st_branches db) (Some i) (br_tenantId (f b), br_name (f b))"
      using that branch_name_taken_cong [of "upper (br_name (f b))" "br_name (f b)"] by (simp add: branch_key_def)
    then show "branch_key (f b) = branch_key b \<or> branch_key (f b) = None
      \<or> (\<exists>k. branch_key (f b) = Some k \<and> \<not> branch_name_taken (st_branches db) (Some i) k)"
      using assms(4) [OF b] by blast
  qed
qed

lemma branch_by_row:
  assumes "office_ok db" and "branch_by i t db = Some b" and "c \<in> set (st_branches db)" and "br_id c = i"
  shows "c = b"
  using branch_by_Some [OF assms(2)] assms(3,4) office_okD(1) [OF assms(1)]
  by (auto simp: distinct_map dest: inj_onD)

lemma office_ok_branch_update:
  assumes "branches_update jp i dto t db = ok (r, db')" and "office_ok db"
  shows "office_ok db'"
proof -
  obtain e n p where e: "branches_findOne jp db i t = ok e"
    and nm: "\<not> (truthy (ub_name dto) \<and> upper (trim (the (ub_name dto))) \<noteq> upper (bz_name e)
           \<and> branch_name_taken (st_branches db) (Some i) (t, trim (the (ub_name dto))))"
    and ck: "case find_first (\<lambda>b. br_id b = i) (st_branches db') of None \<Rightarrow> True | Some b \<Rightarrow> branch_row_check db b = ok ()"
    and db': "db' = db\<lparr> st_branches := update_where (\<lambda>b. br_id b = i) (branch_data dto e n p) (st_branches db) \<rparr>"
    by (rule branches_update_Inr [OF assms(1)]) (rule that; assumption)
  obtain b0 where b0: "branch_by i t db = Some b0" and name: "bz_name e = br_name b0"
    using branches_findOne_Inr [OF e] by metis
  note row = branch_by_Some [OF b0]
  have "find_first (\<lambda>b. br_id b = i) (st_branches db') = Some (branch_data dto e n p b0)"
    unfolding db' using find_first_updated [OF office_okD(1) [OF assms(2)]] row by simp
  with ck have ck0: "branch_row_check db (branch_data dto e n p b0) = ok ()" by simp
  have "branch_key (branch_data dto e n p b0) = branch_key b0
      \<or> \<not> branch_name_taken (st_branches db) (Some i) (t, br_name (branch_data dto e n p b0))"
  proof (cases "ub_name dto")
    case (Some v)
    show ?thesis
    proof (cases "v = []")
      case True
      have "\<not> branch_name_taken (st_branches db) (Some i) (t, [])"
        using ck0 row Some True
        by (auto simp: branch_row_check_def branch_name_taken_def list_ex_iff same_name_def lower_def trim_def split: if_splits)
      then show ?thesis using Some True by (simp add: trim_def)
    next
      case False
      then show ?thesis using nm Some name by (auto simp: branch_key_def)
    qed
  qed (simp add: branch_key_def name)
  then show ?thesis
    using row branch_by_row [OF assms(2) b0] by (intro office_ok_branch_rows [OF assms(2) db']) auto
qed

lemma toggleGlobalRemarks_Inr:
  assumes "toggleGlobalRemarks jp i t en sel db = ok (r, db')"
  obtains on where "db' = db\<lparr> st_branches := update_where (\<lambda>b. br_id b = i) (\<lambda>b. b\<lparr> br_enableGlobalRemarks := on,
      br_selectedGlobalRemarkIds := (case sel of None \<Rightarrow> br_selectedGlobalRemarkIds b | Some s \<Rightarrow> Some s) \<rparr>) (st_branches db) \<rparr>"
  using assms unfolding toggleGlobalRemarks_def succeeding by blast

lemma office_ok_branch_toggle:
  assumes "toggleGlobalRemarks jp i t en sel db = ok (r, db')" and "office_ok db"
  shows "office_ok db'"
  by (rule toggleGlobalRemarks_Inr [OF assms(1)], erule office_ok_branch_rows [OF assms(2)]) (simp_all add: branch_key_def)

lemma branches_remove_Inr:
  assumes "branches_remove jp i t db = ok (m, db')"
  obtains b where "branch_by i t db = Some b" and "delete_branch i db = ok db'"
    and "1 < count_where (\<lambda>b. br_tenantId b = t) (st_branches db)"
    and "\<forall>u \<in> set (st_users db). us_branchId u \<noteq> Some i" and "\<forall>j \<in> set (st_jobs db). jb_branchId j \<noteq> Some i"
    and "\<forall>p \<in> set (st_pods db). pd_branchId p \<noteq> Some i"
proof -
  obtain e where e: "branches_findOne jp db i t = ok e"
    using assms unfolding branches_remove_def by (rule and_then_InrE)
  obtain b where b: "branch_by i t db = Some b" by (rule branches_findOne_Inr [OF e])
  have r: "\<not> count_where (\<lambda>b. br_tenantId b = t) (st_branches db) \<le> 1 \<and>
     \<not> (0 < count_where (\<lambda>u. us_branchId u = Some i) (st_users db) \<or> 0 < count_where (\<lambda>j. jb_branchId j = Some i) (st_jobs db)
         \<or> 0 < count_where (\<lambda>p. pd_branchId p = Some i) (st_pods db)) \<and>
     (\<exists>x. delete_branch i db = ok x \<and> ok (''Branch deleted successfully.'', x) = ok (m, db'))"
    using assms unfolding branches_remove_def e and_then_Inr Let_def if_throw_eq
    by (simp only: and_then_eq_Inr simp_thms)
  show thesis
    by (rule that [OF b]) (use r in \<open>simp_all add: count_where_0\<close>)
qed

lemma office_ok_branch_remove:
  assumes "branches_remove jp i t db = ok (m, db')" and "office_ok db"
  shows "office_ok db'"
proof -
  have d: "delete_branch i db = ok db'"
    by (rule branches_remove_Inr [OF assms(1)])
  note db' = delete_branch_tables [OF d]
  show ?thesis
  proof (rule office_okI)
    fix b
    assume "b \<in> set (st_units db')"
    then have "b \<in> set (st_units db)" "bu_branchId b \<noteq> Some i" by (auto simp: db')
    then show "unit_ok db' b"
      by (intro unit_ok_weaken [OF assms(2)]) (auto simp: db')
  qed (use office_okD(1-4) [OF assms(2)] in
    \<open>simp_all add: db' segments_ok_def distinct_map_delete_where branch_table.delete_keeps\<close>)
qed

lemma assignUser_Inr:
  assumes "assignUser jp i uid t roles unit db = ok (m, db')"
  obtains user target roleIds where "user_by uid t db = Some user" and "target_unit db t i user unit = ok target"
    and "db' = db\<lparr> st_users := update_where (\<lambda>u. us_id u = uid)
             (\<lambda>u. u\<lparr> us_branchId := Some i, us_businessUnitId := (if truthy target then target else us_businessUnitId u),
                     us_roleId := (if roleIds = [] then us_roleId u else Some (hd roleIds)),
                     us_assignedRoleIds := (if roleIds = [] then us_assignedRoleIds u else roleIds) \<rparr>) (st_users db) \<rparr>"
    and "roleIds = (case roles of None \<Rightarrow> [] | Some rs \<Rightarrow> if rs = [] then [] else map cr_id (assignment_roles db t rs))"
    and "\<exists>b. branch_by i t db = Some b"
proof -
  obtain e where e: "branches_findOne jp db i t = ok e"
    using assms unfolding assignUser_def by (rule and_then_InrE)
  have b: "\<exists>b. branch_by i t db = Some b"
    by (rule branches_findOne_Inr [OF e]) blast
  obtain user where u: "user_by uid t db = Some user"
    using assms unfolding assignUser_def e and_then_Inr by (cases "user_by uid t db") auto
  show thesis
    using assms unfolding assignUser_def e and_then_Inr u option.case(2) Let_def and_then_eq_Inr update_one_Inr sum.inject prod.inject
    by (elim exE conjE) (rule that [OF u _ _ refl b], assumption, simp)
qed

lemma updateManagers_Inr:
  assumes "updateManagers jp i ids t db = ok (r, db')"
  obtains us where "db' = db\<lparr> st_users := us,
      st_branches := update_where (\<lambda>b. br_id b = i) (\<lambda>b. b\<lparr> br_managers := ids \<rparr>) (st_branches db) \<rparr>"
    and "us = (if ids = [] then st_users db
      else update_where (\<lambda>u. us_id u \<in> set (map us_id (find_many (\<lambda>u. us_id u \<in> set ids \<and> us_tenantId u = t) (st_users db))))
        (\<lambda>u. with_admin_role (first_role (branch_admin_custom_role t i) db) (u\<lparr> us_branchId := Some i \<rparr>)) (st_users db))"
  using assms unfolding updateManagers_def and_then_eq_Inr update_one_Inr Let_def
  by (cases "ids = []") (auto split: if_split_asm)

lemma office_ok_branch_managers:
  assumes "updateManagers jp i ids t db = ok (r, db')" and "office_ok db"
  shows "office_ok db'"
proof -
  obtain us where db': "db' = db\<lparr> st_users := us,
      st_branches := update_where (\<lambda>b. br_id b = i) (\<lambda>b. b\<lparr> br_managers := ids \<rparr>) (st_branches db) \<rparr>"
    by (rule updateManagers_Inr [OF assms(1)])
  have "office_ok (db\<lparr> st_branches := update_where (\<lambda>b. br_id b = i) (\<lambda>b. b\<lparr> br_managers := ids \<rparr>) (st_branches db) \<rparr>)"
    by (rule office_ok_branch_rows [OF assms(2) refl]) (simp_all add: branch_key_def)
  then show ?thesis
    by (subst office_ok_cong) (simp_all add: db')
qed

end
