(* ===== verification/OfficeGuarantees.thy ===== *)
theory OfficeGuarantees
  imports OfficeInvariant
begin

text \<open>
  The properties of the office services: the steps they take together with the invariant those steps
  keep, the bound on branches, the errors of each operation, and who may move which staff.
\<close>

section \<open>The office services as a system\<close>

text \<open>One request to the services, by any actor; a new row gets an identifier its table does not have.\<close>

inductive office_step :: "(string \<Rightarrow> json option) \<Rightarrow> store \<Rightarrow> store \<Rightarrow> bool" for jp where
  segment_create: "segments_create newId now name code dto db = ok (s, db')
    \<Longrightarrow> newId \<notin> set (map ms_id (st_segments db)) \<Longrightarrow> office_step jp db db'"
| segment_update: "segments_update i sdto db = ok db' \<Longrightarrow> office_step jp db db'"
| segment_remove: "segments_remove i db = ok db' \<Longrightarrow> office_step jp db db'"
| unit_create: "units_create newId now cdto t db = ok (r, db')
    \<Longrightarrow> newId \<notin> set (map bu_id (st_units db)) \<Longrightarrow> office_step jp db db'"
| unit_update: "units_update i udto t db = ok (r, db') \<Longrightarrow> office_step jp db db'"
| unit_remove: "units_remove i t db = ok (m, db') \<Longrightarrow> office_step jp db db'"
| unit_assign: "units_assignMembers i ids t scope db = ok (ms, db') \<Longrightarrow> office_step jp db db'"
| unit_release: "units_removeMember i uid t db = (m, db') \<Longrightarrow> office_step jp db db'"
| unit_admins: "units_updateAdmins i ids t db = ok (r, db') \<Longrightarrow> office_step jp db db'"
| branch_create: "branches_create jp newId now bdto t db = ok (b, db')
    \<Longrightarrow> newId \<notin> set (map br_id (st_branches db)) \<Longrightarrow> office_step jp db db'"
| branch_update: "branches_update jp i vdto t db = ok (b, db') \<Longrightarrow> office_step jp db db'"
| branch_toggle: "toggleGlobalRemarks jp i t en sel db = ok (b, db') \<Longrightarrow> office_step jp db db'"
| branch_remove: "branches_remove jp i t db = ok (m, db') \<Longrightarrow> office_step jp db db'"
| branch_assign: "assignUser jp i uid t roles unit db = ok (m, db') \<Longrightarrow> office_step jp db db'"
| branch_managers: "updateManagers jp i ids t db = ok (b, db') \<Longrightarrow> office_step jp db db'"

lemma assignMembers_offices:
  assumes "units_assignMembers i ids t scope db = ok (ms, db')"
  shows "\<exists>us. db' = db\<lparr> st_users := us \<rparr>"
  by (rule units_assignMembers_Inr [OF assms]) blast

lemma assignUser_offices:
  assumes "assignUser jp i uid t roles unit db = ok (m, db')"
  shows "\<exists>us. db' = db\<lparr> st_users := us \<rparr>"
  by (rule assignUser_Inr [OF assms]) blast

lemma removeMember_offices: "units_removeMember i uid t db = (m, db') \<Longrightarrow> \<exists>us. db' = db\<lparr> st_users := us \<rparr>"
  by (auto simp: units_removeMember_def)

lemma office_ok_users: "\<exists>us. db' = db\<lparr> st_users := us \<rparr> \<Longrightarrow> office_ok db \<Longrightarrow> office_ok db'"
  using office_ok_cong [of db' db] by auto

lemmas office_ok_operations =
  office_ok_segment_create office_ok_segment_update office_ok_segment_remove office_ok_unit_create
  office_ok_unit_update office_ok_unit_remove office_ok_users [OF assignMembers_offices]
  office_ok_users [OF removeMember_offices] office_ok_unit_admins office_ok_branch_create office_ok_branch_update
  office_ok_branch_toggle office_ok_branch_remove office_ok_users [OF assignUser_offices] office_ok_branch_managers

lemma office_step_ok: "office_step jp db db' \<Longrightarrow> office_ok db \<Longrightarrow> office_ok db'"
  by (induction rule: office_step.induct) (erule (2) office_ok_operations | erule (1) office_ok_operations)+

lemma office_steps_ok: "(office_step jp)\<^sup>*\<^sup>* db db' \<Longrightarrow> office_ok db \<Longrightarrow> office_ok db'"
  by (induction rule: rtranclp_induct) (auto intro: office_step_ok)

text \<open>A workspace to evaluate the operations on: two branches, a unit, its staff and a segment.\<close>

definition office_sample :: store where
  "office_sample = two_pods\<lparr>
     st_branches := [mk_branch ''b'' ''t'' ''Delhi'', mk_branch ''c'' ''t'' ''Pune''],
     st_pods := [], st_jobPods := [],
     st_segments := [\<lparr> ms_id = ''m'', ms_tenantId = None, ms_name = ''India'', ms_code = ''IND'', ms_description = None,
        ms_defaultCurrency = ''INR'', ms_defaultTimezone = ''Asia/Kolkata'', ms_defaultShift = ''India Shift'',
        ms_defaultStartTime = Some ''09:00'', ms_defaultEndTime = Some ''18:00'', ms_isActive = True, ms_sortOrder = 0,
        ms_createdAt = 0 \<rparr>],
     st_users := [mk_member ''u'' ''t'' (Some ''b'') (Some ''n'') None [] None,
                  mk_member ''v'' ''t'' (Some ''b'') None None [] None,
                  mk_member ''w'' ''t'' (Some ''c'') None None [] None] \<rparr>"

definition plain_unit_dto :: "string \<Rightarrow> string \<Rightarrow> create_unit_dto" where
  "plain_unit_dto name branch = \<lparr> cu_name = name, cu_branchId = Some branch, cu_code = None, cu_market = None,
     cu_marketSegmentId = None, cu_currency = None, cu_shiftTiming = None, cu_workStartTime = None, cu_workEndTime = None,
     cu_timezone = None, cu_workingDays = None, cu_breakDurationMinutes = None, cu_allowNone = None, cu_allowPods = None,
     cu_allowUnassigned = None, cu_podDistributionStrategy = None, cu_jobCodePattern = None \<rparr>"

definition plain_branch_dto :: "string \<Rightarrow> create_branch_dto" where
  "plain_branch_dto name = \<lparr> cb_name = name, cb_code = None, cb_city = None, cb_state = None, cb_country = None,
     cb_market = None, cb_timezone = None, cb_workStartTime = None, cb_workEndTime = None, cb_workingDays = None,
     cb_shiftTiming = None, cb_breakDurationMinutes = None, cb_enableGlobalRemarks = None \<rparr>"

lemma office_sample_ok: "office_ok office_sample"
  by code_simp

text \<open>C10: Whatever requests the office services answer, in any order, the identifiers of branches and units stay
  distinct, no two branches of a tenant have the same name up to case, no two segments of one owner have the
  same code, and every unit refers to an existing branch and to a segment its tenant may use, with a pod
  strategy that can be read back.\<close>

theorem reachable_offices_ok:
  assumes "(office_step jp)\<^sup>*\<^sup>* db db'" and "office_ok db"
  shows "distinct (map br_id (st_branches db')) \<and> distinct (map bu_id (st_units db')) \<and>
    (\<forall>a \<in> set (st_branches db'). \<forall>b \<in> set (st_branches db').
       br_tenantId a = br_tenantId b \<and> same_name (br_name a) (br_name b) \<longrightarrow> a = b) \<and>
    (\<forall>a \<in> set (st_segments db'). \<forall>b \<in> set (st_segments db').
       ms_tenantId a = ms_tenantId b \<and> ms_code a = ms_code b \<and> ms_code a \<noteq> [] \<longrightarrow> a = b) \<and>
    (\<forall>u \<in> set (st_units db'). unit_ok db' u)"
proof -
  have inv: "office_ok db'" by (rule office_steps_ok [OF assms])
  have names: "a = b" if "distinct (List.map_filter key t)" "a \<in> set t" "b \<in> set t" "key a = Some k" "key b = Some k"
    for key :: "'a \<Rightarrow> 'k option" and t a b k
    using that
  proof (induction t)
    case (Cons x t)
    have "k \<in> set (List.map_filter key t)" if "y \<in> set t" "key y = Some k" for y
      using that by (force simp: List.map_filter_def)
    then show ?case using Cons by (auto simp: List.map_filter_simps split: option.splits)
  qed simp
  have "a = b" if "a \<in> set (st_branches db')" "b \<in> set (st_branches db')"
      "br_tenantId a = br_tenantId b" "same_name (br_name a) (br_name b)" for a b
    using names [OF office_okD(3) [OF inv] that(1,2), of "(br_tenantId a, upper (br_name a))"] that(3,4)
    by (simp add: branch_key_def same_name_upper)
  moreover have "a = b" if "a \<in> set (st_segments db')" "b \<in> set (st_segments db')"
      "ms_tenantId a = ms_tenantId b" "ms_code a = ms_code b" "ms_code a \<noteq> []" for a b
    using names [OF _ that(1,2), of segment_key "(ms_tenantId a, ms_code a)"] that(3-) office_okD(4) [OF inv]
    by (simp add: segments_ok_def segment_key_def)
  ultimately show ?thesis
    using office_okD(1,2,5) [OF inv] by blast
qed

theorem reachable_offices_ok_witness:
  "\<exists>db'. (office_step (\<lambda>_. None))\<^sup>*\<^sup>* office_sample db' \<and> map br_name (st_branches db') = [''Delhi'', ''Pune'', ''Goa''] \<and>
    distinct (map br_id (st_branches db'))"
proof -
  have "case branches_create (\<lambda>_. None) ''d'' 1 (plain_branch_dto '' Goa '') ''t'' office_sample of
      Inl e \<Rightarrow> False | Inr (r, db') \<Rightarrow> map br_name (st_branches db') = [''Delhi'', ''Pune'', ''Goa'']"
    by code_simp
  then obtain r db' where c: "branches_create (\<lambda>_. None) ''d'' 1 (plain_branch_dto '' Goa '') ''t'' office_sample = ok (r, db')"
    and n: "map br_name (st_branches db') = [''Delhi'', ''Pune'', ''Goa'']"
    by (auto split: sum.splits)
  have "office_step (\<lambda>_. None) office_sample db'"
    by (rule office_step.branch_create [OF c]) code_simp
  then have s: "(office_step (\<lambda>_. None))\<^sup>*\<^sup>* office_sample db'" by simp
  show ?thesis
    by (intro exI [of _ db'] conjI s n) (use reachable_offices_ok [OF s office_sample_ok] in simp)
qed

section \<open>The plan\<close>

lemma office_step_tenants: "office_step jp db db' \<Longrightarrow> st_tenants db' = st_tenants db"
proof (induction rule: office_step.induct)
  case (branch_create newId now bdto t db b db')
  show ?case using branches_create_Inr(3) [OF branch_create.hyps(1)] by simp
next
  case (unit_remove i t db m db')
  then show ?case by (auto elim!: units_remove_Inr dest: delete_units_tables)
next
  case (branch_remove i t db m db')
  then show ?case by (auto elim!: branches_remove_Inr dest: delete_branch_tables)
qed (auto simp: segments_create_def segments_update_def segments_remove_def units_removeMember_def Let_def
       and_then_eq_Inr split: if_splits
       elim!: units_create_Inr units_update_Inr units_assignMembers_Inr units_updateAdmins_Inr branches_update_Inr
         toggleGlobalRemarks_Inr assignUser_Inr updateManagers_Inr)

abbreviation branch_count :: "store \<Rightarrow> uuid \<Rightarrow> nat" where
  "branch_count db t \<equiv> count_where (\<lambda>b. br_tenantId b = t) (st_branches db)"

lemma count_update_where:
  "(\<And>r. q (f r) = q r) \<Longrightarrow> count_where q (update_where p f t) = count_where q t"
  by (induction t) (auto simp: count_where_def update_where_def)

lemma count_delete_where: "count_where q (delete_where p t) \<le> count_where q t"
  by (induction t) (auto simp: count_where_def delete_where_def)

lemma office_step_count: "office_step jp db db' \<Longrightarrow> int (branch_count db' t) \<le> max (branch_limit db t) (int (branch_count db t))"
proof (induction rule: office_step.induct)
  case (branch_create newId now bdto t' db b db')
  note c = branches_create_Inr [OF branch_create.hyps(1)]
  show ?case
    using c(1) unfolding c(3) by (cases "t' = t") (auto simp: count_where_def)
next
  case (unit_remove i t' db m db')
  then show ?case by (auto elim!: units_remove_Inr dest: delete_units_tables)
next
  case (branch_remove i t' db m db')
  have d: "st_branches db' = delete_where (\<lambda>b. br_id b = i) (st_branches db)"
    by (rule branches_remove_Inr [OF branch_remove.hyps]) (rule delete_branch_tables)
  show ?case
    unfolding d by (intro max.coboundedI2 iffD2 [OF of_nat_le_iff] count_delete_where)
qed (auto simp: segments_create_def segments_update_def segments_remove_def units_removeMember_def Let_def
       and_then_eq_Inr count_update_where split: if_splits
       elim!: units_create_Inr units_update_Inr units_assignMembers_Inr units_updateAdmins_Inr branches_update_Inr
         toggleGlobalRemarks_Inr assignUser_Inr updateManagers_Inr)

text \<open>C11: While requests are answered one after the other, a tenant never gets more branches than its plan
  allows (five when the plan says zero), or than it had before.\<close>

theorem branch_limit_kept:
  assumes "(office_step jp)\<^sup>*\<^sup>* db db'"
  shows "int (branch_count db' t) \<le> max (branch_limit db t) (int (branch_count db t))"
  using assms
proof (induction rule: rtranclp_induct)
  case (step db1 db2)
  have "st_tenants db1 = st_tenants db"
    using step.hyps(1) by (induction rule: rtranclp_induct) (auto dest: office_step_tenants)
  then have "branch_limit db1 t = branch_limit db t"
    by (simp add: branch_limit_def tenant_by_def)
  then show ?case
    using office_step_count [OF step.hyps(2), of t] step.IH by simp
qed simp

text \<open>Two creations whose reads both come before the insertions do exceed the plan.\<close>

lemma branch_limit_race:
  "\<exists>db1 db2. branch_create_checks (plain_branch_dto ''Goa'') ''t'' office_sample = ok () \<and>
     branch_create_checks (plain_branch_dto ''goa'') ''t'' office_sample = ok () \<and>
     insert_branch (new_branch ''d'' 1 (plain_branch_dto ''Goa'') ''t'') office_sample = ok db1 \<and>
     insert_branch (new_branch ''e'' 2 (plain_branch_dto ''goa'') ''t'') db1 = ok db2 \<and>
     branch_limit office_sample ''t'' < int (branch_count db2 ''t'') \<and> \<not> office_ok db2"
proof -
  let ?a = "insert_branch (new_branch ''d'' 1 (plain_branch_dto ''Goa'') ''t'') office_sample"
  have "case ?a of Inl e \<Rightarrow> False | Inr db1 \<Rightarrow>
      (case insert_branch (new_branch ''e'' 2 (plain_branch_dto ''goa'') ''t'') db1 of Inl e \<Rightarrow> False
       | Inr db2 \<Rightarrow> branch_limit office_sample ''t'' < int (branch_count db2 ''t'') \<and> \<not> office_ok db2)"
    by code_simp
  moreover have "branch_create_checks (plain_branch_dto ''Goa'') ''t'' office_sample = ok ()"
    "branch_create_checks (plain_branch_dto ''goa'') ''t'' office_sample = ok ()"
    by code_simp+
  ultimately show ?thesis by (auto split: sum.splits)
qed

theorem branch_limit_kept_witness:
  "\<exists>db'. (office_step (\<lambda>_. None))\<^sup>*\<^sup>* office_sample db' \<and> branch_count db' ''t'' = 3 \<and>
    int (branch_count db' ''t'') \<le> max (branch_limit office_sample ''t'') (int (branch_count office_sample ''t''))"
proof -
  have "case branches_create (\<lambda>_. None) ''d'' 1 (plain_branch_dto ''Goa'') ''t'' office_sample of
      Inl e \<Rightarrow> False | Inr (r, db') \<Rightarrow> branch_count db' ''t'' = 3"
    by code_simp
  then obtain r db' where c: "branches_create (\<lambda>_. None) ''d'' 1 (plain_branch_dto ''Goa'') ''t'' office_sample = ok (r, db')"
    and n: "branch_count db' ''t'' = 3"
    by (auto split: sum.splits)
  have "office_step (\<lambda>_. None) office_sample db'"
    by (rule office_step.branch_create [OF c]) code_simp
  then have s: "(office_step (\<lambda>_. None))\<^sup>*\<^sup>* office_sample db'" by simp
  show ?thesis
    by (intro exI [of _ db'] conjI s n branch_limit_kept [OF s])
qed

section \<open>No internal errors\<close>

lemma unit_to_response_total:
  assumes "unit_ok db b"
  shows "\<exists>r. unit_to_response db' w b = ok r"
  using normalizePodStrategy_stored [of "bu_podDistributionStrategy b"] assms
  by (auto simp: unit_to_response_def unit_ok_def Let_def)

lemma each_result_total: "(\<forall>x \<in> set xs. \<exists>y. f x = ok y) \<Longrightarrow> \<exists>ys. each_result f xs = ok ys"
  by (induction xs) force+

definition user_error :: "'a result \<Rightarrow> bool" where
  "user_error r = (case r of Inl (InternalError _) \<Rightarrow> False | _ \<Rightarrow> True)"

lemma user_error_simps [simp]:
  "user_error (Inr x)" "user_error (Inl (NotFound m))" "user_error (Inl (Conflict m))"
  "user_error (Inl (BadRequest m))" "user_error (Inl (Forbidden m))" "user_error (Inl (Unauthorized m))"
  "\<not> user_error (Inl (InternalError m))"
  by (simp_all add: user_error_def)

lemma user_error_and_thenI:
  assumes "user_error m" and "\<And>x. m = Inr x \<Longrightarrow> user_error (f x)"
  shows "user_error (and_then m f)"
  using assms by (cases m) (auto simp: user_error_def split: http_error.splits)

lemma user_error_parts:
  "user_error (normalizePodStrategy x)" "user_error (unit_segment db t i)" "user_error (unit_branch db t i)"
  by (auto simp: normalizePodStrategy_def unit_segment_def unit_branch_def Let_def split: option.splits)

lemma user_error_findOne: "user_error (units_findOne db i t)"
  by (auto simp: units_findOne_def unit_to_response_def Let_def split: option.splits intro!: user_error_and_thenI user_error_parts)

lemma user_error_if: "user_error (if c then throw e else x) \<longleftrightarrow> (if c then user_error (throw e :: 'a result) else user_error x)"
  for x :: "'a result"
  by simp

lemma user_error_unit_create:
  "user_error (units_create newId now dto t db)"
  unfolding units_create_def Let_def
proof (intro user_error_and_thenI user_error_parts user_error_findOne)
  fix br u sg st
  assume br: "unit_branch db t (cu_branchId dto) = ok br"
    and free: "(if list_ex (\<lambda>b. bu_tenantId b = t \<and> (truthy (cu_branchId dto) \<longrightarrow> bu_branchId b = cu_branchId dto)
                 \<and> same_name (bu_name b) (trim (cu_name dto))) (st_units db)
              then throw (unit_name_taken (cu_name dto)) else ok ()) = ok u"
  have "branch_of db (or_null (cu_branchId dto)) \<noteq> None" if "truthy (cu_branchId dto)"
    using br that by (auto simp: unit_branch_def branch_of_def branch_by_def or_null_def find_first_None
        split: option.splits dest!: find_first_Some [OF sym] elim!: truthyE)
  moreover have "bu_name b \<noteq> trim (cu_name dto)"
    if "b \<in> set (st_units db)" "bu_tenantId b = t" "truthy (cu_branchId dto) \<longrightarrow> bu_branchId b = cu_branchId dto" for b
    using free that by (auto simp: list_ex_iff split: if_splits)
  ultimately show "user_error (unit_row_check db (new_unit newId now dto t br sg st))"
    by (auto simp: unit_row_check_def list_ex_iff or_null_def)
qed (simp_all add: unit_name_taken_def)

lemma user_error_branch_findOne: "user_error (branches_findOne jp db i t)"
  by (simp add: branches_findOne_def split: option.split)

lemma user_error_branch_create:
  assumes "tenant_by t db \<noteq> None"
  shows "user_error (branches_create jp newId now dto t db)"
  unfolding branches_create_def
proof (intro user_error_and_thenI user_error_branch_findOne)
  show "user_error (branch_create_checks dto t db)"
    by (simp add: branch_create_checks_def branch_conflict_def Let_def)
  fix u
  assume "branch_create_checks dto t db = ok u"
  then have "\<not> branch_name_taken (st_branches db) None (t, trim (cb_name dto))"
    by (simp add: branch_create_checks_def Let_def split: if_splits)
  then show "user_error (insert_branch (new_branch newId now dto t) db)"
    using assms by (auto simp: insert_branch_def branch_row_check_def branch_name_taken_def list_ex_iff)
qed simp

lemma user_error_update_one:
  "r \<in> set t \<Longrightarrow> p r \<Longrightarrow> user_error (update_one p f t)"
  by (auto simp: update_one_def find_first_None)

lemma user_error_assign: "user_error (units_assignMembers i ids t scope db)"
  unfolding units_assignMembers_def units_getMembers_def Let_def
  by (intro user_error_and_thenI) (auto split: option.split intro!: user_error_and_thenI user_error_findOne)

lemma user_error_assignUser: "user_error (assignUser jp i uid t roles unit db)"
  unfolding assignUser_def Let_def
  by (intro user_error_and_thenI user_error_branch_findOne)
     (auto simp: target_unit_def split: option.split intro!: user_error_and_thenI user_error_update_one dest!: user_by_Some)

lemma user_error_branch_update:
  assumes "office_ok db" and "ub_name dto \<noteq> Some []"
  shows "user_error (branches_update jp i dto t db)"
  unfolding branches_update_def Let_def
proof (intro user_error_and_thenI user_error_branch_findOne)
  fix e u v t'
  assume e: "branches_findOne jp db i t = ok e"
    and free: "(if truthy (ub_name dto) \<and> upper (trim (the (ub_name dto))) \<noteq> upper (bz_name e)
                 \<and> branch_name_taken (st_branches db) (Some i) (t, trim (the (ub_name dto)))
              then throw (branch_conflict (the (ub_name dto))) else ok ()) = ok u"
    and upd: "update_one (\<lambda>b. br_id b = i) (branch_data dto e (case ub_allowNone dto of None \<Rightarrow> bz_allowNone e | Some v \<Rightarrow> v)
        (\<not> (case ub_allowNone dto of None \<Rightarrow> bz_allowNone e | Some v \<Rightarrow> v) \<and>
           (case ub_allowPods dto of None \<Rightarrow> bz_allowPods e | Some v \<Rightarrow> v))) (st_branches db) = ok t'"
  let ?f = "branch_data dto e (case ub_allowNone dto of None \<Rightarrow> bz_allowNone e | Some v \<Rightarrow> v)
        (\<not> (case ub_allowNone dto of None \<Rightarrow> bz_allowNone e | Some v \<Rightarrow> v) \<and>
           (case ub_allowPods dto of None \<Rightarrow> bz_allowPods e | Some v \<Rightarrow> v))"
  obtain b0 where b0: "branch_by i t db = Some b0" and name: "bz_name e = br_name b0"
    using branches_findOne_Inr [OF e] by metis
  note row = branch_by_Some [OF b0]
  have found: "find_first (\<lambda>b. br_id b = i) t' = Some (?f b0)"
    using upd row find_first_updated [OF office_okD(1) [OF assms(1)], of b0 i ?f] by (auto simp: update_one_Inr)
  have "br_name c \<noteq> br_name (?f b0)" if c: "c \<in> set (st_branches db)" "br_id c \<noteq> i" "br_tenantId c = t" for c
  proof
    assume eq: "br_name c = br_name (?f b0)"
    have other: "upper (br_name c) \<noteq> upper (br_name b0)"
    proof
      assume "upper (br_name c) = upper (br_name b0)"
      then have "c = b0"
        using reachable_offices_ok [OF rtranclp.rtrancl_refl assms(1)] c row by (auto simp: same_name_upper)
      then show False using c row by simp
    qed
    show False
    proof (cases "ub_name dto")
      case None
      then show False using eq other name by simp
    next
      case (Some v)
      then have "branch_name_taken (st_branches db) (Some i) (t, trim v)"
        using eq c by (auto simp: branch_name_taken_def list_ex_iff)
      then show False
        using free Some other assms(2) eq name by (auto split: if_splits)
    qed
  qed
  then show "user_error (case find_first (\<lambda>b. br_id b = i) t' of None \<Rightarrow> ok () | Some b \<Rightarrow> branch_row_check db b)"
    using row by (auto simp: found branch_row_check_def list_ex_iff)
next
  fix e u v
  assume e: "branches_findOne jp db i t = ok e"
  obtain b0 where "branch_by i t db = Some b0"
    using branches_findOne_Inr [OF e] by metis
  from branch_by_Some [OF this]
  show "user_error (update_one (\<lambda>b. br_id b = i) (branch_data dto e (case ub_allowNone dto of None \<Rightarrow> bz_allowNone e | Some v \<Rightarrow> v)
        (\<not> (case ub_allowNone dto of None \<Rightarrow> bz_allowNone e | Some v \<Rightarrow> v) \<and>
           (case ub_allowPods dto of None \<Rightarrow> bz_allowPods e | Some v \<Rightarrow> v))) (st_branches db))"
    by (intro user_error_update_one [of b0]) simp_all
qed (simp_all add: branch_conflict_def)


definition no_branch_changes :: update_branch_dto where
  "no_branch_changes = \<lparr> ub_name = None, ub_code = None, ub_city = None, ub_state = None, ub_country = None, ub_market = None,
     ub_isActive = None, ub_allowNone = None, ub_allowPods = None, ub_allowAll = None, ub_allowUnassigned = None,
     ub_podDistributionStrategy = None, ub_requireAmJobApproval = None, ub_requireJobApproval = None,
     ub_rolesRequiringApproval = None, ub_defaultJobApproverRole = None, ub_allowedJobApproverRoles = None,
     ub_approvalRoutingMode = None, ub_timezone = None, ub_workStartTime = None, ub_workEndTime = None,
     ub_workingDays = None, ub_shiftTiming = None, ub_breakDurationMinutes = None, ub_enableGlobalRemarks = None \<rparr>"


end
