(* ===== verification/OfficeStaff.thy ===== *)
theory OfficeStaff
  imports OfficeGuarantees
begin

text \<open>
  Who is moved where: the members of a unit after an assignment, the staff a local administrator can
  reach, what the removal of a branch takes with it, and settings that survive an unchanged save.
\<close>

section \<open>Assigning members\<close>

lemma count_where_card:
  "distinct (map us_id t) \<Longrightarrow> count_where p t = card (us_id ` {u \<in> set t. p u})"
proof (induction t)
  case (Cons u t)
  have "us_id u \<notin> us_id ` {v \<in> set t. p v}"
    using Cons.prems by auto
  moreover have "us_id ` {v \<in> set (u # t). p v} = (if p u then insert (us_id u) (us_id ` {v \<in> set t. p v}) else us_id ` {v \<in> set t. p v})"
    by auto
  ultimately show ?case
    using Cons by (simp add: count_where_def)
qed (simp add: count_where_def)

lemma length_uniq: "length (uniq xs) = card (set xs)"
  using distinct_card [OF distinct_uniq, of xs] by simp

lemma all_in_scope:
  assumes "distinct (map us_id users)" and "u \<in> set users" and "us_id u \<in> set ids"
    and "count_where (\<lambda>u. us_tenantId u = t \<and> within_staff scope u \<and> us_id u \<in> set ids) users = length (uniq ids)"
  shows "us_tenantId u = t \<and> within_staff scope u"
proof -
  let ?s = "us_id ` {v \<in> set users. us_tenantId v = t \<and> within_staff scope v \<and> us_id v \<in> set ids}"
  have "card ?s = card (set ids)"
    using assms(4) unfolding count_where_card [OF assms(1)] length_uniq .
  moreover have "?s \<subseteq> set ids" by auto
  ultimately have "?s = set ids" by (simp add: card_subset_eq)
  with assms(3) have "us_id u \<in> ?s" by simp
  then obtain v where "v \<in> set users" "us_id v = us_id u" "us_tenantId v = t" "within_staff scope v"
    by force
  moreover from this have "v = u"
    using assms(1,2) by (auto simp: distinct_map dest: inj_onD)
  ultimately show ?thesis by simp
qed

text \<open>The new row of each user.\<close>

definition assigned :: "business_unit \<Rightarrow> uuid list \<Rightarrow> uuid \<Rightarrow> staff_scope option \<Rightarrow> user \<Rightarrow> user" where
  "assigned b ids t scope u =
    (if us_tenantId u = t \<and> us_id u \<in> set ids \<and> within_staff scope u
     then u\<lparr> us_businessUnitId := Some (bu_id b), us_branchId := (if truthy (bu_branchId b) then bu_branchId b else us_branchId u) \<rparr>
     else if us_tenantId u = t \<and> us_businessUnitId u = Some (bu_id b) \<and> us_id u \<notin> set ids then u\<lparr> us_businessUnitId := None \<rparr>
     else u)"

lemma assigned_cases:
  "us_tenantId u \<noteq> t \<Longrightarrow> assigned b ids t scope u = u"
  "us_id u \<notin> set ids \<Longrightarrow> us_businessUnitId u \<noteq> Some (bu_id b) \<Longrightarrow> assigned b ids t scope u = u"
  "us_tenantId u = t \<Longrightarrow> us_id u \<notin> set ids \<Longrightarrow> us_businessUnitId u = Some (bu_id b) \<Longrightarrow>
     assigned b ids t scope u = u\<lparr> us_businessUnitId := None \<rparr>"
  "us_tenantId u = t \<Longrightarrow> us_id u \<in> set ids \<Longrightarrow> within_staff scope u \<Longrightarrow> assigned b ids t scope u =
     u\<lparr> us_businessUnitId := Some (bu_id b), us_branchId := (if truthy (bu_branchId b) then bu_branchId b else us_branchId u) \<rparr>"
  by (simp_all only: assigned_def simp_thms if_True if_False)

lemma assigned_users:
  "(if ids = [] then leave_unit (bu_id b) ids t users else join_unit b ids t scope (leave_unit (bu_id b) ids t users))
   = map (assigned b ids t scope) users"
  by (auto simp: leave_unit_def join_unit_def update_where_def assigned_def)

lemma units_assignMembers_users:
  assumes "units_assignMembers i ids t scope db = ok (ms, db')"
  obtains b where "unit_by i t db = Some b" and "db' = db\<lparr> st_users := map (assigned b ids t scope) (st_users db) \<rparr>"
    and "scope = None \<or> ids = [] \<or>
      count_where (\<lambda>u. us_tenantId u = t \<and> within_staff scope u \<and> us_id u \<in> set ids) (st_users db) = length (uniq ids)"
proof (rule units_assignMembers_Inr [OF assms])
  fix b
  assume b: "unit_by i t db = Some b"
    and db': "db' = db\<lparr> st_users := (if ids = [] then leave_unit i ids t (st_users db)
        else join_unit b ids t scope (leave_unit i ids t (st_users db))) \<rparr>"
    and c: "scope = None \<or> ids = [] \<or>
      count_where (\<lambda>u. us_tenantId u = t \<and> within_staff scope u \<and> us_id u \<in> set ids) (st_users db) = length (uniq ids)"
  have "bu_id b = i" using unit_by_Some [OF b] by simp
  then have "db' = db\<lparr> st_users := map (assigned b ids t scope) (st_users db) \<rparr>"
    using db' by (simp only: assigned_users [symmetric])
  then show thesis by (rule that [OF b _ c])
qed

text \<open>C22: After an assignment the members of a unit are exactly the listed accounts of the tenant; they sit in
  the unit's branch, the former members only leave the unit, and nobody else changes.\<close>

theorem assigned_members_exact:
  assumes "units_assignMembers i ids t scope db = ok (ms, db')" and "distinct (map us_id (st_users db))"
  shows "db' = db\<lparr> st_users := st_users db' \<rparr> \<and>
    list_all2 (\<lambda>u u'. us_id u' = us_id u \<and> us_tenantId u' = us_tenantId u \<and>
      (us_tenantId u = t \<longrightarrow> (us_businessUnitId u' = Some i \<longleftrightarrow> us_id u \<in> set ids)) \<and>
      (us_tenantId u = t \<and> us_id u \<in> set ids \<longrightarrow>
         (\<exists>b. unit_by i t db = Some b \<and> (truthy (bu_branchId b) \<longrightarrow> us_branchId u' = bu_branchId b))) \<and>
      (us_tenantId u \<noteq> t \<or> us_id u \<notin> set ids \<longrightarrow> u' = u \<or> us_businessUnitId u = Some i \<and> u' = u\<lparr> us_businessUnitId := None \<rparr>))
      (st_users db) (st_users db')"
proof -
  obtain b where b: "unit_by i t db = Some b" and db': "db' = db\<lparr> st_users := map (assigned b ids t scope) (st_users db) \<rparr>"
    and c: "scope = None \<or> ids = [] \<or>
      count_where (\<lambda>u. us_tenantId u = t \<and> within_staff scope u \<and> us_id u \<in> set ids) (st_users db) = length (uniq ids)"
    by (rule units_assignMembers_users [OF assms(1)])
  have i: "bu_id b = i" using unit_by_Some [OF b] by simp
  have w: "within_staff scope u" if "u \<in> set (st_users db)" "us_id u \<in> set ids" for u
  proof (cases "scope = None")
    case False
    then have "count_where (\<lambda>u. us_tenantId u = t \<and> within_staff scope u \<and> us_id u \<in> set ids) (st_users db) = length (uniq ids)"
      using c that by auto
    from all_in_scope [OF assms(2) that this] show ?thesis by blast
  qed (simp add: within_staff_def)
  show ?thesis (is "_ \<and> list_all2 ?p _ _")
  proof (intro conjI)
    have "?p u (assigned b ids t scope u)" if "u \<in> set (st_users db)" for u
    proof -
      consider "us_tenantId u \<noteq> t" | "us_id u \<notin> set ids" "us_businessUnitId u \<noteq> Some i"
        | "us_tenantId u = t" "us_id u \<notin> set ids" "us_businessUnitId u = Some i" | "us_tenantId u = t" "us_id u \<in> set ids"
        by blast
      then show ?thesis
      proof cases
        case 1
        then have "assigned b ids t scope u = u" by (rule assigned_cases)
        then show ?thesis using 1 by simp
      next
        case 2
        then have "assigned b ids t scope u = u" by (simp add: assigned_cases(2) i)
        then show ?thesis using 2 by simp
      next
        case 3
        then have "assigned b ids t scope u = u\<lparr> us_businessUnitId := None \<rparr>" by (simp add: assigned_cases(3) i)
        then show ?thesis using 3 by simp
      next
        case 4
        then have "assigned b ids t scope u =
            u\<lparr> us_businessUnitId := Some (bu_id b), us_branchId := (if truthy (bu_branchId b) then bu_branchId b else us_branchId u) \<rparr>"
          using w [OF that] by (intro assigned_cases(4))
        then show ?thesis using 4 b i by simp
      qed
    qed
    then show "list_all2 ?p (st_users db) (st_users db')"
      by (simp add: db' list_all2_map2 list_all2_same)
  next
    show "db' = db\<lparr> st_users := st_users db' \<rparr>" by (simp only: db') simp
  qed
qed

theorem assigned_members_exact_witness:
  "\<exists>ms db'. units_assignMembers ''n'' [''v'', ''w''] ''t'' None office_sample = ok (ms, db') \<and>
    map us_businessUnitId (st_users db') = [None, Some ''n'', Some ''n''] \<and> db' = office_sample\<lparr> st_users := st_users db' \<rparr>"
proof -
  have "case units_assignMembers ''n'' [''v'', ''w''] ''t'' None office_sample of Inl e \<Rightarrow> False
      | Inr (ms, db') \<Rightarrow> map us_businessUnitId (st_users db') = [None, Some ''n'', Some ''n'']"
    by code_simp
  then obtain ms db' where m: "units_assignMembers ''n'' [''v'', ''w''] ''t'' None office_sample = ok (ms, db')"
    and u: "map us_businessUnitId (st_users db') = [None, Some ''n'', Some ''n'']"
    by (auto split: sum.splits)
  have d: "distinct (map us_id (st_users office_sample))" by code_simp
  show ?thesis
    by (intro exI [of _ ms] exI [of _ db'] conjI m u) (rule assigned_members_exact [OF m d, THEN conjunct1])
qed

section \<open>What a local administrator reaches\<close>

lemma units_assertAccess_Inr:
  assumes "units_assertAccess db user i t mutate = ok unit" and "\<not> manages_workspace user"
  shows "units_findOne db i t = ok unit" and "truthy (a_branchId user)" and "ur_branchId unit = a_branchId user"
    and "mutate \<Longrightarrow> ''branch_admin:manage'' \<notin> set (a_permissions user) \<Longrightarrow> a_businessUnitId user = Some i"
  using assms by (auto simp: units_assertAccess_def and_then_eq_Inr Let_def split: if_splits)

text \<open>C23: An administrator without workspace-wide rights who assigns members of a unit works on a unit of the own
  branch, and every account whose row changes belongs to the tenant and was in that unit or in that branch; without the
  branch capability it is the own unit, and only its own members change.\<close>

theorem assignment_confined:
  assumes "units_assign_members env i ids user header db = ok (ms, db')" and "\<not> manages_workspace user"
  shows "\<exists>t unit. request_tenant env user header = ok t \<and> unit_by i t db = Some unit \<and>
    or_null (bu_branchId unit) = a_branchId user \<and> db' = db\<lparr> st_users := st_users db' \<rparr> \<and>
    (''branch_admin:manage'' \<notin> set (a_permissions user) \<longrightarrow> a_businessUnitId user = Some i) \<and>
    list_all2 (\<lambda>u u'. u' = u \<or> us_tenantId u = t \<and>
       (us_businessUnitId u = Some i \<or> ''branch_admin:manage'' \<in> set (a_permissions user) \<and> us_branchId u = a_branchId user))
      (st_users db) (st_users db')"
proof -
  obtain t r where t: "request_tenant env user header = ok t" and r: "units_assertAccess db user i t True = ok r"
    and a: "units_assignMembers i ids t (staffScope user) db = ok (ms, db')"
    using assms(1) by (auto simp: units_assign_members_def and_then_eq_Inr)
  note acc = units_assertAccess_Inr [OF r assms(2)]
  obtain b where b: "unit_by i t db = Some b"
    and db': "db' = db\<lparr> st_users := map (assigned b ids t (staffScope user)) (st_users db) \<rparr>"
    by (rule units_assignMembers_users [OF a])
  obtain b' where "unit_by i t db = Some b'" and "ur_branchId r = or_null (bu_branchId b')"
    by (rule units_findOne_Inr [OF acc(1)])
  with b acc(3) have own: "or_null (bu_branchId b) = a_branchId user" by simp
  have i: "bu_id b = i" using unit_by_Some [OF b] by simp
  have "us_businessUnitId u = Some i \<or> ''branch_admin:manage'' \<in> set (a_permissions user) \<and> us_branchId u = a_branchId user"
    if "within_staff (staffScope user) u" for u
    using that assms(2) acc(2,4) by (auto simp: staffScope_def within_staff_def elim!: truthyE split: if_splits)
  then have "list_all2 (\<lambda>u u'. u' = u \<or> us_tenantId u = t \<and>
       (us_businessUnitId u = Some i \<or> ''branch_admin:manage'' \<in> set (a_permissions user) \<and> us_branchId u = a_branchId user))
      (st_users db) (st_users db')"
    using i by (auto simp: db' list_all2_map2 list_all2_same assigned_def)
  then show ?thesis
    using t b own acc(4) by (intro exI [of _ t] exI [of _ b] conjI) (auto simp: db')
qed

theorem assignment_confined_witness:
  "\<exists>ms db'. units_assign_members None ''n'' [''u'', ''v''] (mk_user ''x'' [''branch_admin:manage''] ''t'' (Some ''b'') None None) None
      office_sample = ok (ms, db') \<and> length ms = 2 \<and>
    (\<exists>t unit. request_tenant None (mk_user ''x'' [''branch_admin:manage''] ''t'' (Some ''b'') None None) None = ok t \<and>
       unit_by ''n'' t office_sample = Some unit \<and> or_null (bu_branchId unit) = Some ''b'')"
proof -
  let ?user = "mk_user ''x'' [''branch_admin:manage''] ''t'' (Some ''b'') None None"
  have "case units_assign_members None ''n'' [''u'', ''v''] ?user None office_sample of Inl e \<Rightarrow> False
      | Inr (ms, db') \<Rightarrow> length ms = 2"
    by code_simp
  then obtain ms db' where m: "units_assign_members None ''n'' [''u'', ''v''] ?user None office_sample = ok (ms, db')"
    and l: "length ms = 2"
    by (auto split: sum.splits)
  have n: "\<not> manages_workspace ?user" and br: "a_branchId ?user = Some ''b''" by code_simp+
  show ?thesis
    using assignment_confined [OF m n] m l unfolding br by blast
qed

text \<open>A branch administrator is refused foreign staff as members, but reaches them as administrators of the unit.\<close>

lemma foreign_admin_taken_over:
  "(case units_assign_members None ''n'' [''w''] (mk_user ''x'' [''branch_admin:manage''] ''t'' (Some ''b'') None None) None office_sample of
      Inl (Forbidden _) \<Rightarrow> True | _ \<Rightarrow> False) \<and>
   (case units_admins None ''n'' [''w''] (mk_user ''x'' [''branch_admin:manage''] ''t'' (Some ''b'') None None) None office_sample of
      Inl _ \<Rightarrow> False | Inr (_, db') \<Rightarrow> (case user_by ''w'' ''t'' db' of None \<Rightarrow> False
        | Some w \<Rightarrow> us_businessUnitId w = Some ''n'' \<and> us_branchId w = Some ''c''))"
  by code_simp

text \<open>Assigning an account to a branch without units leaves it in the unit of its old branch.\<close>

lemma assigned_user_keeps_old_unit:
  "case branches_assign_user (\<lambda>_. None) None ''c'' ''u'' None None (mk_user ''x'' [''tenant:settings''] ''t'' None None None) None office_sample of
     Inl _ \<Rightarrow> False | Inr (_, db') \<Rightarrow> (case user_by ''u'' ''t'' db' of None \<Rightarrow> False
        | Some u \<Rightarrow> us_branchId u = Some ''c'' \<and> us_businessUnitId u = Some ''n'')"
  by code_simp

text \<open>An update may put a unit into a branch of another tenant.\<close>

definition move_unit_dto :: "uuid \<Rightarrow> update_unit_dto" where
  "move_unit_dto branch = \<lparr> uu_name = None, uu_branchId = Some branch, uu_code = None, uu_marketSegmentId = None, uu_currency = None,
     uu_shiftTiming = None, uu_workStartTime = None, uu_workEndTime = None, uu_timezone = None, uu_workingDays = None,
     uu_breakDurationMinutes = None, uu_allowNone = None, uu_allowPods = None, uu_allowUnassigned = None,
     uu_podDistributionStrategy = None, uu_jobCodePattern = None \<rparr>"

lemma unit_moved_to_foreign_branch:
  "case units_update ''n'' (move_unit_dto ''z'') ''t''
      (office_sample\<lparr> st_branches := mk_branch ''z'' ''other'' ''Oslo'' # st_branches office_sample \<rparr>) of
     Inl _ \<Rightarrow> False | Inr (r, _) \<Rightarrow> ur_branchId r = Some ''z'' \<and> ur_branchName r = Some ''Oslo''"
  by code_simp

section \<open>Removing a branch\<close>

definition units_of_branch :: "store \<Rightarrow> uuid \<Rightarrow> uuid list" where
  "units_of_branch db i = map bu_id (find_many (\<lambda>b. bu_branchId b = Some i) (st_units db))"

text \<open>A pod of one of the units that still carries a job.\<close>

definition busy_pod_in :: "store \<Rightarrow> uuid \<Rightarrow> bool" where
  "busy_pod_in db i = list_ex (\<lambda>j. list_ex (\<lambda>p. pd_id p = jp_podId j \<and>
     list_ex (\<lambda>n. pd_businessUnitId p = Some n) (units_of_branch db i)) (st_pods db)) (st_jobPods db)"

lemma delete_pods_iff:
  "(\<exists>db'. delete_pods p db = ok db') \<longleftrightarrow> \<not> (\<exists>j \<in> set (st_jobPods db). \<exists>q \<in> set (st_pods db). p q \<and> pd_id q = jp_podId j)"
  unfolding delete_pods_def Let_def list_ex_iff by (auto simp: image_iff) metis+

lemma delete_branch_iff:
  assumes "\<forall>p \<in> set (st_pods db). pd_branchId p \<noteq> Some i"
  shows "(\<exists>db'. delete_branch i db = ok db') \<longleftrightarrow> \<not> busy_pod_in db i"
proof -
  let ?p = "\<lambda>q. \<exists>n \<in> set (units_of_branch db i). pd_businessUnitId q = Some n"
  have "(\<exists>db'. delete_branch i db = ok db') \<longleftrightarrow> (\<exists>db1. delete_units (\<lambda>b. bu_branchId b = Some i) db = ok db1)"
  proof
    assume "\<exists>db1. delete_units (\<lambda>b. bu_branchId b = Some i) db = ok db1"
    then obtain db1 where d1: "delete_units (\<lambda>b. bu_branchId b = Some i) db = ok db1" by blast
    have "set (st_pods db1) \<subseteq> set (st_pods db)"
      using d1 by (auto simp: delete_units_def Let_def and_then_eq_Inr delete_pods_tables)
    then have "\<exists>db2. delete_pods (\<lambda>q. pd_branchId q = Some i) db1 = ok db2"
      unfolding delete_pods_iff using assms by blast
    then show "\<exists>db'. delete_branch i db = ok db'"
      using d1 by (auto simp: delete_branch_def and_then_eq_Inr Let_def)
  qed (auto simp: delete_branch_def and_then_eq_Inr)
  also have "\<dots> \<longleftrightarrow> (\<exists>db1. delete_pods ?p db = ok db1)"
    by (auto simp: delete_units_def Let_def and_then_eq_Inr units_of_branch_def)
  also have "\<dots> \<longleftrightarrow> \<not> busy_pod_in db i"
    unfolding delete_pods_iff by (auto simp: busy_pod_in_def list_ex_iff)
  finally show ?thesis .
qed

definition no_trace_of :: "uuid \<Rightarrow> uuid list \<Rightarrow> store \<Rightarrow> bool" where
  "no_trace_of i ns db =
    (list_all (\<lambda>u. us_branchId u \<noteq> Some i \<and> (\<forall>n \<in> set ns. us_businessUnitId u \<noteq> Some n)) (st_users db) \<and>
     list_all (\<lambda>p. pd_branchId p \<noteq> Some i \<and> (\<forall>n \<in> set ns. pd_businessUnitId p \<noteq> Some n)) (st_pods db) \<and>
     list_all (\<lambda>r. cr_branchId r \<noteq> Some i \<and> (\<forall>n \<in> set ns. cr_businessUnitId r \<noteq> Some n)) (st_roles db))"

lemma update_where_keeps:
  assumes "r \<in> set (update_where p f t)" and "\<And>r. g (f r) = g r"
  shows "\<exists>r0 \<in> set t. g r = g r0"
  using assms by (force simp: in_update_where)

abbreviation office_of :: "user \<Rightarrow> uuid option \<times> uuid option" where
  "office_of u \<equiv> (us_branchId u, us_businessUnitId u)"

lemma delete_pods_users:
  assumes "delete_pods p db = ok db'" and "u \<in> set (st_users db')"
  shows "\<exists>u0 \<in> set (st_users db). office_of u = office_of u0"
proof -
  obtain q where "st_users db' = update_where q (\<lambda>u. u\<lparr> us_podId := None \<rparr>) (st_users db)"
    using assms(1) by (auto simp: delete_pods_def Let_def split: if_splits)
  then show ?thesis
    using assms(2) update_where_keeps [of u q "\<lambda>u. u\<lparr> us_podId := None \<rparr>" "st_users db" office_of] by simp
qed

lemma delete_roles_users:
  assumes "u \<in> set (st_users (delete_roles p db))"
  shows "\<exists>u0 \<in> set (st_users db). office_of u = office_of u0"
proof -
  obtain q where "st_users (delete_roles p db) = update_where q (\<lambda>u. u\<lparr> us_roleId := None \<rparr>) (st_users db)"
    by (simp add: delete_roles_def Let_def)
  then show ?thesis
    using assms update_where_keeps [of u q "\<lambda>u. u\<lparr> us_roleId := None \<rparr>" "st_users db" office_of] by simp
qed

lemma delete_roles_roles:
  assumes "r \<in> set (st_roles (delete_roles p db))"
  obtains r0 where "r0 \<in> set (st_roles db)" and "\<not> p r0"
    and "cr_branchId r = cr_branchId r0" and "cr_businessUnitId r = cr_businessUnitId r0"
proof -
  obtain q where "st_roles (delete_roles p db) = update_where q (\<lambda>r. r\<lparr> cr_baseRoleId := None \<rparr>) (delete_where p (st_roles db))"
    by (simp add: delete_roles_def Let_def)
  then obtain r0 where "r0 \<in> set (delete_where p (st_roles db))"
    and "r = (if q r0 then r0\<lparr> cr_baseRoleId := None \<rparr> else r0)"
    using assms by (auto simp: in_update_where)
  then show thesis
    by (intro that [of r0]) simp_all
qed

lemma update_where_all:
  assumes "r \<in> set (update_where p f t)" and "\<And>r. p r \<Longrightarrow> q (f r)" and "\<And>r. \<not> p r \<Longrightarrow> q r"
  shows "q r"
  using assms by (auto simp: in_update_where)

lemma delete_units_trace:
  assumes "delete_units p db = ok db'" and "n \<in> set (map bu_id (find_many p (st_units db)))"
  shows "\<forall>u \<in> set (st_users db'). us_businessUnitId u \<noteq> Some n" and "\<forall>q \<in> set (st_pods db'). pd_businessUnitId q \<noteq> Some n"
    and "\<forall>r \<in> set (st_roles db'). cr_businessUnitId r \<noteq> Some n"
proof -
  let ?gone = "map bu_id (find_many p (st_units db))"
  obtain db1 us where d1: "delete_pods (\<lambda>q. \<exists>i \<in> set ?gone. pd_businessUnitId q = Some i) db = ok db1"
    and users: "st_users db' = update_where (\<lambda>u. \<exists>i \<in> set ?gone. us_businessUnitId u = Some i) (\<lambda>u. u\<lparr> us_businessUnitId := None \<rparr>) us"
    and pods: "st_pods db' = st_pods db1"
    and roles: "st_roles db' = st_roles (delete_roles (\<lambda>r. \<exists>i \<in> set ?gone. cr_businessUnitId r = Some i) db1)"
    using assms(1) unfolding delete_units_def Let_def and_then_eq_Inr by auto
  show "\<forall>u \<in> set (st_users db'). us_businessUnitId u \<noteq> Some n"
    unfolding users
  proof
    fix u
    assume "u \<in> set (update_where (\<lambda>u. \<exists>i \<in> set ?gone. us_businessUnitId u = Some i) (\<lambda>u. u\<lparr> us_businessUnitId := None \<rparr>) us)"
    then show "us_businessUnitId u \<noteq> Some n"
      by (rule update_where_all) (use assms(2) in auto)
  qed
  show "\<forall>q \<in> set (st_pods db'). pd_businessUnitId q \<noteq> Some n"
    using assms(2) by (auto simp: pods delete_pods_tables [OF d1])
  show "\<forall>r \<in> set (st_roles db'). cr_businessUnitId r \<noteq> Some n"
    using assms(2) unfolding roles by (auto elim!: delete_roles_roles)
qed

lemma delete_branch_trace:
  assumes "delete_branch i db = ok db'"
  shows "no_trace_of i (units_of_branch db i) db'"
proof -
  obtain db1 db2 where d1: "delete_units (\<lambda>b. bu_branchId b = Some i) db = ok db1"
    and d2: "delete_pods (\<lambda>q. pd_branchId q = Some i) db1 = ok db2"
    and db': "db' = (let db3 = delete_roles (\<lambda>r. cr_branchId r = Some i) db2
      in db3\<lparr> st_branches := delete_where (\<lambda>b. br_id b = i) (st_branches db3),
           st_jobs := update_where (\<lambda>j. jb_branchId j = Some i) (\<lambda>j. j\<lparr> jb_branchId := None \<rparr>) (st_jobs db3),
           st_users := update_where (\<lambda>u. us_branchId u = Some i) (\<lambda>u. u\<lparr> us_branchId := None \<rparr>) (st_users db3) \<rparr>)"
    using assms by (auto simp: delete_branch_def and_then_eq_Inr Let_def)
  note t = delete_units_trace [OF d1, folded units_of_branch_def]
  have users: "us_businessUnitId u \<noteq> Some n" if "u \<in> set (st_users db2)" "n \<in> set (units_of_branch db i)" for u n
    using delete_pods_users [OF d2 that(1)] t(1) [OF that(2)] by auto
  have "us_branchId u \<noteq> Some i \<and> (\<forall>n \<in> set (units_of_branch db i). us_businessUnitId u \<noteq> Some n)"
    if "u \<in> set (st_users db')" for u
  proof -
    from that obtain v where v: "v \<in> set (st_users (delete_roles (\<lambda>r. cr_branchId r = Some i) db2))"
      and u: "u = (if us_branchId v = Some i then v\<lparr> us_branchId := None \<rparr> else v)"
      by (auto simp: db' Let_def in_update_where)
    obtain w where "w \<in> set (st_users db2)" "office_of v = office_of w"
      using delete_roles_users [OF v] by blast
    with u show ?thesis
      using users [of w] by simp
  qed
  moreover have "cr_branchId r \<noteq> Some i \<and> (\<forall>n \<in> set (units_of_branch db i). cr_businessUnitId r \<noteq> Some n)"
    if r: "r \<in> set (st_roles db')" for r
  proof -
    have "r \<in> set (st_roles (delete_roles (\<lambda>r. cr_branchId r = Some i) db2))"
      using r by (simp add: db' Let_def)
    then obtain r0 where "r0 \<in> set (st_roles db1)" "cr_branchId r0 \<noteq> Some i"
      "cr_branchId r = cr_branchId r0" "cr_businessUnitId r = cr_businessUnitId r0"
      by (rule delete_roles_roles) (simp add: delete_pods_tables [OF d2])
    then show ?thesis using t(3) by simp
  qed
  moreover have "pd_branchId p \<noteq> Some i \<and> (\<forall>n \<in> set (units_of_branch db i). pd_businessUnitId p \<noteq> Some n)"
    if p: "p \<in> set (st_pods db')" for p
    using p t(2) by (auto simp: db' Let_def delete_pods_tables [OF d2])
  ultimately show ?thesis
    unfolding no_trace_of_def list_all_iff by blast
qed



section \<open>Settings\<close>

lemma upper_eq_Nil [simp]: "upper s = [] \<longleftrightarrow> s = []"
  by (simp add: upper_def)

lemma or_else_default [simp]: "d \<noteq> [] \<Longrightarrow> the (or_else x (Some d)) \<noteq> []"
  by (cases x) (auto simp: or_else_def)

lemma parse_printed:
  "JSON_parse (json_text (JArr vs)) = Some (JArr vs) \<Longrightarrow> parseJsonArray JSON_parse (Some (json_text (JArr vs))) d = vs"
  by (simp add: parseJsonArray_def)

lemma formatBranch_fields [simp]:
  "bz_id (formatBranch JSON_parse db b ms) = br_id b"
  "bz_name (formatBranch JSON_parse db b ms) = br_name b"
  "bz_code (formatBranch JSON_parse db b ms) = br_code b"
  "bz_city (formatBranch JSON_parse db b ms) = br_city b"
  "bz_state (formatBranch JSON_parse db b ms) = br_state b"
  "bz_country (formatBranch JSON_parse db b ms) = br_country b"
  "bz_market (formatBranch JSON_parse db b ms) = (if br_market b = [] then ''INDIA'' else br_market b)"
  "bz_isActive (formatBranch JSON_parse db b ms) = br_isActive b"
  "bz_allowNone (formatBranch JSON_parse db b ms) = br_allowNone b"
  "bz_allowPods (formatBranch JSON_parse db b ms) = br_allowPods b"
  "bz_allowAll (formatBranch JSON_parse db b ms) = br_allowAll b"
  "bz_allowUnassigned (formatBranch JSON_parse db b ms) = br_allowUnassigned b"
  "bz_podDistributionStrategy (formatBranch JSON_parse db b ms) = upper (if br_podDistributionStrategy b = [] then ''AUTO'' else br_podDistributionStrategy b)"
  "bz_requireAmJobApproval (formatBranch JSON_parse db b ms) = br_requireAmJobApproval b"
  "bz_requireJobApproval (formatBranch JSON_parse db b ms) = (br_requireJobApproval b \<and> br_requireAmJobApproval b)"
  "bz_rolesRequiringApproval (formatBranch JSON_parse db b ms) = parseJsonArray JSON_parse (br_rolesRequiringApproval b) default_roles_requiring"
  "bz_defaultJobApproverRole (formatBranch JSON_parse db b ms) = the (or_else (br_defaultJobApproverRole b) (Some ''POD_LEAD''))"
  "bz_allowedJobApproverRoles (formatBranch JSON_parse db b ms) = parseJsonArray JSON_parse (br_allowedJobApproverRoles b) default_approver_roles"
  "bz_approvalRoutingMode (formatBranch JSON_parse db b ms) = the (or_else (br_approvalRoutingMode b) (Some ''FLEXIBLE''))"
  "bz_timezone (formatBranch JSON_parse db b ms) = the (or_else (br_timezone b) (Some (if br_market b = ''US'' \<or> br_country b = ''United States'' then ''America/New_York'' else ''Asia/Kolkata'')))"
  "bz_workStartTime (formatBranch JSON_parse db b ms) = the (or_else (br_workStartTime b) (Some ''09:00''))"
  "bz_workEndTime (formatBranch JSON_parse db b ms) = the (or_else (br_workEndTime b) (Some ''18:00''))"
  "bz_workingDays (formatBranch JSON_parse db b ms) = parseJsonArray JSON_parse (br_workingDays b) (jstrings weekdays)"
  "bz_shiftTiming (formatBranch JSON_parse db b ms) = the (or_else (br_shiftTiming b) (Some (if br_market b = ''US'' then ''US Shift'' else ''General Shift'')))"
  "bz_breakDurationMinutes (formatBranch JSON_parse db b ms) = (case br_breakDurationMinutes b of None \<Rightarrow> 60 | Some n \<Rightarrow> n)"
  "bz_enableGlobalRemarks (formatBranch JSON_parse db b ms) = br_enableGlobalRemarks b"
  "bz_selectedGlobalRemarkIds (formatBranch JSON_parse db b ms) = (case br_selectedGlobalRemarkIds b of None \<Rightarrow> ''ALL'' | Some s \<Rightarrow> s)"
  "bz_usersCount (formatBranch JSON_parse db b ms) = length ms"
  "bz_jobsCount (formatBranch JSON_parse db b ms) = 0"
  "bz_podsCount (formatBranch JSON_parse db b ms) = count_where (\<lambda>p. pd_branchId p = Some (br_id b)) (st_pods db)"
  "bz_members (formatBranch JSON_parse db b ms) = ms"
  "bz_createdAt (formatBranch JSON_parse db b ms) = br_createdAt b"
  by (simp_all only: formatBranch_def Let_def branch_response.simps)

lemma unchanged_data_fields [simp]:
  "br_name (branch_data no_branch_changes e n p b) = bz_name e"
  "br_code (branch_data no_branch_changes e n p b) = bz_code e"
  "br_city (branch_data no_branch_changes e n p b) = bz_city e"
  "br_state (branch_data no_branch_changes e n p b) = bz_state e"
  "br_country (branch_data no_branch_changes e n p b) = (if bz_country e = [] then ''India'' else bz_country e)"
  "br_market (branch_data no_branch_changes e n p b) = bz_market e"
  "br_isActive (branch_data no_branch_changes e n p b) = bz_isActive e"
  "br_allowNone (branch_data no_branch_changes e n p b) = n"
  "br_allowPods (branch_data no_branch_changes e n p b) = p"
  "br_allowAll (branch_data no_branch_changes e n p b) = bz_allowAll e"
  "br_allowUnassigned (branch_data no_branch_changes e n p b) = bz_allowUnassigned e"
  "br_podDistributionStrategy (branch_data no_branch_changes e n p b) = bz_podDistributionStrategy e"
  "br_requireAmJobApproval (branch_data no_branch_changes e n p b) = bz_requireJobApproval e"
  "br_requireJobApproval (branch_data no_branch_changes e n p b) = bz_requireJobApproval e"
  "br_rolesRequiringApproval (branch_data no_branch_changes e n p b) = Some (json_text (JArr (bz_rolesRequiringApproval e)))"
  "br_defaultJobApproverRole (branch_data no_branch_changes e n p b) = Some (bz_defaultJobApproverRole e)"
  "br_allowedJobApproverRoles (branch_data no_branch_changes e n p b) = Some (json_text (JArr (bz_allowedJobApproverRoles e)))"
  "br_approvalRoutingMode (branch_data no_branch_changes e n p b) = Some (bz_approvalRoutingMode e)"
  "br_timezone (branch_data no_branch_changes e n p b) = Some (bz_timezone e)"
  "br_workStartTime (branch_data no_branch_changes e n p b) = Some (bz_workStartTime e)"
  "br_workEndTime (branch_data no_branch_changes e n p b) = Some (bz_workEndTime e)"
  "br_workingDays (branch_data no_branch_changes e n p b) = Some (json_text (JArr (bz_workingDays e)))"
  "br_shiftTiming (branch_data no_branch_changes e n p b) = Some (bz_shiftTiming e)"
  "br_breakDurationMinutes (branch_data no_branch_changes e n p b) = Some (bz_breakDurationMinutes e)"
  "br_enableGlobalRemarks (branch_data no_branch_changes e n p b) = bz_enableGlobalRemarks e"
  "br_id (branch_data no_branch_changes e n p b) = br_id b"
  "br_selectedGlobalRemarkIds (branch_data no_branch_changes e n p b) = br_selectedGlobalRemarkIds b"
  "br_createdAt (branch_data no_branch_changes e n p b) = br_createdAt b"
  by (simp_all add: branch_data_def no_branch_changes_def Let_def)

lemma formatBranch_relations:
  assumes "br_id c = br_id b"
  shows "bz_managers (formatBranch jp db c ms) = bz_managers (formatBranch jp db b ms)"
    "bz_businessUnits (formatBranch jp db c ms) = bz_businessUnits (formatBranch jp db b ms)"
  by (simp_all add: formatBranch_def Let_def assms)

lemma formatBranch_settings:
  assumes "e = formatBranch jp db b ms"
    and "\<And>vs. vs \<in> {bz_rolesRequiringApproval e, bz_allowedJobApproverRoles e, bz_workingDays e} \<Longrightarrow>
           jp (json_text (JArr vs)) = Some (JArr vs)"
  shows "formatBranch jp db' (branch_data no_branch_changes e n p b) ms' =
    (formatBranch jp db' b ms')\<lparr> bz_allowNone := n, bz_allowPods := p,
      bz_requireAmJobApproval := bz_requireJobApproval e,
      bz_country := (if br_country b = [] then ''India'' else br_country b) \<rparr>"
proof -
  have parsed: "parseJsonArray jp (Some (json_text (JArr (bz_rolesRequiringApproval e)))) d = bz_rolesRequiringApproval e"
    "parseJsonArray jp (Some (json_text (JArr (bz_allowedJobApproverRoles e)))) d = bz_allowedJobApproverRoles e"
    "parseJsonArray jp (Some (json_text (JArr (bz_workingDays e)))) d = bz_workingDays e" for d
    by (rule parse_printed, rule assms(2), simp)+
  show ?thesis
    by (rule branch_response.equality) (simp_all add: parsed formatBranch_relations [of "branch_data no_branch_changes e n p b" b] del: json_text.simps branch_data_simps(3),
          simp_all add: assms(1))
qed

text \<open>Saving the settings of a branch without changing any of them shows the same branch again, whatever was
  stored before, as long as the stored lists survive being printed and parsed: only the pods are switched off when
  unassigned work is the rule, the two approval switches agree, and a missing country becomes the default.\<close>

theorem unchanged_save_shows_same:
  assumes "branches_update jp i no_branch_changes t db = ok (r, db')" and "branches_findOne jp db i t = ok e"
    and "office_ok db"
    and "\<And>vs. vs \<in> {bz_rolesRequiringApproval e, bz_allowedJobApproverRoles e, bz_workingDays e} \<Longrightarrow>
           jp (json_text (JArr vs)) = Some (JArr vs)"
  shows "r = e\<lparr> bz_allowPods := \<not> bz_allowNone e \<and> bz_allowPods e, bz_requireAmJobApproval := bz_requireJobApproval e,
    bz_country := (if bz_country e = [] then ''India'' else bz_country e) \<rparr>"
proof -
  obtain e' n p where e': "branches_findOne jp db i t = ok e'" and n: "n = bz_allowNone e'"
    and p: "p = (\<not> n \<and> bz_allowPods e')"
    and db': "db' = db\<lparr> st_branches := update_where (\<lambda>b. br_id b = i) (branch_data no_branch_changes e' n p) (st_branches db) \<rparr>"
    and r: "branches_findOne jp db' i t = ok r"
    by (rule branches_update_Inr [OF assms(1)]) (rule that; simp add: no_branch_changes_def)
  have [simp]: "e' = e" using e' assms(2) by simp
  obtain b where b: "branch_by i t db = Some b" and e: "e = formatBranch jp db b (branches_getMembers db i t None)"
    by (rule branches_findOne_Inr [OF assms(2)])
  obtain c where c: "branch_by i t db' = Some c" and rc: "r = formatBranch jp db' c (branches_getMembers db' i t None)"
    by (rule branches_findOne_Inr [OF r])
  note row = branch_by_Some [OF b]
  have "c = branch_data no_branch_changes e n p b"
  proof -
    have "c \<in> set (st_branches db')" "br_id c = i" using branch_by_Some [OF c] by auto
    then obtain c0 where c0: "c0 \<in> set (st_branches db)" "c = (if br_id c0 = i then branch_data no_branch_changes e n p c0 else c0)"
      by (auto simp: db' in_update_where)
    then have "br_id c0 = i" using \<open>br_id c = i\<close> by (auto split: if_splits)
    moreover from this have "c0 = b" by (rule branch_by_row [OF assms(3) b c0(1)])
    ultimately show ?thesis using c0(2) by simp
  qed
  then have "r = (formatBranch jp db' b (branches_getMembers db' i t None))\<lparr> bz_allowNone := n, bz_allowPods := p,
      bz_requireAmJobApproval := bz_requireJobApproval e,
      bz_country := (if br_country b = [] then ''India'' else br_country b) \<rparr>"
    using formatBranch_settings [OF e assms(4)] rc by simp
  also have "formatBranch jp db' b (branches_getMembers db' i t None) = e"
    by (simp add: e db' formatBranch_def branches_getMembers_def branch_member_view_def unit_to_summary_def user_role_def
        role_by_id_def unit_of_def Let_def)
  finally show ?thesis
    by (simp add: n p e)
qed

theorem unchanged_save_shows_same_witness:
  "\<exists>jp r db' e. branches_findOne jp (office_sample\<lparr> st_pods := [mk_pod ''p'' ''t'' ''b'' ''n'' ''Pod'' None 0] \<rparr>) ''b'' ''t'' = ok e \<and>
     branches_update jp ''b'' no_branch_changes ''t'' (office_sample\<lparr> st_pods := [mk_pod ''p'' ''t'' ''b'' ''n'' ''Pod'' None 0] \<rparr>) = ok (r, db') \<and>
     bz_workingDays r = bz_workingDays e \<and> bz_workingDays e = jstrings weekdays"
proof -
  let ?jp = "\<lambda>s. if s = json_text (JArr (jstrings weekdays)) then Some (JArr (jstrings weekdays))
        else if s = json_text (JArr default_roles_requiring) then Some (JArr default_roles_requiring)
        else if s = json_text (JArr default_approver_roles) then Some (JArr default_approver_roles) else None"
  let ?db = "office_sample\<lparr> st_pods := [mk_pod ''p'' ''t'' ''b'' ''n'' ''Pod'' None 0] \<rparr>"
  have 1: "case branches_update ?jp ''b'' no_branch_changes ''t'' ?db of Inl e \<Rightarrow> False | Inr _ \<Rightarrow> True"
    by code_simp
  have 2: "case branches_findOne ?jp ?db ''b'' ''t'' of Inl e \<Rightarrow> False
      | Inr e \<Rightarrow> bz_workingDays e = jstrings weekdays
         \<and> bz_rolesRequiringApproval e = default_roles_requiring \<and> bz_allowedJobApproverRoles e = default_approver_roles"
    by code_simp
  have 3: "office_ok ?db" by code_simp
  have 4: "?jp (json_text (JArr (jstrings weekdays))) = Some (JArr (jstrings weekdays))"
    "?jp (json_text (JArr default_roles_requiring)) = Some (JArr default_roles_requiring)"
    "?jp (json_text (JArr default_approver_roles)) = Some (JArr default_approver_roles)"
    by code_simp+
  obtain r db' where u: "branches_update ?jp ''b'' no_branch_changes ''t'' ?db = ok (r, db')"
    using 1 by (auto split: sum.splits)
  obtain e where e: "branches_findOne ?jp ?db ''b'' ''t'' = ok e"
    and l: "bz_workingDays e = jstrings weekdays" "bz_rolesRequiringApproval e = default_roles_requiring"
      "bz_allowedJobApproverRoles e = default_approver_roles"
    using 2 by (auto split: sum.splits)
  have "r = e\<lparr> bz_allowPods := \<not> bz_allowNone e \<and> bz_allowPods e, bz_requireAmJobApproval := bz_requireJobApproval e,
    bz_country := (if bz_country e = [] then ''India'' else bz_country e) \<rparr>"
    by (rule unchanged_save_shows_same [OF u e 3]) (use 4 in \<open>simp only: l insert_iff empty_iff, elim disjE FalseE, simp_all only:\<close>)
  then have same: "bz_workingDays r = bz_workingDays e" by simp
  show ?thesis
    by (rule exI [of _ ?jp], rule exI [of _ r], rule exI [of _ db'], rule exI [of _ e]) (intro conjI u e same l(1))
qed

end
