(* ===== verification/RoleAdmin.thy ===== *)
theory RoleAdmin
  imports Offices Pods
begin

text \<open>
  Role administration, \<^verbatim>\<open>src/src/auth/services/auth-rbac.service.ts\<close>: the archetypes (table
  \<^verbatim>\<open>system_roles\<close>) with the ceiling of permissions each one allows, the creation and the change of
  the custom roles of a tenant, and the endpoints of \<^verbatim>\<open>auth.controller.ts\<close> that reach them.  The state is
  the shared store with the tables of archetypes and invitations.  A list of permissions is read as the
  JSON array of strings that every writer of the column stores; identifiers of requests are UUIDs,
  absent or empty; a query without an order takes the first row of the table.
\<close>

section \<open>State\<close>

record system_role =
  sr_id :: uuid
  sr_name :: string
  sr_systemKey :: string
  sr_permissions :: "string list"

record user_invitation =
  iv_id :: uuid
  iv_tenantId :: uuid
  iv_email :: string
  iv_roleId :: "uuid option"
  iv_isAccepted :: bool

record role_db =
  rl_base :: store
  rl_systemRoles :: "system_role list"
  rl_invitations :: "user_invitation list"

definition role_in :: "uuid \<Rightarrow> uuid \<Rightarrow> store \<Rightarrow> custom_role option" where
  "role_in i tenantId db = find_first (\<lambda>r. cr_id r = i \<and> cr_tenantId r = tenantId) (st_roles db)"

section \<open>Archetypes and their ceiling\<close>

definition assignmentPermissionCeiling :: "string \<Rightarrow> string list \<Rightarrow> string list" where
  "assignmentPermissionCeiling key permissions =
    (let scopedActions = (if ''job:edit'' \<in> set permissions
           then [''job:change_status'', ''job:find_matches''] @ concat (map (\<lambda>action.
             map (\<lambda>scope. ''job:'' @ action @ ''_'' @ scope) [''unit'', ''branch'', ''tenant''])
               [''edit'', ''change_status'', ''find_matches'']) else [])
     in uniq (permissions @ submissionAutoApprovalDefaults key @ scopedActions
       @ (if ''job:create'' \<in> set permissions then [''submission:internal_screening_created_jobs''] else [])
       @ (if key = ''ACCOUNT_MANAGER'' then [''submission:download_resume'', ''job:submit_owned_jobs''] else [])
       @ (if key \<in> {''TENANT_ADMIN'', ''BRANCH_ADMIN'', ''UNIT_ADMIN''} then [''candidate:download_resume''] else [])
       @ [''job:view_pod_jobs'', ''job:submit_pod_jobs'']
       @ (if key = ''POD_LEAD'' then [''job:assign_recruiter''] else [])
       @ (if key \<in> {''DELIVERY_HEAD'', ''UNIT_ADMIN'', ''BRANCH_ADMIN'', ''TENANT_ADMIN''} then [''job:override_assignment''] else [])
       @ (if key = ''DELIVERY_HEAD'' then [''job:assignment_reason_optional'', ''job:submit_unit_jobs''] else [])))"

text \<open>\<^verbatim>\<open>DEFAULT_PERMS[key]\<close>, and the ceiling of an archetype with the fallback to the recruiter's.\<close>

definition default_perms :: "role_db \<Rightarrow> string \<Rightarrow> string list option" where
  "default_perms db key = map_option sr_permissions (find_first (\<lambda>s. sr_systemKey s = key) (rl_systemRoles db))"

definition archetype_ceiling :: "role_db \<Rightarrow> string \<Rightarrow> string list" where
  "archetype_ceiling db key = assignmentPermissionCeiling key
     (case default_perms db key of Some ps \<Rightarrow> ps
      | None \<Rightarrow> (case default_perms db ''RECRUITER'' of Some ps \<Rightarrow> ps | None \<Rightarrow> []))"

definition BASE_ARCHETYPES :: "string list" where
  "BASE_ARCHETYPES = [''TENANT_ADMIN'', ''BRANCH_ADMIN'', ''UNIT_ADMIN'', ''ACCOUNT_MANAGER'', ''RECRUITER'',
     ''DELIVERY_HEAD'', ''POD_LEAD'']"

section \<open>Pod leadership cannot be granted by hand\<close>

definition rejectManualPodLeadRoles :: "uuid \<Rightarrow> uuid list \<Rightarrow> store \<Rightarrow> unit result" where
  "rejectManualPodLeadRoles tenantId identifiers db =
    (if identifiers = [] then ok ()
     else let wanted = map (\<lambda>value. lower (trim value)) identifiers
       in if list_ex (\<lambda>r. is_lead_role tenantId r
              \<and> (lower (cr_id r) \<in> set wanted \<or> lower (cr_name r) \<in> set wanted \<or> lower ''POD_LEAD'' \<in> set wanted)) (st_roles db)
          then throw (BadRequest ''Pod leadership roles are assigned automatically through a pod. Select the lead in Recruitment Pods.'')
          else ok ())"

definition existingPodLeadRoleIds :: "uuid \<Rightarrow> uuid \<Rightarrow> store \<Rightarrow> uuid list" where
  "existingPodLeadRoleIds tenantId userId db =
    (case user_by userId tenantId db of
       None \<Rightarrow> []
     | Some u \<Rightarrow> (if list_ex (\<lambda>p. pd_tenantId p = tenantId \<and> pd_podHeadId p = Some userId) (st_pods db)
         then map cr_id (find_many (\<lambda>r. is_lead_role tenantId r
                \<and> (us_roleId u = Some (cr_id r) \<or> cr_id r \<in> set (us_assignedRoleIds u))) (st_roles db))
         else []))"

section \<open>The constraints of the table\<close>

text \<open>
  What the database refuses when a row of \<^verbatim>\<open>custom_roles\<close> is written: the trigger that keeps one custom
  Pod Lead role per unit (migration \<^verbatim>\<open>20261016100000_unit_scoped_pod_lead_roles\<close>), the unique indexes on
  names, the width of the name, and the references.
\<close>

definition custom_lead :: "custom_role \<Rightarrow> bool" where
  "custom_lead r = (\<not> cr_isSystem r \<and> cr_systemKey r = Some ''POD_LEAD'')"

definition lead_role_trigger :: "store \<Rightarrow> custom_role \<Rightarrow> unit result" where
  "lead_role_trigger db r =
    (if \<not> custom_lead r then ok ()
     else and_then (case cr_businessUnitId r of
        None \<Rightarrow> ok ()
      | Some n \<Rightarrow> (case unit_by n (cr_tenantId r) db of
           None \<Rightarrow> throw (InternalError ''23503'')
         | Some b \<Rightarrow> if cr_branchId r \<noteq> bu_branchId b then throw (InternalError ''23514'') else ok ())) (\<lambda>_.
        if list_ex (\<lambda>s. custom_lead s \<and> cr_tenantId s = cr_tenantId r \<and> cr_businessUnitId s = cr_businessUnitId r
             \<and> cr_id s \<noteq> cr_id r) (st_roles db)
        then throw (InternalError ''23505'') else ok ()))"

definition role_row_check :: "store \<Rightarrow> custom_role \<Rightarrow> unit result" where
  "role_row_check db r =
    and_then (lead_role_trigger db r) (\<lambda>_.
    if 100 < length (cr_name r) then throw (InternalError ''22001'')
    else if list_ex (\<lambda>s. cr_id s \<noteq> cr_id r \<and> cr_tenantId s = cr_tenantId r \<and> cr_isSystem s = cr_isSystem r
          \<and> upper (cr_name s) = upper (cr_name r)
          \<and> (cr_isSystem r \<or> (cr_branchId r \<noteq> None \<and> cr_branchId s = cr_branchId r))) (st_roles db)
    then throw (InternalError ''23505'')
    else if tenant_by (cr_tenantId r) db = None
      \<or> (cr_branchId r \<noteq> None \<and> branch_of db (cr_branchId r) = None)
      \<or> (cr_businessUnitId r \<noteq> None \<and> unit_of db (cr_businessUnitId r) = None)
      \<or> \<not> if_given (cr_baseRoleId r) (\<lambda>b. role_by_id b db \<noteq> None)
      \<or> \<not> if_given (cr_createdBy r) (\<lambda>u. u \<in> set (map us_id (st_users db)))
    then throw (InternalError ''23503'') else ok ())"

definition unique_conflict :: "string \<Rightarrow> 'a result \<Rightarrow> 'a result" where
  "unique_conflict msg m = (case m of Inl (InternalError c) \<Rightarrow>
      (if c = ''23505'' then throw (Conflict msg) else m) | _ \<Rightarrow> m)"

definition insert_role :: "custom_role \<Rightarrow> store \<Rightarrow> store result" where
  "insert_role r db = and_then (role_row_check db r) (\<lambda>_. ok (db\<lparr> st_roles := st_roles db @ [r] \<rparr>))"

section \<open>Creating a custom role\<close>

record role_dto =
  rq_name :: string
  rq_description :: string
  rq_permissions :: "string list option"
  rq_systemRole :: "string option"
  rq_branchId :: "string option"
  rq_businessUnitId :: "string option"
  rq_baseRoleId :: "string option"

text \<open>The archetype of a new role, its base role, and the archetype key its base refers to.\<close>

definition resolve_archetype :: "uuid \<Rightarrow> role_dto \<Rightarrow> store \<Rightarrow> (string \<times> uuid option \<times> string option) result" where
  "resolve_archetype tenantId dto db =
    (if truthy (rq_baseRoleId dto)
     then (case role_in (or_empty (rq_baseRoleId dto)) tenantId db of
         None \<Rightarrow> throw (BadRequest ''Select a base role in this tenant.'')
       | Some r \<Rightarrow> ok (or_empty (or_else (cr_systemKey r) (Some (cr_name r))), rq_baseRoleId dto, cr_systemKey r))
     else let systemRole = or_empty (or_else (map_option (\<lambda>s. trim (upper s)) (rq_systemRole dto)) (Some ''RECRUITER''));
              base = find_first (\<lambda>r. cr_tenantId r = tenantId \<and> cr_isSystem r
                \<and> (upper (cr_name r) = systemRole \<or> map_option upper (cr_systemKey r) = Some systemRole)) (st_roles db)
       in ok (systemRole, map_option cr_id base, Option.bind base cr_systemKey))"

definition template_key :: "role_db \<Rightarrow> string \<Rightarrow> string option \<Rightarrow> string result" where
  "template_key db systemRole referenced =
    (case referenced of
       Some k \<Rightarrow> ok k
     | None \<Rightarrow> if list_ex (\<lambda>s. sr_systemKey s = systemRole) (rl_systemRoles db) then ok systemRole
         else throw (BadRequest ''System role template is unavailable.''))"

text \<open>The branch and the unit of a new role.\<close>

definition new_role_scope :: "uuid \<Rightarrow> string \<Rightarrow> role_dto \<Rightarrow> store \<Rightarrow> (uuid option \<times> uuid option) result" where
  "new_role_scope tenantId systemRole dto db =
    (let branchId = or_else (rq_branchId dto) None; unitId = or_else (rq_businessUnitId dto) None
     in if systemRole = ''POD_LEAD''
        then (case unitId of
            None \<Rightarrow> throw (BadRequest ''Select a branch unit for the Pod Lead role.'')
          | Some n \<Rightarrow> (case unit_by n tenantId db of
               None \<Rightarrow> throw (BadRequest ''The selected branch unit does not belong to this tenant.'')
             | Some b \<Rightarrow> if truthy branchId \<and> branchId \<noteq> bu_branchId b
                 then throw (BadRequest ''The selected branch does not contain this branch unit.'')
                 else ok (bu_branchId b, Some (bu_id b))))
        else if truthy branchId then ok (branchId, unitId)
        else ok ((case sort_key br_createdAt (find_many (\<lambda>b. br_tenantId b = tenantId) (st_branches db)) of
             [] \<Rightarrow> None | b # _ \<Rightarrow> Some (br_id b)), unitId))"

definition branch_access_if :: "auth_user option \<Rightarrow> uuid option \<Rightarrow> string \<Rightarrow> unit result" where
  "branch_access_if requester branchId action =
    (case requester of Some user \<Rightarrow> (if truthy branchId then validateBranchAccess user branchId action else ok ())
     | None \<Rightarrow> ok ())"

definition management_access_if :: "auth_user option \<Rightarrow> unit result" where
  "management_access_if requester = (case requester of Some user \<Rightarrow> assertRoleManagementAccess user | None \<Rightarrow> ok ())"

text \<open>\<^verbatim>\<open>requester && !requester.permissions?.some(...)\<close>: a known requester without the workspace keys.\<close>

definition lacks_workspace :: "auth_user option \<Rightarrow> bool" where
  "lacks_workspace requester = (case requester of Some user \<Rightarrow> \<not> manages_workspace user | None \<Rightarrow> False)"

definition new_role_permissions :: "role_db \<Rightarrow> string \<Rightarrow> string list option \<Rightarrow> string list" where
  "new_role_permissions db systemRole permissions =
    (let given = (case permissions of None \<Rightarrow> [] | Some ps \<Rightarrow> ps);
         resolved = (if length given = 0 \<or> (length given = 2 \<and> ''job:view'' \<in> set given \<and> ''candidate:view'' \<in> set given)
           then uniq ((case default_perms db systemRole of Some ps \<Rightarrow> ps | None \<Rightarrow> [''job:view'', ''candidate:view''])
                  @ submissionAutoApprovalDefaults systemRole)
           else given)
     in filter (\<lambda>p. p \<in> set (archetype_ceiling db systemRole)) resolved)"

definition role_name_taken :: "uuid \<Rightarrow> string \<Rightarrow> uuid option \<Rightarrow> uuid option \<Rightarrow> store \<Rightarrow> bool" where
  "role_name_taken tenantId nameUpper branchId except db =
     list_ex (\<lambda>r. cr_tenantId r = tenantId \<and> upper (cr_name r) = nameUpper \<and> \<not> cr_isSystem r
       \<and> cr_branchId r = branchId \<and> Some (cr_id r) \<noteq> except) (st_roles db)"

text \<open>A new Pod Lead role takes the place of the other lead roles of whoever leads a pod of its unit.\<close>

definition grant_new_lead_role :: "uuid \<Rightarrow> uuid \<Rightarrow> uuid option \<Rightarrow> store \<Rightarrow> store" where
  "grant_new_lead_role tenantId newId unitId db =
     db\<lparr> st_users := update_where
       (\<lambda>u. us_tenantId u = tenantId \<and> list_ex (\<lambda>p. pd_tenantId p = tenantId \<and> pd_podHeadId p = Some (us_id u)
            \<and> pd_businessUnitId p = unitId) (st_pods db))
       (\<lambda>u. u\<lparr> us_roleId := Some newId,
               us_assignedRoleIds := uniq (filter (\<lambda>i. i = newId \<or> i \<notin> set (lead_role_ids db tenantId))
                 (present (us_roleId u # map Some (us_assignedRoleIds u) @ [Some newId]))) \<rparr>) (st_users db) \<rparr>"

definition store_new_role :: "custom_role \<Rightarrow> string \<Rightarrow> store \<Rightarrow> store result" where
  "store_new_role role systemRole db =
    unique_conflict ''A custom Pod Lead role already exists for this branch unit. Edit the existing role.''
      (if systemRole = ''POD_LEAD''
       then if list_ex (\<lambda>r. cr_tenantId r = cr_tenantId role \<and> custom_lead r \<and> cr_businessUnitId r = cr_businessUnitId role) (st_roles db)
            then throw (Conflict ''A custom Pod Lead role already exists for this branch unit. Edit the existing role.'')
            else and_then (insert_role role db) (\<lambda>db'.
              ok (grant_new_lead_role (cr_tenantId role) (cr_id role) (cr_businessUnitId role) db'))
       else insert_role role db)"

definition createCustomRole ::
  "uuid \<Rightarrow> int \<Rightarrow> uuid \<Rightarrow> role_dto \<Rightarrow> string option \<Rightarrow> auth_user option \<Rightarrow> role_db \<Rightarrow> (custom_role \<times> string option \<times> role_db) result" where
  "createCustomRole newId now tenantId dto createdById requester rdb =
    (let db = rl_base rdb; nameUpper = trim (upper (rq_name dto))
     in and_then (management_access_if requester) (\<lambda>_.
        if nameUpper = ''SUPER_ADMIN''
        then throw (BadRequest ''Role name SUPER_ADMIN is reserved for the root system administrator.'')
        else and_then (resolve_archetype tenantId dto db) (\<lambda>(systemRole, baseRoleId, referenced).
        if systemRole \<notin> set BASE_ARCHETYPES then throw (BadRequest ''Invalid base system role selected.'')
        else if systemRole = ''POD_LEAD'' \<and> lacks_workspace requester
        then throw (Forbidden ''Pod Lead roles must be managed by the tenant administrator.'')
        else and_then (template_key rdb systemRole referenced) (\<lambda>systemKey.
        and_then (new_role_scope tenantId systemRole dto db) (\<lambda>(branchId, unitId).
        and_then (branch_access_if requester branchId ''create roles'') (\<lambda>_.
        if role_name_taken tenantId nameUpper branchId None db
        then throw (Conflict (''A custom role with name \"'' @ rq_name dto @ ''\" already exists in this branch.''))
        else let role = \<lparr> cr_id = newId, cr_tenantId = tenantId, cr_branchId = branchId, cr_businessUnitId = unitId,
                   cr_name = rq_name dto, cr_isSystem = False, cr_systemKey = Some systemKey,
                   cr_permissions = JArr (map JStr (new_role_permissions rdb systemRole (rq_permissions dto))),
                   cr_createdAt = now, cr_description = Some (rq_description dto), cr_baseRoleId = baseRoleId,
                   cr_createdBy = or_else createdById None \<rparr>
          in and_then (store_new_role role systemRole db) (\<lambda>db'.
             ok (role, map_option br_name (branch_of db' branchId), rdb\<lparr> rl_base := db' \<rparr>))))))))"

section \<open>Changing a custom role\<close>

text \<open>
  A field of the body is \<open>None\<close> when it is \<^verbatim>\<open>undefined\<close>; the references may also be \<^verbatim>\<open>null\<close>, which is
  \<open>Some None\<close>.
\<close>

record role_update =
  up_name :: "string option"
  up_description :: "string option"
  up_systemRole :: "string option"
  up_baseRoleId :: "uuid option option"
  up_branchId :: "uuid option option"
  up_businessUnitId :: "uuid option option"
  up_permissions :: "string list option"

definition updateRolePermissions ::
  "uuid \<Rightarrow> uuid \<Rightarrow> string list \<Rightarrow> auth_user option \<Rightarrow> role_db \<Rightarrow> (string list \<times> role_db) result" where
  "updateRolePermissions tenantId roleId permissions requester rdb =
    (let db = rl_base rdb
     in and_then (management_access_if requester) (\<lambda>_.
        case role_in roleId tenantId db of
          None \<Rightarrow> throw (NotFound ''Role not found.'')
        | Some role \<Rightarrow>
           if cr_systemKey role = Some ''POD_LEAD'' \<and> lacks_workspace requester
           then throw (Forbidden ''Tenant-wide pod leadership permissions must be managed by the tenant administrator.'')
           else and_then (branch_access_if requester (cr_branchId role) ''update role permissions'') (\<lambda>_.
             let sysKey = upper (or_empty (or_else (cr_systemKey role) (Some ''RECRUITER'')));
                 filtered = (if cr_isSystem role then permissions
                   else filter (\<lambda>p. p \<in> set (archetype_ceiling rdb sysKey)) permissions)
             in and_then (lead_role_trigger db role) (\<lambda>_.
                ok (filtered, rdb\<lparr> rl_base := db\<lparr> st_roles := update_where (\<lambda>r. cr_id r = roleId)
                  (\<lambda>r. r\<lparr> cr_permissions := JArr (map JStr filtered) \<rparr>) (st_roles db) \<rparr> \<rparr>)))))"

text \<open>A Pod Lead role stays one, and its branch follows its unit.\<close>

definition lead_role_scope :: "uuid \<Rightarrow> custom_role \<Rightarrow> role_update \<Rightarrow> auth_user option \<Rightarrow> store \<Rightarrow> role_update result" where
  "lead_role_scope tenantId existing body requester db =
    (if cr_systemKey existing = Some ''POD_LEAD''
     then if lacks_workspace requester
       then throw (Forbidden ''Pod Lead roles must be managed by the tenant administrator.'')
       else if truthy (up_systemRole body) \<and> up_systemRole body \<noteq> Some ''POD_LEAD''
       then throw (BadRequest ''The Pod Lead base archetype cannot be changed.'')
       else let target = (case up_businessUnitId body of Some n \<Rightarrow> or_else n None | None \<Rightarrow> cr_businessUnitId existing)
         in if \<not> truthy target then throw (BadRequest ''Select a branch unit for the Pod Lead role.'')
            else (case unit_by (or_empty target) tenantId db of
                None \<Rightarrow> throw (BadRequest ''The selected branch unit does not belong to this tenant.'')
              | Some b \<Rightarrow>
                 if truthy (Option.bind (up_branchId body) id) \<and> Option.bind (up_branchId body) id \<noteq> bu_branchId b
                 then throw (BadRequest ''The selected branch does not contain this branch unit.'')
                 else if up_baseRoleId body \<noteq> None \<and> Option.bind (up_baseRoleId body) id \<noteq> cr_baseRoleId existing
                 then throw (BadRequest ''The base role cannot be changed.'')
                 else ok (body\<lparr> up_branchId := Some (bu_branchId b), up_businessUnitId := Some target \<rparr>))
     else if up_systemRole body = Some ''POD_LEAD''
     then throw (BadRequest ''Create a unit-scoped Pod Lead custom role instead of converting an existing role.'')
     else ok body)"

definition role_update_checks :: "uuid \<Rightarrow> custom_role \<Rightarrow> role_update \<Rightarrow> store \<Rightarrow> unit result" where
  "role_update_checks tenantId existing body db =
    checks [
      (case up_name body of
         None \<Rightarrow> ok ()
       | Some name \<Rightarrow>
          (let nameUpper = trim (upper name);
               targetBranchId = (case up_branchId body of Some b \<Rightarrow> b | None \<Rightarrow> cr_branchId existing)
           in checks [
             refuse (nameUpper = ''SUPER_ADMIN'') (BadRequest ''Role name SUPER_ADMIN is reserved.''),
             refuse (targetBranchId = Some []) (InternalError ''22P02''),
             refuse (role_name_taken tenantId nameUpper targetBranchId (Some (cr_id existing)) db)
               (Conflict (''A custom role with name \"'' @ name @ ''\" already exists in this branch.''))])),
      (case up_systemRole body of
         None \<Rightarrow> ok ()
       | Some s \<Rightarrow> refuse (s \<notin> set BASE_ARCHETYPES) (BadRequest ''Invalid base system role selected.'')),
      refuse (up_branchId body = Some (Some [])) (InternalError ''22P02'')]"

definition role_data :: "role_db \<Rightarrow> role_update \<Rightarrow> custom_role \<Rightarrow> custom_role" where
  "role_data rdb body r =
     r\<lparr> cr_name := (case up_name body of Some s \<Rightarrow> trim s | None \<Rightarrow> cr_name r),
        cr_description := (case up_description body of Some s \<Rightarrow> Some s | None \<Rightarrow> cr_description r),
        cr_baseRoleId := (case up_baseRoleId body of Some b \<Rightarrow> or_else b None | None \<Rightarrow> cr_baseRoleId r),
        cr_systemKey := (case up_systemRole body of
            Some k \<Rightarrow> (if list_ex (\<lambda>s. sr_systemKey s = k) (rl_systemRoles rdb) then Some k else cr_systemKey r)
          | None \<Rightarrow> cr_systemKey r),
        cr_branchId := (case up_branchId body of Some b \<Rightarrow> b | None \<Rightarrow> cr_branchId r),
        cr_businessUnitId := (case up_businessUnitId body of Some n \<Rightarrow> or_else n None | None \<Rightarrow> cr_businessUnitId r) \<rparr>"

text \<open>\<^verbatim>\<open>updates.length > 1\<close>: there is more to write than the time of the change.\<close>

definition role_fields_given :: "role_update \<Rightarrow> bool" where
  "role_fields_given body = (up_name body \<noteq> None \<or> up_description body \<noteq> None \<or> up_baseRoleId body \<noteq> None
     \<or> up_systemRole body \<noteq> None \<or> up_branchId body \<noteq> None \<or> up_businessUnitId body \<noteq> None)"

text \<open>Lists of \<^verbatim>\<open>branch_roles\<close> that still name the role by its old name get its identifier.\<close>

definition rename_branch_roles :: "uuid \<Rightarrow> uuid \<Rightarrow> string \<Rightarrow> store \<Rightarrow> store" where
  "rename_branch_roles tenantId roleId oldName db =
     db\<lparr> st_users := update_where (\<lambda>u. us_tenantId u = tenantId)
       (\<lambda>u. u\<lparr> us_branchRoles := map (\<lambda>(b, rs). (b, map (\<lambda>r. if upper r = upper oldName then roleId else r) rs))
                  (us_branchRoles u) \<rparr>) (st_users db) \<rparr>"

text \<open>
  The statement that reconciles the automatic grants after a Pod Lead role was saved: every lead of
  the tenant gets the role of the unit of the first pod led, or else the system role.
\<close>

definition reconcile_lead_grants :: "uuid \<Rightarrow> store \<Rightarrow> store" where
  "reconcile_lead_grants tenantId db =
    (let led = (\<lambda>u. sort_key pd_createdAt (sort_key pd_id
           (find_many (\<lambda>p. pd_podHeadId p = Some (us_id u) \<and> pd_tenantId p = us_tenantId u) (st_pods db))));
         unitRole = (\<lambda>n. map_option cr_id (find_first (\<lambda>r. is_lead_role tenantId r \<and> \<not> cr_isSystem r
           \<and> n \<noteq> None \<and> cr_businessUnitId r = n) (st_roles db)));
         systemRole = map_option cr_id (find_first (\<lambda>r. is_lead_role tenantId r \<and> cr_isSystem r) (st_roles db));
         others = (\<lambda>u. uniq (filter (\<lambda>i. i \<notin> set (lead_role_ids db tenantId))
           (present (us_roleId u # map Some (us_assignedRoleIds u)))))
     in db\<lparr> st_users := update_where (\<lambda>u. us_tenantId u = tenantId \<and> led u \<noteq> [])
          (\<lambda>u. let grant = or_else (unitRole (pd_businessUnitId (hd (led u)))) systemRole
               in u\<lparr> us_roleId := or_else grant (case others u of [] \<Rightarrow> None | i # _ \<Rightarrow> Some i),
                     us_assignedRoleIds := others u @ present [grant] \<rparr>) (st_users db) \<rparr>)"

definition write_role :: "uuid \<Rightarrow> custom_role \<Rightarrow> role_update \<Rightarrow> role_db \<Rightarrow> store result" where
  "write_role tenantId existing body rdb =
    (let db = rl_base rdb; row = role_data rdb body existing
     in if \<not> role_fields_given body then ok db
        else and_then (unique_conflict ''A custom Pod Lead role already exists for this branch unit.'' (role_row_check db row)) (\<lambda>_.
          let db' = db\<lparr> st_roles := update_where (\<lambda>r. cr_id r = cr_id existing \<and> cr_tenantId r = tenantId)
                (role_data rdb body) (st_roles db) \<rparr>
          in ok (if up_name body \<noteq> None \<and> cr_name row \<noteq> cr_name existing
                 then rename_branch_roles tenantId (cr_id existing) (cr_name existing) db' else db')))"

definition updateCustomRole ::
  "uuid \<Rightarrow> uuid \<Rightarrow> role_update \<Rightarrow> auth_user option \<Rightarrow> role_db \<Rightarrow> role_db result" where
  "updateCustomRole tenantId roleId body0 requester rdb =
    and_then (management_access_if requester) (\<lambda>_.
    case role_in roleId tenantId (rl_base rdb) of
      None \<Rightarrow> throw (NotFound ''Role not found.'')
    | Some existing \<Rightarrow>
       if cr_isSystem existing then throw (BadRequest ''Default system archetype templates cannot be modified directly.'')
       else and_then (lead_role_scope tenantId existing
            (body0\<lparr> up_systemRole := map_option (\<lambda>s. trim (upper s)) (up_systemRole body0) \<rparr>) requester (rl_base rdb)) (\<lambda>body.
         and_then (branch_access_if requester (cr_branchId existing) ''update roles'') (\<lambda>_.
         and_then (role_update_checks tenantId existing body (rl_base rdb)) (\<lambda>_.
         and_then (write_role tenantId existing body rdb) (\<lambda>db'.
         and_then (case up_permissions body of
             None \<Rightarrow> ok (rdb\<lparr> rl_base := db' \<rparr>)
           | Some ps \<Rightarrow> and_then (updateRolePermissions tenantId roleId ps None (rdb\<lparr> rl_base := db' \<rparr>)) (\<lambda>(_, r). ok r)) (\<lambda>rdb'.
         ok (if cr_systemKey existing = Some ''POD_LEAD''
             then rdb'\<lparr> rl_base := reconcile_lead_grants tenantId (rl_base rdb') \<rparr> else rdb')))))))"

end
