(* ===== verification/RoleAssign.thy ===== *)
theory RoleAssign
  imports RoleAdmin
begin

text \<open>
  The second half of \<^verbatim>\<open>auth-rbac.service.ts\<close>: deleting a custom role, the seat limit and the protection of
  the last administrator, the assignment of roles to people, and the endpoints of \<^verbatim>\<open>auth.controller.ts\<close>.
\<close>

section \<open>Seats and the last administrator\<close>

definition active_users :: "uuid \<Rightarrow> store \<Rightarrow> nat" where
  "active_users tenantId db = count_where (\<lambda>u. us_tenantId u = tenantId \<and> us_isActive u \<and> us_isApproved u) (st_users db)"

definition checkSeatLimit :: "uuid \<Rightarrow> store \<Rightarrow> unit result" where
  "checkSeatLimit tenantId db =
    (case tenant_by tenantId db of
       None \<Rightarrow> throw (NotFound ''Tenant not found.'')
     | Some t \<Rightarrow>
        (let userLimit = (if tn_userLimit t = 0 then 5 else tn_userLimit t);
             activeCount = int (active_users tenantId db)
         in if userLimit \<le> activeCount
            then throw (BadRequest (''Seat limit reached. This workspace is limited to '' @ signed_decimal userLimit
              @ '' active users. Please contact the platform administrator to purchase more seats.''))
            else ok ()))"

definition admin_role :: "custom_role \<Rightarrow> bool" where
  "admin_role r = (cr_systemKey r = Some ''TENANT_ADMIN'' \<or> cr_name r = ''TENANT_ADMIN'')"

definition has_admin_role :: "store \<Rightarrow> user \<Rightarrow> bool" where
  "has_admin_role db u = (case user_role db u of Some r \<Rightarrow> admin_role r | None \<Rightarrow> False)"

definition active_admins :: "uuid \<Rightarrow> store \<Rightarrow> nat" where
  "active_admins tenantId db = count_where (\<lambda>u. us_tenantId u = tenantId \<and> us_isActive u \<and> us_isApproved u
     \<and> has_admin_role db u) (st_users db)"

datatype admin_action = Demote | Deactivate | DeleteUser

definition action_name :: "admin_action \<Rightarrow> string" where
  "action_name a = (case a of Demote \<Rightarrow> ''demote'' | Deactivate \<Rightarrow> ''deactivate'' | DeleteUser \<Rightarrow> ''delete'')"

definition verifyLastAdminProtection :: "uuid \<Rightarrow> uuid \<Rightarrow> admin_action \<Rightarrow> store \<Rightarrow> unit result" where
  "verifyLastAdminProtection tenantId targetUserId action db =
    (case user_by targetUserId tenantId db of
       None \<Rightarrow> ok ()
     | Some u \<Rightarrow>
        if has_admin_role db u \<and> us_isActive u \<and> us_isApproved u \<and> active_admins tenantId db \<le> 1
        then throw (BadRequest (''Action blocked: You cannot '' @ action_name action
          @ '' the last active Administrator in this workspace. Please assign another active user as an Administrator first.''))
        else ok ())"

section \<open>Deleting a custom role\<close>

definition role_staff :: "uuid \<Rightarrow> uuid \<Rightarrow> store \<Rightarrow> nat" where
  "role_staff tenantId roleId db = count_where (\<lambda>u. us_tenantId u = tenantId
     \<and> (us_roleId u = Some roleId \<or> roleId \<in> set (us_assignedRoleIds u))) (st_users db)"

definition replace_role :: "uuid \<Rightarrow> uuid \<Rightarrow> uuid \<Rightarrow> user list \<Rightarrow> user list" where
  "replace_role tenantId roleId target us =
    update_where (\<lambda>u. us_tenantId u = tenantId \<and> roleId \<in> set (us_assignedRoleIds u))
      (\<lambda>u. u\<lparr> us_assignedRoleIds := map (\<lambda>i. if i = roleId then target else i) (us_assignedRoleIds u) \<rparr>)
     (update_where (\<lambda>u. us_tenantId u = tenantId \<and> us_roleId u = Some roleId)
        (\<lambda>u. u\<lparr> us_roleId := Some target \<rparr>) us)"

definition drop_role :: "uuid \<Rightarrow> uuid \<Rightarrow> user list \<Rightarrow> user list" where
  "drop_role tenantId roleId us =
    update_where (\<lambda>u. us_tenantId u = tenantId \<and> roleId \<in> set (us_assignedRoleIds u))
      (\<lambda>u. u\<lparr> us_assignedRoleIds := filter (\<lambda>i. i \<noteq> roleId) (us_assignedRoleIds u) \<rparr>)
     (update_where (\<lambda>u. us_tenantId u = tenantId \<and> us_roleId u = Some roleId)
        (\<lambda>u. u\<lparr> us_roleId := None \<rparr>) us)"

definition replacement_role :: "uuid \<Rightarrow> custom_role \<Rightarrow> uuid option \<Rightarrow> store \<Rightarrow> custom_role option result" where
  "replacement_role tenantId roleToDel targetRoleId db =
    (if truthy targetRoleId
     then (case role_in (or_empty targetRoleId) tenantId db of
         None \<Rightarrow> throw (NotFound ''Target replacement role not found.'')
       | Some r \<Rightarrow> ok (Some r))
     else let base = or_empty (or_else (cr_systemKey roleToDel) (Some ''RECRUITER''))
       in ok (find_first (\<lambda>r. cr_tenantId r = tenantId \<and> (cr_name r = base \<or> cr_systemKey r = Some base) \<and> cr_isSystem r)
            (st_roles db)))"

text \<open>
  The result is the number of people moved and the name of the replacement.  The table \<^verbatim>\<open>user_roles\<close> of
  the last statement but one does not exist in the schema; its failure is swallowed.
\<close>

definition deleteCustomRole ::
  "uuid \<Rightarrow> uuid \<Rightarrow> uuid option \<Rightarrow> auth_user option \<Rightarrow> role_db \<Rightarrow> (nat \<times> string option \<times> role_db) result" where
  "deleteCustomRole tenantId roleId targetRoleId requester rdb =
    (let db = rl_base rdb
     in and_then (management_access_if requester) (\<lambda>_.
        case role_in roleId tenantId db of
          None \<Rightarrow> throw (NotFound ''Role not found.'')
        | Some roleToDel \<Rightarrow>
           if cr_isSystem roleToDel then throw (BadRequest ''You cannot delete default system roles.'')
           else and_then (branch_access_if requester (cr_branchId roleToDel) ''delete roles'') (\<lambda>_.
           if cr_systemKey roleToDel = Some ''POD_LEAD''
           then throw (BadRequest ''The automatic Pod Lead role cannot be deleted. Rename it or update its permissions instead.'')
           else and_then (if truthy targetRoleId then rejectManualPodLeadRoles tenantId [or_empty targetRoleId] db else ok ()) (\<lambda>_.
           if 0 < role_staff tenantId roleId db \<and> \<not> truthy targetRoleId
           then throw (BadRequest (''Cannot delete custom role \"'' @ cr_name roleToDel @ ''\" because ''
             @ decimal (role_staff tenantId roleId db)
             @ '' staff member(s) are currently assigned to it. Please select a replacement target role.''))
           else and_then (replacement_role tenantId roleToDel targetRoleId db) (\<lambda>target.
             let moved = (case target of Some _ \<Rightarrow> count_where (\<lambda>u. us_tenantId u = tenantId \<and> us_roleId u = Some roleId) (st_users db)
                    | None \<Rightarrow> 0);
                 us = (case target of Some r \<Rightarrow> replace_role tenantId roleId (cr_id r) (st_users db)
                    | None \<Rightarrow> drop_role tenantId roleId (st_users db));
                 ivs = update_where (\<lambda>v. iv_roleId v = Some roleId) (\<lambda>v. v\<lparr> iv_roleId := None \<rparr>) (rl_invitations rdb)
             in ok (moved, map_option cr_name target,
                  rdb\<lparr> rl_base := delete_roles (\<lambda>r. cr_id r = roleId \<and> cr_tenantId r = tenantId) (db\<lparr> st_users := us \<rparr>),
                       rl_invitations := ivs \<rparr>))))))"

section \<open>Assigning roles\<close>

definition as_requested :: "custom_role \<Rightarrow> requested_role" where
  "as_requested r = \<lparr> rr_id = cr_id r, rr_name = Some (cr_name r), rr_system_role = cr_systemKey r,
     rr_permissions = cr_permissions r, rr_branch_id = cr_branchId r, rr_business_unit_id = cr_businessUnitId r \<rparr>"

text \<open>\<^verbatim>\<open>requester || {}\<close>.\<close>

definition nobody :: auth_user where
  "nobody = \<lparr> a_id = None, a_dbId = None, a_keycloakId = [], a_email = [], a_fullName = [], a_roles = None,
     a_tenantId = None, a_isActive = False, a_permissions = [], a_activeRoleId = None, a_roleName = None,
     a_podId = None, a_branchId = None, a_assignedBranchIds = [], a_systemRole = None, a_businessUnitId = None,
     a_defaultMarket = None \<rparr>"

definition or_nobody :: "auth_user option \<Rightarrow> auth_user" where
  "or_nobody requester = (case requester of Some u \<Rightarrow> u | None \<Rightarrow> nobody)"

text \<open>\<^verbatim>\<open>UPDATE users SET role_id = ..., assigned_role_ids = ...\<close>: the first is a reference to an existing
  role of any tenant; \<open>us_roleId\<close> and \<open>us_assignedRoleIds\<close> of one account change.\<close>

definition write_grants :: "uuid \<Rightarrow> uuid \<Rightarrow> uuid option \<Rightarrow> (user \<Rightarrow> user) \<Rightarrow> store \<Rightarrow> store result" where
  "write_grants tenantId userId roleId f db =
    (if \<not> if_given roleId (\<lambda>i. role_by_id i db \<noteq> None) then throw (InternalError ''23503'')
     else ok (db\<lparr> st_users := update_where (\<lambda>u. us_id u = userId \<and> us_tenantId u = tenantId)
        (\<lambda>u. f (u\<lparr> us_roleId := roleId \<rparr>)) (st_users db) \<rparr>))"

fun add_branch_role :: "custom_role \<Rightarrow> (uuid \<times> string list) list \<Rightarrow> (uuid \<times> string list) list" where
  "add_branch_role r brs =
    (if \<not> truthy (cr_branchId r) then brs
     else let b = or_empty (cr_branchId r)
       in case map_of brs b of
            None \<Rightarrow> brs @ [(b, [cr_id r])]
          | Some rs \<Rightarrow> if cr_id r \<in> set rs then brs
              else map (\<lambda>(c, xs). if c = b then (c, rs @ [cr_id r]) else (c, xs)) brs)"

declare add_branch_role.simps [simp del]

definition append_grants :: "custom_role list \<Rightarrow> uuid list \<Rightarrow> uuid list" where
  "append_grants rs ids = fold (\<lambda>r is. if cr_id r \<in> set is then is else is @ [cr_id r]) rs ids"

text \<open>The checks on the roles to assign to one account.\<close>

definition each_ok :: "('r \<Rightarrow> unit result) \<Rightarrow> 'r list \<Rightarrow> unit result" where
  "each_ok check rs = checks (map check rs)"

definition assignment_checks ::
  "(string \<Rightarrow> json option) \<Rightarrow> auth_user option \<Rightarrow> custom_role list \<Rightarrow> user \<Rightarrow> unit result" where
  "assignment_checks JSON_parse requester newRoles target =
    checks [
      each_ok (\<lambda>r. assertRoleAssignmentAllowed JSON_parse (or_nobody requester) (as_requested r)
         (Some (us_branchId target, us_businessUnitId target))) newRoles,
      branch_access_if requester (us_branchId target) ''assign roles to users'',
      (case requester of
         None \<Rightarrow> ok ()
       | Some user \<Rightarrow>
          if isTenantAdmin user then ok ()
          else each_ok (\<lambda>r. refuse (truthy (cr_branchId r) \<and> or_empty (cr_branchId r) \<notin> set (getUserAssignedBranchIds user))
             (Forbidden (''You cannot assign role \"'' @ cr_name r @ ''\" as it belongs to a branch outside your access.''))) newRoles)]"

definition assigned_user :: "store \<Rightarrow> uuid \<Rightarrow> bool \<Rightarrow> custom_role list \<Rightarrow> user \<Rightarrow> user" where
  "assigned_user db tenantId keep newRoles u =
    (let ids = (if keep then append_grants newRoles (us_assignedRoleIds u) else map cr_id newRoles)
     in u\<lparr> us_assignedRoleIds := uniq (ids @ existingPodLeadRoleIds tenantId (us_id u) db),
           us_branchRoles := fold add_branch_role newRoles (if keep then us_branchRoles u else []) \<rparr>)"

definition roles_named :: "uuid \<Rightarrow> uuid list \<Rightarrow> store \<Rightarrow> custom_role list" where
  "roles_named tenantId roleIds db = find_many (\<lambda>r. cr_id r \<in> set roleIds \<and> cr_tenantId r = tenantId) (st_roles db)"

text \<open>The roles of the request are written in the order of the table; the first identifier asked for,
  found or not, becomes the primary role.\<close>

definition assignUserRoles ::
  "(string \<Rightarrow> json option) \<Rightarrow> uuid \<Rightarrow> uuid \<Rightarrow> uuid list \<Rightarrow> string list option \<Rightarrow> bool \<Rightarrow> auth_user option \<Rightarrow> store
    \<Rightarrow> (string list \<times> store) result" where
  "assignUserRoles JSON_parse tenantId userId roleIds requesterRoles keep requester db =
    and_then (rejectManualPodLeadRoles tenantId roleIds db) (\<lambda>_.
    if roleIds = [] then throw (BadRequest ''Please specify at least one role.'')
    else let newRoles = roles_named tenantId roleIds db
      in if newRoles = [] then throw (NotFound ''Selected roles were not found.'')
         else if ''SUPER_ADMIN'' \<in> set (map (\<lambda>r. upper (cr_name r)) newRoles)
            \<and> \<not> (case requesterRoles of Some rs \<Rightarrow> ''SUPER_ADMIN'' \<in> set rs | None \<Rightarrow> False)
         then throw (Forbidden ''You are not authorized to assign the SUPER_ADMIN role.'')
         else case user_by userId tenantId db of
           None \<Rightarrow> throw (NotFound ''User not found.'')
         | Some target \<Rightarrow>
            and_then (assignment_checks JSON_parse requester newRoles target) (\<lambda>_.
            let isNewAdmin = list_ex (\<lambda>r. cr_systemKey r = Some ''TENANT_ADMIN'' \<or> upper (cr_name r) = ''TENANT_ADMIN'') newRoles
            in and_then (if isNewAdmin then ok () else verifyLastAdminProtection tenantId userId Demote db) (\<lambda>_.
               and_then (write_grants tenantId userId (or_else (Some (hd roleIds)) (us_roleId target))
                 (assigned_user db tenantId keep newRoles) db) (\<lambda>db'.
               ok (map cr_name newRoles, db')))))"

text \<open>
  The batch writes account by account: when one of them is refused, the earlier ones keep the role.
  The result is the outcome with the store as it is then.
\<close>

definition batch_grant :: "custom_role \<Rightarrow> user \<Rightarrow> user" where
  "batch_grant role u =
     u\<lparr> us_roleId := (case us_roleId u of None \<Rightarrow> Some (cr_id role) | Some r \<Rightarrow> Some r),
        us_assignedRoleIds := (if cr_id role \<in> set (us_assignedRoleIds u) then us_assignedRoleIds u
          else us_assignedRoleIds u @ [cr_id role]) \<rparr>"

primrec batch_assign ::
  "(string \<Rightarrow> json option) \<Rightarrow> uuid \<Rightarrow> custom_role \<Rightarrow> auth_user option \<Rightarrow> uuid list \<Rightarrow> nat \<Rightarrow> store \<Rightarrow> nat result \<times> store" where
  "batch_assign JSON_parse tenantId role requester [] n db = (ok n, db)"
| "batch_assign JSON_parse tenantId role requester (i # is) n db =
    (case user_by i tenantId db of
       None \<Rightarrow> batch_assign JSON_parse tenantId role requester is n db
     | Some u \<Rightarrow>
        (case assertRoleAssignmentAllowed JSON_parse (or_nobody requester) (as_requested role)
                (Some (us_branchId u, us_businessUnitId u)) of
           Inl e \<Rightarrow> (throw e, db)
         | Inr _ \<Rightarrow>
            if (case requester of None \<Rightarrow> False
                | Some user \<Rightarrow> truthy (us_branchId u) \<and> \<not> isTenantAdmin user
                    \<and> \<not> succeeds (validateBranchAccess user (us_branchId u) ''batch assign''))
            then batch_assign JSON_parse tenantId role requester is n db
            else batch_assign JSON_parse tenantId role requester is (Suc n)
              (db\<lparr> st_users := update_where (\<lambda>u. us_id u = i \<and> us_tenantId u = tenantId) (batch_grant role) (st_users db) \<rparr>)))"

definition batchAssignUsersToRole ::
  "(string \<Rightarrow> json option) \<Rightarrow> uuid \<Rightarrow> uuid \<Rightarrow> uuid list \<Rightarrow> auth_user option \<Rightarrow> store \<Rightarrow> nat result \<times> store" where
  "batchAssignUsersToRole JSON_parse tenantId roleId userIds requester db =
    (case rejectManualPodLeadRoles tenantId [roleId] db of
       Inl e \<Rightarrow> (throw e, db)
     | Inr _ \<Rightarrow>
        if userIds = [] then (throw (BadRequest ''Please provide at least one user ID.''), db)
        else case role_in roleId tenantId db of
          None \<Rightarrow> (throw (NotFound ''Target custom role not found.''), db)
        | Some role \<Rightarrow>
           (case branch_access_if requester (cr_branchId role) ''batch assign users to role'' of
              Inl e \<Rightarrow> (throw e, db)
            | Inr _ \<Rightarrow> batch_assign JSON_parse tenantId role requester userIds 0 db))"

definition unassignUserFromRole ::
  "(string \<Rightarrow> json option) \<Rightarrow> uuid \<Rightarrow> uuid \<Rightarrow> uuid \<Rightarrow> auth_user option \<Rightarrow> store \<Rightarrow> (uuid list \<times> store) result" where
  "unassignUserFromRole JSON_parse tenantId roleId userId requester db =
    and_then (rejectManualPodLeadRoles tenantId [roleId] db) (\<lambda>_.
    case role_in roleId tenantId db of
      None \<Rightarrow> throw (NotFound ''Role not found.'')
    | Some role \<Rightarrow>
       (case user_by userId tenantId db of
          None \<Rightarrow> throw (NotFound ''User not found.'')
        | Some u \<Rightarrow>
           and_then (assertRoleAssignmentAllowed JSON_parse (or_nobody requester) (as_requested role)
              (Some (us_branchId u, us_businessUnitId u))) (\<lambda>_.
           and_then (branch_access_if requester (us_branchId u) ''unassign roles from users'') (\<lambda>_.
             let remaining = filter (\<lambda>i. i \<noteq> roleId) (us_assignedRoleIds u);
                 next = (if us_roleId u = Some (cr_id role) then or_else (case remaining of [] \<Rightarrow> None | i # _ \<Rightarrow> Some i) None
                   else us_roleId u);
                 fallback = map_option cr_id (find_first (\<lambda>r. cr_tenantId r = tenantId \<and> cr_systemKey r = Some ''RECRUITER'') (st_roles db));
                 (nextRoleId, left) = (if truthy next then (next, remaining)
                   else (fallback, (case fallback of Some i \<Rightarrow> if i \<in> set remaining then remaining else remaining @ [i]
                      | None \<Rightarrow> remaining)))
             in and_then (write_grants tenantId userId nextRoleId (\<lambda>u. u\<lparr> us_assignedRoleIds := left \<rparr>) db) (\<lambda>db'.
                ok (left, db'))))))"

section \<open>Endpoints\<close>

text \<open>\<^verbatim>\<open>@RequirePermissions('user:manage')\<close>; the tenant is the caller's.\<close>

definition with_user_manage :: "auth_user \<Rightarrow> (uuid \<Rightarrow> 'a result) \<Rightarrow> 'a result" where
  "with_user_manage user act =
    and_then (permissions_canActivate (Some [''user:manage'']) (Some user)) (\<lambda>_. act (or_empty (a_tenantId user)))"

definition rbac_create_role ::
  "uuid \<Rightarrow> int \<Rightarrow> role_dto \<Rightarrow> auth_user \<Rightarrow> string option \<Rightarrow> string option \<Rightarrow> role_db
    \<Rightarrow> (custom_role \<times> string option \<times> role_db) result" where
  "rbac_create_role newId now dto user headerBranchId queryBranchId rdb =
    with_user_manage user (\<lambda>t. createCustomRole newId now t
      (dto\<lparr> rq_branchId := or_else (rq_branchId dto) (or_else queryBranchId headerBranchId) \<rparr>) (a_dbId user) (Some user) rdb)"

definition rbac_update_role :: "uuid \<Rightarrow> role_update \<Rightarrow> auth_user \<Rightarrow> role_db \<Rightarrow> role_db result" where
  "rbac_update_role roleId body user rdb =
    with_user_manage user (\<lambda>t. updateCustomRole t roleId body (Some user) rdb)"

definition rbac_update_permissions :: "uuid \<Rightarrow> string list \<Rightarrow> auth_user \<Rightarrow> role_db \<Rightarrow> (string list \<times> role_db) result" where
  "rbac_update_permissions roleId permissions user rdb =
    with_user_manage user (\<lambda>t. updateRolePermissions t roleId permissions (Some user) rdb)"

definition rbac_delete_role ::
  "uuid \<Rightarrow> uuid option \<Rightarrow> uuid option \<Rightarrow> auth_user \<Rightarrow> role_db \<Rightarrow> (nat \<times> string option \<times> role_db) result" where
  "rbac_delete_role roleId targetRoleId targetRoleIdBody user rdb =
    with_user_manage user (\<lambda>t. deleteCustomRole t roleId (or_else targetRoleId targetRoleIdBody) (Some user) rdb)"

definition rbac_assign_roles ::
  "(string \<Rightarrow> json option) \<Rightarrow> uuid \<Rightarrow> uuid list \<Rightarrow> bool option \<Rightarrow> auth_user \<Rightarrow> store \<Rightarrow> (string list \<times> store) result" where
  "rbac_assign_roles JSON_parse targetUserId roleIds keep user db =
    with_user_manage user (\<lambda>t. assignUserRoles JSON_parse t targetUserId roleIds (a_roles user)
      (case keep of Some k \<Rightarrow> k | None \<Rightarrow> False) (Some user) db)"

definition rbac_batch_assign ::
  "(string \<Rightarrow> json option) \<Rightarrow> uuid \<Rightarrow> uuid list \<Rightarrow> auth_user \<Rightarrow> store \<Rightarrow> nat result \<times> store" where
  "rbac_batch_assign JSON_parse roleId userIds user db =
    (case permissions_canActivate (Some [''user:manage'']) (Some user) of
       Inl e \<Rightarrow> (throw e, db)
     | Inr _ \<Rightarrow> batchAssignUsersToRole JSON_parse (or_empty (a_tenantId user)) roleId userIds (Some user) db)"

definition rbac_unassign ::
  "(string \<Rightarrow> json option) \<Rightarrow> uuid \<Rightarrow> uuid \<Rightarrow> auth_user \<Rightarrow> store \<Rightarrow> (uuid list \<times> store) result" where
  "rbac_unassign JSON_parse roleId userId user db =
    with_user_manage user (\<lambda>t. unassignUserFromRole JSON_parse t roleId userId (Some user) db)"

definition rbac_permissions :: "auth_user \<Rightarrow> (permission_entry list) result" where
  "rbac_permissions user = and_then (assertRoleManagementAccess user) (\<lambda>_. ok tenantPermissionCatalog)"

end
