(* ===== verification/RoleSeeding.thy ===== *)
theory RoleSeeding
  imports RoleAssign BusinessUnits
begin

text \<open>
  Seeding the system roles of a tenant from the archetypes, and the listings of roles
  (\<^verbatim>\<open>seedTenantRoles\<close>, \<^verbatim>\<open>listRoles\<close> and \<^verbatim>\<open>getAssignableRolePool\<close> of \<^verbatim>\<open>auth-rbac.service.ts\<close>).
\<close>

section \<open>Seeding\<close>

definition seeded_permissions :: "system_role \<Rightarrow> string list" where
  "seeded_permissions s =
     uniq (sr_permissions s @ [''user:presence:view''] @ submissionAutoApprovalDefaults (sr_systemKey s))"

definition seed_description :: "system_role \<Rightarrow> string" where
  "seed_description s = ''Default system role for '' @ lower (sr_name s) @ ''.''"

definition system_role_named :: "uuid \<Rightarrow> string \<Rightarrow> store \<Rightarrow> custom_role option" where
  "system_role_named tenantId name db =
     find_first (\<lambda>r. cr_tenantId r = tenantId \<and> upper (cr_name r) = upper name \<and> cr_isSystem r) (st_roles db)"

definition seeded_row :: "uuid \<Rightarrow> int \<Rightarrow> uuid \<Rightarrow> system_role \<Rightarrow> custom_role" where
  "seeded_row newId now tenantId s = \<lparr> cr_id = newId, cr_tenantId = tenantId, cr_branchId = None,
     cr_businessUnitId = None, cr_name = sr_name s, cr_isSystem = True, cr_systemKey = Some (sr_systemKey s),
     cr_permissions = JArr (map JStr (seeded_permissions s)), cr_createdAt = now,
     cr_description = Some (seed_description s), cr_baseRoleId = None, cr_createdBy = None \<rparr>"

text \<open>One archetype: the row under its key, or else under its name, is refreshed; without one a row is
  inserted.  \<open>newId\<close> gives the identifier the database generates for the row of a key.\<close>

definition seed_role :: "uuid \<Rightarrow> (string \<Rightarrow> uuid) \<Rightarrow> int \<Rightarrow> uuid \<Rightarrow> system_role \<Rightarrow> store \<Rightarrow> ((string \<times> uuid) list \<times> store) result" where
  "seed_role defaultTenant newId now tenantId s db =
    (if sr_systemKey s = ''SUPER_ADMIN'' \<and> tenantId \<noteq> defaultTenant then ok ([], db)
     else let found = (case system_role_named tenantId (sr_systemKey s) db of
            Some r \<Rightarrow> Some r | None \<Rightarrow> system_role_named tenantId (sr_name s) db)
       in case found of
            None \<Rightarrow> and_then (insert_role (seeded_row (newId (sr_systemKey s)) now tenantId s) db) (\<lambda>db'.
              ok ([(sr_systemKey s, newId (sr_systemKey s))], db'))
          | Some r \<Rightarrow> ok ([(sr_systemKey s, cr_id r)], db\<lparr> st_roles := update_where (\<lambda>q. cr_id q = cr_id r)
              (\<lambda>q. q\<lparr> cr_systemKey := Some (sr_systemKey s), cr_description := Some (seed_description s) \<rparr>) (st_roles db) \<rparr>))"

primrec seed_roles ::
  "uuid \<Rightarrow> (string \<Rightarrow> uuid) \<Rightarrow> int \<Rightarrow> uuid \<Rightarrow> system_role list \<Rightarrow> store \<Rightarrow> ((string \<times> uuid) list \<times> store) result" where
  "seed_roles defaultTenant newId now tenantId [] db = ok ([], db)"
| "seed_roles defaultTenant newId now tenantId (s # ss) db =
     and_then (seed_role defaultTenant newId now tenantId s db) (\<lambda>(m, db1).
     and_then (seed_roles defaultTenant newId now tenantId ss db1) (\<lambda>(ms, db2). ok (m @ ms, db2)))"

definition seedTenantRoles ::
  "uuid \<Rightarrow> (string \<Rightarrow> uuid) \<Rightarrow> int \<Rightarrow> uuid \<Rightarrow> role_db \<Rightarrow> ((string \<times> uuid) list \<times> role_db) result" where
  "seedTenantRoles defaultTenant newId now tenantId rdb =
     and_then (seed_roles defaultTenant newId now tenantId (rl_systemRoles rdb) (rl_base rdb)) (\<lambda>(m, db).
       ok (m, rdb\<lparr> rl_base := db \<rparr>))"

section \<open>Listing roles\<close>

record role_view =
  rv_id :: uuid
  rv_name :: string
  rv_isSystem :: bool
  rv_branchId :: "uuid option"
  rv_branchName :: "string option"
  rv_businessUnitId :: "uuid option"
  rv_businessUnitName :: "string option"
  rv_description :: "string option"
  rv_systemRole :: "string option"
  rv_baseRoleId :: "uuid option"
  rv_baseRoleName :: "string option"
  rv_createdById :: "uuid option"
  rv_createdByName :: "string option"
  rv_createdByEmail :: "string option"
  rv_permissions :: json
  rv_allowedPermissions :: "string list"
  rv_isExactSubstitution :: bool
  rv_replacesSystemRole :: "string option"

text \<open>\<^verbatim>\<open>toUpperCase().replace(/[\s-_]/g, '')\<close>.\<close>

definition squeezed :: "string \<Rightarrow> string" where
  "squeezed s = filter (\<lambda>c. \<not> is_space c \<and> c \<noteq> CHR ''-'' \<and> c \<noteq> CHR ''_'') (upper s)"

text \<open>The branch filter of the listing: one branch or several.\<close>

datatype branch_choice = OneBranch string | ManyBranches "uuid list"

definition shared_role :: "custom_role \<Rightarrow> bool" where
  "shared_role r = (cr_branchId r = None \<and> (cr_isSystem r \<or> cr_systemKey r = Some ''POD_LEAD''))"

definition in_branch_choice :: "branch_choice option \<Rightarrow> custom_role \<Rightarrow> bool" where
  "in_branch_choice choice r =
    (case choice of
       None \<Rightarrow> True
     | Some (OneBranch b) \<Rightarrow> b \<in> {[], ''all'', ''undefined'', ''null''} \<or> cr_branchId r = Some b \<or> shared_role r
     | Some (ManyBranches bs) \<Rightarrow> cr_branchId r \<in> set (map Some bs) \<or> shared_role r)"

definition choice_given :: "branch_choice option \<Rightarrow> bool" where
  "choice_given choice = (case choice of None \<Rightarrow> False | Some (OneBranch b) \<Rightarrow> b \<noteq> [] | Some (ManyBranches _) \<Rightarrow> True)"

definition listed_rows :: "uuid \<Rightarrow> uuid \<Rightarrow> branch_choice option \<Rightarrow> bool \<Rightarrow> store \<Rightarrow> custom_role list" where
  "listed_rows defaultTenant tenantId choice includeSystem db =
    sort_key cr_isSystem (sort_key cr_name (find_many (\<lambda>r. cr_tenantId r = tenantId
      \<and> (if \<not> includeSystem then \<not> cr_isSystem r else tenantId \<noteq> defaultTenant \<longrightarrow> cr_name r \<noteq> ''SUPER_ADMIN'')
      \<and> in_branch_choice choice r) (st_roles db)))"

definition base_name :: "store \<Rightarrow> custom_role \<Rightarrow> string option" where
  "base_name db r = Option.bind (cr_baseRoleId r) (\<lambda>b. map_option cr_name (role_by_id b db))"

definition covered_archetypes :: "store \<Rightarrow> custom_role list \<Rightarrow> string list" where
  "covered_archetypes db rows = concat (map (\<lambda>r. if cr_isSystem r then []
     else map squeezed (present [cr_systemKey r, base_name db r, Some (cr_name r)])) rows)"

definition role_to_view :: "(string \<Rightarrow> json option) \<Rightarrow> role_db \<Rightarrow> custom_role \<Rightarrow> role_view result" where
  "role_to_view JSON_parse rdb r =
    and_then (parsed_permissions JSON_parse (cr_permissions r)) (\<lambda>perms.
    let db = rl_base rdb; key = upper (or_empty (or_else (cr_systemKey r) (Some (cr_name r))));
        creator = find_first (\<lambda>u. cr_createdBy r = Some (us_id u)) (st_users db)
    in ok \<lparr> rv_id = cr_id r,
         rv_name = (if cr_isSystem r \<and> cr_name r = ''TENANT_ADMIN'' then ''Tenant Admin'' else cr_name r),
         rv_isSystem = cr_isSystem r, rv_branchId = cr_branchId r,
         rv_branchName = map_option br_name (branch_of db (cr_branchId r)),
         rv_businessUnitId = cr_businessUnitId r,
         rv_businessUnitName = map_option bu_name (unit_of db (cr_businessUnitId r)),
         rv_description = cr_description r, rv_systemRole = cr_systemKey r, rv_baseRoleId = cr_baseRoleId r,
         rv_baseRoleName = base_name db r, rv_createdById = cr_createdBy r,
         rv_createdByName = map_option us_fullName creator, rv_createdByEmail = map_option us_email creator,
         rv_permissions = (case cr_permissions r of JStr _ \<Rightarrow> perms | v \<Rightarrow> if js_truthy v then v else JArr []),
         rv_allowedPermissions = assignmentPermissionCeiling key (case default_perms rdb key of Some ps \<Rightarrow> ps | None \<Rightarrow> []),
         rv_isExactSubstitution = (\<not> cr_isSystem r),
         rv_replacesSystemRole = (if \<not> cr_isSystem r \<and> truthy (cr_systemKey r) then Some key else None) \<rparr>)"

definition role_hidden :: "branch_choice option \<Rightarrow> string list \<Rightarrow> role_view \<Rightarrow> bool" where
  "role_hidden choice covered v =
    (rv_isSystem v \<and> (squeezed (or_empty (rv_systemRole v)) \<in> set covered \<or> squeezed (rv_name v) \<in> set covered
       \<or> (choice_given choice \<and> squeezed (rv_name v) \<in> {''TENANT_ADMIN'', ''TENANTADMIN'', ''SUPERADMIN''})))"

definition listRoles ::
  "(string \<Rightarrow> json option) \<Rightarrow> uuid \<Rightarrow> uuid \<Rightarrow> branch_choice option \<Rightarrow> bool \<Rightarrow> role_db \<Rightarrow> (role_view list) result" where
  "listRoles JSON_parse defaultTenant tenantId choice includeSystem rdb =
    (let rows = listed_rows defaultTenant tenantId choice includeSystem (rl_base rdb);
         covered = covered_archetypes (rl_base rdb) rows
     in and_then (each_result (role_to_view JSON_parse rdb) rows) (\<lambda>vs.
        ok (filter (\<lambda>v. \<not> role_hidden choice covered v) vs)))"

definition getAssignableRolePool ::
  "(string \<Rightarrow> json option) \<Rightarrow> uuid \<Rightarrow> uuid \<Rightarrow> string option \<Rightarrow> role_db \<Rightarrow> (role_view list) result" where
  "getAssignableRolePool JSON_parse defaultTenant tenantId branchId rdb =
    and_then (listRoles JSON_parse defaultTenant tenantId (map_option OneBranch branchId) True rdb) (\<lambda>roles.
      let substituted = map upper (present (map (\<lambda>v. if rv_isExactSubstitution v then rv_replacesSystemRole v else None) roles))
      in ok (filter (\<lambda>v. rv_systemRole v \<noteq> Some ''POD_LEAD''
           \<and> \<not> (rv_isSystem v \<and> upper (rv_name v) \<in> set substituted)) roles))"

text \<open>The endpoints: a branch administrator and a Delivery Head see the roles of the own branch.\<close>

definition rbac_list_roles ::
  "(string \<Rightarrow> json option) \<Rightarrow> uuid \<Rightarrow> auth_user \<Rightarrow> string option \<Rightarrow> string option \<Rightarrow> string option \<Rightarrow> role_db
    \<Rightarrow> (role_view list) result" where
  "rbac_list_roles JSON_parse defaultTenant user branchId includeSystem headerBranchId rdb =
    (let isBranchAdmin = (''branch_admin:manage'' \<in> set (a_permissions user) \<and> ''tenant:settings'' \<notin> set (a_permissions user));
         deliveryHead = isDeliveryHead user
     in if (isBranchAdmin \<or> deliveryHead) \<and> deliveryHead \<and> \<not> truthy (a_branchId user)
        then throw (Forbidden ''A branch assignment is required to review role requests.'')
        else let bid = (if isBranchAdmin \<or> deliveryHead then or_else (a_branchId user) None
               else if truthy branchId \<and> branchId \<noteq> Some ''ALL'' then branchId
               else if truthy headerBranchId \<and> headerBranchId \<noteq> Some ''ALL'' then headerBranchId
               else None)
          in listRoles JSON_parse defaultTenant (or_empty (a_tenantId user)) (map_option OneBranch bid)
               (includeSystem = Some ''true'') rdb)"

definition rbac_assignable_roles ::
  "(string \<Rightarrow> json option) \<Rightarrow> uuid \<Rightarrow> auth_user \<Rightarrow> string option \<Rightarrow> string option \<Rightarrow> role_db \<Rightarrow> (role_view list) result" where
  "rbac_assignable_roles JSON_parse defaultTenant user branchId headerBranchId rdb =
     getAssignableRolePool JSON_parse defaultTenant (or_empty (a_tenantId user)) (or_else branchId headerBranchId) rdb"

end
