(* ===== verification/RoleInvariant.thy ===== *)
theory RoleInvariant
  imports RoleSeeding
begin

text \<open>
  What every operation of role administration keeps: a custom role holds only permissions its archetype
  allows.  The operations are read once by inversion lemmas; each then keeps the invariant by a few steps.
\<close>

section \<open>The invariant\<close>

definition role_key :: "custom_role \<Rightarrow> string" where
  "role_key r = upper (or_empty (or_else (cr_systemKey r) (Some ''RECRUITER'')))"

definition within_ceiling :: "role_db \<Rightarrow> custom_role \<Rightarrow> bool" where
  "within_ceiling rdb r = (case cr_permissions r of
     JArr ps \<Rightarrow> set ps \<subseteq> JStr ` set (archetype_ceiling rdb (role_key r)) | _ \<Rightarrow> False)"

text \<open>A system role that carries the name of an archetype is that archetype.\<close>

definition named_by_key :: "custom_role \<Rightarrow> bool" where
  "named_by_key r = (upper (or_empty (cr_systemKey r)) = or_empty (cr_systemKey r) \<and> cr_systemKey r \<noteq> Some [] \<and>
     (cr_isSystem r \<and> upper (cr_name r) \<in> set BASE_ARCHETYPES \<longrightarrow> cr_systemKey r = Some (upper (cr_name r))))"

definition templates_named :: "role_db \<Rightarrow> bool" where
  "templates_named rdb = list_all (\<lambda>s. upper (sr_systemKey s) = sr_systemKey s \<and> sr_systemKey s \<noteq> [] \<and>
     (upper (sr_name s) \<in> set BASE_ARCHETYPES \<longrightarrow> sr_systemKey s = upper (sr_name s))) (rl_systemRoles rdb)"

definition roles_ok :: "role_db \<Rightarrow> bool" where
  "roles_ok rdb = (distinct (map cr_id (st_roles (rl_base rdb))) \<and> templates_named rdb \<and>
     list_all (\<lambda>r. named_by_key r \<and> (cr_isSystem r \<or> within_ceiling rdb r)) (st_roles (rl_base rdb)))"

lemma roles_okD:
  assumes "roles_ok rdb"
  shows "distinct (map cr_id (st_roles (rl_base rdb)))" and "templates_named rdb"
    and "r \<in> set (st_roles (rl_base rdb)) \<Longrightarrow> named_by_key r"
    and "r \<in> set (st_roles (rl_base rdb)) \<Longrightarrow> \<not> cr_isSystem r \<Longrightarrow> within_ceiling rdb r"
  using assms by (auto simp: roles_ok_def list_all_iff)

lemma archetype_ceiling_base [simp]:
  "archetype_ceiling (rdb\<lparr> rl_base := db \<rparr>) = archetype_ceiling rdb"
  by (simp add: fun_eq_iff archetype_ceiling_def default_perms_def cong: option.case_cong)

lemma within_ceiling_base [simp]: "within_ceiling (rdb\<lparr> rl_base := db \<rparr>) = within_ceiling rdb"
  by (simp add: fun_eq_iff within_ceiling_def cong: json.case_cong)

lemma templates_named_base [simp]: "templates_named (rdb\<lparr> rl_base := db \<rparr>) = templates_named rdb"
  by (simp add: templates_named_def)

lemma roles_ok_base:
  "roles_ok (rdb\<lparr> rl_base := db \<rparr>) \<longleftrightarrow> distinct (map cr_id (st_roles db)) \<and> templates_named rdb \<and>
     (\<forall>r \<in> set (st_roles db). named_by_key r \<and> (cr_isSystem r \<or> within_ceiling rdb r))"
  by (simp add: roles_ok_def list_all_iff)

lemma roles_ok_same:
  "roles_ok rdb \<Longrightarrow> st_roles db = st_roles (rl_base rdb) \<Longrightarrow> roles_ok (rdb\<lparr> rl_base := db \<rparr>)"
  unfolding roles_ok_base by (auto simp: roles_ok_def list_all_iff)

lemma within_ceiling_strings:
  "set ps \<subseteq> set (archetype_ceiling rdb (role_key r)) \<Longrightarrow> cr_permissions r = JArr (map JStr ps) \<Longrightarrow> within_ceiling rdb r"
  by (auto simp: within_ceiling_def)

lemma within_ceiling_cong:
  "cr_permissions s = cr_permissions r \<Longrightarrow> cr_systemKey s = cr_systemKey r \<Longrightarrow> within_ceiling rdb s = within_ceiling rdb r"
  by (simp add: within_ceiling_def role_key_def cong: json.case_cong)

lemma named_by_key_cong:
  "cr_systemKey s = cr_systemKey r \<Longrightarrow> cr_isSystem s = cr_isSystem r \<Longrightarrow> cr_name s = cr_name r \<Longrightarrow>
   named_by_key s = named_by_key r"
  by (simp add: named_by_key_def)

lemma role_in_Some: "role_in i t db = Some r \<Longrightarrow> r \<in> set (st_roles db) \<and> cr_id r = i \<and> cr_tenantId r = t"
  by (auto simp: role_in_def dest: find_first_Some)

lemma upper_archetype: "k \<in> set BASE_ARCHETYPES \<Longrightarrow> upper k = k \<and> k \<noteq> []"
proof -
  have "list_all (\<lambda>k. upper k = k \<and> k \<noteq> []) BASE_ARCHETYPES" by code_simp
  then show "k \<in> set BASE_ARCHETYPES \<Longrightarrow> ?thesis" by (simp add: list_all_iff)
qed

section \<open>Creating\<close>

lemma insert_role_Inr: "insert_role r db = ok db' \<longleftrightarrow> role_row_check db r = ok () \<and> db' = db\<lparr> st_roles := st_roles db @ [r] \<rparr>"
  by (auto simp: insert_role_def and_then_eq_Inr)

lemma unique_conflict_Inr [simp]: "unique_conflict m x = Inr y \<longleftrightarrow> x = Inr y"
  by (auto simp: unique_conflict_def split: sum.splits http_error.splits)

lemma store_new_role_Inr:
  assumes "store_new_role r k db = ok db'"
  shows "st_roles db' = st_roles db @ [r]" and "role_row_check db r = ok ()"
proof -
  have "\<exists>db1. insert_role r db = ok db1 \<and> st_roles db' = st_roles db1"
    using assms by (auto simp: store_new_role_def and_then_eq_Inr grant_new_lead_role_def split: if_splits)
  then show "st_roles db' = st_roles db @ [r]" and "role_row_check db r = ok ()"
    by (auto simp: insert_role_Inr)
qed

lemma createCustomRole_Inr:
  assumes "createCustomRole newId now t dto by req rdb = ok (role, bn, rdb')"
  obtains k base ref key db' branchId where "resolve_archetype t dto (rl_base rdb) = ok (k, base, ref)"
    and "k \<in> set BASE_ARCHETYPES" and "template_key rdb k ref = ok key"
    and "management_access_if req = ok ()" and "branch_access_if req branchId ''create roles'' = ok ()"
    and "cr_id role = newId" and "cr_tenantId role = t" and "cr_branchId role = branchId"
    and "\<not> cr_isSystem role" and "cr_systemKey role = Some key"
    and "cr_permissions role = JArr (map JStr (new_role_permissions rdb k (rq_permissions dto)))"
    and "store_new_role role k (rl_base rdb) = ok db'" and "rdb' = rdb\<lparr> rl_base := db' \<rparr>"
    and "k = ''POD_LEAD'' \<Longrightarrow> \<not> lacks_workspace req"
proof -
  have mgmt: "management_access_if req = ok ()"
    using assms by (auto simp: createCustomRole_def Let_def and_then_eq_Inr)
  note u = assms [unfolded createCustomRole_def Let_def and_then_unit and_then_eq_Inr if_throw_eq split_paired_Ex prod.case
    not_not sum.inject prod.inject]
  obtain k base ref key branchId unitId db' where "resolve_archetype t dto (rl_base rdb) = ok (k, base, ref)"
    and "k \<in> set BASE_ARCHETYPES" and "template_key rdb k ref = ok key"
    and "branch_access_if req branchId ''create roles'' = ok ()"
    and role: "role = \<lparr> cr_id = newId, cr_tenantId = t, cr_branchId = branchId, cr_businessUnitId = unitId,
                   cr_name = rq_name dto, cr_isSystem = False, cr_systemKey = Some key,
                   cr_permissions = JArr (map JStr (new_role_permissions rdb k (rq_permissions dto))),
                   cr_createdAt = now, cr_description = Some (rq_description dto), cr_baseRoleId = base,
                   cr_createdBy = or_else by None \<rparr>"
    and "store_new_role role k (rl_base rdb) = ok db'" and "rdb' = rdb\<lparr> rl_base := db' \<rparr>"
    and "k = ''POD_LEAD'' \<longrightarrow> \<not> lacks_workspace req"
    using u by blast
  then show thesis
    by (intro that [of k base ref key branchId db'] mgmt) (simp_all add: role)
qed

lemma resolved_key:
  assumes ok: "roles_ok rdb" and r: "resolve_archetype t dto (rl_base rdb) = ok (k, base, ref)"
    and k: "k \<in> set BASE_ARCHETYPES" and key: "template_key rdb k ref = ok key"
  shows "key = k"
proof (cases "truthy (rq_baseRoleId dto)")
  case True
  show ?thesis
  proof (cases "role_in (or_empty (rq_baseRoleId dto)) t (rl_base rdb)")
    case None
    then show ?thesis using r unfolding resolve_archetype_def if_P [OF True] by (simp only: option.case sum.distinct)
  next
    case (Some b)
    have kb: "k = or_empty (or_else (cr_systemKey b) (Some (cr_name b)))" and ref: "ref = cr_systemKey b"
      using r unfolding resolve_archetype_def if_P [OF True] Some option.case sum.inject prod.inject
      by (elim conjE; simp only:)+
    have "cr_systemKey b \<noteq> Some []"
      using roles_okD(3) [OF ok conjunct1 [OF role_in_Some [OF Some]]] by (simp add: named_by_key_def)
    then show ?thesis
      using kb ref key by (cases "cr_systemKey b") (auto simp: template_key_def split: if_splits)
  qed
next
  case False
  show ?thesis
  proof (cases ref)
    case None
    then show ?thesis using key by (auto simp: template_key_def split: if_splits)
  next
    case (Some s)
    define p :: "custom_role \<Rightarrow> bool" where "p = (\<lambda>r. cr_tenantId r = t \<and> cr_isSystem r
      \<and> (upper (cr_name r) = k \<or> map_option upper (cr_systemKey r) = Some k))"
    have "ref = Option.bind (find_first p (st_roles (rl_base rdb))) cr_systemKey"
      using r unfolding resolve_archetype_def Let_def if_not_P [OF False] sum.inject prod.inject p_def
      by (elim conjE) (simp only:)
    then obtain b where f: "find_first p (st_roles (rl_base rdb)) = Some b" and bs: "cr_systemKey b = Some s"
      using Some by (cases "find_first p (st_roles (rl_base rdb))") simp_all
    have b: "b \<in> set (st_roles (rl_base rdb))" "cr_isSystem b" "cr_systemKey b = Some s"
      and m: "upper (cr_name b) = k \<or> upper s = k"
      using find_first_Some [OF f] bs by (simp_all add: p_def)
    have "named_by_key b" using roles_okD(3) [OF ok b(1)] .
    then have "s = k" using b m k by (auto simp: named_by_key_def)
    then show ?thesis using key Some by (simp add: template_key_def)
  qed
qed

lemma new_permissions_within: "set (new_role_permissions rdb k ps) \<subseteq> set (archetype_ceiling rdb k)"
  by (auto simp: new_role_permissions_def Let_def)

lemma roles_ok_create:
  assumes c: "createCustomRole newId now t dto by req rdb = ok (role, bn, rdb')" and ok: "roles_ok rdb"
    and new: "newId \<notin> set (map cr_id (st_roles (rl_base rdb)))"
  shows "roles_ok rdb'" and "within_ceiling rdb role"
proof -
  obtain k base ref key db' where r: "resolve_archetype t dto (rl_base rdb) = ok (k, base, ref)"
    and k: "k \<in> set BASE_ARCHETYPES" "template_key rdb k ref = ok key"
    and role: "cr_id role = newId" "\<not> cr_isSystem role" "cr_systemKey role = Some key"
      "cr_permissions role = JArr (map JStr (new_role_permissions rdb k (rq_permissions dto)))"
    and st: "store_new_role role k (rl_base rdb) = ok db'" and rdb': "rdb' = rdb\<lparr> rl_base := db' \<rparr>"
    by (rule createCustomRole_Inr [OF c]) (rule that; assumption)
  have key: "key = k" by (rule resolved_key [OF ok r k])
  have up: "role_key role = k" "named_by_key role"
    using role(2,3) upper_archetype [OF k(1)] by (simp_all add: role_key_def named_by_key_def key)
  show w: "within_ceiling rdb role"
    by (rule within_ceiling_strings [OF _ role(4)]) (simp add: up(1) new_permissions_within)
  show "roles_ok rdb'"
    unfolding rdb' roles_ok_base store_new_role_Inr(1) [OF st]
    using ok new role(1) w up(2) by (auto simp: roles_ok_def list_all_iff)
qed

section \<open>Changing\<close>

lemma updateRolePermissions_Inr:
  assumes "updateRolePermissions t i ps req rdb = ok (qs, rdb')"
  obtains r where "role_in i t (rl_base rdb) = Some r"
    and "qs = (if cr_isSystem r then ps else filter (\<lambda>p. p \<in> set (archetype_ceiling rdb (role_key r))) ps)"
    and "management_access_if req = ok ()" and "branch_access_if req (cr_branchId r) ''update role permissions'' = ok ()"
    and "rdb' = rdb\<lparr> rl_base := (rl_base rdb)\<lparr> st_roles := update_where (\<lambda>r. cr_id r = i)
           (\<lambda>r. r\<lparr> cr_permissions := JArr (map JStr qs) \<rparr>) (st_roles (rl_base rdb)) \<rparr> \<rparr>"
proof (cases "role_in i t (rl_base rdb)")
  case None
  then show thesis using assms by (simp add: updateRolePermissions_def succeeding)
next
  case (Some r)
  note u = assms [unfolded updateRolePermissions_def succeeding Some option.case]
  show thesis
    using u by (elim conjE) (rule that [OF Some]; (simp only: role_key_def)?)
qed

lemma roles_ok_permissions:
  assumes p: "updateRolePermissions t i ps req rdb = ok (qs, rdb')"
    and dist: "distinct (map cr_id (st_roles (rl_base rdb)))" and temp: "templates_named rdb"
    and named: "\<And>r. r \<in> set (st_roles (rl_base rdb)) \<Longrightarrow> named_by_key r"
    and others: "\<And>r. r \<in> set (st_roles (rl_base rdb)) \<Longrightarrow> cr_id r \<noteq> i \<Longrightarrow> \<not> cr_isSystem r \<Longrightarrow> within_ceiling rdb r"
  shows "roles_ok rdb'"
proof -
  obtain r where r: "role_in i t (rl_base rdb) = Some r"
    and qs: "qs = (if cr_isSystem r then ps else filter (\<lambda>p. p \<in> set (archetype_ceiling rdb (role_key r))) ps)"
    and rdb': "rdb' = rdb\<lparr> rl_base := (rl_base rdb)\<lparr> st_roles := update_where (\<lambda>r. cr_id r = i)
           (\<lambda>r. r\<lparr> cr_permissions := JArr (map JStr qs) \<rparr>) (st_roles (rl_base rdb)) \<rparr> \<rparr>"
    by (rule updateRolePermissions_Inr [OF p]) (rule that; assumption)
  have same: "q = r" if "q \<in> set (st_roles (rl_base rdb))" "cr_id q = i" for q
    using role_in_Some [OF r] dist that by (auto simp: distinct_map dest: inj_onD)
  have row: "named_by_key s \<and> (cr_isSystem s \<or> within_ceiling rdb s)"
    if s: "s \<in> set (update_where (\<lambda>r. cr_id r = i) (\<lambda>r. r\<lparr> cr_permissions := JArr (map JStr qs) \<rparr>) (st_roles (rl_base rdb)))" for s
  proof -
    obtain q where q: "q \<in> set (st_roles (rl_base rdb))"
      and sq: "s = (if cr_id q = i then q\<lparr> cr_permissions := JArr (map JStr qs) \<rparr> else q)"
      using s by (auto simp: in_update_where)
    show ?thesis
    proof (cases "cr_id q = i")
      case True
      have "named_by_key s" using named [OF q] by (simp add: sq named_by_key_def)
      moreover have "within_ceiling rdb s" if "\<not> cr_isSystem s"
        using that same [OF q True] True by (intro within_ceiling_strings [of qs]) (auto simp: sq qs role_key_def)
      ultimately show ?thesis by blast
    next
      case False
      then show ?thesis using named [OF q] others [OF q] by (auto simp: sq)
    qed
  qed
  show ?thesis
    unfolding rdb' roles_ok_base using row dist temp by (simp add: map_update_where)
qed

lemma write_role_Inr:
  assumes "write_role t r body rdb = ok db'"
  shows "st_roles db' = st_roles (rl_base rdb) \<and> \<not> role_fields_given body \<or>
     st_roles db' = update_where (\<lambda>q. cr_id q = cr_id r \<and> cr_tenantId q = t) (role_data rdb body) (st_roles (rl_base rdb))"
  using assms by (auto simp: write_role_def Let_def and_then_eq_Inr rename_branch_roles_def split: if_splits)

lemma updateCustomRole_Inr:
  assumes "updateCustomRole t i body0 req rdb = ok rdb'"
  obtains r body db1 rdb1 where "role_in i t (rl_base rdb) = Some r" and "\<not> cr_isSystem r"
    and "lead_role_scope t r (body0\<lparr> up_systemRole := map_option (\<lambda>s. trim (upper s)) (up_systemRole body0) \<rparr>) req (rl_base rdb) = ok body"
    and "branch_access_if req (cr_branchId r) ''update roles'' = ok ()"
    and "role_update_checks t r body (rl_base rdb) = ok ()"
    and "write_role t r body rdb = ok db1"
    and "case up_permissions body of None \<Rightarrow> rdb1 = rdb\<lparr> rl_base := db1 \<rparr>
       | Some ps \<Rightarrow> \<exists>qs. updateRolePermissions t i ps None (rdb\<lparr> rl_base := db1 \<rparr>) = ok (qs, rdb1)"
    and "rdb' = (if cr_systemKey r = Some ''POD_LEAD''
             then rdb1\<lparr> rl_base := reconcile_lead_grants t (rl_base rdb1) \<rparr> else rdb1)"
    and "management_access_if req = ok ()"
proof (cases "role_in i t (rl_base rdb)")
  case None
  then show thesis using assms by (simp add: updateCustomRole_def succeeding)
next
  case (Some r)
  note u = assms [unfolded updateCustomRole_def succeeding Some option.case if_throw_eq]
  from u obtain body db1 rdb1 where
    "lead_role_scope t r (body0\<lparr> up_systemRole := map_option (\<lambda>s. trim (upper s)) (up_systemRole body0) \<rparr>) req (rl_base rdb) = ok body"
    "branch_access_if req (cr_branchId r) ''update roles'' = ok ()" "role_update_checks t r body (rl_base rdb) = ok ()"
    "write_role t r body rdb = ok db1" "\<not> cr_isSystem r" "management_access_if req = ok ()"
    and perms: "(case up_permissions body of None \<Rightarrow> ok (rdb\<lparr> rl_base := db1 \<rparr>)
           | Some ps \<Rightarrow> and_then (updateRolePermissions t i ps None (rdb\<lparr> rl_base := db1 \<rparr>)) (\<lambda>(_, r). ok r)) = ok rdb1"
    and "rdb' = (if cr_systemKey r = Some ''POD_LEAD''
             then rdb1\<lparr> rl_base := reconcile_lead_grants t (rl_base rdb1) \<rparr> else rdb1)"
    by blast
  moreover have "case up_permissions body of None \<Rightarrow> rdb1 = rdb\<lparr> rl_base := db1 \<rparr>
       | Some ps \<Rightarrow> \<exists>qs. updateRolePermissions t i ps None (rdb\<lparr> rl_base := db1 \<rparr>) = ok (qs, rdb1)"
    using perms by (auto simp: and_then_eq_Inr split: option.splits)
  ultimately show thesis
    by (intro that [OF Some])
qed

lemma lead_role_scope_keeps:
  assumes "lead_role_scope t r body req db = ok body'"
  shows "up_permissions body' = up_permissions body" and "up_systemRole body' = up_systemRole body"
  using assms by (auto simp: lead_role_scope_def Let_def split: if_splits option.splits)

lemma role_data_simps [simp]:
  "cr_id (role_data rdb body r) = cr_id r" "cr_isSystem (role_data rdb body r) = cr_isSystem r"
  "cr_tenantId (role_data rdb body r) = cr_tenantId r" "cr_permissions (role_data rdb body r) = cr_permissions r"
  "up_systemRole body = None \<Longrightarrow> cr_systemKey (role_data rdb body r) = cr_systemKey r"
  by (simp_all add: role_data_def)

lemma role_data_named:
  assumes temp: "templates_named rdb" and named: "named_by_key r" and custom: "\<not> cr_isSystem r"
  shows "named_by_key (role_data rdb body r)"
proof (cases "cr_systemKey (role_data rdb body r) = cr_systemKey r")
  case True
  then show ?thesis using named custom by (simp add: named_by_key_def)
next
  case False
  then obtain s where "s \<in> set (rl_systemRoles rdb)" "cr_systemKey (role_data rdb body r) = Some (sr_systemKey s)"
    by (auto simp: role_data_def list_ex_iff split: option.splits if_splits)
  then show ?thesis using temp custom by (simp add: named_by_key_def templates_named_def list_all_iff)
qed

lemma roles_ok_update:
  assumes u: "updateCustomRole t i body0 req rdb = ok rdb'" and ok: "roles_ok rdb"
    and typed: "up_systemRole body0 = None \<or> up_permissions body0 \<noteq> None"
  shows "roles_ok rdb'"
proof -
  obtain r body db1 rdb1 where r: "role_in i t (rl_base rdb) = Some r" "\<not> cr_isSystem r"
    and scope: "lead_role_scope t r (body0\<lparr> up_systemRole := map_option (\<lambda>s. trim (upper s)) (up_systemRole body0) \<rparr>) req (rl_base rdb) = ok body"
    and w: "write_role t r body rdb = ok db1"
    and p: "case up_permissions body of None \<Rightarrow> rdb1 = rdb\<lparr> rl_base := db1 \<rparr>
       | Some ps \<Rightarrow> \<exists>qs. updateRolePermissions t i ps None (rdb\<lparr> rl_base := db1 \<rparr>) = ok (qs, rdb1)"
    and rdb': "rdb' = (if cr_systemKey r = Some ''POD_LEAD''
             then rdb1\<lparr> rl_base := reconcile_lead_grants t (rl_base rdb1) \<rparr> else rdb1)"
    by (rule updateCustomRole_Inr [OF u]) (rule that; assumption)
  let ?old = "st_roles (rl_base rdb)"
  have same: "q = r" if "q \<in> set ?old" "cr_id q = i" for q
    using role_in_Some [OF r(1)] roles_okD(1) [OF ok] that by (auto simp: distinct_map dest: inj_onD)
  have rows: "st_roles db1 = ?old \<or>
      st_roles db1 = update_where (\<lambda>q. cr_id q = i \<and> cr_tenantId q = t) (role_data rdb body) ?old"
    using write_role_Inr [OF w] role_in_Some [OF r(1)] by auto
  have ids: "map cr_id (st_roles db1) = map cr_id ?old"
    using rows by (auto simp: map_update_where)
  have from_old: "\<exists>q \<in> set ?old. s = q \<or> q = r \<and> s = role_data rdb body q" if s: "s \<in> set (st_roles db1)" for s
    using rows
  proof
    assume "st_roles db1 = ?old"
    then show ?thesis using s by auto
  next
    assume "st_roles db1 = update_where (\<lambda>q. cr_id q = i \<and> cr_tenantId q = t) (role_data rdb body) ?old"
    then obtain q where q: "q \<in> set ?old" "s = (if cr_id q = i \<and> cr_tenantId q = t then role_data rdb body q else q)"
      using s by (auto simp: in_update_where)
    then show ?thesis using same [OF q(1)] by (intro bexI [of _ q]) auto
  qed
  have named: "named_by_key s" if s: "s \<in> set (st_roles db1)" for s
    using from_old [OF s] roles_okD(3) [OF ok] role_data_named [OF roles_okD(2) [OF ok]] r(2) by metis
  have others: "within_ceiling rdb s" if s: "s \<in> set (st_roles db1)" "cr_id s \<noteq> i" "\<not> cr_isSystem s" for s
    using from_old [OF s(1)] s(2,3) roles_okD(4) [OF ok] role_in_Some [OF r(1)] by auto
  have "roles_ok rdb1"
  proof (cases "up_permissions body")
    case None
    then have "up_systemRole body = None"
      using lead_role_scope_keeps [OF scope] typed by auto
    then have "within_ceiling rdb (role_data rdb body q) = within_ceiling rdb q" for q
      by (intro within_ceiling_cong) simp_all
    then have "within_ceiling rdb s" if "s \<in> set (st_roles db1)" "\<not> cr_isSystem s" for s
      using from_old [OF that(1)] roles_okD(4) [OF ok] that(2) by auto
    then show ?thesis
      using p None named ids roles_okD(1,2) [OF ok] by (auto simp: roles_ok_base)
  next
    case (Some ps)
    then obtain qs where "updateRolePermissions t i ps None (rdb\<lparr> rl_base := db1 \<rparr>) = ok (qs, rdb1)"
      using p by auto
    then show ?thesis
      by (rule roles_ok_permissions) (use named others ids roles_okD(1,2) [OF ok] in auto)
  qed
  then show ?thesis
    by (simp add: rdb' roles_ok_same reconcile_lead_grants_def Let_def)
qed

section \<open>Deleting, seeding, assigning\<close>

lemma deleteCustomRole_Inr:
  assumes "deleteCustomRole t i target req rdb = ok (n, name, rdb')"
  obtains r tr where "role_in i t (rl_base rdb) = Some r" and "\<not> cr_isSystem r" and "cr_systemKey r \<noteq> Some ''POD_LEAD''"
    and "branch_access_if req (cr_branchId r) ''delete roles'' = ok ()" and "management_access_if req = ok ()"
    and "\<not> (0 < role_staff t i (rl_base rdb) \<and> \<not> truthy target)"
    and "replacement_role t r target (rl_base rdb) = ok tr" and "name = map_option cr_name tr"
    and "rdb' = rdb\<lparr> rl_base := delete_roles (\<lambda>r. cr_id r = i \<and> cr_tenantId r = t)
        ((rl_base rdb)\<lparr> st_users := (case tr of Some r \<Rightarrow> replace_role t i (cr_id r) (st_users (rl_base rdb))
                    | None \<Rightarrow> drop_role t i (st_users (rl_base rdb))) \<rparr>),
        rl_invitations := update_where (\<lambda>v. iv_roleId v = Some i) (\<lambda>v. v\<lparr> iv_roleId := None \<rparr>) (rl_invitations rdb) \<rparr>"
proof (cases "role_in i t (rl_base rdb)")
  case None
  then show thesis using assms by (simp add: deleteCustomRole_def succeeding)
next
  case (Some r)
  note u = assms [unfolded deleteCustomRole_def succeeding Some option.case if_throw_eq]
  show thesis
    using u by (elim exE conjE) (rule that [OF Some]; (assumption | rule sym, assumption))
qed

lemma delete_roles_keeps:
  assumes "r \<in> set (st_roles (delete_roles p db))"
  obtains r0 where "r0 \<in> set (st_roles db)" and "\<not> p r0" and "r = r0 \<or> r = r0\<lparr> cr_baseRoleId := None \<rparr>"
proof -
  obtain q where "st_roles (delete_roles p db) = update_where q (\<lambda>r. r\<lparr> cr_baseRoleId := None \<rparr>) (delete_where p (st_roles db))"
    by (simp add: delete_roles_def Let_def)
  then obtain r0 where "r0 \<in> set (delete_where p (st_roles db))"
    and "r = (if q r0 then r0\<lparr> cr_baseRoleId := None \<rparr> else r0)"
    using assms by (auto simp: in_update_where)
  then show thesis
    by (intro that [of r0]) (auto split: if_splits)
qed

lemma map_delete_roles: "map cr_id (st_roles (delete_roles p db)) = map cr_id (delete_where p (st_roles db))"
  by (simp add: delete_roles_def Let_def map_update_where)

lemma roles_ok_invitations [simp]: "roles_ok (rdb\<lparr> rl_invitations := ivs \<rparr>) = roles_ok rdb"
proof -
  have "archetype_ceiling (rdb\<lparr> rl_invitations := ivs \<rparr>) = archetype_ceiling rdb"
    by (simp add: fun_eq_iff archetype_ceiling_def default_perms_def cong: option.case_cong)
  then show ?thesis
    by (simp add: roles_ok_def within_ceiling_def templates_named_def cong: json.case_cong)
qed

lemma roles_ok_delete:
  assumes d: "deleteCustomRole t i target req rdb = ok (n, name, rdb')" and ok: "roles_ok rdb"
  shows "roles_ok rdb'"
proof -
  obtain us ivs where rdb': "rdb' = rdb\<lparr> rl_base := delete_roles (\<lambda>r. cr_id r = i \<and> cr_tenantId r = t)
        ((rl_base rdb)\<lparr> st_users := us \<rparr>), rl_invitations := ivs \<rparr>"
    by (rule deleteCustomRole_Inr [OF d]) (rule that; assumption)
  have "named_by_key r \<and> (cr_isSystem r \<or> within_ceiling rdb r)"
    if r: "r \<in> set (st_roles (delete_roles (\<lambda>r. cr_id r = i \<and> cr_tenantId r = t) ((rl_base rdb)\<lparr> st_users := us \<rparr>)))" for r
  proof -
    obtain r0 where r0: "r0 \<in> set (st_roles (rl_base rdb))" "r = r0 \<or> r = r0\<lparr> cr_baseRoleId := None \<rparr>"
      by (rule delete_roles_keeps [OF r]) (rule that; simp)
    then have "cr_systemKey r = cr_systemKey r0" "cr_isSystem r = cr_isSystem r0" "cr_name r = cr_name r0"
      "cr_permissions r = cr_permissions r0"
      by auto
    then show ?thesis
      using roles_okD(3,4) [OF ok r0(1)] within_ceiling_cong [of r r0] named_by_key_cong [of r r0] by auto
  qed
  then show ?thesis
    using roles_okD(1,2) [OF ok] distinct_map_delete_where [of cr_id "st_roles (rl_base rdb)"]
    by (simp add: rdb' roles_ok_base map_delete_roles)
qed

lemma system_role_named_Some:
  "system_role_named t n db = Some r \<Longrightarrow>
     r \<in> set (st_roles db) \<and> cr_tenantId r = t \<and> cr_isSystem r \<and> upper (cr_name r) = upper n"
  by (auto simp: system_role_named_def dest: find_first_Some)

lemma seed_role_Inr:
  assumes "seed_role dt newId now t s db = ok (m, db')"
  obtains (skipped) "m = []" and "db' = db" and "sr_systemKey s = ''SUPER_ADMIN''" and "t \<noteq> dt"
  | (refreshed) r where "r \<in> set (st_roles db)" and "cr_tenantId r = t" and "cr_isSystem r"
      and "upper (cr_name r) = upper (sr_systemKey s) \<or> upper (cr_name r) = upper (sr_name s)"
      and "m = [(sr_systemKey s, cr_id r)]"
      and "system_role_named t (sr_systemKey s) db = Some r
         \<or> system_role_named t (sr_systemKey s) db = None \<and> system_role_named t (sr_name s) db = Some r"
      and "db' = db\<lparr> st_roles := update_where (\<lambda>q. cr_id q = cr_id r)
              (\<lambda>q. q\<lparr> cr_systemKey := Some (sr_systemKey s), cr_description := Some (seed_description s) \<rparr>) (st_roles db) \<rparr>"
  | (inserted) "system_role_named t (sr_systemKey s) db = None" and "system_role_named t (sr_name s) db = None"
      and "m = [(sr_systemKey s, newId (sr_systemKey s))]"
      and "db' = db\<lparr> st_roles := st_roles db @ [seeded_row (newId (sr_systemKey s)) now t s] \<rparr>"
proof (cases "sr_systemKey s = ''SUPER_ADMIN'' \<and> t \<noteq> dt")
  case True
  then show thesis using assms skipped unfolding seed_role_def if_P [OF True] by simp
next
  case False
  note u = assms [unfolded seed_role_def if_not_P [OF False] Let_def]
  show thesis
  proof (cases "case system_role_named t (sr_systemKey s) db of Some r \<Rightarrow> Some r | None \<Rightarrow> system_role_named t (sr_name s) db")
    case None
    then have "system_role_named t (sr_systemKey s) db = None" "system_role_named t (sr_name s) db = None"
      by (simp_all split: option.splits)
    then show thesis
      using u inserted by (simp add: and_then_eq_Inr insert_role_Inr)
  next
    case (Some r)
    then have f: "system_role_named t (sr_systemKey s) db = Some r
         \<or> system_role_named t (sr_systemKey s) db = None \<and> system_role_named t (sr_name s) db = Some r"
      by (simp split: option.splits)
    then have "r \<in> set (st_roles db)" "cr_tenantId r = t" "cr_isSystem r"
      "upper (cr_name r) = upper (sr_systemKey s) \<or> upper (cr_name r) = upper (sr_name s)"
      using system_role_named_Some by blast+
    then show thesis
      using u f unfolding Some option.case sum.inject prod.inject by (elim conjE) (rule refreshed [of r]; (assumption | rule sym, assumption))
  qed
qed

lemma roles_ok_seed_role:
  assumes sd: "seed_role dt newId now t s (rl_base rdb) = ok (m, db')" and ok: "roles_ok rdb" and s: "s \<in> set (rl_systemRoles rdb)"
    and new: "newId (sr_systemKey s) \<notin> set (map cr_id (st_roles (rl_base rdb)))"
  shows "roles_ok (rdb\<lparr> rl_base := db' \<rparr>)"
    and "set (map cr_id (st_roles db')) \<subseteq> insert (newId (sr_systemKey s)) (set (map cr_id (st_roles (rl_base rdb))))"
proof -
  have key: "upper (sr_systemKey s) = sr_systemKey s" "sr_systemKey s \<noteq> []"
    "upper (sr_name s) \<in> set BASE_ARCHETYPES \<Longrightarrow> sr_systemKey s = upper (sr_name s)"
    using roles_okD(2) [OF ok] s by (auto simp: templates_named_def list_all_iff)
  show "roles_ok (rdb\<lparr> rl_base := db' \<rparr>)"
    using sd
  proof (cases rule: seed_role_Inr)
    case skipped
    then show ?thesis using ok by simp
  next
    case (refreshed r)
    let ?f = "\<lambda>q. q\<lparr> cr_systemKey := Some (sr_systemKey s), cr_description := Some (seed_description s) \<rparr>"
    have same: "q = r" if "q \<in> set (st_roles (rl_base rdb))" "cr_id q = cr_id r" for q
      using refreshed(1) roles_okD(1) [OF ok] that by (auto simp: distinct_map dest: inj_onD)
    have fr: "named_by_key (?f r)"
      using refreshed(4) key by (auto simp: named_by_key_def)
    have "named_by_key q' \<and> (cr_isSystem q' \<or> within_ceiling rdb q')"
      if q': "q' \<in> set (update_where (\<lambda>q. cr_id q = cr_id r) ?f (st_roles (rl_base rdb)))" for q'
    proof -
      obtain q where q: "q \<in> set (st_roles (rl_base rdb))" and eq: "q' = (if cr_id q = cr_id r then ?f q else q)"
        using q' unfolding in_update_where by blast
      show ?thesis
      proof (cases "cr_id q = cr_id r")
        case True
        then have "q' = ?f r" using same [OF q True] eq by simp
        then show ?thesis using fr refreshed(3) by simp
      next
        case False
        then show ?thesis using roles_okD(3,4) [OF ok q] eq by auto
      qed
    qed
    then show ?thesis
      using roles_okD(1,2) [OF ok] by (simp add: refreshed(7) roles_ok_base map_update_where)
  next
    case inserted
    have "named_by_key (seeded_row (newId (sr_systemKey s)) now t s)"
      using key by (auto simp: named_by_key_def seeded_row_def)
    then show ?thesis
      using new roles_okD [OF ok] unfolding inserted(4) roles_ok_base
      by (auto simp: seeded_row_def)
  qed
  show "set (map cr_id (st_roles db')) \<subseteq> insert (newId (sr_systemKey s)) (set (map cr_id (st_roles (rl_base rdb))))"
    using sd by (cases rule: seed_role_Inr) (auto simp: map_update_where seeded_row_def simp del: set_map)
qed

lemma roles_ok_seed_roles:
  assumes "seed_roles dt newId now t ss (rl_base rdb) = ok (m, db')" and "roles_ok rdb" and "set ss \<subseteq> set (rl_systemRoles rdb)"
    and "\<And>s. s \<in> set ss \<Longrightarrow> newId (sr_systemKey s) \<notin> set (map cr_id (st_roles (rl_base rdb)))"
    and "distinct (map (\<lambda>s. newId (sr_systemKey s)) ss)"
  shows "roles_ok (rdb\<lparr> rl_base := db' \<rparr>)"
  using assms
proof (induction ss arbitrary: rdb m)
  case Nil
  then show ?case by (auto intro: roles_ok_same)
next
  case (Cons s ss)
  obtain m1 db1 m2 where s1: "seed_role dt newId now t s (rl_base rdb) = ok (m1, db1)"
    and s2: "seed_roles dt newId now t ss db1 = ok (m2, db')"
    using Cons.prems(1) by (auto simp: and_then_eq_Inr)
  have new: "newId (sr_systemKey s) \<notin> set (map cr_id (st_roles (rl_base rdb)))" and s: "s \<in> set (rl_systemRoles rdb)"
    using Cons.prems(3,4) by auto
  note k = roles_ok_seed_role [OF s1 Cons.prems(2) s new]
  have "roles_ok ((rdb\<lparr> rl_base := db1 \<rparr>)\<lparr> rl_base := db' \<rparr>)"
  proof (rule Cons.IH)
    show "seed_roles dt newId now t ss (rl_base (rdb\<lparr> rl_base := db1 \<rparr>)) = ok (m2, db')" using s2 by simp
    show "roles_ok (rdb\<lparr> rl_base := db1 \<rparr>)" by (rule k(1))
    show "set ss \<subseteq> set (rl_systemRoles (rdb\<lparr> rl_base := db1 \<rparr>))" using Cons.prems(3) by simp
    show "newId (sr_systemKey q) \<notin> set (map cr_id (st_roles (rl_base (rdb\<lparr> rl_base := db1 \<rparr>))))" if "q \<in> set ss" for q
    proof -
      have "newId (sr_systemKey q) \<noteq> newId (sr_systemKey s)"
        using Cons.prems(5) that by (metis (no_types, lifting) distinct.simps(2) image_eqI list.set_map list.simps(9))
      moreover have "newId (sr_systemKey q) \<notin> set (map cr_id (st_roles (rl_base rdb)))"
        using Cons.prems(4) that by simp
      ultimately show ?thesis using k(2) by auto
    qed
    show "distinct (map (\<lambda>s. newId (sr_systemKey s)) ss)" using Cons.prems(5) by simp
  qed
  then show ?case by simp
qed

lemma write_grants_Inr:
  "write_grants t uid rid f db = ok db' \<longleftrightarrow> if_given rid (\<lambda>i. role_by_id i db \<noteq> None) \<and>
     db' = db\<lparr> st_users := update_where (\<lambda>u. us_id u = uid \<and> us_tenantId u = t) (\<lambda>u. f (u\<lparr> us_roleId := rid \<rparr>)) (st_users db) \<rparr>"
  by (auto simp: write_grants_def)

lemma assignUserRoles_Inr:
  assumes "assignUserRoles jp t uid ids rr keep req db = ok (names, db')"
  obtains u where "user_by uid t db = Some u" and "rejectManualPodLeadRoles t ids db = ok ()" and "ids \<noteq> []"
    and "roles_named t ids db \<noteq> []" and "assignment_checks jp req (roles_named t ids db) u = ok ()"
    and "list_ex (\<lambda>r. cr_systemKey r = Some ''TENANT_ADMIN'' \<or> upper (cr_name r) = ''TENANT_ADMIN'') (roles_named t ids db)
       \<or> verifyLastAdminProtection t uid Demote db = ok ()"
    and "names = map cr_name (roles_named t ids db)"
    and "write_grants t uid (or_else (Some (hd ids)) (us_roleId u)) (assigned_user db t keep (roles_named t ids db)) db = ok db'"
proof (cases "user_by uid t db")
  case None
  then show thesis using assms by (simp add: assignUserRoles_def succeeding)
next
  case (Some u)
  note a = assms [unfolded assignUserRoles_def succeeding Some option.case if_throw_eq]
  have v: "(if list_ex (\<lambda>r. cr_systemKey r = Some ''TENANT_ADMIN'' \<or> upper (cr_name r) = ''TENANT_ADMIN'') (roles_named t ids db)
     then ok () else verifyLastAdminProtection t uid Demote db) = ok ()"
    using a by (elim exE conjE)
  then have v': "list_ex (\<lambda>r. cr_systemKey r = Some ''TENANT_ADMIN'' \<or> upper (cr_name r) = ''TENANT_ADMIN'') (roles_named t ids db)
     \<or> verifyLastAdminProtection t uid Demote db = ok ()"
    by (auto simp only: split: if_split_asm)
  show thesis
    using a v' by (elim exE conjE) (rule that [OF Some]; (assumption | rule sym, assumption | simp only:))
qed

end
