(* ===== verification/RoleGuarantees.thy ===== *)
theory RoleGuarantees
  imports RoleInvariant
begin

text \<open>
  The properties of role administration: permissions stay within the ceiling of the archetype, pod leadership
  is not granted by hand, the last administrator is not demoted, what deleting a role leaves behind, and the
  requests that slip past one of these rules (the lemmas at the end of each section).
\<close>

lemma ok_with: "(case m of Inl e \<Rightarrow> False | Inr x \<Rightarrow> P x) \<longleftrightarrow> (\<exists>x. m = Inr x \<and> P x)"
  by (cases m) auto

section \<open>Role administration as a system\<close>

text \<open>One request, by any actor; an update that changes the archetype also gives the permissions.\<close>

inductive role_step :: "(string \<Rightarrow> json option) \<Rightarrow> uuid \<Rightarrow> role_db \<Rightarrow> role_db \<Rightarrow> bool" for jp dt where
  create: "createCustomRole newId now t dto by req rdb = ok (role, bn, rdb')
    \<Longrightarrow> newId \<notin> set (map cr_id (st_roles (rl_base rdb))) \<Longrightarrow> role_step jp dt rdb rdb'"
| update: "updateCustomRole t i body req rdb = ok rdb'
    \<Longrightarrow> up_systemRole body = None \<or> up_permissions body \<noteq> None \<Longrightarrow> role_step jp dt rdb rdb'"
| permissions: "updateRolePermissions t i ps req rdb = ok (qs, rdb') \<Longrightarrow> role_step jp dt rdb rdb'"
| delete: "deleteCustomRole t i target req rdb = ok (n, name, rdb') \<Longrightarrow> role_step jp dt rdb rdb'"
| seed: "seedTenantRoles dt newIds now t rdb = ok (m, rdb')
    \<Longrightarrow> (\<And>s. s \<in> set (rl_systemRoles rdb) \<Longrightarrow> newIds (sr_systemKey s) \<notin> set (map cr_id (st_roles (rl_base rdb))))
    \<Longrightarrow> distinct (map (\<lambda>s. newIds (sr_systemKey s)) (rl_systemRoles rdb)) \<Longrightarrow> role_step jp dt rdb rdb'"
| assign: "assignUserRoles jp t uid ids rr keep req (rl_base rdb) = ok (names, db')
    \<Longrightarrow> role_step jp dt rdb (rdb\<lparr> rl_base := db' \<rparr>)"
| batch: "batchAssignUsersToRole jp t i uids req (rl_base rdb) = (res, db')
    \<Longrightarrow> role_step jp dt rdb (rdb\<lparr> rl_base := db' \<rparr>)"
| unassign: "unassignUserFromRole jp t i uid req (rl_base rdb) = ok (left, db')
    \<Longrightarrow> role_step jp dt rdb (rdb\<lparr> rl_base := db' \<rparr>)"

lemma assignUserRoles_roles:
  assumes "assignUserRoles jp t uid ids rr keep req db = ok (names, db')"
  shows "st_roles db' = st_roles db" and "st_pods db' = st_pods db"
proof -
  obtain rid f where "write_grants t uid rid f db = ok db'"
    by (rule assignUserRoles_Inr [OF assms]) (rule that; assumption)
  then show "st_roles db' = st_roles db" "st_pods db' = st_pods db"
    by (auto simp: write_grants_Inr)
qed

lemma batch_assign_roles: "st_roles (snd (batch_assign jp t role req uids n db)) = st_roles db"
  by (induction uids arbitrary: n db) (auto split: option.splits sum.splits)

lemma batchAssignUsersToRole_roles:
  "st_roles (snd (batchAssignUsersToRole jp t i uids req db)) = st_roles db"
  by (auto simp: batchAssignUsersToRole_def batch_assign_roles split: sum.splits option.splits)

lemma unassignUserFromRole_roles:
  assumes "unassignUserFromRole jp t i uid req db = ok (left, db')"
  shows "st_roles db' = st_roles db"
  using assms unfolding unassignUserFromRole_def
  by (auto simp: succeeding write_grants_def split: option.splits prod.splits)

lemma role_step_ok: "role_step jp dt rdb rdb' \<Longrightarrow> roles_ok rdb \<Longrightarrow> roles_ok rdb'"
proof (induction rule: role_step.induct)
  case (permissions t i ps req rdb qs rdb')
  then show ?case using roles_ok_permissions [OF permissions(1)] roles_okD [OF permissions(2)] by blast
next
  case (seed newIds now t rdb m rdb')
  then obtain db' where "seed_roles dt newIds now t (rl_systemRoles rdb) (rl_base rdb) = ok (m, db')" "rdb' = rdb\<lparr> rl_base := db' \<rparr>"
    by (auto simp: seedTenantRoles_def and_then_eq_Inr)
  then show ?case using roles_ok_seed_roles [of dt newIds now t _ rdb m db'] seed by auto
next
  case (batch t i uids req rdb res db')
  then show ?case
    using batchAssignUsersToRole_roles [of jp t i uids req "rl_base rdb"] by (auto intro: roles_ok_same)
qed (blast intro: roles_ok_create roles_ok_update roles_ok_delete roles_ok_same
       assignUserRoles_roles unassignUserFromRole_roles)+

lemma role_steps_ok: "(role_step jp dt)\<^sup>*\<^sup>* rdb rdb' \<Longrightarrow> roles_ok rdb \<Longrightarrow> roles_ok rdb'"
  by (induction rule: rtranclp_induct) (auto intro: role_step_ok)

text \<open>A workspace to evaluate the requests on: an administrator, a recruiter and a unit administrator.\<close>

definition sample_roles :: role_db where
  "sample_roles = \<lparr> rl_base = empty_store\<lparr>
     st_tenants := [mk_tenant ''t'', mk_tenant ''x''],
     st_branches := [mk_branch ''b'' ''t'' ''Delhi'', mk_branch ''c'' ''t'' ''Pune''],
     st_units := [mk_unit ''n'' ''t'' (Some ''b'') ''Unit''],
     st_roles := [mk_role ''adm'' ''t'' ''A'' (Some ''TENANT_ADMIN'') True,
                  (mk_role ''ua'' ''t'' ''U'' (Some ''UNIT_ADMIN'') True)
                     \<lparr> cr_permissions := JArr (map JStr [''user:manage'', ''unit_admin:manage'']) \<rparr>,
                  mk_role ''rec'' ''t'' ''R'' (Some ''RECRUITER'') True,
                  mk_role ''lead'' ''t'' ''L'' (Some ''POD_LEAD'') True,
                  mk_role ''foreign'' ''x'' ''R'' (Some ''RECRUITER'') True],
     st_pods := [mk_pod ''p'' ''t'' ''b'' ''n'' ''Alpha'' (Some ''h'') 1],
     st_users := [mk_member ''a'' ''t'' None None (Some ''adm'') [''adm''] None,
                  mk_member ''r'' ''t'' (Some ''b'') (Some ''n'') (Some ''rec'') [''rec''] None,
                  mk_member ''m'' ''t'' (Some ''b'') (Some ''n'') (Some ''ua'') [''ua''] None,
                  mk_member ''h'' ''t'' (Some ''b'') (Some ''n'') (Some ''lead'') [''rec'', ''lead''] (Some ''p'')] \<rparr>,
   rl_systemRoles = [
     \<lparr> sr_id = ''s1'', sr_name = ''A'', sr_systemKey = ''TENANT_ADMIN'',
        sr_permissions = [''job:view'', ''user:manage'', ''tenant:settings''] \<rparr>,
     \<lparr> sr_id = ''s2'', sr_name = ''U'', sr_systemKey = ''UNIT_ADMIN'',
        sr_permissions = [''job:view'', ''user:manage'', ''unit_admin:manage''] \<rparr>,
     \<lparr> sr_id = ''s3'', sr_name = ''R'', sr_systemKey = ''RECRUITER'',
        sr_permissions = [''job:view'', ''candidate:view''] \<rparr>,
     \<lparr> sr_id = ''s4'', sr_name = ''L'', sr_systemKey = ''POD_LEAD'',
        sr_permissions = [''job:view''] \<rparr>],
   rl_invitations = [] \<rparr>"

definition plain_role_dto :: "string \<Rightarrow> string list \<Rightarrow> string \<Rightarrow> role_dto" where
  "plain_role_dto name ps key = \<lparr> rq_name = name, rq_description = [], rq_permissions = Some ps,
     rq_systemRole = Some key, rq_branchId = Some ''b'', rq_businessUnitId = None, rq_baseRoleId = None \<rparr>"

abbreviation sample_admin :: auth_user where
  "sample_admin \<equiv> mk_user ''a'' [''user:manage'', ''tenant:settings''] ''t'' None None (Some ''TENANT_ADMIN'')"

abbreviation sample_unit_admin :: auth_user where
  "sample_unit_admin \<equiv> mk_user ''m'' [''user:manage'', ''unit_admin:manage''] ''t'' (Some ''b'') (Some ''n'') (Some ''UNIT_ADMIN'')"

lemma sample_roles_ok: "roles_ok sample_roles"
  by code_simp



text \<open>Changing the archetype alone keeps the permissions of the old one.\<close>

lemma retyped_role_keeps_permissions:
  "\<exists>rdb1 rdb2. (\<exists>role bn. createCustomRole ''new'' 1 ''t'' (plain_role_dto ''B'' [''tenant:settings''] ''TENANT_ADMIN'')
        None (Some sample_admin) sample_roles = ok (role, bn, rdb1)) \<and>
     updateCustomRole ''t'' ''new'' \<lparr> up_name = None, up_description = None, up_systemRole = Some ''RECRUITER'',
        up_baseRoleId = None, up_branchId = None, up_businessUnitId = None, up_permissions = None \<rparr> (Some sample_admin) rdb1 = ok rdb2 \<and>
     \<not> roles_ok rdb2"
proof -
  have "case createCustomRole ''new'' 1 ''t'' (plain_role_dto ''B'' [''tenant:settings''] ''TENANT_ADMIN'')
        None (Some sample_admin) sample_roles of Inl e \<Rightarrow> False | Inr (role, bn, rdb1) \<Rightarrow>
     (case updateCustomRole ''t'' ''new'' \<lparr> up_name = None, up_description = None, up_systemRole = Some ''RECRUITER'',
        up_baseRoleId = None, up_branchId = None, up_businessUnitId = None, up_permissions = None \<rparr> (Some sample_admin) rdb1 of
        Inl e \<Rightarrow> False | Inr rdb2 \<Rightarrow> \<not> roles_ok rdb2)"
    by code_simp
  then show ?thesis unfolding ok_with split_paired_Ex prod.case by blast
qed

text \<open>A system role has no ceiling: a unit administrator gives the own archetype the keys of the tenant.\<close>

lemma system_role_has_no_ceiling:
  "\<exists>rdb'. rbac_update_permissions ''ua'' [''user:manage'', ''tenant:settings''] sample_unit_admin sample_roles
      = ok ([''user:manage'', ''tenant:settings''], rdb')"
proof -
  have "case rbac_update_permissions ''ua'' [''user:manage'', ''tenant:settings''] sample_unit_admin sample_roles of
     Inl e \<Rightarrow> False | Inr (ps, rdb') \<Rightarrow> ps = [''user:manage'', ''tenant:settings'']" by code_simp
  then show ?thesis unfolding ok_with split_paired_Ex prod.case by blast
qed

section \<open>Pod leadership is not granted by hand\<close>

definition lead_grants :: "uuid \<Rightarrow> store \<Rightarrow> user \<Rightarrow> uuid set" where
  "lead_grants t db u = {i. i \<in> set (lead_role_ids db t) \<and> (us_roleId u = Some i \<or> i \<in> set (us_assignedRoleIds u))}"

definition leads_a_pod :: "uuid \<Rightarrow> uuid \<Rightarrow> store \<Rightarrow> bool" where
  "leads_a_pod t uid db = list_ex (\<lambda>p. pd_tenantId p = t \<and> pd_podHeadId p = Some uid) (st_pods db)"

definition plain_role_ids :: "store \<Rightarrow> bool" where
  "plain_role_ids db = list_all (\<lambda>r. trim (cr_id r) = cr_id r) (st_roles db)"

lemma rejected_lead:
  assumes "rejectManualPodLeadRoles t ids db = ok ()" and "plain_role_ids db" and "i \<in> set ids"
  shows "i \<notin> set (lead_role_ids db t)"
proof
  assume "i \<in> set (lead_role_ids db t)"
  then obtain r where r: "r \<in> set (st_roles db)" "is_lead_role t r" "cr_id r = i"
    by (auto simp: lead_role_ids_def)
  have "lower (cr_id r) = lower (trim i)" using r assms(2) by (auto simp: plain_role_ids_def list_all_iff)
  then have "lower (cr_id r) \<in> set (map (\<lambda>v. lower (trim v)) ids)" using assms(3) by auto
  with r have "list_ex (\<lambda>r. is_lead_role t r \<and> (lower (cr_id r) \<in> set (map (\<lambda>v. lower (trim v)) ids)
      \<or> lower (cr_name r) \<in> set (map (\<lambda>v. lower (trim v)) ids) \<or> lower ''POD_LEAD'' \<in> set (map (\<lambda>v. lower (trim v)) ids))) (st_roles db)"
    unfolding list_ex_iff by blast
  moreover have "ids \<noteq> []" using assms(3) by auto
  ultimately show False
    using assms(1) unfolding rejectManualPodLeadRoles_def Let_def by (simp only: if_P if_not_P not_False_eq_True if_False if_True sum.distinct)
qed

lemma set_append_grants: "set (append_grants rs ids) = set ids \<union> cr_id ` set rs"
  unfolding append_grants_def by (induction rs arbitrary: ids) auto

lemma in_existing_lead_roles:
  assumes "user_by uid t db = Some u"
  shows "set (existingPodLeadRoleIds t uid db) = (if leads_a_pod t uid db then lead_grants t db u else {})"
  using assms by (auto simp: existingPodLeadRoleIds_def leads_a_pod_def lead_grants_def lead_role_ids_def)

lemma user_by_update:
  assumes "user_by uid t db = Some u" and "us_id (f u) = us_id u" and "us_tenantId (f u) = us_tenantId u"
  shows "user_by uid t (db\<lparr> st_users := update_where (\<lambda>v. us_id v = uid \<and> us_tenantId v = t) f (st_users db) \<rparr>) = Some (f u)"
proof -
  have "find_first (\<lambda>v. us_id v = uid \<and> us_tenantId v = t) (update_where (\<lambda>v. us_id v = uid \<and> us_tenantId v = t) f us) = Some (f u)"
    if "find_first (\<lambda>v. us_id v = uid \<and> us_tenantId v = t) us = Some u" for us
    using that assms(2,3) by (induction us) (auto simp: find_first_def update_where_def split: if_splits)
  then show ?thesis using assms(1) by (simp add: user_by_def)
qed

lemma assigned_user_simps [simp]:
  "us_id (assigned_user db t keep rs u) = us_id u" "us_tenantId (assigned_user db t keep rs u) = us_tenantId u"
  "us_roleId (assigned_user db t keep rs u) = us_roleId u" "us_isActive (assigned_user db t keep rs u) = us_isActive u"
  "us_isApproved (assigned_user db t keep rs u) = us_isApproved u"
  "set (us_assignedRoleIds (assigned_user db t keep rs u)) =
     (if keep then set (us_assignedRoleIds u) else {}) \<union> cr_id ` set rs \<union> set (existingPodLeadRoleIds t (us_id u) db)"
  by (auto simp: assigned_user_def Let_def set_append_grants)

text \<open>C13: An assignment of roles by hand never makes anyone a pod lead: the lead roles an account holds afterwards
  it held before, and an account that leads a pod keeps all of them.\<close>

theorem leadership_not_assigned:
  assumes a: "assignUserRoles jp t uid ids rr keep req db = ok (names, db')" and u: "user_by uid t db = Some u"
    and plain: "plain_role_ids db"
  shows "\<exists>u'. user_by uid t db' = Some u' \<and> lead_grants t db' u' \<subseteq> lead_grants t db u \<and>
    (leads_a_pod t uid db \<longrightarrow> lead_grants t db' u' = lead_grants t db u)"
proof -
  obtain v where v: "user_by uid t db = Some v" and rej: "rejectManualPodLeadRoles t ids db = ok ()" and ids: "ids \<noteq> []"
    and w: "write_grants t uid (or_else (Some (hd ids)) (us_roleId v)) (assigned_user db t keep (roles_named t ids db)) db = ok db'"
    by (rule assignUserRoles_Inr [OF a]) (rule that; assumption)
  have vu: "v = u" using u v by simp
  define f where "f = (\<lambda>x. assigned_user db t keep (roles_named t ids db) (x\<lparr> us_roleId := or_else (Some (hd ids)) (us_roleId u) \<rparr>))"
  have db': "db' = db\<lparr> st_users := update_where (\<lambda>x. us_id x = uid \<and> us_tenantId x = t) f (st_users db) \<rparr>"
    using w by (simp add: write_grants_Inr vu f_def)
  have look: "user_by uid t db' = Some (f u)"
    unfolding db' by (rule user_by_update [OF u]) (simp_all add: f_def)
  have same: "lead_role_ids db' t = lead_role_ids db t" by (simp add: db' lead_role_ids_def)
  have uid: "us_id u = uid" using user_by_Some [OF u] by simp
  have hd: "hd ids \<notin> set (lead_role_ids db t)"
    by (rule rejected_lead [OF rej plain]) (simp add: ids)
  have named: "cr_id r \<notin> set (lead_role_ids db t)" if "r \<in> set (roles_named t ids db)" for r
    by (rule rejected_lead [OF rej plain]) (use that in \<open>simp add: roles_named_def\<close>)
  have prim: "us_roleId (f u) = (if hd ids = [] then us_roleId u else Some (hd ids))"
    by (simp add: f_def or_else_def)
  have held: "set (us_assignedRoleIds (f u)) = (if keep then set (us_assignedRoleIds u) else {})
      \<union> cr_id ` set (roles_named t ids db) \<union> (if leads_a_pod t uid db then lead_grants t db u else {})"
    by (simp add: f_def uid in_existing_lead_roles [OF u])
  have "lead_grants t db' (f u) \<subseteq> lead_grants t db u"
    using prim held hd named by (auto simp: lead_grants_def same split: if_splits)
  moreover have "lead_grants t db u \<subseteq> lead_grants t db' (f u)" if "leads_a_pod t uid db"
    using that held by (auto simp: lead_grants_def same)
  ultimately show ?thesis
    using look by blast
qed

theorem leadership_not_assigned_witness:
  "\<exists>names db' u'. assignUserRoles (\<lambda>_. None) ''t'' ''h'' [''rec''] (Some []) False (Some sample_admin) (rl_base sample_roles) = ok (names, db') \<and>
     user_by ''h'' ''t'' db' = Some u' \<and> ''lead'' \<in> lead_grants ''t'' db' u'"
proof -
  let ?db = "rl_base sample_roles" and ?u = "mk_member ''h'' ''t'' (Some ''b'') (Some ''n'') (Some ''lead'') [''rec'', ''lead''] (Some ''p'')"
  have "succeeds (assignUserRoles (\<lambda>_. None) ''t'' ''h'' [''rec''] (Some []) False (Some sample_admin) ?db)"
    by code_simp
  then obtain names db' where a: "assignUserRoles (\<lambda>_. None) ''t'' ''h'' [''rec''] (Some []) False (Some sample_admin) ?db = ok (names, db')"
    unfolding succeeds_iff split_paired_Ex by (elim exE)
  have u: "user_by ''h'' ''t'' ?db = Some ?u" by code_simp
  have "plain_role_ids ?db" by code_simp
  from leadership_not_assigned [OF a u this] obtain u' where "user_by ''h'' ''t'' db' = Some u'"
    "leads_a_pod ''t'' ''h'' ?db \<longrightarrow> lead_grants ''t'' db' u' = lead_grants ''t'' ?db ?u"
    by blast
  moreover have "leads_a_pod ''t'' ''h'' ?db" by code_simp
  moreover have "''lead'' \<in> lead_grants ''t'' ?db ?u" by (simp add: lead_grants_def sample_roles_def lead_role_ids_def
      is_lead_role_def find_many_def mk_role_def mk_member_def)
  ultimately show ?thesis using a by blast
qed

section \<open>The last administrator\<close>

lemma another_row:
  assumes "1 < count_where p t" and "distinct (map key t)"
  shows "\<exists>r \<in> set t. p r \<and> key r \<noteq> k"
proof (rule ccontr)
  assume no: "\<not> ?thesis"
  have "distinct (map key (filter p t))" using assms(2) by (rule distinct_map_filter)
  moreover have "set (map key (filter p t)) \<subseteq> {k}" using no by auto
  ultimately have "length (filter p t) \<le> 1"
    using card_mono [of "{k}" "set (map key (filter p t))"] distinct_card [of "map key (filter p t)"] by auto
  then show False using assms(1) by (simp add: count_where_def)
qed

lemma count_where_pos: "0 < count_where p t \<longleftrightarrow> (\<exists>r \<in> set t. p r)"
  using count_where_0 [of p t] by auto

lemma has_admin_role_cong:
  "us_roleId v = us_roleId u \<Longrightarrow> st_roles db' = st_roles db \<Longrightarrow> has_admin_role db' v = has_admin_role db u"
  by (simp add: has_admin_role_def user_role_def role_by_id_def)

text \<open>The primary role of a request names an administrative role.\<close>

definition first_is_admin :: "store \<Rightarrow> uuid list \<Rightarrow> bool" where
  "first_is_admin db ids = (hd ids \<noteq> [] \<and> (case role_by_id (hd ids) db of Some r \<Rightarrow> admin_role r | None \<Rightarrow> False))"

text \<open>C14: A tenant with an active administrator still has one after roles were assigned to anybody, provided that a
  request that assigns an administrative role at all lists it first.\<close>

theorem administrator_remains:
  assumes a: "assignUserRoles jp t uid ids rr keep req db = ok (names, db')"
    and dist: "distinct (map us_id (st_users db))" and adm: "0 < active_admins t db"
    and first: "first_is_admin db ids \<or> list_all (\<lambda>r. cr_systemKey r \<noteq> Some ''TENANT_ADMIN'' \<and> upper (cr_name r) \<noteq> ''TENANT_ADMIN'')
         (roles_named t ids db)"
  shows "0 < active_admins t db'"
proof -
  obtain u where u: "user_by uid t db = Some u"
    and last: "list_ex (\<lambda>r. cr_systemKey r = Some ''TENANT_ADMIN'' \<or> upper (cr_name r) = ''TENANT_ADMIN'') (roles_named t ids db)
       \<or> verifyLastAdminProtection t uid Demote db = ok ()"
    and w: "write_grants t uid (or_else (Some (hd ids)) (us_roleId u)) (assigned_user db t keep (roles_named t ids db)) db = ok db'"
    by (rule assignUserRoles_Inr [OF a]) (rule that; assumption)
  define f where "f = (\<lambda>x. assigned_user db t keep (roles_named t ids db) (x\<lparr> us_roleId := or_else (Some (hd ids)) (us_roleId u) \<rparr>))"
  have users: "st_users db' = update_where (\<lambda>x. us_id x = uid \<and> us_tenantId x = t) f (st_users db)"
    using w by (simp add: write_grants_Inr f_def)
  let ?adm = "\<lambda>d v. us_tenantId v = t \<and> us_isActive v \<and> us_isApproved v \<and> has_admin_role d v"
  have roles: "st_roles db' = st_roles db" by (rule assignUserRoles_roles [OF a])
  have other: "0 < active_admins t db'" if "v \<in> set (st_users db)" "?adm db v" "us_id v \<noteq> uid" for v
  proof -
    have "v \<in> set (st_users db')" using that(1,3) by (auto simp: users in_update_where intro!: bexI [of _ v])
    then show ?thesis
      using that(2) has_admin_role_cong [OF refl roles, of v] unfolding active_admins_def count_where_pos by blast
  qed
  obtain v where v: "v \<in> set (st_users db)" "?adm db v"
    using adm unfolding active_admins_def count_where_pos by blast
  show ?thesis
  proof (cases "us_id v = uid")
    case False
    then show ?thesis using other [OF v] by blast
  next
    case True
    then have vu: "v = u" using u user_by_Some [OF u] v(1) dist by (auto simp: distinct_map dest: inj_onD)
    show ?thesis
    proof (cases "first_is_admin db ids")
      case fst: True
      have "f u \<in> set (st_users db')" using v(1) True vu v(2) by (auto simp: users in_update_where intro!: bexI [of _ u])
      moreover have "us_roleId (f u) = Some (hd ids)" using fst by (simp add: f_def or_else_def first_is_admin_def)
      then have "has_admin_role db' (f u)"
        using fst roles by (simp add: has_admin_role_def user_role_def role_by_id_def first_is_admin_def)
      ultimately show ?thesis
        using v(2) vu unfolding active_admins_def count_where_pos by (intro bexI [of _ "f u"]) (auto simp: f_def)
    next
      case False
      then have "verifyLastAdminProtection t uid Demote db = ok ()"
        using first last by (auto simp: list_ex_iff list_all_iff)
      then have "1 < active_admins t db"
        using v(2) vu by (auto simp: verifyLastAdminProtection_def u split: if_splits)
      then show ?thesis
        using another_row [OF _ dist, of "?adm db" uid] other unfolding active_admins_def by blast
    qed
  qed
qed

theorem administrator_remains_witness:
  "\<exists>names db'. assignUserRoles (\<lambda>_. None) ''t'' ''r'' [''adm''] (Some []) True (Some sample_admin) (rl_base sample_roles) = ok (names, db') \<and>
     0 < active_admins ''t'' db'"
proof -
  let ?db = "rl_base sample_roles"
  have "succeeds (assignUserRoles (\<lambda>_. None) ''t'' ''r'' [''adm''] (Some []) True (Some sample_admin) ?db)"
    by code_simp
  then obtain names db' where a: "assignUserRoles (\<lambda>_. None) ''t'' ''r'' [''adm''] (Some []) True (Some sample_admin) ?db = ok (names, db')"
    unfolding succeeds_iff split_paired_Ex by (elim exE)
  have d: "distinct (map us_id (st_users ?db))" and adm: "0 < active_admins ''t'' ?db" and f: "first_is_admin ?db [''adm'']"
    by code_simp+
  show ?thesis
    by (intro exI conjI) (rule a, rule administrator_remains [OF a d adm disjI1 [OF f]])
qed

text \<open>
  Without the proviso the last administrator can lose the role: listed second, the administrative role
  switches the check off but is not the primary one.  Withdrawing the role is not checked at all.
\<close>

lemma last_admin_demoted_by_order:
  "case assignUserRoles (\<lambda>_. None) ''t'' ''a'' [''rec'', ''adm''] (Some []) False (Some sample_admin) (rl_base sample_roles) of
     Inl e \<Rightarrow> False | Inr (names, db') \<Rightarrow> active_admins ''t'' (rl_base sample_roles) = 1 \<and> active_admins ''t'' db' = 0"
  by code_simp

lemma last_admin_unassigned:
  "case unassignUserFromRole (\<lambda>_. None) ''t'' ''adm'' ''a'' (Some sample_admin) (rl_base sample_roles) of
     Inl e \<Rightarrow> False | Inr (left, db') \<Rightarrow> active_admins ''t'' db' = 0"
  by code_simp

text \<open>The first identifier of a request is written without being looked up in the tenant.\<close>

lemma foreign_role_assigned:
  "case assignUserRoles (\<lambda>_. None) ''t'' ''r'' [''foreign'', ''rec''] (Some []) False (Some sample_admin) (rl_base sample_roles) of
     Inl e \<Rightarrow> False | Inr (names, db') \<Rightarrow> map us_roleId (filter (\<lambda>u. us_id u = ''r'') (st_users db')) = [Some ''foreign'']"
  by code_simp

end
