(* ===== verification/RoleLifecycle.thy ===== *)
theory RoleLifecycle
  imports RoleGuarantees
begin

text \<open>
  What deleting a role leaves behind, that seeding is idempotent, and how far a local administrator of roles
  reaches.
\<close>

section \<open>Deleting hands a role over\<close>

definition holds_role :: "uuid \<Rightarrow> user \<Rightarrow> bool" where
  "holds_role i u = (us_roleId u = Some i \<or> i \<in> set (us_assignedRoleIds u))"

text \<open>An account before and after the role \<open>i\<close> of tenant \<open>t\<close> was replaced by \<open>target\<close>.\<close>

definition handed_over :: "uuid \<Rightarrow> uuid \<Rightarrow> uuid option \<Rightarrow> user \<Rightarrow> user \<Rightarrow> bool" where
  "handed_over t i target u u' =
    (us_id u' = us_id u \<and> us_tenantId u' = us_tenantId u \<and>
     (if us_tenantId u = t
      then \<not> holds_role i u' \<and> (if holds_role i u then target \<noteq> None \<and> holds_role (the target) u' else u' = u)
      else us_roleId u = Some i \<or> u' = u))"

lemma update_where_update_where:
  "update_where p f (map g t) = map (\<lambda>r. if p (g r) then f (g r) else g r) t"
  by (simp add: update_where_def)

lemma list_all2_map_self: "list_all2 P t (map g t) \<longleftrightarrow> (\<forall>r \<in> set t. P r (g r))"
  by (simp add: list.rel_map list_all2_same)

definition hand_over :: "uuid \<Rightarrow> uuid \<Rightarrow> uuid \<Rightarrow> user \<Rightarrow> user" where
  "hand_over t i new u =
    (if us_tenantId u = t
     then u\<lparr> us_roleId := (if us_roleId u = Some i then Some new else us_roleId u),
             us_assignedRoleIds := map (\<lambda>j. if j = i then new else j) (us_assignedRoleIds u) \<rparr>
     else u)"

lemma map_replace_id: "i \<notin> set xs \<Longrightarrow> map (\<lambda>j. if j = i then new else j) xs = xs"
  by (induction xs) auto

lemma replace_role_map: "replace_role t i new us = map (hand_over t i new) us"
  by (auto simp: replace_role_def update_where_def hand_over_def map_replace_id)

lemma hand_over_id: "\<not> holds_role i u \<Longrightarrow> hand_over t i new u = u"
  by (cases u) (simp add: hand_over_def holds_role_def map_replace_id)

lemma hand_over_handed:
  assumes "new \<noteq> i"
  shows "handed_over t i (Some new) u
    (let v = hand_over t i new u in if us_roleId v = Some i then v\<lparr> us_roleId := None \<rparr> else v)"
proof (cases "holds_role i u \<and> us_tenantId u = t")
  case True
  then show ?thesis using assms by (auto simp: handed_over_def hand_over_def holds_role_def Let_def)
next
  case False
  then show ?thesis
    by (cases "us_tenantId u = t") (auto simp: handed_over_def hand_over_def holds_role_def Let_def map_replace_id)
qed

lemma unstaffed_role:
  assumes "role_staff t i db = 0" and "u \<in> set (st_users db)" and "us_tenantId u = t"
  shows "\<not> holds_role i u"
  using assms by (auto simp: role_staff_def count_where_0 holds_role_def)

lemma delete_roles_users_map:
  assumes "\<forall>r \<in> set (st_roles db). p r \<longrightarrow> cr_id r = i" and "\<exists>r \<in> set (st_roles db). p r"
  shows "st_users (delete_roles p db) = map (\<lambda>u. if us_roleId u = Some i then u\<lparr> us_roleId := None \<rparr> else u) (st_users db)"
proof -
  have gone: "set (map cr_id (find_many p (st_roles db))) = {i}" using assms by auto
  have eq: "(\<lambda>u :: user. \<exists>r \<in> set (map cr_id (find_many p (st_roles db))). us_roleId u = Some r) = (\<lambda>u. us_roleId u = Some i)"
    unfolding gone by simp
  show ?thesis unfolding delete_roles_def Let_def eq by (simp add: update_where_def)
qed


definition sample_custom :: role_db where
  "sample_custom = sample_roles\<lparr> rl_base := (rl_base sample_roles)\<lparr> st_roles := st_roles (rl_base sample_roles)
       @ [(mk_role ''new'' ''t'' ''S'' (Some ''RECRUITER'') False)\<lparr> cr_branchId := Some ''b'' \<rparr>],
     st_users := [mk_member ''a'' ''t'' None None (Some ''adm'') [''adm''] None,
       mk_member ''m'' ''t'' (Some ''b'') (Some ''n'') (Some ''new'') [''ua'', ''new''] None] \<rparr> \<rparr>"


text \<open>
  A role can be named as its own replacement: then it is deleted all the same, and its holders are left with
  no primary role and a grant of a role that is gone.  And the replacement is not checked like an assignment: a
  unit administrator who holds a role of the own branch becomes a tenant administrator by deleting it.
\<close>

lemma role_replaced_by_itself:
  "case deleteCustomRole ''t'' ''new'' (Some ''new'') (Some sample_admin) sample_custom of
     Inl e \<Rightarrow> False | Inr (n, name, rdb') \<Rightarrow> role_in ''new'' ''t'' (rl_base rdb') = None \<and>
       map (\<lambda>u. (us_roleId u, us_assignedRoleIds u)) (filter (\<lambda>u. us_id u = ''m'') (st_users (rl_base rdb'))) = [(None, [''ua'', ''new''])]"
  by code_simp

lemma deletion_escalates:
  "case rbac_delete_role ''new'' (Some ''adm'') None sample_unit_admin sample_custom of
     Inl e \<Rightarrow> False | Inr (n, name, rdb') \<Rightarrow>
       map us_roleId (filter (\<lambda>u. us_id u = ''m'') (st_users (rl_base rdb'))) = [Some ''adm'']"
  by code_simp

section \<open>Seeding is idempotent\<close>

definition found_for :: "uuid \<Rightarrow> system_role \<Rightarrow> store \<Rightarrow> custom_role option" where
  "found_for t s db = (case system_role_named t (sr_systemKey s) db of
     Some r \<Rightarrow> Some r | None \<Rightarrow> system_role_named t (sr_name s) db)"

text \<open>The row \<open>r\<close> already is what seeding the archetype would make of it.\<close>

definition settled :: "uuid \<Rightarrow> system_role \<Rightarrow> custom_role \<Rightarrow> store \<Rightarrow> bool" where
  "settled t s r db = (found_for t s db = Some r \<and> cr_systemKey r = Some (sr_systemKey s)
     \<and> cr_description r = Some (seed_description s))"

definition separate :: "system_role \<Rightarrow> system_role \<Rightarrow> bool" where
  "separate s s' = (upper (sr_systemKey s) \<noteq> upper (sr_systemKey s') \<and> upper (sr_name s) \<noteq> upper (sr_name s')
     \<and> upper (sr_name s) \<noteq> upper (sr_systemKey s') \<and> upper (sr_systemKey s) \<noteq> upper (sr_name s'))"

text \<open>No key or name of an archetype is, up to case, one of another archetype.\<close>

primrec separate_all :: "system_role list \<Rightarrow> bool" where
  "separate_all [] = True"
| "separate_all (s # ss) = (list_all (separate s) ss \<and> separate_all ss)"

definition skipped_for :: "uuid \<Rightarrow> uuid \<Rightarrow> system_role \<Rightarrow> bool" where
  "skipped_for dt t s = (sr_systemKey s = ''SUPER_ADMIN'' \<and> t \<noteq> dt)"

abbreviation refresh :: "system_role \<Rightarrow> custom_role \<Rightarrow> custom_role" where
  "refresh s q \<equiv> q\<lparr> cr_systemKey := Some (sr_systemKey s), cr_description := Some (seed_description s) \<rparr>"

lemma seed_role_eq:
  "seed_role dt newId now t s db =
    (if skipped_for dt t s then ok ([], db)
     else case found_for t s db of
        None \<Rightarrow> and_then (insert_role (seeded_row (newId (sr_systemKey s)) now t s) db) (\<lambda>db'.
              ok ([(sr_systemKey s, newId (sr_systemKey s))], db'))
      | Some r \<Rightarrow> ok ([(sr_systemKey s, cr_id r)], db\<lparr> st_roles := update_where (\<lambda>q. cr_id q = cr_id r) (refresh s) (st_roles db) \<rparr>))"
  by (simp add: seed_role_def skipped_for_def found_for_def Let_def)

lemma found_for_Some:
  "found_for t s db = Some r \<Longrightarrow> r \<in> set (st_roles db) \<and> cr_isSystem r \<and>
     (upper (cr_name r) = upper (sr_systemKey s) \<or> upper (cr_name r) = upper (sr_name s))"
  by (auto simp: found_for_def split: option.splits dest!: system_role_named_Some)

lemma system_role_named_refresh:
  assumes "\<And>q. cr_tenantId (f q) = cr_tenantId q \<and> cr_name (f q) = cr_name q \<and> cr_isSystem (f q) = cr_isSystem q"
  shows "system_role_named t n (db\<lparr> st_roles := map f (st_roles db) \<rparr>) = map_option f (system_role_named t n db)"
  using assms by (simp add: system_role_named_def find_first_map comp_def)

lemma found_for_refresh:
  assumes "\<And>q. cr_tenantId (f q) = cr_tenantId q \<and> cr_name (f q) = cr_name q \<and> cr_isSystem (f q) = cr_isSystem q"
  shows "found_for t s (db\<lparr> st_roles := map f (st_roles db) \<rparr>) = map_option f (found_for t s db)"
  by (simp add: found_for_def system_role_named_refresh [OF assms] split: option.splits)

lemma system_role_named_append:
  "system_role_named t n (db\<lparr> st_roles := st_roles db @ [r] \<rparr>) =
    (case system_role_named t n db of Some q \<Rightarrow> Some q
     | None \<Rightarrow> if cr_tenantId r = t \<and> upper (cr_name r) = upper n \<and> cr_isSystem r then Some r else None)"
proof -
  have "find_first p (xs @ [r]) = (case find_first p xs of Some q \<Rightarrow> Some q | None \<Rightarrow> if p r then Some r else None)" for p and xs :: "custom_role list"
    by (induction xs) (simp_all add: find_first_def)
  then show ?thesis by (simp add: system_role_named_def)
qed

lemma settled_seed:
  assumes "settled t s r db" and "distinct (map cr_id (st_roles db))"
  shows "seed_role dt newId now t s db = ok (if skipped_for dt t s then [] else [(sr_systemKey s, cr_id r)], db)"
proof -
  have f: "found_for t s db = Some r" and r: "refresh s r = r" using assms(1) by (simp_all add: settled_def)
  have "q = r" if "q \<in> set (st_roles db)" "cr_id q = cr_id r" for q
    using found_for_Some [OF f] that assms(2) by (auto simp: distinct_map dest: inj_onD)
  then have "refresh s q = q" if "q \<in> set (st_roles db)" "cr_id q = cr_id r" for q
    using that r by metis
  then have "update_where (\<lambda>q. cr_id q = cr_id r) (refresh s) (st_roles db) = st_roles db"
    by (auto simp: update_where_def intro!: map_idI)
  then show ?thesis by (simp add: seed_role_eq f)
qed

lemma seed_role_settles:
  assumes sd: "seed_role dt newId now t s db = ok (m, db')" and not: "\<not> skipped_for dt t s"
  obtains r where "settled t s r db'" and "m = [(sr_systemKey s, cr_id r)]"
proof (cases "found_for t s db")
  case None
  then have "db' = db\<lparr> st_roles := st_roles db @ [seeded_row (newId (sr_systemKey s)) now t s] \<rparr>"
    and m: "m = [(sr_systemKey s, newId (sr_systemKey s))]"
    using sd not by (auto simp: seed_role_eq and_then_eq_Inr insert_role_Inr)
  moreover have "system_role_named t (sr_systemKey s) db = None" "system_role_named t (sr_name s) db = None"
    using None by (auto simp: found_for_def split: option.splits)
  ultimately have "settled t s (seeded_row (newId (sr_systemKey s)) now t s) db'"
    by (simp add: settled_def found_for_def system_role_named_append seeded_row_def)
  then show thesis by (rule that) (simp add: m seeded_row_def)
next
  case (Some r)
  let ?f = "\<lambda>q. if cr_id q = cr_id r then refresh s q else q"
  have db': "db' = db\<lparr> st_roles := map ?f (st_roles db) \<rparr>" and m: "m = [(sr_systemKey s, cr_id r)]"
    using sd not by (auto simp: seed_role_eq Some update_where_def)
  have "found_for t s db' = Some (refresh s r)"
    unfolding db' by (subst found_for_refresh) (simp_all add: Some)
  then show thesis
    by (intro that [of "refresh s r"]) (simp_all add: settled_def m)
qed

lemma settled_kept:
  assumes st: "settled t s r db" and sd: "seed_role dt newId now t s' db = ok (m, db')" and sep: "separate s s'"
    and dist: "distinct (map cr_id (st_roles db))"
  shows "settled t s r db'"
proof (cases "skipped_for dt t s'")
  case True
  then show ?thesis using st sd by (simp add: seed_role_eq)
next
  case False
  have f: "found_for t s db = Some r" using st by (simp add: settled_def)
  show ?thesis
  proof (cases "found_for t s' db")
    case None
    then have db': "db' = db\<lparr> st_roles := st_roles db @ [seeded_row (newId (sr_systemKey s')) now t s'] \<rparr>"
      using sd False by (auto simp: seed_role_eq and_then_eq_Inr insert_role_Inr)
    have "found_for t s db' = Some r"
      using f sep unfolding db' found_for_def system_role_named_append
      by (auto simp: seeded_row_def separate_def split: option.splits)
    then show ?thesis using st by (simp add: settled_def)
  next
    case (Some r')
    let ?f = "\<lambda>q. if cr_id q = cr_id r' then refresh s' q else q"
    have db': "db' = db\<lparr> st_roles := map ?f (st_roles db) \<rparr>"
      using sd False by (auto simp: seed_role_eq Some update_where_def)
    have "r \<noteq> r'"
      using found_for_Some [OF f] found_for_Some [OF Some] sep by (auto simp: separate_def)
    then have "cr_id r \<noteq> cr_id r'"
      using found_for_Some [OF f] found_for_Some [OF Some] dist by (auto simp: distinct_map dest: inj_onD)
    then have "found_for t s db' = Some r"
      unfolding db' by (subst found_for_refresh) (simp_all add: f)
    then show ?thesis using st by (simp add: settled_def)
  qed
qed

lemma seed_role_ids:
  assumes "seed_role dt newId now t s db = ok (m, db')" and "distinct (map cr_id (st_roles db))"
    and "newId (sr_systemKey s) \<notin> set (map cr_id (st_roles db))"
  shows "distinct (map cr_id (st_roles db'))"
    and "set (map cr_id (st_roles db')) \<subseteq> insert (newId (sr_systemKey s)) (set (map cr_id (st_roles db)))"
  using assms by (auto elim!: seed_role_Inr simp: map_update_where seeded_row_def simp del: set_map)

lemma settled_kept_all:
  assumes "settled t s r db" and "seed_roles dt newId now t ss db = ok (m, db')" and "list_all (separate s) ss"
    and "distinct (map cr_id (st_roles db))"
    and "\<And>s. s \<in> set ss \<Longrightarrow> newId (sr_systemKey s) \<notin> set (map cr_id (st_roles db))"
    and "distinct (map (\<lambda>s. newId (sr_systemKey s)) ss)"
  shows "settled t s r db' \<and> distinct (map cr_id (st_roles db'))"
  using assms
proof (induction ss arbitrary: db m)
  case Nil
  then show ?case by simp
next
  case (Cons q ss)
  obtain m1 db1 m2 where one: "seed_role dt newId now t q db = ok (m1, db1)" and rest: "seed_roles dt newId now t ss db1 = ok (m2, db')"
    using Cons.prems(2) by (auto simp: and_then_eq_Inr)
  have new: "newId (sr_systemKey q) \<notin> set (map cr_id (st_roles db))" using Cons.prems(5) by simp
  note ids = seed_role_ids [OF one Cons.prems(4) new]
  have fresh: "newId (sr_systemKey s) \<notin> set (map cr_id (st_roles db1))" if "s \<in> set ss" for s
  proof -
    have "newId (sr_systemKey s) \<noteq> newId (sr_systemKey q)" using Cons.prems(6) that by (auto simp: rev_image_eqI)
    moreover have "newId (sr_systemKey s) \<notin> set (map cr_id (st_roles db))" using Cons.prems(5) that by simp
    ultimately show ?thesis using ids(2) by auto
  qed
  have "settled t s r db1"
    by (rule settled_kept [OF Cons.prems(1) one _ Cons.prems(4)]) (use Cons.prems(3) in simp)
  then show ?case
    by (rule Cons.IH [OF _ rest _ ids(1)]) (use Cons.prems(3,6) fresh in simp_all)
qed

lemma seed_roles_again:
  assumes "seed_roles dt newId now t ss db = ok (m, db')" and "separate_all ss" and "distinct (map cr_id (st_roles db))"
    and "\<And>s. s \<in> set ss \<Longrightarrow> newId (sr_systemKey s) \<notin> set (map cr_id (st_roles db))"
    and "distinct (map (\<lambda>s. newId (sr_systemKey s)) ss)"
  shows "seed_roles dt newId' now' t ss db' = ok (m, db')"
  using assms
proof (induction ss arbitrary: db m)
  case Nil
  then show ?case by simp
next
  case (Cons s ss)
  obtain m1 db1 m2 where one: "seed_role dt newId now t s db = ok (m1, db1)" and rest: "seed_roles dt newId now t ss db1 = ok (m2, db')"
    and m: "m = m1 @ m2"
    using Cons.prems(1) by (auto simp: and_then_eq_Inr)
  have new: "newId (sr_systemKey s) \<notin> set (map cr_id (st_roles db))" using Cons.prems(4) by simp
  note ids = seed_role_ids [OF one Cons.prems(3) new]
  have fresh: "newId (sr_systemKey q) \<notin> set (map cr_id (st_roles db1))" if "q \<in> set ss" for q
  proof -
    have "newId (sr_systemKey q) \<noteq> newId (sr_systemKey s)" using Cons.prems(5) that by (auto simp: rev_image_eqI)
    moreover have "newId (sr_systemKey q) \<notin> set (map cr_id (st_roles db))" using Cons.prems(4) that by simp
    ultimately show ?thesis using ids(2) by auto
  qed
  have sep: "list_all (separate s) ss" "separate_all ss" and dist: "distinct (map (\<lambda>s. newId (sr_systemKey s)) ss)"
    using Cons.prems(2,5) by simp_all
  have tail: "seed_roles dt newId' now' t ss db' = ok (m2, db')"
    by (rule Cons.IH [OF rest sep(2) ids(1) fresh dist])
  have head: "seed_role dt newId' now' t s db' = ok (m1, db')"
  proof (cases "skipped_for dt t s")
    case True
    then show ?thesis using one by (simp add: seed_role_eq)
  next
    case False
    obtain r where r: "settled t s r db1" and m1: "m1 = [(sr_systemKey s, cr_id r)]"
      by (rule seed_role_settles [OF one False])
    have "settled t s r db' \<and> distinct (map cr_id (st_roles db'))"
      by (rule settled_kept_all [OF r rest sep(1) ids(1) fresh dist])
    then show ?thesis using settled_seed [of t s r db' dt newId' now'] False m1 by simp
  qed
  show ?case by (simp add: head tail m)
qed

text \<open>Seeding the system roles of a tenant a second time changes nothing and answers the same identifiers, whatever
  identifiers and time the second run would use.\<close>

theorem seeding_idempotent:
  assumes "seedTenantRoles dt newId now t rdb = ok (m, rdb')" and "separate_all (rl_systemRoles rdb)"
    and "distinct (map cr_id (st_roles (rl_base rdb)))"
    and "\<And>s. s \<in> set (rl_systemRoles rdb) \<Longrightarrow> newId (sr_systemKey s) \<notin> set (map cr_id (st_roles (rl_base rdb)))"
    and "distinct (map (\<lambda>s. newId (sr_systemKey s)) (rl_systemRoles rdb))"
  shows "seedTenantRoles dt newId' now' t rdb' = ok (m, rdb')"
proof -
  obtain db' where s: "seed_roles dt newId now t (rl_systemRoles rdb) (rl_base rdb) = ok (m, db')" and rdb': "rdb' = rdb\<lparr> rl_base := db' \<rparr>"
    using assms(1) by (auto simp: seedTenantRoles_def and_then_eq_Inr)
  have "seed_roles dt newId' now' t (rl_systemRoles rdb) db' = ok (m, db')"
    by (rule seed_roles_again [OF s assms(2-5)])
  then show ?thesis by (simp add: seedTenantRoles_def rdb')
qed

theorem seeding_idempotent_witness:
  "\<exists>m rdb'. seedTenantRoles ''t'' id 1 ''x'' sample_roles = ok (m, rdb') \<and>
     seedTenantRoles ''t'' (\<lambda>_. []) 2 ''x'' rdb' = ok (m, rdb')"
proof -
  have "succeeds (seedTenantRoles ''t'' id 1 ''x'' sample_roles)" by code_simp
  then obtain m rdb' where s: "seedTenantRoles ''t'' id 1 ''x'' sample_roles = ok (m, rdb')"
    unfolding succeeds_iff split_paired_Ex by (elim exE)
  have "separate_all (rl_systemRoles sample_roles)" "distinct (map cr_id (st_roles (rl_base sample_roles)))"
    "list_all (\<lambda>s. id (sr_systemKey s) \<notin> set (map cr_id (st_roles (rl_base sample_roles)))) (rl_systemRoles sample_roles)"
    "distinct (map (\<lambda>s. id (sr_systemKey s)) (rl_systemRoles sample_roles))"
    by code_simp+
  then have "seedTenantRoles ''t'' (\<lambda>_. []) 2 ''x'' rdb' = ok (m, rdb')"
    unfolding list_all_iff by (intro seeding_idempotent [OF s]) blast+
  with s show ?thesis by blast
qed

section \<open>How far a local administrator reaches\<close>

text \<open>Nothing given, or the branch of the actor.\<close>

definition own_or_shared :: "auth_user \<Rightarrow> uuid option \<Rightarrow> bool" where
  "own_or_shared user b = (\<not> truthy b \<or> b = a_branchId user)"

lemma branch_access_own:
  "branch_access_if (Some user) b act = ok () \<Longrightarrow> \<not> isTenantAdmin user \<Longrightarrow> own_or_shared user b"
  by (auto simp: branch_access_if_def validateBranchAccess_def getUserAssignedBranchIds_def own_or_shared_def Let_def truthy_def
      split: if_splits option.splits)

lemma each_ok_iff: "each_ok check rs = ok () \<longleftrightarrow> (\<forall>r \<in> set rs. check r = ok ())"
  by (simp add: each_ok_def checks_ok)

lemma assignment_checks_own:
  assumes "assignment_checks jp (Some user) rs u = ok ()" and "\<not> isTenantAdmin user"
  shows "own_or_shared user (us_branchId u) \<and> (\<forall>r \<in> set rs. own_or_shared user (cr_branchId r))"
proof -
  have "branch_access_if (Some user) (us_branchId u) ''assign roles to users'' = ok ()"
    and roles: "\<forall>r \<in> set rs. truthy (cr_branchId r) \<longrightarrow> or_empty (cr_branchId r) \<in> set (getUserAssignedBranchIds user)"
    using assms unfolding assignment_checks_def by (auto simp: each_ok_iff)
  moreover have "own_or_shared user b" if "truthy b \<longrightarrow> or_empty b \<in> set (getUserAssignedBranchIds user)" for b
    using that by (auto simp: own_or_shared_def getUserAssignedBranchIds_def truthy_def split: if_splits option.splits)
  ultimately show ?thesis using branch_access_own assms(2) by blast
qed



end
