(* ===== verification/Tenants.thy ===== *)
theory Tenants
  imports RoleSeeding Tracker
begin

text \<open>
  The life of a tenant, \<^verbatim>\<open>src/src/auth/services/auth-tenant.service.ts\<close>: registration and manual
  creation, approval, changes of name, subdomain and capacity, further domain names and their
  verification, and the endpoints of \<^verbatim>\<open>auth.controller.ts\<close> that reach them.  The service runs its queries
  one by one without a transaction, except for \<^verbatim>\<open>updateTenant\<close>: an operation that can fail between two
  writes is a function to an outcome together with the state as it is then.  Keycloak, the mail
  service and DNS answer through arguments.  Names of people are kept as the full name only.
\<close>

section \<open>State\<close>

record tenant_domain =
  td_id :: nat
  td_tenantId :: uuid
  td_domainName :: string
  td_isPrimary :: bool
  td_verificationStatus :: string
  td_sslStatus :: string
  td_createdAt :: int

record tenant_db =
  tb_roles :: role_db
  tb_domains :: "tenant_domain list"

abbreviation tb_store :: "tenant_db \<Rightarrow> store" where
  "tb_store db \<equiv> rl_base (tb_roles db)"

definition on_store :: "(store \<Rightarrow> store) \<Rightarrow> tenant_db \<Rightarrow> tenant_db" where
  "on_store f db = db\<lparr> tb_roles := (tb_roles db)\<lparr> rl_base := f (tb_store db) \<rparr> \<rparr>"

text \<open>A query that is committed before the next one: its failure leaves the state as it was.\<close>

definition committed :: "('a \<times> 's) result \<Rightarrow> 's \<Rightarrow> ('a \<Rightarrow> 's \<Rightarrow> 'b result \<times> 's) \<Rightarrow> 'b result \<times> 's" where
  "committed m s k = (case m of Inl e \<Rightarrow> (throw e, s) | Inr (x, s') \<Rightarrow> k x s')"

definition update_tenants :: "(tenant \<Rightarrow> bool) \<Rightarrow> (tenant \<Rightarrow> tenant) \<Rightarrow> tenant_db \<Rightarrow> tenant_db" where
  "update_tenants p f = on_store (\<lambda>st. st\<lparr> st_tenants := update_where p f (st_tenants st) \<rparr>)"

text \<open>The range of a column of type \<^verbatim>\<open>integer\<close>.\<close>

definition int4 :: "int \<Rightarrow> bool" where
  "int4 n = (- 2147483648 \<le> n \<and> n \<le> 2147483647)"

section \<open>Subdomains and prefixes\<close>

definition lower_alnum :: "char \<Rightarrow> bool" where
  "lower_alnum c = (let n = (of_char c :: nat) in (97 \<le> n \<and> n \<le> 122) \<or> (48 \<le> n \<and> n \<le> 57))"

definition alnum :: "char \<Rightarrow> bool" where
  "alnum c = (lower_alnum c \<or> (let n = (of_char c :: nat) in 65 \<le> n \<and> n \<le> 90))"

text \<open>\<^verbatim>\<open>/^[a-z0-9-]+$/\<close>, and the stricter pattern of an update with its reserved names.\<close>

definition is_subdomain :: "string \<Rightarrow> bool" where
  "is_subdomain s = (s \<noteq> [] \<and> list_all (\<lambda>c. lower_alnum c \<or> c = CHR ''-'') s)"

definition RESERVED_SUBDOMAINS :: "string list" where
  "RESERVED_SUBDOMAINS = [''www'', ''api'', ''auth'', ''admin'', ''mail'', ''app'', ''localhost'']"

definition is_host_label :: "string \<Rightarrow> bool" where
  "is_host_label s = (is_subdomain s \<and> length s \<le> 63 \<and> hd s \<noteq> CHR ''-'' \<and> last s \<noteq> CHR ''-''
     \<and> s \<notin> set RESERVED_SUBDOMAINS)"

text \<open>Whether a name is taken by a tenant or by a further domain; the comparison is exact.\<close>

definition domain_taken :: "string \<Rightarrow> tenant_db \<Rightarrow> bool" where
  "domain_taken s db = (list_ex (\<lambda>t. tn_domain t = Some s) (st_tenants (tb_store db))
     \<or> list_ex (\<lambda>d. td_domainName d = s) (tb_domains db))"

definition email_taken :: "string \<Rightarrow> tenant_db \<Rightarrow> bool" where
  "email_taken e db = list_ex (\<lambda>u. us_email u = e) (st_users (tb_store db))"

definition base_prefix :: "string \<Rightarrow> string" where
  "base_prefix companyName =
    (let basePrefix = upper (take 4 (filter alnum companyName))
     in if length basePrefix < 2 then ''COMP'' else basePrefix)"

text \<open>
  The loop \<^verbatim>\<open>while (true)\<close> that looks for an unused prefix: one query per candidate, the counter
  going up.  Nothing in the loop bounds it, so it is a partial function: \<open>None\<close> is a search that never ends.
\<close>

partial_function (option) free_prefix :: "tenant list \<Rightarrow> string \<Rightarrow> string \<Rightarrow> nat \<Rightarrow> string option" where
  "free_prefix tenants basePrefix prefixCode counter =
    (if \<not> list_ex (\<lambda>t. tn_prefixCode t = Some prefixCode) tenants then Some prefixCode
     else free_prefix tenants basePrefix (take 3 basePrefix @ decimal counter) (Suc counter))"

declare free_prefix.simps [code]

section \<open>Registration\<close>

text \<open>What the outside gives to a registration: the identifiers the database generates, the clock,
  whether Keycloak provisions the account, and whether the mail service takes the message.\<close>

record onboarding =
  ob_tenantId :: uuid
  ob_userId :: uuid
  ob_domainId :: nat
  ob_roleId :: "string \<Rightarrow> uuid"
  ob_now :: int
  ob_defaultTenant :: uuid
  ob_provision :: "string \<Rightarrow> unit result"
  ob_mailAccepted :: bool

definition insert_tenant :: "tenant \<Rightarrow> tenant_db \<Rightarrow> (unit \<times> tenant_db) result" where
  "insert_tenant t db =
    (if 255 < length (tn_name t) \<or> 255 < length (or_empty (tn_domain t)) \<or> 10 < length (or_empty (tn_prefixCode t))
     then throw (InternalError ''22001'')
     else if \<not> int4 (tn_userLimit t) \<or> \<not> int4 (tn_maxBranches t) then throw (InternalError ''22003'')
     else if list_ex (\<lambda>q. tn_id q = tn_id t \<or> (tn_domain t \<noteq> None \<and> tn_domain q = tn_domain t)
         \<or> (tn_prefixCode t \<noteq> None \<and> tn_prefixCode q = tn_prefixCode t)) (st_tenants (tb_store db))
     then throw (InternalError ''23505'')
     else ok ((), on_store (\<lambda>st. st\<lparr> st_tenants := st_tenants st @ [t] \<rparr>) db))"

definition insert_domain :: "tenant_domain \<Rightarrow> tenant_db \<Rightarrow> (unit \<times> tenant_db) result" where
  "insert_domain d db =
    (if 255 < length (td_domainName d) then throw (InternalError ''22001'')
     else if list_ex (\<lambda>q. td_id q = td_id d \<or> td_domainName q = td_domainName d) (tb_domains db)
     then throw (InternalError ''23505'')
     else if tenant_by (td_tenantId d) (tb_store db) = None then throw (InternalError ''23503'')
     else ok ((), db\<lparr> tb_domains := tb_domains db @ [d] \<rparr>))"

definition insert_user :: "user \<Rightarrow> tenant_db \<Rightarrow> (unit \<times> tenant_db) result" where
  "insert_user u db =
    (if 255 < length (us_email u) \<or> 255 < length (us_fullName u) then throw (InternalError ''22001'')
     else if list_ex (\<lambda>q. us_id q = us_id u \<or> (us_tenantId q = us_tenantId u \<and> us_email q = us_email u)) (st_users (tb_store db))
     then throw (InternalError ''23505'')
     else if tenant_by (us_tenantId u) (tb_store db) = None
       \<or> \<not> if_given (us_roleId u) (\<lambda>r. role_by_id r (tb_store db) \<noteq> None) then throw (InternalError ''23503'')
     else ok ((), on_store (\<lambda>st. st\<lparr> st_users := st_users st @ [u] \<rparr>) db))"

definition seed_tenant :: "onboarding \<Rightarrow> tenant_db \<Rightarrow> ((string \<times> uuid) list \<times> tenant_db) result" where
  "seed_tenant ob db =
    and_then (seedTenantRoles (ob_defaultTenant ob) (ob_roleId ob) (ob_now ob) (ob_tenantId ob) (tb_roles db))
      (\<lambda>(m, rdb). ok (m, db\<lparr> tb_roles := rdb \<rparr>))"

text \<open>\<^verbatim>\<open>split(/\s+/)\<close>: the words between runs of space, with an empty one where the text begins or ends with a run.\<close>

function words :: "string \<Rightarrow> string list" where
  "words s = (let w = takeWhile (\<lambda>c. \<not> is_space c) s; r = dropWhile (\<lambda>c. \<not> is_space c) s
     in if r = [] then [w] else w # words (dropWhile is_space r))"
  by pat_completeness auto

termination
proof (relation "measure length")
  fix s w r :: string
  assume r: "r = dropWhile (\<lambda>c. \<not> is_space c) s" and ne: "r \<noteq> []"
  have "is_space (hd r)"
    using dropWhile_hd [of "\<lambda>c. \<not> is_space c" s] ne by (simp add: r)
  then have "dropWhile is_space r = dropWhile is_space (tl r)"
    using ne by (cases r) simp_all
  then have "length (dropWhile is_space r) \<le> length (tl r)"
    by (simp only: length_dropWhile_le)
  moreover have "length (tl r) < length r" using ne by simp
  moreover have "length r \<le> length s" by (simp add: r length_dropWhile_le)
  ultimately show "(dropWhile is_space r, s) \<in> measure length" by simp
qed simp

declare words.simps [simp del]

primrec joined_by :: "string \<Rightarrow> string list \<Rightarrow> string" where
  "joined_by sep [] = []"
| "joined_by sep (x # xs) = (if xs = [] then x else x @ sep @ joined_by sep xs)"

text \<open>The account of the first administrator.\<close>

definition admin_user :: "onboarding \<Rightarrow> string \<Rightarrow> string \<Rightarrow> bool \<Rightarrow> uuid option \<Rightarrow> user" where
  "admin_user ob email fullName approved adminRoleId =
    \<lparr> us_id = ob_userId ob, us_tenantId = ob_tenantId ob, us_email = email, us_fullName = fullName,
      us_isActive = True, us_isApproved = approved, us_profilePicture = None, us_roleId = adminRoleId,
      us_assignedRoleIds = (case adminRoleId of None \<Rightarrow> [] | Some r \<Rightarrow> [r]), us_branchId = None,
      us_businessUnitId = None, us_podId = None, us_jobReviewerId = None, us_createdAt = ob_now ob,
      us_branchRoles = [] \<rparr>"

definition primary_domain :: "onboarding \<Rightarrow> string \<Rightarrow> tenant_domain" where
  "primary_domain ob subdomain =
    \<lparr> td_id = ob_domainId ob, td_tenantId = ob_tenantId ob, td_domainName = subdomain, td_isPrimary = True,
      td_verificationStatus = ''VERIFIED'', td_sslStatus = ''ACTIVE'', td_createdAt = ob_now ob \<rparr>"

text \<open>\<^verbatim>\<open>roleMap['TENANT_ADMIN'] || roleMap['ADMIN'] || null\<close>; a key written twice keeps its last value.\<close>

definition admin_role_id :: "(string \<times> uuid) list \<Rightarrow> uuid option" where
  "admin_role_id roleMap = (let roles = map_of (rev roleMap)
     in if truthy (roles ''TENANT_ADMIN'') then roles ''TENANT_ADMIN''
        else if truthy (roles ''ADMIN'') then roles ''ADMIN'' else None)"

record registered =
  rd_mailAccepted :: bool
  rd_tenant :: tenant
  rd_user :: user

text \<open>The writes the two ways to create a tenant share, each committed before the next.  \<open>first\<close> and \<open>rest\<close>
  are the first and last name, whose columns bound them.\<close>

definition onboard ::
  "onboarding \<Rightarrow> tenant \<Rightarrow> string \<Rightarrow> string \<Rightarrow> string \<Rightarrow> string \<Rightarrow> bool \<Rightarrow> tenant_db \<Rightarrow> registered result \<times> tenant_db" where
  "onboard ob tenant email firstName lastName fullName approved db =
    committed (insert_tenant tenant db) db (\<lambda>_ db1.
    committed (insert_domain (primary_domain ob (or_empty (tn_domain tenant))) db1) db1 (\<lambda>_ db2.
    committed (seed_tenant ob db2) db2 (\<lambda>roleMap db3.
    let user = admin_user ob email fullName approved (admin_role_id roleMap)
    in committed (if 128 < length firstName \<or> 128 < length lastName then throw (InternalError ''22001'')
                  else insert_user user db3) db3 (\<lambda>_ db4.
       (and_then (ob_provision ob email) (\<lambda>_.
          ok \<lparr> rd_mailAccepted = ob_mailAccepted ob, rd_tenant = tenant, rd_user = user \<rparr>), db4)))))"

definition prefix_for :: "string \<Rightarrow> tenant_db \<Rightarrow> string option" where
  "prefix_for companyName db =
     free_prefix (st_tenants (tb_store db)) (base_prefix companyName) (base_prefix companyName) 1"

record registration =
  rg_companyName :: string
  rg_email :: string
  rg_fullName :: string
  rg_password :: string
  rg_subdomain :: string

definition registration_checks :: "registration \<Rightarrow> tenant_db \<Rightarrow> unit result" where
  "registration_checks dto db =
    (let companyName = trim (rg_companyName dto); email = lower (trim (rg_email dto));
         fullName = trim (rg_fullName dto); emailParts = split_on CHR ''@'' email
     in checks
      [refuse (companyName = [] \<or> email = [] \<or> fullName = [] \<or> rg_password dto = [])
         (BadRequest ''All fields (company name, email, full name, password) are required.''),
       refuse (length companyName < 2) (BadRequest ''Company name must be at least 2 characters.''),
       refuse (length fullName < 2) (BadRequest ''Full name must be at least 2 characters.''),
       refuse (length emailParts \<noteq> 2 \<or> emailParts ! 0 = [] \<or> emailParts ! 1 = [])
         (BadRequest ''Invalid email address format.''),
       refuse (length (rg_password dto) < 8) (BadRequest ''Password must be at least 8 characters.''),
       refuse (\<not> is_subdomain (rg_subdomain dto))
         (BadRequest ''Subdomain must contain only lowercase letters, numbers, and hyphens.''),
       refuse (domain_taken (rg_subdomain dto) db)
         (Conflict (''Subdomain \"'' @ rg_subdomain dto @ ''\" is already taken. Please choose another.'')),
       refuse (email_taken email db) (Conflict (''Email \"'' @ email @ ''\" is already registered.''))])"

definition new_tenant :: "onboarding \<Rightarrow> string \<Rightarrow> string \<Rightarrow> string \<Rightarrow> string \<Rightarrow> int \<Rightarrow> int \<Rightarrow> tenant" where
  "new_tenant ob companyName subdomain status prefixCode userLimit maxBranches =
    \<lparr> tn_id = ob_tenantId ob, tn_name = companyName, tn_domain = Some subdomain, tn_maxBranches = maxBranches,
      tn_podSystemEnabled = True, tn_status = status, tn_defaultMarket = ''US'', tn_userLimit = userLimit,
      tn_prefixCode = Some prefixCode \<rparr>"

text \<open>The result is \<open>None\<close> when the search for a prefix does not end.\<close>

definition registerTenant :: "onboarding \<Rightarrow> registration \<Rightarrow> tenant_db \<Rightarrow> (registered result \<times> tenant_db) option" where
  "registerTenant ob dto db =
    (case registration_checks dto db of
       Inl e \<Rightarrow> Some (throw e, db)
     | Inr _ \<Rightarrow>
        (let companyName = trim (rg_companyName dto); fullName = trim (rg_fullName dto)
         in case prefix_for companyName db of
              None \<Rightarrow> None
            | Some prefixCode \<Rightarrow>
                Some (onboard ob (new_tenant ob companyName (rg_subdomain dto) ''PENDING'' prefixCode 5 5)
                  (lower (trim (rg_email dto))) (hd (words fullName)) (joined_by '' '' (tl (words fullName))) fullName False db)))"

record manual_tenant =
  mt_companyName :: string
  mt_subdomain :: string
  mt_adminFirstName :: string
  mt_adminLastName :: string
  mt_adminEmail :: string
  mt_adminPassword :: "string option"
  mt_userLimit :: "int option"
  mt_maxBranches :: "int option"

text \<open>\<^verbatim>\<open>n || d\<close> on a number that may be missing.\<close>

definition number_or :: "int option \<Rightarrow> int \<Rightarrow> int" where
  "number_or n d = (case n of None \<Rightarrow> d | Some k \<Rightarrow> if k = 0 then d else k)"

definition manual_checks :: "manual_tenant \<Rightarrow> tenant_db \<Rightarrow> unit result" where
  "manual_checks dto db =
    (let email = lower (trim (mt_adminEmail dto))
     in checks
      [refuse (length (or_empty (mt_adminPassword dto)) < 8)
         (BadRequest ''Admin password is required and must be at least 8 characters.''),
       refuse (\<not> is_subdomain (mt_subdomain dto))
         (BadRequest ''Subdomain must contain only lowercase letters, numbers, and hyphens.''),
       refuse (domain_taken (mt_subdomain dto) db)
         (Conflict (''Subdomain \"'' @ mt_subdomain dto @ ''\" is already taken.'')),
       refuse (email_taken email db) (Conflict (''Email \"'' @ email @ ''\" is already registered.''))])"

definition createManualTenant :: "onboarding \<Rightarrow> manual_tenant \<Rightarrow> tenant_db \<Rightarrow> (registered result \<times> tenant_db) option" where
  "createManualTenant ob dto db =
    (case manual_checks dto db of
       Inl e \<Rightarrow> Some (throw e, db)
     | Inr _ \<Rightarrow>
        (let companyName = trim (mt_companyName dto);
             firstName = trim (mt_adminFirstName dto); lastName = trim (mt_adminLastName dto)
         in case prefix_for companyName db of
              None \<Rightarrow> None
            | Some prefixCode \<Rightarrow>
                Some (onboard ob (new_tenant ob companyName (mt_subdomain dto) ''ACTIVE'' prefixCode
                    (number_or (mt_userLimit dto) 20) (number_or (mt_maxBranches dto) 5))
                  (lower (trim (mt_adminEmail dto))) firstName lastName (trim (firstName @ '' '' @ lastName)) True db)))"

section \<open>Changing a tenant\<close>

text \<open>The body of an update as it arrives; \<open>None\<close> is an absent field.  An integer arrives as JavaScript
  prints it.\<close>

record tenant_update =
  tu_name :: "json option"
  tu_subdomain :: "json option"
  tu_userLimit :: "json option"
  tu_maxBranches :: "json option"

record tenant_data =
  dt_name :: "string option"
  dt_domain :: "string option"
  dt_userLimit :: "int option"
  dt_maxBranches :: "int option"

definition safe_integer :: "json \<Rightarrow> int option" where
  "safe_integer v = (case v of
      JNum s \<Rightarrow>
       (let negative = (s \<noteq> [] \<and> hd s = CHR ''-''); ds = (if negative then tl s else s);
            n = (if negative then - digits_value ds else digits_value ds)
        in if ds \<noteq> [] \<and> list_all is_digit ds \<and> \<bar>n\<bar> \<le> 9007199254740991 then Some n else None)
    | _ \<Rightarrow> None)"

definition capacity :: "string \<Rightarrow> json option \<Rightarrow> int option result" where
  "capacity what v = (case v of
      None \<Rightarrow> ok None
    | Some j \<Rightarrow> (case safe_integer j of
         Some n \<Rightarrow> if n < 1 \<or> 2147483647 < n then throw (BadRequest (what @ '' must be a positive integer.'')) else ok (Some n)
       | None \<Rightarrow> throw (BadRequest (what @ '' must be a positive integer.''))))"

definition tenant_name :: "json option \<Rightarrow> string option result" where
  "tenant_name v = (case v of
      None \<Rightarrow> ok None
    | Some (JStr s) \<Rightarrow> if trim s = [] \<or> 255 < length (trim s)
        then throw (BadRequest ''Company name must contain 1 to 255 characters.'') else ok (Some (trim s))
    | Some _ \<Rightarrow> throw (BadRequest ''Company name must contain 1 to 255 characters.''))"

definition tenant_subdomain :: "json option \<Rightarrow> string option result" where
  "tenant_subdomain v = (case v of
      None \<Rightarrow> ok None
    | Some (JStr s) \<Rightarrow> (let domain = lower (trim s)
        in if \<not> is_host_label domain
           then throw (BadRequest ''Use a valid subdomain of up to 63 letters, numbers, or hyphens. This name may be reserved.'')
           else ok (Some domain))
    | Some _ \<Rightarrow> throw (BadRequest ''Invalid subdomain.''))"

definition tenant_changes :: "tenant_update \<Rightarrow> tenant_data result" where
  "tenant_changes dto =
    and_then (tenant_name (tu_name dto)) (\<lambda>name.
    and_then (tenant_subdomain (tu_subdomain dto)) (\<lambda>domain.
    and_then (capacity ''Seat capacity'' (tu_userLimit dto)) (\<lambda>userLimit.
    and_then (capacity ''Branch capacity'' (tu_maxBranches dto)) (\<lambda>maxBranches.
      if name = None \<and> domain = None \<and> userLimit = None \<and> maxBranches = None
      then throw (BadRequest ''No tenant changes supplied.'')
      else ok \<lparr> dt_name = name, dt_domain = domain, dt_userLimit = userLimit, dt_maxBranches = maxBranches \<rparr>))))"

definition domain_conflict :: "uuid \<Rightarrow> string \<Rightarrow> tenant_db \<Rightarrow> bool" where
  "domain_conflict tenantId domain db =
    (list_ex (\<lambda>t. tn_id t \<noteq> tenantId \<and> (case tn_domain t of Some d \<Rightarrow> same_name d domain | None \<Rightarrow> False)) (st_tenants (tb_store db))
     \<or> list_ex (\<lambda>d. td_tenantId d \<noteq> tenantId \<and> same_name (td_domainName d) domain) (tb_domains db))"

definition subdomain_taken :: http_error where
  "subdomain_taken = Conflict ''Subdomain is already taken by another company.''"

definition capacity_checks :: "uuid \<Rightarrow> tenant_data \<Rightarrow> store \<Rightarrow> unit result" where
  "capacity_checks tenantId data st =
    (let activeUsers = active_users tenantId st; branches = count_where (\<lambda>b. br_tenantId b = tenantId) (st_branches st)
     in checks
      [refuse (case dt_userLimit data of Some n \<Rightarrow> n < int activeUsers | None \<Rightarrow> False)
         (BadRequest (''Seat capacity cannot be below the '' @ decimal activeUsers @ '' active approved users.'')),
       refuse (case dt_maxBranches data of Some n \<Rightarrow> n < int branches | None \<Rightarrow> False)
         (BadRequest (''Branch capacity cannot be below the '' @ decimal branches @ '' existing branches.''))])"

definition tenant_row :: "tenant_data \<Rightarrow> tenant \<Rightarrow> tenant" where
  "tenant_row data t = t\<lparr>
     tn_name := (case dt_name data of Some n \<Rightarrow> n | None \<Rightarrow> tn_name t),
     tn_domain := (case dt_domain data of Some d \<Rightarrow> Some d | None \<Rightarrow> tn_domain t),
     tn_userLimit := (case dt_userLimit data of Some n \<Rightarrow> n | None \<Rightarrow> tn_userLimit t),
     tn_maxBranches := (case dt_maxBranches data of Some n \<Rightarrow> n | None \<Rightarrow> tn_maxBranches t) \<rparr>"

text \<open>The routing rows after a change of domain: an own alias of that name goes, the primary row takes the
  name; a name that another row still has violates the unique index.\<close>

definition move_primary :: "nat \<Rightarrow> int \<Rightarrow> uuid \<Rightarrow> string \<Rightarrow> tenant_domain list \<Rightarrow> tenant_domain list result" where
  "move_primary newId now tenantId domain rows =
    (let primary = find_first (\<lambda>d. td_tenantId d = tenantId \<and> td_isPrimary d) rows;
         ownAlias = find_first (\<lambda>d. td_tenantId d = tenantId \<and> td_domainName d = domain \<and> \<not> td_isPrimary d) rows;
         rest = (case ownAlias of Some a \<Rightarrow> delete_where (\<lambda>d. td_id d = td_id a) rows | None \<Rightarrow> rows)
     in case primary of
          Some p \<Rightarrow>
            if list_ex (\<lambda>d. td_domainName d = domain \<and> td_id d \<noteq> td_id p) rest then throw subdomain_taken
            else ok (update_where (\<lambda>d. td_id d = td_id p) (\<lambda>d. d\<lparr> td_domainName := domain \<rparr>) rest)
        | None \<Rightarrow>
            if list_ex (\<lambda>d. td_domainName d = domain) rest then throw subdomain_taken
            else ok (rest @ [\<lparr> td_id = newId, td_tenantId = tenantId, td_domainName = domain, td_isPrimary = True,
              td_verificationStatus = ''VERIFIED'', td_sslStatus = ''ACTIVE'', td_createdAt = now \<rparr>]))"

definition updateTenant :: "nat \<Rightarrow> int \<Rightarrow> uuid \<Rightarrow> tenant_update \<Rightarrow> tenant_db \<Rightarrow> (tenant \<times> tenant_db) result" where
  "updateTenant newId now tenantId dto db =
    and_then (tenant_changes dto) (\<lambda>data.
    case tenant_by tenantId (tb_store db) of
      None \<Rightarrow> throw (NotFound ''Tenant not found.'')
    | Some t \<Rightarrow>
       (let moved = (case dt_domain data of None \<Rightarrow> None | Some d \<Rightarrow> if tn_domain t = Some d then None else Some d)
        in and_then (case moved of Some d \<Rightarrow> refuse (domain_conflict tenantId d db) subdomain_taken | None \<Rightarrow> ok ()) (\<lambda>_.
           and_then (capacity_checks tenantId data (tb_store db)) (\<lambda>_.
           let updated = update_tenants (\<lambda>q. tn_id q = tenantId) (tenant_row data) db
           in and_then (case moved of Some d \<Rightarrow> move_primary newId now tenantId d (tb_domains db) | None \<Rightarrow> ok (tb_domains db)) (\<lambda>rows.
              ok (tenant_row data t, updated\<lparr> tb_domains := rows \<rparr>))))))"

definition no_changes :: tenant_update where
  "no_changes = \<lparr> tu_name = None, tu_subdomain = None, tu_userLimit = None, tu_maxBranches = None \<rparr>"

definition updateTenantUserLimit :: "nat \<Rightarrow> int \<Rightarrow> uuid \<Rightarrow> json option \<Rightarrow> tenant_db \<Rightarrow> (tenant \<times> tenant_db) result" where
  "updateTenantUserLimit newId now tenantId limit = updateTenant newId now tenantId (no_changes\<lparr> tu_userLimit := limit \<rparr>)"

definition updateTenantBranchLimit :: "nat \<Rightarrow> int \<Rightarrow> uuid \<Rightarrow> json option \<Rightarrow> tenant_db \<Rightarrow> (tenant \<times> tenant_db) result" where
  "updateTenantBranchLimit newId now tenantId limit = updateTenant newId now tenantId (no_changes\<lparr> tu_maxBranches := limit \<rparr>)"

definition updateTenantSubdomain :: "nat \<Rightarrow> int \<Rightarrow> uuid \<Rightarrow> json option \<Rightarrow> tenant_db \<Rightarrow> (string option \<times> tenant_db) result" where
  "updateTenantSubdomain newId now tenantId subdomain db =
    and_then (updateTenant newId now tenantId (no_changes\<lparr> tu_subdomain := subdomain \<rparr>) db) (\<lambda>(t, db'). ok (tn_domain t, db'))"

definition updateTenantStatus :: "uuid \<Rightarrow> string \<Rightarrow> tenant_db \<Rightarrow> (string \<times> tenant_db) result" where
  "updateTenantStatus tenantId status db =
    (let given = trim (upper status); upperStatus = (if given = ''SUSPENDED'' then ''INACTIVE'' else given)
     in if upperStatus \<notin> {''ACTIVE'', ''INACTIVE'', ''PENDING''}
        then throw (BadRequest ''Invalid tenant status. Must be ACTIVE, INACTIVE, or PENDING.'')
        else ok (upperStatus, update_tenants (\<lambda>t. tn_id t = tenantId) (\<lambda>t. t\<lparr> tn_status := upperStatus \<rparr>) db))"

definition updateTenantMarket :: "uuid \<Rightarrow> string \<Rightarrow> tenant_db \<Rightarrow> (string \<times> tenant_db) result" where
  "updateTenantMarket tenantId market db =
    (if market \<noteq> ''US'' \<and> market \<noteq> ''IN'' then throw (BadRequest ''Invalid market type. Must be US or IN.'')
     else ok (market, update_tenants (\<lambda>t. tn_id t = tenantId) (\<lambda>t. t\<lparr> tn_defaultMarket := market \<rparr>) db))"

section \<open>Approval\<close>

datatype mail_status = Accepted | Failed | Disabled

definition mail_result :: "bool \<Rightarrow> mail_status" where
  "mail_result accepted = (if accepted then Accepted else Failed)"

text \<open>A limit that is not a positive number is not written; one beyond the column fails.\<close>

definition approve_limit :: "int option \<Rightarrow> (int \<Rightarrow> tenant \<Rightarrow> tenant) \<Rightarrow> uuid \<Rightarrow> tenant_db \<Rightarrow> (unit \<times> tenant_db) result" where
  "approve_limit limit write tenantId db = (case limit of
      None \<Rightarrow> ok ((), db)
    | Some n \<Rightarrow> if n \<le> 0 then ok ((), db) else if \<not> int4 n then throw (InternalError ''22003'')
        else ok ((), update_tenants (\<lambda>t. tn_id t = tenantId) (write n) db))"

definition approveUser ::
  "nat \<Rightarrow> int \<Rightarrow> bool \<Rightarrow> uuid \<Rightarrow> string \<Rightarrow> string option \<Rightarrow> int option \<Rightarrow> int option \<Rightarrow> tenant_db
    \<Rightarrow> (uuid \<times> mail_status) result \<times> tenant_db" where
  "approveUser newId now mailAccepted userId market subdomain userLimit maxBranches db =
    (case find_first (\<lambda>u. us_id u = userId) (st_users (tb_store db)) of
       None \<Rightarrow> (throw (NotFound (''User with ID '' @ userId @ '' was not found.'')), db)
     | Some u \<Rightarrow>
        (let tenantId = us_tenantId u;
             approved = on_store (\<lambda>st. st\<lparr> st_users := update_where (\<lambda>q. us_id q = userId \<and> \<not> us_isApproved q)
               (\<lambda>q. q\<lparr> us_isApproved := True, us_isActive := True \<rparr>) (st_users st) \<rparr>) db;
             active = update_tenants (\<lambda>t. tn_id t = tenantId) (\<lambda>t. t\<lparr> tn_status := ''ACTIVE'' \<rparr>) approved;
             placed = (if market = ''US'' \<or> market = ''IN''
               then update_tenants (\<lambda>t. tn_id t = tenantId) (\<lambda>t. t\<lparr> tn_defaultMarket := market \<rparr>) active else active)
         in committed (approve_limit userLimit (\<lambda>n t. t\<lparr> tn_userLimit := n \<rparr>) tenantId placed) placed (\<lambda>_ db1.
            committed (approve_limit maxBranches (\<lambda>n t. t\<lparr> tn_maxBranches := n \<rparr>) tenantId db1) db1 (\<lambda>_ db2.
            committed (if trim (or_empty subdomain) \<noteq> []
                then updateTenantSubdomain newId now tenantId (Some (JStr (trim (or_empty subdomain)))) db2
                else ok (None, db2)) db2 (\<lambda>_ db3.
              (ok (tenantId, if us_isApproved u then Disabled
                   else if tenant_by tenantId (tb_store db3) = None then Failed else mail_result mailAccepted), db3))))))"

section \<open>Further domain names\<close>

record domain_view =
  dv_id :: nat
  dv_domainName :: string
  dv_isPrimary :: bool
  dv_verificationStatus :: string
  dv_sslStatus :: string
  dv_createdAt :: int

definition view_domain :: "tenant_domain \<Rightarrow> domain_view" where
  "view_domain d = \<lparr> dv_id = td_id d, dv_domainName = td_domainName d, dv_isPrimary = td_isPrimary d,
     dv_verificationStatus = (if td_isPrimary d then ''VERIFIED'' else td_verificationStatus d),
     dv_sslStatus = (if td_isPrimary d then ''ACTIVE'' else td_sslStatus d), dv_createdAt = td_createdAt d \<rparr>"

definition getTenantDomains :: "uuid \<Rightarrow> tenant_db \<Rightarrow> domain_view list" where
  "getTenantDomains tenantId db =
     map view_domain (sort_key td_createdAt (find_many (\<lambda>d. td_tenantId d = tenantId) (tb_domains db)))"

text \<open>\<^verbatim>\<open>/^[a-z0-9.-]+$/\<close> without two dots in a row.\<close>

definition is_domain_text :: "string \<Rightarrow> bool" where
  "is_domain_text s = (s \<noteq> [] \<and> list_all (\<lambda>c. lower_alnum c \<or> c = CHR ''.'' \<or> c = CHR ''-'') s \<and> \<not> str_includes s ''..'')"

definition addTenantDomain :: "nat \<Rightarrow> int \<Rightarrow> uuid \<Rightarrow> string \<Rightarrow> tenant_db \<Rightarrow> (tenant_domain \<times> tenant_db) result" where
  "addTenantDomain newId now tenantId domainName db =
    (let normalizedDomain = trim (lower domainName);
         row = \<lparr> td_id = newId, td_tenantId = tenantId, td_domainName = normalizedDomain, td_isPrimary = False,
           td_verificationStatus = ''PENDING'', td_sslStatus = ''PENDING'', td_createdAt = now \<rparr>
     in if \<not> is_domain_text normalizedDomain
        then throw (BadRequest ''Invalid domain name format. Do not include http://, https://, or paths.'')
        else if list_ex (\<lambda>d. td_domainName d = normalizedDomain) (tb_domains db)
        then throw (Conflict ''Domain name is already registered by another workspace.'')
        else and_then (insert_domain row db) (\<lambda>(_, db'). ok (row, db')))"

definition deleteTenantDomain :: "uuid \<Rightarrow> nat \<Rightarrow> tenant_db \<Rightarrow> tenant_db result" where
  "deleteTenantDomain tenantId domainId db =
    (case find_first (\<lambda>d. td_id d = domainId \<and> td_tenantId d = tenantId) (tb_domains db) of
       None \<Rightarrow> throw (NotFound ''Domain mapping not found.'')
     | Some d \<Rightarrow>
        if td_isPrimary d then throw (BadRequest ''Cannot delete the primary subdomain of the company workspace.'')
        else ok (db\<lparr> tb_domains := delete_where (\<lambda>d. td_id d = domainId \<and> td_tenantId d = tenantId) (tb_domains db) \<rparr>))"

definition isDomainRegistered :: "string \<Rightarrow> tenant_db \<Rightarrow> bool" where
  "isDomainRegistered domainName db =
    (let normalized = trim (lower domainName)
     in normalized \<noteq> [] \<and>
        (list_ex (\<lambda>d. td_domainName d = normalized) (tb_domains db)
         \<or> list_ex (\<lambda>t. case tn_domain t of None \<Rightarrow> False
             | Some d \<Rightarrow> lower d = normalized \<or> lower (d @ ''.enfyjobs.com'') = normalized) (st_tenants (tb_store db))))"

text \<open>What DNS answers (\<open>None\<close>: the lookup fails) and the settings of the deployment.\<close>

record dns =
  dn_cname :: "string \<Rightarrow> string list option"
  dn_address :: "string \<Rightarrow> string list option"
  dn_production :: bool
  dn_baseDomain :: string
  dn_serverIp :: string

definition without_dot :: "string \<Rightarrow> string" where
  "without_dot s = (if s \<noteq> [] \<and> last s = CHR ''.'' then butlast s else s)"

definition points_here :: "dns \<Rightarrow> string \<Rightarrow> bool" where
  "points_here env name =
    ((case dn_cname env name of None \<Rightarrow> False
      | Some cnames \<Rightarrow> list_ex (\<lambda>c. suffix (lower (dn_baseDomain env)) (without_dot (lower c))) cnames)
     \<or> (case dn_address env name of None \<Rightarrow> False | Some ips \<Rightarrow> dn_serverIp env \<in> set ips))"

definition is_local_domain :: "dns \<Rightarrow> string \<Rightarrow> bool" where
  "is_local_domain env name = (suffix ''.local'' name \<or> str_includes name ''localhost''
     \<or> (\<not> dn_production env \<and> \<not> str_includes name ''.''))"

definition verifyCustomDomain :: "dns \<Rightarrow> uuid \<Rightarrow> string \<Rightarrow> tenant_db \<Rightarrow> (bool \<times> tenant_db) result" where
  "verifyCustomDomain env tenantId domainName db =
    (let normalized = trim (lower domainName)
     in if normalized = [] then throw (BadRequest ''Domain name is required.'')
        else case find_first (\<lambda>d. lower (td_domainName d) = normalized \<and> td_tenantId d = tenantId) (tb_domains db) of
          None \<Rightarrow> throw (NotFound ''Domain mapping not found.'')
        | Some d \<Rightarrow>
           (let verified = is_local_domain env normalized \<or> points_here env normalized;
                status = (if verified then ''VERIFIED'' else ''PENDING''); ssl = (if verified then ''ACTIVE'' else ''PENDING'')
            in ok (verified, db\<lparr> tb_domains := update_where (\<lambda>q. td_id q = td_id d)
                 (\<lambda>q. q\<lparr> td_verificationStatus := status, td_sslStatus := ssl \<rparr>) (tb_domains db) \<rparr>)))"

section \<open>Listings\<close>

record pending_approval =
  pa_id :: uuid
  pa_email :: string
  pa_fullName :: string
  pa_role :: string
  pa_createdAt :: int
  pa_tenantId :: uuid
  pa_tenantName :: string
  pa_defaultMarket :: string
  pa_tenantSubdomain :: string

text \<open>Accounts that wait in tenants that wait, the newest first.\<close>

definition listPendingApprovals :: "tenant_db \<Rightarrow> pending_approval list" where
  "listPendingApprovals db = (let st = tb_store db in
     concat (map (\<lambda>u. case tenant_by (us_tenantId u) st of
         None \<Rightarrow> []
       | Some t \<Rightarrow> if us_isApproved u \<or> tn_status t \<noteq> ''PENDING'' then []
           else [\<lparr> pa_id = us_id u, pa_email = us_email u, pa_fullName = us_fullName u,
             pa_role = (case user_role st u of Some r \<Rightarrow> cr_name r | None \<Rightarrow> ''Staff''), pa_createdAt = us_createdAt u,
             pa_tenantId = tn_id t, pa_tenantName = (if tn_name t = [] then ''N/A'' else tn_name t),
             pa_defaultMarket = (if tn_defaultMarket t = [] then ''US'' else tn_defaultMarket t),
             pa_tenantSubdomain = or_empty (tn_domain t) \<rparr>])
       (rev (sort_key us_createdAt (rev (st_users st))))))"

definition listTenants :: "tenant_db \<Rightarrow> tenant list" where
  "listTenants db = sort_key tn_name (st_tenants (tb_store db))"

section \<open>Endpoints\<close>

definition with_permission :: "string \<Rightarrow> auth_user \<Rightarrow> (uuid \<Rightarrow> 'a result) \<Rightarrow> 'a result" where
  "with_permission p user act =
    and_then (permissions_canActivate (Some [p]) (Some user)) (\<lambda>_. act (or_empty (a_tenantId user)))"

definition guarded_outcome :: "string \<Rightarrow> auth_user \<Rightarrow> ('a result \<times> 's) option \<Rightarrow> 's \<Rightarrow> ('a result \<times> 's) option" where
  "guarded_outcome p user act s = (case permissions_canActivate (Some [p]) (Some user) of
      Inl e \<Rightarrow> Some (throw e, s) | Inr _ \<Rightarrow> act)"

definition approvals_pending :: "auth_user \<Rightarrow> tenant_db \<Rightarrow> pending_approval list result" where
  "approvals_pending user db = with_permission ''platform:manage'' user (\<lambda>_. ok (listPendingApprovals db))"

definition approvals_approve ::
  "nat \<Rightarrow> int \<Rightarrow> bool \<Rightarrow> uuid \<Rightarrow> string \<Rightarrow> string option \<Rightarrow> int option \<Rightarrow> int option \<Rightarrow> auth_user \<Rightarrow> tenant_db
    \<Rightarrow> ((uuid \<times> mail_status) result \<times> tenant_db) option" where
  "approvals_approve newId now mailAccepted userId market subdomain userLimit maxBranches user db =
    guarded_outcome ''platform:manage'' user
      (Some (approveUser newId now mailAccepted userId market subdomain userLimit maxBranches db)) db"

definition tenants_manual :: "onboarding \<Rightarrow> manual_tenant \<Rightarrow> auth_user \<Rightarrow> tenant_db \<Rightarrow> (registered result \<times> tenant_db) option" where
  "tenants_manual ob body user db = guarded_outcome ''platform:manage'' user (createManualTenant ob body db) db"

definition tenants_list :: "auth_user \<Rightarrow> tenant_db \<Rightarrow> tenant list result" where
  "tenants_list user db = with_permission ''platform:manage'' user (\<lambda>_. ok (listTenants db))"

definition tenants_management ::
  "nat \<Rightarrow> int \<Rightarrow> uuid \<Rightarrow> tenant_update \<Rightarrow> auth_user \<Rightarrow> tenant_db \<Rightarrow> (tenant \<times> tenant_db) result" where
  "tenants_management newId now tenantId body user db =
    with_permission ''platform:manage'' user (\<lambda>_.
      if \<not> is_uuid tenantId then throw (BadRequest ''Validation failed (uuid is expected)'')
      else updateTenant newId now tenantId body db)"

definition tenants_status :: "uuid \<Rightarrow> string \<Rightarrow> auth_user \<Rightarrow> tenant_db \<Rightarrow> (string \<times> tenant_db) result" where
  "tenants_status tenantId status user db =
    with_permission ''platform:manage'' user (\<lambda>_. updateTenantStatus tenantId status db)"

definition tenants_user_limit :: "nat \<Rightarrow> int \<Rightarrow> uuid \<Rightarrow> json option \<Rightarrow> auth_user \<Rightarrow> tenant_db \<Rightarrow> (tenant \<times> tenant_db) result" where
  "tenants_user_limit newId now tenantId limit user db =
    with_permission ''platform:manage'' user (\<lambda>_. updateTenantUserLimit newId now tenantId limit db)"

definition tenants_branch_limit :: "nat \<Rightarrow> int \<Rightarrow> uuid \<Rightarrow> json option \<Rightarrow> auth_user \<Rightarrow> tenant_db \<Rightarrow> (tenant \<times> tenant_db) result" where
  "tenants_branch_limit newId now tenantId limit user db =
    with_permission ''platform:manage'' user (\<lambda>_. updateTenantBranchLimit newId now tenantId limit db)"

definition tenants_market :: "uuid \<Rightarrow> string \<Rightarrow> auth_user \<Rightarrow> tenant_db \<Rightarrow> (string \<times> tenant_db) result" where
  "tenants_market tenantId market user db =
    with_permission ''platform:manage'' user (\<lambda>_. updateTenantMarket tenantId market db)"

definition tenants_my_subdomain :: "nat \<Rightarrow> int \<Rightarrow> json option \<Rightarrow> auth_user \<Rightarrow> tenant_db \<Rightarrow> (string option \<times> tenant_db) result" where
  "tenants_my_subdomain newId now subdomain user db =
    with_permission ''tenant:settings'' user (\<lambda>t. updateTenantSubdomain newId now t subdomain db)"

end
