(* ===== verification/SignIn.thy ===== *)
theory SignIn
  imports Tenants
begin

text \<open>
  How people sign in to a tenant and what its settings are: the second half of
  \<^verbatim>\<open>src/src/auth/services/auth-tenant.service.ts\<close> with \<^verbatim>\<open>auth/sign-in-policy.ts\<close> and the endpoints of
  \<^verbatim>\<open>auth.controller.ts\<close>.  The identity provider and the storage of logos answer through arguments; a
  masked secret is one of asterisks only; a provider that does not answer is the error 503.
\<close>

section \<open>State\<close>

record auth_settings =
  as_tenantId :: uuid
  as_loginDesignVariant :: string
  as_epoch :: uuid
  as_allowDeveloperLogin :: bool
  as_allowPasswordLogin :: bool
  as_allowMicrosoftSso :: bool
  as_allowGoogleSso :: bool
  as_enforceSsoOnly :: bool
  as_requireMfa :: bool
  as_allowPersonalEmails :: bool
  as_allowedEmailDomains :: "string list"
  as_microsoftTenantId :: "string option"
  as_microsoftClientId :: "string option"
  as_microsoftClientSecret :: "string option"

text \<open>The further columns of \<^verbatim>\<open>tenants\<close> that its settings write.\<close>

record tenant_profile =
  pf_tenantId :: uuid
  pf_siteTitle :: "string option"
  pf_logoUrl :: "string option"
  pf_loginLogoUrl :: "string option"
  pf_compactLogoUrl :: "string option"
  pf_candidatePoolMode :: string
  pf_jobAssignmentMode :: "string option"
  pf_jobAssignmentOptions :: "string option"
  pf_jobCodePattern :: "string option"
  pf_enforceJobCodePattern :: bool

record sign_in_db =
  sd_tenants :: tenant_db
  sd_settings :: "auth_settings list"
  sd_profiles :: "tenant_profile list"

definition settings_of :: "uuid \<Rightarrow> sign_in_db \<Rightarrow> auth_settings option" where
  "settings_of tenantId db = find_first (\<lambda>s. as_tenantId s = tenantId) (sd_settings db)"

definition profile_of :: "uuid \<Rightarrow> sign_in_db \<Rightarrow> tenant_profile option" where
  "profile_of tenantId db = find_first (\<lambda>p. pf_tenantId p = tenantId) (sd_profiles db)"

section \<open>The policy of a tenant\<close>

record sign_in_policy =
  sp_tenantId :: uuid
  sp_loginDesignVariant :: string
  sp_allowPasswordLogin :: bool
  sp_allowMicrosoftSso :: bool
  sp_allowGoogleSso :: bool
  sp_allowDeveloperLogin :: bool
  sp_enforceSsoOnly :: bool
  sp_requireMfa :: bool
  sp_allowPersonalEmails :: bool
  sp_allowedEmailDomains :: "string list"
  sp_microsoftTenantId :: "string option"
  sp_microsoftClientId :: "string option"
  sp_name :: string
  sp_siteTitle :: "string option"
  sp_logoUrl :: "string option"
  sp_loginLogoUrl :: "string option"

definition LOGIN_DESIGN_VARIANTS :: "string list" where
  "LOGIN_DESIGN_VARIANTS = [''balanced-split'', ''compact-focus'', ''editorial'', ''bottom-anchored'', ''workspace-banner'']"

record sign_in_options =
  so_password :: bool
  so_developer :: bool

definition signInOptions :: "sign_in_policy \<Rightarrow> sign_in_options" where
  "signInOptions policy = \<lparr> so_password = (sp_allowPasswordLogin policy \<and> \<not> sp_enforceSsoOnly policy),
     so_developer = (sp_allowDeveloperLogin policy \<and> \<not> sp_requireMfa policy) \<rparr>"

text \<open>The tenants a name leads to: the union of the two tables of names, of which the query takes one row.\<close>

definition tenants_named :: "string \<Rightarrow> tenant_db \<Rightarrow> uuid list" where
  "tenants_named name db = uniq
     (map td_tenantId (find_many (\<lambda>d. lower (td_domainName d) = lower name) (tb_domains db))
      @ map tn_id (find_many (\<lambda>t. case tn_domain t of Some d \<Rightarrow> lower d = lower name | None \<Rightarrow> False) (st_tenants (tb_store db))))"

definition policy_tenant :: "uuid \<Rightarrow> string \<Rightarrow> tenant_db \<Rightarrow> uuid option" where
  "policy_tenant defaultTenant key db =
    (if is_uuid key then Some key
     else case tenants_named key db of t # _ \<Rightarrow> Some t | [] \<Rightarrow> if key = ''default'' then Some defaultTenant else None)"

definition getTenantAuthPolicy :: "uuid \<Rightarrow> string \<Rightarrow> sign_in_db \<Rightarrow> sign_in_policy result" where
  "getTenantAuthPolicy defaultTenant key db =
    (case policy_tenant defaultTenant key (sd_tenants db) of
       None \<Rightarrow> throw (NotFound ''Workspace not found.'')
     | Some t \<Rightarrow>
        (case tenant_by t (tb_store (sd_tenants db)) of
           None \<Rightarrow> throw (NotFound ''Workspace not found.'')
         | Some tenant \<Rightarrow>
            (let p = profile_of t db;
                 branded = (\<lambda>policy. policy\<lparr> sp_name := tn_name tenant, sp_siteTitle := Option.bind p pf_siteTitle,
                   sp_logoUrl := Option.bind p pf_logoUrl, sp_loginLogoUrl := Option.bind p pf_loginLogoUrl \<rparr>);
                 plain = \<lparr> sp_tenantId = t, sp_loginDesignVariant = ''balanced-split'', sp_allowPasswordLogin = True,
                   sp_allowMicrosoftSso = False, sp_allowGoogleSso = False, sp_allowDeveloperLogin = False,
                   sp_enforceSsoOnly = False, sp_requireMfa = False, sp_allowPersonalEmails = True,
                   sp_allowedEmailDomains = [], sp_microsoftTenantId = None, sp_microsoftClientId = None,
                   sp_name = [], sp_siteTitle = None, sp_logoUrl = None, sp_loginLogoUrl = None \<rparr>
             in case settings_of t db of
                  None \<Rightarrow> ok (branded plain)
                | Some row \<Rightarrow> ok (branded (plain\<lparr>
                    sp_loginDesignVariant := (if as_loginDesignVariant row \<in> set LOGIN_DESIGN_VARIANTS
                      then as_loginDesignVariant row else ''balanced-split''),
                    sp_allowPasswordLogin := as_allowPasswordLogin row, sp_allowMicrosoftSso := as_allowMicrosoftSso row,
                    sp_allowGoogleSso := as_allowGoogleSso row, sp_allowDeveloperLogin := as_allowDeveloperLogin row,
                    sp_enforceSsoOnly := as_enforceSsoOnly row, sp_requireMfa := as_requireMfa row,
                    sp_allowPersonalEmails := as_allowPersonalEmails row,
                    sp_allowedEmailDomains := as_allowedEmailDomains row,
                    sp_microsoftTenantId := or_else (as_microsoftTenantId row) None,
                    sp_microsoftClientId := or_else (as_microsoftClientId row) None \<rparr>)))))"

definition new_settings :: "uuid \<Rightarrow> uuid \<Rightarrow> auth_settings" where
  "new_settings epoch tenantId = \<lparr> as_tenantId = tenantId, as_loginDesignVariant = ''balanced-split'', as_epoch = epoch,
     as_allowDeveloperLogin = False, as_allowPasswordLogin = True, as_allowMicrosoftSso = False,
     as_allowGoogleSso = False, as_enforceSsoOnly = False, as_requireMfa = False, as_allowPersonalEmails = True,
     as_allowedEmailDomains = [], as_microsoftTenantId = None, as_microsoftClientId = None,
     as_microsoftClientSecret = None \<rparr>"

text \<open>\<^verbatim>\<open>INSERT \<dots> ON CONFLICT (tenant_id) DO UPDATE\<close>.\<close>

definition upsert_settings ::
  "auth_settings \<Rightarrow> (auth_settings \<Rightarrow> auth_settings) \<Rightarrow> sign_in_db \<Rightarrow> sign_in_db result" where
  "upsert_settings row change db =
    (if settings_of (as_tenantId row) db \<noteq> None
     then ok (db\<lparr> sd_settings := update_where (\<lambda>s. as_tenantId s = as_tenantId row) change (sd_settings db) \<rparr>)
     else if tenant_by (as_tenantId row) (tb_store (sd_tenants db)) = None then throw (InternalError ''23503'')
     else ok (db\<lparr> sd_settings := sd_settings db @ [row] \<rparr>))"

definition updateTenantLoginDesign :: "uuid \<Rightarrow> uuid \<Rightarrow> string \<Rightarrow> sign_in_db \<Rightarrow> (string \<times> sign_in_db) result" where
  "updateTenantLoginDesign epoch tenantId variant db =
    (if variant \<notin> set LOGIN_DESIGN_VARIANTS then throw (BadRequest ''Unsupported sign-in page design.'')
     else and_then (upsert_settings ((new_settings epoch tenantId)\<lparr> as_loginDesignVariant := variant \<rparr>)
        (\<lambda>s. s\<lparr> as_loginDesignVariant := variant \<rparr>) db) (\<lambda>db'. ok (variant, db')))"

section \<open>Changing the policy\<close>

definition POLICY_FLAGS :: "string list" where
  "POLICY_FLAGS = [''allowDeveloperLogin'', ''allowPasswordLogin'', ''allowMicrosoftSso'', ''allowGoogleSso'',
     ''enforceSsoOnly'', ''requireMfa'', ''allowPersonalEmails'']"

definition is_boolean :: "json \<Rightarrow> bool" where
  "is_boolean v = (case v of JBool _ \<Rightarrow> True | _ \<Rightarrow> False)"

definition letter :: "char \<Rightarrow> bool" where
  "letter c = (let n = (of_char c :: nat) in (97 \<le> n \<and> n \<le> 122) \<or> (65 \<le> n \<and> n \<le> 90))"

text \<open>\<^verbatim>\<open>/^[a-z0-9.-]+\.[a-z]{2,}$/i\<close>: the last label has only letters, so it follows the last dot.\<close>

definition is_email_domain :: "string \<Rightarrow> bool" where
  "is_email_domain s =
    (let labels = split_on CHR ''.'' s; top = last labels
     in 2 \<le> length labels \<and> 2 \<le> length top \<and> list_all letter top \<and> length top + 1 < length s
        \<and> list_all (\<lambda>c. alnum c \<or> c = CHR ''.'' \<or> c = CHR ''-'') s)"

definition domains_valid :: "json \<Rightarrow> bool" where
  "domains_valid v = (case v of
      JArr ds \<Rightarrow> length ds \<le> 100 \<and> list_all (\<lambda>d. case d of JStr s \<Rightarrow> is_email_domain s | _ \<Rightarrow> False) ds
    | _ \<Rightarrow> False)"

definition provider_valid :: "json \<Rightarrow> bool" where
  "provider_valid v = (case v of JNull \<Rightarrow> True | JStr s \<Rightarrow> length s \<le> 2048 | _ \<Rightarrow> False)"

definition policy_checks :: "dto \<Rightarrow> unit result" where
  "policy_checks dto = checks
    [refuse (list_ex (\<lambda>k. \<not> if_given (dto_field dto k) is_boolean) POLICY_FLAGS)
       (BadRequest ''Sign-in options must be booleans.''),
     refuse (\<not> if_given (dto_field dto ''allowedEmailDomains'') domains_valid) (BadRequest ''Invalid allowed email domains.''),
     refuse (list_ex (\<lambda>k. \<not> if_given (dto_field dto k) provider_valid)
         [''microsoftTenantId'', ''microsoftClientId'', ''microsoftClientSecret''])
       (BadRequest ''Invalid identity provider configuration.'')]"

text \<open>\<^verbatim>\<open>{ ...current, ...dto }\<close> on the fields the service reads.\<close>

definition flag :: "dto \<Rightarrow> string \<Rightarrow> bool \<Rightarrow> bool" where
  "flag dto k d = (case dto_field dto k of Some (JBool b) \<Rightarrow> b | _ \<Rightarrow> d)"

definition text_field :: "dto \<Rightarrow> string \<Rightarrow> string option \<Rightarrow> string option" where
  "text_field dto k d = (case dto_field dto k of None \<Rightarrow> d | Some (JStr s) \<Rightarrow> Some s | Some _ \<Rightarrow> None)"

definition merged_policy :: "dto \<Rightarrow> sign_in_policy \<Rightarrow> sign_in_policy" where
  "merged_policy dto current = current\<lparr>
     sp_allowPasswordLogin := flag dto ''allowPasswordLogin'' (sp_allowPasswordLogin current),
     sp_allowMicrosoftSso := flag dto ''allowMicrosoftSso'' (sp_allowMicrosoftSso current),
     sp_allowGoogleSso := flag dto ''allowGoogleSso'' (sp_allowGoogleSso current),
     sp_allowDeveloperLogin := flag dto ''allowDeveloperLogin'' (sp_allowDeveloperLogin current),
     sp_enforceSsoOnly := flag dto ''enforceSsoOnly'' (sp_enforceSsoOnly current),
     sp_requireMfa := flag dto ''requireMfa'' (sp_requireMfa current),
     sp_allowPersonalEmails := flag dto ''allowPersonalEmails'' (sp_allowPersonalEmails current),
     sp_allowedEmailDomains := (case dto_field dto ''allowedEmailDomains'' of
        Some (JArr ds) \<Rightarrow> map js_string ds | _ \<Rightarrow> sp_allowedEmailDomains current),
     sp_microsoftTenantId := text_field dto ''microsoftTenantId'' (sp_microsoftTenantId current),
     sp_microsoftClientId := text_field dto ''microsoftClientId'' (sp_microsoftClientId current) \<rparr>"

definition masked :: "string \<Rightarrow> bool" where
  "masked s = (s \<noteq> [] \<and> list_all (\<lambda>c. c = CHR ''*'') s)"

text \<open>The secret of the request, when it is one.\<close>

definition submitted_secret :: "dto \<Rightarrow> string option" where
  "submitted_secret dto =
    (let given = (case dto_field dto ''microsoftClientSecret'' of Some (JStr s) \<Rightarrow> trim s | _ \<Rightarrow> [])
     in if given = [] \<or> masked given then None else Some given)"

definition is_entra_id :: "string \<Rightarrow> bool" where
  "is_entra_id s = (is_uuid s \<and> s ! 14 \<in> set ''12345'' \<and> s ! 19 \<in> set ''89abAB'')"

text \<open>What the identity provider answers to a configuration: the address to redirect to, or a reason.\<close>

type_synonym provider = "uuid \<Rightarrow> string \<Rightarrow> string \<Rightarrow> string \<Rightarrow> string option \<times> string option"

definition microsoft_checks ::
  "provider \<Rightarrow> sign_in_policy \<Rightarrow> string \<Rightarrow> string option result" where
  "microsoft_checks configure policy secret =
    (let clientId = or_empty (sp_microsoftClientId policy); directory = trim (or_empty (sp_microsoftTenantId policy))
     in and_then (checks
       [refuse (str_includes clientId ''@'')
          (BadRequest ''Microsoft Client ID must be the Application (client) ID from Entra App registrations, not an email address.''),
        refuse (clientId = [] \<or> secret = [] \<or> masked secret)
          (BadRequest ''Microsoft client ID and the full client secret are required. Re-enter the client secret; the masked value cannot be saved.''),
        refuse (\<not> is_entra_id directory)
          (BadRequest ''A valid Microsoft Entra Directory (Tenant) ID is required when Microsoft sign-in is enabled.'')]) (\<lambda>_.
       case configure (sp_tenantId policy) clientId secret directory of
         (Some uri, _) \<Rightarrow> if uri \<noteq> [] then ok (Some uri) else throw (InternalError ''503'')
       | (None, _) \<Rightarrow> throw (InternalError ''503'')))"

definition developer_only :: "dto \<Rightarrow> sign_in_policy \<Rightarrow> bool" where
  "developer_only dto current =
    (let policy = merged_policy dto current
     in dto_field dto ''allowDeveloperLogin'' \<noteq> None
        \<and> sp_allowDeveloperLogin policy \<noteq> sp_allowDeveloperLogin current
        \<and> sp_allowMicrosoftSso policy = sp_allowMicrosoftSso current
        \<and> sp_microsoftClientId policy = sp_microsoftClientId current
        \<and> sp_microsoftTenantId policy = sp_microsoftTenantId current \<and> submitted_secret dto = None)"

definition policy_row :: "sign_in_policy \<Rightarrow> string option \<Rightarrow> auth_settings \<Rightarrow> auth_settings" where
  "policy_row policy secret s = s\<lparr>
     as_allowDeveloperLogin := sp_allowDeveloperLogin policy, as_allowPasswordLogin := sp_allowPasswordLogin policy,
     as_allowMicrosoftSso := sp_allowMicrosoftSso policy, as_allowGoogleSso := sp_allowGoogleSso policy,
     as_enforceSsoOnly := sp_enforceSsoOnly policy, as_requireMfa := sp_requireMfa policy,
     as_allowPersonalEmails := sp_allowPersonalEmails policy, as_allowedEmailDomains := sp_allowedEmailDomains policy,
     as_microsoftTenantId := or_else (sp_microsoftTenantId policy) None,
     as_microsoftClientId := or_else (sp_microsoftClientId policy) None,
     as_microsoftClientSecret := (case secret of Some k \<Rightarrow> Some k | None \<Rightarrow> as_microsoftClientSecret s) \<rparr>"

text \<open>The current policy is looked up under the identifier of the tenant; \<open>epoch\<close> is a fresh identifier.\<close>

definition updateTenantAuthPolicy ::
  "provider \<Rightarrow> uuid \<Rightarrow> uuid \<Rightarrow> uuid \<Rightarrow> dto \<Rightarrow> sign_in_db \<Rightarrow> (sign_in_policy \<times> string option \<times> sign_in_db) result" where
  "updateTenantAuthPolicy configure defaultTenant epoch tenantId dto db =
    and_then (policy_checks dto) (\<lambda>_.
    and_then (getTenantAuthPolicy defaultTenant tenantId db) (\<lambda>current.
    let policy = merged_policy dto current; fresh = submitted_secret dto;
        stored = Option.bind (settings_of tenantId db) as_microsoftClientSecret;
        secret = trim (or_empty (or_else fresh stored))
    in if (\<not> sp_allowPasswordLogin policy \<or> sp_enforceSsoOnly policy) \<and> \<not> sp_allowMicrosoftSso policy \<and> \<not> sp_allowGoogleSso policy
       then throw (BadRequest ''At least one standard sign-in method must remain enabled.'')
       else and_then (if sp_allowMicrosoftSso policy \<and> \<not> developer_only dto current
                      then microsoft_checks configure (policy\<lparr> sp_tenantId := tenantId \<rparr>) secret else ok None) (\<lambda>redirectUri.
       if 255 < length (or_empty (sp_microsoftTenantId policy)) \<or> 255 < length (or_empty (sp_microsoftClientId policy))
          \<or> 255 < length (or_empty fresh)
       then throw (InternalError ''22001'')
       else and_then (upsert_settings (policy_row policy fresh (new_settings epoch tenantId))
          (\<lambda>s. (policy_row policy fresh s)\<lparr> as_epoch := (if \<not> sp_allowDeveloperLogin policy \<or> sp_requireMfa policy
                then epoch else as_epoch s) \<rparr>) db) (\<lambda>db'.
          ok (policy\<lparr> sp_tenantId := tenantId \<rparr>, redirectUri, db')))))"

section \<open>Settings of the workspace\<close>

record settings_update =
  se_podSystemEnabled :: "bool option"
  se_candidatePoolMode :: "string option"
  se_jobAssignmentMode :: "string option"
  se_jobAssignmentOptions :: "string option"
  se_jobCodePattern :: "string option"
  se_enforceJobCodePattern :: "bool option"
  se_siteTitle :: "string option"
  se_logoUrl :: "string option"
  se_loginLogoUrl :: "string option"
  se_compactLogoUrl :: "string option"
  se_name :: "string option"

text \<open>A mode is compared without surrounding space and in capitals, and stored so.\<close>

definition setting_mode :: "string list \<Rightarrow> http_error \<Rightarrow> string option \<Rightarrow> string option result" where
  "setting_mode modes e v = (case v of
      None \<Rightarrow> ok None
    | Some s \<Rightarrow> (let mode = upper (trim s) in if mode \<notin> set modes then throw e else ok (Some mode)))"

definition stored_logo :: "(uuid \<Rightarrow> string \<Rightarrow> string \<Rightarrow> string result) \<Rightarrow> uuid \<Rightarrow> string option \<Rightarrow> string \<Rightarrow> string option result" where
  "stored_logo storeTenantLogo tenantId v purpose = (case v of
      None \<Rightarrow> ok None
    | Some s \<Rightarrow> and_then (storeTenantLogo tenantId s purpose) (\<lambda>url. ok (Some url)))"

definition changed :: "'a option \<Rightarrow> 'a \<Rightarrow> 'a" where
  "changed v old = (case v of Some x \<Rightarrow> x | None \<Rightarrow> old)"

definition changed_some :: "'a option \<Rightarrow> 'a option \<Rightarrow> 'a option" where
  "changed_some v old = (case v of Some x \<Rightarrow> Some x | None \<Rightarrow> old)"

definition no_settings :: "settings_update \<Rightarrow> bool" where
  "no_settings s = (se_podSystemEnabled s = None \<and> se_candidatePoolMode s = None \<and> se_jobAssignmentMode s = None
     \<and> se_jobAssignmentOptions s = None \<and> se_jobCodePattern s = None \<and> se_enforceJobCodePattern s = None
     \<and> se_siteTitle s = None \<and> se_logoUrl s = None \<and> se_loginLogoUrl s = None \<and> se_compactLogoUrl s = None \<and> se_name s = None)"

text \<open>The profile of a tenant is part of its row, so the two are written by one statement.\<close>

definition updateTenantSettings ::
  "(uuid \<Rightarrow> string \<Rightarrow> string \<Rightarrow> string result) \<Rightarrow> uuid \<Rightarrow> settings_update \<Rightarrow> sign_in_db \<Rightarrow> sign_in_db result" where
  "updateTenantSettings storeTenantLogo tenantId s db =
    and_then (setting_mode [''COMBINED_MARKET'', ''STRICT_BRANCH'', ''ALL_BRANCHES'']
      (BadRequest ''Invalid candidate pool mode. Must be COMBINED_MARKET, STRICT_BRANCH, or ALL_BRANCHES.'')
      (se_candidatePoolMode s)) (\<lambda>poolMode.
    and_then (setting_mode [''AUTO'', ''ADMIN_CONTROLLED'']
      (BadRequest ''Invalid job assignment mode. Must be AUTO or ADMIN_CONTROLLED.'') (se_jobAssignmentMode s)) (\<lambda>assignmentMode.
    and_then (stored_logo storeTenantLogo tenantId (se_logoUrl s) ''site'') (\<lambda>logo.
    and_then (stored_logo storeTenantLogo tenantId (se_loginLogoUrl s) ''login'') (\<lambda>loginLogo.
    and_then (stored_logo storeTenantLogo tenantId (se_compactLogoUrl s) ''compact'') (\<lambda>compactLogo.
    if no_settings s then throw (BadRequest ''No valid setting fields provided.'')
    else if 200 < length (or_empty (se_jobCodePattern s)) \<or> 255 < length (or_empty (se_siteTitle s)) \<or> 255 < length (or_empty (se_name s))
    then throw (InternalError ''22001'')
    else ok (db\<lparr>
      sd_tenants := update_tenants (\<lambda>t. tn_id t = tenantId)
        (\<lambda>t. t\<lparr> tn_podSystemEnabled := changed (se_podSystemEnabled s) (tn_podSystemEnabled t),
                tn_name := changed (se_name s) (tn_name t) \<rparr>) (sd_tenants db),
      sd_profiles := update_where (\<lambda>p. pf_tenantId p = tenantId)
        (\<lambda>p. p\<lparr> pf_siteTitle := changed_some (se_siteTitle s) (pf_siteTitle p),
                pf_logoUrl := changed_some logo (pf_logoUrl p), pf_loginLogoUrl := changed_some loginLogo (pf_loginLogoUrl p),
                pf_compactLogoUrl := changed_some compactLogo (pf_compactLogoUrl p),
                pf_candidatePoolMode := changed poolMode (pf_candidatePoolMode p),
                pf_jobAssignmentMode := changed_some assignmentMode (pf_jobAssignmentMode p),
                pf_jobAssignmentOptions := changed_some (se_jobAssignmentOptions s) (pf_jobAssignmentOptions p),
                pf_jobCodePattern := changed_some (se_jobCodePattern s) (pf_jobCodePattern p),
                pf_enforceJobCodePattern := changed (se_enforceJobCodePattern s) (pf_enforceJobCodePattern p) \<rparr>) (sd_profiles db) \<rparr>))))))"

section \<open>Endpoints\<close>

definition PLATFORM_SUBDOMAINS :: "string list" where
  "PLATFORM_SUBDOMAINS = [''api'', ''auth'', ''db'', ''www'', ''admin'', ''mail'', ''status'', ''app'']"

text \<open>Whether a certificate may be issued for a name.\<close>

definition check_ssl_domain :: "string option \<Rightarrow> tenant_db \<Rightarrow> string result" where
  "check_ssl_domain domain db =
    (if \<not> truthy domain then ok ''OK''
     else let cleanDomain = trim (lower (or_empty domain)); root = ''.enfyjobs.com''
       in if cleanDomain \<in> {''enfyjobs.com'', ''www.enfyjobs.com''} then ok ''OK''
          else if suffix root cleanDomain
          then let subdomain = take (length cleanDomain - length root) cleanDomain
            in if subdomain \<in> set PLATFORM_SUBDOMAINS \<or> isDomainRegistered cleanDomain db then ok ''OK''
               else throw (BadRequest (''Subdomain \"'' @ subdomain @ ''\" is not a registered workspace.''))
          else if isDomainRegistered cleanDomain db then ok ''OK''
          else throw (BadRequest ''Unauthorized Domain''))"

definition tenant_policy :: "uuid \<Rightarrow> string option \<Rightarrow> string option \<Rightarrow> sign_in_db \<Rightarrow> sign_in_policy result" where
  "tenant_policy defaultTenant tenantIdQuery subdomainQuery db =
     getTenantAuthPolicy defaultTenant (or_empty (or_else tenantIdQuery (or_else subdomainQuery (Some ''default'')))) db"

definition tenant_policy_patch ::
  "provider \<Rightarrow> uuid \<Rightarrow> uuid \<Rightarrow> dto \<Rightarrow> string option \<Rightarrow> auth_user \<Rightarrow> sign_in_db
    \<Rightarrow> (sign_in_policy \<times> string option \<times> sign_in_db) result" where
  "tenant_policy_patch configure defaultTenant epoch body tenantHeader user db =
    with_permission ''tenant:settings'' user (\<lambda>_.
      and_then (resolveTenantId (Some defaultTenant) (Some user) tenantHeader) (\<lambda>tenantId.
        updateTenantAuthPolicy configure defaultTenant epoch (or_empty tenantId) body db))"

definition my_domains :: "auth_user \<Rightarrow> tenant_db \<Rightarrow> domain_view list" where
  "my_domains user db = getTenantDomains (or_empty (a_tenantId user)) db"

definition my_domains_add :: "nat \<Rightarrow> int \<Rightarrow> string \<Rightarrow> auth_user \<Rightarrow> tenant_db \<Rightarrow> (tenant_domain \<times> tenant_db) result" where
  "my_domains_add newId now domainName user db =
    with_permission ''tenant:settings'' user (\<lambda>t. addTenantDomain newId now t domainName db)"

definition my_domains_delete :: "nat \<Rightarrow> auth_user \<Rightarrow> tenant_db \<Rightarrow> tenant_db result" where
  "my_domains_delete domainId user db = with_permission ''tenant:settings'' user (\<lambda>t. deleteTenantDomain t domainId db)"

definition my_domains_verify :: "dns \<Rightarrow> string \<Rightarrow> auth_user \<Rightarrow> tenant_db \<Rightarrow> (bool \<times> tenant_db) result" where
  "my_domains_verify env domainName user db =
    with_permission ''tenant:settings'' user (\<lambda>t. verifyCustomDomain env t domainName db)"

definition my_settings ::
  "(uuid \<Rightarrow> string \<Rightarrow> string \<Rightarrow> string result) \<Rightarrow> settings_update \<Rightarrow> auth_user \<Rightarrow> sign_in_db \<Rightarrow> sign_in_db result" where
  "my_settings storeTenantLogo body user db =
    with_permission ''tenant:settings'' user (\<lambda>t. updateTenantSettings storeTenantLogo t body db)"

end
