(* ===== verification/TenantGuarantees.thy ===== *)
theory TenantGuarantees
  imports SignIn RoleInvariant
begin

text \<open>
  What the operations on tenants guarantee: the search for a prefix ends, the names of tenants stay
  unambiguous, capacity never drops below what is in use, and a tenant can always be signed in to.
\<close>

section \<open>The search for a prefix ends\<close>

lemma of_char_shifted: "n < 10 \<Longrightarrow> of_char (char_of (48 + n) :: char) - 48 = (n :: nat)"
  by (simp add: of_char_of)

lemma digits_value_append: "digits_value (ds @ [c]) = 10 * digits_value ds + int (of_char c - 48)"
  by (simp add: digits_value_def)

lemma digits_value_decimal: "digits_value (decimal n) = int n"
proof (induction n rule: decimal.induct)
  case (1 n)
  show ?case
  proof (cases "n < 10")
    case True
    then show ?thesis
      by (simp add: decimal.simps [of n] digits_value_def of_char_shifted)
  next
    case False
    then have "digits_value (decimal n) = 10 * digits_value (decimal (n div 10)) + int (n mod 10)"
      by (simp add: decimal.simps [of n] digits_value_append of_char_shifted)
    also have "\<dots> = 10 * int (n div 10) + int (n mod 10)"
      using 1 False by simp
    also have "\<dots> = int n" by (simp add: zdiv_int zmod_int)
    finally show ?thesis .
  qed
qed

lemma decimal_inj: "decimal m = decimal n \<Longrightarrow> m = n"
  by (metis digits_value_decimal of_nat_eq_iff)

text \<open>Among one more candidate than there are tenants, one is unused.\<close>

lemma unused_candidate:
  assumes inj: "inj_on f {k..<k + Suc (length xs)}"
  obtains m where "k \<le> m" and "m \<le> k + length xs" and "f m \<notin> set xs"
proof -
  have "\<not> f ` {k..<k + Suc (length xs)} \<subseteq> set xs"
  proof
    assume "f ` {k..<k + Suc (length xs)} \<subseteq> set xs"
    then have "card (f ` {k..<k + Suc (length xs)}) \<le> card (set xs)"
      by (intro card_mono) simp_all
    also have "\<dots> \<le> length xs" by (rule card_length)
    finally show False by (subst (asm) card_image [OF inj]) simp
  qed
  then show thesis using that by fastforce
qed

abbreviation prefix_used :: "tenant list \<Rightarrow> string \<Rightarrow> bool" where
  "prefix_used ts code \<equiv> list_ex (\<lambda>t. tn_prefixCode t = Some code) ts"

abbreviation candidate :: "string \<Rightarrow> nat \<Rightarrow> string" where
  "candidate base n \<equiv> take 3 base @ decimal n"

lemma free_prefix_reaches:
  assumes "\<not> prefix_used ts (candidate base m)" and "k \<le> m"
  shows "\<exists>c. free_prefix ts base code k = Some c \<and> \<not> prefix_used ts c \<and>
    (c = code \<or> (\<exists>n. k \<le> n \<and> n \<le> m \<and> c = candidate base n))"
  using assms(2)
proof (induction "m - k" arbitrary: k code)
  case 0
  then show ?case
    using assms(1) by (auto simp: free_prefix.simps [of ts base code] free_prefix.simps [of ts base "candidate base k"])
next
  case (Suc d)
  show ?case
  proof (cases "prefix_used ts code")
    case True
    have "\<exists>c. free_prefix ts base (candidate base k) (Suc k) = Some c \<and> \<not> prefix_used ts c \<and>
        (c = candidate base k \<or> (\<exists>n. Suc k \<le> n \<and> n \<le> m \<and> c = candidate base n))"
      using Suc.hyps(2) by (intro Suc.hyps(1)) linarith+
    moreover have "k \<le> m" by (rule Suc.prems)
    ultimately show ?thesis
      using True by (auto simp: free_prefix.simps [of ts base code] intro: Suc_leD)
  qed (simp add: free_prefix.simps [of ts base code])
qed

lemma prefix_found:
  "\<exists>c. free_prefix ts base base 1 = Some c \<and> \<not> prefix_used ts c \<and>
    (c = base \<or> (\<exists>n. 1 \<le> n \<and> n \<le> Suc (length ts) \<and> c = candidate base n))"
proof -
  obtain m where m: "1 \<le> m" "m \<le> 1 + length (map tn_prefixCode ts)"
    "Some (candidate base m) \<notin> set (map tn_prefixCode ts)"
    by (rule unused_candidate [where f = "\<lambda>m. Some (candidate base m)" and k = 1 and xs = "map tn_prefixCode ts"])
      (auto intro: inj_onI dest: decimal_inj)
  then have "\<not> prefix_used ts (candidate base m)"
    by (auto simp: list_ex_iff image_iff)
  from free_prefix_reaches [OF this m(1), of base] m(2) show ?thesis
    by fastforce
qed

text \<open>C37: The search for a prefix code, which the code writes as a loop without a bound, always ends: for every
  registration and every manual creation the request returns, and the code it finds is unused and is the base
  itself or one of the first candidates, at most one more than there are tenants.\<close>

theorem tenant_creation_returns:
  "(\<exists>r. registerTenant ob dto db = Some r) \<and> (\<exists>r. createManualTenant ob mdto db = Some r) \<and>
    (\<exists>c. prefix_for name db = Some c \<and> \<not> prefix_used (st_tenants (tb_store db)) c \<and>
      (c = base_prefix name \<or> (\<exists>n. 1 \<le> n \<and> n \<le> Suc (length (st_tenants (tb_store db))) \<and> c = candidate (base_prefix name) n)))"
proof (intro conjI)
  have "\<exists>c. prefix_for n db = Some c" for n
    using prefix_found [of "st_tenants (tb_store db)" "base_prefix n"] by (auto simp: prefix_for_def)
  then obtain c where c: "\<And>n. prefix_for n db = Some (c n)" by metis
  show "\<exists>r. registerTenant ob dto db = Some r"
    by (simp add: registerTenant_def c Let_def split: sum.splits)
  show "\<exists>r. createManualTenant ob mdto db = Some r"
    by (simp add: createManualTenant_def c Let_def split: sum.splits)
  show "\<exists>c. prefix_for name db = Some c \<and> \<not> prefix_used (st_tenants (tb_store db)) c \<and>
      (c = base_prefix name \<or> (\<exists>n. 1 \<le> n \<and> n \<le> Suc (length (st_tenants (tb_store db))) \<and> c = candidate (base_prefix name) n))"
    unfolding prefix_for_def by (rule prefix_found)
qed

section \<open>The names of tenants\<close>

text \<open>What routing depends on: of a tenant its identifier, domain and prefix; of a row of names its identifier,
  tenant, name and whether it is the primary one.\<close>

type_synonym tenant_key = "uuid \<times> string option \<times> string option"
type_synonym domain_key = "nat \<times> uuid \<times> string \<times> bool"

definition tenant_key :: "tenant \<Rightarrow> tenant_key" where
  "tenant_key t = (tn_id t, tn_domain t, tn_prefixCode t)"

definition domain_key :: "tenant_domain \<Rightarrow> domain_key" where
  "domain_key d = (td_id d, td_tenantId d, td_domainName d, td_isPrimary d)"

definition registry :: "tenant_db \<Rightarrow> tenant_key list \<times> domain_key list" where
  "registry db = (map tenant_key (st_tenants (tb_store db)), map domain_key (tb_domains db))"

abbreviation row_name :: "domain_key \<Rightarrow> string" where
  "row_name d \<equiv> fst (snd (snd d))"

definition primaries :: "domain_key list \<Rightarrow> (uuid \<times> string) list" where
  "primaries ds = map (\<lambda>d. (fst (snd d), row_name d)) (filter (\<lambda>d. snd (snd (snd d))) ds)"

text \<open>A tenant with a domain has a primary row of that name.\<close>

definition anchored :: "(uuid \<times> string) set \<Rightarrow> tenant_key \<Rightarrow> bool" where
  "anchored ps k = (case fst (snd k) of None \<Rightarrow> True | Some n \<Rightarrow> (fst k, n) \<in> ps)"

definition names_ok :: "tenant_key list \<Rightarrow> domain_key list \<Rightarrow> bool" where
  "names_ok ts ds \<longleftrightarrow> distinct (map fst ts) \<and> distinct (filter (\<lambda>c. c \<noteq> None) (map (\<lambda>k. snd (snd k)) ts)) \<and>
     distinct (map fst ds) \<and> distinct (map row_name ds) \<and>
     (\<forall>n \<in> set (map row_name ds). lower n = n) \<and> (\<forall>k \<in> set ts. anchored (set (primaries ds)) k)"

definition registry_ok :: "tenant_db \<Rightarrow> bool" where
  "registry_ok db = (case registry db of (ts, ds) \<Rightarrow> names_ok ts ds)"

lemma registry_ok_iff: "registry db = (ts, ds) \<Longrightarrow> registry_ok db \<longleftrightarrow> names_ok ts ds"
  by (simp add: registry_ok_def)

lemma in_primaries: "(t, n) \<in> set (primaries ds) \<longleftrightarrow> (\<exists>i. (i, t, n, True) \<in> set ds)"
  by (force simp: primaries_def)

lemma anchored_mono: "anchored ps k \<Longrightarrow> ps \<subseteq> qs \<Longrightarrow> anchored qs k"
  by (auto simp: anchored_def split: option.splits)

lemma names_okI:
  assumes "distinct (map fst ts)" "distinct (filter (\<lambda>c. c \<noteq> None) (map (\<lambda>k. snd (snd k)) ts))" "distinct (map fst ds)"
    "distinct (map row_name ds)" "\<And>d. d \<in> set ds \<Longrightarrow> lower (row_name d) = row_name d"
    "\<And>k. k \<in> set ts \<Longrightarrow> anchored (set (primaries ds)) k"
  shows "names_ok ts ds"
  using assms by (simp add: names_ok_def)

lemma names_okD:
  assumes "names_ok ts ds"
  shows "distinct (map fst ts)" "distinct (filter (\<lambda>c. c \<noteq> None) (map (\<lambda>k. snd (snd k)) ts))" "distinct (map fst ds)"
    "distinct (map row_name ds)" "d \<in> set ds \<Longrightarrow> lower (row_name d) = row_name d"
    "k \<in> set ts \<Longrightarrow> anchored (set (primaries ds)) k"
  using assms by (auto simp: names_ok_def)

lemma names_ok_new_row:
  assumes ok: "names_ok ts ds" and i: "i \<notin> fst ` set ds" and n: "n \<notin> row_name ` set ds" "lower n = n"
  shows "names_ok ts (ds @ [(i, t, n, p)])"
proof (rule names_okI)
  show "anchored (set (primaries (ds @ [(i, t, n, p)]))) k" if "k \<in> set ts" for k
    by (rule anchored_mono [OF names_okD(6) [OF ok that]]) (auto simp: primaries_def)
  show "lower (row_name d) = row_name d" if "d \<in> set (ds @ [(i, t, n, p)])" for d
    using that names_okD(5) [OF ok, of d] n by auto
qed (use names_okD(1-4) [OF ok] i n in simp_all)

lemma names_ok_new_tenant:
  assumes ok: "names_ok ts ds" and t: "t \<notin> fst ` set ts" and c: "Some c \<notin> (\<lambda>k. snd (snd k)) ` set ts"
    and i: "i \<notin> fst ` set ds" and n: "n \<notin> row_name ` set ds" "lower n = n"
  shows "names_ok (ts @ [(t, Some n, Some c)]) (ds @ [(i, t, n, True)])"
proof (rule names_okI)
  note ok' = names_ok_new_row [OF ok i n, of t True]
  show "anchored (set (primaries (ds @ [(i, t, n, True)]))) k" if "k \<in> set (ts @ [(t, Some n, Some c)])" for k
    using that names_okD(6) [OF ok', of k] by (auto simp: anchored_def primaries_def)
  show "lower (row_name d) = row_name d" if "d \<in> set (ds @ [(i, t, n, True)])" for d
    using that by (rule names_okD(5) [OF ok'])
  show "distinct (map fst (ts @ [(t, Some n, Some c)]))"
    using names_okD(1) [OF ok] t by simp
  show "distinct (filter (\<lambda>c. c \<noteq> None) (map (\<lambda>k. snd (snd k)) (ts @ [(t, Some n, Some c)])))"
    using names_okD(2) [OF ok] c by simp
qed (use names_okD(3,4) [OF names_ok_new_row [OF ok i n, of t True]] in blast)+

text \<open>A tenant moves to a name that no other row has: its primary row takes the name.\<close>

definition renamed_tenant :: "uuid \<Rightarrow> string \<Rightarrow> tenant_key \<Rightarrow> tenant_key" where
  "renamed_tenant t n k = (if fst k = t then (fst k, Some n, snd (snd k)) else k)"

definition renamed_row :: "nat \<Rightarrow> string \<Rightarrow> domain_key \<Rightarrow> domain_key" where
  "renamed_row i n d = (if fst d = i then (fst d, fst (snd d), n, snd (snd (snd d))) else d)"

lemma renamed_simps [simp]:
  "fst (renamed_tenant t n k) = fst k" "snd (snd (renamed_tenant t n k)) = snd (snd k)"
  "fst (renamed_row i n d) = fst d" "fst (snd (renamed_row i n d)) = fst (snd d)"
  "snd (snd (snd (renamed_row i n d))) = snd (snd (snd d))"
  "row_name (renamed_row i n d) = (if fst d = i then n else row_name d)"
  by (simp_all add: renamed_tenant_def renamed_row_def)

lemma distinct_renamed:
  assumes "distinct (map key ds)" and "distinct (map nm ds)" and free: "\<And>d. d \<in> set ds \<Longrightarrow> nm d = n \<Longrightarrow> key d = i"
  shows "distinct (map (\<lambda>d. if key d = i then n else nm d) ds)"
  using assms by (induction ds) (auto simp: image_iff)

lemma names_ok_rename:
  assumes ok: "names_ok ts ds" and p: "(i, t, m, True) \<in> set ds" and n: "lower n = n"
    and free: "\<And>d. d \<in> set ds \<Longrightarrow> row_name d = n \<Longrightarrow> fst d = i"
  shows "names_ok (map (renamed_tenant t n) ts) (map (renamed_row i n) ds)"
proof (rule names_okI)
  show "distinct (map row_name (map (renamed_row i n) ds))"
    using distinct_renamed [OF names_okD(3,4) [OF ok] free] by (simp add: comp_def)
  have prim: "(fst (snd d), if fst d = i then n else row_name d) \<in> set (primaries (map (renamed_row i n) ds))"
    if "d \<in> set ds" "snd (snd (snd d))" for d
    unfolding primaries_def set_map set_filter
    by (rule rev_image_eqI [of "renamed_row i n d"]) (use that in auto)
  have one: "d = (i, t, m, True)" if "d \<in> set ds" "fst d = i" for d
    by (rule inj_onD [where f = fst and A = "set ds"])
      (use names_okD(3) [OF ok] that p in \<open>simp_all add: distinct_map\<close>)
  show "anchored (set (primaries (map (renamed_row i n) ds))) k'" if k': "k' \<in> set (map (renamed_tenant t n) ts)" for k'
  proof -
    obtain k where k: "k \<in> set ts" "k' = renamed_tenant t n k" using k' by auto
    show ?thesis
    proof (cases "fst k = t")
      case True
      then show ?thesis
        using prim [OF p] by (simp add: anchored_def k(2) renamed_tenant_def)
    next
      case False
      then have k2: "k' = k" by (simp add: k(2) renamed_tenant_def)
      show ?thesis
      proof (cases "fst (snd k)")
        case (Some c)
        then obtain j where j: "(j, fst k, c, True) \<in> set ds"
          using names_okD(6) [OF ok k(1)] by (auto simp: anchored_def in_primaries)
        then have "j \<noteq> i" using one [OF j] False by auto
        then show ?thesis
          using prim [OF j] Some by (simp add: anchored_def k2)
      qed (simp add: anchored_def k2)
    qed
  qed
  show "lower (row_name d) = row_name d" if "d \<in> set (map (renamed_row i n) ds)" for d
    using that names_okD(5) [OF ok] n by (auto simp del: split_paired_All)
qed (use names_okD(1-3) [OF ok] in \<open>simp_all add: comp_def\<close>)

section \<open>Every operation keeps the names\<close>

lemma registry_domains [simp]: "registry (db\<lparr> tb_domains := ds \<rparr>) = (fst (registry db), map domain_key ds)"
  by (simp add: registry_def)

lemma registry_roles: "st_tenants (rl_base rdb) = st_tenants (tb_store db) \<Longrightarrow> registry (db\<lparr> tb_roles := rdb \<rparr>) = registry db"
  by (simp add: registry_def)

lemma registry_on_store: "(\<And>st. st_tenants (f st) = st_tenants st) \<Longrightarrow> registry (on_store f db) = registry db"
  by (simp add: registry_def on_store_def)

lemma registry_update_tenants:
  "(\<And>t. tenant_key (f t) = tenant_key t) \<Longrightarrow> registry (update_tenants p f db) = registry db"
  by (auto simp: registry_def on_store_def update_tenants_def update_where_def)

lemma registry_verified:
  "(\<And>d. domain_key (f d) = domain_key d) \<Longrightarrow> registry (db\<lparr> tb_domains := update_where p f (tb_domains db) \<rparr>) = registry db"
  by (auto simp: registry_def update_where_def)

lemma committedE:
  assumes "committed m s k = (r, s')"
  obtains (failed) e where "m = Inl e" "r = Inl e" "s' = s" | (wrote) x s1 where "m = Inr (x, s1)" "k x s1 = (r, s')"
  using assms by (auto simp: committed_def split: sum.splits)

lemma seed_roles_tenants: "seed_roles d f now t ss db = ok (m, db') \<Longrightarrow> st_tenants db' = st_tenants db"
proof (induction ss arbitrary: db m db')
  case (Cons s ss)
  have one: "st_tenants db2 = st_tenants db1" if "seed_role d f now t s db1 = ok (m1, db2)" for db1 m1 db2
    using that by (auto simp: seed_role_def Let_def and_then_eq_Inr insert_role_Inr split: if_splits option.splits)
  show ?case
    using Cons.prems Cons.IH one by (fastforce simp: and_then_eq_Inr)
qed simp

lemma seed_tenant_registry: "seed_tenant ob db = ok (m, db') \<Longrightarrow> registry db' = registry db"
  by (auto simp: seed_tenant_def seedTenantRoles_def and_then_eq_Inr intro!: registry_roles dest: seed_roles_tenants)

lemma insert_user_registry: "insert_user u db = ok ((), db') \<Longrightarrow> registry db' = registry db"
  by (auto simp: insert_user_def intro!: registry_on_store split: if_splits)

lemma domain_taken_iff: "domain_taken n db \<longleftrightarrow> (\<exists>t \<in> set (st_tenants (tb_store db)). tn_domain t = Some n)
    \<or> n \<in> row_name ` set (snd (registry db))"
  by (auto simp: domain_taken_def list_ex_iff registry_def domain_key_def image_iff)

lemma insert_tenant_Inr:
  "insert_tenant t db = ok ((), db') \<Longrightarrow>
     registry db' = (fst (registry db) @ [tenant_key t], snd (registry db)) \<and> tn_id t \<notin> fst ` set (fst (registry db)) \<and>
     length (or_empty (tn_domain t)) \<le> 255 \<and> tb_domains db' = tb_domains db \<and> tenant_by (tn_id t) (tb_store db') \<noteq> None"
  by (auto simp: insert_tenant_def registry_def on_store_def tenant_key_def list_ex_iff tenant_by_def find_first_None
      split: if_splits)

lemma insert_domain_Inr:
  "insert_domain d db = ok ((), db') \<Longrightarrow> registry db' = (fst (registry db), snd (registry db) @ [domain_key d]) \<and>
     td_id d \<notin> fst ` set (snd (registry db))"
  by (auto simp: insert_domain_def registry_def list_ex_iff domain_key_def split: if_splits)

lemma insert_domain_succeeds:
  assumes "length (td_domainName d) \<le> 255" "td_id d \<notin> td_id ` set (tb_domains db)"
    "td_domainName d \<notin> td_domainName ` set (tb_domains db)" "tenant_by (td_tenantId d) (tb_store db) \<noteq> None"
  shows "\<exists>db'. insert_domain d db = ok ((), db')"
proof -
  have "\<not> list_ex (\<lambda>q. td_id q = td_id d \<or> td_domainName q = td_domainName d) (tb_domains db)"
    using assms(2,3) by (auto simp: list_ex_iff image_iff)
  then show ?thesis
    using assms(1,4) by (simp add: insert_domain_def)
qed

text \<open>Creating a tenant leaves the names alone, or adds the tenant together with its primary row.\<close>

lemma onboard_registry:
  assumes run: "onboard ob t email first rest full ap db = (r, db')"
    and t: "tn_id t = ob_tenantId ob" "tn_domain t = Some n"
    and free: "\<not> domain_taken n db" and i: "ob_domainId ob \<notin> td_id ` set (tb_domains db)"
  shows "registry db' = registry db \<or>
    (registry db' = (fst (registry db) @ [tenant_key t], snd (registry db) @ [(ob_domainId ob, tn_id t, n, True)]) \<and>
     tn_id t \<notin> fst ` set (fst (registry db)))"
  using run unfolding onboard_def
proof (cases rule: committedE)
  case (wrote x db1)
  then have it: "insert_tenant t db = ok ((), db1)" by simp
  note t1 = insert_tenant_Inr [OF it]
  let ?d = "primary_domain ob (or_empty (tn_domain t))"
  have "\<exists>db2. insert_domain ?d db1 = ok ((), db2)"
    by (rule insert_domain_succeeds)
      (use t1 t i free in \<open>auto simp: primary_domain_def domain_taken_def list_ex_iff\<close>)
  then obtain db2 where d: "insert_domain ?d db1 = ok ((), db2)" ..
  have r2: "registry db2 = (fst (registry db) @ [tenant_key t], snd (registry db) @ [(ob_domainId ob, tn_id t, n, True)])"
    using insert_domain_Inr [OF d] t1 t by (simp add: primary_domain_def domain_key_def)
  have "registry db' = registry db2"
    using wrote(2) unfolding d
  proof (cases rule: committedE)
    case (wrote x db2')
    note run = wrote(2)
    have db2': "db2' = db2" using wrote(1) by simp
    from run show ?thesis unfolding db2'
    proof (cases rule: committedE)
      case (wrote m db3)
      have r3: "registry db3 = registry db2" by (rule seed_tenant_registry [OF wrote(1)])
      from wrote(2) show ?thesis unfolding Let_def
      proof (cases rule: committedE)
        case (wrote y db4)
        have "registry db4 = registry db3"
          using wrote(1) by (auto intro!: insert_user_registry split: if_splits)
        then show ?thesis using wrote(2) r3 by simp
      qed (simp add: r3)
    qed simp
  qed simp
  then show ?thesis using r2 t1 by simp
qed simp

lemma lower_alnum_lower: "lower_alnum c \<Longrightarrow> lower_char c = c"
  by (auto simp: lower_alnum_def lower_char_def Let_def)

lemma lower_domain_char: "lower_alnum c \<or> c = CHR ''.'' \<or> c = CHR ''-'' \<Longrightarrow> lower_char c = c"
  by (elim disjE) (simp_all only: lower_alnum_lower, simp_all add: lower_char_def)

lemma lower_subdomain: "is_subdomain s \<Longrightarrow> lower s = s"
  unfolding is_subdomain_def lower_def list_all_iff by (intro map_idI lower_domain_char) blast

lemma lower_domain_text: "is_domain_text s \<Longrightarrow> lower s = s"
  unfolding is_domain_text_def lower_def list_all_iff by (intro map_idI lower_domain_char) blast

lemma created_tenant_keeps_names:
  assumes ok: "registry_ok db" and run: "onboard ob t email first rest full ap db = (r, db')"
    and t: "tn_id t = ob_tenantId ob" "tn_domain t = Some n" "tn_prefixCode t = Some c"
    and free: "\<not> domain_taken n db" "lower n = n" "prefix_for nm db = Some c"
    and i: "ob_domainId ob \<notin> td_id ` set (tb_domains db)"
  shows "registry_ok db'"
proof -
  obtain ts ds where reg: "registry db = (ts, ds)" by (cases "registry db")
  have names: "names_ok ts ds" using ok by (simp add: registry_ok_iff [OF reg])
  have unused: "\<not> prefix_used (st_tenants (tb_store db)) c"
    using prefix_found [of "st_tenants (tb_store db)" "base_prefix nm"] free(3) by (auto simp: prefix_for_def)
  have c: "Some c \<notin> (\<lambda>k. snd (snd k)) ` set ts"
  proof
    assume "Some c \<in> (\<lambda>k. snd (snd k)) ` set ts"
    then obtain q where "q \<in> set (st_tenants (tb_store db))" "tn_prefixCode q = Some c"
      using reg by (auto simp: registry_def tenant_key_def)
    then show False using unused by (simp add: list_ex_iff)
  qed
  have i': "ob_domainId ob \<notin> fst ` set ds" and n: "n \<notin> row_name ` set ds"
    using i free(1) reg by (auto simp: domain_taken_iff registry_def domain_key_def image_iff)
  have "registry db' = (ts, ds) \<or> (registry db' = (ts @ [(tn_id t, Some n, Some c)], ds @ [(ob_domainId ob, tn_id t, n, True)])
      \<and> tn_id t \<notin> fst ` set ts)"
    using onboard_registry [OF run t(1,2) free(1) i] t by (simp add: reg tenant_key_def)
  then show ?thesis
    using names names_ok_new_tenant [OF names _ c i' n free(2)] by (auto simp: registry_ok_def)
qed

lemma names_ok_retarget:
  assumes ok: "names_ok ts ds" and p: "(t, n) \<in> set (primaries ds)"
  shows "names_ok (map (renamed_tenant t n) ts) ds"
proof (rule names_okI)
  show "anchored (set (primaries ds)) k'" if k': "k' \<in> set (map (renamed_tenant t n) ts)" for k'
  proof -
    obtain k where k: "k \<in> set ts" "k' = renamed_tenant t n k" using k' by auto
    show ?thesis
      using names_okD(6) [OF ok k(1)] p by (simp add: k(2) renamed_tenant_def anchored_def)
  qed
qed (use names_okD(1-5) [OF ok] in \<open>simp_all add: comp_def\<close>)

lemma move_primary_cases:
  assumes "move_primary newId now t n rows = ok rows'"
  obtains (existing) p gone where "p \<in> set rows" "td_tenantId p = t" "td_isPrimary p"
      "\<And>d. gone d \<Longrightarrow> \<exists>a \<in> set rows. td_id d = td_id a \<and> \<not> td_isPrimary a"
      "\<And>d. d \<in> set (filter (\<lambda>d. \<not> gone d) rows) \<Longrightarrow> td_domainName d = n \<Longrightarrow> td_id d = td_id p"
      "rows' = update_where (\<lambda>d. td_id d = td_id p) (\<lambda>d. d\<lparr> td_domainName := n \<rparr>) (filter (\<lambda>d. \<not> gone d) rows)"
    | (added) d gone where "td_id d = newId" "td_tenantId d = t" "td_isPrimary d" "td_domainName d = n"
      "\<And>d. gone d \<Longrightarrow> \<exists>a \<in> set rows. td_id d = td_id a \<and> \<not> td_isPrimary a"
      "\<And>d. d \<in> set (filter (\<lambda>d. \<not> gone d) rows) \<Longrightarrow> td_domainName d \<noteq> n"
      "rows' = filter (\<lambda>d. \<not> gone d) rows @ [d]"
proof -
  define twin where "twin = find_first (\<lambda>d. td_tenantId d = t \<and> td_domainName d = n \<and> \<not> td_isPrimary d) rows"
  define gone :: "tenant_domain \<Rightarrow> bool" where "gone = (\<lambda>d. case twin of Some a \<Rightarrow> td_id d = td_id a | None \<Rightarrow> False)"
  have gone: "\<exists>a \<in> set rows. td_id d = td_id a \<and> \<not> td_isPrimary a" if "gone d" for d
    using that by (auto simp: gone_def twin_def split: option.splits dest: find_first_Some)
  have rest: "(case twin of Some a \<Rightarrow> delete_where (\<lambda>d. td_id d = td_id a) rows | None \<Rightarrow> rows) = filter (\<lambda>d. \<not> gone d) rows"
    by (simp add: gone_def delete_where_def split: option.splits)
  note m = assms [unfolded move_primary_def Let_def, folded twin_def, unfolded rest]
  show thesis
  proof (cases "find_first (\<lambda>d. td_tenantId d = t \<and> td_isPrimary d) rows")
    case None
    show ?thesis
    proof (rule added [where gone = gone, OF _ _ _ _ gone])
      show "rows' = filter (\<lambda>d. \<not> gone d) rows @ [\<lparr> td_id = newId, td_tenantId = t, td_domainName = n, td_isPrimary = True,
              td_verificationStatus = ''VERIFIED'', td_sslStatus = ''ACTIVE'', td_createdAt = now \<rparr>]"
        using m None by (simp split: if_splits)
      show "td_domainName d \<noteq> n" if "d \<in> set (filter (\<lambda>d. \<not> gone d) rows)" for d
        using m None that by (auto simp: list_ex_iff split: if_splits)
    qed simp_all
  next
    case (Some p)
    show ?thesis
    proof (rule existing [where p = p and gone = gone, OF _ _ _ gone])
      show "p \<in> set rows" "td_tenantId p = t" "td_isPrimary p" using find_first_Some [OF Some] by simp_all
      show "rows' = update_where (\<lambda>d. td_id d = td_id p) (\<lambda>d. d\<lparr> td_domainName := n \<rparr>) (filter (\<lambda>d. \<not> gone d) rows)"
        using m Some by (simp split: if_splits)
      show "td_id d = td_id p" if "d \<in> set (filter (\<lambda>d. \<not> gone d) rows)" "td_domainName d = n" for d
        using m Some that by (auto simp: list_ex_iff split: if_splits)
    qed
  qed
qed

lemma domain_keys_renamed:
  "map domain_key (update_where (\<lambda>d. td_id d = i) (\<lambda>d. d\<lparr> td_domainName := n \<rparr>) ds) = map (renamed_row i n) (map domain_key ds)"
  by (simp add: update_where_def domain_key_def renamed_row_def)

lemma tenant_keys_renamed:
  "map tenant_key (update_where (\<lambda>q. tn_id q = t) (\<lambda>q. q\<lparr> tn_domain := Some n \<rparr>) ts) = map (renamed_tenant t n) (map tenant_key ts)"
  by (simp add: update_where_def tenant_key_def renamed_tenant_def)

lemma names_ok_filter_keys:
  assumes ok: "names_ok ts (map domain_key ds)"
    and gone: "\<And>d. gone d \<Longrightarrow> \<exists>a \<in> set ds. td_id d = td_id a \<and> \<not> td_isPrimary a"
  shows "names_ok ts (map domain_key (filter (\<lambda>d. \<not> gone d) ds))" and "p \<in> set ds \<Longrightarrow> td_isPrimary p \<Longrightarrow> \<not> gone p"
proof -
  have ids: "d = e" if "d \<in> set ds" "e \<in> set ds" "td_id d = td_id e" for d e
    using names_okD(3) [OF ok] that by (auto simp: comp_def domain_key_def distinct_map dest: inj_onD)
  show prim: "\<not> gone p" if "p \<in> set ds" "td_isPrimary p" for p
    using gone [of p] ids that by metis
  have "filter td_isPrimary (filter (\<lambda>d. \<not> gone d) ds) = filter td_isPrimary ds"
    using prim by (auto intro!: filter_cong)
  then have ps: "primaries (map domain_key (filter (\<lambda>d. \<not> gone d) ds)) = primaries (map domain_key ds)"
    by (simp add: primaries_def filter_map comp_def domain_key_def)
  show "names_ok ts (map domain_key (filter (\<lambda>d. \<not> gone d) ds))"
  proof (rule names_okI)
    show "anchored (set (primaries (map domain_key (filter (\<lambda>d. \<not> gone d) ds)))) k" if "k \<in> set ts" for k
      unfolding ps using that by (rule names_okD(6) [OF ok])
    show "lower (row_name d) = row_name d" if "d \<in> set (map domain_key (filter (\<lambda>d. \<not> gone d) ds))" for d
      using that by (intro names_okD(5) [OF ok]) auto
  qed (use names_okD(1-4) [OF ok] in \<open>simp_all add: comp_def distinct_map_filter\<close>)
qed

text \<open>A tenant that moves keeps the names in order.\<close>

lemma moved_tenant_keeps_names:
  assumes ok: "names_ok ts (map domain_key rows)" and m: "move_primary newId now t n rows = ok rows'"
    and n: "lower n = n" and fresh: "newId \<notin> td_id ` set rows"
  shows "names_ok (map (renamed_tenant t n) ts) (map domain_key rows')"
  using m
proof (cases rule: move_primary_cases)
  case (existing p gone)
  note rest = names_ok_filter_keys [where gone = gone, OF ok existing(4)]
  have p: "(td_id p, t, td_domainName p, True) \<in> set (map domain_key (filter (\<lambda>d. \<not> gone d) rows))"
    using existing(1-3) rest(2) by (auto simp: domain_key_def image_iff intro!: bexI [of _ p])
  show ?thesis
    unfolding existing(6) domain_keys_renamed
    by (rule names_ok_rename [OF rest(1) p n]) (use existing(5) in \<open>auto simp: domain_key_def\<close>)
next
  case (added d gone)
  have key: "map domain_key rows' = map domain_key (filter (\<lambda>d. \<not> gone d) rows) @ [(newId, t, n, True)]"
    using added(1-4) by (simp add: added(7) domain_key_def)
  have "n \<notin> td_domainName ` set (filter (\<lambda>d. \<not> gone d) rows)" using added(6) by blast
  then have "names_ok ts (map domain_key (filter (\<lambda>d. \<not> gone d) rows) @ [(newId, t, n, True)])"
    by (intro names_ok_new_row names_ok_filter_keys(1) [where gone = gone, OF ok added(5)])
      (use fresh n in \<open>auto simp: domain_key_def image_iff\<close>)
  then show ?thesis
    unfolding key by (rule names_ok_retarget) (auto simp: primaries_def)
qed

lemma updateTenant_Inr:
  assumes "updateTenant newId now t dto db = ok (t', db')"
  obtains data old rows where "tenant_changes dto = ok data" "tenant_by t (tb_store db) = Some old"
    "t' = tenant_row data old" "capacity_checks t data (tb_store db) = ok ()"
    "db' = (update_tenants (\<lambda>q. tn_id q = t) (tenant_row data) db)\<lparr> tb_domains := rows \<rparr>"
    "(dt_domain data = None \<or> dt_domain data = tn_domain old) \<and> rows = tb_domains db \<or>
     (\<exists>n. dt_domain data = Some n \<and> move_primary newId now t n (tb_domains db) = ok rows)"
proof -
  obtain data where d: "tenant_changes dto = ok data"
    and r: "(case tenant_by t (tb_store db) of None \<Rightarrow> throw (NotFound ''Tenant not found.'') | Some q \<Rightarrow>
       (let moved = (case dt_domain data of None \<Rightarrow> None | Some d \<Rightarrow> if tn_domain q = Some d then None else Some d)
        in and_then (case moved of Some d \<Rightarrow> refuse (domain_conflict t d db) subdomain_taken | None \<Rightarrow> ok ()) (\<lambda>_.
           and_then (capacity_checks t data (tb_store db)) (\<lambda>_.
           let updated = update_tenants (\<lambda>q. tn_id q = t) (tenant_row data) db
           in and_then (case moved of Some d \<Rightarrow> move_primary newId now t d (tb_domains db) | None \<Rightarrow> ok (tb_domains db)) (\<lambda>rows.
              ok (tenant_row data q, updated\<lparr> tb_domains := rows \<rparr>)))))) = ok (t', db')"
    using assms unfolding updateTenant_def by (rule and_then_InrE)
  obtain old where old: "tenant_by t (tb_store db) = Some old"
    using r by (cases "tenant_by t (tb_store db)") simp_all
  show thesis
  proof (cases "dt_domain data = None \<or> dt_domain data = tn_domain old")
    case True
    then have "(case dt_domain data of None \<Rightarrow> None | Some d \<Rightarrow> if tn_domain old = Some d then None else Some d) = None"
      by (auto split: option.splits)
    then show ?thesis
      using r True by (intro that [OF d old]) (auto simp: old Let_def and_then_eq_Inr)
  next
    case False
    then obtain n where n: "dt_domain data = Some n" "tn_domain old \<noteq> Some n" by auto
    then obtain rows where "capacity_checks t data (tb_store db) = ok ()" "t' = tenant_row data old"
      "move_primary newId now t n (tb_domains db) = ok rows"
      "db' = (update_tenants (\<lambda>q. tn_id q = t) (tenant_row data) db)\<lparr> tb_domains := rows \<rparr>"
      using r by (auto simp: old Let_def and_then_eq_Inr)
    then show ?thesis by (intro that [OF d old]) (use n in blast)+
  qed
qed

lemma tenant_changes_domain: "tenant_changes dto = ok data \<Longrightarrow> dt_domain data = Some n \<Longrightarrow> lower n = n"
  by (auto simp: tenant_changes_def tenant_subdomain_def and_then_eq_Inr Let_def is_host_label_def lower_subdomain
      split: option.splits json.splits if_splits)

lemma updateTenant_keeps_names:
  assumes ok: "registry_ok db" and u: "updateTenant newId now t dto db = ok (t', db')"
    and fresh: "newId \<notin> td_id ` set (tb_domains db)"
  shows "registry_ok db'"
proof -
  obtain data old rows where data: "tenant_changes dto = ok data" "tenant_by t (tb_store db) = Some old"
    and db': "db' = (update_tenants (\<lambda>q. tn_id q = t) (tenant_row data) db)\<lparr> tb_domains := rows \<rparr>"
    and moved: "(dt_domain data = None \<or> dt_domain data = tn_domain old) \<and> rows = tb_domains db \<or>
     (\<exists>n. dt_domain data = Some n \<and> move_primary newId now t n (tb_domains db) = ok rows)"
    by (rule updateTenant_Inr [OF u]) (rule that; assumption)
  let ?ts = "st_tenants (tb_store db)"
  have names: "names_ok (map tenant_key ?ts) (map domain_key (tb_domains db))"
    using ok by (simp add: registry_ok_def registry_def)
  have old: "old \<in> set ?ts" "tn_id old = t"
    using data(2) by (auto simp: tenant_by_def dest: find_first_Some)
  have one: "q = old" if "q \<in> set ?ts" "tn_id q = t" for q
    using names_okD(1) [OF names] that old by (auto simp: comp_def tenant_key_def distinct_map dest: inj_onD)
  have keys: "map tenant_key (update_where (\<lambda>q. tn_id q = t) (tenant_row data) ?ts) = (case dt_domain data of
      None \<Rightarrow> map tenant_key ?ts | Some n \<Rightarrow> map (renamed_tenant t n) (map tenant_key ?ts))"
    by (auto simp: update_where_def tenant_row_def renamed_tenant_def tenant_key_def split: option.splits)
  have reg: "registry_ok db' = names_ok (map tenant_key (update_where (\<lambda>q. tn_id q = t) (tenant_row data) ?ts)) (map domain_key rows)"
    by (simp add: db' registry_ok_def registry_def update_tenants_def on_store_def)
  show ?thesis
    using moved
  proof (elim disjE conjE exE)
    assume "dt_domain data = None" "rows = tb_domains db"
    then show ?thesis using names by (simp add: reg keys)
  next
    assume same: "dt_domain data = tn_domain old" and rows: "rows = tb_domains db"
    have "tenant_key (tenant_row data q) = tenant_key q" if "q \<in> set ?ts" "tn_id q = t" for q
      unfolding one [OF that] by (simp add: tenant_row_def tenant_key_def same split: option.splits)
    then have "map tenant_key (update_where (\<lambda>q. tn_id q = t) (tenant_row data) ?ts) = map tenant_key ?ts"
      by (simp add: update_where_def)
    then show ?thesis using names by (simp add: reg rows)
  next
    fix n assume n: "dt_domain data = Some n" and m: "move_primary newId now t n (tb_domains db) = ok rows"
    show ?thesis
      using moved_tenant_keeps_names [OF names m tenant_changes_domain [OF data(1) n] fresh] by (simp add: reg keys n)
  qed
qed

lemma tb_domains_simps [simp]:
  "tb_domains (on_store f db) = tb_domains db" "tb_domains (update_tenants p g db) = tb_domains db"
  by (simp_all add: on_store_def update_tenants_def)

lemma approve_limit_registry:
  "approve_limit limit write t db = ok (x, db') \<Longrightarrow> (\<And>n q. tenant_key (write n q) = tenant_key q) \<Longrightarrow>
    registry db' = registry db \<and> tb_domains db' = tb_domains db"
  by (cases limit) (auto simp: approve_limit_def registry_update_tenants split: if_splits)

lemma registry_ok_same: "registry db' = registry db \<Longrightarrow> registry_ok db' = registry_ok db"
  by (simp add: registry_ok_def)

lemma approveUser_keeps_names:
  assumes ok: "registry_ok db" and run: "approveUser newId now mail uid market sub ul mb db = (r, db')"
    and fresh: "newId \<notin> td_id ` set (tb_domains db)"
  shows "registry_ok db'"
proof (cases "find_first (\<lambda>u. us_id u = uid) (st_users (tb_store db))")
  case None
  then show ?thesis using ok run by (simp add: approveUser_def)
next
  case (Some u)
  define db0 where "db0 = update_tenants (\<lambda>t. tn_id t = us_tenantId u) (\<lambda>t. t\<lparr> tn_status := ''ACTIVE'' \<rparr>)
    (on_store (\<lambda>st. st\<lparr> st_users := update_where (\<lambda>q. us_id q = uid \<and> \<not> us_isApproved q)
               (\<lambda>q. q\<lparr> us_isApproved := True, us_isActive := True \<rparr>) (st_users st) \<rparr>) db)"
  define db1 where "db1 = (if market = ''US'' \<or> market = ''IN''
    then update_tenants (\<lambda>t. tn_id t = us_tenantId u) (\<lambda>t. t\<lparr> tn_defaultMarket := market \<rparr>) db0 else db0)"
  have reg1: "registry db1 = registry db" "tb_domains db1 = tb_domains db"
    by (simp_all add: db1_def db0_def registry_update_tenants registry_on_store tenant_key_def)
  show ?thesis
    using run unfolding approveUser_def Some option.case Let_def db0_def [symmetric] db1_def [symmetric]
  proof (cases rule: committedE)
    case (wrote x db2)
    have reg2: "registry db2 = registry db" "tb_domains db2 = tb_domains db"
      using approve_limit_registry [OF wrote(1)] reg1 by (simp_all add: tenant_key_def)
    from wrote(2) show ?thesis
    proof (cases rule: committedE)
      case (wrote y db3)
      have reg3: "registry db3 = registry db" "tb_domains db3 = tb_domains db"
        using approve_limit_registry [OF wrote(1)] reg2 by (simp_all add: tenant_key_def)
      from wrote(2) show ?thesis
      proof (cases rule: committedE)
        case (wrote z db4)
        have "registry_ok db4"
          using wrote(1) ok updateTenant_keeps_names [of db3] fresh reg3 registry_ok_same [OF reg3(1)]
          by (auto simp: updateTenantSubdomain_def and_then_eq_Inr split: if_splits)
        then show ?thesis using wrote(2) by simp
      qed (use ok reg3 in \<open>simp add: registry_ok_same [OF reg3(1)]\<close>)
    qed (use ok reg2 in \<open>simp add: registry_ok_same [OF reg2(1)]\<close>)
  qed (use ok reg1 in \<open>simp add: registry_ok_same [OF reg1(1)]\<close>)
qed

section \<open>Unambiguous names\<close>

text \<open>One request on tenants, whatever it answers.  The identifiers of new rows of names come from a sequence.\<close>

inductive tenant_step :: "tenant_db \<Rightarrow> tenant_db \<Rightarrow> bool" where
  tenant_registered: "registerTenant ob dto db = Some (r, db') \<Longrightarrow> ob_domainId ob \<notin> td_id ` set (tb_domains db) \<Longrightarrow> tenant_step db db'"
| tenant_created: "createManualTenant ob mdto db = Some (r, db') \<Longrightarrow> ob_domainId ob \<notin> td_id ` set (tb_domains db) \<Longrightarrow> tenant_step db db'"
| tenant_approved: "approveUser newId now mail uid market sub ul mb db = (a, db') \<Longrightarrow> newId \<notin> td_id ` set (tb_domains db)
    \<Longrightarrow> tenant_step db db'"
| tenant_updated: "updateTenant newId now t udto db = ok (t', db') \<Longrightarrow> newId \<notin> td_id ` set (tb_domains db) \<Longrightarrow> tenant_step db db'"
| tenant_status: "updateTenantStatus t status db = ok (s, db') \<Longrightarrow> tenant_step db db'"
| tenant_market: "updateTenantMarket t market db = ok (s, db') \<Longrightarrow> tenant_step db db'"
| domain_added: "addTenantDomain newId now t n db = ok (d, db') \<Longrightarrow> tenant_step db db'"
| domain_removed: "deleteTenantDomain t i db = ok db' \<Longrightarrow> tenant_step db db'"
| domain_verified: "verifyCustomDomain dns t n db = ok (b, db') \<Longrightarrow> tenant_step db db'"
| tenant_configured: "updateTenantSettings logo t settings sdb = ok sdb' \<Longrightarrow> tenant_step (sd_tenants sdb) (sd_tenants sdb')"

lemma registration_checks_Inr:
  "registration_checks dto db = ok () \<Longrightarrow> is_subdomain (rg_subdomain dto) \<and> \<not> domain_taken (rg_subdomain dto) db"
  by (simp add: registration_checks_def Let_def)

lemma manual_checks_Inr:
  "manual_checks dto db = ok () \<Longrightarrow> is_subdomain (mt_subdomain dto) \<and> \<not> domain_taken (mt_subdomain dto) db"
  by (simp add: manual_checks_def Let_def)

lemma new_tenant_simps [simp]:
  "tn_id (new_tenant ob c n s p u b) = ob_tenantId ob" "tn_domain (new_tenant ob c n s p u b) = Some n"
  "tn_prefixCode (new_tenant ob c n s p u b) = Some p" "tn_status (new_tenant ob c n s p u b) = s"
  by (simp_all add: new_tenant_def)

lemma registerTenant_cases:
  assumes "registerTenant ob dto db = Some (r, db')"
  obtains (refused) e where "registration_checks dto db = Inl e" "r = Inl e" "db' = db"
    | (tried) code name where "registration_checks dto db = ok ()" "prefix_for name db = Some code"
        "onboard ob (new_tenant ob (trim (rg_companyName dto)) (rg_subdomain dto) ''PENDING'' code 5 5)
          (lower (trim (rg_email dto))) (hd (words (trim (rg_fullName dto)))) (joined_by '' '' (tl (words (trim (rg_fullName dto)))))
          (trim (rg_fullName dto)) False db = (r, db')"
  using assms by (auto simp: registerTenant_def Let_def split: sum.splits option.splits)

lemma registerTenant_keeps_names:
  assumes ok: "registry_ok db" and run: "registerTenant ob dto db = Some (r, db')"
    and fresh: "ob_domainId ob \<notin> td_id ` set (tb_domains db)"
  shows "registry_ok db'"
  using run
proof (cases rule: registerTenant_cases)
  case (tried code name)
  show ?thesis
    by (rule created_tenant_keeps_names [where n = "rg_subdomain dto" and nm = name, OF ok tried(3)])
      (use registration_checks_Inr [OF tried(1)] lower_subdomain tried(2) fresh in simp_all)
qed (simp add: ok)

lemma createManualTenant_keeps_names:
  assumes ok: "registry_ok db" and run: "createManualTenant ob dto db = Some (r, db')"
    and fresh: "ob_domainId ob \<notin> td_id ` set (tb_domains db)"
  shows "registry_ok db'"
proof (cases "manual_checks dto db")
  case (Inl e)
  then show ?thesis using ok run by (simp add: createManualTenant_def)
next
  case (Inr u)
  then obtain code where c: "prefix_for (trim (mt_companyName dto)) db = Some code"
    and o: "onboard ob (new_tenant ob (trim (mt_companyName dto)) (mt_subdomain dto) ''ACTIVE'' code
        (number_or (mt_userLimit dto) 20) (number_or (mt_maxBranches dto) 5)) (lower (trim (mt_adminEmail dto)))
        (trim (mt_adminFirstName dto)) (trim (mt_adminLastName dto))
        (trim (trim (mt_adminFirstName dto) @ '' '' @ trim (mt_adminLastName dto))) True db = (r, db')"
    using run by (auto simp: createManualTenant_def Let_def split: option.splits)
  show ?thesis
    by (rule created_tenant_keeps_names [where n = "mt_subdomain dto" and nm = "trim (mt_companyName dto)", OF ok o])
      (use manual_checks_Inr [of dto db] Inr lower_subdomain c fresh in simp_all)
qed

lemma addTenantDomain_keeps_names:
  assumes ok: "registry_ok db" and a: "addTenantDomain newId now t n db = ok (d, db')"
  shows "registry_ok db'"
proof -
  obtain ts ds where reg: "registry db = (ts, ds)" by (cases "registry db")
  let ?n = "trim (lower n)"
  have valid: "is_domain_text ?n" and free: "\<not> list_ex (\<lambda>d. td_domainName d = ?n) (tb_domains db)"
    and i: "insert_domain d db = ok ((), db')" and d: "td_domainName d = ?n"
    using a by (auto simp: addTenantDomain_def Let_def and_then_eq_Inr split: if_splits)
  have n: "?n \<notin> row_name ` set ds"
  proof
    assume "?n \<in> row_name ` set ds"
    then obtain q where "q \<in> set (tb_domains db)" "td_domainName q = ?n"
      using reg by (auto simp: registry_def domain_key_def)
    then show False using free by (simp add: list_ex_iff)
  qed
  show ?thesis
    using ok insert_domain_Inr [OF i] names_ok_new_row [OF _ _ n lower_domain_text [OF valid]] d
    by (simp add: reg registry_ok_def domain_key_def)
qed

lemma deleteTenantDomain_keeps_names:
  assumes ok: "registry_ok db" and d: "deleteTenantDomain t i db = ok db'"
  shows "registry_ok db'"
proof -
  obtain a where a: "a \<in> set (tb_domains db)" "td_id a = i" "\<not> td_isPrimary a"
    and db': "db' = db\<lparr> tb_domains := delete_where (\<lambda>d. td_id d = i \<and> td_tenantId d = t) (tb_domains db) \<rparr>"
    using d by (auto simp: deleteTenantDomain_def dest!: find_first_Some split: option.splits if_splits)
  have "names_ok (fst (registry db)) (map domain_key (filter (\<lambda>d. \<not> (td_id d = i \<and> td_tenantId d = t)) (tb_domains db)))"
    by (rule names_ok_filter_keys(1)) (use ok a in \<open>auto simp: registry_ok_def registry_def\<close>)
  then show ?thesis by (simp add: db' registry_ok_def delete_where_def)
qed

lemma verifyCustomDomain_Inr:
  assumes "verifyCustomDomain dns t n db = ok (b, db')"
  obtains p f where "db' = db\<lparr> tb_domains := update_where p f (tb_domains db) \<rparr>" "\<And>d. domain_key (f d) = domain_key d"
proof -
  let ?n = "trim (lower n)"
  obtain d where f: "find_first (\<lambda>d. lower (td_domainName d) = ?n \<and> td_tenantId d = t) (tb_domains db) = Some d"
    using assms by (cases "find_first (\<lambda>d. lower (td_domainName d) = ?n \<and> td_tenantId d = t) (tb_domains db)")
      (simp_all add: verifyCustomDomain_def Let_def split: if_splits)
  have "db' = db\<lparr> tb_domains := update_where (\<lambda>q. td_id q = td_id d) (\<lambda>q. q\<lparr>
      td_verificationStatus := if is_local_domain dns ?n \<or> points_here dns ?n then ''VERIFIED'' else ''PENDING'',
      td_sslStatus := if is_local_domain dns ?n \<or> points_here dns ?n then ''ACTIVE'' else ''PENDING'' \<rparr>) (tb_domains db) \<rparr>"
    using assms unfolding verifyCustomDomain_def Let_def if_throw_eq f option.case sum.inject prod.inject by (elim conjE) (rule sym)
  then show thesis by (rule that) (simp add: domain_key_def)
qed

lemma updateTenantStatus_registry: "updateTenantStatus t status db = ok (s, db') \<Longrightarrow> registry db' = registry db"
  unfolding updateTenantStatus_def Let_def if_throw_eq sum.inject prod.inject
  by (elim conjE, hypsubst, rule registry_update_tenants) (simp add: tenant_key_def)

lemma updateTenantMarket_registry: "updateTenantMarket t market db = ok (s, db') \<Longrightarrow> registry db' = registry db"
  unfolding updateTenantMarket_def if_throw_eq sum.inject prod.inject
  by (elim conjE, hypsubst, rule registry_update_tenants) (simp add: tenant_key_def)

lemma updateTenantSettings_registry:
  "updateTenantSettings logo t s db = ok db' \<Longrightarrow> registry (sd_tenants db') = registry (sd_tenants db)"
  unfolding updateTenantSettings_def and_then_eq_Inr if_throw_eq sum.inject
  by (elim exE conjE, hypsubst) (simp add: registry_update_tenants tenant_key_def)

lemma tenant_step_keeps_names: "tenant_step db db' \<Longrightarrow> registry_ok db \<Longrightarrow> registry_ok db'"
proof (induction rule: tenant_step.induct)
  case (tenant_status t status db s db')
  have "registry db' = registry db" by (rule updateTenantStatus_registry [OF tenant_status.hyps])
  then show ?case using tenant_status.prems by (rule registry_ok_same [THEN iffD2])
next
  case (tenant_market t market db s db')
  have "registry db' = registry db" by (rule updateTenantMarket_registry [OF tenant_market.hyps])
  then show ?case using tenant_market.prems by (rule registry_ok_same [THEN iffD2])
next
  case (domain_verified dns t n db b db')
  obtain p f where "db' = db\<lparr> tb_domains := update_where p f (tb_domains db) \<rparr>" "\<And>d. domain_key (f d) = domain_key d"
    by (rule verifyCustomDomain_Inr [OF domain_verified.hyps]) (rule that)
  then have "registry db' = registry db" by (simp only: registry_verified)
  then show ?case using domain_verified.prems by (rule registry_ok_same [THEN iffD2])
next
  case (tenant_configured logo t settings sdb sdb')
  have "registry (sd_tenants sdb') = registry (sd_tenants sdb)"
    by (rule updateTenantSettings_registry [OF tenant_configured.hyps])
  then show ?case using tenant_configured.prems by (rule registry_ok_same [THEN iffD2])
qed (blast intro: registerTenant_keeps_names createManualTenant_keeps_names approveUser_keeps_names updateTenant_keeps_names
    addTenantDomain_keeps_names deleteTenantDomain_keeps_names)+

lemma tenant_steps_keep_names: "tenant_step\<^sup>*\<^sup>* db db' \<Longrightarrow> registry_ok db \<Longrightarrow> registry_ok db'"
  by (induction rule: rtranclp_induct) (auto intro: tenant_step_keeps_names)

lemma at_most_one: "(\<And>x y. x \<in> set xs \<Longrightarrow> y \<in> set xs \<Longrightarrow> x = y) \<Longrightarrow> length (uniq xs) \<le> 1"
proof -
  assume same: "\<And>x y. x \<in> set xs \<Longrightarrow> y \<in> set xs \<Longrightarrow> x = y"
  have "card (set (uniq xs)) \<le> 1"
    using same by (intro card_le_Suc0_iff_eq [THEN iffD2, folded One_nat_def]) auto
  then show ?thesis by (metis distinct_card distinct_uniq)
qed

lemma names_lead_to_one_tenant:
  assumes ok: "registry_ok db"
  shows "length (tenants_named name db) \<le> 1"
  unfolding tenants_named_def
proof (rule at_most_one)
  let ?ts = "map tenant_key (st_tenants (tb_store db))" and ?ds = "map domain_key (tb_domains db)"
  have names: "names_ok ?ts ?ds" using ok by (simp add: registry_ok_def registry_def)
  define named where "named = (\<lambda>x. \<exists>d \<in> set (tb_domains db). td_tenantId d = x \<and> td_domainName d = lower name)"
  have low: "td_domainName d = lower (td_domainName d)" if "d \<in> set (tb_domains db)" for d
    using names_okD(5) [OF names, of "domain_key d"] that by (simp add: domain_key_def)
  have anchor: "named (tn_id t)" if t: "t \<in> set (st_tenants (tb_store db))" "tn_domain t = Some n" "lower n = lower name" for t n
  proof -
    have "anchored (set (primaries ?ds)) (tenant_key t)" using names_okD(6) [OF names] t(1) by simp
    then obtain d where d: "d \<in> set (tb_domains db)" "td_tenantId d = tn_id t" "td_domainName d = n"
      using t(2) by (auto simp: anchored_def tenant_key_def in_primaries domain_key_def)
    then show ?thesis using low [OF d(1)] t(3) by (auto simp: named_def)
  qed
  have all: "named x" if "x \<in> set (map td_tenantId (find_many (\<lambda>d. lower (td_domainName d) = lower name) (tb_domains db))
      @ map tn_id (find_many (\<lambda>t. case tn_domain t of Some d \<Rightarrow> lower d = lower name | None \<Rightarrow> False) (st_tenants (tb_store db))))" for x
    using that anchor low by (fastforce simp: named_def find_many_def split: option.splits)
  have one: "x = y" if both: "named x" "named y" for x y
  proof -
    obtain d where "d \<in> set (tb_domains db)" "td_tenantId d = x" "td_domainName d = lower name"
      using both(1) unfolding named_def by blast
    moreover obtain e where "e \<in> set (tb_domains db)" "td_tenantId e = y" "td_domainName e = lower name"
      using both(2) unfolding named_def by blast
    moreover have "inj_on (\<lambda>d. td_domainName d) (set (tb_domains db))"
      using names_okD(4) [OF names] by (simp add: comp_def domain_key_def distinct_map)
    ultimately show ?thesis by (metis inj_onD)
  qed
  fix x y
  assume "x \<in> set (map td_tenantId (find_many (\<lambda>d. lower (td_domainName d) = lower name) (tb_domains db))
      @ map tn_id (find_many (\<lambda>t. case tn_domain t of Some d \<Rightarrow> lower d = lower name | None \<Rightarrow> False) (st_tenants (tb_store db))))"
    and "y \<in> set (map td_tenantId (find_many (\<lambda>d. lower (td_domainName d) = lower name) (tb_domains db))
      @ map tn_id (find_many (\<lambda>t. case tn_domain t of Some d \<Rightarrow> lower d = lower name | None \<Rightarrow> False) (st_tenants (tb_store db))))"
  then show "x = y" using all one by blast
qed


section \<open>Rows to evaluate the operations on\<close>

definition sample_tenants :: tenant_db where
  "sample_tenants = \<lparr> tb_roles = \<lparr> rl_base = empty_store,
       rl_systemRoles = [\<lparr> sr_id = ''s1'', sr_name = ''Admin'', sr_systemKey = ''TENANT_ADMIN'', sr_permissions = [''tenant:settings''] \<rparr>],
       rl_invitations = [] \<rparr>, tb_domains = [] \<rparr>"

definition sample_onboarding :: "unit result \<Rightarrow> onboarding" where
  "sample_onboarding keycloak = \<lparr> ob_tenantId = ''t'', ob_userId = ''u'', ob_domainId = 1, ob_roleId = (\<lambda>k. ''r''),
     ob_now = 0, ob_defaultTenant = ''0'', ob_provision = (\<lambda>_. keycloak), ob_mailAccepted = True \<rparr>"

definition sample_registration :: registration where
  "sample_registration = \<lparr> rg_companyName = ''Ac'', rg_email = ''a@x'', rg_fullName = ''Al'', rg_password = ''abcdefgh'',
     rg_subdomain = ''ac'' \<rparr>"

lemma outcome_Inr:
  assumes "case m of Some (Inr x, s) \<Rightarrow> P x s | _ \<Rightarrow> False"
  shows "\<exists>x s. m = Some (Inr x, s) \<and> P x s"
proof (cases m)
  case (Some p)
  then show ?thesis using assms by (cases p; cases "fst p") auto
qed (use assms in simp)

lemma sample_registered:
  "case registerTenant (sample_onboarding (ok ())) sample_registration sample_tenants of
     Some (Inr rd, db') \<Rightarrow> tenants_named ''AC'' db' = [''t''] \<and> us_roleId (rd_user rd) = Some ''r'' | _ \<Rightarrow> False"
  by code_simp

lemma sample_names: "registry_ok sample_tenants"
  by code_simp


section \<open>Refused registrations\<close>

definition internal_error :: "http_error \<Rightarrow> bool" where
  "internal_error e = (case e of InternalError _ \<Rightarrow> True | _ \<Rightarrow> False)"

lemma internal_error_simps [simp]:
  "internal_error (InternalError m)" "\<not> internal_error (BadRequest m)" "\<not> internal_error (Conflict m)"
  by (simp_all add: internal_error_def)

lemma insert_errors:
  "insert_tenant t db = Inl e \<Longrightarrow> internal_error e" "insert_domain d db = Inl e \<Longrightarrow> internal_error e"
  "insert_user u db = Inl e \<Longrightarrow> internal_error e"
  by (auto simp: insert_tenant_def insert_domain_def insert_user_def split: if_splits)

lemma role_row_check_errors: "role_row_check db r = Inl e \<Longrightarrow> internal_error e"
  by (auto simp: role_row_check_def lead_role_trigger_def and_then_eq_Inl split: if_splits option.splits)

lemma seed_role_errors: "seed_role d f now t s db = Inl e \<Longrightarrow> internal_error e"
  by (auto simp: seed_role_def insert_role_def Let_def and_then_eq_Inl dest: role_row_check_errors split: if_splits option.splits)

lemma seed_roles_errors: "seed_roles d f now t ss db = Inl e \<Longrightarrow> internal_error e"
  by (induction ss arbitrary: db) (auto simp: and_then_eq_Inl dest: seed_role_errors)

lemma seed_tenant_errors: "seed_tenant ob db = Inl e \<Longrightarrow> internal_error e"
  by (auto simp: seed_tenant_def seedTenantRoles_def and_then_eq_Inl dest: seed_roles_errors)

lemma onboard_errors:
  assumes run: "onboard ob t email first rest full ap db = (Inl e, db')" and k: "\<And>m e. ob_provision ob m = Inl e \<Longrightarrow> internal_error e"
  shows "internal_error e"
  using run by (auto simp: onboard_def Let_def and_then_eq_Inl committed_def split: sum.splits if_splits)
    (blast intro: insert_errors seed_tenant_errors k)+

text \<open>C40: A registration that is refused for a reason the caller can mend - missing or ill-formed fields, a subdomain or
  an e-mail address that is taken - has written nothing; only a failure inside (of the database or of Keycloak) may
  leave a tenant behind.\<close>

theorem refused_registration_writes_nothing:
  assumes run: "registerTenant ob dto db = Some (Inl e, db')" and mend: "\<not> internal_error e"
    and keycloak: "\<And>m e. ob_provision ob m = Inl e \<Longrightarrow> internal_error e"
  shows "db' = db \<and> registration_checks dto db = Inl e"
  using run
proof (cases rule: registerTenant_cases)
  case (tried code name)
  have "internal_error e" by (rule onboard_errors [OF tried(3)]) (rule keycloak)
  then show ?thesis using mend by simp
qed simp

theorem refused_registration_writes_nothing_witness:
  "\<exists>e. registerTenant (sample_onboarding (ok ())) (sample_registration\<lparr> rg_subdomain := ''A'' \<rparr>) sample_tenants = Some (Inl e, sample_tenants) \<and>
    sample_tenants = sample_tenants \<and> registration_checks (sample_registration\<lparr> rg_subdomain := ''A'' \<rparr>) sample_tenants = Inl e"
proof -
  let ?dto = "sample_registration\<lparr> rg_subdomain := ''A'' \<rparr>" and ?ob = "sample_onboarding (ok ())"
  have "case registration_checks ?dto sample_tenants of Inl e \<Rightarrow> \<not> internal_error e | Inr _ \<Rightarrow> False"
    by code_simp
  then obtain e where e: "registration_checks ?dto sample_tenants = Inl e" "\<not> internal_error e"
    by (cases "registration_checks ?dto sample_tenants") auto
  then have r: "registerTenant ?ob ?dto sample_tenants = Some (Inl e, sample_tenants)"
    by (simp add: registerTenant_def)
  show ?thesis
    using r refused_registration_writes_nothing [OF r e(2)] by (intro exI [of _ e]) (simp add: sample_onboarding_def)
qed

text \<open>A failure of Keycloak leaves the tenant behind: the same registration is then refused, since its own first
  attempt has taken the subdomain.\<close>

lemma orphan_blocks_retry:
  "\<exists>e db' m. registerTenant (sample_onboarding (throw (InternalError ''Keycloak''))) sample_registration sample_tenants = Some (Inl e, db') \<and>
     domain_taken ''ac'' db' \<and> registerTenant ob sample_registration db' = Some (Inl (Conflict m), db')"
proof -
  let ?r = "registerTenant (sample_onboarding (throw (InternalError ''Keycloak''))) sample_registration sample_tenants"
  have "case ?r of Some (Inl e, db') \<Rightarrow> domain_taken ''ac'' db' \<and>
      (case registration_checks sample_registration db' of Inl (Conflict m) \<Rightarrow> True | _ \<Rightarrow> False) | _ \<Rightarrow> False"
    by code_simp
  then obtain e db' m where "?r = Some (Inl e, db')" "domain_taken ''ac'' db'"
      "registration_checks sample_registration db' = Inl (Conflict m)"
    by (auto split: option.split_asm prod.split_asm sum.split_asm http_error.split_asm)
  then show ?thesis by (auto simp: registerTenant_def)
qed

section \<open>Capacity\<close>

lemma capacity_Inr:
  assumes "capacity what v = ok m" and "v \<noteq> None"
  shows "\<exists>k. m = Some k \<and> k \<in> {1..2147483647}"
proof -
  obtain j where j: "v = Some j" using assms(2) by auto
  then obtain n where n: "safe_integer j = Some n" using assms(1) by (cases "safe_integer j") (simp_all add: capacity_def)
  show ?thesis using assms(1) by (auto simp: capacity_def j n split: if_splits)
qed



section \<open>Signing in\<close>

lemma find_first_update_same:
  "(\<And>r. p (f r) = p r) \<Longrightarrow> find_first p (update_where p f t) = map_option f (find_first p t)"
  by (induction t) (auto simp: find_first_def update_where_def)

lemma find_first_snoc: "find_first p t = None \<Longrightarrow> find_first p (t @ [r]) = (if p r then Some r else None)"
  by (induction t) (auto simp: find_first_def split: if_splits)

text \<open>C38: Whatever an administrator sends, an accepted sign-in policy leaves a standard method of signing in; the stored
  client secret changes only to an unmasked secret that was sent; and where developer sign-in is not allowed or a second
  factor is required, the developer sessions issued so far are invalidated.\<close>

theorem policy_keeps_sign_in:
  assumes u: "updateTenantAuthPolicy configure d epoch t dto db = ok (policy, uri, db')"
  shows "\<exists>row. settings_of t db' = Some row \<and>
    ((as_allowPasswordLogin row \<and> \<not> as_enforceSsoOnly row) \<or> as_allowMicrosoftSso row \<or> as_allowGoogleSso row) \<and>
    as_microsoftClientSecret row = (case submitted_secret dto of Some k \<Rightarrow> Some k
       | None \<Rightarrow> Option.bind (settings_of t db) as_microsoftClientSecret) \<and>
    (\<not> as_allowDeveloperLogin row \<or> as_requireMfa row \<longrightarrow> as_epoch row = epoch)"
proof -
  obtain current where std: "\<not> ((\<not> sp_allowPasswordLogin (merged_policy dto current) \<or> sp_enforceSsoOnly (merged_policy dto current))
        \<and> \<not> sp_allowMicrosoftSso (merged_policy dto current) \<and> \<not> sp_allowGoogleSso (merged_policy dto current))"
    and ins: "upsert_settings (policy_row (merged_policy dto current) (submitted_secret dto) (new_settings epoch t))
          (\<lambda>s. (policy_row (merged_policy dto current) (submitted_secret dto) s)\<lparr> as_epoch :=
             (if \<not> sp_allowDeveloperLogin (merged_policy dto current) \<or> sp_requireMfa (merged_policy dto current)
                then epoch else as_epoch s) \<rparr>) db = ok db'"
    using u unfolding updateTenantAuthPolicy_def Let_def and_then_eq_Inr if_throw_eq sum.inject prod.inject
    by (elim exE conjE, hypsubst) (rule that; assumption)
  let ?p = "merged_policy dto current"
  have tid: "as_tenantId (policy_row q k s) = as_tenantId s" for q k s by (simp add: policy_row_def)
  define row where "row = (\<lambda>s. (policy_row ?p (submitted_secret dto) s)\<lparr> as_epoch :=
      (if \<not> sp_allowDeveloperLogin ?p \<or> sp_requireMfa ?p then epoch else as_epoch s) \<rparr>)"
  have rid: "as_tenantId (row s) = as_tenantId s" for s by (simp add: row_def tid)
  have "\<exists>s. settings_of t db' = Some (row s) \<and> as_microsoftClientSecret s = Option.bind (settings_of t db) as_microsoftClientSecret"
  proof (cases "settings_of t db")
    case None
    then have "db' = db\<lparr> sd_settings := sd_settings db @ [policy_row ?p (submitted_secret dto) (new_settings epoch t)] \<rparr>"
      using ins by (simp add: upsert_settings_def tid new_settings_def split: if_splits)
    moreover have "policy_row ?p (submitted_secret dto) (new_settings epoch t) = row (new_settings epoch t)"
      by (simp add: row_def new_settings_def policy_row_def)
    ultimately have "settings_of t db' = Some (row (new_settings epoch t))"
      using None by (simp add: settings_of_def find_first_snoc rid new_settings_def)
    then show ?thesis using None by (auto simp: new_settings_def)
  next
    case (Some s)
    then have "db' = db\<lparr> sd_settings := update_where (\<lambda>s. as_tenantId s = t) row (sd_settings db) \<rparr>"
      using ins by (simp add: upsert_settings_def tid new_settings_def row_def)
    then have "settings_of t db' = Some (row s)"
      using Some by (simp add: settings_of_def find_first_update_same rid)
    then show ?thesis using Some by auto
  qed
  then show ?thesis
    using std by (auto simp: row_def policy_row_def split: option.splits)
qed

text \<open>The host of a verified name need not belong to the platform: its name only has to end in the same letters.\<close>

lemma foreign_host_verifies:
  "points_here \<lparr> dn_cname = (\<lambda>_. Some [''evilx.io'']), dn_address = (\<lambda>_. None), dn_production = True, dn_baseDomain = ''x.io'',
     dn_serverIp = ''1'' \<rparr> n"
proof -
  have "suffix (lower ''x.io'') (without_dot (lower ''evilx.io''))" by code_simp
  then show ?thesis by (simp add: points_here_def)
qed

definition sample_sign_in :: sign_in_db where
  "sample_sign_in = \<lparr> sd_tenants = on_store (\<lambda>_. two_pods) sample_tenants, sd_settings = [], sd_profiles = [] \<rparr>"

theorem policy_keeps_sign_in_witness:
  "\<exists>policy uri db' row. updateTenantAuthPolicy (\<lambda>_ _ _ _. (None, None)) ''0'' ''e'' ''t''
      [(''allowPasswordLogin'', JBool False), (''allowGoogleSso'', JBool True)] sample_sign_in = ok (policy, uri, db') \<and>
    settings_of ''t'' db' = Some row \<and>
    ((as_allowPasswordLogin row \<and> \<not> as_enforceSsoOnly row) \<or> as_allowMicrosoftSso row \<or> as_allowGoogleSso row)"
proof -
  let ?u = "updateTenantAuthPolicy (\<lambda>_ _ _ _. (None, None)) ''0'' ''e'' ''t''
      [(''allowPasswordLogin'', JBool False), (''allowGoogleSso'', JBool True)] sample_sign_in"
  have "succeeds ?u" by code_simp
  then obtain policy uri db' where u: "?u = ok (policy, uri, db')" by (auto simp: succeeds_iff)
  show ?thesis using u policy_keeps_sign_in [OF u] by blast
qed

end
