(* ===== verification/Desk.thy ===== *)
theory Desk
  imports SignIn
begin

text \<open>
  The tables that clients, their contacts and jobs share, with the columns their services use
  (\<^verbatim>\<open>prisma/schema.prisma\<close>).  A job row extends the row of \<open>Store\<close>; \<open>jf_columns\<close> and \<open>cl_columns\<close>
  hold the columns that are only copied, by the names Prisma gives them, with \<open>JNull\<close> for \<^verbatim>\<open>null\<close>.
  The tables that other components own are in \<open>dk_base\<close>, whose table of jobs is not used here.
\<close>

section \<open>Rows\<close>

text \<open>The columns of \<^verbatim>\<open>tenants\<close> that decide who sees clients and their contacts.\<close>

record client_policy =
  cp_tenantId :: uuid
  cp_clientsVisibleAcrossUnits :: bool
  cp_bdmClientsTenantWide :: bool
  cp_otherOwnerPocsVisible :: bool
  cp_maskOtherOwnerPocDetails :: bool

record client =
  cl_id :: uuid
  cl_tenantId :: uuid
  cl_clientCode :: "string option"
  cl_clientName :: string
  cl_status :: string
  cl_approvalStatus :: "string option"
  cl_assignedApproverId :: "uuid option"
  cl_approvedBy :: "uuid option"
  cl_approvedAt :: "int option"
  cl_rejectionReason :: "string option"
  cl_primaryOwner :: "string option"
  cl_createdBy :: "uuid option"
  cl_modifiedBy :: "string option"
  cl_branchId :: "uuid option"
  cl_market :: string
  cl_currency :: string
  cl_createdAt :: int
  cl_deletedAt :: "int option"
  cl_columns :: "string \<Rightarrow> json"

record contact =
  ct_id :: uuid
  ct_tenantId :: uuid
  ct_clientId :: uuid
  ct_createdBy :: uuid
  ct_name :: string
  ct_designation :: "string option"
  ct_email :: "string option"
  ct_phone :: "string option"
  ct_linkedinUrl :: "string option"
  ct_isPrimary :: bool
  ct_notes :: "string option"
  ct_createdAt :: int

record job_file = job +
  jf_clientId :: "uuid option"
  jf_endClientId :: "uuid option"
  jf_pocId :: "uuid option"
  jf_endClientPocId :: "uuid option"
  jf_recruitmentManagerId :: "uuid option"
  jf_assignedApproverId :: "uuid option"
  jf_approvedBy :: "uuid option"
  jf_approvedAt :: "int option"
  jf_rejectionReason :: "string option"
  jf_isCoSourced :: bool
  jf_sharedBranchIds :: "uuid list"
  jf_createdAt :: int
  jf_updatedAt :: int
  jf_columns :: "string \<Rightarrow> json"

text \<open>\<open>dg_status\<close> is one of \<^verbatim>\<open>PENDING\<close>, \<^verbatim>\<open>ACCEPTED\<close> and \<^verbatim>\<open>REJECTED\<close>.\<close>

record delegation =
  dg_id :: uuid
  dg_tenantId :: uuid
  dg_jobId :: uuid
  dg_sourceBranchId :: uuid
  dg_targetBranchId :: uuid
  dg_targetUnitId :: "uuid option"
  dg_status :: string
  dg_slaDaysTarget :: "int option"
  dg_notes :: "string option"
  dg_assignedPodId :: "uuid option"
  dg_createdAt :: int

record creation_grant =
  gr_id :: uuid
  gr_tenantId :: uuid
  gr_accountManagerId :: uuid
  gr_delegateUserId :: uuid
  gr_grantedBy :: "uuid option"
  gr_revokedAt :: "int option"
  gr_expiresAt :: "int option"
  gr_maxJobs :: "int option"
  gr_jobsUsed :: int
  gr_createdAt :: int

text \<open>A row of the audit log: its action, the kind and identifier of its target.\<close>

record audit_entry =
  ae_tenantId :: uuid
  ae_action :: string
  ae_targetType :: string
  ae_targetId :: string

record assignment_log =
  al_tenantId :: uuid
  al_jobId :: uuid
  al_podId :: "uuid option"
  al_assignedBy :: string

record desk =
  dk_base :: store
  dk_policies :: "client_policy list"
  dk_clients :: "client list"
  dk_contacts :: "contact list"
  dk_counters :: "(uuid \<times> int) list"
  dk_jobs :: "job_file list"
  dk_delegations :: "delegation list"
  dk_grants :: "creation_grant list"
  dk_audit :: "audit_entry list"
  dk_assignments :: "assignment_log list"
  dk_submissions :: "(uuid \<times> uuid \<times> uuid) list"

text \<open>\<open>dk_submissions\<close> keeps of each submission its identifier, tenant and job, all that deleting a job needs.\<close>

section \<open>Queries\<close>

definition policy_of :: "uuid \<Rightarrow> desk \<Rightarrow> client_policy option" where
  "policy_of t db = find_first (\<lambda>p. cp_tenantId p = t) (dk_policies db)"

definition live_client :: "uuid \<Rightarrow> uuid \<Rightarrow> desk \<Rightarrow> client option" where
  "live_client i t db = find_first (\<lambda>c. cl_id c = i \<and> cl_tenantId c = t \<and> cl_deletedAt c = None) (dk_clients db)"

definition contact_by :: "uuid \<Rightarrow> uuid \<Rightarrow> desk \<Rightarrow> contact option" where
  "contact_by i t db = find_first (\<lambda>c. ct_id c = i \<and> ct_tenantId c = t) (dk_contacts db)"

definition job_by :: "uuid \<Rightarrow> uuid \<Rightarrow> desk \<Rightarrow> job_file option" where
  "job_by i t db = find_first (\<lambda>j. jb_id j = i \<and> jb_tenantId j = t) (dk_jobs db)"

definition live_job :: "uuid \<Rightarrow> uuid \<Rightarrow> desk \<Rightarrow> job_file option" where
  "live_job i t db = find_first (\<lambda>j. jb_id j = i \<and> jb_tenantId j = t \<and> jb_deletedAt j = None) (dk_jobs db)"

lemma policy_of_Some: "policy_of t db = Some p \<Longrightarrow> p \<in> set (dk_policies db) \<and> cp_tenantId p = t"
  by (auto simp: policy_of_def dest: find_first_Some)

lemma live_client_Some:
  "live_client i t db = Some c \<Longrightarrow> c \<in> set (dk_clients db) \<and> cl_id c = i \<and> cl_tenantId c = t \<and> cl_deletedAt c = None"
  by (auto simp: live_client_def dest: find_first_Some)

lemma contact_by_Some: "contact_by i t db = Some c \<Longrightarrow> c \<in> set (dk_contacts db) \<and> ct_id c = i \<and> ct_tenantId c = t"
  by (auto simp: contact_by_def dest: find_first_Some)

lemma job_by_Some: "job_by i t db = Some j \<Longrightarrow> j \<in> set (dk_jobs db) \<and> jb_id j = i \<and> jb_tenantId j = t"
  by (auto simp: job_by_def dest: find_first_Some)

lemma live_job_Some:
  "live_job i t db = Some j \<Longrightarrow> j \<in> set (dk_jobs db) \<and> jb_id j = i \<and> jb_tenantId j = t \<and> jb_deletedAt j = None"
  by (auto simp: live_job_def dest: find_first_Some)

section \<open>Updates\<close>

definition update_clients :: "(client \<Rightarrow> bool) \<Rightarrow> (client \<Rightarrow> client) \<Rightarrow> desk \<Rightarrow> desk" where
  "update_clients p f db = db\<lparr> dk_clients := update_where p f (dk_clients db) \<rparr>"

definition update_contacts :: "(contact \<Rightarrow> bool) \<Rightarrow> (contact \<Rightarrow> contact) \<Rightarrow> desk \<Rightarrow> desk" where
  "update_contacts p f db = db\<lparr> dk_contacts := update_where p f (dk_contacts db) \<rparr>"

definition update_jobs :: "(job_file \<Rightarrow> bool) \<Rightarrow> (job_file \<Rightarrow> job_file) \<Rightarrow> desk \<Rightarrow> desk" where
  "update_jobs p f db = db\<lparr> dk_jobs := update_where p f (dk_jobs db) \<rparr>"

definition update_grants :: "(creation_grant \<Rightarrow> bool) \<Rightarrow> (creation_grant \<Rightarrow> creation_grant) \<Rightarrow> desk \<Rightarrow> desk" where
  "update_grants p f db = db\<lparr> dk_grants := update_where p f (dk_grants db) \<rparr>"

definition update_delegations :: "(delegation \<Rightarrow> bool) \<Rightarrow> (delegation \<Rightarrow> delegation) \<Rightarrow> desk \<Rightarrow> desk" where
  "update_delegations p f db = db\<lparr> dk_delegations := update_where p f (dk_delegations db) \<rparr>"

definition audit :: "uuid \<Rightarrow> string \<Rightarrow> string \<Rightarrow> string \<Rightarrow> desk \<Rightarrow> desk" where
  "audit t action targetType targetId db = db\<lparr> dk_audit := dk_audit db @
     [\<lparr> ae_tenantId = t, ae_action = action, ae_targetType = targetType, ae_targetId = targetId \<rparr>] \<rparr>"

definition on_base :: "(store \<Rightarrow> store) \<Rightarrow> desk \<Rightarrow> desk" where
  "on_base f db = db\<lparr> dk_base := f (dk_base db) \<rparr>"

lemmas desk_updates = update_clients_def update_contacts_def update_jobs_def update_grants_def update_delegations_def
  audit_def on_base_def

section \<open>Rows to evaluate the operations on\<close>

definition empty_desk :: "store \<Rightarrow> desk" where
  "empty_desk st = \<lparr> dk_base = st, dk_policies = [], dk_clients = [], dk_contacts = [], dk_counters = [],
     dk_jobs = [], dk_delegations = [], dk_grants = [], dk_audit = [], dk_assignments = [], dk_submissions = [] \<rparr>"

definition mk_client :: "uuid \<Rightarrow> uuid \<Rightarrow> string \<Rightarrow> uuid option \<Rightarrow> uuid option \<Rightarrow> client" where
  "mk_client i t name b owner = \<lparr> cl_id = i, cl_tenantId = t, cl_clientCode = Some (''C'' @ i), cl_clientName = name,
     cl_status = ''Active'', cl_approvalStatus = Some ''APPROVED'', cl_assignedApproverId = None, cl_approvedBy = None,
     cl_approvedAt = None, cl_rejectionReason = None, cl_primaryOwner = owner, cl_createdBy = owner, cl_modifiedBy = owner,
     cl_branchId = b, cl_market = ''US'', cl_currency = ''USD'', cl_createdAt = 0, cl_deletedAt = None,
     cl_columns = (\<lambda>_. JNull) \<rparr>"

definition mk_file :: "uuid \<Rightarrow> uuid \<Rightarrow> uuid option \<Rightarrow> uuid option \<Rightarrow> string \<Rightarrow> string \<Rightarrow> uuid option \<Rightarrow> job_file" where
  "mk_file i t b n status approval owner = \<lparr> jb_id = i, jb_tenantId = t, jb_branchId = b, jb_businessUnitId = n,
     jb_status = Some status, jb_approvalStatus = Some approval, jb_accountManagerId = owner, jb_createdByUserId = owner,
     jb_jobCode = i, jb_jobTitle = i, jb_jobType = ''Full Time'', jb_keepOpen = False, jb_submissionDone = 0,
     jb_deletedAt = None, jf_clientId = None, jf_endClientId = None, jf_pocId = None, jf_endClientPocId = None,
     jf_recruitmentManagerId = None, jf_assignedApproverId = None, jf_approvedBy = None, jf_approvedAt = None,
     jf_rejectionReason = None, jf_isCoSourced = False, jf_sharedBranchIds = [], jf_createdAt = 0, jf_updatedAt = 0,
     jf_columns = (\<lambda>_. JNull) \<rparr>"

definition mk_grant :: "uuid \<Rightarrow> uuid \<Rightarrow> uuid \<Rightarrow> uuid \<Rightarrow> int option \<Rightarrow> int \<Rightarrow> creation_grant" where
  "mk_grant i t owner delegate maxJobs used = \<lparr> gr_id = i, gr_tenantId = t, gr_accountManagerId = owner,
     gr_delegateUserId = delegate, gr_grantedBy = None, gr_revokedAt = None, gr_expiresAt = None, gr_maxJobs = maxJobs,
     gr_jobsUsed = used, gr_createdAt = 0 \<rparr>"

end
