(* ===== verification/Clients.thy ===== *)
theory Clients
  imports Desk
begin

text \<open>
  Clients: who sees them (\<^verbatim>\<open>clients/client-visibility.ts\<close>), what is shown of their contacts
  (\<^verbatim>\<open>clients/poc-access.ts\<close>), in which branch, market and currency a client is created
  (\<^verbatim>\<open>clients/client-market-policy.ts\<close>, \<^verbatim>\<open>client-creation.contract.ts\<close>), the service
  (\<^verbatim>\<open>clients/clients.service.ts\<close>) and its endpoints.  What the library \<^verbatim>\<open>libphonenumber-js\<close> says of a
  number is the parameter \<open>phones\<close>.  A response is the row with what the service adds to it.
\<close>

section \<open>Who sees a client\<close>

definition staff_of :: "uuid \<Rightarrow> uuid option \<Rightarrow> uuid option option \<Rightarrow> store \<Rightarrow> user list" where
  "staff_of t b n st = find_many (\<lambda>u. us_tenantId u = t \<and> us_branchId u = b \<and> if_given n (\<lambda>x. us_businessUnitId u = x)) (st_users st)"

definition owned_by :: "string list \<Rightarrow> string list \<Rightarrow> client \<Rightarrow> bool" where
  "owned_by userIds emails c =
    ((case cl_primaryOwner c of Some o1 \<Rightarrow> o1 \<in> set (userIds @ emails) | None \<Rightarrow> False)
     \<or> (\<not> truthy (cl_primaryOwner c) \<and> (case cl_createdBy c of Some i \<Rightarrow> i \<in> set userIds | None \<Rightarrow> False)))"

definition clientReadWhere :: "uuid \<Rightarrow> auth_user \<Rightarrow> desk \<Rightarrow> (client \<Rightarrow> bool) result" where
  "clientReadWhere tenantId actor db =
    (let permissions = a_permissions actor
     in if a_tenantId actor \<noteq> Some tenantId \<or> ''client:view'' \<notin> set permissions
        then throw (Forbidden ''Client viewing permission is required in this workspace.'')
        else case policy_of tenantId db of
          None \<Rightarrow> throw (Forbidden ''Workspace unavailable.'')
        | Some tenant \<Rightarrow>
            if includes_any permissions [''tenant:settings'', ''tenant:manage'', ''platform:manage'']
               \<or> (if ''client:bdm_access'' \<in> set permissions then cp_bdmClientsTenantWide tenant
                   else cp_clientsVisibleAcrossUnits tenant)
            then ok (\<lambda>c. cl_tenantId c = tenantId)
            else if \<not> truthy (a_branchId actor) then throw (Forbidden ''A branch assignment is required to view clients.'')
            else (let branchAdmin = ''branch_admin:manage'' \<in> set permissions; unitAdmin = ''unit_admin:manage'' \<in> set permissions
              in if \<not> branchAdmin \<and> \<not> truthy (a_businessUnitId actor)
                 then throw (Forbidden ''A unit assignment is required to view clients.'')
                 else (let users = staff_of tenantId (a_branchId actor) (if branchAdmin then None else Some (a_businessUnitId actor)) (dk_base db);
                           ownerScope = owned_by (filter (\<lambda>s. s \<noteq> []) (map us_id users)) (filter (\<lambda>s. s \<noteq> []) (map us_email users));
                           branchScope = (\<lambda>c. cl_branchId c = a_branchId actor \<or> (cl_branchId c = None \<and> ownerScope c))
                   in if branchAdmin then ok (\<lambda>c. cl_tenantId c = tenantId \<and> branchScope c)
                      else if unitAdmin then ok (\<lambda>c. cl_tenantId c = tenantId \<and> branchScope c \<and> ownerScope c)
                      else ok (\<lambda>c. cl_tenantId c = tenantId \<and> branchScope c
                             \<and> owned_by (present [a_dbId actor]) (filter (\<lambda>s. s \<noteq> []) [a_email actor]) c))))"

definition clientJobReadWhere :: "uuid \<Rightarrow> auth_user \<Rightarrow> job_file \<Rightarrow> bool" where
  "clientJobReadWhere tenantId actor j =
    (let permissions = a_permissions actor
     in jb_tenantId j = tenantId \<and> ''job:view'' \<in> set permissions \<and>
       (includes_any permissions [''tenant:settings'', ''tenant:manage'', ''platform:manage'', ''job:view_all_branches'']
        \<or> (truthy (a_branchId actor) \<and> jb_branchId j = a_branchId actor
            \<and> (''branch_admin:manage'' \<notin> set permissions \<longrightarrow> jb_businessUnitId j = or_null (a_businessUnitId actor)))))"

section \<open>What is shown of contacts\<close>

record contact_view =
  cw_contact :: contact
  cw_isOwner :: bool
  cw_addedBy :: "(uuid \<times> string) option"
  cw_masked :: bool

definition protectPoc :: "contact_view \<Rightarrow> uuid \<Rightarrow> auth_user \<Rightarrow> client_policy option \<Rightarrow> contact_view option" where
  "protectPoc contact ownerId actor policy =
    (if ownerId \<noteq> [] \<and> Some ownerId = a_dbId actor then Some contact
     else case policy of
       None \<Rightarrow> None
     | Some p \<Rightarrow>
         if \<not> cp_otherOwnerPocsVisible p then None
         else if \<not> cp_maskOtherOwnerPocDetails p then Some contact
         else Some (contact\<lparr> cw_contact := (cw_contact contact)\<lparr> ct_email := None, ct_phone := None, ct_linkedinUrl := None, ct_notes := None \<rparr>,
           cw_masked := True \<rparr>))"

definition POC_NAMES :: "string list" where
  "POC_NAMES = [''contactPerson'', ''contactDesignation'', ''clientLead'']"

definition POC_DETAILS :: "string list" where
  "POC_DETAILS = [''contactNumber'', ''emailId'', ''fax'']"

text \<open>\<open>vw_primaryOwnerId\<close> and \<open>vw_primaryOwner\<close> are the identifier and the name that \<^verbatim>\<open>formatClient\<close> writes; of a
  row that is not formatted yet the first is missing and the second is the column.\<close>

record client_view =
  vw_client :: client
  vw_primaryOwnerId :: "string option"
  vw_primaryOwner :: "string option"
  vw_masked :: bool
  vw_branchName :: "string option"
  vw_activeJobsCount :: "nat option"
  vw_associatedJobs :: "job_file list"

definition plain_view :: "client \<Rightarrow> client_view" where
  "plain_view c = \<lparr> vw_client = c, vw_primaryOwnerId = None, vw_primaryOwner = cl_primaryOwner c, vw_masked = False,
     vw_branchName = None, vw_activeJobsCount = None, vw_associatedJobs = [] \<rparr>"

definition hide_columns :: "string list \<Rightarrow> client \<Rightarrow> client" where
  "hide_columns ks c = c\<lparr> cl_columns := (\<lambda>k. if k \<in> set ks then JNull else cl_columns c k) \<rparr>"

definition protectClientContactFields :: "client_view \<Rightarrow> auth_user \<Rightarrow> client_policy option \<Rightarrow> client_view" where
  "protectClientContactFields v actor policy =
    (let owner = or_else (vw_primaryOwnerId v) (or_else (vw_primaryOwner v) (cl_createdBy (vw_client v)));
         visible = (case policy of Some p \<Rightarrow> cp_otherOwnerPocsVisible p | None \<Rightarrow> False);
         masks = (case policy of Some p \<Rightarrow> cp_maskOtherOwnerPocDetails p | None \<Rightarrow> False)
     in if owner \<noteq> None \<and> owner \<in> {a_dbId actor, Some (a_email actor)} then v
        else (let hidden = (if \<not> visible then POC_NAMES else []) @ (if \<not> visible \<or> masks then POC_DETAILS else [])
              in v\<lparr> vw_client := hide_columns hidden (vw_client v), vw_masked := (vw_masked v \<or> \<not> visible \<or> masks) \<rparr>))"

definition formatClient :: "string option \<Rightarrow> client_view \<Rightarrow> client_view" where
  "formatClient primaryOwnerName v = v\<lparr> vw_primaryOwnerId := cl_primaryOwner (vw_client v),
     vw_primaryOwner := or_else primaryOwnerName (or_else (cl_primaryOwner (vw_client v)) (Some ''N/A'')) \<rparr>"

definition protectResponse :: "client_view \<Rightarrow> auth_user \<Rightarrow> desk \<Rightarrow> client_view" where
  "protectResponse v actor db = protectClientContactFields v actor (policy_of (or_empty (a_tenantId actor)) db)"

section \<open>The settings of visibility\<close>

text \<open>The changes are the fields of the body; a body that is a plain truth value changes the first setting.
  The code also lets through names every object inherits; the database then refuses them.\<close>

definition set_policy :: "string \<Rightarrow> bool \<Rightarrow> client_policy \<Rightarrow> client_policy" where
  "set_policy key value p =
    (if key = ''clientsVisibleAcrossUnits'' then p\<lparr> cp_clientsVisibleAcrossUnits := value \<rparr>
     else if key = ''bdmClientsTenantWide'' then p\<lparr> cp_bdmClientsTenantWide := value \<rparr>
     else if key = ''otherOwnerPocsVisible'' then p\<lparr> cp_otherOwnerPocsVisible := value \<rparr>
     else if key = ''maskOtherOwnerPocDetails'' then p\<lparr> cp_maskOtherOwnerPocDetails := value \<rparr> else p)"

definition POLICY_KEYS :: "string list" where
  "POLICY_KEYS = [''clientsVisibleAcrossUnits'', ''bdmClientsTenantWide'', ''otherOwnerPocsVisible'', ''maskOtherOwnerPocDetails'']"

fun policy_changes :: "(string \<times> json) list \<Rightarrow> ((string \<times> bool) list) result" where
  "policy_changes [] = ok []"
| "policy_changes ((key, value) # rest) =
    (case value of
       JBool b \<Rightarrow> if key \<notin> set POLICY_KEYS then throw (BadRequest ''Client access settings must be enabled or disabled.'')
                  else and_then (policy_changes rest) (\<lambda>cs. ok ((key, b) # cs))
     | _ \<Rightarrow> throw (BadRequest ''Client access settings must be enabled or disabled.''))"

definition getVisibilityPolicy :: "auth_user \<Rightarrow> desk \<Rightarrow> client_policy result" where
  "getVisibilityPolicy actor db =
    (if ''tenant:settings'' \<notin> set (a_permissions actor) then throw (Forbidden ''Tenant settings permission is required.'')
     else case policy_of (or_empty (a_tenantId actor)) db of
       None \<Rightarrow> throw (NotFound ''Workspace not found.'') | Some p \<Rightarrow> ok p)"

definition setVisibilityPolicy :: "auth_user \<Rightarrow> json \<Rightarrow> desk \<Rightarrow> (client_policy \<times> desk) result" where
  "setVisibilityPolicy actor body db =
    (let t = or_empty (a_tenantId actor)
     in if ''tenant:settings'' \<notin> set (a_permissions actor) then throw (Forbidden ''Tenant settings permission is required.'')
        else and_then (case body of
              JBool b \<Rightarrow> ok [(''clientsVisibleAcrossUnits'', b)]
            | JObj entries \<Rightarrow> policy_changes entries
            | _ \<Rightarrow> throw (BadRequest ''Client visibility must be enabled or disabled.'')) (\<lambda>changes.
          if changes = [] then throw (BadRequest ''Select at least one client access setting.'')
          else case policy_of t db of
            None \<Rightarrow> throw (NotFound ''Workspace not found.'')
          | Some previous \<Rightarrow>
             (let saved = fold (\<lambda>(k, v). set_policy k v) changes previous;
                  db' = db\<lparr> dk_policies := update_where (\<lambda>p. cp_tenantId p = t) (\<lambda>_. saved) (dk_policies db) \<rparr>
              in ok (saved, if list_ex (\<lambda>(k, v). set_policy k v previous \<noteq> previous) changes
                            then audit t ''CLIENT_VISIBILITY_CHANGED'' ''Tenant'' t db' else db'))))"

end
