(* ===== verification/ClientRecords.thy ===== *)
theory ClientRecords
  imports Clients
begin

text \<open>
  Creating clients: the context a client is created in (\<^verbatim>\<open>clients/client-market-policy.ts\<close>), the checks of the
  request (\<^verbatim>\<open>client-creation.contract.ts\<close>) and the transaction that writes it (\<^verbatim>\<open>createClient\<close> of
  \<^verbatim>\<open>clients.service.ts\<close>).  The request is the object of the body; a missing field is \<open>None\<close>.
\<close>

section \<open>Names and markets\<close>

definition name_char :: "char \<Rightarrow> bool" where
  "name_char c = (alnum c \<or> c = CHR ''_'')"

definition DROPPED_CHARS :: "char list" where
  "DROPPED_CHARS = ''.,/#!$%^&*;:{}=-_`~()''"

definition COMPANY_WORDS :: "string list" where
  "COMPANY_WORDS = [''inc'', ''llc'', ''corp'', ''corporation'', ''ltd'', ''limited'', ''co'', ''company'', ''pvt'', ''private'']"

text \<open>\<^verbatim>\<open>replace(/\b(inc|llc|...)\b/g, '')\<close>: a whole word of the list goes.  \<open>w\<close> is the word read so far.\<close>

definition kept_word :: "string \<Rightarrow> string" where
  "kept_word w = (if w \<in> set COMPANY_WORDS then [] else w)"

primrec drop_words :: "string \<Rightarrow> string \<Rightarrow> string" where
  "drop_words w [] = kept_word w"
| "drop_words w (c # cs) = (if name_char c then drop_words (w @ [c]) cs else kept_word w @ c # drop_words [] cs)"

definition normalizeClientName :: "string \<Rightarrow> string" where
  "normalizeClientName name =
     trim (filter (\<lambda>c. \<not> is_space c) (drop_words [] (filter (\<lambda>c. c \<notin> set DROPPED_CHARS) (lower name))))"

definition normalizeClientMarket :: "json option \<Rightarrow> string option" where
  "normalizeClientMarket value =
    (let code = upper (trim (case value of Some v \<Rightarrow> if js_truthy v then js_string v else [] | None \<Rightarrow> []))
     in if code \<in> {''IN'', ''IND'', ''INDIA''} then Some ''INDIA''
        else if code \<in> {''US'', ''USIT'', ''USA''} then Some ''US'' else None)"

section \<open>The context of a creation\<close>

record creation_context =
  cx_branchId :: uuid
  cx_branchName :: string
  cx_businessUnitId :: "uuid option"
  cx_businessUnitName :: "string option"
  cx_ownerId :: uuid
  cx_ownerName :: string
  cx_market :: string
  cx_currency :: string
  cx_canDirectAdd :: bool

definition assertClientCreationPermission :: "auth_user \<Rightarrow> unit result" where
  "assertClientCreationPermission actor =
    refuse (\<not> includes_any (a_permissions actor) [''client:create'', ''client:direct_add'', ''tenant:settings'', ''tenant:manage''])
      (Forbidden ''Client creation permission is required.'')"

text \<open>\<^verbatim>\<open>selectedBranchId || member.branchId\<close>: a value that is not a text is refused as a branch.\<close>

definition selected_branch :: "json option \<Rightarrow> uuid option \<Rightarrow> uuid result" where
  "selected_branch selectedBranchId own =
    (case (case selectedBranchId of Some v \<Rightarrow> if js_truthy v then Some v else map_option JStr own | None \<Rightarrow> map_option JStr own) of
       Some (JStr b) \<Rightarrow>
         if b = [] \<or> b = ''ALL'' then throw (BadRequest ''Select a branch before adding a client.'')
         else if \<not> is_uuid b then throw (BadRequest ''Select a valid branch.'') else ok b
     | None \<Rightarrow> throw (BadRequest ''Select a branch before adding a client.'')
     | Some _ \<Rightarrow> throw (BadRequest ''Select a valid branch.''))"

definition context_market :: "uuid \<Rightarrow> market_segment option \<Rightarrow> branch \<Rightarrow> store \<Rightarrow> string option" where
  "context_market tenantId segment branch st =
    normalizeClientMarket (map_option JStr (or_else (map_option ms_code segment) (or_else (Some (br_market branch))
      (map_option tn_defaultMarket (tenant_by tenantId st)))))"

definition resolveClientCreationContext :: "uuid \<Rightarrow> auth_user \<Rightarrow> json option \<Rightarrow> store \<Rightarrow> creation_context result" where
  "resolveClientCreationContext tenantId actor selectedBranchId st =
    and_then (assertClientCreationPermission actor) (\<lambda>_.
    case find_first (\<lambda>u. if_given (a_dbId actor) (\<lambda>i. us_id u = i) \<and> us_tenantId u = tenantId \<and> us_isActive u) (st_users st) of
      None \<Rightarrow> throw (Forbidden ''Workspace membership is unavailable.'')
    | Some member \<Rightarrow>
      and_then (selected_branch selectedBranchId (us_branchId member)) (\<lambda>branchId.
      if Some branchId \<noteq> us_branchId member \<and> \<not> includes_any (a_permissions actor) [''tenant:settings'', ''tenant:manage'']
      then throw (Forbidden ''You cannot add clients in this branch.'')
      else case find_first (\<lambda>b. br_id b = branchId \<and> br_tenantId b = tenantId \<and> br_isActive b) (st_branches st) of
        None \<Rightarrow> throw (Forbidden ''The selected branch is unavailable.'')
      | Some branch \<Rightarrow>
        (let unitId = (if Some branchId = us_branchId member then us_businessUnitId member else None);
             unit = (if truthy unitId then find_first (\<lambda>b. Some (bu_id b) = unitId \<and> bu_tenantId b = tenantId
                       \<and> bu_branchId b = Some branchId) (st_units st) else None);
             segment = Option.bind unit (\<lambda>b. segment_of st (bu_marketSegmentId b));
             market = context_market tenantId segment branch st;
             currency = (if market = Some ''INDIA'' then ''INR'' else ''USD'');
             configured = or_else (Option.bind unit bu_currency) (map_option ms_defaultCurrency segment)
         in and_then (checks
           [refuse (truthy unitId \<and> unit = None) (Forbidden ''Your staffing unit is unavailable in this branch.''),
            refuse (truthy (Option.bind unit bu_marketSegmentId)
                \<and> (case segment of None \<Rightarrow> True
                   | Some s \<Rightarrow> \<not> ms_isActive s \<or> (truthy (ms_tenantId s) \<and> ms_tenantId s \<noteq> Some tenantId)))
              (BadRequest ''Configure an active market segment for this staffing unit.''),
            refuse (market = None) (BadRequest ''Configure a supported staffing market before adding clients.''),
            refuse (truthy configured \<and> upper (or_empty configured) \<noteq> currency)
              (BadRequest ''The staffing market and currency configuration do not match.'')]) (\<lambda>_.
           ok \<lparr> cx_branchId = br_id branch, cx_branchName = br_name branch, cx_businessUnitId = map_option bu_id unit,
                cx_businessUnitName = or_null (map_option bu_name unit), cx_ownerId = us_id member,
                cx_ownerName = or_empty (or_else (Some (us_fullName member)) (Some (us_email member))),
                cx_market = or_empty market, cx_currency = currency,
                cx_canDirectAdd = includes_any (a_permissions actor)
                  [''client:direct_add'', ''client:approve'', ''tenant:settings'', ''tenant:manage''] \<rparr>))))"

definition assertClientMarket :: "dto \<Rightarrow> creation_context \<Rightarrow> unit result" where
  "assertClientMarket input context =
    refuse ((case dto_field input ''market'' of None \<Rightarrow> False
             | Some v \<Rightarrow> normalizeClientMarket (Some v) \<noteq> Some (cx_market context))
         \<or> (case dto_field input ''currency'' of None \<Rightarrow> False | Some v \<Rightarrow> upper (js_string v) \<noteq> cx_currency context))
      (BadRequest ''Client market and currency must match the staffing context.'')"

section \<open>The checks of a request\<close>

text \<open>What \<^verbatim>\<open>parsePhoneNumberFromString\<close> says of a text: whether it is a valid number, and the number as written
  internationally, where the text can be read as one.\<close>

record phones =
  ph_valid :: "string \<Rightarrow> bool"
  ph_number :: "string \<Rightarrow> string option"

definition text_of :: "dto \<Rightarrow> string \<Rightarrow> string" where
  "text_of input key = (case dto_field input key of Some (JStr s) \<Rightarrow> s | _ \<Rightarrow> [])"

text \<open>\<^verbatim>\<open>/^[^\s@]+@[^\s@]+\.[^\s@]+$/\<close> and \<^verbatim>\<open>/^https?:\/\/[^\s/]+(?:\/[^\s]*)?$/i\<close>.\<close>

definition is_email :: "string \<Rightarrow> bool" where
  "is_email s = (case split_on CHR ''@'' s of
      [local, host] \<Rightarrow> local \<noteq> [] \<and> \<not> list_ex is_space s \<and> 3 \<le> length host \<and> CHR ''.'' \<in> set (butlast (tl host))
    | _ \<Rightarrow> False)"

definition is_website :: "string \<Rightarrow> bool" where
  "is_website s =
    (let rest = (if prefix ''https://'' (lower s) then Some (drop 8 s) else if prefix ''http://'' (lower s) then Some (drop 7 s) else None)
     in case rest of Some (c # cs) \<Rightarrow> c \<noteq> CHR ''/'' \<and> \<not> list_ex is_space (c # cs) | _ \<Rightarrow> False)"

text \<open>A pattern of one class of characters after the other.\<close>

definition has_shape :: "(char \<Rightarrow> bool) list \<Rightarrow> string \<Rightarrow> bool" where
  "has_shape ps s = list_all2 (\<lambda>p c. p c) ps s"

definition capital :: "char \<Rightarrow> bool" where
  "capital c = (let n = (of_char c :: nat) in 65 \<le> n \<and> n \<le> 90)"

definition is_gstin :: "string \<Rightarrow> bool" where
  "is_gstin = has_shape (replicate 2 is_digit @ replicate 5 capital @ replicate 4 is_digit
     @ [capital, \<lambda>c. capital c \<or> (is_digit c \<and> c \<noteq> CHR ''0''), \<lambda>c. c = CHR ''Z'', \<lambda>c. capital c \<or> is_digit c])"

definition is_pan :: "string \<Rightarrow> bool" where
  "is_pan = has_shape (replicate 5 capital @ replicate 4 is_digit @ [capital])"

text \<open>\<^verbatim>\<open>Number.isFinite(x) && 0 <= x && x <= 100\<close> on a number as JavaScript prints it.\<close>

definition is_percentage :: "json \<Rightarrow> bool" where
  "is_percentage v = (case v of
      JNum (c # cs) \<Rightarrow> is_digit c \<and> (str_includes (c # cs) ''e-'' \<or> c # cs = ''100''
        \<or> (\<not> str_includes (c # cs) ''e+'' \<and> digits_value (takeWhile is_digit (c # cs)) < 100))
    | _ \<Rightarrow> False)"

type_synonym errors = "(string \<times> string) list"

definition ill_typed :: "dto \<Rightarrow> string \<Rightarrow> nat \<Rightarrow> bool" where
  "ill_typed input key limit = (case dto_field input key of
      None \<Rightarrow> False | Some (JStr s) \<Rightarrow> limit < length s | Some _ \<Rightarrow> True)"

definition when_error :: "bool \<Rightarrow> string \<Rightarrow> string \<Rightarrow> errors" where
  "when_error bad key message = (if bad then [(key, message)] else [])"

definition is_structured :: "dto \<Rightarrow> bool" where
  "is_structured input = (dto_field input ''firstName'' \<noteq> None \<or> dto_field input ''lastName'' \<noteq> None)"

definition full_name :: "dto \<Rightarrow> string" where
  "full_name input = (if is_structured input
     then joined_by '' '' (filter (\<lambda>s. s \<noteq> []) [trim (text_of input ''firstName''), trim (text_of input ''lastName'')])
     else trim (text_of input ''name''))"

text \<open>Two messages have a typographic apostrophe in the code and are paraphrased here.\<close>

definition contactInputErrors :: "phones \<Rightarrow> dto \<Rightarrow> bool \<Rightarrow> errors" where
  "contactInputErrors phones input requireEmail =
    (let typed = concat (map (\<lambda>key. when_error (ill_typed input key (if key = ''phone'' then 50 else 255)) key ''Enter a valid contact value.'')
           [''firstName'', ''lastName'', ''name'', ''designation'', ''otherDesignation'', ''email'', ''phone'']);
         email = trim (text_of input ''email''); phone = trim (text_of input ''phone'')
     in if typed \<noteq> [] then typed
        else when_error (trim (text_of input (if is_structured input then ''firstName'' else ''name'')) = []) ''firstName'' ''Enter the first name of the contact.''
           @ when_error (255 < length (full_name input)) ''firstName'' ''The full contact name must be at most 255 characters.''
           @ when_error ((requireEmail \<or> email \<noteq> []) \<and> \<not> is_email email) ''email'' ''Enter a valid work email.''
           @ when_error (text_of input ''designation'' = ''Other'' \<and> trim (text_of input ''otherDesignation'') = []) ''otherDesignation''
               ''Specify the designation of the contact.''
           @ when_error (phone \<noteq> [] \<and> \<not> (prefix ''+'' phone \<and> ph_valid phones phone)) ''phone''
               ''Enter a valid mobile number including its country code.'')"

record contact_input =
  ci_name :: string
  ci_designation :: "string option"
  ci_email :: "string option"
  ci_phone :: "string option"

definition normalizeContactInput :: "phones \<Rightarrow> dto \<Rightarrow> contact_input" where
  "normalizeContactInput phones input =
    (let given = (\<lambda>key. or_null (Some (trim (text_of input key)))); phone = trim (text_of input ''phone'')
     in \<lparr> ci_name = full_name input,
          ci_designation = given (if text_of input ''designation'' = ''Other'' then ''otherDesignation'' else ''designation''),
          ci_email = given ''email'', ci_phone = (if phone = [] then None else ph_number phones phone) \<rparr>)"

definition CLIENT_CATEGORIES :: "string list" where
  "CLIENT_CATEGORIES = [''Direct employer'', ''Staffing vendor'', ''Implementation partner'', ''MSP'']"

definition FIELD_LENGTHS :: "(string \<times> nat) list" where
  "FIELD_LENGTHS = [(''client_name'', 255), (''client_short_name'', 100), (''email_id'', 255), (''contact_number'', 100),
     (''website'', 255), (''industry'', 100), (''country'', 100), (''state'', 100), (''city'', 100), (''address'', 2000),
     (''postal_code'', 50), (''about_company'', 10000), (''payment_terms'', 100), (''gstin'', 100), (''pan_number'', 100),
     (''federal_id'', 100), (''vetting_notes'', 10000), (''tier_rating'', 50), (''credit_check_status'', 50), (''fillability_score'', 50)]"

definition too_long :: "string \<Rightarrow> nat \<Rightarrow> string" where
  "too_long key limit = ''Enter valid '' @ map (\<lambda>c. if c = CHR ''_'' then CHR '' '' else c) key
     @ '' (maximum '' @ signed_decimal (int limit) @ '' characters).''"

definition contact_of :: "dto \<Rightarrow> json option" where
  "contact_of input = (case dto_field input ''contact'' of Some v \<Rightarrow> if js_truthy v then Some v else None | None \<Rightarrow> None)"

definition nested_errors :: "phones \<Rightarrow> json \<Rightarrow> errors" where
  "nested_errors phones v = (case v of JObj entries \<Rightarrow> contactInputErrors phones entries True | _ \<Rightarrow> [(''contact'', ''Enter valid contact details.'')])"

definition clientCreationErrors :: "phones \<Rightarrow> dto \<Rightarrow> errors" where
  "clientCreationErrors phones input =
    (let typed = concat (map (\<lambda>(key, limit). when_error (ill_typed input key limit) key (too_long key limit)) FIELD_LENGTHS)
           @ concat (map (\<lambda>key. when_error (case dto_field input key of None \<Rightarrow> False | Some (JBool _) \<Rightarrow> False | Some _ \<Rightarrow> True) key
               ''Agreement values must be enabled or disabled.'') [''msa_signed'', ''sow_executed'', ''coi_received'', ''vendor_portal_created'']);
         number = trim (text_of input ''contact_number''); email = text_of input ''email_id''; website = text_of input ''website'';
         india = (text_of input ''market'' = ''INDIA''); gstin = text_of input ''gstin''; pan = text_of input ''pan_number'';
         choice = (\<lambda>key options. when_error (text_of input key \<noteq> [] \<and> text_of input key \<notin> set options) key ''Select a valid qualification value.'')
     in if typed \<noteq> [] then typed
        else when_error (trim (text_of input ''client_name'') = []) ''client_name'' ''Enter a legal company name (maximum 255 characters).''
           @ when_error (\<not> list_ex (\<lambda>k. dto_field input ''category'' = Some (JStr k)) CLIENT_CATEGORIES) ''category'' ''Select a client category.''
           @ when_error (number \<noteq> [] \<and> \<not> (prefix ''+'' number \<and> ph_valid phones number)) ''contact_number''
               ''Enter a valid company phone number including its country code.''
           @ when_error (email \<noteq> [] \<and> \<not> is_email email) ''email_id'' ''Enter a valid company email.''
           @ when_error (website \<noteq> [] \<and> \<not> is_website website) ''website'' ''Enter a website starting with https:// or http://.''
           @ when_error (case dto_field input ''commission_percentage'' of None \<Rightarrow> False | Some v \<Rightarrow> \<not> is_percentage v) ''commission_percentage''
               ''Commission must be between 0 and 100.''
           @ (case contact_of input of None \<Rightarrow> [] | Some v \<Rightarrow>
               (case nested_errors phones v of [] \<Rightarrow> []
                | (k, m) # es \<Rightarrow> (''contact'', m) # map (\<lambda>(key, message). (''contact.'' @ key, message)) ((k, m) # es)))
           @ choice ''tier_rating'' [''TIER_1'', ''TIER_2'', ''TIER_3'']
           @ choice ''credit_check_status'' [''PENDING_CHECK'', ''APPROVED'', ''HIGH_RISK'']
           @ choice ''fillability_score'' [''HIGH'', ''MEDIUM'', ''LOW'']
           @ when_error (india \<and> gstin \<noteq> [] \<and> \<not> is_gstin gstin) ''gstin'' ''Enter a valid 15-character GSTIN.''
           @ when_error (india \<and> pan \<noteq> [] \<and> \<not> is_pan pan) ''pan_number'' ''Enter a valid PAN.'')"

end
