(* ===== verification/ClientService.thy ===== *)
theory ClientService
  imports ClientRecords
begin

text \<open>
  The clients service (\<^verbatim>\<open>clients/clients.service.ts\<close>): creating, reading, approving, rejecting, changing,
  deleting and restoring clients, and its endpoints (\<^verbatim>\<open>clients.controller.ts\<close>).  The creation is one
  transaction; its two advisory locks order concurrent creations of the same name, so it is one step.
\<close>

section \<open>Creating\<close>

definition is_actor_id :: "string option \<Rightarrow> uuid result" where
  "is_actor_id i = (if is_uuid (or_empty i) then ok (or_empty i)
     else throw (BadRequest ''A valid authenticated user ID is required. Please sign in again.''))"

definition columns_of :: "(string \<times> json) list \<Rightarrow> string \<Rightarrow> json" where
  "columns_of cs k = (case map_of cs k of Some v \<Rightarrow> v | None \<Rightarrow> JNull)"

text \<open>\<^verbatim>\<open>dto.key || null\<close> and \<^verbatim>\<open>dto.key ?? false\<close>.\<close>

definition text_or_null :: "string \<Rightarrow> json" where
  "text_or_null s = (if s = [] then JNull else JStr s)"

definition flag_of :: "dto \<Rightarrow> string \<Rightarrow> json" where
  "flag_of input key = JBool (dto_field input key = Some (JBool True))"

definition created_columns :: "dto \<Rightarrow> creation_context \<Rightarrow> (string \<times> json) list" where
  "created_columns dto context =
    (let given = (\<lambda>key. text_or_null (text_of dto key))
     in [(''clientShortName'', given ''client_short_name''), (''category'', JStr (text_of dto ''category'')),
         (''ownership'', JStr (cx_ownerId context)),
         (''businessUnit'', JStr (or_empty (or_else (cx_businessUnitName context) (Some (cx_branchName context))))),
         (''contactNumber'', text_or_null (trim (text_of dto ''contact_number''))), (''website'', given ''website''),
         (''emailId'', given ''email_id''), (''industry'', given ''industry''), (''country'', given ''country''),
         (''state'', given ''state''), (''city'', given ''city''), (''address'', given ''address''),
         (''postalCode'', given ''postal_code''), (''aboutCompany'', given ''about_company''),
         (''paymentTerms'', given ''payment_terms''),
         (''commissionPercentage'', case dto_field dto ''commission_percentage'' of Some v \<Rightarrow> v | None \<Rightarrow> JNull),
         (''federalId'', if cx_market context = ''US'' then given ''federal_id'' else JNull),
         (''gstin'', if cx_market context = ''INDIA'' then given ''gstin'' else JNull),
         (''panNumber'', if cx_market context = ''INDIA'' then given ''pan_number'' else JNull),
         (''tierRating'', given ''tier_rating''),
         (''creditCheckStatus'', JStr (or_empty (or_else (Some (text_of dto ''credit_check_status'')) (Some ''PENDING_CHECK'')))),
         (''fillabilityScore'', given ''fillability_score''), (''vettingNotes'', given ''vetting_notes''),
         (''msaSigned'', flag_of dto ''msa_signed''), (''sowExecuted'', flag_of dto ''sow_executed''),
         (''coiReceived'', flag_of dto ''coi_received''), (''vendorPortalCreated'', flag_of dto ''vendor_portal_created''),
         (''displayOnJobPosting'', JBool True), (''isSameAsPrimary'', JBool True), (''stopNotifications'', JBool False),
         (''onboardingStatus'', JStr ''ACTIVE'')])"

definition code_prefix :: "tenant option \<Rightarrow> string" where
  "code_prefix t =
    (let clean = (\<lambda>s. upper (filter alnum s)); name = clean (case t of Some x \<Rightarrow> tn_name x | None \<Rightarrow> []);
         domain = clean (or_empty (Option.bind t tn_domain))
     in if truthy (Option.bind t tn_prefixCode) then or_empty (Option.bind t tn_prefixCode)
        else if 2 \<le> length name then take 4 name
        else if take 4 domain \<noteq> [] then take 4 domain else ''CL'')"

definition next_count :: "uuid \<Rightarrow> desk \<Rightarrow> int \<times> desk" where
  "next_count t db = (case map_of (dk_counters db) t of
      None \<Rightarrow> (1, db\<lparr> dk_counters := dk_counters db @ [(t, 1)] \<rparr>)
    | Some n \<Rightarrow> (n + 1, db\<lparr> dk_counters := map (\<lambda>(u, m). if u = t then (u, m + 1) else (u, m)) (dk_counters db) \<rparr>))"

definition client_code :: "string \<Rightarrow> int \<Rightarrow> string" where
  "client_code pre n = (let d = signed_decimal n in pre @ ''-CL-'' @ replicate (5 - length d) (CHR ''0'') @ d)"

definition insert_client :: "client \<Rightarrow> desk \<Rightarrow> desk result" where
  "insert_client c db =
    (if list_ex (\<lambda>d. cl_id d = cl_id c \<or> (cl_tenantId d = cl_tenantId c \<and> cl_clientCode c \<noteq> None \<and> cl_clientCode d = cl_clientCode c))
          (dk_clients db)
     then throw (InternalError ''P2002'') else ok (db\<lparr> dk_clients := dk_clients db @ [c] \<rparr>))"

definition insert_contact :: "contact \<Rightarrow> desk \<Rightarrow> desk" where
  "insert_contact c db = db\<lparr> dk_contacts := dk_contacts db @ [c] \<rparr>"

definition new_client :: "int \<Rightarrow> dto \<Rightarrow> uuid \<Rightarrow> string \<Rightarrow> string \<Rightarrow> user \<Rightarrow> creation_context \<Rightarrow> client" where
  "new_client now dto tenantId clientCode clientName creator context =
    (let direct = cx_canDirectAdd context
     in \<lparr> cl_id = text_of dto ''request_id'', cl_tenantId = tenantId, cl_clientCode = Some clientCode, cl_clientName = clientName,
          cl_status = (if direct then ''Active'' else ''Pending Approval''),
          cl_approvalStatus = Some (if direct then ''APPROVED'' else ''PENDING_APPROVAL''),
          cl_assignedApproverId = (if direct then None else or_null (us_jobReviewerId creator)),
          cl_approvedBy = (if direct then Some (us_id creator) else None), cl_approvedAt = (if direct then Some now else None),
          cl_rejectionReason = None, cl_primaryOwner = Some (cx_ownerId context), cl_createdBy = Some (us_id creator),
          cl_modifiedBy = Some (us_id creator), cl_branchId = Some (cx_branchId context), cl_market = cx_market context,
          cl_currency = cx_currency context, cl_createdAt = now, cl_deletedAt = None,
          cl_columns = columns_of (created_columns dto context) \<rparr>)"

definition first_contact :: "phones \<Rightarrow> uuid \<Rightarrow> int \<Rightarrow> dto \<Rightarrow> client \<Rightarrow> contact" where
  "first_contact phones newId now input c =
    (let i = normalizeContactInput phones input
     in \<lparr> ct_id = newId, ct_tenantId = cl_tenantId c, ct_clientId = cl_id c, ct_createdBy = or_empty (cl_createdBy c),
          ct_name = ci_name i, ct_designation = ci_designation i, ct_email = ci_email i, ct_phone = ci_phone i,
          ct_linkedinUrl = None, ct_isPrimary = True, ct_notes = None, ct_createdAt = now \<rparr>)"

definition similar_client :: "uuid \<Rightarrow> string \<Rightarrow> desk \<Rightarrow> bool" where
  "similar_client tenantId name db = list_ex (\<lambda>c. cl_tenantId c = tenantId \<and> cl_deletedAt c = None
     \<and> normalizeClientName (cl_clientName c) = normalizeClientName name) (dk_clients db)"

definition createClientRecord ::
  "phones \<Rightarrow> uuid \<Rightarrow> int \<Rightarrow> dto \<Rightarrow> string \<Rightarrow> uuid \<Rightarrow> uuid \<Rightarrow> creation_context \<Rightarrow> desk \<Rightarrow> (client \<times> desk) result" where
  "createClientRecord phones newId now dto clientName tenantId createdBy context db =
    (case user_by createdBy tenantId (dk_base db) of
       None \<Rightarrow> throw (Forbidden ''The authenticated user does not belong to this workspace.'')
     | Some creator \<Rightarrow>
        if similar_client tenantId clientName db
        then throw (Conflict ''A similar client already exists in this workspace. Select the existing account or contact your account manager.'')
        else (let (n, counted) = next_count tenantId db;
                  c = new_client now dto tenantId (client_code (code_prefix (tenant_by tenantId (dk_base db))) n) clientName creator context
              in and_then (insert_client c counted) (\<lambda>db'.
                   ok (c, case contact_of dto of
                        Some (JObj entries) \<Rightarrow> insert_contact (first_contact phones newId now entries c) db'
                      | _ \<Rightarrow> db'))))"

definition creation_checks :: "phones \<Rightarrow> dto \<Rightarrow> uuid \<Rightarrow> auth_user \<Rightarrow> store \<Rightarrow> creation_context result" where
  "creation_checks phones dto tenantId actor st =
    and_then (resolveClientCreationContext tenantId actor (dto_field dto ''branch_id'') st) (\<lambda>context.
    and_then (assertClientMarket dto context) (\<lambda>_.
    if (case dto_field dto ''business_unit_id'' of None \<Rightarrow> False | Some v \<Rightarrow> v \<noteq> jnullable (cx_businessUnitId context))
    then throw (Forbidden ''The staffing unit has changed. Reload the form.'')
    else case clientCreationErrors phones dto of
      (_, message) # _ \<Rightarrow> throw (BadRequest message)
    | [] \<Rightarrow> and_then (is_actor_id (Some (text_of dto ''request_id''))) (\<lambda>_. ok context)))"

text \<open>The transaction: a request that has been served answers with the client it has created.\<close>

definition creation_transaction ::
  "phones \<Rightarrow> uuid \<Rightarrow> int \<Rightarrow> dto \<Rightarrow> uuid \<Rightarrow> uuid \<Rightarrow> creation_context \<Rightarrow> desk \<Rightarrow> (client \<times> desk) result" where
  "creation_transaction phones newId now dto tenantId createdBy context db =
    (let clientName = trim (text_of dto ''client_name'')
     in case find_first (\<lambda>c. cl_id c = text_of dto ''request_id'' \<and> cl_tenantId c = tenantId \<and> cl_createdBy c = Some createdBy
               \<and> cl_deletedAt c = None) (dk_clients db) of
          Some saved \<Rightarrow>
            if cl_clientName saved \<noteq> clientName then throw (Conflict ''This request has already created another client.'')
            else ok (saved, db)
        | None \<Rightarrow> createClientRecord phones newId now dto clientName tenantId createdBy context db)"

definition createClient ::
  "phones \<Rightarrow> uuid \<Rightarrow> int \<Rightarrow> dto option \<Rightarrow> uuid \<Rightarrow> auth_user \<Rightarrow> desk \<Rightarrow> (client_view \<times> desk) result" where
  "createClient phones newId now body tenantId actor db =
    and_then (is_actor_id (a_dbId actor)) (\<lambda>createdBy.
    case body of
      None \<Rightarrow> throw (BadRequest ''Enter valid client details.'')
    | Some dto \<Rightarrow>
        and_then (creation_checks phones dto tenantId actor (dk_base db)) (\<lambda>context.
        and_then (creation_transaction phones newId now dto tenantId createdBy context db) (\<lambda>(c, db').
          ok (formatClient None (plain_view c), db'))))"

section \<open>Reading\<close>

definition owner_matches :: "string \<Rightarrow> user \<Rightarrow> bool" where
  "owner_matches o1 u = (us_email u = o1 \<or> (is_uuid o1 \<and> us_id u = o1))"

definition owner_names :: "uuid \<Rightarrow> string option \<Rightarrow> store \<Rightarrow> string list" where
  "owner_names tenantId owner st = (if \<not> truthy owner then []
     else map us_fullName (filter (\<lambda>u. us_tenantId u = tenantId \<and> owner_matches (or_empty owner) u) (st_users st)))"

definition jobs_of_client :: "(job_file \<Rightarrow> bool) \<Rightarrow> uuid \<Rightarrow> desk \<Rightarrow> job_file list" where
  "jobs_of_client p i db = find_many (\<lambda>j. p j \<and> (jf_clientId j = Some i \<or> jf_endClientId j = Some i)) (dk_jobs db)"

text \<open>The map of owners keeps the last name of an identifier, the profile the first.\<close>

definition findAllClients :: "uuid \<Rightarrow> auth_user \<Rightarrow> bool \<Rightarrow> desk \<Rightarrow> client_view list result" where
  "findAllClients tenantId user includeDeleted db =
    and_then (clientReadWhere tenantId user db) (\<lambda>access.
      ok (map (\<lambda>c. (formatClient (case rev (owner_names tenantId (cl_primaryOwner c) (dk_base db)) of n # _ \<Rightarrow> Some n | [] \<Rightarrow> None)
              (protectClientContactFields (plain_view c) user (policy_of tenantId db)))
            \<lparr> vw_activeJobsCount := Some (length (jobs_of_client (\<lambda>j. clientJobReadWhere tenantId user j \<and> jb_deletedAt j = None) (cl_id c) db)) \<rparr>)
          (sort_key (\<lambda>c. - cl_createdAt c) (find_many (\<lambda>c. access c \<and> (includeDeleted \<or> cl_deletedAt c = None)) (dk_clients db)))))"

definition loadClientProfile :: "uuid \<Rightarrow> uuid \<Rightarrow> (client \<Rightarrow> bool) \<Rightarrow> auth_user \<Rightarrow> desk \<Rightarrow> client_view result" where
  "loadClientProfile i tenantId access actor db =
    (case find_first (\<lambda>c. access c \<and> cl_id c = i \<and> cl_deletedAt c = None) (dk_clients db) of
       None \<Rightarrow> throw (NotFound (''Client with ID '' @ i @ '' not found''))
     | Some c \<Rightarrow>
        (let jobs = sort_key (\<lambda>j. - jf_createdAt j) (jobs_of_client (clientJobReadWhere tenantId actor) i db)
         in ok ((formatClient (case owner_names tenantId (cl_primaryOwner c) (dk_base db) of n # _ \<Rightarrow> Some n | [] \<Rightarrow> None)
                  (protectClientContactFields (plain_view c) actor (policy_of tenantId db)))
                \<lparr> vw_branchName := map_option br_name (branch_of (dk_base db) (cl_branchId c)),
                  vw_activeJobsCount := Some (length jobs), vw_associatedJobs := jobs \<rparr>)))"

definition findOneClient :: "uuid \<Rightarrow> uuid \<Rightarrow> auth_user \<Rightarrow> desk \<Rightarrow> client_view result" where
  "findOneClient i tenantId actor db =
    and_then (clientReadWhere tenantId actor db) (\<lambda>access. loadClientProfile i tenantId access actor db)"

section \<open>Approving and rejecting\<close>

definition approveClient :: "int \<Rightarrow> uuid \<Rightarrow> uuid \<Rightarrow> uuid option \<Rightarrow> desk \<Rightarrow> (client_view \<times> desk) result" where
  "approveClient now i tenantId approvedBy db =
    and_then (is_actor_id approvedBy) (\<lambda>by.
    case live_client i tenantId db of
      None \<Rightarrow> throw (NotFound (''Client with ID '' @ i @ '' not found''))
    | Some c \<Rightarrow>
       (let f = (\<lambda>c. c\<lparr> cl_status := ''Active'', cl_approvalStatus := Some ''APPROVED'', cl_approvedBy := Some by,
              cl_approvedAt := Some now, cl_rejectionReason := None \<rparr>)
        in ok (formatClient None (plain_view (f c)), update_clients (\<lambda>d. cl_id d = i) f db)))"

definition rejectClient :: "int \<Rightarrow> uuid \<Rightarrow> uuid \<Rightarrow> uuid option \<Rightarrow> string option \<Rightarrow> desk \<Rightarrow> (client_view \<times> desk) result" where
  "rejectClient now i tenantId rejectedBy reason db =
    and_then (is_actor_id rejectedBy) (\<lambda>by.
    case live_client i tenantId db of
      None \<Rightarrow> throw (NotFound (''Client with ID '' @ i @ '' not found''))
    | Some c \<Rightarrow>
       (let f = (\<lambda>c. c\<lparr> cl_status := ''Rejected'', cl_approvalStatus := Some ''REJECTED'', cl_approvedBy := Some by,
              cl_approvedAt := Some now, cl_rejectionReason := or_else reason (Some ''Rejected by Reviewer'') \<rparr>)
        in ok (formatClient None (plain_view (f c)), update_clients (\<lambda>d. cl_id d = i) f db)))"

section \<open>Changing\<close>

text \<open>The fields of the form and the columns they are written to, in the order in which the code writes them.\<close>

definition FIELD_MAP :: "(string \<times> string) list" where
  "FIELD_MAP = [(''client_code'', ''clientCode''), (''clientCode'', ''clientCode''), (''client_name'', ''clientName''), (''clientName'', ''clientName''),
     (''contact_number'', ''contactNumber''), (''contactNumber'', ''contactNumber''), (''website'', ''website''), (''industry'', ''industry''),
     (''state'', ''state''), (''city'', ''city''), (''status'', ''status''), (''category'', ''category''),
     (''primary_owner'', ''primaryOwner''), (''primaryOwner'', ''primaryOwner''), (''business_unit'', ''businessUnit''), (''businessUnit'', ''businessUnit''),
     (''branch_id'', ''branchId''), (''branchId'', ''branchId''), (''ownership'', ''ownership''),
     (''display_on_job_posting'', ''displayOnJobPosting''), (''displayOnJobPosting'', ''displayOnJobPosting''),
     (''federal_id'', ''federalId''), (''federalId'', ''federalId''), (''email_id'', ''emailId''), (''emailId'', ''emailId''), (''fax'', ''fax''),
     (''payment_terms'', ''paymentTerms''), (''paymentTerms'', ''paymentTerms''), (''address'', ''address''),
     (''client_lead'', ''clientLead''), (''clientLead'', ''clientLead''), (''postal_code'', ''postalCode''), (''postalCode'', ''postalCode''),
     (''country'', ''country''), (''practice'', ''practice''), (''required_documents'', ''requiredDocuments''), (''requiredDocuments'', ''requiredDocuments''),
     (''tag'', ''tag''), (''client_short_name'', ''clientShortName''), (''clientShortName'', ''clientShortName''),
     (''geopolitical_zone'', ''geopoliticalZone''), (''geopoliticalZone'', ''geopoliticalZone''),
     (''primary_business_unit'', ''primaryBusinessUnit''), (''primaryBusinessUnit'', ''primaryBusinessUnit''),
     (''facility_management'', ''facilityManagement''), (''facilityManagement'', ''facilityManagement''),
     (''end_client_name'', ''endClientName''), (''endClientName'', ''endClientName''),
     (''is_same_as_primary'', ''isSameAsPrimary''), (''isSameAsPrimary'', ''isSameAsPrimary''),
     (''contact_person'', ''contactPerson''), (''contactPerson'', ''contactPerson''),
     (''contact_designation'', ''contactDesignation''), (''contactDesignation'', ''contactDesignation''), (''gstin'', ''gstin''),
     (''pan_number'', ''panNumber''), (''panNumber'', ''panNumber''), (''tier_rating'', ''tierRating''), (''tierRating'', ''tierRating''),
     (''commission_percentage'', ''commissionPercentage''), (''commissionPercentage'', ''commissionPercentage''),
     (''credit_check_status'', ''creditCheckStatus''), (''creditCheckStatus'', ''creditCheckStatus''),
     (''fillability_score'', ''fillabilityScore''), (''fillabilityScore'', ''fillabilityScore''),
     (''vetting_notes'', ''vettingNotes''), (''vettingNotes'', ''vettingNotes''),
     (''onboarding_status'', ''onboardingStatus''), (''onboardingStatus'', ''onboardingStatus''),
     (''msa_signed'', ''msaSigned''), (''msaSigned'', ''msaSigned''), (''sow_executed'', ''sowExecuted''), (''sowExecuted'', ''sowExecuted''),
     (''coi_received'', ''coiReceived''), (''coiReceived'', ''coiReceived''),
     (''vendor_portal_created'', ''vendorPortalCreated''), (''vendorPortalCreated'', ''vendorPortalCreated'')]"

text \<open>What a column holds: text of bounded or any length, a truth value, a percentage.\<close>

datatype column_kind = TextColumn "nat option" bool | FlagColumn | PercentColumn

definition column_kind :: "string \<Rightarrow> column_kind" where
  "column_kind k =
    (if k \<in> set [''displayOnJobPosting'', ''isSameAsPrimary'', ''msaSigned'', ''sowExecuted'', ''coiReceived'', ''vendorPortalCreated''] then FlagColumn
     else if k = ''commissionPercentage'' then PercentColumn
     else if k \<in> set [''address'', ''requiredDocuments'', ''vettingNotes''] then TextColumn None True
     else if k = ''clientName'' then TextColumn (Some 255) False
     else if k \<in> set [''status'', ''onboardingStatus''] then TextColumn (Some 50) False
     else if k \<in> set [''postalCode'', ''tierRating'', ''creditCheckStatus'', ''fillabilityScore''] then TextColumn (Some 50) True
     else if k \<in> set [''website'', ''primaryOwner'', ''emailId'', ''clientLead'', ''endClientName'', ''contactPerson'', ''contactDesignation'']
     then TextColumn (Some 255) True
     else TextColumn (Some 100) True)"

text \<open>A value the database takes for a column; \<^verbatim>\<open>Decimal(5,2)\<close> holds numbers below a thousand.\<close>

definition column_accepts :: "string \<Rightarrow> json \<Rightarrow> bool" where
  "column_accepts k v = (case column_kind k of
      TextColumn limit nullable \<Rightarrow> (case v of JStr s \<Rightarrow> if_given limit (\<lambda>n. length s \<le> n) | JNull \<Rightarrow> nullable | _ \<Rightarrow> False)
    | FlagColumn \<Rightarrow> (case v of JBool _ \<Rightarrow> True | _ \<Rightarrow> False)
    | PercentColumn \<Rightarrow> (case v of JNull \<Rightarrow> True
        | JNum s \<Rightarrow> \<not> str_includes s ''e+'' \<and> digits_value (takeWhile is_digit (if prefix ''-'' s then tl s else s)) < 1000
        | _ \<Rightarrow> False))"

definition nullable_text :: "json \<Rightarrow> string option" where
  "nullable_text v = (case v of JStr s \<Rightarrow> Some s | _ \<Rightarrow> None)"

definition write_column :: "string \<Rightarrow> json \<Rightarrow> client \<Rightarrow> client" where
  "write_column k v c =
    (if k = ''clientCode'' then c\<lparr> cl_clientCode := nullable_text v \<rparr>
     else if k = ''clientName'' then c\<lparr> cl_clientName := or_empty (nullable_text v) \<rparr>
     else if k = ''status'' then c\<lparr> cl_status := or_empty (nullable_text v) \<rparr>
     else if k = ''primaryOwner'' then c\<lparr> cl_primaryOwner := nullable_text v \<rparr>
     else if k = ''branchId'' then c\<lparr> cl_branchId := nullable_text v \<rparr>
     else c\<lparr> cl_columns := (cl_columns c)(k := v) \<rparr>)"

definition column_changes :: "dto \<Rightarrow> (string \<times> json) list" where
  "column_changes dto = concat (map (\<lambda>(key, column). case dto_field dto key of Some v \<Rightarrow> [(column, v)] | None \<Rightarrow> []) FIELD_MAP)"

text \<open>Writing the columns fails in the database where a value does not fit, a branch does not exist, or the code is taken.\<close>

definition write_client :: "uuid \<Rightarrow> string \<Rightarrow> (string \<times> json) list \<Rightarrow> client \<Rightarrow> desk \<Rightarrow> desk result" where
  "write_client i modifiedBy cs existing db =
    (let f = (\<lambda>c. (fold (\<lambda>(k, v). write_column k v) cs c)\<lparr> cl_modifiedBy := Some modifiedBy \<rparr>); saved = f existing
     in if \<not> list_all (\<lambda>(k, v). column_accepts k v) cs then throw (InternalError ''PrismaClientValidationError'')
        else if cl_branchId saved \<noteq> cl_branchId existing \<and> cl_branchId saved \<noteq> None \<and> branch_of (dk_base db) (cl_branchId saved) = None
        then throw (InternalError ''P2003'')
        else if cl_clientCode saved \<noteq> None \<and> list_ex (\<lambda>d. cl_id d \<noteq> i \<and> cl_tenantId d = cl_tenantId existing
                  \<and> cl_clientCode d = cl_clientCode saved) (dk_clients db)
        then throw (InternalError ''P2002'')
        else ok (update_clients (\<lambda>d. cl_id d = i) f db))"

definition may_edit_client :: "auth_user \<Rightarrow> uuid \<Rightarrow> uuid \<Rightarrow> desk \<Rightarrow> unit result" where
  "may_edit_client user i tenantId db =
    (let permissions = a_permissions user;
         canEditAll = includes_any permissions [''client:edit_all'', ''client:approve'', ''tenant:settings'', ''tenant:manage''];
         canEditOwn = (''client:edit'' \<in> set permissions); userId = or_else (a_dbId user) (a_id user)
     in if canEditAll then ok ()
        else if \<not> canEditOwn then throw (Forbidden ''You do not have permission (client:edit) to modify client accounts.'')
        else case find_first (\<lambda>c. cl_id c = i \<and> cl_tenantId c = tenantId) (dk_clients db) of
          None \<Rightarrow> ok ()
        | Some c \<Rightarrow> refuse (\<not> ((userId \<noteq> None \<and> userId \<in> {cl_primaryOwner c, cl_createdBy c})
              \<or> Some (a_email user) \<in> {cl_primaryOwner c, cl_createdBy c}))
            (Forbidden ''You can only edit your own assigned client accounts.''))"

text \<open>\<^verbatim>\<open>dto.branch_id ?? dto.branchId\<close>, compared with the branch of the row.\<close>

definition moves_branch :: "dto \<Rightarrow> client \<Rightarrow> bool" where
  "moves_branch dto existing =
    (let first = dto_field dto ''branch_id''; second = dto_field dto ''branchId''
     in (first \<noteq> None \<or> second \<noteq> None)
        \<and> (if first \<noteq> None \<and> first \<noteq> Some JNull then first else second) \<noteq> Some (jnullable (cl_branchId existing)))"

definition updateClient :: "uuid \<Rightarrow> dto \<Rightarrow> uuid \<Rightarrow> string \<Rightarrow> auth_user \<Rightarrow> desk \<Rightarrow> (client_view \<times> desk) result" where
  "updateClient i dto tenantId modifiedBy user db =
    and_then (may_edit_client user i tenantId db) (\<lambda>_.
    case live_client i tenantId db of
      None \<Rightarrow> throw (NotFound (''Client with ID '' @ i @ '' not found''))
    | Some existing \<Rightarrow>
       and_then (checks
         [refuse ((case dto_field dto ''market'' of None \<Rightarrow> False
                   | Some v \<Rightarrow> normalizeClientMarket (Some v) = None
                       \<or> normalizeClientMarket (Some v) \<noteq> normalizeClientMarket (Some (JStr (cl_market existing))))
               \<or> (case dto_field dto ''currency'' of None \<Rightarrow> False | Some v \<Rightarrow> v \<noteq> JStr (cl_currency existing)))
            (BadRequest ''Client market and currency cannot be changed from the client form.''),
          refuse (moves_branch dto existing) (BadRequest ''Client branch transfers require a separate authorized workflow.'')]) (\<lambda>_.
       and_then (if column_changes dto = [] then ok db else write_client i modifiedBy (column_changes dto) existing db) (\<lambda>db'.
       and_then (loadClientProfile i tenantId (\<lambda>c. cl_tenantId c = tenantId) user db') (\<lambda>v. ok (v, db')))))"

section \<open>Deleting and restoring\<close>

definition deleteClient :: "int \<Rightarrow> uuid \<Rightarrow> uuid \<Rightarrow> string \<Rightarrow> desk \<Rightarrow> desk result" where
  "deleteClient now i tenantId modifiedBy db = (case live_client i tenantId db of
      None \<Rightarrow> throw (NotFound (''Client with ID '' @ i @ '' not found or already deleted''))
    | Some _ \<Rightarrow> ok (update_clients (\<lambda>d. cl_id d = i) (\<lambda>c. c\<lparr> cl_deletedAt := Some now, cl_modifiedBy := Some modifiedBy \<rparr>) db))"

definition restoreClient :: "uuid \<Rightarrow> uuid \<Rightarrow> string \<Rightarrow> desk \<Rightarrow> (client_view \<times> desk) result" where
  "restoreClient i tenantId modifiedBy db =
    (case find_first (\<lambda>c. cl_id c = i \<and> cl_tenantId c = tenantId \<and> cl_deletedAt c \<noteq> None) (dk_clients db) of
       None \<Rightarrow> throw (NotFound (''Client with ID '' @ i @ '' not found or not deleted''))
     | Some c \<Rightarrow>
        (let f = (\<lambda>c. c\<lparr> cl_deletedAt := None, cl_modifiedBy := Some modifiedBy \<rparr>)
         in ok (formatClient None (plain_view (f c)), update_clients (\<lambda>d. cl_id d = i) f db)))"

text \<open>The pattern of the code has four groups of digits where an identifier has five.\<close>

definition is_short_uuid :: "string \<Rightarrow> bool" where
  "is_short_uuid s = (length s = 31 \<and>
     (\<forall>i \<in> set [0..<31]. if i \<in> {8, 13, 18} then s ! i = CHR ''-'' else is_hex (s ! i)))"

record approval_state =
  as_approved :: bool
  as_status :: string
  as_clientName :: string

definition isClientApproved :: "string \<Rightarrow> uuid \<Rightarrow> desk \<Rightarrow> approval_state" where
  "isClientApproved clientNameOrId tenantId db =
    (let lookup = trim clientNameOrId
     in if lookup = [] then \<lparr> as_approved = True, as_status = ''Active'', as_clientName = [] \<rparr>
        else case find_first (\<lambda>c. cl_tenantId c = tenantId \<and> cl_deletedAt c = None \<and>
               ((is_short_uuid lookup \<and> cl_id c = lookup) \<or> same_name (cl_clientName c) lookup
                \<or> (case cl_clientCode c of Some k \<Rightarrow> same_name k lookup | None \<Rightarrow> False))) (dk_clients db) of
          None \<Rightarrow> \<lparr> as_approved = False, as_status = ''Not Found'', as_clientName = lookup \<rparr>
        | Some c \<Rightarrow>
            \<lparr> as_approved = ((cl_approvalStatus c = Some ''APPROVED'' \<or> \<not> truthy (cl_approvalStatus c))
                \<and> cl_status c \<noteq> ''Pending Approval'' \<and> cl_status c \<noteq> ''Rejected''),
              as_status = (if cl_status c \<noteq> [] then cl_status c
                else if cl_approvalStatus c = Some ''PENDING_APPROVAL'' then ''Pending Approval'' else ''Active''),
              as_clientName = [] \<rparr>)"

end
