(* ===== verification/ClientContacts.thy ===== *)
theory ClientContacts
  imports ClientService
begin

text \<open>
  The contacts of clients (\<^verbatim>\<open>client-contacts/client-contacts.service.ts\<close>), and the endpoints of clients and
  contacts (\<^verbatim>\<open>clients.controller.ts\<close>, \<^verbatim>\<open>client-contacts.controller.ts\<close>).  Adding or changing a contact first takes
  the mark of the primary contact from the others, in a statement of its own.
\<close>

section \<open>The service\<close>

definition formatContact :: "contact \<Rightarrow> uuid option \<Rightarrow> store \<Rightarrow> contact_view" where
  "formatContact c requestingUserId st = \<lparr> cw_contact = c, cw_isOwner = (Some (ct_createdBy c) = requestingUserId),
     cw_addedBy = map_option (\<lambda>u. (us_id u, us_fullName u)) (find_first (\<lambda>u. us_id u = ct_createdBy c) (st_users st)),
     cw_masked = False \<rparr>"

definition unset_primary :: "(contact \<Rightarrow> bool) \<Rightarrow> desk \<Rightarrow> desk" where
  "unset_primary p db = update_contacts (\<lambda>c. p c \<and> ct_isPrimary c) (\<lambda>c. c\<lparr> ct_isPrimary := False \<rparr>) db"

record contact_dto =
  cd_input :: dto
  cd_linkedinUrl :: "string option"
  cd_isPrimary :: "bool option"
  cd_notes :: "string option"

definition visible_client :: "uuid \<Rightarrow> uuid \<Rightarrow> auth_user \<Rightarrow> desk \<Rightarrow> client option result" where
  "visible_client clientId tenantId actor db =
    and_then (clientReadWhere tenantId actor db) (\<lambda>access.
      ok (find_first (\<lambda>c. access c \<and> cl_id c = clientId \<and> cl_deletedAt c = None) (dk_clients db)))"

definition contact_row :: "phones \<Rightarrow> uuid \<Rightarrow> int \<Rightarrow> uuid \<Rightarrow> uuid \<Rightarrow> uuid \<Rightarrow> contact_dto \<Rightarrow> contact" where
  "contact_row phones newId now clientId tenantId createdBy dto =
    (let i = normalizeContactInput phones (cd_input dto)
     in \<lparr> ct_id = newId, ct_tenantId = tenantId, ct_clientId = clientId, ct_createdBy = createdBy, ct_name = ci_name i,
          ct_designation = ci_designation i, ct_email = ci_email i, ct_phone = ci_phone i,
          ct_linkedinUrl = or_null (cd_linkedinUrl dto), ct_isPrimary = (cd_isPrimary dto = Some True),
          ct_notes = or_null (cd_notes dto), ct_createdAt = now \<rparr>)"

definition contact_checks :: "phones \<Rightarrow> uuid \<Rightarrow> uuid \<Rightarrow> contact_dto \<Rightarrow> auth_user \<Rightarrow> desk \<Rightarrow> unit result" where
  "contact_checks phones clientId tenantId dto actor db =
    and_then (clientReadWhere tenantId actor db) (\<lambda>access.
    if \<not> includes_any (a_permissions actor) [''client:create'', ''client:edit'']
    then throw (Forbidden ''Client contact creation permission is required.'')
    else case find_first (\<lambda>c. access c \<and> cl_id c = clientId \<and> cl_deletedAt c = None) (dk_clients db) of
      None \<Rightarrow> throw (NotFound ''Client not found.'')
    | Some _ \<Rightarrow>
       (case contactInputErrors phones (cd_input dto) (is_structured (cd_input dto)) of
          (_, message) # _ \<Rightarrow> throw (BadRequest message) | [] \<Rightarrow> ok ()))"

text \<open>As in a change, the mark of the others is gone even where the insertion fails.\<close>

definition contacts_create ::
  "phones \<Rightarrow> uuid \<Rightarrow> int \<Rightarrow> uuid \<Rightarrow> uuid \<Rightarrow> contact_dto \<Rightarrow> auth_user \<Rightarrow> desk \<Rightarrow> contact_view result \<times> desk" where
  "contacts_create phones newId now clientId tenantId dto actor db =
    (case contact_checks phones clientId tenantId dto actor db of
       Inl e \<Rightarrow> (throw e, db)
     | Inr _ \<Rightarrow>
        (let cleared = (if cd_isPrimary dto = Some True
               then unset_primary (\<lambda>c. ct_clientId c = clientId \<and> ct_tenantId c = tenantId) db else db);
             row = contact_row phones newId now clientId tenantId (or_empty (a_dbId actor)) dto
         in if \<not> if_given (ct_linkedinUrl row) (\<lambda>s. length s \<le> 500) then (throw (InternalError ''P2000''), cleared)
            else (ok (formatContact row (a_dbId actor) (dk_base db)), insert_contact row cleared)))"

record contact_lists =
  cs_mine :: "contact_view list"
  cs_others :: "contact_view list"

definition contact_order :: "contact list \<Rightarrow> contact list" where
  "contact_order cs = sort_key (\<lambda>c. \<not> ct_isPrimary c) (sort_key ct_createdAt cs)"

definition contacts_findAllForClient :: "uuid \<Rightarrow> uuid \<Rightarrow> auth_user \<Rightarrow> desk \<Rightarrow> contact_lists result" where
  "contacts_findAllForClient clientId tenantId actor db =
    and_then (visible_client clientId tenantId actor db) (\<lambda>client.
    case client of
      None \<Rightarrow> throw (NotFound ''Client not found.'')
    | Some _ \<Rightarrow>
       (let policy = policy_of tenantId db; me = a_dbId actor;
            contacts = contact_order (find_many (\<lambda>c. ct_clientId c = clientId \<and> ct_tenantId c = tenantId
                \<and> ((case policy of Some p \<Rightarrow> cp_otherOwnerPocsVisible p | None \<Rightarrow> False) \<or> Some (ct_createdBy c) = me)) (dk_contacts db));
            show_contact = (\<lambda>c. formatContact c me (dk_base db))
        in ok \<lparr> cs_mine = map show_contact (filter (\<lambda>c. Some (ct_createdBy c) = me) contacts),
                cs_others = concat (map (\<lambda>c. case protectPoc (show_contact c) (ct_createdBy c) actor policy of Some v \<Rightarrow> [v] | None \<Rightarrow> [])
                    (filter (\<lambda>c. Some (ct_createdBy c) \<noteq> me) contacts)) \<rparr>))"

text \<open>A field of a change is absent, or a value; \<open>None\<close> inside is \<^verbatim>\<open>null\<close>.\<close>

record contact_changes =
  cg_name :: "string option"
  cg_designation :: "string option option"
  cg_email :: "string option option"
  cg_phone :: "string option option"
  cg_linkedinUrl :: "string option option"
  cg_isPrimary :: "bool option"
  cg_notes :: "string option option"

definition contact_fits :: "contact_changes \<Rightarrow> bool" where
  "contact_fits g = (if_given (cg_name g) (\<lambda>s. length s \<le> 255) \<and>
     if_given (Option.bind (cg_designation g) id) (\<lambda>s. length s \<le> 255) \<and> if_given (Option.bind (cg_email g) id) (\<lambda>s. length s \<le> 255) \<and>
     if_given (Option.bind (cg_phone g) id) (\<lambda>s. length s \<le> 50) \<and> if_given (Option.bind (cg_linkedinUrl g) id) (\<lambda>s. length s \<le> 500))"

definition changed_contact :: "contact_changes \<Rightarrow> contact \<Rightarrow> contact" where
  "changed_contact g c = c\<lparr> ct_name := changed (cg_name g) (ct_name c), ct_designation := changed (cg_designation g) (ct_designation c),
     ct_email := changed (cg_email g) (ct_email c), ct_phone := changed (cg_phone g) (ct_phone c),
     ct_linkedinUrl := changed (cg_linkedinUrl g) (ct_linkedinUrl c), ct_isPrimary := changed (cg_isPrimary g) (ct_isPrimary c),
     ct_notes := changed (cg_notes g) (ct_notes c) \<rparr>"

definition administers_contacts :: "auth_user \<Rightarrow> bool" where
  "administers_contacts user = includes_any (a_permissions user) [''client:manage'', ''tenant:manage'', ''platform:manage'']"

definition contacts_update ::
  "uuid \<Rightarrow> uuid \<Rightarrow> contact_changes \<Rightarrow> auth_user \<Rightarrow> desk \<Rightarrow> contact result \<times> desk" where
  "contacts_update contactId tenantId g user db =
    (case contact_by contactId tenantId db of
       None \<Rightarrow> (throw (NotFound ''Contact not found.''), db)
     | Some c \<Rightarrow>
        (let isOwner = (Some (ct_createdBy c) = a_dbId user); policy = policy_of tenantId db;
             closed = (case policy of Some p \<Rightarrow> \<not> cp_otherOwnerPocsVisible p \<or> cp_maskOtherOwnerPocDetails p | None \<Rightarrow> True);
             cleared = (if cg_isPrimary g = Some True
               then unset_primary (\<lambda>d. ct_clientId d = ct_clientId c \<and> ct_tenantId d = tenantId \<and> ct_id d \<noteq> contactId) db else db)
         in if \<not> isOwner \<and> \<not> administers_contacts user then (throw (Forbidden ''You can only edit contacts you created.''), db)
            else if \<not> isOwner \<and> closed then (throw (Forbidden ''Private contact details can only be edited by their owner.''), db)
            else if \<not> contact_fits g then (throw (InternalError ''P2000''), cleared)
            else (ok (changed_contact g c), update_contacts (\<lambda>d. ct_id d = contactId) (changed_contact g) cleared)))"

text \<open>Jobs that name the contact lose it: the references are set to \<^verbatim>\<open>null\<close> by the database.\<close>

definition contacts_remove :: "uuid \<Rightarrow> uuid \<Rightarrow> auth_user \<Rightarrow> desk \<Rightarrow> (string \<times> desk) result" where
  "contacts_remove contactId tenantId user db =
    (case contact_by contactId tenantId db of
       None \<Rightarrow> throw (NotFound ''Contact not found.'')
     | Some c \<Rightarrow>
        if Some (ct_createdBy c) \<noteq> a_dbId user \<and> \<not> administers_contacts user
        then throw (Forbidden ''You can only delete contacts you created.'')
        else ok (''Contact deleted.'', update_jobs (\<lambda>j. jf_pocId j = Some contactId) (\<lambda>j. j\<lparr> jf_pocId := None \<rparr>)
               (update_jobs (\<lambda>j. jf_endClientPocId j = Some contactId) (\<lambda>j. j\<lparr> jf_endClientPocId := None \<rparr>)
                 (db\<lparr> dk_contacts := delete_where (\<lambda>d. ct_id d = contactId) (dk_contacts db) \<rparr>))))"

section \<open>Endpoints\<close>

text \<open>\<open>env\<close> is the default tenant; a response to a change passes the protection of contact fields again.\<close>

definition protected_result :: "auth_user \<Rightarrow> (client_view \<times> desk) result \<Rightarrow> (client_view \<times> desk) result" where
  "protected_result user r = and_then r (\<lambda>(v, db). ok (protectResponse v user db, db))"

definition clients_context :: "string option \<Rightarrow> json option \<Rightarrow> auth_user \<Rightarrow> string option \<Rightarrow> desk \<Rightarrow> creation_context result" where
  "clients_context env branchId user tenantHeader db =
    and_then (request_tenant env user tenantHeader) (\<lambda>tid. resolveClientCreationContext tid user branchId (dk_base db))"

definition clients_policy_get :: "auth_user \<Rightarrow> desk \<Rightarrow> client_policy result" where
  "clients_policy_get user db = and_then (require_permissions [''tenant:settings''] user) (\<lambda>_. getVisibilityPolicy user db)"

definition clients_policy_patch :: "json \<Rightarrow> auth_user \<Rightarrow> desk \<Rightarrow> (client_policy \<times> desk) result" where
  "clients_policy_patch body user db = and_then (require_permissions [''tenant:settings''] user) (\<lambda>_. setVisibilityPolicy user body db)"

definition clients_post ::
  "string option \<Rightarrow> phones \<Rightarrow> uuid \<Rightarrow> int \<Rightarrow> dto option \<Rightarrow> auth_user \<Rightarrow> string option \<Rightarrow> desk \<Rightarrow> (client_view \<times> desk) result" where
  "clients_post env phones newId now body user tenantHeader db =
    and_then (request_tenant env user tenantHeader) (\<lambda>tid. createClient phones newId now body tid user db)"

definition clients_list :: "string option \<Rightarrow> string option \<Rightarrow> auth_user \<Rightarrow> string option \<Rightarrow> desk \<Rightarrow> client_view list result" where
  "clients_list env includeDeleted user tenantHeader db =
    and_then (request_tenant env user tenantHeader) (\<lambda>tid. findAllClients tid user (includeDeleted = Some ''true'') db)"

definition clients_get :: "string option \<Rightarrow> uuid \<Rightarrow> auth_user \<Rightarrow> string option \<Rightarrow> desk \<Rightarrow> client_view result" where
  "clients_get env i user tenantHeader db =
    and_then (request_tenant env user tenantHeader) (\<lambda>tid. findOneClient i tid user db)"

definition clients_restore :: "string option \<Rightarrow> uuid \<Rightarrow> auth_user \<Rightarrow> string option \<Rightarrow> desk \<Rightarrow> (client_view \<times> desk) result" where
  "clients_restore env i user tenantHeader db =
    and_then (request_tenant env user tenantHeader) (\<lambda>tid. protected_result user
      (restoreClient i tid (or_empty (or_else (a_dbId user) (or_else (Some (a_email user)) (Some ''System'')))) db))"

definition clients_approve :: "string option \<Rightarrow> int \<Rightarrow> uuid \<Rightarrow> auth_user \<Rightarrow> string option \<Rightarrow> desk \<Rightarrow> (client_view \<times> desk) result" where
  "clients_approve env now i user tenantHeader db =
    and_then (request_tenant env user tenantHeader) (\<lambda>tid.
      if \<not> includes_any (a_permissions user) [''client:approve'', ''tenant:settings'', ''tenant:manage'']
      then throw (Forbidden ''Only Delivery Heads, Tenant Admins, Branch Admins, and authorized staff with client:approve permission can approve client accounts.'')
      else protected_result user (approveClient now i tid (a_dbId user) db))"

definition clients_reject ::
  "string option \<Rightarrow> int \<Rightarrow> uuid \<Rightarrow> string option \<Rightarrow> auth_user \<Rightarrow> string option \<Rightarrow> desk \<Rightarrow> (client_view \<times> desk) result" where
  "clients_reject env now i reason user tenantHeader db =
    and_then (request_tenant env user tenantHeader) (\<lambda>tid.
      if \<not> includes_any (a_permissions user) [''client:reject'', ''client:approve'', ''tenant:settings'', ''tenant:manage'']
      then throw (Forbidden ''Only Delivery Heads, Tenant Admins, Branch Admins, and authorized staff with client:reject permission can reject client accounts.'')
      else protected_result user (rejectClient now i tid (a_dbId user) reason db))"

definition clients_patch :: "string option \<Rightarrow> uuid \<Rightarrow> dto \<Rightarrow> auth_user \<Rightarrow> string option \<Rightarrow> desk \<Rightarrow> (client_view \<times> desk) result" where
  "clients_patch env i dto user tenantHeader db =
    and_then (request_tenant env user tenantHeader) (\<lambda>tid.
      protected_result user (updateClient i dto tid (or_empty (or_else (a_dbId user) (Some ''System''))) user db))"

definition clients_delete :: "string option \<Rightarrow> int \<Rightarrow> uuid \<Rightarrow> auth_user \<Rightarrow> string option \<Rightarrow> desk \<Rightarrow> desk result" where
  "clients_delete env now i user tenantHeader db =
    and_then (request_tenant env user tenantHeader) (\<lambda>tid.
      if \<not> canDeleteClient user then throw (Forbidden ''You do not have permission (client:delete) to delete client accounts.'')
      else deleteClient now i tid (or_empty (or_else (a_dbId user) (or_else (Some (a_email user)) (Some ''System'')))) db)"

definition contacts_list :: "uuid \<Rightarrow> auth_user \<Rightarrow> desk \<Rightarrow> contact_lists result" where
  "contacts_list clientId user db = contacts_findAllForClient clientId (or_empty (a_tenantId user)) user db"

definition contacts_post :: "phones \<Rightarrow> uuid \<Rightarrow> int \<Rightarrow> uuid \<Rightarrow> contact_dto \<Rightarrow> auth_user \<Rightarrow> desk \<Rightarrow> contact_view result \<times> desk" where
  "contacts_post phones newId now clientId dto user db =
     contacts_create phones newId now clientId (or_empty (a_tenantId user)) dto user db"

definition contacts_patch :: "uuid \<Rightarrow> contact_changes \<Rightarrow> auth_user \<Rightarrow> desk \<Rightarrow> contact result \<times> desk" where
  "contacts_patch i g user db = contacts_update i (or_empty (a_tenantId user)) g user db"

definition contacts_delete :: "uuid \<Rightarrow> auth_user \<Rightarrow> desk \<Rightarrow> (string \<times> desk) result" where
  "contacts_delete i user db = contacts_remove i (or_empty (a_tenantId user)) user db"

end
