(* ===== verification/ClientGuarantees.thy ===== *)
theory ClientGuarantees
  imports ClientContacts
begin

text \<open>
  What the clients component guarantees: reading a client stays in the workspace and office of the caller
  and shows contact details only as the settings allow, a repeated creation writes nothing, nobody becomes an
  approved client without someone who may approve, and \<open>ClientInvariant\<close> shows that the tables stay well
  formed under the same steps.
\<close>

section \<open>Reading\<close>

lemma clientReadWhere_tenant:
  assumes "clientReadWhere t actor db = ok access"
  shows "a_tenantId actor = Some t \<and> ''client:view'' \<in> set (a_permissions actor) \<and> (access c \<longrightarrow> cl_tenantId c = t)"
  using assms by (auto simp: clientReadWhere_def Let_def split: if_splits option.splits)

definition sees_all_clients :: "auth_user \<Rightarrow> client_policy option \<Rightarrow> bool" where
  "sees_all_clients actor policy = (includes_any (a_permissions actor) [''tenant:settings'', ''tenant:manage'', ''platform:manage'']
     \<or> (case policy of None \<Rightarrow> False | Some p \<Rightarrow>
          if ''client:bdm_access'' \<in> set (a_permissions actor) then cp_bdmClientsTenantWide p else cp_clientsVisibleAcrossUnits p))"

lemma clientReadWhere_branch:
  assumes r: "clientReadWhere t actor db = ok access" and "access c" and "\<not> sees_all_clients actor (policy_of t db)"
  shows "truthy (a_branchId actor) \<and> (cl_branchId c = a_branchId actor \<or> cl_branchId c = None)"
  using assms by (auto simp: clientReadWhere_def sees_all_clients_def Let_def split: if_splits option.splits)

text \<open>The caller owns the client: by name, or as its creator where it has no owner.\<close>

definition owns_client :: "auth_user \<Rightarrow> client \<Rightarrow> bool" where
  "owns_client actor c = (or_else (cl_primaryOwner c) (cl_createdBy c) \<noteq> None \<and>
     or_else (cl_primaryOwner c) (cl_createdBy c) \<in> {a_dbId actor, Some (a_email actor)})"

definition pocs_hidden :: "client_policy option \<Rightarrow> bool" where
  "pocs_hidden p = (case p of Some q \<Rightarrow> \<not> cp_otherOwnerPocsVisible q | None \<Rightarrow> True)"

definition details_hidden :: "client_policy option \<Rightarrow> bool" where
  "details_hidden p = (case p of Some q \<Rightarrow> \<not> cp_otherOwnerPocsVisible q \<or> cp_maskOtherOwnerPocDetails q | None \<Rightarrow> True)"

lemma protected_columns:
  assumes "\<not> owns_client actor c"
  shows "details_hidden p \<longrightarrow> (\<forall>k \<in> set POC_DETAILS. cl_columns (vw_client (protectClientContactFields (plain_view c) actor p)) k = JNull)"
    "pocs_hidden p \<longrightarrow> (\<forall>k \<in> set POC_NAMES. cl_columns (vw_client (protectClientContactFields (plain_view c) actor p)) k = JNull)"
  using assms
  by (auto simp: protectClientContactFields_def plain_view_def Let_def owns_client_def details_hidden_def pocs_hidden_def
      hide_columns_def split: option.splits)

lemma protect_keeps:
  "cl_id (vw_client (protectClientContactFields v actor p)) = cl_id (vw_client v)"
  "cl_tenantId (vw_client (protectClientContactFields v actor p)) = cl_tenantId (vw_client v)"
  "cl_branchId (vw_client (protectClientContactFields v actor p)) = cl_branchId (vw_client v)"
  "cl_primaryOwner (vw_client (protectClientContactFields v actor p)) = cl_primaryOwner (vw_client v)"
  "cl_createdBy (vw_client (protectClientContactFields v actor p)) = cl_createdBy (vw_client v)"
  "cl_deletedAt (vw_client (protectClientContactFields v actor p)) = cl_deletedAt (vw_client v)"
  by (simp_all add: protectClientContactFields_def Let_def hide_columns_def)

lemma format_keeps [simp]: "vw_client (formatClient n v) = vw_client v"
  by (simp add: formatClient_def)

lemma findOneClient_Inr:
  assumes "findOneClient i t actor db = ok v"
  obtains access c where "clientReadWhere t actor db = ok access" and "c \<in> set (dk_clients db)" and "access c" and "cl_id c = i"
    and "cl_deletedAt c = None" and "vw_client v = vw_client (protectClientContactFields (plain_view c) actor (policy_of t db))"
proof -
  obtain access where r: "clientReadWhere t actor db = ok access" and p: "loadClientProfile i t access actor db = ok v"
    using assms by (auto simp: findOneClient_def and_then_eq_Inr)
  obtain c where c: "find_first (\<lambda>c. access c \<and> cl_id c = i \<and> cl_deletedAt c = None) (dk_clients db) = Some c"
    using p by (auto simp: loadClientProfile_def split: option.splits)
  then have "vw_client v = vw_client (protectClientContactFields (plain_view c) actor (policy_of t db))"
    using p by (auto simp: loadClientProfile_def Let_def)
  with find_first_Some [OF c] show thesis by (auto intro: that [OF r])
qed

text \<open>A workspace with one branch and its staff, to evaluate the operations on; the client \<open>''c''\<close> is another member's.\<close>

definition sample_uuid :: "char \<Rightarrow> uuid" where
  "sample_uuid c = (let d = replicate 4 c in d @ d @ ''-'' @ d @ ''-'' @ d @ ''-'' @ d @ ''-'' @ d @ d @ d)"

definition sample_desk :: desk where
  "sample_desk = (empty_desk (empty_store\<lparr> st_tenants := [mk_tenant ''t''],
       st_branches := [mk_branch (sample_uuid (CHR ''b'')) ''t'' ''Delhi''],
       st_units := [mk_unit ''n'' ''t'' (Some (sample_uuid (CHR ''b''))) ''Unit''],
       st_users := [mk_member (sample_uuid (CHR ''1'')) ''t'' (Some (sample_uuid (CHR ''b''))) (Some ''n'') None [] None] \<rparr>))
     \<lparr> dk_policies := [\<lparr> cp_tenantId = ''t'', cp_clientsVisibleAcrossUnits = True, cp_bdmClientsTenantWide = False,
         cp_otherOwnerPocsVisible = True, cp_maskOtherOwnerPocDetails = True \<rparr>] \<rparr>"

definition sample_desk_user :: "string list \<Rightarrow> auth_user" where
  "sample_desk_user ps = mk_user (sample_uuid (CHR ''1'')) ps ''t'' (Some (sample_uuid (CHR ''b''))) (Some ''n'') None"

definition sample_phones :: phones where
  "sample_phones = \<lparr> ph_valid = (\<lambda>_. True), ph_number = Some \<rparr>"

definition sample_request :: dto where
  "sample_request = [(''request_id'', JStr (sample_uuid (CHR ''2''))), (''client_name'', JStr ''Acme Ltd''), (''category'', JStr ''MSP''),
     (''contact'', JObj [(''firstName'', JStr ''Jo''), (''email'', JStr ''jo@acme.com'')])]"



section \<open>Repeated creations\<close>

lemma createClient_Inr:
  assumes "createClient phones newId now body t actor db = ok (v, db')"
  obtains dto cx c where "body = Some dto" and "is_uuid (or_empty (a_dbId actor))"
    and "creation_checks phones dto t actor (dk_base db) = ok cx"
    and "creation_transaction phones newId now dto t (or_empty (a_dbId actor)) cx db = ok (c, db')"
    and "v = formatClient None (plain_view c)"
  using assms by (auto simp: createClient_def is_actor_id_def and_then_eq_Inr split: if_splits option.splits)

lemma createClientRecord_Inr:
  assumes "createClientRecord phones newId now dto name t by cx db = ok (c, db')"
  obtains creator n counted where "user_by by t (dk_base db) = Some creator" and "\<not> similar_client t name db"
    and "next_count t db = (n, counted)"
    and "c = new_client now dto t (client_code (code_prefix (tenant_by t (dk_base db))) n) name creator cx"
    and "\<forall>d \<in> set (dk_clients db). cl_id d \<noteq> cl_id c \<and> \<not> (cl_tenantId d = t \<and> cl_clientCode d = cl_clientCode c)"
    and "db' = (case contact_of dto of
        Some (JObj entries) \<Rightarrow> insert_contact (first_contact phones newId now entries c) (counted\<lparr> dk_clients := dk_clients db @ [c] \<rparr>)
      | _ \<Rightarrow> counted\<lparr> dk_clients := dk_clients db @ [c] \<rparr>)"
proof -
  obtain creator where u: "user_by by t (dk_base db) = Some creator" and s: "\<not> similar_client t name db"
    using assms by (auto simp: createClientRecord_def split: option.splits if_splits)
  obtain n counted where n: "next_count t db = (n, counted)" by (cases "next_count t db")
  have same: "dk_clients counted = dk_clients db"
    using n by (auto simp: next_count_def split: option.splits)
  define d where "d = new_client now dto t (client_code (code_prefix (tenant_by t (dk_base db))) n) name creator cx"
  have run: "and_then (insert_client d counted) (\<lambda>db'. ok (d, case contact_of dto of
        Some (JObj entries) \<Rightarrow> insert_contact (first_contact phones newId now entries d) db' | _ \<Rightarrow> db')) = ok (c, db')"
    using assms unfolding d_def by (simp add: createClientRecord_def u s n Let_def)
  then have c: "c = d" and fresh: "\<not> list_ex (\<lambda>e. cl_id e = cl_id d \<or> (cl_tenantId e = cl_tenantId d \<and> cl_clientCode d \<noteq> None
      \<and> cl_clientCode e = cl_clientCode d)) (dk_clients db)"
    by (auto simp: insert_client_def same and_then_eq_Inr split: if_splits)
  show thesis
  proof (rule that [OF u s n])
    show "c = new_client now dto t (client_code (code_prefix (tenant_by t (dk_base db))) n) name creator cx"
      by (simp add: c d_def)
    show "\<forall>e \<in> set (dk_clients db). cl_id e \<noteq> cl_id c \<and> \<not> (cl_tenantId e = t \<and> cl_clientCode e = cl_clientCode c)"
      using fresh by (auto simp: c list_ex_iff d_def new_client_def Let_def)
    show "db' = (case contact_of dto of
        Some (JObj entries) \<Rightarrow> insert_contact (first_contact phones newId now entries c) (counted\<lparr> dk_clients := dk_clients db @ [c] \<rparr>)
      | _ \<Rightarrow> counted\<lparr> dk_clients := dk_clients db @ [c] \<rparr>)"
      unfolding c using run by (auto simp: insert_client_def same split: if_splits)
  qed
qed

lemma next_count_keeps:
  "next_count t db = (n, counted) \<Longrightarrow> dk_base counted = dk_base db \<and> dk_clients counted = dk_clients db \<and>
    dk_contacts counted = dk_contacts db \<and> dk_policies counted = dk_policies db \<and> dk_jobs counted = dk_jobs db"
  by (auto simp: next_count_def split: option.splits)

lemma insert_contact_keeps [simp]:
  "dk_base (insert_contact k db) = dk_base db" "dk_clients (insert_contact k db) = dk_clients db"
  "dk_contacts (insert_contact k db) = dk_contacts db @ [k]" "dk_policies (insert_contact k db) = dk_policies db"
  by (simp_all add: insert_contact_def)

lemma creation_leaves:
  assumes "createClientRecord phones newId now dto name t by cx db = ok (c, db')"
  shows "dk_base db' = dk_base db" "dk_clients db' = dk_clients db @ [c]" "cl_id c = text_of dto ''request_id''"
    "cl_tenantId c = t" "cl_createdBy c = Some by" "cl_deletedAt c = None" "cl_clientName c = name"
    "cl_id c \<notin> cl_id ` set (dk_clients db)"
proof -
  from assms obtain creator n counted where n: "next_count t db = (n, counted)" and u: "user_by by t (dk_base db) = Some creator"
    and c: "c = new_client now dto t (client_code (code_prefix (tenant_by t (dk_base db))) n) name creator cx"
    and fresh: "\<forall>d \<in> set (dk_clients db). cl_id d \<noteq> cl_id c \<and> \<not> (cl_tenantId d = t \<and> cl_clientCode d = cl_clientCode c)"
    and db': "db' = (case contact_of dto of
        Some (JObj entries) \<Rightarrow> insert_contact (first_contact phones newId now entries c) (counted\<lparr> dk_clients := dk_clients db @ [c] \<rparr>)
      | _ \<Rightarrow> counted\<lparr> dk_clients := dk_clients db @ [c] \<rparr>)"
    by (rule createClientRecord_Inr) (rule that; assumption)
  show "dk_base db' = dk_base db" "dk_clients db' = dk_clients db @ [c]"
    using next_count_keeps [OF n] by (simp_all add: db' split: option.splits json.splits)
  show "cl_id c = text_of dto ''request_id''" "cl_tenantId c = t" "cl_createdBy c = Some by" "cl_deletedAt c = None" "cl_clientName c = name"
    using user_by_Some [OF u] by (simp_all add: c new_client_def Let_def)
  show "cl_id c \<notin> cl_id ` set (dk_clients db)" using fresh by fastforce
qed

text \<open>C17: Sending a creation again changes nothing and answers with the client the first request created,
  whatever identifiers and time the database would give.\<close>

theorem repeated_creation_writes_nothing:
  assumes "createClient phones newId now body t actor db = ok (v, db')"
  shows "createClient phones newId' now' body t actor db' = ok (v, db') \<and>
    (\<exists>c \<in> set (dk_clients db'). vw_client v = c \<and> cl_tenantId c = t \<and> cl_createdBy c = a_dbId actor)"
proof -
  let ?by = "or_empty (a_dbId actor)"
  obtain dto cx c where b: "body = Some dto" and i: "is_uuid ?by" and ck: "creation_checks phones dto t actor (dk_base db) = ok cx"
    and tr: "creation_transaction phones newId now dto t ?by cx db = ok (c, db')" and v: "v = formatClient None (plain_view c)"
    by (rule createClient_Inr [OF assms])
  let ?p = "\<lambda>c. cl_id c = text_of dto ''request_id'' \<and> cl_tenantId c = t \<and> cl_createdBy c = Some ?by \<and> cl_deletedAt c = None"
  let ?name = "trim (text_of dto ''client_name'')"
  have f: "find_first ?p (dk_clients db') = Some c \<and> cl_clientName c = ?name \<and> dk_base db' = dk_base db"
  proof (cases "find_first ?p (dk_clients db)")
    case None
    then have "createClientRecord phones newId now dto ?name t ?by cx db = ok (c, db')"
      using tr by (simp add: creation_transaction_def)
    note n = creation_leaves [OF this]
    show ?thesis
      using None n(3-6) by (simp add: n(1,2,7) find_first_append find_first_Cons)
  next
    case (Some s)
    then show ?thesis using tr by (auto simp: creation_transaction_def Let_def split: if_splits)
  qed
  then have again: "creation_transaction phones newId' now' dto t ?by cx db' = ok (c, db')"
    by (simp add: creation_transaction_def)
  have "a_dbId actor = Some ?by" using i by (cases "a_dbId actor") (auto simp: is_uuid_def)
  moreover have "createClient phones newId' now' body t actor db' = ok (v, db')"
    using f ck again i by (simp add: createClient_def b is_actor_id_def v)
  ultimately show ?thesis
    using f find_first_Some [of ?p "dk_clients db'" c] by (simp add: v plain_view_def)
qed

theorem repeated_creation_writes_nothing_witness:
  "\<exists>v db'. createClient sample_phones ''k'' 5 (Some sample_request) ''t'' (sample_desk_user [''client:create'']) sample_desk = ok (v, db') \<and>
     createClient sample_phones ''other'' 9 (Some sample_request) ''t'' (sample_desk_user [''client:create'']) db' = ok (v, db')"
proof -
  have "succeeds (createClient sample_phones ''k'' 5 (Some sample_request) ''t'' (sample_desk_user [''client:create'']) sample_desk)"
    by code_simp
  then obtain v db' where
    r: "createClient sample_phones ''k'' 5 (Some sample_request) ''t'' (sample_desk_user [''client:create'']) sample_desk = ok (v, db')"
    unfolding succeeds_iff split_paired_Ex by (elim exE)
  then show ?thesis using repeated_creation_writes_nothing [OF r] by blast
qed

section \<open>What requests do to the tables\<close>

text \<open>A step is a request of a user that has written: the identifiers the database gives to contacts are new.\<close>

inductive client_step :: "auth_user \<Rightarrow> desk \<Rightarrow> desk \<Rightarrow> bool" where
  created: "clients_post env phones newId now body user h db = ok (v, db') \<Longrightarrow> newId \<notin> ct_id ` set (dk_contacts db) \<Longrightarrow>
    client_step user db db'"
| approved: "clients_approve env now i user h db = ok (v, db') \<Longrightarrow> client_step user db db'"
| rejected: "clients_reject env now i reason user h db = ok (v, db') \<Longrightarrow> client_step user db db'"
| changed: "clients_patch env i dto user h db = ok (v, db') \<Longrightarrow> client_step user db db'"
| deleted: "clients_delete env now i user h db = ok db' \<Longrightarrow> client_step user db db'"
| restored: "clients_restore env i user h db = ok (v, db') \<Longrightarrow> client_step user db db'"
| contact_added: "contacts_post phones newId now i cd user db = (r, db') \<Longrightarrow> newId \<notin> ct_id ` set (dk_contacts db) \<Longrightarrow>
    client_step user db db'"
| contact_changed: "contacts_patch i g user db = (r, db') \<Longrightarrow> client_step user db db'"
| contact_removed: "contacts_delete i user db = ok (m, db') \<Longrightarrow> client_step user db db'"
| settings: "clients_policy_patch pol user db = ok (p, db') \<Longrightarrow> client_step user db db'"

text \<open>Most steps write a client row in place, and keep its identifier and tenant.\<close>

definition same_identity :: "(client \<Rightarrow> client) \<Rightarrow> bool" where
  "same_identity f = (\<forall>c. cl_id (f c) = cl_id c \<and> cl_tenantId (f c) = cl_tenantId c)"

definition only_clients :: "desk \<Rightarrow> desk \<Rightarrow> bool" where
  "only_clients db db' = (db' = db\<lparr> dk_clients := dk_clients db' \<rparr>)"

lemma only_clients_update [simp]: "only_clients db (update_clients p f db)" "only_clients db db"
  by (simp_all add: only_clients_def update_clients_def)

lemma only_clientsD:
  "only_clients db db' \<Longrightarrow> dk_contacts db' = dk_contacts db \<and> dk_base db' = dk_base db \<and> dk_policies db' = dk_policies db"
  unfolding only_clients_def by (metis desk.ext_inject desk.surjective desk.update_convs(3))

lemma write_column_keeps [simp]:
  "cl_id (write_column k v c) = cl_id c" "cl_tenantId (write_column k v c) = cl_tenantId c"
  "cl_approvalStatus (write_column k v c) = cl_approvalStatus c" "cl_deletedAt (write_column k v c) = cl_deletedAt c"
  by (simp_all add: write_column_def)

lemma write_columns_keep [simp]:
  "cl_id (fold (\<lambda>(k, v). write_column k v) cs c) = cl_id c"
  "cl_tenantId (fold (\<lambda>(k, v). write_column k v) cs c) = cl_tenantId c"
  "cl_approvalStatus (fold (\<lambda>(k, v). write_column k v) cs c) = cl_approvalStatus c"
  "cl_deletedAt (fold (\<lambda>(k, v). write_column k v) cs c) = cl_deletedAt c"
  by (induction cs arbitrary: c) auto

definition row_of_changes :: "string \<Rightarrow> (string \<times> json) list \<Rightarrow> client \<Rightarrow> client" where
  "row_of_changes by cs c = (fold (\<lambda>(k, v). write_column k v) cs c)\<lparr> cl_modifiedBy := Some by \<rparr>"

lemma updateClient_Inr:
  assumes "updateClient i dto t by user db = ok (v, db')"
  obtains existing where "live_client i t db = Some existing" and "db' = db"
  | existing where "live_client i t db = Some existing"
    and "db' = update_clients (\<lambda>d. cl_id d = i) (row_of_changes by (column_changes dto)) db"
    and "\<forall>d \<in> set (dk_clients db). cl_id d \<noteq> i \<longrightarrow> cl_tenantId d = t \<longrightarrow>
      cl_clientCode (row_of_changes by (column_changes dto) existing) = None \<or>
      cl_clientCode d \<noteq> cl_clientCode (row_of_changes by (column_changes dto) existing)"
proof -
  obtain existing where e: "live_client i t db = Some existing"
    using assms by (auto simp: updateClient_def and_then_eq_Inr split: option.splits)
  have t: "cl_tenantId existing = t" using live_client_Some [OF e] by simp
  have w: "(if column_changes dto = [] then ok db else write_client i by (column_changes dto) existing db) = ok db'"
    using assms by (auto simp: updateClient_def e and_then_eq_Inr)
  show thesis
  proof (cases "column_changes dto = []")
    case True
    then show thesis using w that(1) [OF e] by simp
  next
    case False
    then have "write_client i by (column_changes dto) existing db = ok db'" using w by simp
    then show thesis
      using t by (intro that(2) [OF e])
        (auto simp: write_client_def row_of_changes_def [abs_def] Let_def list_ex_iff split: if_splits)
  qed
qed

text \<open>Approving, rejecting, deleting and restoring write columns that identify nothing.\<close>

lemma plain_change:
  assumes "approveClient now i t by db = ok (v, db') \<or> rejectClient now i t by reason db = ok (v, db') \<or>
    deleteClient now i t m db = ok db' \<or> restoreClient i t m db = ok (v, db')"
  obtains f where "db' = update_clients (\<lambda>d. cl_id d = i) f db" and "same_identity f"
    and "\<And>c. cl_clientCode (f c) = cl_clientCode c"
  using assms
  by (auto simp: approveClient_def rejectClient_def deleteClient_def restoreClient_def and_then_eq_Inr Let_def same_identity_def
      split: option.splits)

lemma contact_steps_leave_clients:
  "contacts_post phones newId now i cd user db = (r, db') \<Longrightarrow> dk_clients db' = dk_clients db"
  "contacts_patch i g user db = (r', db') \<Longrightarrow> dk_clients db' = dk_clients db"
  "contacts_delete i user db = ok (m, db') \<Longrightarrow> dk_clients db' = dk_clients db"
  "clients_policy_patch pol user db = ok (p, db') \<Longrightarrow> dk_clients db' = dk_clients db"
  by (auto simp: contacts_post_def contacts_create_def unset_primary_def desk_updates Let_def split: sum.splits if_splits)
    (auto simp: contacts_patch_def contacts_update_def contacts_delete_def contacts_remove_def unset_primary_def
      clients_policy_patch_def setVisibilityPolicy_def desk_updates Let_def and_then_eq_Inr split: if_splits option.splits)

definition is_approved :: "uuid \<Rightarrow> desk \<Rightarrow> bool" where
  "is_approved i db = list_ex (\<lambda>c. cl_id c = i \<and> cl_approvalStatus c = Some ''APPROVED'') (dk_clients db)"

definition approval_keys :: "string list" where
  "approval_keys = [''client:direct_add'', ''client:approve'', ''tenant:settings'', ''tenant:manage'']"

lemma context_direct:
  "resolveClientCreationContext t actor b st = ok cx \<Longrightarrow> cx_canDirectAdd cx = includes_any (a_permissions actor) approval_keys"
  by (auto simp: resolveClientCreationContext_def and_then_eq_Inr Let_def approval_keys_def simp del: includes_any_simps
      split: option.splits if_split_asm)

lemma not_newly_approved:
  assumes "\<And>c. cl_id (f c) = cl_id c" and "\<And>c. cl_approvalStatus (f c) = Some ''APPROVED'' \<Longrightarrow> cl_approvalStatus c = Some ''APPROVED''"
    and "is_approved i (update_clients p f db)"
  shows "is_approved i db"
  using assms(3) by (fastforce simp: is_approved_def update_clients_def list_ex_iff in_update_where assms(1) dest: assms(2) split: if_splits)

lemma created_approved:
  assumes "createClient phones newId now body t actor db = ok (v, db')" and "is_approved i db'" and "\<not> is_approved i db"
  shows "includes_any (a_permissions actor) approval_keys"
proof -
  obtain dto cx c where ck: "creation_checks phones dto t actor (dk_base db) = ok cx"
    and tr: "creation_transaction phones newId now dto t (or_empty (a_dbId actor)) cx db = ok (c, db')"
    by (rule createClient_Inr [OF assms(1)]) (rule that; assumption)
  have cx: "cx_canDirectAdd cx = includes_any (a_permissions actor) approval_keys"
    using ck context_direct unfolding creation_checks_def
    by (auto simp: and_then_eq_Inr split: if_splits list.splits)
  obtain name where r: "createClientRecord phones newId now dto name t (or_empty (a_dbId actor)) cx db = ok (c, db')"
    using tr assms(2,3) by (auto simp: creation_transaction_def Let_def split: option.splits if_splits)
  have "cl_approvalStatus c = Some ''APPROVED''"
    using assms(2,3) creation_leaves(2) [OF r] by (auto simp: is_approved_def)
  with r show ?thesis
    by (rule_tac createClientRecord_Inr [OF r]) (auto simp: new_client_def cx Let_def split: if_splits)
qed


lemma sample_creation:
  obtains v db' where "clients_post None sample_phones ''k'' 5 (Some sample_request)
      (sample_desk_user [''client:create'', ''client:direct_add'']) None sample_desk = ok (v, db')"
    and "is_approved (sample_uuid (CHR ''2'')) db'" and "length (dk_contacts db') = 1"
proof -
  have "case clients_post None sample_phones ''k'' 5 (Some sample_request)
      (sample_desk_user [''client:create'', ''client:direct_add'']) None sample_desk of
        Inr (v, db') \<Rightarrow> is_approved (sample_uuid (CHR ''2'')) db' \<and> length (dk_contacts db') = 1 | Inl _ \<Rightarrow> False" by code_simp
  then show thesis by (auto split: sum.splits prod.splits intro: that)
qed


end
