(* ===== verification/ClientInvariant.thy ===== *)
theory ClientInvariant
  imports ClientGuarantees
begin

text \<open>
  The tables of clients and contacts stay well formed under every request: identifiers and codes of clients are
  unique, every contact belongs to a client of its workspace, and a client has at most one primary contact.
\<close>

section \<open>Well-formed tables\<close>

text \<open>Identifiers and codes are unique, every contact belongs to a client of its workspace, and a client has at most
  one primary contact.\<close>

definition client_rows_ok :: "desk \<Rightarrow> bool" where
  "client_rows_ok db = (distinct (map cl_id (dk_clients db)) \<and>
     (\<forall>c \<in> set (dk_clients db). \<forall>d \<in> set (dk_clients db). cl_tenantId c = cl_tenantId d \<longrightarrow> cl_clientCode c = cl_clientCode d \<longrightarrow>
        cl_clientCode c = None \<or> cl_id c = cl_id d))"

definition one_primary :: "contact list \<Rightarrow> bool" where
  "one_primary ks = (\<forall>k \<in> set ks. \<forall>m \<in> set ks. ct_isPrimary k \<longrightarrow> ct_isPrimary m \<longrightarrow> ct_clientId k = ct_clientId m \<longrightarrow> ct_id k = ct_id m)"

definition contact_rows_ok :: "desk \<Rightarrow> bool" where
  "contact_rows_ok db = (distinct (map ct_id (dk_contacts db)) \<and>
     (\<forall>k \<in> set (dk_contacts db). \<exists>c \<in> set (dk_clients db). cl_id c = ct_clientId k \<and> cl_tenantId c = ct_tenantId k) \<and>
     one_primary (dk_contacts db))"

definition clients_ok :: "desk \<Rightarrow> bool" where
  "clients_ok db = (client_rows_ok db \<and> contact_rows_ok db)"

lemma same_ids: "same_identity f \<Longrightarrow> map cl_id (update_where p f cs) = map cl_id cs"
  by (rule map_update_where) (simp add: same_identity_def)

lemma client_rows_update:
  assumes ok: "client_rows_ok db" and f: "same_identity f" and e: "existing \<in> set (dk_clients db)" "cl_id existing = i"
    and code: "\<forall>d \<in> set (dk_clients db). cl_id d \<noteq> i \<longrightarrow> cl_tenantId d = cl_tenantId existing \<longrightarrow>
      cl_clientCode (f existing) = None \<or> cl_clientCode d \<noteq> cl_clientCode (f existing)"
  shows "client_rows_ok (update_clients (\<lambda>d. cl_id d = i) f db)"
proof -
  have inj: "\<And>c. c \<in> set (dk_clients db) \<Longrightarrow> cl_id c = i \<Longrightarrow> c = existing"
    using ok e by (auto simp: client_rows_ok_def distinct_map dest: inj_onD)
  have ident: "\<And>c. cl_id (f c) = cl_id c" "\<And>c. cl_tenantId (f c) = cl_tenantId c" using f by (auto simp: same_identity_def)
  have "cl_clientCode c = None \<or> cl_id c = cl_id d"
    if c: "c \<in> set (update_where (\<lambda>d. cl_id d = i) f (dk_clients db))" and d: "d \<in> set (update_where (\<lambda>d. cl_id d = i) f (dk_clients db))"
      and same: "cl_tenantId c = cl_tenantId d" "cl_clientCode c = cl_clientCode d" for c d
  proof -
    obtain c0 where c0: "c0 \<in> set (dk_clients db)" "c = (if cl_id c0 = i then f c0 else c0)" using c by (auto simp: in_update_where)
    obtain d0 where d0: "d0 \<in> set (dk_clients db)" "d = (if cl_id d0 = i then f d0 else d0)" using d by (auto simp: in_update_where)
    have old: "cl_tenantId c0 = cl_tenantId d0 \<longrightarrow> cl_clientCode c0 = cl_clientCode d0 \<longrightarrow> cl_clientCode c0 = None \<or> cl_id c0 = cl_id d0"
      using ok c0(1) d0(1) unfolding client_rows_ok_def by blast
    show ?thesis
    proof (cases "cl_id c0 = i"; cases "cl_id d0 = i")
      assume "cl_id c0 = i" "cl_id d0 = i"
      then show ?thesis using c0 d0 ident by simp
    next
      assume a: "cl_id c0 = i" "cl_id d0 \<noteq> i"
      then have "c0 = existing" using inj c0(1) by blast
      then show ?thesis using a c0(2) d0 same ident code by auto
    next
      assume a: "cl_id c0 \<noteq> i" "cl_id d0 = i"
      then have "d0 = existing" using inj d0(1) by blast
      then show ?thesis using a c0 d0(2) same ident code by auto
    next
      assume "cl_id c0 \<noteq> i" "cl_id d0 \<noteq> i"
      then show ?thesis using c0(2) d0(2) same old by simp
    qed
  qed
  then show ?thesis
    using ok f by (simp add: client_rows_ok_def update_clients_def same_ids)
qed

lemma contact_rows_update:
  assumes "contact_rows_ok db" and "same_identity f"
  shows "contact_rows_ok (update_clients p f db)"
proof -
  have "\<exists>c \<in> set (update_where p f (dk_clients db)). cl_id c = ct_clientId k \<and> cl_tenantId c = ct_tenantId k"
    if "k \<in> set (dk_contacts db)" for k
  proof -
    obtain c where "c \<in> set (dk_clients db)" "cl_id c = ct_clientId k" "cl_tenantId c = ct_tenantId k"
      using assms(1) \<open>k \<in> set (dk_contacts db)\<close> unfolding contact_rows_ok_def by blast
    then show ?thesis
      using assms(2) by (intro bexI [of _ "if p c then f c else c"]) (auto simp: same_identity_def in_update_where)
  qed
  then show ?thesis using assms(1) by (simp add: contact_rows_ok_def update_clients_def)
qed

lemma clients_ok_update:
  assumes "clients_ok db" and "same_identity f" and "existing \<in> set (dk_clients db)" "cl_id existing = i"
    and "\<forall>d \<in> set (dk_clients db). cl_id d \<noteq> i \<longrightarrow> cl_tenantId d = cl_tenantId existing \<longrightarrow>
      cl_clientCode (f existing) = None \<or> cl_clientCode d \<noteq> cl_clientCode (f existing)"
  shows "clients_ok (update_clients (\<lambda>d. cl_id d = i) f db)"
  unfolding clients_ok_def
  using client_rows_update [OF _ assms(2-5)] contact_rows_update [OF _ assms(2)] assms(1) by (simp add: clients_ok_def)

lemma one_primary_simps:
  "one_primary (ks @ [k]) \<longleftrightarrow> one_primary ks \<and>
    (ct_isPrimary k \<longrightarrow> (\<forall>m \<in> set ks. ct_isPrimary m \<longrightarrow> ct_clientId m = ct_clientId k \<longrightarrow> ct_id m = ct_id k))"
  unfolding one_primary_def by (auto simp: ball_Un)

lemma client_rows_add:
  assumes "client_rows_ok db" and "cl_id c \<notin> cl_id ` set (dk_clients db)"
    and "\<forall>d \<in> set (dk_clients db). \<not> (cl_tenantId d = cl_tenantId c \<and> cl_clientCode d = cl_clientCode c)"
    and "dk_clients db' = dk_clients db @ [c]"
  shows "client_rows_ok db'"
  unfolding client_rows_ok_def assms(4)
proof (intro conjI ballI impI)
  show "distinct (map cl_id (dk_clients db @ [c]))" using assms(1,2) by (simp add: client_rows_ok_def)
  fix a b
  assume "a \<in> set (dk_clients db @ [c])" "b \<in> set (dk_clients db @ [c])"
    and same: "cl_tenantId a = cl_tenantId b" "cl_clientCode a = cl_clientCode b"
  then consider "a \<in> set (dk_clients db)" "b \<in> set (dk_clients db)" | "a = b"
    | "a = c" "b \<in> set (dk_clients db)" | "b = c" "a \<in> set (dk_clients db)" by auto
  then show "cl_clientCode a = None \<or> cl_id a = cl_id b"
  proof cases
    case 1
    then show ?thesis using assms(1) same unfolding client_rows_ok_def by blast
  next
    case 3
    then show ?thesis using assms(3) same by metis
  next
    case 4
    then show ?thesis using assms(3) same by metis
  qed simp
qed

lemma contact_rows_add:
  assumes ok: "contact_rows_ok db" and new: "ct_id k \<notin> ct_id ` set (dk_contacts db)"
    and of_client: "\<exists>c \<in> set (dk_clients db'). cl_id c = ct_clientId k \<and> cl_tenantId c = ct_tenantId k"
    and others: "set (dk_clients db) \<subseteq> set (dk_clients db')"
    and mark: "ct_isPrimary k \<longrightarrow> (\<forall>m \<in> set (dk_contacts db). ct_isPrimary m \<longrightarrow> ct_clientId m \<noteq> ct_clientId k)"
    and db': "dk_contacts db' = dk_contacts db @ [k]"
  shows "contact_rows_ok db'"
  unfolding contact_rows_ok_def db'
proof (intro conjI ballI)
  show "distinct (map ct_id (dk_contacts db @ [k]))" using ok new by (simp add: contact_rows_ok_def)
  show "one_primary (dk_contacts db @ [k])" using ok mark by (auto simp: contact_rows_ok_def one_primary_simps)
  fix m
  assume "m \<in> set (dk_contacts db @ [k])"
  then consider "m \<in> set (dk_contacts db)" | "m = k" by auto
  then show "\<exists>c \<in> set (dk_clients db'). cl_id c = ct_clientId m \<and> cl_tenantId c = ct_tenantId m"
  proof cases
    case 1
    then show ?thesis using ok others unfolding contact_rows_ok_def by blast
  next
    case 2
    then show ?thesis using of_client by simp
  qed
qed

lemma contact_rows_same:
  "contact_rows_ok db \<Longrightarrow> set (dk_clients db) \<subseteq> set (dk_clients db') \<Longrightarrow> dk_contacts db' = dk_contacts db \<Longrightarrow> contact_rows_ok db'"
  unfolding contact_rows_ok_def by (simp, blast)

lemma created_keeps:
  assumes ok: "clients_ok db" and r: "createClientRecord phones newId now dto name t by cx db = ok (c, db')"
    and new: "newId \<notin> ct_id ` set (dk_contacts db)"
  shows "clients_ok db'"
proof -
  obtain creator n counted where n: "next_count t db = (n, counted)"
    and fresh: "\<forall>d \<in> set (dk_clients db). cl_id d \<noteq> cl_id c \<and> \<not> (cl_tenantId d = t \<and> cl_clientCode d = cl_clientCode c)"
    and db': "db' = (case contact_of dto of
        Some (JObj entries) \<Rightarrow> insert_contact (first_contact phones newId now entries c) (counted\<lparr> dk_clients := dk_clients db @ [c] \<rparr>)
      | _ \<Rightarrow> counted\<lparr> dk_clients := dk_clients db @ [c] \<rparr>)"
    by (rule createClientRecord_Inr [OF r]) (rule that; assumption)
  note leaves = creation_leaves [OF r]
  have rows: "client_rows_ok db'"
    by (rule client_rows_add [of db c]) (use ok fresh leaves in \<open>auto simp: clients_ok_def\<close>)
  have old: "contact_rows_ok db" using ok by (simp add: clients_ok_def)
  have none: "\<forall>m \<in> set (dk_contacts db). ct_clientId m \<noteq> cl_id c"
    using old fresh unfolding contact_rows_ok_def by metis
  have "dk_contacts db' = dk_contacts db \<or>
      (\<exists>k. dk_contacts db' = dk_contacts db @ [k] \<and> ct_id k = newId \<and> ct_clientId k = cl_id c \<and> ct_tenantId k = cl_tenantId c)"
    using next_count_keeps [OF n] by (auto simp: db' first_contact_def Let_def split: option.splits json.splits)
  then consider "dk_contacts db' = dk_contacts db"
    | k where "dk_contacts db' = dk_contacts db @ [k]" "ct_id k = newId" "ct_clientId k = cl_id c" "ct_tenantId k = cl_tenantId c"
    by blast
  then have "contact_rows_ok db'"
  proof cases
    case 1
    show ?thesis by (rule contact_rows_same [OF old _ 1]) (simp add: leaves(2) subset_insertI)
  next
    case 2
    show ?thesis by (rule contact_rows_add [OF old _ _ _ _ 2(1)]) (use new none 2 in \<open>simp_all add: leaves(2) subset_insertI\<close>)
  qed
  with rows show ?thesis by (simp add: clients_ok_def)
qed

text \<open>A change of contacts that keeps their identifiers and clients.\<close>

definition contact_identity :: "(contact \<Rightarrow> contact) \<Rightarrow> bool" where
  "contact_identity f = (\<forall>k. ct_id (f k) = ct_id k \<and> ct_clientId (f k) = ct_clientId k \<and> ct_tenantId (f k) = ct_tenantId k)"

lemma contact_ids: "contact_identity f \<Longrightarrow> map ct_id (update_where p f ks) = map ct_id ks"
  by (rule map_update_where) (simp add: contact_identity_def)

lemma contact_rows_change:
  assumes ok: "contact_rows_ok db" and f: "contact_identity f" and o: "one_primary (update_where p f (dk_contacts db))"
  shows "contact_rows_ok (update_contacts p f db)"
  unfolding contact_rows_ok_def update_contacts_def
proof (intro conjI ballI)
  show "distinct (map ct_id (dk_contacts (db\<lparr> dk_contacts := update_where p f (dk_contacts db) \<rparr>)))"
    using ok f by (simp add: contact_rows_ok_def contact_ids)
  show "one_primary (dk_contacts (db\<lparr> dk_contacts := update_where p f (dk_contacts db) \<rparr>))" using o by simp
  fix k
  assume "k \<in> set (dk_contacts (db\<lparr> dk_contacts := update_where p f (dk_contacts db) \<rparr>))"
  then obtain m where m: "m \<in> set (dk_contacts db)" "k = (if p m then f m else m)" by (auto simp: in_update_where)
  obtain c where "c \<in> set (dk_clients db)" "cl_id c = ct_clientId m \<and> cl_tenantId c = ct_tenantId m"
    using ok m(1) unfolding contact_rows_ok_def by blast
  then show "\<exists>c \<in> set (dk_clients (db\<lparr> dk_contacts := update_where p f (dk_contacts db) \<rparr>)). cl_id c = ct_clientId k \<and> cl_tenantId c = ct_tenantId k"
    using f by (intro bexI [of _ c]) (auto simp: m(2) contact_identity_def)
qed

text \<open>A primary contact after the marks are taken was one before, and its mark was not to be taken.\<close>

lemma still_primary:
  "k \<in> set (dk_contacts (unset_primary p db)) \<Longrightarrow> ct_isPrimary k \<Longrightarrow> k \<in> set (dk_contacts db) \<and> \<not> p k"
  unfolding unset_primary_def update_contacts_def by (simp add: in_update_where) (elim bexE, simp split: if_splits)

lemma unset_keeps:
  assumes "contact_rows_ok db"
  shows "contact_rows_ok (unset_primary p db)"
proof -
  have "one_primary (dk_contacts (unset_primary p db))"
    using assms still_primary [of _ p db] unfolding contact_rows_ok_def one_primary_def by blast
  then show ?thesis
    using assms unfolding unset_primary_def
    by (intro contact_rows_change) (auto simp: contact_identity_def update_contacts_def)
qed

lemma unset_primary_simps [simp]:
  "dk_clients (unset_primary p db) = dk_clients db" "dk_base (unset_primary p db) = dk_base db"
  "map ct_id (dk_contacts (unset_primary p db)) = map ct_id (dk_contacts db)"
  by (auto simp: unset_primary_def update_contacts_def intro: map_update_where)

lemma unset_primary_ids [simp]: "ct_id ` set (dk_contacts (unset_primary p db)) = ct_id ` set (dk_contacts db)"
  unfolding set_map [symmetric] by simp

lemma one_primary_update:
  assumes o: "one_primary ks" and f: "contact_identity f"
    and new: "\<forall>k \<in> set ks. ct_id k = i \<longrightarrow> ct_isPrimary (f k) \<longrightarrow> ct_isPrimary k \<or>
      (\<forall>m \<in> set ks. ct_isPrimary m \<longrightarrow> ct_clientId m = ct_clientId k \<longrightarrow> ct_id m = i)"
  shows "one_primary (update_where (\<lambda>d. ct_id d = i) f ks)"
  unfolding one_primary_def
proof (intro ballI impI)
  have ident: "\<And>k. ct_id (f k) = ct_id k" "\<And>k. ct_clientId (f k) = ct_clientId k" using f by (auto simp: contact_identity_def)
  have same: "ct_id a = ct_id b" if "a \<in> set ks" "b \<in> set ks" "ct_isPrimary a" "ct_isPrimary b" "ct_clientId a = ct_clientId b" for a b
    using o that unfolding one_primary_def by blast
  fix k m
  assume "k \<in> set (update_where (\<lambda>d. ct_id d = i) f ks)" "m \<in> set (update_where (\<lambda>d. ct_id d = i) f ks)"
    and marked: "ct_isPrimary k" "ct_isPrimary m" and eq: "ct_clientId k = ct_clientId m"
  then obtain a b where a: "a \<in> set ks" "k = (if ct_id a = i then f a else a)" and b: "b \<in> set ks" "m = (if ct_id b = i then f b else b)"
    by (auto simp: in_update_where)
  show "ct_id k = ct_id m"
  proof (cases "ct_id a = i"; cases "ct_id b = i")
    assume "ct_id a = i" "ct_id b \<noteq> i"
    then show ?thesis using new a b marked eq ident same [OF a(1) b(1)] by auto
  next
    assume "ct_id a \<noteq> i" "ct_id b = i"
    then show ?thesis using new a b marked eq ident same [OF a(1) b(1)] by auto
  next
    assume "ct_id a \<noteq> i" "ct_id b \<noteq> i"
    then show ?thesis using a(2) b(2) marked eq same [OF a(1) b(1)] by simp
  qed (simp add: a(2) b(2) ident)
qed

lemma tenant_of_contact:
  assumes "clients_ok db" and "m \<in> set (dk_contacts db)" and "c \<in> set (dk_clients db)" and "cl_id c = ct_clientId m"
  shows "ct_tenantId m = cl_tenantId c"
proof -
  obtain d where d: "d \<in> set (dk_clients db)" "cl_id d = ct_clientId m" "cl_tenantId d = ct_tenantId m"
    using assms(1,2) unfolding clients_ok_def contact_rows_ok_def by blast
  have "inj_on cl_id (set (dk_clients db))" using assms(1) by (simp add: clients_ok_def client_rows_ok_def distinct_map)
  then have "d = c" by (rule inj_onD) (simp_all add: d(1,2) assms(3,4))
  then show ?thesis using d(3) by simp
qed

lemma clients_ok_unset: "clients_ok db \<Longrightarrow> clients_ok (unset_primary p db)"
  by (simp add: clients_ok_def unset_keeps) (simp add: client_rows_ok_def)

section \<open>Contacts\<close>

lemma visible_row:
  assumes "clientReadWhere t actor db = ok access" and "find_first (\<lambda>c. access c \<and> cl_id c = i \<and> cl_deletedAt c = None) (dk_clients db) = Some c"
  shows "c \<in> set (dk_clients db) \<and> cl_id c = i \<and> cl_tenantId c = t"
  using find_first_Some [OF assms(2)] clientReadWhere_tenant [OF assms(1), of c] by simp

lemma contact_added_keeps:
  assumes ok: "clients_ok db" and r: "contacts_create phones newId now i t cd actor db = (r, db')"
    and new: "newId \<notin> ct_id ` set (dk_contacts db)"
  shows "clients_ok db'"
proof (cases "contact_checks phones i t cd actor db")
  case (Inl e)
  then show ?thesis using r ok by (simp add: contacts_create_def)
next
  case (Inr u)
  then obtain access c where "clientReadWhere t actor db = ok access"
      and "find_first (\<lambda>c. access c \<and> cl_id c = i \<and> cl_deletedAt c = None) (dk_clients db) = Some c"
    unfolding contact_checks_def and_then_eq_Inr by (auto split: if_split_asm option.split_asm)
  note c = visible_row [OF this]
  let ?p = "\<lambda>c. ct_clientId c = i \<and> ct_tenantId c = t"
  let ?k = "contact_row phones newId now i t (or_empty (a_dbId actor)) cd"
  define cleared where "cleared = (if cd_isPrimary cd = Some True then unset_primary ?p db else db)"
  have cl: "clients_ok cleared" using ok by (simp add: cleared_def clients_ok_unset)
  have kept: "dk_clients cleared = dk_clients db" "ct_id ` set (dk_contacts cleared) = ct_id ` set (dk_contacts db)"
    by (simp_all add: cleared_def)
  have row: "ct_id ?k = newId" "ct_clientId ?k = i" "ct_tenantId ?k = t" "ct_isPrimary ?k = (cd_isPrimary cd = Some True)"
    by (simp_all add: contact_row_def Let_def)
  have mark: "ct_isPrimary ?k \<longrightarrow> (\<forall>m \<in> set (dk_contacts cleared). ct_isPrimary m \<longrightarrow> ct_clientId m \<noteq> ct_clientId ?k)"
  proof (intro impI ballI notI)
    fix m
    assume "ct_isPrimary ?k" and m: "m \<in> set (dk_contacts cleared)" "ct_isPrimary m" "ct_clientId m = ct_clientId ?k"
    then have "m \<in> set (dk_contacts (unset_primary ?p db))" by (simp add: cleared_def row)
    then have "m \<in> set (dk_contacts db)" "\<not> ?p m" using still_primary m(2) by blast+
    moreover from this(1) have "ct_tenantId m = t" using tenant_of_contact [OF ok, of m c] c m(3) row by simp
    ultimately show False using m(3) row by simp
  qed
  have "contact_rows_ok (insert_contact ?k cleared)"
    by (rule contact_rows_add [of cleared]) (use cl kept row new mark c in \<open>auto simp: clients_ok_def\<close>)
  then have "clients_ok (insert_contact ?k cleared)"
    using cl by (simp add: clients_ok_def) (simp add: client_rows_ok_def)
  moreover have "db' = cleared \<or> db' = insert_contact ?k cleared"
    using r Inr by (auto simp: contacts_create_def Let_def cleared_def split: if_splits)
  ultimately show ?thesis using cl by auto
qed

lemma unset_origin:
  "k \<in> set (dk_contacts (unset_primary p db)) \<Longrightarrow>
    \<exists>m \<in> set (dk_contacts db). ct_id m = ct_id k \<and> ct_clientId m = ct_clientId k \<and> ct_tenantId m = ct_tenantId k"
  unfolding unset_primary_def update_contacts_def
  by (simp add: in_update_where) (elim bexE, rule bexI, auto split: if_splits)

lemma contact_changed_keeps:
  assumes ok: "clients_ok db" and r: "contacts_update i t g user db = (r, db')"
  shows "clients_ok db'"
proof (cases "contact_by i t db")
  case None
  then show ?thesis using r ok by (simp add: contacts_update_def)
next
  case (Some c)
  note c = contact_by_Some [OF Some]
  let ?p = "\<lambda>d. ct_clientId d = ct_clientId c \<and> ct_tenantId d = t \<and> ct_id d \<noteq> i"
  define cleared where "cleared = (if cg_isPrimary g = Some True then unset_primary ?p db else db)"
  have cl: "clients_ok cleared" using ok by (simp add: cleared_def clients_ok_unset)
  have f: "contact_identity (changed_contact g)" by (simp add: contact_identity_def changed_contact_def)
  have only: "ct_id m = i" if g: "cg_isPrimary g = Some True" and k: "k \<in> set (dk_contacts cleared)" "ct_id k = i"
      and m: "m \<in> set (dk_contacts cleared)" "ct_isPrimary m" "ct_clientId m = ct_clientId k" for k m
  proof -
    obtain k0 where k0: "k0 \<in> set (dk_contacts db)" "ct_id k0 = i" "ct_clientId k0 = ct_clientId k"
      using unset_origin [of k ?p db] k g by (auto simp: cleared_def)
    have "inj_on ct_id (set (dk_contacts db))" using ok by (simp add: clients_ok_def contact_rows_ok_def distinct_map)
    then have "k0 = c" by (rule inj_onD) (simp_all add: k0 c)
    then have cm: "ct_clientId m = ct_clientId c" using k0 m(3) by simp
    have "m \<in> set (dk_contacts db)" "\<not> ?p m" using still_primary [of m ?p db] m g by (auto simp: cleared_def)
    moreover obtain d where "d \<in> set (dk_clients db)" "cl_id d = ct_clientId c" "cl_tenantId d = ct_tenantId c"
      using ok c unfolding clients_ok_def contact_rows_ok_def by blast
    ultimately show ?thesis using tenant_of_contact [OF ok, of m d] cm c by auto
  qed
  have "one_primary (update_where (\<lambda>d. ct_id d = i) (changed_contact g) (dk_contacts cleared))"
  proof (rule one_primary_update [OF _ f], goal_cases)
    case 1
    then show ?case using cl by (simp add: clients_ok_def contact_rows_ok_def)
  next
    case 2
    then show ?case using only by (cases "cg_isPrimary g") (auto simp: changed_contact_def changed_def)
  qed
  then have "contact_rows_ok (update_contacts (\<lambda>d. ct_id d = i) (changed_contact g) cleared)"
    using cl f by (intro contact_rows_change) (auto simp: clients_ok_def)
  then have "clients_ok (update_contacts (\<lambda>d. ct_id d = i) (changed_contact g) cleared)"
    using cl by (simp add: clients_ok_def) (simp add: client_rows_ok_def update_contacts_def)
  moreover have "db' = db \<or> db' = cleared \<or> db' = update_contacts (\<lambda>d. ct_id d = i) (changed_contact g) cleared"
    using r Some by (auto simp: contacts_update_def Let_def cleared_def split: if_splits)
  ultimately show ?thesis using cl ok by auto
qed

lemma contact_removed_keeps:
  assumes ok: "clients_ok db" and r: "contacts_remove i t user db = ok (m, db')"
  shows "clients_ok db'"
proof -
  have d: "dk_clients db' = dk_clients db" "dk_contacts db' = delete_where (\<lambda>d. ct_id d = i) (dk_contacts db)"
    using r by (auto simp: contacts_remove_def update_jobs_def split: option.splits if_splits)
  have sub: "set (dk_contacts db') \<subseteq> set (dk_contacts db)" by (auto simp: d(2) delete_where_def)
  have "distinct (map ct_id (dk_contacts db'))"
    using ok by (simp add: d(2) clients_ok_def contact_rows_ok_def distinct_map_delete_where)
  moreover have "one_primary (dk_contacts db')"
    using ok sub unfolding clients_ok_def contact_rows_ok_def one_primary_def by blast
  moreover have "\<forall>k \<in> set (dk_contacts db'). \<exists>c \<in> set (dk_clients db'). cl_id c = ct_clientId k \<and> cl_tenantId c = ct_tenantId k"
    using ok sub unfolding clients_ok_def contact_rows_ok_def d(1) by blast
  ultimately have "contact_rows_ok db'" by (simp add: contact_rows_ok_def)
  then show ?thesis using ok by (simp add: clients_ok_def client_rows_ok_def d(1))
qed

section \<open>Every request\<close>

lemma row_of_changes_identity: "same_identity (row_of_changes m cs)"
  by (simp add: same_identity_def row_of_changes_def)

lemma plain_change_row:
  assumes "approveClient now i t by db = ok (v, db') \<or> rejectClient now i t by reason db = ok (v, db') \<or>
    deleteClient now i t m db = ok db' \<or> restoreClient i t m db = ok (v, db')"
  shows "\<exists>existing \<in> set (dk_clients db). cl_id existing = i"
  using assms
  by (auto simp: approveClient_def rejectClient_def deleteClient_def restoreClient_def and_then_eq_Inr Let_def
      split: option.splits dest!: live_client_Some find_first_Some)

lemma plain_change_keeps:
  assumes ok: "clients_ok db" and r: "approveClient now i t by db = ok (v, db') \<or> rejectClient now i t by reason db = ok (v, db') \<or>
    deleteClient now i t m db = ok db' \<or> restoreClient i t m db = ok (v, db')"
  shows "clients_ok db'"
proof -
  obtain f where db': "db' = update_clients (\<lambda>d. cl_id d = i) f db" and f: "same_identity f"
    and code: "\<And>c. cl_clientCode (f c) = cl_clientCode c"
    by (rule plain_change [OF r]) (rule that; assumption)
  obtain existing where e: "existing \<in> set (dk_clients db)" "cl_id existing = i" using plain_change_row [OF r] by blast
  have "\<forall>d \<in> set (dk_clients db). cl_id d \<noteq> i \<longrightarrow> cl_tenantId d = cl_tenantId existing \<longrightarrow>
      cl_clientCode (f existing) = None \<or> cl_clientCode d \<noteq> cl_clientCode (f existing)"
    using ok e unfolding clients_ok_def client_rows_ok_def code by metis
  then show ?thesis unfolding db' by (rule clients_ok_update [OF ok f e])
qed

lemma updated_keeps:
  assumes ok: "clients_ok db" and r: "updateClient i dto t by user db = ok (v, db')"
  shows "clients_ok db'"
proof (rule updateClient_Inr [OF r])
  fix existing
  assume e: "live_client i t db = Some existing"
    and db': "db' = update_clients (\<lambda>d. cl_id d = i) (row_of_changes by (column_changes dto)) db"
    and code: "\<forall>d \<in> set (dk_clients db). cl_id d \<noteq> i \<longrightarrow> cl_tenantId d = t \<longrightarrow>
      cl_clientCode (row_of_changes by (column_changes dto) existing) = None \<or>
      cl_clientCode d \<noteq> cl_clientCode (row_of_changes by (column_changes dto) existing)"
  show ?thesis
    unfolding db' by (rule clients_ok_update [OF ok row_of_changes_identity]) (use live_client_Some [OF e] code in auto)
qed (use ok in simp)

lemma client_step_keeps:
  assumes "client_step user db db'" and ok: "clients_ok db"
  shows "clients_ok db'"
  using assms(1)
proof (cases rule: client_step.cases)
  case (created env phones newId now body h v)
  then obtain t where "createClient phones newId now body t user db = ok (v, db')"
    by (auto simp: clients_post_def and_then_eq_Inr)
  then obtain dto cx c where "creation_transaction phones newId now dto t (or_empty (a_dbId user)) cx db = ok (c, db')"
    by (rule createClient_Inr) (rule that; assumption)
  then consider "db' = db" | name where "createClientRecord phones newId now dto name t (or_empty (a_dbId user)) cx db = ok (c, db')"
    by (auto simp: creation_transaction_def Let_def split: option.splits if_splits)
  then show ?thesis using created_keeps [OF ok _ created(2)] ok by cases auto
next
  case (approved env now i h v)
  then show ?thesis
    using plain_change_keeps [OF ok] by (fastforce simp: clients_approve_def protected_result_def and_then_eq_Inr split: if_splits)
next
  case (rejected env now i reason h v)
  then show ?thesis
    using plain_change_keeps [OF ok] by (fastforce simp: clients_reject_def protected_result_def and_then_eq_Inr split: if_splits)
next
  case (changed env i dto h v)
  then show ?thesis
    using updated_keeps [OF ok] by (fastforce simp: clients_patch_def protected_result_def and_then_eq_Inr)
next
  case (deleted env now i h)
  then show ?thesis
    using plain_change_keeps [OF ok] by (fastforce simp: clients_delete_def and_then_eq_Inr split: if_splits)
next
  case (restored env i h v)
  then show ?thesis
    using plain_change_keeps [OF ok] by (fastforce simp: clients_restore_def protected_result_def and_then_eq_Inr)
next
  case (contact_added phones newId now i cd r)
  then show ?thesis using contact_added_keeps [OF ok] by (simp add: contacts_post_def)
next
  case (contact_changed i g r)
  then show ?thesis using contact_changed_keeps [OF ok] by (simp add: contacts_patch_def)
next
  case (contact_removed i m)
  then show ?thesis using contact_removed_keeps [OF ok] by (simp add: contacts_delete_def)
next
  case (settings pol p)
  then have "dk_clients db' = dk_clients db" "dk_contacts db' = dk_contacts db"
    by (auto simp: clients_policy_patch_def setVisibilityPolicy_def audit_def Let_def and_then_eq_Inr split: if_splits option.splits)
  then show ?thesis using ok by (simp add: clients_ok_def client_rows_ok_def contact_rows_ok_def)
qed

text \<open>What requests can make of tables.\<close>

inductive clients_reachable :: "desk \<Rightarrow> desk \<Rightarrow> bool" where
  reached_start: "clients_reachable db db"
| reached_step: "clients_reachable db db' \<Longrightarrow> client_step user db' db'' \<Longrightarrow> clients_reachable db db''"



section \<open>Where the service falls short\<close>

text \<open>The code of a client can be set to the next one of the counter; from then on every creation fails, because the
  failed transaction takes the counter back (\<^verbatim>\<open>clients.service.ts\<close>, lines 217 to 237).\<close>

lemma taken_code_blocks_creations:
  assumes "next_count t db = (n, counted)" and "d \<in> set (dk_clients db)" and "cl_tenantId d = t"
    and "cl_clientCode d = Some (client_code (code_prefix (tenant_by t (dk_base db))) n)"
  shows "\<not> succeeds (createClientRecord phones newId now dto name t by cx db)"
proof
  assume "succeeds (createClientRecord phones newId now dto name t by cx db)"
  then obtain c db' where r: "createClientRecord phones newId now dto name t by cx db = ok (c, db')"
    unfolding succeeds_iff split_paired_Ex by (elim exE)
  show False
    by (rule createClientRecord_Inr [OF r]) (use assms in \<open>auto simp: new_client_def Let_def\<close>)
qed

text \<open>The identifier of a client is not recognised where its approval is asked for (line 643).\<close>

lemma identifier_not_recognised: "is_short_uuid s \<Longrightarrow> \<not> is_uuid s"
  by (simp add: is_short_uuid_def is_uuid_def)

lemma approved_by_id_not_found:
  "as_approved (isClientApproved (sample_uuid (CHR ''c'')) ''t''
     (sample_desk\<lparr> dk_clients := [mk_client (sample_uuid (CHR ''c'')) ''t'' ''Acme'' None None] \<rparr>)) = False"
  by code_simp

text \<open>The branch is compared for one spelling of the field and written for the other (lines 526 to 529).\<close>

lemma branch_moved_by_two_fields:
  "case clients_patch None ''c'' [(''branch_id'', JStr (sample_uuid (CHR ''b''))), (''branchId'', JNull)] (sample_desk_user [''client:edit_all'']) None
      (sample_desk\<lparr> dk_clients := [mk_client ''c'' ''t'' ''Acme'' (Some (sample_uuid (CHR ''b''))) None] \<rparr>) of
    Inr (_, db') \<Rightarrow> map cl_branchId (dk_clients db') = [None] | Inl _ \<Rightarrow> False"
  by code_simp

text \<open>Restoring asks for no permission (\<^verbatim>\<open>clients.controller.ts\<close>, line 99).\<close>

lemma restoring_needs_no_permission:
  "case clients_restore None ''c'' (sample_desk_user []) None
      (sample_desk\<lparr> dk_clients := [(mk_client ''c'' ''t'' ''Acme'' None None)\<lparr> cl_deletedAt := Some 1 \<rparr>] \<rparr>) of
    Inr (_, db') \<Rightarrow> map cl_deletedAt (dk_clients db') = [None] | Inl _ \<Rightarrow> False"
  by code_simp

end
