(* ===== verification/Spec2Isabelle.thy ===== *)
theory Spec2Isabelle
  imports Prelude Access Store Scoping JobPolicy Workspace Pods PodMembership PodGuarantees
    Tracker TrackerWrite TrackerSafety SubmissionInput SubmissionAmounts Submissions SubmissionSafety
    SubmissionGuarantees Remarks Offices MarketSegments BusinessUnits Branches OfficeInvariant OfficeGuarantees
    OfficeStaff RoleAdmin RoleAssign RoleSeeding RoleInvariant RoleGuarantees RoleLifecycle
    Tenants SignIn TenantGuarantees Desk Clients ClientRecords ClientService ClientContacts ClientGuarantees
    ClientInvariant
begin

text \<open>
  A model of the applicant-tracking backend (\<^verbatim>\<open>src/src\<close>, a NestJS service over PostgreSQL through
  Prisma) and the theorems that make it correct.

  The program.  A tenant (workspace) has branches, branches have business units, units have pods of
  recruiters.  Members hold roles, roles hold permissions.  Jobs belong to a unit and are handed to
  pods and recruiters; recruiters submit candidates to jobs; a submission then goes through an
  internal review, up to three interview rounds and an outcome, edited by several people at a time.
  Every request carries an actor and is confined to the actor's workspace and office.

  The theories.
  \<^item> \<open>Prelude\<close>: the result type of the services (an HTTP error or a value), JSON values, strings,
    finite searches in lists, and the updates of tables.
  \<^item> \<open>Access\<close> (\<^verbatim>\<open>auth/user-management-policy.ts\<close>, \<^verbatim>\<open>auth/utils/admin-role-assignment-policy.ts\<close>,
    \<^verbatim>\<open>role-request-policy.ts\<close>, \<^verbatim>\<open>unit-pending-request.ts\<close>, \<^verbatim>\<open>user-management-access.ts\<close>): whom an actor may
    manage and which roles may be assigned or granted.
  \<^item> \<open>Store\<close> (\<^verbatim>\<open>prisma/schema.prisma\<close>): the tables, with the columns the modelled services use.
  \<^item> \<open>Scoping\<close> (\<^verbatim>\<open>auth/utils/tenant-resolver.ts\<close>, \<^verbatim>\<open>branch-resolver.ts\<close>, the guards, the permission
    catalogue, \<^verbatim>\<open>user-management/management-policy.ts\<close>): which workspace and office a request is in.
  \<^item> \<open>JobPolicy\<close> (\<^verbatim>\<open>jobs/job-action-policy.ts\<close>, \<^verbatim>\<open>recruiter-submissions/submission-capabilities.ts\<close>,
    \<^verbatim>\<open>submission-auto-approval.ts\<close>, pod strategies): what an actor may do with a job or a submission.
  \<^item> \<open>Workspace\<close> (\<^verbatim>\<open>auth/workspace-features.ts\<close>, \<^verbatim>\<open>active-role.ts\<close>, \<^verbatim>\<open>jobs/automatic-pod.ts\<close>,
    \<^verbatim>\<open>job-submission-access.ts\<close>): feature flags, the active role, round-robin allocation, submission access.
  \<^item> \<open>Pods\<close>, \<open>PodMembership\<close>, \<open>PodGuarantees\<close> (\<^verbatim>\<open>pods/\<close>): the pods service and its endpoints, the
    invariant of membership and leadership, and the properties of each operation.
  \<^item> \<open>Tracker\<close>, \<open>TrackerWrite\<close> (\<^verbatim>\<open>recruiter-submissions/round-update.ts\<close>, \<^verbatim>\<open>validate-tracker-update.ts\<close>,
    \<^verbatim>\<open>submission-history.ts\<close>, and the body of \<^verbatim>\<open>update\<close>): the rules of an update of a submission and the
    row it writes; \<open>TrackerSafety\<close> proves what every accepted update keeps.
  \<^item> \<open>SubmissionInput\<close>, \<open>SubmissionAmounts\<close> (\<^verbatim>\<open>submission-compensation.ts\<close>, \<^verbatim>\<open>verified-candidate.ts\<close>,
    \<^verbatim>\<open>candidates/linkedin-profile.ts\<close>): the input of a new submission, and amounts as decimal text.
  \<^item> \<open>Submissions\<close>, \<open>SubmissionSafety\<close>, \<open>SubmissionGuarantees\<close>, \<open>Remarks\<close>
    (\<^verbatim>\<open>recruiter-submissions.service.ts\<close>): who sees a submission, creating, updating and deleting it, its
    history and remark templates, as steps of a concurrent system with an invariant.

  \<^item> \<open>Offices\<close>, \<open>MarketSegments\<close>, \<open>BusinessUnits\<close>, \<open>Branches\<close> (\<^verbatim>\<open>market-segments/\<close>, \<^verbatim>\<open>business-units/business-units.*\<close>,
    \<^verbatim>\<open>branches/\<close>): the services of the offices of a workspace and their endpoints; \<open>OfficeInvariant\<close> proves that
    each operation keeps the tables well formed, \<open>OfficeGuarantees\<close> and \<open>OfficeStaff\<close> draw the properties from it.

  \<^item> \<open>RoleAdmin\<close>, \<open>RoleAssign\<close>, \<open>RoleSeeding\<close> (\<^verbatim>\<open>auth/services/auth-rbac.service.ts\<close>, \<^verbatim>\<open>pod-lead-role-policy.ts\<close> and
    the \<^verbatim>\<open>rbac\<close> endpoints of \<^verbatim>\<open>auth/auth.controller.ts\<close>): custom roles under the ceiling of their archetype, their
    assignment within the plan's seats, their removal, and the system roles of a tenant; \<open>RoleInvariant\<close> proves
    what every operation keeps of the roles, \<open>RoleGuarantees\<close> and \<open>RoleLifecycle\<close> draw the properties from it.

  \<^item> \<open>Tenants\<close>, \<open>SignIn\<close>, \<open>TenantGuarantees\<close> (\<^verbatim>\<open>auth/services/auth-tenant.service.ts\<close>, \<^verbatim>\<open>auth/sign-in-policy.ts\<close> and
    their endpoints): the life of a tenant, from its registration through approval, capacity and domain names to the
    sign-in policy and the settings of its workspace.

  \<^item> \<open>Desk\<close> (\<^verbatim>\<open>prisma/schema.prisma\<close>): the tables of clients, contacts and job files.  \<open>Clients\<close>, \<open>ClientRecords\<close>,
    \<open>ClientService\<close>, \<open>ClientContacts\<close> (\<^verbatim>\<open>clients/\<close>, \<^verbatim>\<open>client-contacts/\<close>): who sees a client and its contacts, creation in
    one transaction behind a request identifier, approval, changes and the contacts of a client; \<open>ClientGuarantees\<close>
    and \<open>ClientInvariant\<close> read every request as a step and prove confinement, idempotence, authority and an invariant.

  How the code is read.  A service method is a function from its arguments and the tables to a
  result: an error with its message, or the value and the new tables.  A Prisma transaction is one
  step; what a method reads before its transaction is a value it carries into it, so other steps may
  run in between (\<open>plan_update\<close> and \<open>commit_update\<close>).  A \<^verbatim>\<open>dto\<close> of an update is the list of its fields, so
  that an absent field differs from a \<^verbatim>\<open>null\<close> one.  A row the code would spread or \<^verbatim>\<open>select\<close> is a record of
  the columns it uses.  Strings are compared after ASCII case folding where the code does so.

  Parameters.  The clock, \<^verbatim>\<open>new Date\<close>, \<^verbatim>\<open>new URL\<close> and \<^verbatim>\<open>parseFloat\<close> (\<open>env\<close>), the digest of a request, the
  stored permission lists (\<open>parse\<close>), the assessment of a candidate and freshly generated
  identifiers are arguments of the definitions that use them.

  Bounds.  Amounts are integers in hundredths; printing uses ten digits before the point, enough for
  the bound of 9,999,999,999.99 the code enforces.  There is no fuel: the loops of the modelled code
  run over finite lists, except the search for a free prefix code, a partial function that is shown to return.

  Not modelled: listings, dashboards and exports (their meaning is in large SQL queries), mail,
  sockets, storage, Keycloak, HTML sanitising and the scoring of assessments; notifications, except
  where the pods service announces a new lead.  \<open>JobPolicy\<close>'s and \<^verbatim>\<open>Workspace\<close>'s rules are those the jobs
  service calls; the jobs service itself and candidates are planned next.
\<close>

end
